(* ===== verification/Prelude.thy ===== *)
theory Prelude
  imports Complex_Main "HOL-Library.AList"
begin

text \<open>
  Shared vocabulary of the development.

  Python dictionaries keep their insertion order, and several operations of the program iterate
  over one, so a dictionary is an association list with distinct keys: \<open>map_of\<close> looks a
  key up, \<open>AList.update\<close> overwrites in place or appends, as \<open>d[k] = v\<close> does.
  Python strings are their UTF-8 byte sequences (\<open>string\<close>); \<open>py_len\<close> counts code points.
  Times and durations that the program computes with are finite and modelled as \<open>rat\<close>;
  floats that arrive from outside are modelled in the theory of Python values.
\<close>

named_theorems rev_simps "rewriting facts of the development"

text \<open>
  Errors are values of a sum type. \<open>raise_if c e k\<close> is \<open>if c: raise e\<close> followed by \<open>k\<close>;
  \<open>bind_err\<close> sequences two fallible computations.
\<close>

definition raise_if :: "bool \<Rightarrow> 'e \<Rightarrow> ('e + 'a) \<Rightarrow> 'e + 'a" where
  "raise_if c e k = (if c then Inl e else k)"

fun bind_err :: "('e + 'a) \<Rightarrow> ('a \<Rightarrow> 'e + 'b) \<Rightarrow> 'e + 'b" where
  "bind_err (Inl e) f = Inl e"
| "bind_err (Inr x) f = f x"

lemma raise_if_Inr [simp]: "raise_if c e k = Inr x \<longleftrightarrow> \<not> c \<and> k = Inr x"
  by (simp add: raise_if_def)

lemma raise_if_simps [simp]: "raise_if True e k = Inl e" "raise_if False e k = k"
  by (simp_all add: raise_if_def)

lemma bind_err_Inr [simp]: "bind_err m f = Inr y \<longleftrightarrow> (\<exists>x. m = Inr x \<and> f x = Inr y)"
  by (cases m) auto

lemma bind_err_Inl: "bind_err m f = Inl e \<longleftrightarrow> m = Inl e \<or> (\<exists>x. m = Inr x \<and> f x = Inl e)"
  by (cases m) auto

lemma bind_err_cong [fundef_cong]:
  "m = n \<Longrightarrow> (\<And>x. n = Inr x \<Longrightarrow> f x = g x) \<Longrightarrow> bind_err m f = bind_err n g"
  by (cases n) auto

type_synonym ('k, 'v) dict = "('k \<times> 'v) list"

definition distinct_keys :: "('k, 'v) dict \<Rightarrow> bool" where
  "distinct_keys d \<longleftrightarrow> distinct (map fst d)"

lemma distinct_keys_Nil [simp, intro]: "distinct_keys []"
  by (simp add: distinct_keys_def)

lemma distinct_keys_update [simp, intro]:
  "distinct_keys d \<Longrightarrow> distinct_keys (AList.update k v d)"
  by (simp add: distinct_keys_def distinct_update)

lemma map_of_update: "map_of (AList.update k v d) x = (if x = k then Some v else map_of d x)"
  by (simp add: update_conv')

lemma map_of_update_same [simp]: "map_of (AList.update k v d) k = Some v"
  by (simp add: update_conv')

lemma map_of_update_other [simp]: "x \<noteq> k \<Longrightarrow> map_of (AList.update k v d) x = map_of d x"
  by (simp add: update_conv')

lemma update_new_append: "map_of d k = None \<Longrightarrow> AList.update k v d = d @ [(k, v)]"
  by (induction d) (auto split: if_splits)

lemma map_of_distinct_keys_mem:
  "distinct_keys d \<Longrightarrow> (k, v) \<in> set d \<Longrightarrow> map_of d k = Some v"
  by (simp add: distinct_keys_def)

lemma map_of_values: "map_of d k = Some v \<Longrightarrow> v \<in> snd ` set d"
  by (force dest: map_of_SomeD)

lemma set_update_snd: "snd ` set (AList.update k v d) \<subseteq> insert v (snd ` set d)"
  by (induction d) (auto split: if_splits)

lemma in_set_update:
  "(a, b) \<in> set (AList.update k v d) \<Longrightarrow> (a = k \<and> b = v) \<or> (a, b) \<in> set d"
  by (induction d) (auto split: if_splits)

definition dkeys :: "('k, 'v) dict \<Rightarrow> 'k set" where
  "dkeys d = fst ` set d"

lemma dkeys_simps [simp]:
  "dkeys [] = {}" "dkeys (x # d) = insert (fst x) (dkeys d)" "dkeys (d @ e) = dkeys d \<union> dkeys e"
  by (auto simp: dkeys_def)

lemma dkeys_update [simp]: "dkeys (AList.update k v d) = insert k (dkeys d)"
  by (induction d) auto

lemma map_of_None_dkeys: "map_of d k = None \<longleftrightarrow> k \<notin> dkeys d"
  by (simp add: dkeys_def map_of_eq_None_iff)

lemma map_of_Some_dkeys: "map_of d k = Some v \<Longrightarrow> k \<in> dkeys d"
  by (metis map_of_None_dkeys option.distinct(1))

text \<open>\<open>dict.fromkeys(xs)\<close> as the program uses it: the first occurrence of each element, in order.\<close>

fun dedup :: "'a list \<Rightarrow> 'a list" where
  "dedup [] = []"
| "dedup (x # xs) = x # filter (\<lambda>y. y \<noteq> x) (dedup xs)"

lemma set_dedup [simp]: "set (dedup xs) = set xs"
  by (induction xs) auto

lemma distinct_dedup [simp]: "distinct (dedup xs)"
  by (induction xs) auto

lemma dedup_Nil_iff [simp]: "dedup xs = [] \<longleftrightarrow> xs = []"
  by (cases xs) auto

text \<open>
  \<open>list.sort(key=..., reverse=True)\<close>: descending, and stable, so entries with equal keys keep
  the order they had.
\<close>

definition sort_desc :: "('a \<Rightarrow> 'b::linorder) \<Rightarrow> 'a list \<Rightarrow> 'a list" where
  "sort_desc f xs = rev (sort_key f (rev xs))"

lemma set_sort_desc [simp]: "set (sort_desc f xs) = set xs"
  by (simp add: sort_desc_def)

lemma length_sort_desc [simp]: "length (sort_desc f xs) = length xs"
  by (simp add: sort_desc_def)

lemma distinct_sort_desc [simp]: "distinct (sort_desc f xs) = distinct xs"
  by (simp add: sort_desc_def)

lemma sorted_sort_desc: "sorted_wrt (\<lambda>x y. f y \<le> f x) (sort_desc f xs)"
proof -
  have "sorted (map f (sort_key f (rev xs)))" by simp
  then show ?thesis
    by (simp add: sort_desc_def sorted_wrt_rev sorted_map)
qed

lemma sort_desc_stable: "filter (\<lambda>x. f x = k) (sort_desc f xs) = filter (\<lambda>x. f x = k) xs"
proof -
  have "filter (\<lambda>x. f x = k) (sort_key f (rev xs)) = filter (\<lambda>x. f x = k) (rev xs)"
    by (rule sort_key_stable)
  then show ?thesis by (simp add: sort_desc_def rev_filter [symmetric])
qed

text \<open>\<open>round(x, n)\<close>: to the nearest multiple of \<open>10\<^sup>-\<^sup>n\<close>, a tie to the even one.\<close>

definition py_round :: "rat \<Rightarrow> nat \<Rightarrow> rat" where
  "py_round x n =
     (let y = x * 10 ^ n; f = floor y; d = y - of_int f
      in of_int (if d < 1 / 2 then f else if 1 / 2 < d then f + 1 else if even f then f else f + 1) / 10 ^ n)"

lemma py_round_error: "\<bar>py_round x n - x\<bar> \<le> 1 / (2 * 10 ^ n)"
proof -
  define y f where yf: "y = x * 10 ^ n" "f = floor y"
  define g where "g = (if y - of_int f < 1 / 2 then f else if 1 / 2 < y - of_int f then f + 1 else if even f then f else f + 1)"
  have "of_int f \<le> y" "y < of_int f + 1" using yf by linarith+
  then have "\<bar>of_int g - y\<bar> \<le> 1 / 2" by (auto simp: g_def)
  then have "\<bar>of_int g - y\<bar> / 10 ^ n \<le> (1 / 2) / 10 ^ n" by (rule divide_right_mono) simp
  moreover have "py_round x n - x = (of_int g - y) / 10 ^ n"
    by (simp add: py_round_def Let_def g_def yf field_simps)
  ultimately show ?thesis by simp
qed

text \<open>The first element of a list with a property, as a split of the list.\<close>

lemma ex_split_Cons:
  "(\<exists>pre post. q # qs = pre @ r # post \<and> (\<forall>x \<in> set pre. P x) \<and> Q r) \<longleftrightarrow>
     (r = q \<and> Q r) \<or> (P q \<and> (\<exists>pre post. qs = pre @ r # post \<and> (\<forall>x \<in> set pre. P x) \<and> Q r))"
  (is "?L \<longleftrightarrow> ?R")
proof
  assume ?L
  then obtain pre post where *: "q # qs = pre @ r # post" "\<forall>x \<in> set pre. P x" "Q r" by blast
  then show ?R by (cases pre) auto
next
  assume ?R
  then show ?L
  proof
    assume "r = q \<and> Q r"
    then have "q # qs = [] @ r # qs \<and> (\<forall>x \<in> set []. P x) \<and> Q r" by auto
    then show ?L by blast
  next
    assume "P q \<and> (\<exists>pre post. qs = pre @ r # post \<and> (\<forall>x \<in> set pre. P x) \<and> Q r)"
    then obtain pre post where "P q" "qs = pre @ r # post" "\<forall>x \<in> set pre. P x" "Q r" by blast
    then have "q # qs = (q # pre) @ r # post \<and> (\<forall>x \<in> set (q # pre). P x) \<and> Q r" by simp
    then show ?L by blast
  qed
qed

end
