(* ===== verification/PyValue.thy ===== *)
theory PyValue
  imports Prelude
begin

text \<open>
  The Python values that reach the program from outside: call arguments, responses, snapshots and
  parsed documents. A float is a finite rational, an infinity or NaN, with the IEEE order and
  arithmetic but without rounding; integers are unbounded. \<open>resolve_path\<close> is the dotted-path
  lookup that the program repeats in its model, gate and detection modules.
\<close>

section \<open>Floats\<close>

datatype pyfloat = Fin rat | PInf | NInf | NaN

fun fl_lt :: "pyfloat \<Rightarrow> pyfloat \<Rightarrow> bool" where
  "fl_lt NaN _ = False"
| "fl_lt _ NaN = False"
| "fl_lt (Fin a) (Fin b) = (a < b)"
| "fl_lt (Fin _) PInf = True"
| "fl_lt (Fin _) NInf = False"
| "fl_lt PInf _ = False"
| "fl_lt NInf NInf = False"
| "fl_lt NInf _ = True"

fun fl_eq :: "pyfloat \<Rightarrow> pyfloat \<Rightarrow> bool" where
  "fl_eq NaN _ = False"
| "fl_eq _ NaN = False"
| "fl_eq a b = (a = b)"

definition fl_le :: "pyfloat \<Rightarrow> pyfloat \<Rightarrow> bool" where
  "fl_le a b \<longleftrightarrow> fl_lt a b \<or> fl_eq a b"

fun fl_add :: "pyfloat \<Rightarrow> pyfloat \<Rightarrow> pyfloat" where
  "fl_add NaN _ = NaN"
| "fl_add _ NaN = NaN"
| "fl_add (Fin a) (Fin b) = Fin (a + b)"
| "fl_add (Fin _) x = x"
| "fl_add x (Fin _) = x"
| "fl_add PInf PInf = PInf"
| "fl_add NInf NInf = NInf"
| "fl_add _ _ = NaN"

fun fl_neg :: "pyfloat \<Rightarrow> pyfloat" where
  "fl_neg (Fin a) = Fin (- a)"
| "fl_neg PInf = NInf"
| "fl_neg NInf = PInf"
| "fl_neg NaN = NaN"

definition fl_sub :: "pyfloat \<Rightarrow> pyfloat \<Rightarrow> pyfloat" where
  "fl_sub a b = fl_add a (fl_neg b)"

text \<open>The built-ins \<open>max(a, b)\<close> and \<open>min(a, b)\<close>: the first argument unless the second is
  strictly greater (smaller), so a NaN in second place loses and in first place wins.\<close>

definition py_max :: "pyfloat \<Rightarrow> pyfloat \<Rightarrow> pyfloat" where
  "py_max a b = (if fl_lt a b then b else a)"

definition py_min :: "pyfloat \<Rightarrow> pyfloat \<Rightarrow> pyfloat" where
  "py_min a b = (if fl_lt b a then b else a)"

lemma fl_lt_NaN [simp]: "\<not> fl_lt x NaN" "\<not> fl_lt NaN x"
  by (cases x; simp)+

lemma fl_add_NaN [simp]: "fl_add x NaN = NaN"
  by (cases x) simp_all

lemma fl_lt_trans: "fl_lt a b \<Longrightarrow> fl_lt b c \<Longrightarrow> fl_lt a c"
  by (cases a; cases b; cases c) auto

lemma fl_not_lt_trans:
  "b \<noteq> NaN \<Longrightarrow> \<not> fl_lt b a \<Longrightarrow> \<not> fl_lt c b \<Longrightarrow> \<not> fl_lt c a"
  by (cases a; cases b; cases c) auto

section \<open>Values\<close>

datatype val =
    VNone
  | VBool bool
  | VInt int
  | VFloat pyfloat
  | VStr string
  | VList "val list"
  | VDict "(string \<times> val) list"

type_synonym args = "(string, val) dict"

text \<open>Exceptions of the standard library and of callbacks: class name and message.\<close>

datatype pyexn = PyExn (exn_name: string) (exn_msg: string)

fun is_dict :: "val \<Rightarrow> bool" where
  "is_dict (VDict _) = True"
| "is_dict _ = False"

fun is_str :: "val \<Rightarrow> bool" where
  "is_str (VStr _) = True"
| "is_str _ = False"

text \<open>\<open>isinstance(x, (int, float))\<close> with its value; \<open>bool\<close> is a subclass of \<open>int\<close>.\<close>

fun number_of :: "val \<Rightarrow> pyfloat option" where
  "number_of (VBool b) = Some (Fin (if b then 1 else 0))"
| "number_of (VInt n) = Some (Fin (of_int n))"
| "number_of (VFloat x) = Some x"
| "number_of _ = None"

fun is_bool :: "val \<Rightarrow> bool" where
  "is_bool (VBool _) = True"
| "is_bool _ = False"

text \<open>\<open>bool(x)\<close>.\<close>

fun truthy :: "val \<Rightarrow> bool" where
  "truthy VNone = False"
| "truthy (VBool b) = b"
| "truthy (VInt n) = (n \<noteq> 0)"
| "truthy (VFloat x) = (x \<noteq> Fin 0)"
| "truthy (VStr s) = (s \<noteq> [])"
| "truthy (VList xs) = (xs \<noteq> [])"
| "truthy (VDict d) = (d \<noteq> [])"

text \<open>Python's \<open>==\<close>: numbers compare across types, dictionaries ignore order.\<close>

fun py_eq :: "val \<Rightarrow> val \<Rightarrow> bool"
  and py_eq_list :: "val list \<Rightarrow> val list \<Rightarrow> bool"
  and py_eq_items :: "(string \<times> val) list \<Rightarrow> (string \<times> val) list \<Rightarrow> bool" where
  "py_eq VNone b = (b = VNone)"
| "py_eq (VStr s) b = (b = VStr s)"
| "py_eq (VList xs) b = (case b of VList ys \<Rightarrow> py_eq_list xs ys | _ \<Rightarrow> False)"
| "py_eq (VDict d) b =
     (case b of VDict e \<Rightarrow> length d = length e \<and> py_eq_items d e | _ \<Rightarrow> False)"
| "py_eq (VBool x) b = (case number_of b of None \<Rightarrow> False | Some y \<Rightarrow> fl_eq (Fin (if x then 1 else 0)) y)"
| "py_eq (VInt n) b = (case number_of b of None \<Rightarrow> False | Some y \<Rightarrow> fl_eq (Fin (of_int n)) y)"
| "py_eq (VFloat x) b = (case number_of b of None \<Rightarrow> False | Some y \<Rightarrow> fl_eq x y)"
| "py_eq_list [] ys = (ys = [])"
| "py_eq_list (x # xs) ys = (case ys of [] \<Rightarrow> False | y # ys' \<Rightarrow> py_eq x y \<and> py_eq_list xs ys')"
| "py_eq_items [] e = True"
| "py_eq_items ((k, v) # d) e =
     ((case map_of e k of None \<Rightarrow> False | Some w \<Rightarrow> py_eq v w) \<and> py_eq_items d e)"

section \<open>Strings\<close>

text \<open>\<open>len(s)\<close> of a string counts code points: the bytes that are not UTF-8 continuations.\<close>

definition is_continuation :: "char \<Rightarrow> bool" where
  "is_continuation c \<longleftrightarrow> 128 \<le> (of_char c :: nat) \<and> (of_char c :: nat) < 192"

definition py_len :: "string \<Rightarrow> nat" where
  "py_len s = length (filter (\<lambda>c. \<not> is_continuation c) s)"

text \<open>\<open>s.split(sep)\<close> for a one-character separator: never empty, even for the empty string.\<close>

fun split_on :: "char \<Rightarrow> string \<Rightarrow> string list" where
  "split_on sep [] = [[]]"
| "split_on sep (c # cs) =
     (if c = sep then [] # split_on sep cs
      else case split_on sep cs of [] \<Rightarrow> [[c]] | w # ws \<Rightarrow> (c # w) # ws)"

fun starts_with :: "string \<Rightarrow> string \<Rightarrow> bool" where
  "starts_with [] s = True"
| "starts_with (p # ps) [] = False"
| "starts_with (p # ps) (c # cs) = (p = c \<and> starts_with ps cs)"

definition ends_with :: "string \<Rightarrow> string \<Rightarrow> bool" where
  "ends_with p s = starts_with (rev p) (rev s)"

fun contains_sub :: "string \<Rightarrow> string \<Rightarrow> bool" where
  "contains_sub p [] = (p = [])"
| "contains_sub p (c # cs) = (starts_with p (c # cs) \<or> contains_sub p cs)"

fun join :: "string \<Rightarrow> string list \<Rightarrow> string" where
  "join sep [] = []"
| "join sep [x] = x"
| "join sep (x # xs) = x @ sep @ join sep xs"

lemma split_on_not_Nil [simp]: "split_on sep s \<noteq> []"
  by (induction s) (auto split: list.splits)

lemma join_split_on: "join [sep] (split_on sep s) = s"
proof (induction s)
  case Nil
  then show ?case by simp
next
  case (Cons c s)
  obtain w ws where ws: "split_on sep s = w # ws"
    using split_on_not_Nil by (meson list.exhaust)
  then show ?case using Cons.IH by (cases ws) auto
qed

lemma starts_with_append [simp]: "starts_with p (p @ s)"
  by (induction p) auto

lemma starts_with_iff: "starts_with p s \<longleftrightarrow> (\<exists>t. s = p @ t)"
  by (induction p s rule: starts_with.induct) auto

text \<open>Decimal digits of a natural number, as \<open>str(n)\<close> prints them.\<close>

definition digit :: "nat \<Rightarrow> char" where
  "digit d = char_of (48 + d)"

fun show_nat :: "nat \<Rightarrow> string" where
  "show_nat n = (if n < 10 then [digit n] else show_nat (n div 10) @ [digit (n mod 10)])"

declare show_nat.simps [simp del]

definition show_int :: "int \<Rightarrow> string" where
  "show_int i = (if i < 0 then ''-'' @ show_nat (nat (- i)) else show_nat (nat i))"

section \<open>Dotted paths\<close>

fun walk :: "string list \<Rightarrow> val \<Rightarrow> val option" where
  "walk [] v = Some v"
| "walk (p # ps) (VDict d) = (case map_of d p of None \<Rightarrow> None | Some v \<Rightarrow> walk ps v)"
| "walk (p # ps) _ = None"

text \<open>\<open>_resolve_path(path, root)\<close>: \<open>None\<close> for the source's \<open>(False, None)\<close>.\<close>

definition resolve_path :: "string \<Rightarrow> val \<Rightarrow> val option" where
  "resolve_path path v0 = walk (split_on CHR ''.'' path) v0"

lemma walk_append: "walk (ps @ qs) v = (case walk ps v of None \<Rightarrow> None | Some w \<Rightarrow> walk qs w)"
  by (induction ps v rule: walk.induct) (auto split: option.splits)

lemma walk_not_dict: "p \<noteq> [] \<Longrightarrow> \<not> is_dict v \<Longrightarrow> walk p v = None"
  by (cases p; cases v) auto

lemma resolve_path_dict:
  "resolve_path path v0 = Some v \<Longrightarrow> is_dict v0"
  unfolding resolve_path_def
  by (cases "split_on CHR ''.'' path"; cases v0) auto

end
