(* ===== verification/Posture.thy ===== *)
theory Posture
  imports PyValue "HOL-Library.Char_ord" "HOL-Library.List_Lexorder" "HOL-Library.Product_Lexorder"
begin

text \<open>
  The exception hierarchy (\<open>core/errors.py\<close>) as one datatype, and the two enumerations of
  \<open>reversal/model.py\<close>: how completely an action can be undone, ordered by rank, and the
  lifecycle of a journal entry.
\<close>

section \<open>Errors\<close>

text \<open>The message is kept only where the program reads it back (\<open>str(exc)\<close> in a cascade).
  \<open>Raised\<close> is an exception of the standard library or of a callback that nothing caught.\<close>

datatype revoco_error =
    ValidationError
  | PolicyError
  | UnknownPrincipal
  | ScopeViolation
  | ExpiredGrant
  | ChainBroken
  | SignatureError
  | TamperDetected
  | StoreError
  | NotReversible
  | ReversalWindowExpired
  | AlreadyReversed
  | ReversalPlanMissing
  | ReversalGateClosed string
  | Raised pyexn

text \<open>\<open>type(exc).__name__\<close>.\<close>

fun error_name :: "revoco_error \<Rightarrow> string" where
  "error_name ValidationError = ''ValidationError''"
| "error_name PolicyError = ''PolicyError''"
| "error_name UnknownPrincipal = ''UnknownPrincipal''"
| "error_name ScopeViolation = ''ScopeViolation''"
| "error_name ExpiredGrant = ''ExpiredGrant''"
| "error_name ChainBroken = ''ChainBroken''"
| "error_name SignatureError = ''SignatureError''"
| "error_name TamperDetected = ''TamperDetected''"
| "error_name StoreError = ''StoreError''"
| "error_name NotReversible = ''NotReversible''"
| "error_name ReversalWindowExpired = ''ReversalWindowExpired''"
| "error_name AlreadyReversed = ''AlreadyReversed''"
| "error_name ReversalPlanMissing = ''ReversalPlanMissing''"
| "error_name (ReversalGateClosed _) = ''ReversalGateClosed''"
| "error_name (Raised e) = exn_name e"

section \<open>Reversibility\<close>

datatype reversibility = UNKNOWN | IRREVERSIBLE | COMPENSABLE | REVERSIBLE | IDEMPOTENT

fun posture_rank :: "reversibility \<Rightarrow> nat" where
  "posture_rank UNKNOWN = 0"
| "posture_rank IRREVERSIBLE = 1"
| "posture_rank COMPENSABLE = 2"
| "posture_rank REVERSIBLE = 3"
| "posture_rank IDEMPOTENT = 4"

fun is_undoable :: "reversibility \<Rightarrow> bool" where
  "is_undoable k = (k \<in> {REVERSIBLE, COMPENSABLE})"

fun is_one_way :: "reversibility \<Rightarrow> bool" where
  "is_one_way k = (k \<in> {IRREVERSIBLE, UNKNOWN})"

fun posture_value :: "reversibility \<Rightarrow> string" where
  "posture_value UNKNOWN = ''unknown''"
| "posture_value IRREVERSIBLE = ''irreversible''"
| "posture_value COMPENSABLE = ''compensable''"
| "posture_value REVERSIBLE = ''reversible''"
| "posture_value IDEMPOTENT = ''idempotent''"

text \<open>\<open>Reversibility(s)\<close>; \<open>None\<close> where the enum constructor raises \<open>ValueError\<close>.\<close>

definition posture_of_value :: "string \<Rightarrow> reversibility option" where
  "posture_of_value s =
     find (\<lambda>k. posture_value k = s) [UNKNOWN, IRREVERSIBLE, COMPENSABLE, REVERSIBLE, IDEMPOTENT]"

lemma posture_rank_inj: "posture_rank a = posture_rank b \<longleftrightarrow> a = b"
  by (cases a; cases b) auto

instantiation reversibility :: linorder
begin

definition less_eq_reversibility :: "reversibility \<Rightarrow> reversibility \<Rightarrow> bool" where
  "less_eq_reversibility a b \<longleftrightarrow> posture_rank a \<le> posture_rank b"

definition less_reversibility :: "reversibility \<Rightarrow> reversibility \<Rightarrow> bool" where
  "less_reversibility a b \<longleftrightarrow> posture_rank a < posture_rank b"

instance
  by standard (auto simp: less_eq_reversibility_def less_reversibility_def posture_rank_inj)

end

lemmas posture_order = less_eq_reversibility_def less_reversibility_def

lemma UNKNOWN_least [simp]: "UNKNOWN \<le> k"
  by (simp add: posture_order)

lemma undoable_exclusive:
  "is_undoable k \<Longrightarrow> \<not> is_one_way k" "is_one_way k \<Longrightarrow> k < COMPENSABLE"
  "COMPENSABLE \<le> k \<Longrightarrow> \<not> is_one_way k"
  by (cases k; simp add: posture_order)+

lemma one_way_cases: "is_one_way k \<or> is_undoable k \<or> k = IDEMPOTENT"
  by (cases k) auto

lemma posture_roundtrip [simp]: "posture_of_value (posture_value k) = Some k"
  by (cases k) (simp_all add: posture_of_value_def)

section \<open>Journal states\<close>

datatype journal_state = PLANNED | COMMITTED | ABANDONED | REVERSED | FAILED | EXPIRED

fun is_terminal :: "journal_state \<Rightarrow> bool" where
  "is_terminal s = (s \<in> {ABANDONED, REVERSED, FAILED, EXPIRED})"

fun state_value :: "journal_state \<Rightarrow> string" where
  "state_value PLANNED = ''planned''"
| "state_value COMMITTED = ''committed''"
| "state_value ABANDONED = ''abandoned''"
| "state_value REVERSED = ''reversed''"
| "state_value FAILED = ''reversal_failed''"
| "state_value EXPIRED = ''expired''"

definition state_of_value :: "string \<Rightarrow> journal_state option" where
  "state_of_value s =
     find (\<lambda>k. state_value k = s) [PLANNED, COMMITTED, ABANDONED, REVERSED, FAILED, EXPIRED]"

lemma state_roundtrip [simp]: "state_of_value (state_value k) = Some k"
  by (cases k) (simp_all add: state_of_value_def)

end
