(* ===== verification/InverseModel.thy ===== *)
theory InverseModel
  imports Posture
begin

text \<open>
  The declarative half of \<open>reversal/model.py\<close>: source expressions of inverse arguments, undo
  steps, gates and inverse specs, with the checks their constructors make (\<open>__post_init__\<close>) and
  the resolution of a step's arguments. A constructor is a function from the raw fields to either
  an error or the canonical object.
\<close>

section \<open>Source expressions\<close>

definition ARG_SOURCES :: "string list" where
  "ARG_SOURCES = [''args'', ''result'', ''snapshot'', ''step'', ''const'']"

text \<open>\<open>expr.partition(".")\<close> without the separator: the text before and after the first dot.\<close>

fun partition_dot :: "string \<Rightarrow> string \<times> string" where
  "partition_dot [] = ([], [])"
| "partition_dot (c # cs) =
     (if c = CHR ''.'' then ([], cs) else (let (h, t) = partition_dot cs in (c # h, t)))"

definition is_const :: "string \<Rightarrow> bool" where
  "is_const expr = starts_with ''const:'' expr"

definition validate_source :: "string \<Rightarrow> revoco_error + unit" where
  "validate_source expr =
     (if is_const expr then Inr ()
      else let head = fst (partition_dot expr) in
        if head \<notin> set ARG_SOURCES then Inl ValidationError
        else if head = ''step'' then
          (if count_list expr CHR ''.'' < 2 then Inl ValidationError else Inr ())
        else if CHR ''.'' \<notin> set expr then Inl ValidationError
        else Inr ())"

definition source_head :: "string \<Rightarrow> string" where
  "source_head expr = (if is_const expr then ''const'' else fst (partition_dot expr))"

fun validate_sources :: "(string \<times> string) list \<Rightarrow> revoco_error + unit" where
  "validate_sources [] = Inr ()"
| "validate_sources ((n, e) # m) =
     (case validate_source e of Inl err \<Rightarrow> Inl err | Inr _ \<Rightarrow> validate_sources m)"

lemma validate_sources_iff:
  "validate_sources m = Inr () \<longleftrightarrow> (\<forall>(n, e) \<in> set m. validate_source e = Inr ())"
  by (induction m rule: validate_sources.induct) (auto split: sum.splits)

section \<open>Steps\<close>

record inverse_step =
  st_name :: string
  st_tool :: string
  st_arg_map :: "(string \<times> string) list"
  st_static_args :: args
  st_description :: string
  st_critical :: bool

text \<open>\<open>tuple(sorted(pairs))\<close> where the first components are distinct.\<close>

definition sorted_items :: "(string \<times> 'a) list \<Rightarrow> (string \<times> 'a) list" where
  "sorted_items m = sort_key fst m"

definition step_post_init :: "inverse_step \<Rightarrow> revoco_error + inverse_step" where
  "step_post_init s =
     (let s' = s\<lparr>st_arg_map := sort (st_arg_map s), st_static_args := sorted_items (st_static_args s)\<rparr> in
      raise_if (st_name s = []) ValidationError
      (raise_if (st_tool s = []) ValidationError
      (bind_err (validate_sources (st_arg_map s')) (\<lambda>_. Inr s'))))"

definition step_needs_result :: "inverse_step \<Rightarrow> string list" where
  "step_needs_result s = map fst (filter (\<lambda>(n, e). source_head e = ''result'') (st_arg_map s))"

definition step_needs_prior_step :: "inverse_step \<Rightarrow> string list" where
  "step_needs_prior_step s = map fst (filter (\<lambda>(n, e). source_head e = ''step'') (st_arg_map s))"

text \<open>Arguments as \<open>InverseStep.resolve\<close> returns them.\<close>

record resolved =
  rs_out :: args
  rs_unresolved :: "string list"
  rs_deferred :: "string list"
  rs_from_step :: "string list"

record roots =
  root_args :: args
  root_snapshot :: args
  root_result :: val
  root_steps :: args

fun result_root :: "val \<Rightarrow> val" where
  "result_root (VDict d) = VDict d"
| "result_root v = VDict [(''value'', v)]"

text \<open>\<open>roots[head]\<close>; the dictionary has no key \<open>const\<close>.\<close>

definition root_of :: "roots \<Rightarrow> string \<Rightarrow> val option" where
  "root_of r head =
     (if head = ''args'' then Some (VDict (root_args r))
      else if head = ''snapshot'' then Some (VDict (root_snapshot r))
      else if head = ''result'' then Some (result_root (root_result r))
      else if head = ''step'' then Some (VDict (root_steps r))
      else None)"

definition resolve_one ::
  "roots \<Rightarrow> bool \<Rightarrow> bool \<Rightarrow> string \<Rightarrow> string \<Rightarrow> resolved \<Rightarrow> revoco_error + resolved" where
  "resolve_one r include_result include_steps name expr acc =
     (if is_const expr then Inr (acc\<lparr>rs_out := AList.update name (VStr (drop 6 expr)) (rs_out acc)\<rparr>)
      else let (head, path) = partition_dot expr in
        if head = ''result'' \<and> \<not> include_result then
          Inr (acc\<lparr>rs_deferred := rs_deferred acc @ [name]\<rparr>)
        else if head = ''step'' \<and> \<not> include_steps then
          Inr (acc\<lparr>rs_from_step := rs_from_step acc @ [name]\<rparr>)
        else (case root_of r head of
            None \<Rightarrow> Inl (Raised (PyExn ''KeyError'' head))
          | Some v0 \<Rightarrow>
             (case resolve_path path v0 of
                None \<Rightarrow>
                  if head = ''step'' then Inr (acc\<lparr>rs_from_step := rs_from_step acc @ [name]\<rparr>)
                  else Inr (acc\<lparr>rs_unresolved := rs_unresolved acc @ [name]\<rparr>)
              | Some v \<Rightarrow> Inr (acc\<lparr>rs_out := AList.update name v (rs_out acc)\<rparr>))))"

fun resolve_loop ::
  "roots \<Rightarrow> bool \<Rightarrow> bool \<Rightarrow> (string \<times> string) list \<Rightarrow> resolved \<Rightarrow> revoco_error + resolved" where
  "resolve_loop r ir is [] acc = Inr acc"
| "resolve_loop r ir is ((n, e) # m) acc =
     (case resolve_one r ir is n e acc of
        Inl err \<Rightarrow> Inl err
      | Inr acc' \<Rightarrow> resolve_loop r ir is m acc')"

definition step_resolve ::
  "inverse_step \<Rightarrow> roots \<Rightarrow> bool \<Rightarrow> bool \<Rightarrow> revoco_error + resolved" where
  "step_resolve s r include_result include_steps =
     resolve_loop r include_result include_steps (st_arg_map s)
       \<lparr>rs_out = st_static_args s, rs_unresolved = [], rs_deferred = [], rs_from_step = []\<rparr>"

section \<open>Gates\<close>

datatype phase = PhAuthorize | PhUndo | PhBoth

record reversal_gate =
  g_name :: string
  g_description :: string
  g_remediation :: string
  g_check_at :: phase

definition gate_post_init :: "reversal_gate \<Rightarrow> revoco_error + reversal_gate" where
  "gate_post_init g =
     raise_if (g_name g = []) ValidationError
     (raise_if (g_description g = []) ValidationError (Inr g))"

definition checked_at_authorize :: "reversal_gate \<Rightarrow> bool" where
  "checked_at_authorize g \<longleftrightarrow> g_check_at g \<in> {PhAuthorize, PhBoth}"

definition checked_at_undo :: "reversal_gate \<Rightarrow> bool" where
  "checked_at_undo g \<longleftrightarrow> g_check_at g \<in> {PhUndo, PhBoth}"

section \<open>Specs\<close>

record inverse_spec =
  sp_tool :: string
  sp_kind :: reversibility
  sp_inverse_tool :: "string option"
  sp_arg_map :: "(string \<times> string) list"
  sp_static_args :: args
  sp_steps :: "inverse_step list"
  sp_gates :: "reversal_gate list"
  sp_snapshot_fields :: "string list"
  sp_window_seconds :: "rat option"
  sp_one_shot :: bool
  sp_degraded_kind :: reversibility
  sp_residue :: string
  sp_notes :: string

definition authorize_gates :: "inverse_spec \<Rightarrow> reversal_gate list" where
  "authorize_gates s = filter checked_at_authorize (sp_gates s)"

definition undo_gates :: "inverse_spec \<Rightarrow> reversal_gate list" where
  "undo_gates s = filter checked_at_undo (sp_gates s)"

fun has_text :: "string option \<Rightarrow> bool" where
  "has_text None = False"
| "has_text (Some s) = (s \<noteq> [])"

definition effective_steps :: "inverse_spec \<Rightarrow> inverse_step list" where
  "effective_steps s =
     (if sp_steps s \<noteq> [] then sp_steps s
      else if \<not> has_text (sp_inverse_tool s) then []
      else [\<lparr>st_name = ''undo'', st_tool = the (sp_inverse_tool s),
             st_arg_map = sp_arg_map s, st_static_args = sp_static_args s,
             st_description = [], st_critical = True\<rparr>])"

definition spec_needs_result :: "inverse_spec \<Rightarrow> string list" where
  "spec_needs_result s = dedup (concat (map step_needs_result (effective_steps s)))"

text \<open>The step a \<open>step.\<dots>\<close> source refers to: \<open>expr.split(".")[1]\<close>.\<close>

definition step_ref :: "string \<Rightarrow> string" where
  "step_ref e = fst (partition_dot (snd (partition_dot e)))"

fun refs_seen :: "string list \<Rightarrow> (string \<times> string) list \<Rightarrow> bool" where
  "refs_seen seen [] = True"
| "refs_seen seen ((n, e) # m) =
     ((source_head e = ''step'' \<longrightarrow> step_ref e \<in> set seen) \<and> refs_seen seen m)"

fun backward_refs :: "string list \<Rightarrow> inverse_step list \<Rightarrow> bool" where
  "backward_refs seen [] = True"
| "backward_refs seen (s # ss) =
     (refs_seen seen (st_arg_map s) \<and> backward_refs (st_name s # seen) ss)"

text \<open>\<open>InverseSpec.__post_init__\<close>, its checks in the source's order.\<close>

definition spec_post_init :: "inverse_spec \<Rightarrow> revoco_error + inverse_spec" where
  "spec_post_init s0 =
     (let s = s0\<lparr>sp_arg_map := sort (sp_arg_map s0),
                 sp_static_args := sorted_items (sp_static_args s0)\<rparr>;
          has_single = has_text (sp_inverse_tool s);
          has_steps = (sp_steps s \<noteq> []);
          degraded = (if is_undoable (sp_kind s) then sp_degraded_kind s else sp_kind s)
      in raise_if (sp_tool s = []) ValidationError
        (raise_if (has_single \<and> has_steps) ValidationError
        (raise_if (is_undoable (sp_kind s) \<and> \<not> (has_single \<or> has_steps)) ValidationError
        (raise_if (\<not> is_undoable (sp_kind s) \<and> (has_single \<or> has_steps)) ValidationError
        (raise_if (sp_kind s = COMPENSABLE \<and> sp_residue s = []) ValidationError
        (raise_if (sp_kind s = IDEMPOTENT \<and> sp_snapshot_fields s \<noteq> []) ValidationError
        (raise_if (case sp_window_seconds s of None \<Rightarrow> False | Some w \<Rightarrow> w \<le> 0) ValidationError
        (bind_err (validate_sources (sp_arg_map s)) (\<lambda>_.
         raise_if (\<not> distinct (map st_name (sp_steps s))) ValidationError
        (raise_if (\<not> backward_refs [] (sp_steps s)) ValidationError
        (raise_if (\<not> distinct (map g_name (sp_gates s))) ValidationError
        (raise_if (sp_kind s < degraded) ValidationError
        (raise_if (authorize_gates s \<noteq> [] \<and> \<not> is_undoable (sp_kind s)) ValidationError
        (Inr (s\<lparr>sp_degraded_kind := degraded\<rparr>)))))))))))))))"

text \<open>
  The invariant of every object the program can hold: its constructor accepted it, and so it is a
  fixed point of the constructor.
\<close>

definition wf_step :: "inverse_step \<Rightarrow> bool" where
  "wf_step s \<longleftrightarrow> step_post_init s = Inr s"

definition wf_gate :: "reversal_gate \<Rightarrow> bool" where
  "wf_gate g \<longleftrightarrow> gate_post_init g = Inr g"

definition wf_spec :: "inverse_spec \<Rightarrow> bool" where
  "wf_spec s \<longleftrightarrow> spec_post_init s = Inr s \<and> list_all wf_step (sp_steps s) \<and> list_all wf_gate (sp_gates s)"

section \<open>What the constructors guarantee\<close>

lemma sorted_items_idem [simp]: "sorted_items (sorted_items m) = sorted_items m"
  by (simp add: sorted_items_def sort_key_id_if_sorted)

lemma sort_sort [simp]: "sort (sort xs) = sort xs" for xs :: "'a::linorder list"
  by (simp add: sort_key_id_if_sorted)

lemma step_post_init_wf: "step_post_init s = Inr s' \<Longrightarrow> wf_step s'"
  unfolding wf_step_def step_post_init_def Let_def
  by (auto split: if_splits sum.splits)

text \<open>The constructor as one condition on the canonical form of its fields.\<close>

definition spec_canon :: "inverse_spec \<Rightarrow> inverse_spec" where
  "spec_canon s = s\<lparr>sp_arg_map := sort (sp_arg_map s),
     sp_static_args := sorted_items (sp_static_args s),
     sp_degraded_kind := (if is_undoable (sp_kind s) then sp_degraded_kind s else sp_kind s)\<rparr>"

definition spec_ok :: "inverse_spec \<Rightarrow> bool" where
  "spec_ok s \<longleftrightarrow> sp_tool s \<noteq> []
     \<and> \<not> (has_text (sp_inverse_tool s) \<and> sp_steps s \<noteq> [])
     \<and> (is_undoable (sp_kind s) \<longleftrightarrow> has_text (sp_inverse_tool s) \<or> sp_steps s \<noteq> [])
     \<and> (sp_kind s = COMPENSABLE \<longrightarrow> sp_residue s \<noteq> [])
     \<and> (sp_kind s = IDEMPOTENT \<longrightarrow> sp_snapshot_fields s = [])
     \<and> (\<forall>w. sp_window_seconds s = Some w \<longrightarrow> 0 < w)
     \<and> validate_sources (sp_arg_map s) = Inr ()
     \<and> distinct (map st_name (sp_steps s)) \<and> backward_refs [] (sp_steps s)
     \<and> distinct (map g_name (sp_gates s))
     \<and> sp_degraded_kind s \<le> sp_kind s
     \<and> (authorize_gates s \<noteq> [] \<longrightarrow> is_undoable (sp_kind s))"

lemma spec_post_init_iff:
  "spec_post_init s0 = Inr s \<longleftrightarrow> spec_ok (spec_canon s0) \<and> s = spec_canon s0"
proof -
  have window: "\<not> (case w of None \<Rightarrow> False | Some w \<Rightarrow> w \<le> 0) \<longleftrightarrow> (\<forall>x. w = Some x \<longrightarrow> (0::rat) < x)" for w
    by (cases w) auto
  show ?thesis
    unfolding spec_post_init_def spec_ok_def spec_canon_def Let_def authorize_gates_def
    by (simp add: window not_less del: is_undoable.simps) blast
qed

lemma spec_canon_idem [simp]: "spec_canon (spec_canon s) = spec_canon s"
  by (simp add: spec_canon_def)

lemma spec_post_init_wf:
  assumes "spec_post_init s0 = Inr s"
    and "list_all wf_step (sp_steps s0)" and "list_all wf_gate (sp_gates s0)"
  shows "wf_spec s"
  using assms by (auto simp: wf_spec_def spec_post_init_iff) (simp_all add: spec_canon_def)

lemma wf_spec_ok: "wf_spec s \<Longrightarrow> spec_ok s"
  by (auto simp: wf_spec_def spec_post_init_iff)

lemma wf_spec_undoable_iff:
  "wf_spec s \<Longrightarrow> is_undoable (sp_kind s) \<longleftrightarrow> effective_steps s \<noteq> []"
  by (auto dest!: wf_spec_ok simp: spec_ok_def effective_steps_def)

lemma wf_spec_degraded: "wf_spec s \<Longrightarrow> sp_degraded_kind s \<le> sp_kind s"
  by (drule wf_spec_ok) (simp add: spec_ok_def)

lemma wf_spec_not_undoable_gates:
  "wf_spec s \<Longrightarrow> \<not> is_undoable (sp_kind s) \<Longrightarrow> authorize_gates s = []"
  by (drule wf_spec_ok) (auto simp: spec_ok_def)

lemma wf_spec_step_names: "wf_spec s \<Longrightarrow> distinct (map st_name (effective_steps s))"
  by (drule wf_spec_ok) (simp add: spec_ok_def effective_steps_def)

section \<open>What resolution guarantees\<close>

definition rs_names :: "resolved \<Rightarrow> string set" where
  "rs_names x = dkeys (rs_out x) \<union> set (rs_unresolved x) \<union> set (rs_deferred x) \<union> set (rs_from_step x)"

lemma resolve_one_names:
  "resolve_one r ir is n e acc = Inr acc' \<Longrightarrow> rs_names acc' = insert n (rs_names acc)"
  unfolding resolve_one_def rs_names_def Let_def
  by (auto split: if_splits prod.splits option.splits)

text \<open>Every mapped argument is accounted for: bound, or named as a gap of one of three kinds.\<close>

lemma resolve_loop_names:
  "resolve_loop r ir is m acc = Inr acc' \<Longrightarrow> rs_names acc' = dkeys m \<union> rs_names acc"
  by (induction r ir "is" m acc rule: resolve_loop.induct)
     (auto dest: resolve_one_names split: sum.splits)

lemma step_resolve_names:
  "step_resolve s r ir is = Inr x \<Longrightarrow>
   rs_names x = dkeys (st_arg_map s) \<union> dkeys (st_static_args s)"
  unfolding step_resolve_def by (drule resolve_loop_names) (auto simp: rs_names_def)

lemma root_of_const [simp]: "root_of r ''const'' = None"
  by (simp add: root_of_def)

text \<open>What may be reported in which list.\<close>

lemma resolve_one_gaps:
  assumes "resolve_one r ir is n e acc = Inr acc'"
  shows "ir \<Longrightarrow> rs_deferred acc' = rs_deferred acc"
    and "source_head e \<noteq> ''result'' \<Longrightarrow> rs_deferred acc' = rs_deferred acc"
    and "source_head e \<noteq> ''step'' \<Longrightarrow> rs_from_step acc' = rs_from_step acc"
    and "set (rs_unresolved acc') \<subseteq> insert n (set (rs_unresolved acc))"
    and "source_head e \<in> {''const'', ''step''} \<Longrightarrow> rs_unresolved acc' = rs_unresolved acc"
  using assms unfolding resolve_one_def source_head_def Let_def
  by (auto split: if_splits prod.splits option.splits)

lemma resolve_loop_no_deferred:
  "resolve_loop r True is m acc = Inr acc' \<Longrightarrow> rs_deferred acc' = rs_deferred acc"
  by (induction r True "is" m acc rule: resolve_loop.induct)
     (auto dest: resolve_one_gaps(1) split: sum.splits)

lemma step_resolve_no_deferred:
  "step_resolve s r True is = Inr x \<Longrightarrow> rs_deferred x = []"
  unfolding step_resolve_def by (drule resolve_loop_no_deferred) simp

text \<open>
  Resolution raises only on a source whose head is \<open>const\<close> without its colon: every other source
  that validation accepts names a root that exists.
\<close>

definition bare_const :: "string \<Rightarrow> bool" where
  "bare_const e \<longleftrightarrow> \<not> is_const e \<and> fst (partition_dot e) = ''const''"

lemma root_of_Some:
  "validate_source e = Inr () \<Longrightarrow> \<not> is_const e \<Longrightarrow> \<not> bare_const e \<Longrightarrow>
   root_of r (fst (partition_dot e)) \<noteq> None"
  by (auto simp: validate_source_def bare_const_def root_of_def ARG_SOURCES_def Let_def split: if_splits)

lemma resolve_one_total:
  "validate_source e = Inr () \<Longrightarrow> \<not> bare_const e \<Longrightarrow> \<exists>acc'. resolve_one r ir is n e acc = Inr acc'"
  using root_of_Some [of e r] unfolding resolve_one_def Let_def
  by (cases "is_const e"; cases "root_of r (fst (partition_dot e))")
     (auto split: prod.splits option.splits)

lemma resolve_loop_total:
  "validate_sources m = Inr () \<Longrightarrow> (\<forall>(n, e) \<in> set m. \<not> bare_const e) \<Longrightarrow>
   \<exists>acc'. resolve_loop r ir is m acc = Inr acc'"
proof (induction m arbitrary: acc)
  case Nil
  then show ?case by simp
next
  case (Cons ne m)
  obtain n e where ne: "ne = (n, e)" by fastforce
  from Cons.prems ne obtain acc' where "resolve_one r ir is n e acc = Inr acc'"
    using resolve_one_total [of e r ir "is" n acc] by (auto split: sum.splits)
  moreover from Cons ne have "\<exists>acc''. resolve_loop r ir is m acc' = Inr acc''"
    by (auto split: sum.splits)
  ultimately show ?case by (simp add: ne)
qed

end
