(* ===== verification/Journal.thy ===== *)
theory Journal
  imports InverseModel
begin

text \<open>
  The runtime half of \<open>reversal/model.py\<close>: computed undo plans, journal entries with their
  lifecycle, receipts and cascade reports, and the dictionaries they are recorded as
  (\<open>to_dict\<close>), which are the payloads of the ledger.
\<close>

section \<open>Plans\<close>

record planned_step =
  ps_name :: string
  ps_tool :: string
  ps_args :: args
  ps_unresolved :: "string list"
  ps_deferred :: "string list"
  ps_from_prior_step :: "string list"
  ps_description :: string
  ps_critical :: bool

record reversal_plan =
  rp_id :: string
  rp_tool :: string
  rp_kind :: reversibility
  rp_inverse_tool :: "string option"
  rp_inverse_args :: args
  rp_unresolved_args :: "string list"
  rp_snapshot :: args
  rp_window_seconds :: "rat option"
  rp_residue :: string
  rp_created_at :: rat
  rp_snapshot_error :: "string option"
  rp_deferred_args :: "string list"
  rp_steps :: "planned_step list"
  rp_gates :: "reversal_gate list"
  rp_one_shot :: bool

definition is_executable :: "reversal_plan \<Rightarrow> bool" where
  "is_executable p \<longleftrightarrow> is_undoable (rp_kind p) \<and> rp_steps p \<noteq> []"

definition is_complete :: "reversal_plan \<Rightarrow> bool" where
  "is_complete p \<longleftrightarrow> is_executable p \<and> rp_unresolved_args p = [] \<and> rp_deferred_args p = []"

definition is_broken :: "reversal_plan \<Rightarrow> bool" where
  "is_broken p \<longleftrightarrow> is_undoable (rp_kind p) \<and> (rp_unresolved_args p \<noteq> [] \<or> has_text (rp_snapshot_error p))"

definition plan_expires_at :: "reversal_plan \<Rightarrow> rat option \<Rightarrow> rat option" where
  "plan_expires_at p committed_at =
     (case rp_window_seconds p of
        None \<Rightarrow> None
      | Some w \<Rightarrow> Some ((case committed_at of Some t \<Rightarrow> t | None \<Rightarrow> rp_created_at p) + w))"

section \<open>Journal entries\<close>

record transition_note =
  tn_from :: journal_state
  tn_to :: journal_state
  tn_at :: rat
  tn_note :: string

record journal_entry =
  je_id :: string
  je_plan :: reversal_plan
  je_state :: journal_state
  je_action_id :: "string option"
  je_delegation_id :: "string option"
  je_session_id :: string
  je_actor_id :: "string option"
  je_committed_at :: "rat option"
  je_resolved_at :: "rat option"
  je_reversal_result :: val
  je_error :: "string option"
  je_note :: string
  je_history :: "transition_note list"

definition transition :: "journal_state \<Rightarrow> string \<Rightarrow> rat \<Rightarrow> journal_entry \<Rightarrow> journal_entry" where
  "transition new_state note when e =
     (let e1 = e\<lparr>je_history := je_history e @
                  [\<lparr>tn_from = je_state e, tn_to = new_state, tn_at = when, tn_note = note\<rparr>],
                je_state := new_state\<rparr>;
          e2 = (if new_state = COMMITTED then e1\<lparr>je_committed_at := Some when\<rparr>
                else if is_terminal new_state then e1\<lparr>je_resolved_at := Some when\<rparr>
                else e1)
      in if note \<noteq> [] then e2\<lparr>je_note := note\<rparr> else e2)"

definition entry_expires_at :: "journal_entry \<Rightarrow> rat option" where
  "entry_expires_at e = plan_expires_at (je_plan e) (je_committed_at e)"

definition entry_is_expired :: "rat \<Rightarrow> journal_entry \<Rightarrow> bool" where
  "entry_is_expired now e = (case entry_expires_at e of None \<Rightarrow> False | Some t \<Rightarrow> t \<le> now)"

lemma transition_simps [simp]:
  "je_state (transition s n t e) = s"
  "je_id (transition s n t e) = je_id e"
  "je_plan (transition s n t e) = je_plan e"
  "je_action_id (transition s n t e) = je_action_id e"
  "je_delegation_id (transition s n t e) = je_delegation_id e"
  "je_session_id (transition s n t e) = je_session_id e"
  "je_actor_id (transition s n t e) = je_actor_id e"
  "je_error (transition s n t e) = je_error e"
  "je_reversal_result (transition s n t e) = je_reversal_result e"
  "je_history (transition s n t e) =
     je_history e @ [\<lparr>tn_from = je_state e, tn_to = s, tn_at = t, tn_note = n\<rparr>]"
  "je_committed_at (transition s n t e) = (if s = COMMITTED then Some t else je_committed_at e)"
  by (simp_all add: transition_def Let_def)

section \<open>Receipts and reports\<close>

record step_result =
  sr_name :: string
  sr_tool :: string
  sr_args :: args
  sr_ok :: bool
  sr_result :: val
  sr_error :: "string option"
  sr_skipped :: bool

record reversal_receipt =
  rc_id :: string
  rc_journal_id :: string
  rc_action_id :: "string option"
  rc_tool :: string
  rc_inverse_tool :: "string option"
  rc_kind :: reversibility
  rc_ok :: bool
  rc_state :: journal_state
  rc_residue :: string
  rc_error :: "string option"
  rc_executed_args :: args
  rc_result :: val
  rc_at :: rat
  rc_steps :: "step_result list"
  rc_one_shot :: bool

record cascade_report =
  cr_scope_kind :: string
  cr_scope_id :: string
  cr_attempted :: nat
  cr_reversed_ok :: nat
  cr_failed :: nat
  cr_skipped :: nat
  cr_receipts :: "reversal_receipt list"
  cr_residues :: "string list"
  cr_stopped_early :: bool
  cr_blocked_by_gates :: "string list"

definition cascade_ok :: "cascade_report \<Rightarrow> bool" where
  "cascade_ok r \<longleftrightarrow> cr_failed r = 0 \<and> \<not> cr_stopped_early r"

section \<open>Recorded form\<close>

fun v_opt_str :: "string option \<Rightarrow> val" where
  "v_opt_str None = VNone"
| "v_opt_str (Some s) = VStr s"

fun v_opt_time :: "rat option \<Rightarrow> val" where
  "v_opt_time None = VNone"
| "v_opt_time (Some t) = VFloat (Fin t)"

definition v_strs :: "string list \<Rightarrow> val" where
  "v_strs xs = VList (map VStr xs)"

fun phase_value :: "phase \<Rightarrow> string" where
  "phase_value PhAuthorize = ''authorize''"
| "phase_value PhUndo = ''undo''"
| "phase_value PhBoth = ''both''"

definition gate_to_dict :: "reversal_gate \<Rightarrow> val" where
  "gate_to_dict g = VDict [(''name'', VStr (g_name g)), (''description'', VStr (g_description g)),
     (''remediation'', VStr (g_remediation g)), (''check_at'', VStr (phase_value (g_check_at g)))]"

definition planned_step_to_dict :: "planned_step \<Rightarrow> val" where
  "planned_step_to_dict s = VDict
    [(''name'', VStr (ps_name s)), (''tool'', VStr (ps_tool s)), (''args'', VDict (ps_args s)),
     (''unresolved'', v_strs (ps_unresolved s)), (''deferred'', v_strs (ps_deferred s)),
     (''from_prior_step'', v_strs (ps_from_prior_step s)),
     (''description'', VStr (ps_description s)), (''critical'', VBool (ps_critical s))]"

definition plan_to_dict :: "reversal_plan \<Rightarrow> val" where
  "plan_to_dict p = VDict
    [(''id'', VStr (rp_id p)), (''tool'', VStr (rp_tool p)), (''kind'', VStr (posture_value (rp_kind p))),
     (''inverse_tool'', v_opt_str (rp_inverse_tool p)), (''inverse_args'', VDict (rp_inverse_args p)),
     (''unresolved_args'', v_strs (rp_unresolved_args p)),
     (''deferred_args'', v_strs (rp_deferred_args p)), (''snapshot'', VDict (rp_snapshot p)),
     (''window_seconds'', v_opt_time (rp_window_seconds p)), (''residue'', VStr (rp_residue p)),
     (''created_at'', VFloat (Fin (rp_created_at p))),
     (''snapshot_error'', v_opt_str (rp_snapshot_error p)),
     (''steps'', VList (map planned_step_to_dict (rp_steps p))),
     (''gates'', VList (map gate_to_dict (rp_gates p))), (''one_shot'', VBool (rp_one_shot p))]"

definition history_to_dict :: "transition_note \<Rightarrow> val" where
  "history_to_dict h = VDict [(''from'', VStr (state_value (tn_from h))),
     (''to'', VStr (state_value (tn_to h))), (''at'', VFloat (Fin (tn_at h))), (''note'', VStr (tn_note h))]"

definition entry_to_dict :: "journal_entry \<Rightarrow> val" where
  "entry_to_dict e = VDict
    [(''id'', VStr (je_id e)), (''state'', VStr (state_value (je_state e))),
     (''action_id'', v_opt_str (je_action_id e)), (''delegation_id'', v_opt_str (je_delegation_id e)),
     (''session_id'', VStr (je_session_id e)), (''actor_id'', v_opt_str (je_actor_id e)),
     (''committed_at'', v_opt_time (je_committed_at e)), (''resolved_at'', v_opt_time (je_resolved_at e)),
     (''expires_at'', v_opt_time (entry_expires_at e)), (''error'', v_opt_str (je_error e)),
     (''note'', VStr (je_note e)), (''plan'', plan_to_dict (je_plan e)),
     (''history'', VList (map history_to_dict (je_history e)))]"

definition step_result_to_dict :: "step_result \<Rightarrow> val" where
  "step_result_to_dict s = VDict
    [(''name'', VStr (sr_name s)), (''tool'', VStr (sr_tool s)), (''args'', VDict (sr_args s)),
     (''ok'', VBool (sr_ok s)), (''result'', sr_result s), (''error'', v_opt_str (sr_error s)),
     (''skipped'', VBool (sr_skipped s))]"

definition receipt_to_dict :: "reversal_receipt \<Rightarrow> val" where
  "receipt_to_dict r = VDict
    [(''id'', VStr (rc_id r)), (''journal_id'', VStr (rc_journal_id r)),
     (''action_id'', v_opt_str (rc_action_id r)), (''tool'', VStr (rc_tool r)),
     (''inverse_tool'', v_opt_str (rc_inverse_tool r)), (''kind'', VStr (posture_value (rc_kind r))),
     (''ok'', VBool (rc_ok r)), (''state'', VStr (state_value (rc_state r))),
     (''residue'', VStr (rc_residue r)), (''error'', v_opt_str (rc_error r)),
     (''executed_args'', VDict (rc_executed_args r)), (''result'', rc_result r),
     (''at'', VFloat (Fin (rc_at r))), (''one_shot'', VBool (rc_one_shot r)),
     (''steps'', VList (map step_result_to_dict (rc_steps r)))]"

definition report_to_dict :: "cascade_report \<Rightarrow> val" where
  "report_to_dict r = VDict
    [(''scope_kind'', VStr (cr_scope_kind r)), (''scope_id'', VStr (cr_scope_id r)),
     (''attempted'', VInt (int (cr_attempted r))), (''reversed_ok'', VInt (int (cr_reversed_ok r))),
     (''failed'', VInt (int (cr_failed r))), (''skipped'', VInt (int (cr_skipped r))),
     (''stopped_early'', VBool (cr_stopped_early r)), (''ok'', VBool (cascade_ok r)),
     (''residues'', v_strs (cr_residues r)), (''blocked_by_gates'', v_strs (cr_blocked_by_gates r)),
     (''receipts'', VList (map receipt_to_dict (cr_receipts r)))]"

end
