(* ===== verification/Glob.thy ===== *)
theory Glob
  imports PyValue
begin

text \<open>
  \<open>fnmatch.fnmatchcase\<close> of the standard library, which the policy engine and the inverse
  registry match tools, actions and agents with: \<open>*\<close>, \<open>?\<close>, \<open>[seq]\<close> and \<open>[!seq]\<close> over
  code points. An unclosed bracket is a literal.
\<close>

fun decode :: "nat list \<Rightarrow> nat list" where
  "decode [] = []"
| "decode (b # bs) =
     (if b < 192 then b # decode bs
      else if b < 224 then
        (case bs of c # r \<Rightarrow> ((b - 192) * 64 + (c - 128)) # decode r | _ \<Rightarrow> [b])
      else if b < 240 then
        (case bs of c # d # r \<Rightarrow> ((b - 224) * 4096 + (c - 128) * 64 + (d - 128)) # decode r | _ \<Rightarrow> [b])
      else
        (case bs of c # d # e # r \<Rightarrow>
           ((b - 240) * 262144 + (c - 128) * 4096 + (d - 128) * 64 + (e - 128)) # decode r
         | _ \<Rightarrow> [b]))"

definition code_points :: "string \<Rightarrow> nat list" where
  "code_points s = decode (map of_char s)"

datatype gtok = GStar | GAny | GLit nat | GClass bool "(nat \<times> nat) list"

fun class_items :: "nat list \<Rightarrow> (nat \<times> nat) list" where
  "class_items (c # d # e # r) =
     (if d = 45 then (c, e) # class_items r else (c, c) # class_items (d # e # r))"
| "class_items (c # r) = (c, c) # class_items r"
| "class_items [] = []"

definition skip_opt :: "nat \<Rightarrow> nat list \<Rightarrow> bool \<times> nat list" where
  "skip_opt x s = (case s of y # ys \<Rightarrow> if y = x then (True, ys) else (False, s) | [] \<Rightarrow> (False, []))"

definition class_split :: "nat list \<Rightarrow> (bool \<times> nat list \<times> nat list) option" where
  "class_split s =
     (let (neg, r1) = skip_opt 33 s;
          (close, r2) = skip_opt 93 r1
      in case dropWhile (\<lambda>x. x \<noteq> 93) r2 of
           [] \<Rightarrow> None
         | _ # t \<Rightarrow> Some (neg, (if close then [93] else []) @ takeWhile (\<lambda>x. x \<noteq> 93) r2, t))"

lemma length_skip_opt: "length (snd (skip_opt x s)) \<le> length s"
  by (cases s) (simp_all add: skip_opt_def)

lemma length_dropWhile_Cons:
  assumes "dropWhile p xs = y # ys"
  shows "length ys < length xs"
  using length_dropWhile_le [of p xs] assms by simp

lemma class_split_shorter:
  assumes "class_split s = Some (n, b, t)"
  shows "length t < length s"
proof -
  let ?r = "snd (skip_opt 93 (snd (skip_opt 33 s)))"
  from assms obtain y where "dropWhile (\<lambda>x. x \<noteq> 93) ?r = y # t"
    by (auto simp: class_split_def Let_def split_beta split: list.splits)
  then have "length t < length ?r" by (rule length_dropWhile_Cons)
  with length_skip_opt [of 93 "snd (skip_opt 33 s)"] length_skip_opt [of 33 s]
  show ?thesis by linarith
qed

function glob_tokens :: "nat list \<Rightarrow> gtok list" where
  "glob_tokens [] = []"
| "glob_tokens (c # cs) =
     (if c = 42 then GStar # glob_tokens cs
      else if c = 63 then GAny # glob_tokens cs
      else if c = 91 then
        (case class_split cs of
           None \<Rightarrow> GLit 91 # glob_tokens cs
         | Some (neg, body, rest) \<Rightarrow> GClass neg (class_items body) # glob_tokens rest)
      else GLit c # glob_tokens cs)"
  by pat_completeness auto
termination
  by (relation "measure length") (auto dest: class_split_shorter)

fun tok_match :: "gtok \<Rightarrow> nat \<Rightarrow> bool" where
  "tok_match GStar c = True"
| "tok_match GAny c = True"
| "tok_match (GLit d) c = (c = d)"
| "tok_match (GClass neg items) c = (neg \<noteq> list_ex (\<lambda>(a, b). a \<le> c \<and> c \<le> b) items)"

fun glob_match :: "gtok list \<Rightarrow> nat list \<Rightarrow> bool" where
  "glob_match [] s = (s = [])"
| "glob_match (GStar # ts) [] = glob_match ts []"
| "glob_match (GStar # ts) (c # cs) = (glob_match ts (c # cs) \<or> glob_match (GStar # ts) cs)"
| "glob_match (t # ts) [] = False"
| "glob_match (t # ts) (c # cs) = (tok_match t c \<and> glob_match ts cs)"

definition fnmatchcase :: "string \<Rightarrow> string \<Rightarrow> bool" where
  "fnmatchcase name pat = glob_match (glob_tokens (code_points pat)) (code_points name)"

definition matches_any_glob :: "string \<Rightarrow> string list \<Rightarrow> bool" where
  "matches_any_glob v globs = list_ex (fnmatchcase v) globs"

lemma glob_match_star [simp]: "glob_match [GStar] s"
  by (induction s) auto

lemma fnmatchcase_star [simp]: "fnmatchcase s ''*''"
  by (simp add: fnmatchcase_def code_points_def)

lemma glob_match_literals: "glob_match (map GLit p) s \<longleftrightarrow> s = p"
proof (induction p arbitrary: s)
  case Nil
  then show ?case by simp
next
  case (Cons a p)
  then show ?case by (cases s) auto
qed

lemma glob_tokens_plain:
  "set s \<inter> {42, 63, 91} = {} \<Longrightarrow> glob_tokens s = map GLit s"
  by (induction s) auto

text \<open>A pattern without metacharacters matches itself and nothing else.\<close>

lemma glob_plain_exact:
  assumes "set (code_points pat) \<inter> {42, 63, 91} = {}"
  shows "fnmatchcase name pat \<longleftrightarrow> code_points name = code_points pat"
  by (simp add: fnmatchcase_def glob_tokens_plain [OF assms] glob_match_literals)

lemma glob_match_append_star: "glob_match (map GLit p @ [GStar]) (p @ s)"
  by (induction p) auto

lemma matches_any_glob_star [simp]: "matches_any_glob v [''*'']"
  by (simp add: matches_any_glob_def)

end
