(* ===== verification/InverseRegistry.thy ===== *)
theory InverseRegistry
  imports InverseModel Glob
begin

text \<open>
  \<open>reversal/registry.py\<close>: which spec governs a tool. Exact names come first, then glob patterns
  in registration order. An unregistered tool is UNKNOWN.
\<close>

record registry =
  exact :: "(string, inverse_spec) dict"
  globs :: "inverse_spec list"

definition empty_registry :: registry where
  "empty_registry = \<lparr>exact = [], globs = []\<rparr>"

definition is_glob :: "string \<Rightarrow> bool" where
  "is_glob tool \<longleftrightarrow> list_ex (\<lambda>ch. ch \<in> set tool) ''*?[''"

definition register :: "inverse_spec \<Rightarrow> registry \<Rightarrow> registry" where
  "register spec r =
     (if is_glob (sp_tool spec)
      then r\<lparr>globs := filter (\<lambda>g. sp_tool g \<noteq> sp_tool spec) (globs r) @ [spec]\<rparr>
      else r\<lparr>exact := AList.update (sp_tool spec) spec (exact r)\<rparr>)"

definition register_many :: "inverse_spec list \<Rightarrow> registry \<Rightarrow> registry" where
  "register_many specs r = fold register specs r"

definition registry_get :: "string \<Rightarrow> registry \<Rightarrow> inverse_spec option" where
  "registry_get tool r =
     (case map_of (exact r) tool of
        Some spec \<Rightarrow> Some spec
      | None \<Rightarrow> find (\<lambda>g. fnmatchcase tool (sp_tool g)) (globs r))"

definition registry_classify :: "string \<Rightarrow> registry \<Rightarrow> reversibility" where
  "registry_classify tool r =
     (case registry_get tool r of Some spec \<Rightarrow> sp_kind spec | None \<Rightarrow> UNKNOWN)"

definition registry_all :: "registry \<Rightarrow> inverse_spec list" where
  "registry_all r = map snd (exact r) @ globs r"

text \<open>\<open>coverage\<close>: the tools of a surface by posture. \<open>total\<close> is 1 for an empty surface, so
  \<open>classified\<close> then reads 1.\<close>

definition tools_of_kind :: "string list \<Rightarrow> registry \<Rightarrow> reversibility \<Rightarrow> string list" where
  "tools_of_kind tools r k = filter (\<lambda>t. registry_classify t r = k) tools"

record coverage_report =
  cv_total :: nat
  cv_classified :: int
  cv_undoable :: nat
  cv_by_kind :: "(string \<times> string list) list"

definition coverage :: "string list \<Rightarrow> registry \<Rightarrow> coverage_report" where
  "coverage tools r =
     (let total = (if tools = [] then 1 else length tools);
          by_kind = tools_of_kind tools r
      in \<lparr>cv_total = length tools,
          cv_classified = int total - int (length (by_kind UNKNOWN)),
          cv_undoable = length (by_kind REVERSIBLE) + length (by_kind COMPENSABLE),
          cv_by_kind = map (\<lambda>k. (posture_value k, by_kind k))
            [UNKNOWN, IRREVERSIBLE, COMPENSABLE, REVERSIBLE, IDEMPOTENT]\<rparr>)"

section \<open>Invariant and lookup laws\<close>

definition registry_inv :: "registry \<Rightarrow> bool" where
  "registry_inv r \<longleftrightarrow> distinct_keys (exact r) \<and> distinct (map sp_tool (globs r))
     \<and> (\<forall>(t, s) \<in> set (exact r). sp_tool s = t \<and> \<not> is_glob t \<and> wf_spec s)
     \<and> (\<forall>s \<in> set (globs r). is_glob (sp_tool s) \<and> wf_spec s)"

lemma registry_inv_empty [simp]: "registry_inv empty_registry"
  by (simp add: registry_inv_def empty_registry_def)

lemma registry_inv_register: "registry_inv r \<Longrightarrow> wf_spec s \<Longrightarrow> registry_inv (register s r)"
  unfolding registry_inv_def register_def
  by (auto dest!: in_set_update simp: distinct_map_filter)

lemma registry_inv_register_many:
  "registry_inv r \<Longrightarrow> list_all wf_spec ss \<Longrightarrow> registry_inv (register_many ss r)"
  unfolding register_many_def
  by (induction ss arbitrary: r) (auto intro: registry_inv_register)

lemma registry_get_wf: "registry_inv r \<Longrightarrow> registry_get t r = Some s \<Longrightarrow> wf_spec s"
  unfolding registry_inv_def registry_get_def
  by (auto split: option.splits dest!: map_of_SomeD simp: find_Some_iff)

lemma registry_get_matches:
  "registry_inv r \<Longrightarrow> registry_get t r = Some s \<Longrightarrow> sp_tool s = t \<or> fnmatchcase t (sp_tool s)"
  unfolding registry_inv_def registry_get_def
  by (auto split: option.splits dest!: map_of_SomeD simp: find_Some_iff)

text \<open>A spec for an exact name is what the tool gets, whatever globs are registered.\<close>

lemma registry_get_exact:
  "\<not> is_glob (sp_tool s) \<Longrightarrow> registry_get (sp_tool s) (register s r) = Some s"
  by (simp add: registry_get_def register_def)

lemma registry_get_other:
  "\<not> is_glob (sp_tool s) \<Longrightarrow> t \<noteq> sp_tool s \<Longrightarrow> registry_get t (register s r) = registry_get t r"
  by (simp add: registry_get_def register_def split: option.splits)

lemma registry_get_glob_exact_wins:
  "is_glob (sp_tool g) \<Longrightarrow> map_of (exact r) t = Some s \<Longrightarrow> registry_get t (register g r) = Some s"
  by (simp add: registry_get_def register_def)

end
