(* ===== verification/UndoEngine.thy ===== *)
theory UndoEngine
  imports Journal InverseRegistry
begin

text \<open>
  \<open>reversal/engine.py\<close>: classify a call, plan its undo before it runs, journal and commit the
  plan, execute it alone or as a cascade, expire it. The engine's state is its registry, its
  journal and the index from actions to journal entries. Each operation returns the events it
  emits, in order; the clock readings and identifiers it draws are arguments.

  The callbacks of the integration are the record \<open>seams\<close>, read against a world of any type:
  they may answer differently as the world changes. The executor changes the world.
\<close>

section \<open>Callbacks\<close>

datatype gate_answer = GTrue | GText string | GOther
datatype hook_answer = HKind reversibility | HOther string
datatype classifier_answer = CNone | CSpec inverse_spec | COther string

record gate_context =
  gc_gate :: reversal_gate
  gc_tool :: string
  gc_phase :: phase
  gc_args :: args
  gc_entry :: "journal_entry option"

record 'w seams =
  state_reader :: "('w \<Rightarrow> string \<Rightarrow> args \<Rightarrow> string list \<Rightarrow> pyexn + args option) option"
  gate_evaluator :: "('w \<Rightarrow> gate_context \<Rightarrow> pyexn + gate_answer) option"
  classify_hook :: "('w \<Rightarrow> string \<Rightarrow> reversibility \<Rightarrow> pyexn + hook_answer) option"
  command_classifier :: "('w \<Rightarrow> string \<Rightarrow> args \<Rightarrow> pyexn + classifier_answer) option"

type_synonym 'w executor = "'w \<Rightarrow> string \<Rightarrow> args \<Rightarrow> (pyexn + val) \<times> 'w"
type_synonym events = "(string \<times> val) list"

record rengine =
  re_registry :: registry
  re_journal :: "(string, journal_entry) dict"
  re_by_action :: "(string, string) dict"

definition new_engine :: "registry \<Rightarrow> rengine" where
  "new_engine r = \<lparr>re_registry = r, re_journal = [], re_by_action = []\<rparr>"

section \<open>Text\<close>

definition exn_text :: "pyexn \<Rightarrow> string" where
  "exn_text e = exn_name e @ '': '' @ exn_msg e"

text \<open>\<open>repr\<close> of a string without quotes or escapes, of a list of them, and of an exception.\<close>

definition repr_str :: "string \<Rightarrow> string" where
  "repr_str s = [CHR 39] @ s @ [CHR 39]"

definition repr_strs :: "string list \<Rightarrow> string" where
  "repr_strs xs = ''['' @ join '', '' (map repr_str xs) @ '']''"

definition repr_exn :: "pyexn \<Rightarrow> string" where
  "repr_exn e = exn_name e @ ''('' @ repr_str (exn_msg e) @ '')''"

text \<open>The em dash, in UTF-8, between spaces.\<close>

definition dash :: string where
  "dash = '' '' @ [CHR 0xE2, CHR 0x80, CHR 0x94] @ '' ''"

section \<open>Classification\<close>

definition seam_failed :: "string \<Rightarrow> string \<Rightarrow> string \<Rightarrow> string \<times> val" where
  "seam_failed seam tool err =
     (''reversal_seam_failed'',
      VDict [(''seam'', VStr seam), (''tool'', VStr tool), (''error'', VStr err)])"

definition spec_for ::
  "'w seams \<Rightarrow> 'w \<Rightarrow> string \<Rightarrow> args option \<Rightarrow> rengine \<Rightarrow> inverse_spec option \<times> events" where
  "spec_for cb w tool a eng =
     (case registry_get tool (re_registry eng) of
        Some spec \<Rightarrow> (Some spec, [])
      | None \<Rightarrow>
         (case (command_classifier cb, a) of
            (Some f, Some args) \<Rightarrow>
              (case f w tool args of
                 Inl exc \<Rightarrow> (None, [seam_failed ''command_classifier'' tool (exn_text exc)])
               | Inr CNone \<Rightarrow> (None, [])
               | Inr (CSpec s) \<Rightarrow> (Some s, [])
               | Inr (COther ty) \<Rightarrow>
                   (None, [seam_failed ''command_classifier'' tool
                             (''returned '' @ ty @ '', not an InverseSpec'')]))
          | _ \<Rightarrow> (None, [])))"

definition degraded_event :: "string \<Rightarrow> reversibility \<Rightarrow> reversibility \<Rightarrow> string list \<Rightarrow> string \<times> val" where
  "degraded_event tool declared effective shut =
     (''reversal_kind_degraded'',
      VDict [(''tool'', VStr tool), (''declared_kind'', VStr (posture_value declared)),
             (''effective_kind'', VStr (posture_value effective)), (''closed_gates'', v_strs shut)])"

definition repr_posture :: "reversibility \<Rightarrow> string" where
  "repr_posture k =
     (case k of UNKNOWN \<Rightarrow> ''<Reversibility.UNKNOWN: '' | IRREVERSIBLE \<Rightarrow> ''<Reversibility.IRREVERSIBLE: ''
      | COMPENSABLE \<Rightarrow> ''<Reversibility.COMPENSABLE: '' | REVERSIBLE \<Rightarrow> ''<Reversibility.REVERSIBLE: ''
      | IDEMPOTENT \<Rightarrow> ''<Reversibility.IDEMPOTENT: '') @ repr_str (posture_value k) @ ''>''"

definition apply_hook ::
  "'w seams \<Rightarrow> 'w \<Rightarrow> string \<Rightarrow> reversibility \<Rightarrow> reversibility \<times> events" where
  "apply_hook cb w tool kind =
     (case classify_hook cb of
        None \<Rightarrow> (kind, [])
      | Some h \<Rightarrow>
         (case h w tool kind of
            Inl exc \<Rightarrow> (kind, [seam_failed ''classify_hook'' tool (exn_text exc)])
          | Inr (HOther ty) \<Rightarrow>
              (kind, [seam_failed ''classify_hook'' tool (''returned '' @ ty @ '', not a Reversibility'')])
          | Inr (HKind proposed) \<Rightarrow>
              if posture_rank proposed > posture_rank kind then
                (kind, [seam_failed ''classify_hook'' tool
                          (''refused: '' @ repr_posture proposed @ '' would raise '' @ posture_value kind)])
              else if proposed \<noteq> kind then
                (proposed, [degraded_event tool kind proposed
                              [''classify_hook: no fresh proof of recoverability'']])
              else (proposed, [])))"

text \<open>\<open>None\<close> for an open gate, otherwise why it counts as closed.\<close>

definition gate_closed ::
  "'w seams \<Rightarrow> 'w \<Rightarrow> string \<Rightarrow> args \<Rightarrow> journal_entry option \<Rightarrow> phase \<Rightarrow> reversal_gate \<Rightarrow> string option" where
  "gate_closed cb w tool args entry ph g =
     (case gate_evaluator cb of
        None \<Rightarrow> Some (g_name g @ '': no gate evaluator configured, so this precondition cannot be verified (''
                      @ g_description g @ '')'')
      | Some f \<Rightarrow>
         (case f w \<lparr>gc_gate = g, gc_tool = tool, gc_phase = ph, gc_args = args, gc_entry = entry\<rparr> of
            Inl exc \<Rightarrow> Some (g_name g @ '': evaluator raised '' @ exn_text exc)
          | Inr GTrue \<Rightarrow> None
          | Inr v \<Rightarrow>
              (let detail = (case v of GText t \<Rightarrow> t | _ \<Rightarrow> g_description g);
                   detail' = (if g_remediation g \<noteq> [] then detail @ dash @ g_remediation g else detail)
               in Some (g_name g @ '': '' @ detail'))))"

definition closed_gates ::
  "'w seams \<Rightarrow> 'w \<Rightarrow> reversal_gate list \<Rightarrow> string \<Rightarrow> args \<Rightarrow> journal_entry option \<Rightarrow> phase \<Rightarrow> string list" where
  "closed_gates cb w gates tool args entry ph =
     List.map_filter (gate_closed cb w tool args entry ph) gates"

definition classify ::
  "'w seams \<Rightarrow> 'w \<Rightarrow> string \<Rightarrow> args option \<Rightarrow> rengine \<Rightarrow> reversibility \<times> events" where
  "classify cb w tool a eng =
     (let (spec, ev) = spec_for cb w tool a eng in
      case spec of
        None \<Rightarrow> (UNKNOWN, ev)
      | Some s \<Rightarrow>
         (case a of
            None \<Rightarrow> (let (k, ev') = apply_hook cb w tool (sp_kind s) in (k, ev @ ev'))
          | Some args \<Rightarrow>
              if authorize_gates s = [] then
                (let (k, ev') = apply_hook cb w tool (sp_kind s) in (k, ev @ ev'))
              else
                (let shut = closed_gates cb w (authorize_gates s) tool args None PhAuthorize in
                 if shut \<noteq> [] then
                   (let (k, ev') = apply_hook cb w tool (sp_degraded_kind s)
                    in (k, ev @ [degraded_event tool (sp_kind s) (sp_degraded_kind s) shut] @ ev'))
                 else (let (k, ev') = apply_hook cb w tool (sp_kind s) in (k, ev @ ev')))))"

section \<open>Planning\<close>

definition capture_snapshot ::
  "'w seams \<Rightarrow> 'w \<Rightarrow> string \<Rightarrow> args \<Rightarrow> inverse_spec \<Rightarrow> args \<times> string option" where
  "capture_snapshot cb w tool args s =
     (if sp_snapshot_fields s = [] then ([], None)
      else case state_reader cb of
        None \<Rightarrow> ([], Some (''no state_reader configured; prior-state fields ''
                            @ repr_strs (sp_snapshot_fields s) @ '' could not be captured''))
      | Some rd \<Rightarrow>
         (case rd w tool args (sp_snapshot_fields s) of
            Inl exc \<Rightarrow> ([], Some (''state_reader failed: '' @ repr_exn exc))
          | Inr None \<Rightarrow> ([], None)
          | Inr (Some d) \<Rightarrow> (d, None)))"

definition plan_roots :: "args \<Rightarrow> args \<Rightarrow> roots" where
  "plan_roots args snapshot =
     \<lparr>root_args = args, root_snapshot = snapshot, root_result = VNone, root_steps = []\<rparr>"

definition plan_step :: "args \<Rightarrow> args \<Rightarrow> inverse_step \<Rightarrow> revoco_error + planned_step" where
  "plan_step args snapshot st =
     bind_err (step_resolve st (plan_roots args snapshot) False False) (\<lambda>x.
       Inr \<lparr>ps_name = st_name st, ps_tool = st_tool st, ps_args = rs_out x,
            ps_unresolved = rs_unresolved x, ps_deferred = rs_deferred x,
            ps_from_prior_step = rs_from_step x, ps_description = st_description st,
            ps_critical = st_critical st\<rparr>)"

fun plan_steps :: "args \<Rightarrow> args \<Rightarrow> inverse_step list \<Rightarrow> revoco_error + planned_step list" where
  "plan_steps args snapshot [] = Inr []"
| "plan_steps args snapshot (s # ss) =
     bind_err (plan_step args snapshot s) (\<lambda>p.
     bind_err (plan_steps args snapshot ss) (\<lambda>ps. Inr (p # ps)))"

fun head_tool :: "planned_step list \<Rightarrow> string option" where
  "head_tool [] = None"
| "head_tool (s # _) = Some (ps_tool s)"

fun head_args :: "planned_step list \<Rightarrow> args" where
  "head_args [] = []"
| "head_args (s # _) = ps_args s"

definition empty_plan :: "string \<Rightarrow> rat \<Rightarrow> string \<Rightarrow> reversibility \<Rightarrow> reversal_plan" where
  "empty_plan pid now tool kind =
     \<lparr>rp_id = pid, rp_tool = tool, rp_kind = kind, rp_inverse_tool = None, rp_inverse_args = [],
      rp_unresolved_args = [], rp_snapshot = [], rp_window_seconds = None, rp_residue = [],
      rp_created_at = now, rp_snapshot_error = None, rp_deferred_args = [], rp_steps = [],
      rp_gates = [], rp_one_shot = False\<rparr>"

definition plan ::
  "'w seams \<Rightarrow> 'w \<Rightarrow> string \<Rightarrow> rat \<Rightarrow> string \<Rightarrow> args \<Rightarrow> rengine \<Rightarrow> (revoco_error + reversal_plan) \<times> events" where
  "plan cb w pid now tool args eng =
     (let (spec, ev) = spec_for cb w tool (Some args) eng in
      case spec of
        None \<Rightarrow> (Inr (empty_plan pid now tool UNKNOWN), ev)
      | Some s \<Rightarrow>
         (let (snapshot, snapshot_error) = capture_snapshot cb w tool args s;
              (effective, ev') = classify cb w tool (Some args) eng
          in if \<not> is_undoable effective \<and> is_undoable (sp_kind s) then
               (Inr ((empty_plan pid now tool effective)
                      \<lparr>rp_snapshot := snapshot, rp_residue := sp_residue s,
                       rp_snapshot_error := snapshot_error, rp_gates := sp_gates s,
                       rp_one_shot := sp_one_shot s\<rparr>), ev @ ev')
             else
               (case plan_steps args snapshot (effective_steps s) of
                  Inl e \<Rightarrow> (Inl e, ev @ ev')
                | Inr planned \<Rightarrow>
                   (let p = \<lparr>rp_id = pid, rp_tool = tool, rp_kind = sp_kind s,
                         rp_inverse_tool = head_tool planned, rp_inverse_args = head_args planned,
                         rp_unresolved_args = dedup (concat (map ps_unresolved planned)),
                         rp_snapshot = snapshot, rp_window_seconds = sp_window_seconds s,
                         rp_residue = sp_residue s, rp_created_at = now,
                         rp_snapshot_error = snapshot_error,
                         rp_deferred_args = dedup (concat (map ps_deferred planned)),
                         rp_steps = planned, rp_gates = sp_gates s, rp_one_shot = sp_one_shot s\<rparr>
                    in (Inr p, ev @ ev' @ [(''reversal_plan'', plan_to_dict p)])))))"

definition open_journal ::
  "string \<Rightarrow> reversal_plan \<Rightarrow> string option \<Rightarrow> string option \<Rightarrow> string \<Rightarrow> rengine \<Rightarrow> journal_entry \<times> rengine" where
  "open_journal jid p actor_id delegation_id session_id eng =
     (let e = \<lparr>je_id = jid, je_plan = p, je_state = PLANNED, je_action_id = None,
               je_delegation_id = delegation_id, je_session_id = session_id, je_actor_id = actor_id,
               je_committed_at = None, je_resolved_at = None, je_reversal_result = VNone,
               je_error = None, je_note = [], je_history = []\<rparr>
      in (e, eng\<lparr>re_journal := AList.update jid e (re_journal eng)\<rparr>))"

definition put_entry :: "journal_entry \<Rightarrow> rengine \<Rightarrow> rengine" where
  "put_entry e eng = eng\<lparr>re_journal := AList.update (je_id e) e (re_journal eng)\<rparr>"

definition require_entry :: "string \<Rightarrow> rengine \<Rightarrow> revoco_error + journal_entry" where
  "require_entry jid eng =
     (case map_of (re_journal eng) jid of None \<Rightarrow> Inl ReversalPlanMissing | Some e \<Rightarrow> Inr e)"

section \<open>Commit and abandon\<close>

text \<open>\<open>{s.name: s for s in steps}\<close>: the last step of a name wins.\<close>

definition by_name :: "inverse_step list \<Rightarrow> string \<Rightarrow> inverse_step option" where
  "by_name steps = map_of (rev (map (\<lambda>s. (st_name s, s)) steps))"

text \<open>\<open>for name in names: if name in src: dst[name] = src[name]\<close>.\<close>

fun bind_names :: "string list \<Rightarrow> args \<Rightarrow> args \<Rightarrow> args" where
  "bind_names [] src dst = dst"
| "bind_names (n # ns) src dst =
     bind_names ns src (case map_of src n of None \<Rightarrow> dst | Some v \<Rightarrow> AList.update n v dst)"

definition commit_roots :: "args \<Rightarrow> val \<Rightarrow> roots" where
  "commit_roots snapshot result =
     \<lparr>root_args = [], root_snapshot = snapshot, root_result = result, root_steps = []\<rparr>"

definition rebind_step ::
  "(string \<Rightarrow> inverse_step option) \<Rightarrow> args \<Rightarrow> val \<Rightarrow> planned_step \<Rightarrow> revoco_error + planned_step" where
  "rebind_step steps snapshot result ps =
     (case steps (ps_name ps) of
        None \<Rightarrow> Inr ps
      | Some step \<Rightarrow>
          bind_err (step_resolve step (commit_roots snapshot result) True False) (\<lambda>x.
            (let merged = bind_names (step_needs_result step) (rs_out x) (ps_args ps);
                 still_deferred = filter (\<lambda>n. n \<notin> dkeys merged) (ps_deferred ps);
                 unresolved = dedup (filter (\<lambda>n. n \<notin> dkeys merged) (ps_unresolved ps) @ still_deferred)
             in Inr (ps\<lparr>ps_args := merged, ps_unresolved := unresolved, ps_deferred := []\<rparr>))))"

fun rebind_steps ::
  "(string \<Rightarrow> inverse_step option) \<Rightarrow> args \<Rightarrow> val \<Rightarrow> planned_step list \<Rightarrow> revoco_error + planned_step list" where
  "rebind_steps steps snapshot result [] = Inr []"
| "rebind_steps steps snapshot result (p # ps) =
     bind_err (rebind_step steps snapshot result p) (\<lambda>q.
     bind_err (rebind_steps steps snapshot result ps) (\<lambda>qs. Inr (q # qs)))"

definition rebound_plan :: "planned_step list \<Rightarrow> reversal_plan \<Rightarrow> reversal_plan" where
  "rebound_plan rebound p = p\<lparr>rp_inverse_tool := head_tool rebound, rp_inverse_args := head_args rebound,
     rp_unresolved_args := dedup (concat (map ps_unresolved rebound)),
     rp_deferred_args := [], rp_steps := rebound\<rparr>"

definition commit_plan :: "val \<Rightarrow> reversal_plan \<Rightarrow> rengine \<Rightarrow> revoco_error + reversal_plan" where
  "commit_plan result p eng =
     (case registry_get (rp_tool p) (re_registry eng) of
        None \<Rightarrow> Inr p
      | Some spec \<Rightarrow>
          if is_undoable (rp_kind p) then
            bind_err (rebind_steps (by_name (effective_steps spec)) (rp_snapshot p) result (rp_steps p))
              (\<lambda>rebound. Inr (rebound_plan rebound p))
          else Inr p)"

definition commit ::
  "string \<Rightarrow> string \<Rightarrow> val \<Rightarrow> rat \<Rightarrow> rengine \<Rightarrow> (revoco_error + journal_entry) \<times> rengine \<times> events" where
  "commit journal_id action_id result now eng =
     (case bind_err (require_entry journal_id eng) (\<lambda>e.
             bind_err (commit_plan result (je_plan e) eng) (\<lambda>p. Inr (e, p))) of
        Inl err \<Rightarrow> (Inl err, eng, [])
      | Inr (e, p) \<Rightarrow>
         (let e' = transition COMMITTED [] now (e\<lparr>je_plan := p, je_action_id := Some action_id\<rparr>);
              eng' = put_entry e' (eng\<lparr>re_by_action := AList.update action_id (je_id e) (re_by_action eng)\<rparr>)
          in (Inr e', eng', [(''reversal_commit'', entry_to_dict e')])))"

definition abandon ::
  "string \<Rightarrow> string \<Rightarrow> rat \<Rightarrow> rengine \<Rightarrow> (revoco_error + journal_entry) \<times> rengine \<times> events" where
  "abandon journal_id reason now eng =
     (case require_entry journal_id eng of
        Inl err \<Rightarrow> (Inl err, eng, [])
      | Inr e \<Rightarrow>
         (let e' = transition ABANDONED reason now e
          in (Inr e', put_entry e' eng, [(''reversal_abandon'', entry_to_dict e')])))"

section \<open>Executing an undo\<close>

definition check_gates :: "'w seams \<Rightarrow> 'w \<Rightarrow> journal_entry \<Rightarrow> string list" where
  "check_gates cb w e =
     closed_gates cb w (filter checked_at_undo (rp_gates (je_plan e))) (rp_tool (je_plan e))
       (rp_inverse_args (je_plan e)) (Some e) PhUndo"

record run_state =
  rn_results :: args
  rn_outcomes :: "step_result list"
  rn_ok :: bool
  rn_error :: "string option"
  rn_aborted :: bool

definition run_init :: run_state where
  "run_init = \<lparr>rn_results = [], rn_outcomes = [], rn_ok = True, rn_error = None, rn_aborted = False\<rparr>"

definition skip_result :: "planned_step \<Rightarrow> step_result" where
  "skip_result ps = \<lparr>sr_name = ps_name ps, sr_tool = ps_tool ps, sr_args = [], sr_ok = False,
     sr_result = VNone, sr_error = Some ''not attempted: an earlier critical step failed'',
     sr_skipped = True\<rparr>"

definition fail_result :: "planned_step \<Rightarrow> args \<Rightarrow> string \<Rightarrow> step_result" where
  "fail_result ps args err = \<lparr>sr_name = ps_name ps, sr_tool = ps_tool ps, sr_args = args,
     sr_ok = False, sr_result = VNone, sr_error = Some err, sr_skipped = False\<rparr>"

definition ok_result :: "planned_step \<Rightarrow> args \<Rightarrow> val \<Rightarrow> step_result" where
  "ok_result ps args res = \<lparr>sr_name = ps_name ps, sr_tool = ps_tool ps, sr_args = args,
     sr_ok = True, sr_result = res, sr_error = None, sr_skipped = False\<rparr>"

text \<open>
  Late binding of a step's arguments from earlier results: the arguments to send, and the names
  still missing.
\<close>

definition late_args ::
  "(string \<Rightarrow> inverse_step option) \<Rightarrow> args \<Rightarrow> args \<Rightarrow> planned_step \<Rightarrow> revoco_error + (args \<times> string list)" where
  "late_args steps snapshot results ps =
     (if ps_from_prior_step ps = [] then Inr (ps_args ps, [])
      else case steps (ps_name ps) of
        None \<Rightarrow> Inr (ps_args ps, [])
      | Some step \<Rightarrow>
          bind_err (step_resolve step
              \<lparr>root_args = [], root_snapshot = snapshot, root_result = VNone, root_steps = results\<rparr> True True)
            (\<lambda>x. Inr (bind_names (ps_from_prior_step ps) (rs_out x) (ps_args ps), rs_from_step x)))"

definition run_step ::
  "'w executor \<Rightarrow> (string \<Rightarrow> inverse_step option) \<Rightarrow> args \<Rightarrow> planned_step \<Rightarrow> run_state \<Rightarrow> 'w
   \<Rightarrow> revoco_error + (run_state \<times> 'w)" where
  "run_step exec steps snapshot ps rn w =
     (if rn_aborted rn then Inr (rn\<lparr>rn_outcomes := rn_outcomes rn @ [skip_result ps]\<rparr>, w)
      else bind_err (late_args steps snapshot (rn_results rn) ps) (\<lambda>(args, pending).
        if pending \<noteq> [] then
          (let err = ''step '' @ repr_str (ps_name ps) @ '': arguments '' @ repr_strs pending
                     @ '' could not be resolved from earlier step results''
           in Inr (rn\<lparr>rn_ok := False, rn_error := Some err,
                      rn_outcomes := rn_outcomes rn @ [fail_result ps args err],
                      rn_aborted := ps_critical ps\<rparr>, w))
        else (case exec w (ps_tool ps) args of
            (Inr res, w') \<Rightarrow>
              Inr (rn\<lparr>rn_results := AList.update (ps_name ps) (result_root res) (rn_results rn),
                      rn_outcomes := rn_outcomes rn @ [ok_result ps args res]\<rparr>, w')
          | (Inl exc, w') \<Rightarrow>
              Inr (rn\<lparr>rn_ok := False,
                      rn_error := Some (''step '' @ repr_str (ps_name ps) @ '' failed: '' @ exn_text exc),
                      rn_outcomes := rn_outcomes rn @ [fail_result ps args (exn_text exc)],
                      rn_aborted := ps_critical ps\<rparr>, w'))))"

text \<open>
  A step that raises inside the loop (only the resolution of a malformed source can) leaves the
  world as the steps before it made it.
\<close>

fun run_steps ::
  "'w executor \<Rightarrow> (string \<Rightarrow> inverse_step option) \<Rightarrow> args \<Rightarrow> planned_step list \<Rightarrow> run_state \<Rightarrow> 'w
   \<Rightarrow> (revoco_error + run_state) \<times> 'w" where
  "run_steps exec steps snapshot [] rn w = (Inr rn, w)"
| "run_steps exec steps snapshot (p # ps) rn w =
     (case run_step exec steps snapshot p rn w of
        Inl e \<Rightarrow> (Inl e, w)
      | Inr (rn', w') \<Rightarrow> run_steps exec steps snapshot ps rn' w')"

definition resolve_ref :: "string \<Rightarrow> rengine \<Rightarrow> revoco_error + journal_entry" where
  "resolve_ref ref eng =
     (case map_of (re_journal eng) ref of
        Some e \<Rightarrow> Inr e
      | None \<Rightarrow>
         (case map_of (re_by_action eng) ref of
            None \<Rightarrow> Inl ReversalPlanMissing
          | Some jid \<Rightarrow>
             (case map_of (re_journal eng) jid of
                None \<Rightarrow> Inl (Raised (PyExn ''KeyError'' jid))
              | Some e \<Rightarrow> Inr e)))"

definition gate_blocked_event :: "journal_entry \<Rightarrow> string list \<Rightarrow> rat \<Rightarrow> string \<times> val" where
  "gate_blocked_event e shut when =
     (''reversal_gate_blocked'',
      VDict [(''journal_id'', VStr (je_id e)), (''action_id'', v_opt_str (je_action_id e)),
             (''tool'', VStr (rp_tool (je_plan e))), (''closed_gates'', v_strs shut),
             (''at'', VFloat (Fin when))])"

definition gate_message :: "journal_entry \<Rightarrow> string list \<Rightarrow> string" where
  "gate_message e shut = rp_tool (je_plan e) @ '': undo blocked by '' @ show_nat (length shut)
     @ '' precondition(s): '' @ join ''; '' shut"

text \<open>The refusals of \<open>reverse\<close> that leave no trace, in the order the source checks them.\<close>

definition reverse_refusal :: "journal_entry \<Rightarrow> revoco_error option" where
  "reverse_refusal e =
     (if je_state e = REVERSED then Some AlreadyReversed
      else if je_state e = PLANNED then Some ReversalPlanMissing
      else if je_state e \<in> {ABANDONED, EXPIRED} then Some ReversalPlanMissing
      else if \<not> is_executable (je_plan e) then Some NotReversible
      else if rp_unresolved_args (je_plan e) \<noteq> [] then Some NotReversible
      else None)"

definition finish_reverse ::
  "string \<Rightarrow> rat \<Rightarrow> run_state \<Rightarrow> journal_entry \<Rightarrow> reversal_receipt \<times> journal_entry" where
  "finish_reverse rid when rn e =
     (let e1 = e\<lparr>je_reversal_result := VDict (rn_results rn), je_error := rn_error rn\<rparr>;
          e2 = transition (if rn_ok rn then REVERSED else FAILED)
                 (case rn_error rn of None \<Rightarrow> [] | Some m \<Rightarrow> m) when e1;
          p = je_plan e
      in (\<lparr>rc_id = rid, rc_journal_id = je_id e, rc_action_id = je_action_id e, rc_tool = rp_tool p,
           rc_inverse_tool = head_tool (rp_steps p), rc_kind = rp_kind p, rc_ok = rn_ok rn,
           rc_state = je_state e2, rc_residue = rp_residue p, rc_error = rn_error rn,
           rc_executed_args = head_args (rp_steps p), rc_result = VDict (rn_results rn), rc_at = when,
           rc_steps = rn_outcomes rn, rc_one_shot = rp_one_shot p\<rparr>, e2))"

definition reverse ::
  "'w seams \<Rightarrow> 'w executor \<Rightarrow> string \<Rightarrow> string \<Rightarrow> rat \<Rightarrow> bool \<Rightarrow> rengine \<Rightarrow> 'w
   \<Rightarrow> (revoco_error + reversal_receipt) \<times> rengine \<times> events \<times> 'w" where
  "reverse cb exec rid ref when force_expired eng w =
     (case resolve_ref ref eng of
        Inl err \<Rightarrow> (Inl err, eng, [], w)
      | Inr e \<Rightarrow>
         (case reverse_refusal e of
            Some err \<Rightarrow> (Inl err, eng, [], w)
          | None \<Rightarrow>
             if entry_is_expired when e \<and> \<not> force_expired then
               (let e' = transition EXPIRED ''window closed'' when e
                in (Inl ReversalWindowExpired, put_entry e' eng,
                    [(''reversal_expired'', entry_to_dict e')], w))
             else
               (let shut = check_gates cb w e in
                if shut \<noteq> [] then
                  (Inl (ReversalGateClosed (gate_message e shut)), eng, [gate_blocked_event e shut when], w)
                else
                  (let steps = (case registry_get (rp_tool (je_plan e)) (re_registry eng) of
                                  None \<Rightarrow> by_name []
                                | Some spec \<Rightarrow> by_name (effective_steps spec))
                   in case run_steps exec steps (rp_snapshot (je_plan e)) (rp_steps (je_plan e)) run_init w of
                        (Inl err, w') \<Rightarrow> (Inl err, eng, [], w')
                      | (Inr rn, w') \<Rightarrow>
                          (let (receipt, e') = finish_reverse rid when rn e
                           in (Inr receipt, put_entry e' eng,
                               [(''reversal_executed'', receipt_to_dict receipt)], w'))))))"

end
