(* ===== verification/UndoCascade.thy ===== *)
theory UndoCascade
  imports UndoEngine
begin

text \<open>
  The cascade of \<open>reversal/engine.py\<close>, which undoes a set of actions newest first, the sweep of
  expired windows and the journal's queries.
\<close>

section \<open>Cascade\<close>

record cascade_state =
  cs_receipts :: "reversal_receipt list"
  cs_residues :: "string list"
  cs_gate_blocks :: "string list"
  cs_failed :: nat
  cs_skipped :: nat
  cs_ok :: nat
  cs_stopped :: bool

definition cascade_init :: cascade_state where
  "cascade_init = \<lparr>cs_receipts = [], cs_residues = [], cs_gate_blocks = [], cs_failed = 0,
     cs_skipped = 0, cs_ok = 0, cs_stopped = False\<rparr>"

definition add_residue :: "string \<Rightarrow> cascade_state \<Rightarrow> cascade_state" where
  "add_residue r cs = (if r \<noteq> [] then cs\<lparr>cs_residues := cs_residues cs @ [r]\<rparr> else cs)"

text \<open>What the loop body does with the outcome of one \<open>reverse\<close>; an error it does not catch
  leaves the cascade.\<close>

fun cascade_account ::
  "bool \<Rightarrow> string \<Rightarrow> revoco_error + reversal_receipt \<Rightarrow> cascade_state \<Rightarrow> revoco_error + cascade_state" where
  "cascade_account stop residue (Inl (ReversalGateClosed msg)) cs =
     Inr (add_residue residue (cs\<lparr>cs_skipped := cs_skipped cs + 1,
                                  cs_gate_blocks := cs_gate_blocks cs @ [msg]\<rparr>))"
| "cascade_account stop residue (Inl err) cs =
     (if err \<in> {NotReversible, ReversalWindowExpired, ReversalPlanMissing, AlreadyReversed}
      then Inr (add_residue residue (cs\<lparr>cs_skipped := cs_skipped cs + 1\<rparr>))
      else Inl err)"
| "cascade_account stop residue (Inr r) cs =
     (let cs1 = add_residue (rc_residue r) (cs\<lparr>cs_receipts := cs_receipts cs @ [r]\<rparr>)
      in if rc_ok r then Inr (cs1\<lparr>cs_ok := cs_ok cs1 + 1\<rparr>)
         else Inr (cs1\<lparr>cs_failed := cs_failed cs1 + 1, cs_stopped := stop\<rparr>))"

fun cascade_loop ::
  "'w seams \<Rightarrow> 'w executor \<Rightarrow> (nat \<Rightarrow> string) \<Rightarrow> rat \<Rightarrow> bool \<Rightarrow> journal_entry list \<Rightarrow> cascade_state
   \<Rightarrow> rengine \<Rightarrow> 'w \<Rightarrow> (revoco_error + cascade_state) \<times> rengine \<times> events \<times> 'w" where
  "cascade_loop cb exec rids now stop [] cs eng w = (Inr cs, eng, [], w)"
| "cascade_loop cb exec rids now stop (e # es) cs eng w =
     (let (res, eng1, ev1, w1) =
            reverse cb exec (rids (length (cs_receipts cs))) (je_id e) now False eng w
      in case cascade_account stop (rp_residue (je_plan e)) res cs of
           Inl err \<Rightarrow> (Inl err, eng1, ev1, w1)
         | Inr cs1 \<Rightarrow>
            if cs_stopped cs1 then (Inr cs1, eng1, ev1, w1)
            else (let (res2, eng2, ev2, w2) = cascade_loop cb exec rids now stop es cs1 eng1 w1
                  in (res2, eng2, ev1 @ ev2, w2)))"

text \<open>The entries of the journal an explicit list of actions names, in the list's order.\<close>

definition entries_of_actions :: "string list \<Rightarrow> rengine \<Rightarrow> journal_entry list" where
  "entries_of_actions wanted eng =
     List.map_filter (\<lambda>a. case map_of (re_by_action eng) a of
        None \<Rightarrow> None | Some jid \<Rightarrow> map_of (re_journal eng) jid) wanted"

definition journal_values :: "rengine \<Rightarrow> journal_entry list" where
  "journal_values eng = map snd (re_journal eng)"

definition select_entries ::
  "string option \<Rightarrow> string option \<Rightarrow> string list option \<Rightarrow> rengine
   \<Rightarrow> revoco_error + (journal_entry list \<times> string \<times> string)" where
  "select_entries session_id delegation_id action_ids eng =
     (case (session_id, delegation_id, action_ids) of
        (None, None, Some wanted) \<Rightarrow>
          Inr (entries_of_actions wanted eng, ''explicit'', show_nat (length wanted) @ '' actions'')
      | (Some s, None, None) \<Rightarrow>
          Inr (filter (\<lambda>e. je_session_id e = s) (journal_values eng), ''session'', s)
      | (None, Some d, None) \<Rightarrow>
          Inr (filter (\<lambda>e. je_delegation_id e = Some d) (journal_values eng), ''delegation'', d)
      | _ \<Rightarrow> Inl (Raised (PyExn ''ValueError'' ''pass exactly one of session_id, delegation_id, action_ids'')))"

definition commit_time :: "journal_entry \<Rightarrow> rat" where
  "commit_time e = (case je_committed_at e of None \<Rightarrow> 0 | Some t \<Rightarrow> t)"

definition live_newest_first :: "journal_entry list \<Rightarrow> journal_entry list" where
  "live_newest_first es = sort_desc commit_time (filter (\<lambda>e. je_state e = COMMITTED) es)"

definition cascade_finish ::
  "string \<Rightarrow> string \<Rightarrow> journal_entry list \<Rightarrow> cascade_state \<Rightarrow> cascade_report" where
  "cascade_finish kind sid live cs =
     \<lparr>cr_scope_kind = kind, cr_scope_id = sid, cr_attempted = length live, cr_reversed_ok = cs_ok cs,
      cr_failed = cs_failed cs, cr_skipped = cs_skipped cs, cr_receipts = cs_receipts cs,
      cr_residues = dedup (cs_residues cs), cr_stopped_early = cs_stopped cs,
      cr_blocked_by_gates = cs_gate_blocks cs\<rparr>"

definition reverse_cascade ::
  "'w seams \<Rightarrow> 'w executor \<Rightarrow> (nat \<Rightarrow> string) \<Rightarrow> string option \<Rightarrow> string option \<Rightarrow> string list option
   \<Rightarrow> bool \<Rightarrow> rat \<Rightarrow> rengine \<Rightarrow> 'w \<Rightarrow> (revoco_error + cascade_report) \<times> rengine \<times> events \<times> 'w" where
  "reverse_cascade cb exec rids session_id delegation_id action_ids stop now eng w =
     (case select_entries session_id delegation_id action_ids eng of
        Inl err \<Rightarrow> (Inl err, eng, [], w)
      | Inr (es, kind, sid) \<Rightarrow>
         (let live = live_newest_first es;
              (res, eng', ev, w') = cascade_loop cb exec rids now stop live cascade_init eng w
          in case res of
               Inl err \<Rightarrow> (Inl err, eng', ev, w')
             | Inr cs \<Rightarrow> (Inr (cascade_finish kind sid live cs), eng', ev, w')))"

section \<open>Maintenance and queries\<close>

definition expire_entry :: "rat \<Rightarrow> journal_entry \<Rightarrow> journal_entry" where
  "expire_entry when e =
     (if je_state e = COMMITTED \<and> entry_is_expired when e
      then transition EXPIRED ''window closed'' when e else e)"

definition expire_stale :: "rat \<Rightarrow> rengine \<Rightarrow> string list \<times> rengine \<times> events" where
  "expire_stale when eng =
     (let due = filter (\<lambda>e. je_state e = COMMITTED \<and> entry_is_expired when e) (journal_values eng)
      in (map je_id due,
          eng\<lparr>re_journal := map (\<lambda>(k, e). (k, expire_entry when e)) (re_journal eng)\<rparr>,
          map (\<lambda>e. (''reversal_expired'', entry_to_dict (expire_entry when e))) due))"

definition get_entry :: "string \<Rightarrow> rengine \<Rightarrow> journal_entry option" where
  "get_entry jid eng = map_of (re_journal eng) jid"

definition entry_for_action :: "string \<Rightarrow> rengine \<Rightarrow> journal_entry option" where
  "entry_for_action aid eng =
     (case map_of (re_by_action eng) aid of
        None \<Rightarrow> None
      | Some jid \<Rightarrow> if jid = [] then None else map_of (re_journal eng) jid)"

definition entry_time :: "journal_entry \<Rightarrow> rat" where
  "entry_time e =
     (case je_committed_at e of
        None \<Rightarrow> rp_created_at (je_plan e)
      | Some t \<Rightarrow> if t = 0 then rp_created_at (je_plan e) else t)"

definition entries ::
  "journal_state option \<Rightarrow> string option \<Rightarrow> string option \<Rightarrow> rengine \<Rightarrow> journal_entry list" where
  "entries state session_id delegation_id eng =
     sort_key entry_time
       (filter (\<lambda>e. (case state of None \<Rightarrow> True | Some s \<Rightarrow> je_state e = s)
          \<and> (case session_id of None \<Rightarrow> True | Some s \<Rightarrow> je_session_id e = s)
          \<and> (case delegation_id of None \<Rightarrow> True | Some d \<Rightarrow> je_delegation_id e = Some d))
        (journal_values eng))"

definition undoable_entries :: "rat \<Rightarrow> string option \<Rightarrow> string option \<Rightarrow> rengine \<Rightarrow> journal_entry list" where
  "undoable_entries now session_id delegation_id eng =
     filter (\<lambda>e. is_complete (je_plan e) \<and> \<not> entry_is_expired now e)
       (entries (Some COMMITTED) session_id delegation_id eng)"

definition count_state :: "journal_state \<Rightarrow> rengine \<Rightarrow> nat" where
  "count_state s eng = length (filter (\<lambda>e. je_state e = s) (journal_values eng))"

record engine_stats =
  es_journal_entries :: nat
  es_by_state :: "(string \<times> nat) list"
  es_undoable_now :: nat
  es_registered :: nat

definition engine_stats_of :: "rat \<Rightarrow> rengine \<Rightarrow> engine_stats" where
  "engine_stats_of now eng =
     \<lparr>es_journal_entries = length (re_journal eng),
      es_by_state = map (\<lambda>s. (state_value s, count_state s eng))
        [PLANNED, COMMITTED, ABANDONED, REVERSED, FAILED, EXPIRED],
      es_undoable_now = length (undoable_entries now None None eng),
      es_registered = length (registry_all (re_registry eng))\<rparr>"

end
