(* ===== verification/UndoFacts.thy ===== *)
theory UndoFacts
  imports UndoCascade
begin

text \<open>
  What the undo engine guarantees: classification never raises a posture, a plan says what it lacks,
  a commit binds or names every deferred argument, an undo sends complete calls in order and stops
  at a failed critical step, a refused undo touches nothing.
\<close>

section \<open>Classification\<close>

text \<open>Every spec a classifier returns went through its constructor.\<close>

definition wf_seams :: "'w seams \<Rightarrow> bool" where
  "wf_seams cb \<longleftrightarrow>
     (\<forall>f w tool a s. command_classifier cb = Some f \<longrightarrow> f w tool a = Inr (CSpec s) \<longrightarrow> wf_spec s)"

lemma apply_hook_le: "fst (apply_hook cb w tool k) \<le> k"
  by (auto simp: apply_hook_def posture_order split: option.splits sum.splits hook_answer.splits)

lemma spec_for_wf:
  assumes "registry_inv (re_registry eng)" "wf_seams cb" "fst (spec_for cb w tool a eng) = Some s"
  shows "wf_spec s"
  using assms registry_get_wf unfolding spec_for_def wf_seams_def
  by (auto split: option.splits sum.splits classifier_answer.splits)

lemma spec_for_declared:
  "registry_get tool (re_registry eng) = Some s \<Longrightarrow> spec_for cb w tool a eng = (Some s, [])"
  by (simp add: spec_for_def)

text \<open>The posture before the hook: the degraded kind when some authorize-phase gate is closed.\<close>

definition gated_kind :: "'w seams \<Rightarrow> 'w \<Rightarrow> string \<Rightarrow> args option \<Rightarrow> inverse_spec \<Rightarrow> reversibility" where
  "gated_kind cb w tool a s =
     (case a of None \<Rightarrow> sp_kind s
      | Some args \<Rightarrow> if closed_gates cb w (authorize_gates s) tool args None PhAuthorize \<noteq> []
                     then sp_degraded_kind s else sp_kind s)"

lemma closed_gates_Nil [simp]: "closed_gates cb w [] tool args entry ph = []"
  by (simp add: closed_gates_def List.map_filter_simps)

lemma closed_gates_Nil_iff:
  "closed_gates cb w gs tool args entry ph = [] \<longleftrightarrow>
   (\<forall>g \<in> set gs. gate_closed cb w tool args entry ph g = None)"
  unfolding closed_gates_def
  by (induction gs) (auto simp: List.map_filter_simps split: option.splits)

lemma classify_spec:
  assumes "fst (spec_for cb w tool a eng) = Some s"
  shows "fst (classify cb w tool a eng) = fst (apply_hook cb w tool (gated_kind cb w tool a s))"
  using assms by (cases a) (simp_all add: classify_def gated_kind_def split_beta Let_def)

lemma gated_kind_le: "wf_spec s \<Longrightarrow> gated_kind cb w tool a s \<le> sp_kind s"
  by (auto simp: gated_kind_def wf_spec_degraded split: option.splits)

lemma classify_le:
  assumes "fst (spec_for cb w tool a eng) = Some s" "wf_spec s"
  shows "fst (classify cb w tool a eng) \<le> sp_kind s"
  unfolding classify_spec [OF assms(1)]
  using apply_hook_le gated_kind_le [OF assms(2)] by (rule order_trans)

lemma classify_unknown:
  "fst (spec_for cb w tool a eng) = None \<Longrightarrow> fst (classify cb w tool a eng) = UNKNOWN"
  unfolding classify_def Let_def by (cases "spec_for cb w tool a eng") auto

lemma classify_closed_gate:
  assumes "fst (spec_for cb w tool (Some args) eng) = Some s"
    and "g \<in> set (authorize_gates s)"
    and "gate_closed cb w tool args None PhAuthorize g \<noteq> None"
  shows "fst (classify cb w tool (Some args) eng) \<le> sp_degraded_kind s"
proof -
  have "gated_kind cb w tool (Some args) s = sp_degraded_kind s"
    using assms(2,3) by (auto simp: gated_kind_def closed_gates_Nil_iff)
  then show ?thesis
    using classify_spec [OF assms(1)] apply_hook_le by metis
qed

section \<open>Planning\<close>

lemma plan_steps_length: "plan_steps a sn ss = Inr ps \<Longrightarrow> length ps = length ss"
  by (induction ss arbitrary: ps) auto

lemma plan_steps_map:
  "plan_steps a sn ss = Inr ps \<Longrightarrow>
     map ps_name ps = map st_name ss \<and> map ps_tool ps = map st_tool ss
   \<and> map ps_critical ps = map st_critical ss"
  by (induction ss arbitrary: ps) (auto simp: plan_step_def)

lemma plan_steps_nth:
  "plan_steps a sn ss = Inr ps \<Longrightarrow> i < length ss \<Longrightarrow> plan_step a sn (ss ! i) = Inr (ps ! i)"
proof (induction ss arbitrary: ps i)
  case Nil
  then show ?case by simp
next
  case (Cons s ss)
  then show ?case by (cases i) auto
qed

text \<open>The shape every plan has, whichever branch built it.\<close>

definition plan_inv :: "reversal_plan \<Rightarrow> bool" where
  "plan_inv p \<longleftrightarrow> (is_undoable (rp_kind p) \<longleftrightarrow> rp_steps p \<noteq> [])
     \<and> set (rp_unresolved_args p) = (\<Union>s \<in> set (rp_steps p). set (ps_unresolved s))"

lemma empty_plan_inv: "\<not> is_undoable k \<Longrightarrow> plan_inv (empty_plan pid now tool k)"
  by (simp add: plan_inv_def empty_plan_def)

lemma plan_inv_plan:
  assumes inv: "registry_inv (re_registry eng)" and wf: "wf_seams cb"
    and p: "fst (plan cb w pid now tool args eng) = Inr p"
  shows "plan_inv p \<and> rp_id p = pid \<and> rp_tool p = tool \<and> rp_created_at p = now"
proof (cases "fst (spec_for cb w tool (Some args) eng)")
  case None
  with p have "p = empty_plan pid now tool UNKNOWN"
    unfolding plan_def Let_def by (auto split: prod.splits)
  moreover have "plan_inv (empty_plan pid now tool UNKNOWN)" by (rule empty_plan_inv) simp
  ultimately show ?thesis by (simp add: empty_plan_def)
next
  case (Some s)
  let ?eff = "fst (classify cb w tool (Some args) eng)"
  have wfs: "wf_spec s" using spec_for_wf [OF inv wf Some] .
  show ?thesis
  proof (cases "\<not> is_undoable ?eff \<and> is_undoable (sp_kind s)")
    case True
    with p Some show ?thesis
      unfolding plan_def Let_def
      by (auto simp: plan_inv_def empty_plan_def split: prod.splits)
  next
    case False
    with p Some obtain planned where ps: "plan_steps args (fst (capture_snapshot cb w tool args s)) (effective_steps s) = Inr planned"
        and p': "rp_steps p = planned" "rp_kind p = sp_kind s"
        "rp_unresolved_args p = dedup (concat (map ps_unresolved planned))"
        "rp_deferred_args p = dedup (concat (map ps_deferred planned))"
        "rp_id p = pid" "rp_tool p = tool" "rp_created_at p = now"
      unfolding plan_def Let_def
      by (auto split: prod.splits sum.splits)
    have "planned \<noteq> [] \<longleftrightarrow> effective_steps s \<noteq> []"
      using plan_steps_length [OF ps] by auto
    with p' wf_spec_undoable_iff [OF wfs] show ?thesis
      by (auto simp: plan_inv_def simp del: is_undoable.simps)
  qed
qed

section \<open>Binding at commit\<close>

lemma dkeys_bind_names: "dkeys (bind_names ns src dst) = dkeys dst \<union> (set ns \<inter> dkeys src)"
proof (induction ns src dst rule: bind_names.induct)
  case (1 src dst)
  then show ?case by simp
next
  case (2 n ns src dst)
  show ?case
  proof (cases "map_of src n")
    case None
    then have "n \<notin> dkeys src" by (simp add: map_of_None_dkeys)
    with 2 None show ?thesis by auto
  next
    case (Some v)
    then have "n \<in> dkeys src" by (rule map_of_Some_dkeys)
    with 2 Some show ?thesis by auto
  qed
qed

lemma bind_names_frame: "n \<notin> set ns \<Longrightarrow> map_of (bind_names ns src dst) n = map_of dst n"
  by (induction ns src dst rule: bind_names.induct) (auto split: option.splits)

lemma bind_names_bound:
  "n \<in> set ns \<Longrightarrow> map_of src n = Some v \<Longrightarrow> map_of (bind_names ns src dst) n = Some v"
proof (induction ns src dst rule: bind_names.induct)
  case (1 src dst)
  then show ?case by simp
next
  case (2 m ns src dst)
  then show ?case
    by (cases "n \<in> set ns") (auto simp: bind_names_frame split: option.splits)
qed

text \<open>The names a planned step accounts for.\<close>

definition ps_names :: "planned_step \<Rightarrow> string set" where
  "ps_names p = dkeys (ps_args p) \<union> set (ps_unresolved p) \<union> set (ps_deferred p) \<union> set (ps_from_prior_step p)"

definition step_names :: "inverse_step \<Rightarrow> string set" where
  "step_names st = dkeys (st_arg_map st) \<union> dkeys (st_static_args st)"

lemma plan_step_names:
  assumes "plan_step a sn st = Inr p"
  shows "ps_names p = step_names st"
proof -
  obtain x where x: "step_resolve st (plan_roots a sn) False False = Inr x"
    and p: "ps_args p = rs_out x" "ps_unresolved p = rs_unresolved x" "ps_deferred p = rs_deferred x"
      "ps_from_prior_step p = rs_from_step x"
    using assms by (auto simp: plan_step_def)
  have "ps_names p = rs_names x" by (simp add: ps_names_def rs_names_def p)
  also have "\<dots> = step_names st" using step_resolve_names [OF x] by (simp add: step_names_def)
  finally show ?thesis .
qed

lemma rebind_step_shape:
  assumes "rebind_step steps sn res p = Inr q"
  shows "ps_name q = ps_name p" "ps_tool q = ps_tool p" "ps_critical q = ps_critical p"
    "ps_from_prior_step q = ps_from_prior_step p" "dkeys (ps_args p) \<subseteq> dkeys (ps_args q)"
    "ps_names p \<subseteq> ps_names q"
    "steps (ps_name p) \<noteq> None \<Longrightarrow> ps_deferred q = []"
  using assms unfolding rebind_step_def Let_def ps_names_def
  by (auto simp: dkeys_bind_names split: option.splits)

text \<open>
  A deferred argument is bound from the response or becomes an unresolved one; nothing is lost.
\<close>

lemma rebind_step_deferred:
  assumes "rebind_step steps sn res p = Inr q" "steps (ps_name p) \<noteq> None" "n \<in> set (ps_deferred p)"
  shows "n \<in> dkeys (ps_args q) \<or> n \<in> set (ps_unresolved q)"
  using assms unfolding rebind_step_def Let_def by (auto split: option.splits)

text \<open>What was captured before the action ran stays as it was.\<close>

lemma rebind_step_frame:
  assumes "rebind_step steps sn res p = Inr q" "steps (ps_name p) = Some st" "n \<notin> set (step_needs_result st)"
  shows "map_of (ps_args q) n = map_of (ps_args p) n"
  using assms unfolding rebind_step_def Let_def by (auto simp: bind_names_frame)

lemma rebind_steps_nth:
  "rebind_steps steps sn res ps = Inr qs \<Longrightarrow>
   length qs = length ps \<and> (\<forall>i < length ps. rebind_step steps sn res (ps ! i) = Inr (qs ! i))"
proof (induction ps arbitrary: qs)
  case Nil
  then show ?case by simp
next
  case (Cons p ps)
  then obtain q qs' where q: "rebind_step steps sn res p = Inr q" "rebind_steps steps sn res ps = Inr qs'"
    and qs: "qs = q # qs'" by auto
  from Cons.IH [OF q(2)] q(1) qs show ?case by (auto simp: nth_Cons split: nat.splits)
qed

lemma rebind_steps_mem:
  "rebind_steps steps sn res ps = Inr qs \<Longrightarrow> q \<in> set qs \<Longrightarrow>
   \<exists>p \<in> set ps. rebind_step steps sn res p = Inr q"
  by (drule rebind_steps_nth) (metis in_set_conv_nth nth_mem)

lemma rebind_steps_tools: "rebind_steps steps sn res ps = Inr qs \<Longrightarrow> map ps_tool qs = map ps_tool ps"
  by (induction ps arbitrary: qs) (auto dest: rebind_step_shape(2))

lemma by_name_None_iff: "by_name steps n = None \<longleftrightarrow> n \<notin> st_name ` set steps"
  unfolding by_name_def by (simp add: map_of_eq_None_iff image_image)

lemma by_name_Some: "by_name steps n = Some s \<Longrightarrow> s \<in> set steps \<and> st_name s = n"
  unfolding by_name_def by (drule map_of_SomeD) auto

lemma by_name_distinct:
  assumes "distinct (map st_name steps)" "s \<in> set steps"
  shows "by_name steps (st_name s) = Some s"
proof -
  have "(st_name s, s) \<in> set (rev (map (\<lambda>s. (st_name s, s)) steps))" using assms(2) by auto
  moreover have "distinct (map fst (rev (map (\<lambda>s. (st_name s, s)) steps)))"
    using assms(1) by (simp add: rev_map [symmetric] comp_def)
  ultimately show ?thesis unfolding by_name_def by (rule map_of_is_SomeI [rotated])
qed

lemma plan_inv_rebound:
  assumes "plan_inv p" "rebind_steps steps sn res (rp_steps p) = Inr qs"
  shows "plan_inv (rebound_plan qs p)"
proof -
  have "length qs = length (rp_steps p)" using rebind_steps_nth [OF assms(2)] by simp
  then have "qs \<noteq> [] \<longleftrightarrow> rp_steps p \<noteq> []" by auto
  with assms(1) show ?thesis
    by (auto simp: plan_inv_def rebound_plan_def simp del: is_undoable.simps)
qed

section \<open>Running the steps of an undo\<close>

text \<open>The same executor, keeping a record of the calls it receives.\<close>

definition logged :: "'w executor \<Rightarrow> ('w \<times> (string \<times> args) list) executor" where
  "logged exec = (\<lambda>(w, l) tool args. (case exec w tool args of (r, w') \<Rightarrow> (r, (w', l @ [(tool, args)]))))"

lemma run_step_logged:
  "run_step (logged exec) steps sn p rn (w, l) =
   (case run_step exec steps sn p rn w of
      Inl e \<Rightarrow> Inl e
    | Inr (rn', w') \<Rightarrow>
        Inr (rn', (w', l @ (if rn_aborted rn then [] else
          case late_args steps sn (rn_results rn) p of
            Inr (args, []) \<Rightarrow> [(ps_tool p, args)] | _ \<Rightarrow> []))))"
  unfolding run_step_def
  by (cases "late_args steps sn (rn_results rn) p")
     (auto simp: logged_def Let_def split: prod.splits sum.splits list.splits)

text \<open>Recording does not change what an undo does.\<close>

lemma run_steps_logged:
  "fst (run_steps (logged exec) steps sn ps rn (w, l)) = fst (run_steps exec steps sn ps rn w)
   \<and> fst (snd (run_steps (logged exec) steps sn ps rn (w, l))) = snd (run_steps exec steps sn ps rn w)"
proof (induction ps arbitrary: rn w l)
  case Nil
  then show ?case by simp
next
  case (Cons p ps)
  show ?case
    by (cases "run_step exec steps sn p rn w") (auto simp: run_step_logged Cons.IH)
qed

text \<open>Every call an undo makes is a step's tool, with arguments that lack nothing.\<close>

definition complete_call :: "(string \<Rightarrow> inverse_step option) \<Rightarrow> args \<Rightarrow> planned_step list \<Rightarrow> string \<times> args \<Rightarrow> bool" where
  "complete_call steps sn ps c \<longleftrightarrow>
     (\<exists>p \<in> set ps. \<exists>results. fst c = ps_tool p \<and> late_args steps sn results p = Inr (snd c, []))"

lemma run_steps_calls:
  "run_steps (logged exec) steps sn ps rn (w, l) = (res, (w', l')) \<Longrightarrow>
   \<exists>calls. l' = l @ calls \<and> list_all (complete_call steps sn ps) calls \<and> length calls \<le> length ps"
proof (induction ps arbitrary: rn w l)
  case Nil
  then show ?case by simp
next
  case (Cons p ps)
  show ?case
  proof (cases "run_step exec steps sn p rn w")
    case (Inl e)
    with Cons.prems show ?thesis by (simp add: run_step_logged)
  next
    case (Inr x)
    obtain rn1 w1 where x: "x = (rn1, w1)" by fastforce
    define c where "c = (if rn_aborted rn then [] else
      case late_args steps sn (rn_results rn) p of Inr (args, []) \<Rightarrow> [(ps_tool p, args)] | _ \<Rightarrow> [])"
    have "run_steps (logged exec) steps sn ps rn1 (w1, l @ c) = (res, (w', l'))"
      using Cons.prems Inr x by (simp add: run_step_logged c_def)
    from Cons.IH [OF this] obtain calls where calls: "l' = l @ c @ calls"
      "list_all (complete_call steps sn ps) calls" "length calls \<le> length ps" by auto
    have "list_all (complete_call steps sn (p # ps)) c" "length c \<le> 1"
      unfolding c_def complete_call_def
      by (auto split: sum.splits list.splits)
    moreover have "list_all (complete_call steps sn (p # ps)) calls"
      using calls(2) by (auto simp: complete_call_def list_all_iff)
    ultimately show ?thesis using calls(1,3) by (intro exI [of _ "c @ calls"]) auto
  qed
qed

text \<open>After a critical step failed, the rest is reported as skipped and nothing is executed.\<close>

lemma run_steps_aborted:
  "rn_aborted rn \<Longrightarrow>
   run_steps exec steps sn ps rn w = (Inr (rn\<lparr>rn_outcomes := rn_outcomes rn @ map skip_result ps\<rparr>), w)"
  by (induction ps arbitrary: rn) (simp_all add: run_step_def)

lemma run_step_outcome:
  assumes "run_step exec steps sn p rn w = Inr (rn', w')"
  shows "\<exists>out. rn_outcomes rn' = rn_outcomes rn @ [out] \<and> sr_name out = ps_name p \<and> sr_tool out = ps_tool p"
    and "rn_ok rn' \<longleftrightarrow> rn_ok rn \<and> (rn_aborted rn \<or> sr_ok (last (rn_outcomes rn')))"
    and "rn_aborted rn' \<longleftrightarrow> rn_aborted rn \<or> (ps_critical p \<and> \<not> sr_ok (last (rn_outcomes rn')))"
    and "rn_ok rn = (rn_error rn = None) \<Longrightarrow> rn_ok rn' = (rn_error rn' = None)"
  using assms unfolding run_step_def
  by (auto simp: skip_result_def fail_result_def ok_result_def Let_def
      split: if_splits prod.splits sum.splits)

lemma run_steps_outcomes:
  "run_steps exec steps sn ps rn w = (Inr rn', w') \<Longrightarrow>
   \<exists>outs. rn_outcomes rn' = rn_outcomes rn @ outs
     \<and> map sr_name outs = map ps_name ps \<and> map sr_tool outs = map ps_tool ps"
proof (induction ps arbitrary: rn w)
  case Nil
  then show ?case by simp
next
  case (Cons p ps)
  then obtain rn1 w1 where r1: "run_step exec steps sn p rn w = Inr (rn1, w1)"
    and rest: "run_steps exec steps sn ps rn1 w1 = (Inr rn', w')"
    by (auto split: sum.splits)
  from run_step_outcome(1) [OF r1] Cons.IH [OF rest] show ?case by auto
qed

text \<open>A run is reported as good exactly when every step it reports succeeded.\<close>

lemma run_steps_ok:
  assumes "run_steps exec steps sn ps rn w = (Inr rn', w')"
    and "rn_ok rn \<longleftrightarrow> list_all sr_ok (rn_outcomes rn)" and "rn_aborted rn \<Longrightarrow> \<not> rn_ok rn"
    and "rn_ok rn = (rn_error rn = None)"
  shows "(rn_ok rn' \<longleftrightarrow> list_all sr_ok (rn_outcomes rn')) \<and> rn_ok rn' = (rn_error rn' = None)"
  using assms
proof (induction ps arbitrary: rn w)
  case Nil
  then show ?case by simp
next
  case (Cons p ps)
  then obtain rn1 w1 where r1: "run_step exec steps sn p rn w = Inr (rn1, w1)"
    and rest: "run_steps exec steps sn ps rn1 w1 = (Inr rn', w')"
    by (auto split: sum.splits)
  note out = run_step_outcome [OF r1]
  show ?case
  proof (rule Cons.IH [OF rest])
    show "rn_ok rn1 \<longleftrightarrow> list_all sr_ok (rn_outcomes rn1)"
      using out(1,2) Cons.prems(2,3) by (auto simp: list_all_iff)
    show "rn_aborted rn1 \<Longrightarrow> \<not> rn_ok rn1" using out(2,3) Cons.prems(3) by auto
    show "rn_ok rn1 = (rn_error rn1 = None)" using out(4) Cons.prems(4) by blast
  qed
qed

end
