(* ===== verification/UndoSafety.thy ===== *)
theory UndoSafety
  imports UndoFacts
begin

text \<open>
  The undo engine as a state machine: the invariant of its journal in every reachable state, what
  one \<open>reverse\<close> may and may not do, and the abstract saga that the running of steps refines.
\<close>

section \<open>Complete calls\<close>

lemma resolve_one_mono:
  "resolve_one r ir is n e acc = Inr acc' \<Longrightarrow>
   dkeys (rs_out acc) \<subseteq> dkeys (rs_out acc') \<and> set (rs_from_step acc) \<subseteq> set (rs_from_step acc')"
  unfolding resolve_one_def Let_def by (auto split: if_splits prod.splits option.splits)

lemma resolve_loop_mono:
  "resolve_loop r ir is m acc = Inr x \<Longrightarrow>
   dkeys (rs_out acc) \<subseteq> dkeys (rs_out x) \<and> set (rs_from_step acc) \<subseteq> set (rs_from_step x)"
  by (induction r ir "is" m acc rule: resolve_loop.induct)
     (auto split: sum.splits dest!: resolve_one_mono)

lemma resolve_one_step:
  "resolve_one r ir is n e acc = Inr acc' \<Longrightarrow> source_head e = ''step'' \<Longrightarrow>
   n \<in> dkeys (rs_out acc') \<or> n \<in> set (rs_from_step acc')"
  unfolding resolve_one_def source_head_def Let_def
  by (auto split: if_splits prod.splits option.splits)

text \<open>An argument taken from an earlier step is bound, or reported as pending.\<close>

lemma resolve_loop_step:
  "resolve_loop r ir is m acc = Inr x \<Longrightarrow> (n, e) \<in> set m \<Longrightarrow> source_head e = ''step'' \<Longrightarrow>
   n \<in> dkeys (rs_out x) \<or> n \<in> set (rs_from_step x)"
proof (induction r ir "is" m acc rule: resolve_loop.induct)
  case (1 r ir "is" acc)
  then show ?case by simp
next
  case (2 r ir "is" n' e' m acc)
  then obtain acc' where a: "resolve_one r ir is n' e' acc = Inr acc'"
    and rest: "resolve_loop r ir is m acc' = Inr x" by (auto split: sum.splits)
  show ?case
  proof (cases "(n, e) \<in> set m")
    case True
    with 2 a rest show ?thesis by blast
  next
    case False
    with "2.prems" have "n = n'" "e = e'" by auto
    with resolve_one_step [OF a] "2.prems"(3) resolve_loop_mono [OF rest] show ?thesis by blast
  qed
qed

lemma resolve_loop_from_step:
  "resolve_loop r ir is m acc = Inr x \<Longrightarrow> n \<in> set (rs_from_step x) \<Longrightarrow>
   n \<in> set (rs_from_step acc) \<or> (\<exists>e. (n, e) \<in> set m \<and> source_head e = ''step'')"
proof (induction r ir "is" m acc rule: resolve_loop.induct)
  case (1 r ir "is" acc)
  then show ?case by simp
next
  case (2 r ir "is" n' e' m acc)
  then obtain acc' where a: "resolve_one r ir is n' e' acc = Inr acc'"
    and rest: "resolve_loop r ir is m acc' = Inr x" by (auto split: sum.splits)
  from 2(1) [OF a rest 2(3)] show ?case
  proof
    assume "n \<in> set (rs_from_step acc')"
    moreover have "set (rs_from_step acc') \<subseteq> insert n' (set (rs_from_step acc))"
      using a unfolding resolve_one_def Let_def
      by (auto split: if_splits prod.splits option.splits)
    moreover have "source_head e' \<noteq> ''step'' \<Longrightarrow> rs_from_step acc' = rs_from_step acc"
      using resolve_one_gaps(3) [OF a] .
    ultimately show ?thesis by (cases "source_head e' = ''step''") auto
  qed auto
qed

text \<open>
  The pending arguments of a planned step are exactly sources of its spec's step, so once late
  binding reports nothing pending, every one of them is in the call.
\<close>

definition planned_from :: "inverse_step \<Rightarrow> planned_step \<Rightarrow> bool" where
  "planned_from st p \<longleftrightarrow> ps_name p = st_name st \<and> step_names st \<subseteq> ps_names p
     \<and> (\<forall>n \<in> set (ps_from_prior_step p). \<exists>e. (n, e) \<in> set (st_arg_map st) \<and> source_head e = ''step'')"

lemma plan_step_planned_from:
  assumes "plan_step a sn st = Inr p"
  shows "planned_from st p"
proof -
  obtain x where x: "step_resolve st (plan_roots a sn) False False = Inr x"
    and p: "ps_name p = st_name st" "ps_from_prior_step p = rs_from_step x"
    using assms by (auto simp: plan_step_def)
  show ?thesis
    using plan_step_names [OF assms] resolve_loop_from_step [OF x [unfolded step_resolve_def]] p
    unfolding planned_from_def by auto
qed

lemma rebind_step_planned_from:
  assumes "rebind_step steps sn res p = Inr q" "planned_from st p"
  shows "planned_from st q"
  using rebind_step_shape [OF assms(1)] assms(2) unfolding planned_from_def by auto

lemma late_args_complete:
  assumes "planned_from st p" "steps (ps_name p) = Some st"
    and "ps_unresolved p = []" "ps_deferred p = []"
    and "late_args steps sn results p = Inr (args, [])"
  shows "step_names st \<subseteq> dkeys args"
proof (cases "ps_from_prior_step p = []")
  case True
  with assms show ?thesis by (simp add: late_args_def planned_from_def ps_names_def)
next
  case False
  with assms(2,5) obtain x where x: "step_resolve st
        \<lparr>root_args = [], root_snapshot = sn, root_result = VNone, root_steps = results\<rparr> True True = Inr x"
    and args: "args = bind_names (ps_from_prior_step p) (rs_out x) (ps_args p)" and nil: "rs_from_step x = []"
    by (auto simp: late_args_def)
  have "set (ps_from_prior_step p) \<subseteq> dkeys (rs_out x)"
    using assms(1) resolve_loop_step [OF x [unfolded step_resolve_def]] nil
    unfolding planned_from_def by fastforce
  then show ?thesis
    using assms(1,3,4) by (auto simp: args dkeys_bind_names planned_from_def ps_names_def)
qed

section \<open>Refinement of a saga\<close>

text \<open>
  The abstract undo: run the calls in order, stop at the first critical one that fails, succeed
  when none failed.
\<close>

fun saga :: "'w executor \<Rightarrow> (string \<times> args \<times> bool) list \<Rightarrow> 'w \<Rightarrow> bool \<times> 'w" where
  "saga exec [] w = (True, w)"
| "saga exec ((tool, args, critical) # rest) w =
     (case exec w tool args of
        (Inr _, w') \<Rightarrow> saga exec rest w'
      | (Inl _, w') \<Rightarrow> if critical then (False, w') else (False, snd (saga exec rest w')))"

definition saga_of :: "planned_step list \<Rightarrow> (string \<times> args \<times> bool) list" where
  "saga_of ps = map (\<lambda>p. (ps_tool p, ps_args p, ps_critical p)) ps"

lemma run_steps_saga:
  assumes "\<forall>p \<in> set ps. ps_from_prior_step p = []" "\<not> rn_aborted rn"
  shows "\<exists>rn'. run_steps exec steps sn ps rn w = (Inr rn', snd (saga exec (saga_of ps) w))
    \<and> rn_ok rn' = (rn_ok rn \<and> fst (saga exec (saga_of ps) w))"
  using assms
proof (induction ps arbitrary: rn w)
  case Nil
  then show ?case by (simp add: saga_of_def)
next
  case (Cons p ps)
  have nil: "late_args steps sn (rn_results rn) p = Inr (ps_args p, [])"
    using Cons.prems(1) by (simp add: late_args_def)
  obtain r w1 where ex: "exec w (ps_tool p) (ps_args p) = (r, w1)" by fastforce
  show ?case
  proof (cases r)
    case (Inr v)
    let ?rn = "rn\<lparr>rn_results := AList.update (ps_name p) (result_root v) (rn_results rn),
                  rn_outcomes := rn_outcomes rn @ [ok_result p (ps_args p) v]\<rparr>"
    have "run_step exec steps sn p rn w = Inr (?rn, w1)"
      using Cons.prems nil ex Inr by (simp add: run_step_def)
    with Cons.IH [of ?rn w1] Cons.prems ex Inr show ?thesis by (simp add: saga_of_def)
  next
    case (Inl exc)
    let ?rn = "rn\<lparr>rn_ok := False,
        rn_error := Some (''step '' @ repr_str (ps_name p) @ '' failed: '' @ exn_text exc),
        rn_outcomes := rn_outcomes rn @ [fail_result p (ps_args p) (exn_text exc)],
        rn_aborted := ps_critical p\<rparr>"
    have r: "run_step exec steps sn p rn w = Inr (?rn, w1)"
      using Cons.prems nil ex Inl by (simp add: run_step_def)
    show ?thesis
    proof (cases "ps_critical p")
      case True
      with r ex Inl show ?thesis by (simp add: saga_of_def run_steps_aborted)
    next
      case False
      with Cons.IH [of ?rn w1] Cons.prems r ex Inl show ?thesis by (simp add: saga_of_def split_beta)
    qed
  qed
qed

section \<open>One undo\<close>

lemma finish_reverse_simps [simp]:
  "rc_ok (fst (finish_reverse rid t rn e)) = rn_ok rn"
  "rc_journal_id (fst (finish_reverse rid t rn e)) = je_id e"
  "rc_steps (fst (finish_reverse rid t rn e)) = rn_outcomes rn"
  "rc_state (fst (finish_reverse rid t rn e)) = (if rn_ok rn then REVERSED else FAILED)"
  "je_id (snd (finish_reverse rid t rn e)) = je_id e"
  "je_plan (snd (finish_reverse rid t rn e)) = je_plan e"
  "je_state (snd (finish_reverse rid t rn e)) = (if rn_ok rn then REVERSED else FAILED)"
  "je_committed_at (snd (finish_reverse rid t rn e)) = je_committed_at e"
  "je_action_id (snd (finish_reverse rid t rn e)) = je_action_id e"
  by (simp_all add: finish_reverse_def Let_def)

definition undo_steps :: "journal_entry \<Rightarrow> rengine \<Rightarrow> string \<Rightarrow> inverse_step option" where
  "undo_steps e eng =
     (case registry_get (rp_tool (je_plan e)) (re_registry eng) of
        None \<Rightarrow> by_name [] | Some spec \<Rightarrow> by_name (effective_steps spec))"

text \<open>When an undo is let through, and what it then does.\<close>

definition undo_ready :: "'w seams \<Rightarrow> rat \<Rightarrow> bool \<Rightarrow> 'w \<Rightarrow> journal_entry \<Rightarrow> bool" where
  "undo_ready cb when force w e \<longleftrightarrow> je_state e \<in> {COMMITTED, FAILED} \<and> is_executable (je_plan e)
     \<and> rp_unresolved_args (je_plan e) = [] \<and> (entry_is_expired when e \<longrightarrow> force)
     \<and> check_gates cb w e = []"

lemma reverse_refusal_None:
  "reverse_refusal e = None \<longleftrightarrow> je_state e \<in> {COMMITTED, FAILED} \<and> is_executable (je_plan e)
     \<and> rp_unresolved_args (je_plan e) = []"
  by (cases "je_state e") (auto simp: reverse_refusal_def)

lemma reverse_eq:
  assumes "resolve_ref ref eng = Inr e" "undo_ready cb when force w e"
  shows "reverse cb exec rid ref when force eng w =
    (case run_steps exec (undo_steps e eng) (rp_snapshot (je_plan e)) (rp_steps (je_plan e)) run_init w of
       (Inl err, w') \<Rightarrow> (Inl err, eng, [], w')
     | (Inr rn, w') \<Rightarrow>
         (Inr (fst (finish_reverse rid when rn e)), put_entry (snd (finish_reverse rid when rn e)) eng,
          [(''reversal_executed'', receipt_to_dict (fst (finish_reverse rid when rn e)))], w'))"
  using assms
  by (simp add: reverse_def undo_ready_def undo_steps_def reverse_refusal_None [THEN iffD2] split_beta Let_def
      split: prod.splits sum.splits)

lemma reverse_not_ready:
  assumes "resolve_ref ref eng = Inr e" "\<not> undo_ready cb when force w e"
  shows "\<exists>err eng' ev. reverse cb exec rid ref when force eng w = (Inl err, eng', ev, w)
     \<and> (err = ReversalWindowExpired \<and> eng' = put_entry (transition EXPIRED ''window closed'' when e) eng
        \<and> je_state e \<in> {COMMITTED, FAILED}
        \<or> err \<in> {AlreadyReversed, ReversalPlanMissing, NotReversible} \<and> eng' = eng \<and> ev = []
        \<or> (\<exists>m. err = ReversalGateClosed m) \<and> eng' = eng)"
proof (cases "reverse_refusal e")
  case (Some err)
  then have "err \<in> {AlreadyReversed, ReversalPlanMissing, NotReversible}"
    by (auto simp: reverse_refusal_def split: if_splits)
  with assms(1) Some show ?thesis by (auto simp: reverse_def)
next
  case None
  then have st: "je_state e \<in> {COMMITTED, FAILED}" by (simp add: reverse_refusal_None)
  show ?thesis
  proof (cases "entry_is_expired when e \<and> \<not> force")
    case True
    with assms(1) None st show ?thesis by (simp add: reverse_def Let_def)
  next
    case False
    with assms None have "check_gates cb w e \<noteq> []" by (auto simp: undo_ready_def reverse_refusal_None)
    with assms(1) None False show ?thesis by (auto simp: reverse_def Let_def)
  qed
qed

lemma reverse_unknown:
  assumes "resolve_ref ref eng = Inl err"
  shows "reverse cb exec rid ref when force eng w = (Inl err, eng, [], w)"
  by (simp add: reverse_def assms)

end
