(* ===== verification/UndoMachine.thy ===== *)
theory UndoMachine
  imports UndoSafety
begin

text \<open>
  The engine as a transition system: every public operation, in any order and with any arguments,
  and a world that may change between them. The invariant of its journal is proved for every
  reachable state.
\<close>

section \<open>The invariant\<close>

text \<open>
  The transitions that occur. Committing and abandoning are not guarded by the code, so they leave
  every state; an undo or an expiry starts from a committed or failed entry only.
\<close>

definition edge :: "journal_state \<Rightarrow> journal_state \<Rightarrow> bool" where
  "edge a b \<longleftrightarrow> b \<in> {COMMITTED, ABANDONED} \<or> (a \<in> {COMMITTED, FAILED} \<and> b \<in> {REVERSED, FAILED, EXPIRED})"

fun history_path :: "journal_state \<Rightarrow> transition_note list \<Rightarrow> journal_state \<Rightarrow> bool" where
  "history_path s [] t = (s = t)"
| "history_path s (h # hs) t = (tn_from h = s \<and> edge s (tn_to h) \<and> history_path (tn_to h) hs t)"

lemma history_path_snoc:
  "history_path s (hs @ [h]) t \<longleftrightarrow> (\<exists>u. history_path s hs u \<and> tn_from h = u \<and> edge u (tn_to h) \<and> tn_to h = t)"
  by (induction s hs t rule: history_path.induct) auto

lemma history_path_committed:
  "history_path s hs t \<Longrightarrow> s \<in> {PLANNED, ABANDONED} \<Longrightarrow> t \<in> {REVERSED, FAILED, EXPIRED} \<Longrightarrow>
   COMMITTED \<in> set (map tn_to hs)"
  by (induction s hs t rule: history_path.induct) (auto simp: edge_def)

definition entry_ok :: "journal_entry \<Rightarrow> bool" where
  "entry_ok e \<longleftrightarrow> history_path PLANNED (je_history e) (je_state e) \<and> plan_inv (je_plan e)
     \<and> (je_state e \<notin> {PLANNED, ABANDONED} \<longrightarrow> je_committed_at e \<noteq> None)"

definition engine_inv :: "rengine \<Rightarrow> bool" where
  "engine_inv eng \<longleftrightarrow> registry_inv (re_registry eng) \<and> distinct_keys (re_journal eng)
     \<and> (\<forall>(k, e) \<in> set (re_journal eng). je_id e = k \<and> entry_ok e)
     \<and> (\<forall>(a, j) \<in> set (re_by_action eng). j \<in> dkeys (re_journal eng))"

lemma entry_ok_transition:
  assumes "entry_ok e" "edge (je_state e) s" "je_state e = PLANNED \<or> je_state e = ABANDONED \<Longrightarrow> s \<in> {COMMITTED, ABANDONED}"
  shows "entry_ok (transition s note t e)"
  using assms by (auto simp: entry_ok_def history_path_snoc edge_def)

lemma entry_ok_plan: "entry_ok e \<Longrightarrow> plan_inv p \<Longrightarrow> entry_ok (e\<lparr>je_plan := p, je_action_id := a\<rparr>)"
  by (simp add: entry_ok_def)

lemma entry_ok_result: "entry_ok e \<Longrightarrow> entry_ok (e\<lparr>je_reversal_result := r, je_error := x\<rparr>)"
  by (simp add: entry_ok_def)

lemma engine_inv_entry: "engine_inv eng \<Longrightarrow> map_of (re_journal eng) k = Some e \<Longrightarrow> je_id e = k \<and> entry_ok e"
  by (auto simp: engine_inv_def dest!: map_of_SomeD)

lemma engine_inv_put:
  "engine_inv eng \<Longrightarrow> entry_ok e \<Longrightarrow> engine_inv (put_entry e eng)"
  by (auto simp: engine_inv_def put_entry_def dest!: in_set_update)

lemma engine_inv_by_action:
  "engine_inv eng \<Longrightarrow> j \<in> dkeys (re_journal eng) \<Longrightarrow>
   engine_inv (eng\<lparr>re_by_action := AList.update a j (re_by_action eng)\<rparr>)"
  by (auto simp: engine_inv_def dest!: in_set_update)

lemma resolve_ref_ok:
  assumes "engine_inv eng" "resolve_ref ref eng = Inr e"
  shows "entry_ok e \<and> map_of (re_journal eng) (je_id e) = Some e"
  using assms engine_inv_entry [OF assms(1)] unfolding resolve_ref_def
  by (fastforce split: option.splits)

text \<open>The index never dangles, so looking a reference up cannot raise \<open>KeyError\<close>.\<close>

lemma resolve_ref_error:
  assumes "engine_inv eng" "resolve_ref ref eng = Inl err"
  shows "err = ReversalPlanMissing"
  using assms unfolding resolve_ref_def engine_inv_def
  by (auto split: option.splits dest!: map_of_SomeD simp: map_of_None_dkeys)

section \<open>The operations keep it\<close>

lemma engine_inv_new: "registry_inv r \<Longrightarrow> engine_inv (new_engine r)"
  by (simp add: engine_inv_def new_engine_def)

lemma engine_inv_register:
  "engine_inv eng \<Longrightarrow> wf_spec s \<Longrightarrow> engine_inv (eng\<lparr>re_registry := register s (re_registry eng)\<rparr>)"
  by (simp add: engine_inv_def registry_inv_register)

lemma engine_inv_open:
  assumes "engine_inv eng" "plan_inv p"
  shows "engine_inv (snd (open_journal jid p actor deleg sess eng))"
proof -
  let ?e = "fst (open_journal jid p actor deleg sess eng)"
  have "entry_ok ?e" "je_id ?e = jid"
    using assms(2) by (simp_all add: open_journal_def Let_def entry_ok_def)
  moreover have "snd (open_journal jid p actor deleg sess eng) = put_entry ?e eng"
    by (simp add: open_journal_def Let_def put_entry_def)
  ultimately show ?thesis using engine_inv_put [OF assms(1)] by metis
qed

lemma commit_plan_inv:
  assumes "plan_inv p" "commit_plan result p eng = Inr p'"
  shows "plan_inv p'"
  using assms plan_inv_rebound unfolding commit_plan_def
  by (auto simp del: is_undoable.simps split: option.splits if_splits)

lemma engine_inv_commit:
  assumes "engine_inv eng" "commit jid aid result now eng = (r, eng', ev)"
  shows "engine_inv eng'"
proof (cases r)
  case (Inl err)
  with assms show ?thesis
    by (auto simp: commit_def Let_def split: sum.splits prod.splits)
next
  case (Inr e')
  with assms(2) obtain e p where e: "require_entry jid eng = Inr e"
    and p: "commit_plan result (je_plan e) eng = Inr p"
    and e': "e' = transition COMMITTED [] now (e\<lparr>je_plan := p, je_action_id := Some aid\<rparr>)"
    and eng': "eng' = put_entry e' (eng\<lparr>re_by_action := AList.update aid (je_id e) (re_by_action eng)\<rparr>)"
    by (auto simp: commit_def Let_def split: sum.splits prod.splits)
  have j: "map_of (re_journal eng) jid = Some e"
    using e by (simp add: require_entry_def split: option.splits)
  then have ok: "entry_ok e" "je_id e = jid" using engine_inv_entry [OF assms(1)] by auto
  then have "plan_inv (je_plan e)" by (simp add: entry_ok_def)
  then have "entry_ok (e\<lparr>je_plan := p, je_action_id := Some aid\<rparr>)"
    using commit_plan_inv [OF _ p] entry_ok_plan [OF ok(1)] by blast
  then have "entry_ok e'" unfolding e' by (rule entry_ok_transition) (simp_all add: edge_def)
  moreover have "jid \<in> dkeys (re_journal eng)" using j by (rule map_of_Some_dkeys)
  ultimately show ?thesis
    unfolding eng' using engine_inv_put engine_inv_by_action [OF assms(1)] ok(2) by metis
qed

lemma engine_inv_abandon:
  assumes "engine_inv eng" "abandon jid reason now eng = (r, eng', ev)"
  shows "engine_inv eng'"
proof (cases "require_entry jid eng")
  case (Inl err)
  with assms show ?thesis by (simp add: abandon_def)
next
  case (Inr e)
  then have "entry_ok e"
    using engine_inv_entry [OF assms(1)] by (auto simp: require_entry_def split: option.splits)
  then have "entry_ok (transition ABANDONED reason now e)"
    by (rule entry_ok_transition) (simp_all add: edge_def)
  with assms Inr show ?thesis by (auto simp: abandon_def Let_def intro: engine_inv_put)
qed

lemma entry_ok_finish:
  assumes "entry_ok e" "je_state e \<in> {COMMITTED, FAILED}"
  shows "entry_ok (snd (finish_reverse rid t rn e))"
  unfolding finish_reverse_def Let_def snd_conv
  by (rule entry_ok_transition [OF entry_ok_result [OF assms(1)]]) (use assms(2) in \<open>auto simp: edge_def\<close>)

lemma engine_inv_reverse:
  assumes "engine_inv eng" "reverse cb exec rid ref when force eng w = (r, eng', ev, w')"
  shows "engine_inv eng'"
proof (cases "resolve_ref ref eng")
  case (Inl err)
  with assms show ?thesis by (simp add: reverse_unknown)
next
  case (Inr e)
  have ok: "entry_ok e" using resolve_ref_ok [OF assms(1) Inr] by simp
  show ?thesis
  proof (cases "undo_ready cb when force w e")
    case True
    then have st: "je_state e \<in> {COMMITTED, FAILED}" by (simp add: undo_ready_def)
    show ?thesis
      using assms reverse_eq [OF Inr True, of exec rid] entry_ok_finish [OF ok st]
      by (auto split: prod.splits sum.splits intro: engine_inv_put)
  next
    case False
    from reverse_not_ready [OF Inr False, of exec rid] assms(2)
    consider "eng' = eng" | "eng' = put_entry (transition EXPIRED ''window closed'' when e) eng"
      "je_state e \<in> {COMMITTED, FAILED}"
      by auto
    then show ?thesis
    proof cases
      case 1
      then show ?thesis using assms(1) by simp
    next
      case 2
      then have "entry_ok (transition EXPIRED ''window closed'' when e)"
        by (intro entry_ok_transition [OF ok]) (auto simp: edge_def)
      with 2 show ?thesis using engine_inv_put [OF assms(1)] by simp
    qed
  qed
qed

lemma entry_ok_expire: "entry_ok e \<Longrightarrow> entry_ok (expire_entry t e)"
  by (auto simp: expire_entry_def edge_def intro!: entry_ok_transition)

lemma je_id_expire [simp]: "je_id (expire_entry t e) = je_id e"
  by (simp add: expire_entry_def)

lemma engine_inv_expire:
  assumes "engine_inv eng"
  shows "engine_inv (fst (snd (expire_stale t eng)))"
proof -
  have keys: "map fst (map (\<lambda>(k, e). (k, expire_entry t e)) (re_journal eng)) = map fst (re_journal eng)"
    by (simp add: comp_def split_beta)
  then have "dkeys (map (\<lambda>(k, e). (k, expire_entry t e)) (re_journal eng)) = dkeys (re_journal eng)"
    unfolding dkeys_def by (metis set_map)
  with assms keys show ?thesis
    by (auto simp: engine_inv_def expire_stale_def Let_def distinct_keys_def entry_ok_expire comp_def split_beta)
qed

lemma engine_inv_cascade_loop:
  "engine_inv eng \<Longrightarrow> cascade_loop cb exec rids now stop es cs eng w = (r, eng', ev, w') \<Longrightarrow> engine_inv eng'"
proof (induction es arbitrary: cs eng w r eng' ev w')
  case Nil
  then show ?case by simp
next
  case (Cons e es)
  obtain res eng1 ev1 w1 where r1:
      "reverse cb exec (rids (length (cs_receipts cs))) (je_id e) now False eng w = (res, eng1, ev1, w1)"
    using prod_cases4 by blast
  have inv1: "engine_inv eng1" using engine_inv_reverse [OF Cons.prems(1) r1] .
  show ?case
    using Cons.prems(2) Cons.IH [OF inv1] r1 inv1
    by (auto simp: Let_def split: sum.splits if_splits prod.splits)
qed

section \<open>Reachable states\<close>

inductive engine_step :: "'w seams \<Rightarrow> rengine \<times> 'w \<Rightarrow> rengine \<times> 'w \<Rightarrow> bool" for cb where
  register: "wf_spec s \<Longrightarrow> engine_step cb (eng, w) (eng\<lparr>re_registry := register s (re_registry eng)\<rparr>, w)"
| open_plan: "fst (plan cb w pid now tool args eng) = Inr p \<Longrightarrow>
    engine_step cb (eng, w) (snd (open_journal jid p actor deleg sess eng), w)"
| commit: "commit jid aid result now eng = (r, eng', ev) \<Longrightarrow> engine_step cb (eng, w) (eng', w)"
| abandon: "abandon jid reason now eng = (r, eng', ev) \<Longrightarrow> engine_step cb (eng, w) (eng', w)"
| reverse: "reverse cb exec rid ref now force eng w = (r, eng', ev, w') \<Longrightarrow> engine_step cb (eng, w) (eng', w')"
| cascade: "reverse_cascade cb exec rids s d a stop now eng w = (r, eng', ev, w') \<Longrightarrow>
    engine_step cb (eng, w) (eng', w')"
| expire: "expire_stale now eng = (ids, eng', ev) \<Longrightarrow> engine_step cb (eng, w) (eng', w)"
| world: "engine_step cb (eng, w) (eng, w')"

inductive engine_reachable :: "'w seams \<Rightarrow> rengine \<times> 'w \<Rightarrow> bool" for cb where
  start: "registry_inv r \<Longrightarrow> engine_reachable cb (new_engine r, w)"
| step: "engine_reachable cb s \<Longrightarrow> engine_step cb s t \<Longrightarrow> engine_reachable cb t"

inductive_cases engine_stepE: "engine_step cb (eng, w) t"

lemma engine_inv_cascade:
  assumes "engine_inv eng" "reverse_cascade cb exec rids s d a stop now eng w = (r, eng', ev, w')"
  shows "engine_inv eng'"
  using assms engine_inv_cascade_loop unfolding reverse_cascade_def Let_def
  by (auto split: sum.splits prod.splits) 

lemma engine_step_inv:
  assumes "engine_step cb s t" "wf_seams cb" "engine_inv (fst s)"
  shows "engine_inv (fst t)"
  using assms
proof (induction rule: engine_step.induct)
  case (open_plan w pid now tool args eng p jid actor deleg sess)
  then have "plan_inv p"
    using plan_inv_plan [of eng cb w pid now tool args p] by (simp add: engine_inv_def)
  with open_plan show ?case by (simp add: engine_inv_open)
next
  case (expire now eng ids eng' ev w)
  then show ?case using engine_inv_expire [of eng now] by simp
qed (auto intro: engine_inv_register engine_inv_commit engine_inv_abandon engine_inv_reverse engine_inv_cascade)

lemma engine_reachable_inv:
  "engine_reachable cb s \<Longrightarrow> wf_seams cb \<Longrightarrow> engine_inv (fst s)"
  by (induction rule: engine_reachable.induct) (auto intro: engine_inv_new engine_step_inv)

end
