(* ===== verification/UndoTheorems.thy ===== *)
theory UndoTheorems
  imports UndoMachine "HOL-Library.Sublist"
begin

text \<open>
  Facts about whole operations of the undo engine that the properties are stated from: what a
  plan for a declared tool contains, what its commit makes of it, and which calls its undo makes.
\<close>

section \<open>From plan to undo\<close>

lemma plan_declared:
  assumes "registry_get tool (re_registry eng) = Some s"
    and "fst (plan cb w pid now tool args eng) = Inr p"
  shows "rp_tool p = tool \<and> (is_undoable (rp_kind p) \<longrightarrow>
    rp_kind p = sp_kind s \<and> rp_gates p = sp_gates s \<and> rp_window_seconds p = sp_window_seconds s
    \<and> plan_steps args (rp_snapshot p) (effective_steps s) = Inr (rp_steps p))"
proof -
  have s: "spec_for cb w tool (Some args) eng = (Some s, [])"
    using spec_for_declared [OF assms(1)] .
  obtain sn se where sn: "capture_snapshot cb w tool args s = (sn, se)" by fastforce
  obtain k ev where k: "classify cb w tool (Some args) eng = (k, ev)" by fastforce
  show ?thesis
  proof (cases "\<not> is_undoable k \<and> is_undoable (sp_kind s)")
    case True
    then have "p = (empty_plan pid now tool k)\<lparr>rp_snapshot := sn, rp_residue := sp_residue s,
        rp_snapshot_error := se, rp_gates := sp_gates s, rp_one_shot := sp_one_shot s\<rparr>"
      using assms(2) by (simp add: plan_def s sn k del: is_undoable.simps)
    then show ?thesis using True by (simp add: empty_plan_def del: is_undoable.simps)
  next
    case False
    then show ?thesis
      using assms(2) unfolding plan_def Let_def s
      by (auto simp: sn k simp del: is_undoable.simps split: sum.splits)
  qed
qed

lemma plan_step_tool: "plan_step a sn st = Inr p \<Longrightarrow> ps_tool p = st_tool st"
  by (auto simp: plan_step_def)

lemma plan_steps_mem:
  assumes "plan_steps a sn ss = Inr ps" "p \<in> set ps"
  shows "\<exists>st \<in> set ss. plan_step a sn st = Inr p"
proof -
  obtain i where i: "i < length ps" "p = ps ! i" using assms(2) by (auto simp: in_set_conv_nth)
  with plan_steps_length [OF assms(1)] plan_steps_nth [OF assms(1), of i] show ?thesis
    by (intro bexI [of _ "ss ! i"]) auto
qed

text \<open>A committed step of a declared spec: whatever step of the spec it came from, it accounts for
  that step's arguments and defers nothing any more.\<close>

lemma committed_step:
  assumes "plan_steps a sn ss = Inr ps" "rebind_steps (by_name ss) sn' res ps = Inr qs"
    and "distinct (map st_name ss)" "q \<in> set qs"
  shows "\<exists>st \<in> set ss. planned_from st q \<and> ps_tool q = st_tool st
    \<and> by_name ss (ps_name q) = Some st \<and> ps_deferred q = []"
proof -
  obtain p where p: "p \<in> set ps" "rebind_step (by_name ss) sn' res p = Inr q"
    using rebind_steps_mem [OF assms(2,4)] by blast
  obtain st where st: "st \<in> set ss" "plan_step a sn st = Inr p"
    using plan_steps_mem [OF assms(1) p(1)] by blast
  note pf = plan_step_planned_from [OF st(2)]
  have nm: "ps_name p = st_name st" using pf by (simp add: planned_from_def)
  have bn: "by_name ss (ps_name p) = Some st"
    unfolding nm by (rule by_name_distinct [OF assms(3) st(1)])
  show ?thesis
    using st rebind_step_planned_from [OF p(2) pf] rebind_step_shape [OF p(2)] bn
      plan_step_tool [OF st(2)] by (intro bexI [of _ st]) auto
qed

lemma commit_result:
  assumes "commit jid aid result now eng = (Inr e', eng', ev)"
  obtains e p where "map_of (re_journal eng) jid = Some e" "commit_plan result (je_plan e) eng = Inr p"
    "e' = transition COMMITTED [] now (e\<lparr>je_plan := p, je_action_id := Some aid\<rparr>)"
    "eng' = put_entry e' (eng\<lparr>re_by_action := AList.update aid (je_id e) (re_by_action eng)\<rparr>)"
  using assms
  by (auto simp: commit_def require_entry_def Let_def split: sum.splits prod.splits option.splits)

lemma commit_declared:
  assumes "registry_get (rp_tool p) (re_registry eng) = Some s" "is_undoable (rp_kind p)"
    and "commit_plan result p eng = Inr p'"
  shows "\<exists>qs. rebind_steps (by_name (effective_steps s)) (rp_snapshot p) result (rp_steps p) = Inr qs
    \<and> p' = rebound_plan qs p"
  using assms by (auto simp: commit_plan_def simp del: is_undoable.simps)

section \<open>The calls of an undo\<close>

lemma run_steps_order:
  "run_steps (logged exec) steps sn ps rn (w, l) = (res, (w', l')) \<Longrightarrow>
   \<exists>calls. l' = l @ calls \<and> subseq (map fst calls) (map ps_tool ps)"
proof (induction ps arbitrary: rn w l)
  case Nil
  then show ?case by simp
next
  case (Cons p ps)
  show ?case
  proof (cases "run_step exec steps sn p rn w")
    case (Inl e)
    with Cons.prems show ?thesis by (simp add: run_step_logged)
  next
    case (Inr x)
    obtain rn1 w1 where x: "x = (rn1, w1)" by fastforce
    define c where "c = (if rn_aborted rn then [] else
      case late_args steps sn (rn_results rn) p of Inr (args, []) \<Rightarrow> [(ps_tool p, args)] | _ \<Rightarrow> [])"
    have "run_steps (logged exec) steps sn ps rn1 (w1, l @ c) = (res, (w', l'))"
      using Cons.prems Inr x by (simp add: run_step_logged c_def)
    from Cons.IH [OF this] obtain calls where calls: "l' = l @ c @ calls"
      "subseq (map fst calls) (map ps_tool ps)" by auto
    have "subseq (map fst c) [ps_tool p]"
      unfolding c_def by (auto split: sum.splits list.splits)
    from list_emb_append_mono [OF this calls(2)] calls(1) show ?thesis
      by (intro exI [of _ "c @ calls"]) simp
  qed
qed

text \<open>What a \<open>reverse\<close> leaves in the log: nothing, or the calls of the entry's steps.\<close>

lemma reverse_log:
  assumes "map_of (re_journal eng) jid = Some e"
    and "reverse cb (logged exec) rid jid t force eng (w, []) = (res, eng', ev, (w', calls))"
  shows "calls = [] \<or> (undo_ready cb t force (w, []) e
    \<and> list_all (complete_call (undo_steps e eng) (rp_snapshot (je_plan e)) (rp_steps (je_plan e))) calls
    \<and> subseq (map fst calls) (map ps_tool (rp_steps (je_plan e))))"
proof -
  have r: "resolve_ref jid eng = Inr e" using assms(1) by (simp add: resolve_ref_def)
  show ?thesis
  proof (cases "undo_ready cb t force (w, []) e")
    case True
    have "snd (run_steps (logged exec) (undo_steps e eng) (rp_snapshot (je_plan e))
        (rp_steps (je_plan e)) run_init (w, [])) = (w', calls)"
      using assms(2) reverse_eq [OF r True, of "logged exec" rid]
      by (auto split: prod.splits sum.splits)
    then obtain x where x: "run_steps (logged exec) (undo_steps e eng) (rp_snapshot (je_plan e))
        (rp_steps (je_plan e)) run_init (w, []) = (x, (w', calls))"
      by (metis prod.collapse)
    show ?thesis using True run_steps_calls [OF x] run_steps_order [OF x] by auto
  next
    case False
    with reverse_not_ready [OF r False, of "logged exec" rid] assms(2) show ?thesis by auto
  qed
qed

lemma plan_inv_no_unresolved:
  "plan_inv p \<Longrightarrow> rp_unresolved_args p = [] \<Longrightarrow> q \<in> set (rp_steps p) \<Longrightarrow> ps_unresolved q = []"
  by (auto simp: plan_inv_def)

text \<open>Steps raise only what reading a malformed source raises; refusals are the engine's own errors.\<close>

lemma resolve_loop_raised:
  "resolve_loop r ir is m acc = Inl err \<Longrightarrow> \<exists>x. err = Raised x"
  by (induction r ir "is" m acc rule: resolve_loop.induct)
     (auto simp: resolve_one_def Let_def split: sum.splits if_splits prod.splits option.splits)

lemma run_steps_raised:
  "run_steps exec steps sn ps rn w = (Inl err, w') \<Longrightarrow> \<exists>x. err = Raised x"
proof (induction ps arbitrary: rn w)
  case Nil
  then show ?case by simp
next
  case (Cons p ps)
  show ?case
  proof (cases "run_step exec steps sn p rn w")
    case (Inl x)
    then have "late_args steps sn (rn_results rn) p = Inl x"
      by (auto simp: run_step_def bind_err_Inl Let_def split: if_splits prod.splits sum.splits)
    then have "\<exists>y. x = Raised y"
      unfolding late_args_def step_resolve_def
      by (auto simp: bind_err_Inl split: if_splits option.splits dest: resolve_loop_raised)
    with Inl Cons.prems show ?thesis by simp
  next
    case (Inr y)
    with Cons show ?thesis by (cases y) auto
  qed
qed

lemma reverse_refusal_errors:
  "reverse_refusal e = Some err \<Longrightarrow> err \<in> {AlreadyReversed, ReversalPlanMissing, NotReversible}"
  by (auto simp: reverse_refusal_def split: if_splits)

end
