(* ===== verification/CascadeFacts.thy ===== *)
theory CascadeFacts
  imports UndoTheorems
begin

text \<open>
  What a cascade does to the journal and how its report counts: a lookup law of the journal, the
  effect of one undo on the other entries, and the loop's accounting.
\<close>

section \<open>One undo and the journal\<close>

lemma put_entry_lookup:
  "map_of (re_journal (put_entry e eng)) k = (if k = je_id e then Some e else map_of (re_journal eng) k)"
  by (simp add: put_entry_def map_of_update)

lemma reverse_effect:
  assumes inv: "engine_inv eng" and j: "map_of (re_journal eng) jid = Some e"
    and r: "reverse cb exec rid jid t force eng w = (res, eng', ev, w')"
  shows "re_registry eng' = re_registry eng \<and> re_by_action eng' = re_by_action eng
    \<and> (\<forall>k. k \<noteq> jid \<longrightarrow> map_of (re_journal eng') k = map_of (re_journal eng) k)
    \<and> (\<forall>rc. res = Inr rc \<longrightarrow> undo_ready cb t force w e \<and> rc_journal_id rc = jid
         \<and> (\<exists>e'. map_of (re_journal eng') jid = Some e' \<and> je_state e' = (if rc_ok rc then REVERSED else FAILED)
              \<and> je_plan e' = je_plan e \<and> je_committed_at e' = je_committed_at e))
    \<and> (\<forall>err. res = Inl err \<longrightarrow> eng' = eng \<or> (err = ReversalWindowExpired
         \<and> map_of (re_journal eng') jid = Some (transition EXPIRED ''window closed'' t e)
         \<and> je_state e \<in> {COMMITTED, FAILED}))"
proof -
  have ref: "resolve_ref jid eng = Inr e" using j by (simp add: resolve_ref_def)
  have id: "je_id e = jid" using engine_inv_entry [OF inv j] by simp
  show ?thesis
  proof (cases "undo_ready cb t force w e")
    case True
    obtain x w1 where x: "run_steps exec (undo_steps e eng) (rp_snapshot (je_plan e))
        (rp_steps (je_plan e)) run_init w = (x, w1)" by fastforce
    show ?thesis
    proof (cases x)
      case (Inl err)
      then show ?thesis using r reverse_eq [OF ref True, of exec rid] x by auto
    next
      case (Inr rn)
      then have "res = Inr (fst (finish_reverse rid t rn e))"
        "eng' = put_entry (snd (finish_reverse rid t rn e)) eng"
        using r reverse_eq [OF ref True, of exec rid] x by simp_all
      then show ?thesis using id True by (simp add: put_entry_lookup) (simp add: put_entry_def)
    qed
  next
    case False
    from reverse_not_ready [OF ref False, of exec rid] r
    show ?thesis using id by (auto simp: put_entry_lookup) (simp_all add: put_entry_def)
  qed
qed

lemma reverse_cases:
  assumes "engine_inv eng" "reverse cb exec rid ref t force eng w = (res, eng', ev, w')"
  obtains "eng' = eng" "\<exists>err. res = Inl err"
  | e where "resolve_ref ref eng = Inr e" "je_state e \<in> {COMMITTED, FAILED}"
      "map_of (re_journal eng) (je_id e) = Some e"
      "\<forall>k. k \<noteq> je_id e \<longrightarrow> map_of (re_journal eng') k = map_of (re_journal eng) k"
proof (cases "resolve_ref ref eng")
  case (Inl err)
  with assms(2) have "eng' = eng" "res = Inl err" by (auto simp: reverse_unknown)
  with that(1) show thesis by blast
next
  case (Inr e)
  have j: "map_of (re_journal eng) (je_id e) = Some e" using resolve_ref_ok [OF assms(1) Inr] by simp
  have ref: "resolve_ref (je_id e) eng = Inr e" using j by (simp add: resolve_ref_def)
  have r: "reverse cb exec rid (je_id e) t force eng w = (res, eng', ev, w')"
    using assms(2) by (simp add: reverse_def Inr ref)
  note eff = reverse_effect [OF assms(1) j r]
  show thesis
  proof (cases "je_state e \<in> {COMMITTED, FAILED}")
    case True
    then show thesis using that(2) Inr j eff by blast
  next
    case False
    then have "\<not> undo_ready cb t force w e" by (simp add: undo_ready_def)
    with eff False have "\<exists>err. res = Inl err" by (cases res) auto
    moreover from this eff False have "eng' = eng" by auto
    ultimately show thesis using that(1) by blast
  qed
qed

text \<open>An undone entry stays undone, whatever else is undone.\<close>

lemma reverse_keeps_reversed:
  assumes "engine_inv eng" "reverse cb exec rid ref t force eng w = (res, eng', ev, w')"
    and "map_of (re_journal eng) k = Some e" "je_state e = REVERSED"
  shows "map_of (re_journal eng') k = Some e"
  using assms(1,2)
proof (cases rule: reverse_cases)
  case 1
  then show ?thesis using assms(3) by simp
next
  case (2 e')
  then have "k \<noteq> je_id e'" using assms(3,4) by auto
  with 2 assms(3) show ?thesis by simp
qed

lemma reverse_keeps_keys:
  assumes "engine_inv eng" "reverse cb exec rid ref t force eng w = (res, eng', ev, w')"
  shows "dkeys (re_journal eng) \<subseteq> dkeys (re_journal eng')"
proof -
  have "eng' = eng \<or> (\<exists>e. eng' = put_entry e eng)"
  proof (cases "resolve_ref ref eng")
    case (Inl err)
    then show ?thesis using assms(2) by (simp add: reverse_unknown)
  next
    case (Inr e)
    show ?thesis
    proof (cases "undo_ready cb t force w e")
      case True
      then show ?thesis
        using assms(2) reverse_eq [OF Inr True, of exec rid] by (auto split: prod.splits sum.splits)
    next
      case False
      then show ?thesis using reverse_not_ready [OF Inr False, of exec rid] assms(2) by auto
    qed
  qed
  then show ?thesis by (auto simp: put_entry_def)
qed

section \<open>The loop\<close>

lemma cascade_account_counts:
  assumes "cascade_account stop residue res cs = Inr cs1"
  shows "cs_ok cs1 + cs_failed cs1 + cs_skipped cs1 = Suc (cs_ok cs + cs_failed cs + cs_skipped cs)"
    and "length (cs_receipts cs) = cs_ok cs + cs_failed cs \<Longrightarrow> length (cs_receipts cs1) = cs_ok cs1 + cs_failed cs1"
    and "cs_skipped cs \<le> cs_skipped cs1" "cs_failed cs \<le> cs_failed cs1"
    and "(\<exists>rc. res = Inr rc \<and> cs_receipts cs1 = cs_receipts cs @ [rc])
       \<or> (\<exists>err. res = Inl err \<and> cs_receipts cs1 = cs_receipts cs)"
    and "cs_failed cs1 + cs_skipped cs1 = cs_failed cs + cs_skipped cs \<Longrightarrow> \<exists>rc. res = Inr rc \<and> rc_ok rc"
    and "cs_stopped cs1 \<Longrightarrow> cs_stopped cs \<or> (stop \<and> 0 < cs_failed cs1)"
  using assms
  by (induction stop residue res cs rule: cascade_account.induct)
     (auto simp: add_residue_def Let_def split: if_splits)

lemma cascade_loop_counts:
  "cascade_loop cb exec rids now stop es cs eng w = (Inr cs', eng', ev, w') \<Longrightarrow> \<not> cs_stopped cs \<Longrightarrow>
   length (cs_receipts cs) = cs_ok cs + cs_failed cs \<Longrightarrow>
   length (cs_receipts cs') = cs_ok cs' + cs_failed cs'
   \<and> cs_failed cs \<le> cs_failed cs' \<and> cs_skipped cs \<le> cs_skipped cs'
   \<and> cs_ok cs' + cs_failed cs' + cs_skipped cs' \<le> cs_ok cs + cs_failed cs + cs_skipped cs + length es
   \<and> (\<not> cs_stopped cs' \<longrightarrow>
        cs_ok cs' + cs_failed cs' + cs_skipped cs' = cs_ok cs + cs_failed cs + cs_skipped cs + length es)
   \<and> (cs_stopped cs' \<longrightarrow> stop \<and> 0 < cs_failed cs')"
proof (induction es arbitrary: cs eng w ev)
  case Nil
  then show ?case by simp
next
  case (Cons e es)
  obtain res eng1 ev1 w1 where r:
      "reverse cb exec (rids (length (cs_receipts cs))) (je_id e) now False eng w = (res, eng1, ev1, w1)"
    using prod_cases4 by blast
  with Cons.prems(1) obtain cs1 where a: "cascade_account stop (rp_residue (je_plan e)) res cs = Inr cs1"
    by (auto split: sum.splits)
  note c = cascade_account_counts [OF a]
  show ?case
  proof (cases "cs_stopped cs1")
    case True
    with Cons.prems r a have "cs' = cs1" by simp
    with c(1-4,7) True Cons.prems(2,3) show ?thesis by simp
  next
    case False
    with Cons.prems(1) r a obtain ev2 where
      "cascade_loop cb exec rids now stop es cs1 eng1 w1 = (Inr cs', eng', ev2, w')"
      by (auto split: prod.splits)
    from Cons.IH [OF this False c(2) [OF Cons.prems(3)]] c(1,3,4) show ?thesis by auto
  qed
qed

text \<open>The receipts are those of the selected entries, in the order the loop takes them.\<close>

lemma cascade_loop_order:
  "cascade_loop cb exec rids now stop es cs eng w = (Inr cs', eng', ev, w') \<Longrightarrow> engine_inv eng \<Longrightarrow>
   je_id ` set es \<subseteq> dkeys (re_journal eng) \<Longrightarrow>
   \<exists>rcs. cs_receipts cs' = cs_receipts cs @ rcs \<and> subseq (map rc_journal_id rcs) (map je_id es)"
proof (induction es arbitrary: cs eng w ev)
  case Nil
  then show ?case by simp
next
  case (Cons e es)
  obtain res eng1 ev1 w1 where r:
      "reverse cb exec (rids (length (cs_receipts cs))) (je_id e) now False eng w = (res, eng1, ev1, w1)"
    using prod_cases4 by blast
  with Cons.prems(1) obtain cs1 where a: "cascade_account stop (rp_residue (je_plan e)) res cs = Inr cs1"
    by (auto split: sum.splits)
  obtain e0 where e0: "map_of (re_journal eng) (je_id e) = Some e0"
    using Cons.prems(3) map_of_None_dkeys by fastforce
  have head: "\<exists>rcs. cs_receipts cs1 = cs_receipts cs @ rcs \<and> subseq (map rc_journal_id rcs) [je_id e]"
    using cascade_account_counts(5) [OF a] reverse_effect [OF Cons.prems(2) e0 r] by fastforce
  then obtain rcs1 where rcs1: "cs_receipts cs1 = cs_receipts cs @ rcs1"
    "subseq (map rc_journal_id rcs1) [je_id e]" by blast
  show ?case
  proof (cases "cs_stopped cs1")
    case True
    with Cons.prems r a have "cs' = cs1" by simp
    moreover have "subseq (map rc_journal_id rcs1) (je_id e # map je_id es)"
      using list_emb_append_mono [OF rcs1(2), of "[]" "map je_id es"] by simp
    ultimately show ?thesis using rcs1 by auto
  next
    case False
    with Cons.prems(1) r a obtain ev2 where
      l: "cascade_loop cb exec rids now stop es cs1 eng1 w1 = (Inr cs', eng', ev2, w')"
      by (auto split: prod.splits)
    have "je_id ` set es \<subseteq> dkeys (re_journal eng1)"
      using reverse_keeps_keys [OF Cons.prems(2) r] Cons.prems(3) by auto
    from Cons.IH [OF l engine_inv_reverse [OF Cons.prems(2) r] this]
    obtain rcs2 where rcs2: "cs_receipts cs' = cs_receipts cs1 @ rcs2"
      "subseq (map rc_journal_id rcs2) (map je_id es)" by blast
    have "subseq (map rc_journal_id (rcs1 @ rcs2)) (je_id e # map je_id es)"
      using list_emb_append_mono [OF rcs1(2) rcs2(2)] by simp
    then show ?thesis using rcs1(1) rcs2(1) by (intro exI [of _ "rcs1 @ rcs2"]) simp
  qed
qed

text \<open>When nothing failed and nothing was skipped, every entry the loop took is undone.\<close>

definition reversed_in :: "rengine \<Rightarrow> string \<Rightarrow> bool" where
  "reversed_in eng k \<longleftrightarrow> (case map_of (re_journal eng) k of None \<Rightarrow> False | Some e \<Rightarrow> je_state e = REVERSED)"

lemma reverse_keeps_reversed_in:
  "engine_inv eng \<Longrightarrow> reverse cb exec rid ref t force eng w = (res, eng', ev, w') \<Longrightarrow>
   reversed_in eng k \<Longrightarrow> reversed_in eng' k"
  using reverse_keeps_reversed unfolding reversed_in_def by (fastforce split: option.splits)

lemma cascade_loop_keeps_reversed:
  "cascade_loop cb exec rids now stop es cs eng w = (r, eng', ev, w') \<Longrightarrow> engine_inv eng \<Longrightarrow>
   reversed_in eng k \<Longrightarrow> reversed_in eng' k"
proof (induction es arbitrary: cs eng w ev r)
  case Nil
  then show ?case by simp
next
  case (Cons e es)
  obtain res eng1 ev1 w1 where r:
      "reverse cb exec (rids (length (cs_receipts cs))) (je_id e) now False eng w = (res, eng1, ev1, w1)"
    using prod_cases4 by blast
  have "engine_inv eng1" "reversed_in eng1 k"
    using engine_inv_reverse [OF Cons.prems(2) r] reverse_keeps_reversed_in [OF Cons.prems(2) r Cons.prems(3)] .
  with Cons.IH [of _ eng1 w1] Cons.prems(1) r show ?case
    by (auto simp: Let_def split: sum.splits if_splits prod.splits)
qed

lemma cascade_loop_clean:
  "cascade_loop cb exec rids now stop es cs eng w = (Inr cs', eng', ev, w') \<Longrightarrow> engine_inv eng \<Longrightarrow>
   je_id ` set es \<subseteq> dkeys (re_journal eng) \<Longrightarrow> \<not> cs_stopped cs \<Longrightarrow>
   length (cs_receipts cs) = cs_ok cs + cs_failed cs \<Longrightarrow>
   cs_failed cs' = 0 \<Longrightarrow> cs_skipped cs' = 0 \<Longrightarrow>
   \<forall>e \<in> set es. reversed_in eng' (je_id e)"
proof (induction es arbitrary: cs eng w ev)
  case Nil
  then show ?case by simp
next
  case (Cons e es)
  obtain res eng1 ev1 w1 where r:
      "reverse cb exec (rids (length (cs_receipts cs))) (je_id e) now False eng w = (res, eng1, ev1, w1)"
    using prod_cases4 by blast
  with Cons.prems(1) obtain cs1 where a: "cascade_account stop (rp_residue (je_plan e)) res cs = Inr cs1"
    by (auto split: sum.splits)
  note c = cascade_account_counts [OF a]
  note inv1 = engine_inv_reverse [OF Cons.prems(2) r]
  have nstop: "\<not> cs_stopped cs1"
    using Cons.prems(1,4,6) r a c(7) by (cases "cs_stopped cs1") auto
  with Cons.prems(1) r a obtain ev2 where
    l: "cascade_loop cb exec rids now stop es cs1 eng1 w1 = (Inr cs', eng', ev2, w')"
    by (auto split: prod.splits)
  have keys: "je_id ` set es \<subseteq> dkeys (re_journal eng1)"
    using reverse_keeps_keys [OF Cons.prems(2) r] Cons.prems(3) by auto
  note tail = Cons.IH [OF l inv1 keys nstop c(2) [OF Cons.prems(5)] Cons.prems(6,7)]
  have "cs_failed cs1 = 0" "cs_skipped cs1 = 0"
    using cascade_loop_counts [OF l nstop c(2) [OF Cons.prems(5)]] Cons.prems(6,7) by auto
  then obtain rc where rc: "res = Inr rc" "rc_ok rc" using c(3,4,6) by fastforce
  obtain e0 where e0: "map_of (re_journal eng) (je_id e) = Some e0"
    using Cons.prems(3) map_of_None_dkeys by fastforce
  have "reversed_in eng1 (je_id e)"
    using reverse_effect [OF Cons.prems(2) e0 r] rc by (auto simp: reversed_in_def)
  then have "reversed_in eng' (je_id e)" by (rule cascade_loop_keeps_reversed [OF l inv1])
  with tail show ?case by simp
qed

section \<open>The selection\<close>

lemma journal_values_lookup:
  assumes "engine_inv eng" "x \<in> set (journal_values eng)"
  shows "map_of (re_journal eng) (je_id x) = Some x"
proof -
  from assms(2) obtain k where k: "(k, x) \<in> set (re_journal eng)" by (auto simp: journal_values_def)
  with assms(1) have "map_of (re_journal eng) k = Some x"
    by (simp add: engine_inv_def map_of_distinct_keys_mem)
  with engine_inv_entry [OF assms(1) this] show ?thesis by simp
qed

lemma entries_of_actions_sub: "set (entries_of_actions wanted eng) \<subseteq> set (journal_values eng)"
  unfolding entries_of_actions_def journal_values_def
  by (induction wanted) (auto simp: List.map_filter_simps map_of_values split: option.splits)

lemma select_entries_lookup:
  assumes "engine_inv eng" "select_entries s d a eng = Inr (es, kind, sid)" "e \<in> set es"
  shows "map_of (re_journal eng) (je_id e) = Some e"
proof -
  have "e \<in> set (journal_values eng)"
    using assms(2,3) entries_of_actions_sub
    unfolding select_entries_def by (auto split: option.splits)
  then show ?thesis by (rule journal_values_lookup [OF assms(1)])
qed

section \<open>A clean cascade\<close>

lemma clean_cascade_lookup:
  assumes inv: "engine_inv eng"
    and sel: "select_entries s d a eng = Inr (es, kind, sid)"
    and run: "reverse_cascade cb exec rids s d a stop now eng w = (Inr r, eng', ev, w')"
    and clean: "cascade_ok r" "cr_skipped r = 0"
    and e: "e \<in> set es" "je_state e = COMMITTED"
  shows "map_option je_state (map_of (re_journal eng') (je_id e)) = Some REVERSED"
proof -
  obtain cs where l: "cascade_loop cb exec rids now stop (live_newest_first es) cascade_init eng w = (Inr cs, eng', ev, w')"
    and r: "r = cascade_finish kind sid (live_newest_first es) cs"
    using run sel by (auto simp: reverse_cascade_def Let_def split: prod.splits sum.splits)
  have keys: "je_id ` set (live_newest_first es) \<subseteq> dkeys (re_journal eng)"
    using select_entries_lookup [OF inv sel] by (auto simp: live_newest_first_def dest: map_of_Some_dkeys)
  have "e \<in> set (live_newest_first es)" using e by (simp add: live_newest_first_def)
  then have "reversed_in eng' (je_id e)"
    using cascade_loop_clean [OF l inv keys] clean
    by (simp add: r cascade_ok_def cascade_finish_def cascade_init_def)
  then show ?thesis by (auto simp: reversed_in_def split: option.splits)
qed

end
