(* ===== verification/ApStarter.thy ===== *)
theory ApStarter
  imports InverseRegistry
begin

text \<open>
  The starter specs of \<open>reversal/registry.py\<close> for an accounts-payable surface, as the source lists
  them, and the registry that holds them.
\<close>

text \<open>The fields a spec leaves at their defaults.\<close>

definition bare_spec :: "string \<Rightarrow> reversibility \<Rightarrow> inverse_spec" where
  "bare_spec tool kind =
     \<lparr>sp_tool = tool, sp_kind = kind, sp_inverse_tool = None, sp_arg_map = [], sp_static_args = [],
      sp_steps = [], sp_gates = [], sp_snapshot_fields = [], sp_window_seconds = None,
      sp_one_shot = False, sp_degraded_kind = IRREVERSIBLE, sp_residue = [], sp_notes = []\<rparr>"

definition ap_invoices_read :: inverse_spec where
  "ap_invoices_read = (bare_spec ''invoices.read'' REVERSIBLE)\<lparr>sp_inverse_tool := Some ''noop.none''\<rparr>"

definition ap_invoices_pay :: inverse_spec where
  "ap_invoices_pay = (bare_spec ''invoices.pay'' COMPENSABLE)
     \<lparr>sp_inverse_tool := Some ''invoices.void_payment'',
      sp_arg_map := [(''payment_id'', ''result.payment_id''), (''invoice_id'', ''args.invoice_id''),
                     (''reason'', ''const:reversed by revoco control plane'')],
      sp_snapshot_fields := [''status'', ''paid_amount'', ''payment_id''],
      sp_window_seconds := Some 86400,
      sp_residue := ''The remittance advice already sent to the supplier is not recalled, and the payment appears as a void rather than an absence on the bank statement.''\<rparr>"

definition ap_invoices_approve :: inverse_spec where
  "ap_invoices_approve = (bare_spec ''invoices.approve'' REVERSIBLE)
     \<lparr>sp_inverse_tool := Some ''invoices.set_status'',
      sp_arg_map := [(''invoice_id'', ''args.invoice_id''), (''status'', ''snapshot.status'')],
      sp_snapshot_fields := [''status'']\<rparr>"

definition ap_vendors_update :: inverse_spec where
  "ap_vendors_update = (bare_spec ''vendors.update'' REVERSIBLE)
     \<lparr>sp_inverse_tool := Some ''vendors.update'',
      sp_arg_map := [(''vendor_id'', ''args.vendor_id''), (''bank_account'', ''snapshot.bank_account''),
                     (''remit_to'', ''snapshot.remit_to'')],
      sp_snapshot_fields := [''bank_account'', ''remit_to'']\<rparr>"

definition ap_vendors_create :: inverse_spec where
  "ap_vendors_create = (bare_spec ''vendors.create'' COMPENSABLE)
     \<lparr>sp_inverse_tool := Some ''vendors.deactivate'',
      sp_arg_map := [(''vendor_id'', ''result.vendor_id'')],
      sp_residue := ''The vendor record is deactivated, not deleted: the vendor number is consumed and remains visible in the master-data audit history.''\<rparr>"

definition ap_email_send :: inverse_spec where
  "ap_email_send = bare_spec ''email.send'' IRREVERSIBLE"

definition ap_payments_wire :: inverse_spec where
  "ap_payments_wire = bare_spec ''payments.wire'' IRREVERSIBLE"

text \<open>The list holds the objects the constructors return, so each is in canonical form.\<close>

definition AP_STARTER_SPECS :: "inverse_spec list" where
  "AP_STARTER_SPECS = map spec_canon
     [ap_invoices_read, ap_invoices_pay, ap_invoices_approve, ap_vendors_update, ap_vendors_create,
      ap_email_send, ap_payments_wire]"

definition ap_starter_registry :: registry where
  "ap_starter_registry = register_many AP_STARTER_SPECS empty_registry"

lemmas ap_defs = ap_invoices_read_def ap_invoices_pay_def ap_invoices_approve_def
  ap_vendors_update_def ap_vendors_create_def ap_email_send_def ap_payments_wire_def bare_spec_def

lemma ap_specs_constructed:
  "list_all (\<lambda>s. spec_post_init s = Inr (spec_canon s))
     [ap_invoices_read, ap_invoices_pay, ap_invoices_approve, ap_vendors_update, ap_vendors_create,
      ap_email_send, ap_payments_wire]"
  by code_simp

lemma constructed_wf:
  assumes "list_all (\<lambda>s. spec_post_init s = Inr (spec_canon s)) ss"
    and "list_all (\<lambda>s. list_all wf_step (sp_steps s) \<and> list_all wf_gate (sp_gates s)) ss"
  shows "list_all wf_spec (map spec_canon ss)"
  using assms by (induction ss) (auto intro: spec_post_init_wf)

lemma ap_specs_wf: "list_all wf_spec AP_STARTER_SPECS"
  unfolding AP_STARTER_SPECS_def
  by (rule constructed_wf [OF ap_specs_constructed]) (simp add: ap_defs)

lemma ap_registry_inv [simp]: "registry_inv ap_starter_registry"
  unfolding ap_starter_registry_def
  by (rule registry_inv_register_many [OF registry_inv_empty ap_specs_wf])

end
