(* ===== verification/UndoProps.thy ===== *)
theory UndoProps
  imports CascadeFacts ApStarter
begin

text \<open>
  The properties of the undo engine, each with a run on the starter registry where it applies:
  a vendor is created, the creation is committed with the identifier the system returned, and the
  undo deactivates that vendor.
\<close>

section \<open>A concrete run\<close>

definition no_seams :: "'w seams" where
  "no_seams = \<lparr>state_reader = None, gate_evaluator = None, classify_hook = None, command_classifier = None\<rparr>"

lemma wf_no_seams [simp]: "wf_seams no_seams"
  by (simp add: wf_seams_def no_seams_def)

definition quiet_exec :: "unit executor" where
  "quiet_exec = (\<lambda>w tool args. (Inr VNone, w))"

definition broken_exec :: "unit executor" where
  "broken_exec = (\<lambda>w tool args. (Inl (PyExn ''TimeoutError'' ''no answer''), w))"

definition vendor_args :: args where
  "vendor_args = [(''name'', VStr ''Acme'')]"

definition vendor_result :: val where
  "vendor_result = VDict [(''vendor_id'', VStr ''V7'')]"

definition run_engine :: rengine where
  "run_engine = new_engine ap_starter_registry"

definition run_plan :: reversal_plan where
  "run_plan = projr (fst (plan (no_seams :: unit seams) () ''pln'' 10 ''vendors.create'' vendor_args run_engine))"

definition run_opened :: rengine where
  "run_opened = snd (open_journal ''jrn'' run_plan None (Some ''del'') ''ses'' run_engine)"

definition run_entry :: journal_entry where
  "run_entry = projr (fst (commit ''jrn'' ''act'' vendor_result 20 run_opened))"

definition run_committed :: rengine where
  "run_committed = fst (snd (commit ''jrn'' ''act'' vendor_result 20 run_opened))"

definition run_undo :: "(revoco_error + reversal_receipt) \<times> rengine \<times> events \<times> unit \<times> (string \<times> args) list" where
  "run_undo = reverse no_seams (logged quiet_exec) ''rvs'' ''jrn'' 30 False run_committed ((), [])"

lemma ap_exact_vendors_create:
  "registry_get ''vendors.create'' ap_starter_registry = Some (spec_canon ap_vendors_create)"
  by code_simp

lemma run_plan_eq:
  "fst (plan (no_seams :: unit seams) () ''pln'' 10 ''vendors.create'' vendor_args run_engine) = Inr run_plan"
  unfolding run_plan_def by code_simp

lemma run_open_eq:
  "open_journal ''jrn'' run_plan None (Some ''del'') ''ses'' run_engine
     = (fst (open_journal ''jrn'' run_plan None (Some ''del'') ''ses'' run_engine), run_opened)"
  by (simp add: run_opened_def)

lemma run_commit_eq:
  "commit ''jrn'' ''act'' vendor_result 20 run_opened
     = (Inr run_entry, run_committed, [(''reversal_commit'', entry_to_dict run_entry)])"
  unfolding run_entry_def run_committed_def by code_simp

lemma run_reachable: "engine_reachable (no_seams :: unit seams) (run_committed, ())"
proof -
  have "engine_reachable (no_seams :: unit seams) (run_engine, ())"
    unfolding run_engine_def by (rule engine_reachable.start) simp
  moreover have "engine_step (no_seams :: unit seams) (run_engine, ()) (run_opened, ())"
    unfolding run_opened_def by (rule engine_step.open_plan [OF run_plan_eq])
  moreover have "engine_step (no_seams :: unit seams) (run_opened, ()) (run_committed, ())"
    by (rule engine_step.commit [OF run_commit_eq])
  ultimately show ?thesis by (meson engine_reachable.step)
qed

lemma run_inv: "engine_inv run_committed"
  using engine_reachable_inv [OF run_reachable] by simp

section \<open>An undo sends complete calls, in order\<close>

text \<open>
  C2: for a tool with a declared spec, whatever the arguments, the captured state, the response and
  the world at undo time, every call the undo makes is the call of a step of that spec and carries
  every argument the step declares; the calls come in the order of the steps, each step at most once.
\<close>

lemma undo_sends_complete_calls:
  fixes cb :: "'w seams" and cb' :: "('w \<times> (string \<times> args) list) seams"
  assumes inv: "engine_inv eng" and spec: "registry_get tool (re_registry eng) = Some s"
    and p: "fst (plan cb w0 pid t0 tool args eng) = Inr p"
    and opn: "open_journal jid p actor deleg sess eng = (e0, eng1)"
    and com: "commit jid aid result t1 eng1 = (Inr e1, eng2, ev1)"
    and rev: "reverse cb' (logged exec) rid jid t2 force eng2 (w, []) = (res, eng3, ev2, (w', calls))"
  shows "(\<forall>(t, a) \<in> set calls. \<exists>st \<in> set (effective_steps s). t = st_tool st \<and> step_names st \<subseteq> dkeys a)
    \<and> subseq (map fst calls) (map st_tool (effective_steps s))"
proof (cases "calls = []")
  case True
  then show ?thesis by simp
next
  case False
  have e0: "eng1 = put_entry e0 eng" "je_id e0 = jid" "je_plan e0 = p"
    using opn by (auto simp: open_journal_def put_entry_def Let_def)
  have reg: "re_registry eng1 = re_registry eng" using e0 by (simp add: put_entry_def)
  obtain p' where p': "commit_plan result p eng1 = Inr p'"
    and e1: "je_plan e1 = p'" "je_id e1 = jid" and eng2: "map_of (re_journal eng2) jid = Some e1"
      "re_registry eng2 = re_registry eng"
    using com by (rule commit_result) (use e0 reg in \<open>auto simp: put_entry_def\<close>)
  note log = reverse_log [OF eng2(1) rev]
  with False e1 have ready: "undo_ready cb' t2 force (w, []) e1"
    and calls: "list_all (complete_call (undo_steps e1 eng2) (rp_snapshot p') (rp_steps p')) calls"
      "subseq (map fst calls) (map ps_tool (rp_steps p'))" by auto
  have wfs: "wf_spec s" using inv spec registry_get_wf by (auto simp: engine_inv_def)
  note dist = wf_spec_step_names [OF wfs]
  note pd = plan_declared [OF spec p]
  have kind: "rp_kind p' = rp_kind p" "rp_tool p' = rp_tool p"
    using p' by (auto simp: commit_plan_def rebound_plan_def simp del: is_undoable.simps
        split: option.splits if_splits)
  have und: "is_undoable (rp_kind p)"
    using ready e1 kind by (simp add: undo_ready_def is_executable_def del: is_undoable.simps)
  obtain qs where qs: "rebind_steps (by_name (effective_steps s)) (rp_snapshot p) result (rp_steps p) = Inr qs"
    and p'_eq: "p' = rebound_plan qs p"
    using commit_declared [OF _ und p'] pd spec reg by auto
  have ps: "plan_steps args (rp_snapshot p) (effective_steps s) = Inr (rp_steps p)" using pd und by blast
  have steps': "rp_steps p' = qs" by (simp add: p'_eq rebound_plan_def)
  have us: "undo_steps e1 eng2 = by_name (effective_steps s)"
    using kind pd spec by (simp add: undo_steps_def e1 eng2(2))
  have unres: "ps_unresolved q = []" if "q \<in> set qs" for q
    using that ready by (auto simp: undo_ready_def e1 p'_eq rebound_plan_def)
  have "\<exists>st \<in> set (effective_steps s). t = st_tool st \<and> step_names st \<subseteq> dkeys a"
    if c: "(t, a) \<in> set calls" for t a
  proof -
    from c calls(1) obtain q results where q: "q \<in> set qs" "t = ps_tool q"
      "late_args (by_name (effective_steps s)) (rp_snapshot p') results q = Inr (a, [])"
      by (auto simp: list_all_iff complete_call_def us steps')
    obtain st where st: "st \<in> set (effective_steps s)" "planned_from st q" "ps_tool q = st_tool st"
      "by_name (effective_steps s) (ps_name q) = Some st" "ps_deferred q = []"
      using committed_step [OF ps qs dist q(1)] by blast
    have "step_names st \<subseteq> dkeys a"
      by (rule late_args_complete [where p = q and steps = "by_name (effective_steps s)"])
         (use st(2,4,5) unres [OF q(1)] q(3) in auto)
    with st q(2) show ?thesis by auto
  qed
  moreover have "map ps_tool qs = map st_tool (effective_steps s)"
    using rebind_steps_tools [OF qs] plan_steps_map [OF ps] by simp
  ultimately show ?thesis using calls(2) by (auto simp: steps')
qed

lemma undo_sends_complete_calls_witness:
  "snd (snd (snd (snd run_undo))) = [(''vendors.deactivate'', [(''vendor_id'', VStr ''V7'')])]
   \<and> subseq [''vendors.deactivate''] (map st_tool (effective_steps (spec_canon ap_vendors_create)))"
proof -
  have calls: "snd (snd (snd (snd run_undo))) = [(''vendors.deactivate'', [(''vendor_id'', VStr ''V7'')])]"
    by code_simp
  have inv: "engine_inv run_engine" by (simp add: run_engine_def engine_inv_new)
  have reg: "registry_get ''vendors.create'' (re_registry run_engine) = Some (spec_canon ap_vendors_create)"
    by (simp add: run_engine_def new_engine_def ap_exact_vendors_create)
  obtain res eng3 ev2 w' calls' where u: "run_undo = (res, eng3, ev2, (w', calls'))"
    using prod_cases5 by blast
  have "calls' = snd (snd (snd (snd run_undo)))" by (simp only: u snd_conv)
  then have "calls' = [(''vendors.deactivate'', [(''vendor_id'', VStr ''V7'')])]" by (simp only: calls)
  with undo_sends_complete_calls [OF inv reg run_plan_eq run_open_eq run_commit_eq u [unfolded run_undo_def]]
  show ?thesis using calls by simp
qed

section \<open>At most once\<close>

text \<open>
  C8: once an undo is reported good, a second undo of the same entry is refused as already done
  and changes neither the journal nor the world, forced or not and whatever the gates say by then.
\<close>

lemma undo_at_most_once:
  assumes "engine_inv eng" "map_of (re_journal eng) jid = Some e"
    and "reverse cb exec rid jid t force eng w = (Inr rc, eng', ev, w')" "rc_ok rc"
  shows "reverse cb2 exec2 rid2 jid t2 force2 eng' w2 = (Inl AlreadyReversed, eng', [], w2)"
proof -
  obtain e' where "map_of (re_journal eng') jid = Some e'" "je_state e' = REVERSED"
    using reverse_effect [OF assms(1-3)] assms(4) by auto
  then show ?thesis by (simp add: reverse_def resolve_ref_def reverse_refusal_def)
qed

lemma run_entry_lookup: "map_of (re_journal run_committed) ''jrn'' = Some run_entry"
  by code_simp

definition run_receipt :: reversal_receipt where
  "run_receipt = projr (fst (reverse no_seams quiet_exec ''rvs'' ''jrn'' 30 False run_committed ()))"

definition run_reversed :: rengine where
  "run_reversed = fst (snd (reverse no_seams quiet_exec ''rvs'' ''jrn'' 30 False run_committed ()))"

lemma run_reverse_eq:
  "reverse no_seams quiet_exec ''rvs'' ''jrn'' 30 False run_committed ()
     = (Inr run_receipt, run_reversed, [(''reversal_executed'', receipt_to_dict run_receipt)], ())"
  unfolding run_receipt_def run_reversed_def by code_simp

lemma run_receipt_ok: "rc_ok run_receipt"
  by code_simp

lemma undo_at_most_once_witness:
  "reverse no_seams quiet_exec ''rv2'' ''jrn'' 31 True run_reversed () = (Inl AlreadyReversed, run_reversed, [], ())"
  by (rule undo_at_most_once [OF run_inv run_entry_lookup run_reverse_eq run_receipt_ok])

section \<open>A refused undo\<close>

text \<open>
  An undo that is refused with any of the engine's own errors leaves the world as it is, and
  leaves every journal entry as it is, except that an entry whose window has closed is marked
  expired, keeping its plan; a closed gate changes nothing, so the undo can be tried again.
\<close>

lemma refused_undo_changes_nothing:
  assumes "engine_inv eng" "reverse cb exec rid ref t force eng w = (Inl err, eng', ev, w')"
    and "err \<in> {AlreadyReversed, ReversalPlanMissing, NotReversible, ReversalWindowExpired} \<or> (\<exists>m. err = ReversalGateClosed m)"
  shows "w' = w \<and> (err \<noteq> ReversalWindowExpired \<longrightarrow> eng' = eng)
    \<and> (err = ReversalWindowExpired \<longrightarrow> (\<exists>e. resolve_ref ref eng = Inr e \<and> entry_is_expired t e \<and> \<not> force
         \<and> eng' = put_entry (transition EXPIRED ''window closed'' t e) eng))"
proof (cases "resolve_ref ref eng")
  case (Inl x)
  then show ?thesis using assms resolve_ref_error [OF assms(1) Inl] by (auto simp: reverse_unknown)
next
  case (Inr e)
  show ?thesis
  proof (cases "undo_ready cb t force w e")
    case False
    then show ?thesis
      using assms(2) Inr
      by (auto simp: reverse_def Let_def undo_ready_def reverse_refusal_None split: option.splits if_splits
          dest: reverse_refusal_errors)
  next
    case True
    then have "\<exists>w1. run_steps exec (undo_steps e eng) (rp_snapshot (je_plan e)) (rp_steps (je_plan e)) run_init w
        = (Inl err, w1)"
      using assms(2) reverse_eq [OF Inr True, of exec rid] by (auto split: prod.splits sum.splits)
    then show ?thesis using run_steps_raised assms(3) by fastforce
  qed
qed

lemma refused_undo_changes_nothing_witness:
  "fst (snd (reverse no_seams quiet_exec ''rvs'' ''nope'' 30 False run_committed ())) = run_committed"
proof -
  have "reverse no_seams quiet_exec ''rvs'' ''nope'' 30 False run_committed ()
      = (Inl ReversalPlanMissing, run_committed, [], ())" by code_simp
  from refused_undo_changes_nothing [OF run_inv this] this show ?thesis by simp
qed

section \<open>Refinement\<close>

text \<open>
  C30: the undo of an entry whose steps do not read each other's results refines the abstract saga
  over the planned calls: the world ends as the saga leaves it, the receipt is good exactly when
  the saga succeeds, the entry becomes reversed or failed accordingly, and every planned step is
  reported in order.
\<close>

lemma undo_refines_saga:
  assumes "engine_inv eng" "map_of (re_journal eng) jid = Some e" "undo_ready cb t force w e"
    and "\<forall>p \<in> set (rp_steps (je_plan e)). ps_from_prior_step p = []"
  shows "\<exists>rc eng' ev. reverse cb exec rid jid t force eng w
      = (Inr rc, eng', ev, snd (saga exec (saga_of (rp_steps (je_plan e))) w))
    \<and> rc_ok rc = fst (saga exec (saga_of (rp_steps (je_plan e))) w)
    \<and> rc_ok rc = list_all sr_ok (rc_steps rc)
    \<and> map sr_name (rc_steps rc) = map ps_name (rp_steps (je_plan e))
    \<and> map_option je_state (map_of (re_journal eng') jid) = Some (if rc_ok rc then REVERSED else FAILED)"
proof -
  have ref: "resolve_ref jid eng = Inr e" and id: "je_id e = jid"
    using assms(2) engine_inv_entry [OF assms(1,2)] by (simp_all add: resolve_ref_def)
  obtain rn where rn: "run_steps exec (undo_steps e eng) (rp_snapshot (je_plan e)) (rp_steps (je_plan e)) run_init w
      = (Inr rn, snd (saga exec (saga_of (rp_steps (je_plan e))) w))"
    "rn_ok rn = fst (saga exec (saga_of (rp_steps (je_plan e))) w)"
    using run_steps_saga [OF assms(4), of run_init exec "undo_steps e eng" "rp_snapshot (je_plan e)" w]
    by (auto simp: run_init_def)
  have "rn_ok rn = list_all sr_ok (rn_outcomes rn)"
    using run_steps_ok [OF rn(1)] by (simp add: run_init_def)
  moreover have "map sr_name (rn_outcomes rn) = map ps_name (rp_steps (je_plan e))"
    using run_steps_outcomes [OF rn(1)] by (auto simp: run_init_def)
  ultimately show ?thesis
    using rn reverse_eq [OF ref assms(3), of exec rid] id by (simp add: put_entry_lookup)
qed

lemma undo_refines_saga_witness:
  "\<exists>rc eng' ev. reverse no_seams broken_exec ''rvs'' ''jrn'' 30 False run_committed () = (Inr rc, eng', ev, ())
     \<and> \<not> rc_ok rc \<and> map_option je_state (map_of (re_journal eng') ''jrn'') = Some FAILED"
proof -
  have ready: "undo_ready no_seams 30 False () run_entry" by code_simp
  have nil: "\<forall>p \<in> set (rp_steps (je_plan run_entry)). ps_from_prior_step p = []" by code_simp
  have "\<not> fst (saga broken_exec (saga_of (rp_steps (je_plan run_entry))) ())" by code_simp
  with undo_refines_saga [OF run_inv run_entry_lookup ready nil, of broken_exec "''rvs''"] show ?thesis
    by fastforce
qed

section \<open>Every reachable journal\<close>

text \<open>
  C7: in every state the engine can reach, by any interleaving of registering, planning, committing,
  abandoning, undoing, cascading and expiring while the world changes under it, each journal entry
  is filed under its own identifier, its recorded history is an unbroken path from planned to its
  state along allowed transitions, and an entry past planning and abandonment has a commit time.
\<close>

theorem reachable_journal:
  assumes "engine_reachable cb s" "wf_seams cb" "map_of (re_journal (fst s)) jid = Some e"
  shows "je_id e = jid \<and> history_path PLANNED (je_history e) (je_state e)
    \<and> (je_state e \<notin> {PLANNED, ABANDONED} \<longrightarrow> je_committed_at e \<noteq> None)
    \<and> (je_state e \<in> {REVERSED, FAILED, EXPIRED} \<longrightarrow> COMMITTED \<in> set (map tn_to (je_history e)))"
proof -
  have ok: "je_id e = jid" "entry_ok e"
    using engine_inv_entry [OF engine_reachable_inv [OF assms(1,2)] assms(3)] by auto
  then show ?thesis
    using history_path_committed [of PLANNED "je_history e" "je_state e"] by (auto simp: entry_ok_def)
qed

lemma reachable_journal_witness:
  "history_path PLANNED (je_history run_entry) (je_state run_entry) \<and> je_state run_entry = COMMITTED"
proof -
  have "je_state run_entry = COMMITTED" by code_simp
  moreover have "map_of (re_journal (fst (run_committed, ()))) ''jrn'' = Some run_entry"
    by (simp add: run_entry_lookup)
  ultimately show ?thesis
    using reachable_journal [OF run_reachable wf_no_seams, of "''jrn''" run_entry] by simp
qed

section \<open>Postures\<close>

text \<open>
  The posture the engine reports for a call never exceeds the one its spec declares, is at most
  the degraded one when a precondition checked before the action is closed, unverifiable or raises,
  and is unknown for a tool nothing declares; the hook cannot raise it.
\<close>

theorem posture_never_raised:
  assumes "engine_inv eng" "wf_seams cb"
  shows "(case fst (spec_for cb w tool (Some args) eng) of
      None \<Rightarrow> fst (classify cb w tool (Some args) eng) = UNKNOWN
    | Some s \<Rightarrow> fst (classify cb w tool (Some args) eng) \<le> sp_kind s
        \<and> ((\<exists>g \<in> set (authorize_gates s). gate_closed cb w tool args None PhAuthorize g \<noteq> None) \<longrightarrow>
             fst (classify cb w tool (Some args) eng) \<le> sp_degraded_kind s))"
proof (cases "fst (spec_for cb w tool (Some args) eng)")
  case None
  then show ?thesis by (simp add: classify_unknown)
next
  case (Some s)
  have "wf_spec s" using spec_for_wf [OF _ assms(2) Some] assms(1) by (simp add: engine_inv_def)
  with Some show ?thesis using classify_le [OF Some] classify_closed_gate [OF Some] by auto
qed

lemma posture_never_raised_witness:
  "fst (classify no_seams () ''payments.crypto'' (Some []) run_committed) = UNKNOWN"
proof -
  have "fst (spec_for no_seams () ''payments.crypto'' (Some []) run_committed) = None" by code_simp
  then show ?thesis
    using posture_never_raised [OF run_inv wf_no_seams, of "()" "''payments.crypto''" "[]"] by simp
qed

section \<open>Plans and commits\<close>

text \<open>
  Committing the entry of a declared tool binds each argument its plan deferred to the value the
  response holds, or makes it an unresolved argument, which blocks the undo; nothing stays deferred,
  and every other argument keeps the value captured before the action ran.
\<close>

lemma commit_binds_or_blocks:
  assumes inv: "engine_inv eng" and e: "map_of (re_journal eng) jid = Some e"
    and reg: "registry_get (rp_tool (je_plan e)) (re_registry eng) = Some s"
    and und: "is_undoable (rp_kind (je_plan e))"
    and planned: "plan_steps args (rp_snapshot (je_plan e)) (effective_steps s) = Inr (rp_steps (je_plan e))"
    and com: "commit jid aid result t eng = (Inr e', eng', ev)"
  shows "je_state e' = COMMITTED \<and> rp_deferred_args (je_plan e') = []
    \<and> (\<forall>i < length (rp_steps (je_plan e)).
         let q = rp_steps (je_plan e) ! i; q' = rp_steps (je_plan e') ! i in
           ps_tool q' = ps_tool q
         \<and> (\<forall>n \<in> set (ps_deferred q). n \<in> dkeys (ps_args q') \<or> n \<in> set (rp_unresolved_args (je_plan e')))
         \<and> (\<forall>n. (\<forall>st \<in> set (effective_steps s). n \<notin> set (step_needs_result st)) \<longrightarrow>
              map_of (ps_args q') n = map_of (ps_args q) n))
    \<and> (rp_unresolved_args (je_plan e') \<noteq> [] \<longrightarrow>
         fst (reverse cb exec rid jid t' force eng' w) = Inl NotReversible)"
proof -
  obtain p where p: "commit_plan result (je_plan e) eng = Inr p"
    and e': "e' = transition COMMITTED [] t (e\<lparr>je_plan := p, je_action_id := Some aid\<rparr>)"
    and eng': "eng' = put_entry e' (eng\<lparr>re_by_action := AList.update aid (je_id e) (re_by_action eng)\<rparr>)"
    using com by (rule commit_result) (use e in auto)
  obtain qs where qs: "rebind_steps (by_name (effective_steps s)) (rp_snapshot (je_plan e)) result
      (rp_steps (je_plan e)) = Inr qs" and p_eq: "p = rebound_plan qs (je_plan e)"
    using commit_declared [OF reg und p] by blast
  have plan: "je_plan e' = p" "je_state e' = COMMITTED" by (simp_all add: e')
  have step: "let q = rp_steps (je_plan e) ! i; q' = rp_steps (je_plan e') ! i in
           ps_tool q' = ps_tool q
         \<and> (\<forall>n \<in> set (ps_deferred q). n \<in> dkeys (ps_args q') \<or> n \<in> set (rp_unresolved_args (je_plan e')))
         \<and> (\<forall>n. (\<forall>st \<in> set (effective_steps s). n \<notin> set (step_needs_result st)) \<longrightarrow>
              map_of (ps_args q') n = map_of (ps_args q) n)" if i: "i < length (rp_steps (je_plan e))" for i
  proof -
    let ?q = "rp_steps (je_plan e) ! i"
    have r: "rebind_step (by_name (effective_steps s)) (rp_snapshot (je_plan e)) result ?q = Inr (qs ! i)"
      and len: "length qs = length (rp_steps (je_plan e))"
      using rebind_steps_nth [OF qs] i by auto
    have "ps_name ?q \<in> set (map st_name (effective_steps s))"
      using i by (simp add: plan_steps_map [OF planned, THEN conjunct1, symmetric])
    then have "by_name (effective_steps s) (ps_name ?q) \<noteq> None"
      by (simp add: by_name_None_iff)
    then obtain st where st: "by_name (effective_steps s) (ps_name ?q) = Some st" by blast
    then have mem: "st \<in> set (effective_steps s)" using by_name_Some by blast
    have "qs ! i \<in> set qs" using i len by simp
    then show ?thesis
      using rebind_step_shape(2) [OF r] rebind_step_deferred [OF r] rebind_step_frame [OF r st] st mem
      by (auto simp: Let_def plan p_eq rebound_plan_def)
  qed
  have "fst (reverse cb exec rid jid t' force eng' w) = Inl NotReversible"
    if "rp_unresolved_args (je_plan e') \<noteq> []"
  proof -
    have "map_of (re_journal eng') jid = Some e'"
      using engine_inv_entry [OF inv e] by (simp add: eng' put_entry_lookup e')
    moreover have "reverse_refusal e' = Some NotReversible"
      using that plan(2) by (simp add: reverse_refusal_def)
    ultimately show ?thesis by (simp add: reverse_def resolve_ref_def)
  qed
  with step plan show ?thesis by (simp add: p_eq rebound_plan_def)
qed

lemma run_opened_lookup:
  "map_of (re_journal run_opened) ''jrn'' = Some (fst (open_journal ''jrn'' run_plan None (Some ''del'') ''ses'' run_engine))"
  by code_simp

lemma run_opened_inv: "engine_inv run_opened"
proof -
  have "plan_inv run_plan"
    using plan_inv_plan [OF _ wf_no_seams run_plan_eq] by (simp add: run_engine_def new_engine_def)
  then show ?thesis unfolding run_opened_def
    by (rule engine_inv_open [rotated]) (simp add: run_engine_def engine_inv_new)
qed

lemma commit_binds_or_blocks_witness:
  "fst (reverse (no_seams :: unit seams) quiet_exec ''rvs'' ''jrn'' 30 False
     (fst (snd (commit ''jrn'' ''act'' (VDict [(''status'', VStr ''ok'')]) 20 run_opened))) ()) = Inl NotReversible"
proof -
  let ?c = "commit ''jrn'' ''act'' (VDict [(''status'', VStr ''ok'')]) 20 run_opened"
  let ?e = "fst (open_journal ''jrn'' run_plan None (Some ''del'') ''ses'' run_engine)"
  have reg: "registry_get (rp_tool (je_plan ?e)) (re_registry run_opened) = Some (spec_canon ap_vendors_create)"
    by code_simp
  have und: "is_undoable (rp_kind (je_plan ?e))" by code_simp
  have pl: "plan_steps vendor_args (rp_snapshot (je_plan ?e)) (effective_steps (spec_canon ap_vendors_create))
      = Inr (rp_steps (je_plan ?e))" by code_simp
  have com: "?c = (Inr (projr (fst ?c)), fst (snd ?c), snd (snd ?c))" by code_simp
  have "rp_unresolved_args (je_plan (projr (fst ?c))) = [''vendor_id'']" by code_simp
  then have "rp_unresolved_args (je_plan (projr (fst ?c))) \<noteq> []" by simp
  with commit_binds_or_blocks [OF run_opened_inv run_opened_lookup reg und pl com, THEN conjunct2,
      THEN conjunct2, THEN conjunct2] show ?thesis by (rule mp)
qed

section \<open>Cascades\<close>

text \<open>
  A cascade that returns a report accounts for what it did: its receipts number the successes
  and the failures together, never more than it attempted, and exactly the attempted ones unless it
  stopped early, which it does only when asked to and after a failure. The receipts follow the
  live entries from the latest commit back.
\<close>

lemma cascade_accounts:
  assumes inv: "engine_inv eng"
    and sel: "select_entries s d a eng = Inr (es, kind, sid)"
    and run: "reverse_cascade cb exec rids s d a stop now eng w = (Inr r, eng', ev, w')"
  shows "cr_attempted r = length (live_newest_first es)
    \<and> length (cr_receipts r) = cr_reversed_ok r + cr_failed r
    \<and> cr_reversed_ok r + cr_failed r + cr_skipped r \<le> cr_attempted r
    \<and> (\<not> cr_stopped_early r \<longrightarrow> cr_reversed_ok r + cr_failed r + cr_skipped r = cr_attempted r)
    \<and> (cr_stopped_early r \<longrightarrow> stop \<and> 0 < cr_failed r)
    \<and> subseq (map rc_journal_id (cr_receipts r)) (map je_id (live_newest_first es))
    \<and> sorted_wrt (\<lambda>x y. commit_time y \<le> commit_time x) (live_newest_first es)"
proof -
  obtain cs where l: "cascade_loop cb exec rids now stop (live_newest_first es) cascade_init eng w = (Inr cs, eng', ev, w')"
    and r: "r = cascade_finish kind sid (live_newest_first es) cs"
    using run sel by (auto simp: reverse_cascade_def Let_def split: prod.splits sum.splits)
  have keys: "je_id ` set (live_newest_first es) \<subseteq> dkeys (re_journal eng)"
    using select_entries_lookup [OF inv sel] by (auto simp: live_newest_first_def dest: map_of_Some_dkeys)
  show ?thesis
    using cascade_loop_counts [OF l] cascade_loop_order [OF l inv keys]
    by (auto simp: r cascade_finish_def cascade_init_def live_newest_first_def sorted_sort_desc)
qed

definition run_cascade :: "(revoco_error + cascade_report) \<times> rengine \<times> events \<times> unit" where
  "run_cascade = reverse_cascade no_seams quiet_exec (\<lambda>i. ''rvs'') None (Some ''del'') None True 30 run_committed ()"

definition run_report :: cascade_report where
  "run_report = projr (fst run_cascade)"

lemma run_cascade_eq:
  "reverse_cascade no_seams quiet_exec (\<lambda>i. ''rvs'') None (Some ''del'') None True 30 run_committed ()
     = (Inr run_report, fst (snd run_cascade), fst (snd (snd run_cascade)), ())"
  unfolding run_report_def run_cascade_def by code_simp

lemma run_select:
  "select_entries None (Some ''del'') None run_committed = Inr ([run_entry], ''delegation'', ''del'')"
  by code_simp

lemma cascade_accounts_witness:
  "length (cr_receipts run_report) = cr_reversed_ok run_report + cr_failed run_report
   \<and> cr_attempted run_report = 1"
proof -
  have "length (live_newest_first [run_entry]) = 1" by code_simp
  with cascade_accounts [OF run_inv run_select run_cascade_eq] show ?thesis by simp
qed

text \<open>
  After a cascade that reports success with nothing skipped, every live entry of the selected
  session, delegation or action list is reversed.
\<close>

lemma clean_cascade_reverses_all:
  assumes inv: "engine_inv eng"
    and sel: "select_entries s d a eng = Inr (es, kind, sid)"
    and run: "reverse_cascade cb exec rids s d a stop now eng w = (Inr r, eng', ev, w')"
    and clean: "cascade_ok r" "cr_skipped r = 0"
    and e: "e \<in> set es" "je_state e = COMMITTED"
  shows "map_option je_state (map_of (re_journal eng') (je_id e)) = Some REVERSED"
  using assms by (rule clean_cascade_lookup)

lemma clean_cascade_reverses_all_witness:
  "map_option je_state (map_of (re_journal (fst (snd run_cascade))) ''jrn'') = Some REVERSED"
proof -
  have ok: "cascade_ok run_report" "cr_skipped run_report = 0" by code_simp+
  have e: "run_entry \<in> set [run_entry]" "je_state run_entry = COMMITTED" by (simp, code_simp)
  have "je_id run_entry = ''jrn''" by code_simp
  with clean_cascade_reverses_all [OF run_inv run_select run_cascade_eq ok e] show ?thesis by simp
qed

section \<open>Windows\<close>

text \<open>
  The sweep of expired windows marks exactly the committed entries whose deadline, counted from
  the commit, has passed, and touches no other entry; an entry it marked is no longer undone, even
  when forced.
\<close>

lemma expire_stale_exact:
  assumes inv: "engine_inv eng" and e: "map_of (re_journal eng) jid = Some e"
    and run: "expire_stale now eng = (ids, eng', ev)"
  shows "(jid \<in> set ids \<longleftrightarrow> je_state e = COMMITTED \<and> entry_is_expired now e)
    \<and> map_of (re_journal eng') jid = Some (expire_entry now e)
    \<and> (jid \<in> set ids \<longrightarrow> reverse cb exec rid jid t force eng' w = (Inl ReversalPlanMissing, eng', [], w))
    \<and> (jid \<notin> set ids \<longrightarrow> expire_entry now e = e)"
proof -
  have ids: "jid \<in> set ids \<longleftrightarrow> je_state e = COMMITTED \<and> entry_is_expired now e"
  proof
    assume "jid \<in> set ids"
    then obtain x where x: "x \<in> set (journal_values eng)" "je_id x = jid"
      "je_state x = COMMITTED \<and> entry_is_expired now x"
      using run by (auto simp: expire_stale_def Let_def)
    with journal_values_lookup [OF inv x(1)] e show "je_state e = COMMITTED \<and> entry_is_expired now e" by simp
  next
    assume c: "je_state e = COMMITTED \<and> entry_is_expired now e"
    have "e \<in> set (journal_values eng)" using e by (auto simp: journal_values_def dest: map_of_values)
    with c run engine_inv_entry [OF inv e] show "jid \<in> set ids"
      by (auto simp: expire_stale_def Let_def intro!: rev_image_eqI)
  qed
  have j: "map_of (re_journal eng') jid = Some (expire_entry now e)"
    using run e by (auto simp: expire_stale_def Let_def map_of_map)
  have "reverse cb exec rid jid t force eng' w = (Inl ReversalPlanMissing, eng', [], w)" if "jid \<in> set ids"
    using that ids j by (simp add: reverse_def resolve_ref_def expire_entry_def reverse_refusal_def)
  with ids j show ?thesis by (auto simp: expire_entry_def)
qed

lemma expire_stale_exact_witness:
  "map_of (re_journal (fst (snd (expire_stale 99 run_committed)))) ''jrn'' = Some (expire_entry 99 run_entry)"
proof -
  have "expire_stale 99 run_committed
      = (fst (expire_stale 99 run_committed), fst (snd (expire_stale 99 run_committed)),
         snd (snd (expire_stale 99 run_committed)))" by simp
  from expire_stale_exact [OF run_inv run_entry_lookup this, THEN conjunct2, THEN conjunct1] show ?thesis .
qed

section \<open>Behaviours to know\<close>

text \<open>
  \<open>commit\<close> does not look at the state of the entry it commits. An undone entry that is committed
  again is live again, and its undo is executed a second time.
\<close>

lemma recommit_reopens_undo:
  "let eng2 = fst (snd (commit ''jrn'' ''act'' vendor_result 40 run_reversed));
       (r, eng3, ev, (w, calls)) = reverse no_seams (logged quiet_exec) ''rv2'' ''jrn'' 50 False eng2 ((), [])
   in map_option je_state (map_of (re_journal run_reversed) ''jrn'') = Some REVERSED
    \<and> calls = [(''vendors.deactivate'', [(''vendor_id'', VStr ''V7'')])]"
  by code_simp

text \<open>
  Entries with equal commit times are undone in the order they were committed, oldest first: the
  descending sort is stable.
\<close>

lemma equal_commit_times_undone_oldest_first:
  assumes "\<forall>e \<in> set es. je_state e = COMMITTED \<and> commit_time e = t"
  shows "live_newest_first es = es"
proof -
  have "filter (\<lambda>e. commit_time e = t) (sort_desc commit_time es) = filter (\<lambda>e. commit_time e = t) es"
    by (rule sort_desc_stable)
  moreover have "filter (\<lambda>e. commit_time e = t) (sort_desc commit_time es) = sort_desc commit_time es"
    "filter (\<lambda>e. commit_time e = t) es = es" "filter (\<lambda>e. je_state e = COMMITTED) es = es"
    using assms by (simp_all add: filter_id_conv)
  ultimately show ?thesis by (simp add: live_newest_first_def)
qed

text \<open>
  When a hook lowers a reversible tool to compensable, the posture reported for the call is
  compensable but the plan still says reversible.
\<close>

definition lowering_seams :: "unit seams" where
  "lowering_seams = (no_seams :: unit seams)\<lparr>classify_hook := Some (\<lambda>w tool k. Inr (HKind COMPENSABLE))\<rparr>"

lemma plan_keeps_declared_kind:
  "fst (classify lowering_seams () ''invoices.approve'' (Some []) run_engine) = COMPENSABLE
   \<and> map_sum id rp_kind (fst (plan lowering_seams () ''pln'' 10 ''invoices.approve'' [] run_engine)) = Inr REVERSIBLE"
  by code_simp

text \<open>A source \<open>const.x\<close> passes validation although nothing can resolve it.\<close>

lemma bare_const_accepted:
  "validate_source ''const.x'' = Inr ()
   \<and> (\<forall>r ir is acc. resolve_one r ir is n ''const.x'' acc = Inl (Raised (PyExn ''KeyError'' ''const'')))"
  by (simp add: validate_source_def resolve_one_def is_const_def ARG_SOURCES_def Let_def)

end
