(* ===== verification/IrrevBudget.thy ===== *)
theory IrrevBudget
  imports Journal "HOL-Library.Multiset"
begin

text \<open>
  \<open>reversal/budget.py\<close>: a ceiling on the unrecoverable exposure one grant may accumulate.
  An action is priced from its resolved posture and its risk, checked before it runs, debited after
  it succeeded and credited back when it is undone. Amounts are exact rationals. The lazily created
  account (\<open>dict.setdefault\<close>) is created by the operations that look an account up.
\<close>

section \<open>Prices\<close>

definition DEFAULT_WEIGHTS :: "(reversibility, rat) dict" where
  "DEFAULT_WEIGHTS = [(IDEMPOTENT, 0), (REVERSIBLE, 0), (COMPENSABLE, 1 / 4), (IRREVERSIBLE, 1), (UNKNOWN, 1)]"

definition DEFAULT_RESIDUE_SURCHARGE :: rat where
  "DEFAULT_RESIDUE_SURCHARGE = 15 / 100"

record charge =
  ch_tool :: string
  ch_kind :: reversibility
  ch_risk :: int
  ch_base_weight :: rat
  ch_residue_surcharge :: rat
  ch_cost :: rat

record budget_state =
  bs_scope_id :: string
  bs_ceiling :: rat
  bs_spent :: rat
  bs_charges :: "charge list"
  bs_refusals :: nat

definition remaining :: "budget_state \<Rightarrow> rat" where
  "remaining st = max 0 (bs_ceiling st - bs_spent st)"

definition exhausted :: "budget_state \<Rightarrow> bool" where
  "exhausted st \<longleftrightarrow> bs_ceiling st \<le> bs_spent st"

definition utilization :: "budget_state \<Rightarrow> rat" where
  "utilization st = (if bs_ceiling st \<noteq> 0 then min 1 (bs_spent st / bs_ceiling st) else 1)"

record ibudget =
  ib_ceiling :: rat
  ib_weights :: "(reversibility, rat) dict"
  ib_residue_surcharge :: rat
  ib_min_risk :: int
  ib_states :: "(string, budget_state) dict"

definition new_budget :: "rat \<Rightarrow> (reversibility, rat) dict option \<Rightarrow> rat \<Rightarrow> int \<Rightarrow> revoco_error + ibudget" where
  "new_budget cap weights surcharge min_risk =
     raise_if (cap \<le> 0) ValidationError
     (Inr \<lparr>ib_ceiling = cap,
           ib_weights = (case weights of Some (x # xs) \<Rightarrow> x # xs | _ \<Rightarrow> DEFAULT_WEIGHTS),
           ib_residue_surcharge = surcharge, ib_min_risk = min_risk, ib_states = []\<rparr>)"

definition weight_of :: "ibudget \<Rightarrow> reversibility \<Rightarrow> rat" where
  "weight_of b kind = (case map_of (ib_weights b) kind of Some w \<Rightarrow> w | None \<Rightarrow> 1)"

definition price :: "string \<Rightarrow> reversibility \<Rightarrow> int \<Rightarrow> bool \<Rightarrow> ibudget \<Rightarrow> charge" where
  "price tool kind risk has_residue b =
     (let base = weight_of b kind;
          surcharge = (if has_residue \<and> kind = COMPENSABLE then ib_residue_surcharge b else 0)
      in if risk < ib_min_risk b \<or> base = 0
         then \<lparr>ch_tool = tool, ch_kind = kind, ch_risk = risk, ch_base_weight = base,
               ch_residue_surcharge = 0, ch_cost = 0\<rparr>
         else \<lparr>ch_tool = tool, ch_kind = kind, ch_risk = risk, ch_base_weight = base,
               ch_residue_surcharge = surcharge, ch_cost = (base + surcharge) * (of_int risk / 100)\<rparr>)"

section \<open>Accounts\<close>

definition fresh_state :: "string \<Rightarrow> ibudget \<Rightarrow> budget_state" where
  "fresh_state sid b = \<lparr>bs_scope_id = sid, bs_ceiling = ib_ceiling b, bs_spent = 0, bs_charges = [],
     bs_refusals = 0\<rparr>"

definition account :: "string \<Rightarrow> ibudget \<Rightarrow> budget_state" where
  "account sid b = (case map_of (ib_states b) sid of Some st \<Rightarrow> st | None \<Rightarrow> fresh_state sid b)"

definition put_account :: "string \<Rightarrow> budget_state \<Rightarrow> ibudget \<Rightarrow> ibudget" where
  "put_account sid st b = b\<lparr>ib_states := AList.update sid st (ib_states b)\<rparr>"

definition budget_account :: "string \<Rightarrow> ibudget \<Rightarrow> budget_state \<times> ibudget" where
  "budget_account sid b = (account sid b, put_account sid (account sid b) b)"

definition would_exceed :: "string \<Rightarrow> charge \<Rightarrow> ibudget \<Rightarrow> bool \<times> ibudget" where
  "would_exceed sid ch b =
     (if ch_cost ch \<le> 0 then (False, b)
      else (let (st, b') = budget_account sid b in (bs_ceiling st < bs_spent st + ch_cost ch, b')))"

text \<open>What the reason of a check says: the action is free, the balance it would overdraw, or what
  is left.\<close>

datatype budget_reason = BFree | BExhausted rat rat rat | BWithin rat rat

definition budget_check ::
  "string \<Rightarrow> string \<Rightarrow> reversibility \<Rightarrow> int \<Rightarrow> bool \<Rightarrow> ibudget \<Rightarrow> (bool \<times> charge \<times> budget_reason) \<times> ibudget" where
  "budget_check sid tool kind risk has_residue b =
     (let ch = price tool kind risk has_residue b in
      if ch_cost ch \<le> 0 then ((True, ch, BFree), b)
      else (let (st, b') = budget_account sid b in
        if bs_ceiling st < bs_spent st + ch_cost ch then
          ((False, ch, BExhausted (bs_spent st) (bs_ceiling st) (ch_cost ch)),
           put_account sid (st\<lparr>bs_refusals := bs_refusals st + 1\<rparr>) b')
        else ((True, ch, BWithin (remaining st) (bs_ceiling st)), b')))"

definition budget_commit :: "string \<Rightarrow> charge \<Rightarrow> ibudget \<Rightarrow> budget_state \<times> ibudget" where
  "budget_commit sid ch b =
     (let (st, b') = budget_account sid b in
      if ch_cost ch \<le> 0 then (st, b')
      else (let st' = st\<lparr>bs_spent := bs_spent st + ch_cost ch, bs_charges := bs_charges st @ [ch]\<rparr>
            in (st', put_account sid st' b')))"

definition budget_refund :: "string \<Rightarrow> charge \<Rightarrow> ibudget \<Rightarrow> budget_state \<times> ibudget" where
  "budget_refund sid ch b =
     (let (st, b') = budget_account sid b in
      if ch_cost ch \<le> 0 then (st, b')
      else (let st' = st\<lparr>bs_spent := max 0 (bs_spent st - ch_cost ch)\<rparr> in (st', put_account sid st' b')))"

definition budget_reset :: "string \<Rightarrow> ibudget \<Rightarrow> budget_state \<times> ibudget" where
  "budget_reset sid b = (fresh_state sid b, put_account sid (fresh_state sid b) b)"

section \<open>Reports\<close>

definition v_num :: "rat \<Rightarrow> val" where
  "v_num x = VFloat (Fin x)"

definition charge_to_dict :: "charge \<Rightarrow> val" where
  "charge_to_dict ch = VDict
    [(''tool'', VStr (ch_tool ch)), (''kind'', VStr (posture_value (ch_kind ch))),
     (''risk'', VInt (ch_risk ch)), (''base_weight'', v_num (ch_base_weight ch)),
     (''residue_surcharge'', v_num (ch_residue_surcharge ch)), (''cost'', v_num (py_round (ch_cost ch) 6))]"

definition budget_state_to_dict :: "budget_state \<Rightarrow> val" where
  "budget_state_to_dict st = VDict
    [(''scope_id'', VStr (bs_scope_id st)), (''ceiling'', v_num (bs_ceiling st)),
     (''spent'', v_num (py_round (bs_spent st) 6)), (''remaining'', v_num (py_round (remaining st) 6)),
     (''utilization'', v_num (py_round (utilization st) 4)), (''exhausted'', VBool (exhausted st)),
     (''charged_actions'', VInt (int (length (bs_charges st)))), (''refusals'', VInt (int (bs_refusals st)))]"

definition budget_report :: "ibudget \<Rightarrow> val" where
  "budget_report b =
     (let states = map snd (ib_states b) in VDict
       [(''ceiling'', v_num (ib_ceiling b)),
        (''weights'', VDict (map (\<lambda>(k, w). (posture_value k, v_num w)) (ib_weights b))),
        (''residue_surcharge'', v_num (ib_residue_surcharge b)),
        (''scopes'', VList (map budget_state_to_dict states)),
        (''exhausted_scopes'', v_strs (map bs_scope_id (filter exhausted states))),
        (''total_unrecoverable_exposure'',
           v_num (py_round (sum_list (map (\<lambda>st. py_round (bs_spent st) 6) states)) 6))])"

section \<open>Laws of the accounts\<close>

lemma account_put [simp]: "account k (put_account sid st b) = (if k = sid then st else account k b)"
  by (simp add: account_def put_account_def fresh_state_def map_of_update split: option.splits)

lemma put_account_params [simp]:
  "ib_ceiling (put_account sid st b) = ib_ceiling b" "ib_weights (put_account sid st b) = ib_weights b"
  "ib_min_risk (put_account sid st b) = ib_min_risk b"
  "ib_residue_surcharge (put_account sid st b) = ib_residue_surcharge b"
  by (simp_all add: put_account_def)

lemma fresh_state_put [simp]: "fresh_state k (put_account sid st b) = fresh_state k b"
  by (simp add: fresh_state_def)

lemma budget_check_frame:
  assumes "budget_check sid tool kind risk res b = (r, b')"
  shows "bs_spent (account k b') = bs_spent (account k b) \<and> bs_ceiling (account k b') = bs_ceiling (account k b)
    \<and> bs_charges (account k b') = bs_charges (account k b)
    \<and> ib_ceiling b' = ib_ceiling b \<and> ib_weights b' = ib_weights b"
  using assms by (auto simp: budget_check_def budget_account_def Let_def split: if_splits)

lemma budget_check_ok:
  assumes "budget_check sid tool kind risk res b = ((True, ch, why), b')" "0 < ch_cost ch"
  shows "bs_spent (account sid b) + ch_cost ch \<le> bs_ceiling (account sid b)"
  using assms by (auto simp: budget_check_def budget_account_def Let_def split: if_splits)

lemma budget_check_refused:
  assumes "budget_check sid tool kind risk res b = ((False, ch, why), b')"
  shows "bs_ceiling (account sid b) < bs_spent (account sid b) + ch_cost ch \<and> 0 < ch_cost ch
    \<and> ch = price tool kind risk res b"
  using assms by (auto simp: budget_check_def budget_account_def Let_def split: if_splits)

lemma would_exceed_check:
  "fst (would_exceed sid (price tool kind risk res b) b) \<longleftrightarrow> \<not> fst (fst (budget_check sid tool kind risk res b))"
  by (simp add: would_exceed_def budget_check_def budget_account_def Let_def)

lemma budget_commit_account:
  "account k (snd (budget_commit sid ch b)) =
     (if k = sid \<and> 0 < ch_cost ch
      then (account k b)\<lparr>bs_spent := bs_spent (account k b) + ch_cost ch, bs_charges := bs_charges (account k b) @ [ch]\<rparr>
      else account k b)"
  by (simp add: budget_commit_def budget_account_def Let_def)

lemma budget_refund_account:
  "account k (snd (budget_refund sid ch b)) =
     (if k = sid \<and> 0 < ch_cost ch
      then (account k b)\<lparr>bs_spent := max 0 (bs_spent (account k b) - ch_cost ch)\<rparr> else account k b)"
  by (simp add: budget_refund_def budget_account_def Let_def)

lemma budget_reset_account:
  "account k (snd (budget_reset sid b)) = (if k = sid then fresh_state sid b else account k b)"
  by (simp add: budget_reset_def)

section \<open>Ledger of outstanding charges\<close>

text \<open>
  The specification of an account: the charges that were debited and not yet credited back.
  A run debits any charge, credits back a charge that is outstanding, and may check and reset.
\<close>

datatype budget_op =
    BCheck string string reversibility int bool
  | BCommit string charge
  | BRefund string charge
  | BReset string

fun run_budget_op :: "budget_op \<Rightarrow> ibudget \<Rightarrow> ibudget" where
  "run_budget_op (BCheck sid tool kind risk res) b = snd (budget_check sid tool kind risk res b)"
| "run_budget_op (BCommit sid ch) b = snd (budget_commit sid ch b)"
| "run_budget_op (BRefund sid ch) b = snd (budget_refund sid ch b)"
| "run_budget_op (BReset sid) b = snd (budget_reset sid b)"

fun outstanding_op :: "budget_op \<Rightarrow> (string \<Rightarrow> charge multiset) \<Rightarrow> (string \<Rightarrow> charge multiset) option" where
  "outstanding_op (BCheck sid tool kind risk res) out = Some out"
| "outstanding_op (BCommit sid ch) out = Some (if 0 < ch_cost ch then out(sid := add_mset ch (out sid)) else out)"
| "outstanding_op (BRefund sid ch) out =
     (if 0 < ch_cost ch then (if ch \<in># out sid then Some (out(sid := out sid - {#ch#})) else None) else Some out)"
| "outstanding_op (BReset sid) out = Some (out(sid := {#}))"

fun run_outstanding :: "budget_op list \<Rightarrow> (string \<Rightarrow> charge multiset) \<Rightarrow> (string \<Rightarrow> charge multiset) option" where
  "run_outstanding [] out = Some out"
| "run_outstanding (x # xs) out =
     (case outstanding_op x out of None \<Rightarrow> None | Some out' \<Rightarrow> run_outstanding xs out')"

definition accounts_match :: "ibudget \<Rightarrow> (string \<Rightarrow> charge multiset) \<Rightarrow> bool" where
  "accounts_match b out \<longleftrightarrow> (\<forall>sid. bs_spent (account sid b) = sum_mset (image_mset ch_cost (out sid))
     \<and> (\<forall>ch \<in># out sid. 0 < ch_cost ch) \<and> bs_ceiling (account sid b) = ib_ceiling b)"

lemma sum_costs_nonneg: "(\<forall>ch \<in># m. 0 < ch_cost ch) \<Longrightarrow> 0 \<le> sum_mset (image_mset ch_cost m)"
  by (induction m) auto

lemma op_params [simp]: "ib_ceiling (run_budget_op x b) = ib_ceiling b"
  by (cases x)
     (simp_all add: budget_check_def budget_commit_def budget_refund_def budget_reset_def budget_account_def Let_def)

text \<open>One account against its outstanding charges.\<close>

definition account_matches :: "rat \<Rightarrow> budget_state \<Rightarrow> charge multiset \<Rightarrow> bool" where
  "account_matches cap st m \<longleftrightarrow> bs_spent st = sum_mset (image_mset ch_cost m)
     \<and> (\<forall>ch \<in># m. 0 < ch_cost ch) \<and> bs_ceiling st = cap"

lemma accounts_match_iff:
  "accounts_match b out \<longleftrightarrow> (\<forall>sid. account_matches (ib_ceiling b) (account sid b) (out sid))"
  by (simp add: accounts_match_def account_matches_def)

lemma account_matches_refund:
  assumes "account_matches cap st m" "ch \<in># m"
  shows "account_matches cap (st\<lparr>bs_spent := max 0 (bs_spent st - ch_cost ch)\<rparr>) (m - {#ch#})"
proof -
  obtain m' where m: "m = add_mset ch m'" using assms(2) by (metis multi_member_split)
  have "0 \<le> sum_mset (image_mset ch_cost m')"
    using assms(1) m by (intro sum_costs_nonneg) (auto simp: account_matches_def)
  with assms(1) show ?thesis by (auto simp: account_matches_def m)
qed

lemma accounts_match_step:
  assumes "accounts_match b out" "outstanding_op x out = Some out'"
  shows "accounts_match (run_budget_op x b) out'"
  unfolding accounts_match_iff op_params
proof
  fix k
  have k: "account_matches (ib_ceiling b) (account k b) (out k)" using assms(1) by (simp add: accounts_match_iff)
  show "account_matches (ib_ceiling b) (account k (run_budget_op x b)) (out' k)"
  proof (cases x)
    case (BCheck sid tool kind risk res)
    obtain r b' where c: "budget_check sid tool kind risk res b = (r, b')" by fastforce
    with BCheck k assms(2) budget_check_frame [OF c, of k] show ?thesis by (simp add: account_matches_def)
  next
    case (BCommit sid ch)
    with k assms(2) show ?thesis
      by (auto simp: account_matches_def budget_commit_account split: if_splits)
  next
    case (BReset sid)
    with k assms(2) show ?thesis by (auto simp: account_matches_def budget_reset_account fresh_state_def)
  next
    case (BRefund sid ch)
    with k assms(2) account_matches_refund [OF k, of ch] show ?thesis
      by (auto simp: budget_refund_account split: if_splits)
  qed
qed

lemma accounts_match_run:
  "accounts_match b out \<Longrightarrow> run_outstanding xs out = Some out' \<Longrightarrow> accounts_match (fold run_budget_op xs b) out'"
proof (induction xs arbitrary: b out)
  case Nil
  then show ?case by simp
next
  case (Cons x xs)
  then obtain out1 where o: "outstanding_op x out = Some out1" "run_outstanding xs out1 = Some out'"
    by (auto split: option.splits)
  from Cons.IH [OF accounts_match_step [OF Cons.prems(1) o(1)] o(2)] show ?case by simp
qed

section \<open>Checking before each debit\<close>

text \<open>One action as a caller that does nothing in between: check, and debit when allowed.\<close>

definition spend :: "string \<Rightarrow> string \<Rightarrow> reversibility \<Rightarrow> int \<Rightarrow> bool \<Rightarrow> ibudget \<Rightarrow> bool \<times> ibudget" where
  "spend sid tool kind risk res b =
     (case budget_check sid tool kind risk res b of
        ((ok, ch, why), b') \<Rightarrow> (ok, if ok then snd (budget_commit sid ch b') else b'))"

definition within_ceiling :: "ibudget \<Rightarrow> bool" where
  "within_ceiling b \<longleftrightarrow> (\<forall>sid. 0 \<le> bs_spent (account sid b) \<and> bs_spent (account sid b) \<le> bs_ceiling (account sid b))"

lemma within_new: "new_budget c ws s m = Inr b \<Longrightarrow> within_ceiling b"
  by (auto simp: new_budget_def within_ceiling_def account_def fresh_state_def)

lemma within_spend: 
  assumes "within_ceiling b"
  shows "within_ceiling (snd (spend sid tool kind risk res b))"
proof -
  obtain ok ch why b' where c: "budget_check sid tool kind risk res b = ((ok, ch, why), b')"
    by (metis prod.exhaust)
  show ?thesis
    using assms budget_check_frame [OF c] budget_check_ok [of sid tool kind risk res b ch why b'] c
    by (auto simp: spend_def within_ceiling_def budget_commit_account)
qed

lemma within_refund:
  assumes "within_ceiling b"
  shows "within_ceiling (snd (budget_refund sid ch b))"
  unfolding within_ceiling_def
proof
  fix k
  have "0 \<le> bs_spent (account k b)" "bs_spent (account k b) \<le> bs_ceiling (account k b)"
    using assms by (simp_all add: within_ceiling_def)
  then show "0 \<le> bs_spent (account k (snd (budget_refund sid ch b)))
      \<and> bs_spent (account k (snd (budget_refund sid ch b))) \<le> bs_ceiling (account k (snd (budget_refund sid ch b)))"
    by (auto simp: budget_refund_account)
qed

lemma within_reset: "within_ceiling b \<Longrightarrow> 0 \<le> ib_ceiling b \<Longrightarrow> within_ceiling (snd (budget_reset sid b))"
  by (auto simp: within_ceiling_def budget_reset_account fresh_state_def)

section \<open>Properties\<close>

text \<open>
  After any sequence of checks, debits, credits and resets in which a credit is for a charge that
  is still outstanding, the amount spent on each account is exactly the sum of the charges debited
  since its last reset and not credited back; the cap at zero never hides an error.
\<close>

theorem budget_tracks_outstanding:
  assumes "new_budget cap ws surcharge min_risk = Inr b" "run_outstanding xs (\<lambda>_. {#}) = Some out"
  shows "bs_spent (account sid (fold run_budget_op xs b)) = sum_mset (image_mset ch_cost (out sid))
    \<and> bs_ceiling (account sid (fold run_budget_op xs b)) = cap"
proof -
  have "accounts_match b (\<lambda>_. {#})" "ib_ceiling b = cap"
    using assms(1) by (auto simp: new_budget_def accounts_match_def account_def fresh_state_def)
  moreover have "ib_ceiling (fold run_budget_op xs b) = ib_ceiling b" for xs b
    by (induction xs arbitrary: b) simp_all
  ultimately show ?thesis
    using accounts_match_run [OF _ assms(2)] by (auto simp: accounts_match_def)
qed

definition wire_charge :: charge where
  "wire_charge = \<lparr>ch_tool = ''wire'', ch_kind = IRREVERSIBLE, ch_risk = 80, ch_base_weight = 1,
     ch_residue_surcharge = 0, ch_cost = 4 / 5\<rparr>"

definition three_budget :: ibudget where
  "three_budget = projr (new_budget 3 None DEFAULT_RESIDUE_SURCHARGE 1)"

lemma budget_tracks_outstanding_witness:
  "bs_spent (account ''g'' (fold run_budget_op
     [BCommit ''g'' wire_charge, BCommit ''g'' wire_charge, BRefund ''g'' wire_charge] three_budget)) = 4 / 5"
proof -
  have b: "new_budget 3 None DEFAULT_RESIDUE_SURCHARGE 1 = Inr three_budget"
    by (simp add: three_budget_def new_budget_def)
  have r: "run_outstanding [BCommit ''g'' wire_charge, BCommit ''g'' wire_charge, BRefund ''g'' wire_charge] (\<lambda>_. {#})
      = Some ((\<lambda>_. {#})(''g'' := {#wire_charge#}))"
    by (auto simp: wire_charge_def)
  show ?thesis using budget_tracks_outstanding [OF b r, of "''g''"] by (simp add: wire_charge_def)
qed

text \<open>A caller that checks and debits each action before the next one, credits and resets.\<close>

datatype spend_op = Spend string string reversibility int bool | Credit string charge | Clear string

fun run_spend :: "spend_op \<Rightarrow> ibudget \<Rightarrow> ibudget" where
  "run_spend (Spend sid tool kind risk res) b = snd (spend sid tool kind risk res b)"
| "run_spend (Credit sid ch) b = snd (budget_refund sid ch b)"
| "run_spend (Clear sid) b = snd (budget_reset sid b)"

lemma run_spend_ceiling: "ib_ceiling (run_spend x b) = ib_ceiling b"
  by (cases x)
     (simp_all add: spend_def budget_check_def budget_commit_def budget_refund_def budget_reset_def
        budget_account_def Let_def)

lemma within_run: "within_ceiling b \<Longrightarrow> 0 \<le> ib_ceiling b \<Longrightarrow> within_ceiling (fold run_spend xs b)"
proof (induction xs arbitrary: b)
  case Nil
  then show ?case by simp
next
  case (Cons x xs)
  have "within_ceiling (run_spend x b)"
    using Cons.prems by (cases x) (simp_all add: within_spend within_refund within_reset)
  with Cons show ?case by (simp add: run_spend_ceiling)
qed

text \<open>
  C36: when each action is checked and debited before the next, the spent amount of every account
  stays between zero and its ceiling whatever is credited or reset, and an action is refused
  exactly when it costs something and would overdraw the account.
\<close>

theorem budget_never_overdrawn:
  assumes "new_budget cap ws surcharge min_risk = Inr b"
  shows "(let b' = fold run_spend xs b; st = account sid b' in
      0 \<le> bs_spent st \<and> bs_spent st \<le> bs_ceiling st
    \<and> fst (spend sid tool kind risk res b') = (ch_cost (price tool kind risk res b') \<le> 0
        \<or> bs_spent st + ch_cost (price tool kind risk res b') \<le> bs_ceiling st))"
proof -
  have "0 \<le> ib_ceiling b" using assms by (auto simp: new_budget_def)
  then have w: "within_ceiling (fold run_spend xs b)"
    using within_run within_new [OF assms] by blast
  show ?thesis
    using w by (simp add: within_ceiling_def Let_def spend_def budget_check_def budget_account_def not_less)
qed

lemma budget_never_overdrawn_witness:
  "fst (spend ''g'' ''wire'' IRREVERSIBLE 80 False
     (fold run_spend [Spend ''g'' ''wire'' IRREVERSIBLE 100 False, Spend ''g'' ''wire'' IRREVERSIBLE 100 False,
        Spend ''g'' ''wire'' IRREVERSIBLE 80 False] three_budget)) = False"
proof -
  let ?xs = "[Spend ''g'' ''wire'' IRREVERSIBLE 100 False, Spend ''g'' ''wire'' IRREVERSIBLE 100 False,
        Spend ''g'' ''wire'' IRREVERSIBLE 80 False]"
  have b: "new_budget 3 None DEFAULT_RESIDUE_SURCHARGE 1 = Inr three_budget"
    by (simp add: three_budget_def new_budget_def)
  have "ch_cost (price ''wire'' IRREVERSIBLE 80 False (fold run_spend ?xs three_budget)) = 4 / 5"
    "bs_spent (account ''g'' (fold run_spend ?xs three_budget)) = 14 / 5"
    "bs_ceiling (account ''g'' (fold run_spend ?xs three_budget)) = 3" by code_simp+
  with budget_never_overdrawn [OF b, of ?xs "''g''" "''wire''" IRREVERSIBLE 80 False]
  show ?thesis by (simp add: Let_def)
qed

section \<open>Behaviours to know\<close>

text \<open>
  Checks that all precede the debits are not bounded by the ceiling: four full-risk actions are
  each allowed, and the account ends above three.
\<close>

lemma interleaved_checks_overshoot:
  "(let op = BCheck ''g'' ''wire'' IRREVERSIBLE 100 False;
        ch = price ''wire'' IRREVERSIBLE 100 False three_budget;
        b1 = fold run_budget_op [op, op, op] three_budget;
        b2 = fold run_budget_op [BCommit ''g'' ch, BCommit ''g'' ch, BCommit ''g'' ch, BCommit ''g'' ch] b1
    in fst (fst (budget_check ''g'' ''wire'' IRREVERSIBLE 100 False b1)) \<and> bs_ceiling (account ''g'' b2) < bs_spent (account ''g'' b2))"
  by code_simp

end
