(* ===== verification/CanonJson.thy ===== *)
theory CanonJson
  imports PyValue "HOL-Library.Char_ord" "HOL-Library.List_Lexorder" "HOL-Library.Multiset"
begin

text \<open>
  \<open>core/crypto.py\<close>: the canonical bytes that are signed and hashed, and the interface of the
  cryptographic library. \<open>canonical_bytes\<close> is \<open>json.dumps\<close> with sorted keys, tight separators
  and text kept as UTF-8. The text of a float (\<open>float.__repr__\<close>) and the Ed25519 and SHA-256
  operations are fields of the record \<open>crypto\<close>, which every definition that needs them takes.
\<close>

section \<open>The library\<close>

record ('sk, 'pk) crypto =
  float_repr :: "pyfloat \<Rightarrow> string"
  sha256 :: "string \<Rightarrow> string"
  sign :: "'sk \<Rightarrow> string \<Rightarrow> string"
  verify :: "'pk \<Rightarrow> string \<Rightarrow> string \<Rightarrow> bool"
  public_key_to_b64 :: "'pk \<Rightarrow> string"

section \<open>Text of a string\<close>

definition hex_digit :: "nat \<Rightarrow> char" where
  "hex_digit d = (if d < 10 then char_of (48 + d) else char_of (87 + d))"

text \<open>The escapes of \<open>json.encoder.ESCAPE\<close>; other control characters become \<open>\u00XX\<close>.\<close>

definition escape_char :: "char \<Rightarrow> string" where
  "escape_char c =
     (if c = CHR 0x22 then [CHR 0x5C, CHR 0x22]
      else if c = CHR 0x5C then [CHR 0x5C, CHR 0x5C]
      else if c = CHR 0x0A then [CHR 0x5C, CHR ''n'']
      else if c = CHR 0x0D then [CHR 0x5C, CHR ''r'']
      else if c = CHR 0x09 then [CHR 0x5C, CHR ''t'']
      else if c = CHR 0x0C then [CHR 0x5C, CHR ''f'']
      else if c = CHR 0x08 then [CHR 0x5C, CHR ''b'']
      else if of_char c < (32 :: nat) then
        [CHR 0x5C, CHR ''u'', CHR ''0'', CHR ''0'', hex_digit (of_char c div 16), hex_digit (of_char c mod 16)]
      else [c])"

definition json_string :: "string \<Rightarrow> string" where
  "json_string s = [CHR 0x22] @ concat (map escape_char s) @ [CHR 0x22]"

section \<open>Text of a value\<close>

fun insert_item :: "string \<times> 'a \<Rightarrow> (string \<times> 'a) list \<Rightarrow> (string \<times> 'a) list" where
  "insert_item x [] = [x]"
| "insert_item x (y # ys) = (if fst x \<le> fst y then x # y # ys else y # insert_item x ys)"

fun sort_items :: "(string \<times> 'a) list \<Rightarrow> (string \<times> 'a) list" where
  "sort_items [] = []"
| "sort_items (x # xs) = insert_item x (sort_items xs)"

lemma insert_item_insort: "insert_item x ys = insort_key fst x ys"
  by (induction ys) auto

lemma sort_items_sort: "sort_items d = sort_key fst d"
  by (induction d) (simp_all add: insert_item_insort)

fun json_float :: "(pyfloat \<Rightarrow> string) \<Rightarrow> pyfloat \<Rightarrow> string" where
  "json_float fr NaN = ''NaN''"
| "json_float fr PInf = ''Infinity''"
| "json_float fr NInf = ''-Infinity''"
| "json_float fr (Fin x) = fr (Fin x)"

fun json :: "(pyfloat \<Rightarrow> string) \<Rightarrow> val \<Rightarrow> string" where
  "json fr VNone = ''null''"
| "json fr (VBool b) = (if b then ''true'' else ''false'')"
| "json fr (VInt n) = show_int n"
| "json fr (VFloat x) = json_float fr x"
| "json fr (VStr s) = json_string s"
| "json fr (VList xs) = ''['' @ join '','' (map (json fr) xs) @ '']''"
| "json fr (VDict d) =
     ''{'' @ join '','' (map (\<lambda>(k, t). json_string k @ '':'' @ t)
       (sort_items (map (\<lambda>(k, v). (k, json fr v)) d))) @ ''}''"

definition canonical_bytes :: "('sk, 'pk) crypto \<Rightarrow> val \<Rightarrow> string" where
  "canonical_bytes cr v = json (float_repr cr) v"

definition digest_of :: "('sk, 'pk) crypto \<Rightarrow> val \<Rightarrow> string" where
  "digest_of cr v = sha256 cr (canonical_bytes cr v)"

section \<open>The order of keys does not matter\<close>

lemma sort_items_perm:
  "mset d = mset e \<Longrightarrow> distinct_keys d \<Longrightarrow> sort_items d = sort_items e"
  unfolding sort_items_sort
  by (rule sort_key_inj_key_eq) (auto simp: distinct_keys_def distinct_map)

lemma json_key_order:
  assumes "mset d = mset e" "distinct_keys d"
  shows "json fr (VDict d) = json fr (VDict e)"
proof -
  let ?f = "\<lambda>(k, v). (k, json fr v)"
  have "mset (map ?f d) = mset (map ?f e)" using assms(1) by simp
  moreover have "distinct_keys (map ?f d)"
    using assms(2) by (simp add: distinct_keys_def comp_def split_beta)
  ultimately show ?thesis using sort_items_perm by (metis json.simps(7))
qed

end
