(* ===== verification/Identity.thy ===== *)
theory Identity
  imports Posture CanonJson Journal
begin

text \<open>
  \<open>authority/principals.py\<close> and \<open>authority/revocation.py\<close>: who can hold authority, and the list of
  withdrawn grants and principals. Identifiers drawn at random and clock readings are arguments.
\<close>

section \<open>Principals\<close>

datatype principal_kind = HUMAN | AGENT

fun kind_value :: "principal_kind \<Rightarrow> string" where
  "kind_value HUMAN = ''human''"
| "kind_value AGENT = ''agent''"

record 'pk principal =
  pr_id :: string
  pr_kind :: principal_kind
  pr_name :: string
  pr_key :: 'pk
  pr_roles :: "string set"
  pr_claims :: "(string, string) dict"

definition principal_post_init :: "'pk principal \<Rightarrow> revoco_error + 'pk principal" where
  "principal_post_init p =
     raise_if (\<not> (0 < py_len (pr_name p) \<and> py_len (pr_name p) \<le> 256)) ValidationError (Inr p)"

definition has_role :: "string \<Rightarrow> 'pk principal \<Rightarrow> bool" where
  "has_role role p \<longleftrightarrow> role \<in> pr_roles p"

definition is_human :: "'pk principal \<Rightarrow> bool" where
  "is_human p \<longleftrightarrow> pr_kind p = HUMAN"

definition principal_to_dict :: "('sk, 'pk) crypto \<Rightarrow> 'pk principal \<Rightarrow> val" where
  "principal_to_dict cr p = VDict
    [(''id'', VStr (pr_id p)), (''kind'', VStr (kind_value (pr_kind p))), (''name'', VStr (pr_name p)),
     (''public_key'', VStr (public_key_to_b64 cr (pr_key p))),
     (''roles'', VList (map VStr (sorted_list_of_set (pr_roles p)))),
     (''claims'', VDict (map (\<lambda>(k, v). (k, VStr v)) (pr_claims p)))]"

type_synonym 'pk principals = "(string, 'pk principal) dict"

text \<open>\<open>PrincipalRegistry.register\<close>: an identifier keeps its first key.\<close>

definition register_principal ::
  "('sk, 'pk) crypto \<Rightarrow> 'pk principal \<Rightarrow> 'pk principals \<Rightarrow> (revoco_error + 'pk principal) \<times> 'pk principals" where
  "register_principal cr p ps =
     (case map_of ps (pr_id p) of
        Some existing \<Rightarrow>
          (if public_key_to_b64 cr (pr_key existing) \<noteq> public_key_to_b64 cr (pr_key p)
           then (Inl ValidationError, ps) else (Inr existing, ps))
      | None \<Rightarrow> (Inr p, AList.update (pr_id p) p ps))"

text \<open>\<open>id or ids.new_id(...)\<close>: an empty identifier counts as none.\<close>

definition id_or_new :: "string option \<Rightarrow> string \<Rightarrow> string" where
  "id_or_new given fresh = (case given of Some (c # cs) \<Rightarrow> c # cs | _ \<Rightarrow> fresh)"

definition registry_register ::
  "('sk, 'pk) crypto \<Rightarrow> principal_kind \<Rightarrow> string \<Rightarrow> 'pk \<Rightarrow> string option \<Rightarrow> string \<Rightarrow> string set \<Rightarrow> (string, string) dict
   \<Rightarrow> 'pk principals \<Rightarrow> (revoco_error + 'pk principal) \<times> 'pk principals" where
  "registry_register cr kind name key given fresh roles claims ps =
     (case principal_post_init \<lparr>pr_id = id_or_new given fresh, pr_kind = kind, pr_name = name, pr_key = key,
             pr_roles = roles, pr_claims = sort_items claims\<rparr> of
        Inl e \<Rightarrow> (Inl e, ps)
      | Inr p \<Rightarrow> register_principal cr p ps)"

definition registry_register_human ::
  "('sk, 'pk) crypto \<Rightarrow> string \<Rightarrow> 'pk \<Rightarrow> string option \<Rightarrow> string \<Rightarrow> string set \<Rightarrow> (string, string) dict
   \<Rightarrow> 'pk principals \<Rightarrow> (revoco_error + 'pk principal) \<times> 'pk principals" where
  "registry_register_human cr = registry_register cr HUMAN"

definition registry_register_agent ::
  "('sk, 'pk) crypto \<Rightarrow> string \<Rightarrow> 'pk \<Rightarrow> string option \<Rightarrow> string \<Rightarrow> string set \<Rightarrow> (string, string) dict
   \<Rightarrow> 'pk principals \<Rightarrow> (revoco_error + 'pk principal) \<times> 'pk principals" where
  "registry_register_agent cr = registry_register cr AGENT"

definition get_principal :: "string \<Rightarrow> 'pk principals \<Rightarrow> revoco_error + 'pk principal" where
  "get_principal pid ps = (case map_of ps pid of None \<Rightarrow> Inl UnknownPrincipal | Some p \<Rightarrow> Inr p)"

text \<open>A registered identity never changes: not its key, not its kind.\<close>

lemma register_principal_keeps:
  assumes "map_of ps pid = Some q" "register_principal cr p ps = (r, ps')"
  shows "map_of ps' pid = Some q"
  using assms by (auto simp: register_principal_def map_of_update split: option.splits if_splits)

lemma registry_register_keeps:
  assumes "map_of ps pid = Some q" "registry_register cr kind name key given fresh roles claims ps = (r, ps')"
  shows "map_of ps' pid = Some q"
  using assms register_principal_keeps unfolding registry_register_def
  by (fastforce split: sum.splits)

definition principals_ok :: "'pk principals \<Rightarrow> bool" where
  "principals_ok ps \<longleftrightarrow> distinct_keys ps \<and> (\<forall>(k, p) \<in> set ps. pr_id p = k)"

lemma principals_ok_register:
  "principals_ok ps \<Longrightarrow> registry_register cr kind name key given fresh roles claims ps = (r, ps') \<Longrightarrow> principals_ok ps'"
  by (auto simp: principals_ok_def registry_register_def register_principal_def
      split: sum.splits option.splits if_splits dest!: in_set_update)

section \<open>Revocation\<close>

datatype target_kind = TDelegation | TPrincipal

fun target_value :: "target_kind \<Rightarrow> string" where
  "target_value TDelegation = ''delegation''"
| "target_value TPrincipal = ''principal''"

record revocation =
  rv_id :: string
  rv_target_id :: string
  rv_target_kind :: target_kind
  rv_reason :: string
  rv_revoked_at :: rat
  rv_revoked_by :: "string option"

definition revocation_to_dict :: "revocation \<Rightarrow> val" where
  "revocation_to_dict r = VDict
    [(''id'', VStr (rv_id r)), (''target_id'', VStr (rv_target_id r)),
     (''target_kind'', VStr (target_value (rv_target_kind r))), (''reason'', VStr (rv_reason r)),
     (''revoked_at'', VFloat (Fin (rv_revoked_at r))), (''revoked_by'', v_opt_str (rv_revoked_by r))]"

type_synonym revocations = "(string, revocation) dict"

definition revoke ::
  "string \<Rightarrow> string \<Rightarrow> target_kind \<Rightarrow> string \<Rightarrow> string option \<Rightarrow> rat \<Rightarrow> revocations \<Rightarrow> revocation \<times> revocations" where
  "revoke fresh target kind reason by_whom now rs =
     (case map_of rs target of
        Some existing \<Rightarrow> (existing, rs)
      | None \<Rightarrow>
         (let r = \<lparr>rv_id = fresh, rv_target_id = target, rv_target_kind = kind, rv_reason = reason,
                   rv_revoked_at = now, rv_revoked_by = by_whom\<rparr>
          in (r, AList.update target r rs)))"

definition is_revoked :: "string \<Rightarrow> revocations \<Rightarrow> bool" where
  "is_revoked target rs \<longleftrightarrow> map_of rs target \<noteq> None"

definition get_revocation :: "string \<Rightarrow> revocations \<Rightarrow> revocation option" where
  "get_revocation target rs = map_of rs target"

text \<open>\<open>load\<close>: \<open>setdefault\<close> for each, so what is there wins.\<close>

definition load_revocations :: "revocation list \<Rightarrow> revocations \<Rightarrow> revocations" where
  "load_revocations new rs =
     fold (\<lambda>r d. case map_of d (rv_target_id r) of Some _ \<Rightarrow> d | None \<Rightarrow> AList.update (rv_target_id r) r d) new rs"

lemma revoke_revokes: "is_revoked target (snd (revoke fresh target kind reason by_whom now rs))"
  by (auto simp: revoke_def is_revoked_def Let_def split: option.splits)

lemma revoke_keeps: "map_of rs t = Some r \<Longrightarrow> map_of (snd (revoke fresh target kind reason by_whom now rs)) t = Some r"
  by (auto simp: revoke_def Let_def map_of_update split: option.splits)

lemma revoke_keeps_revoked:
  "is_revoked t rs \<Longrightarrow> is_revoked t (snd (revoke fresh target kind reason by_whom now rs))"
  unfolding is_revoked_def using revoke_keeps by blast

end
