(* ===== verification/Scope.thy ===== *)
theory Scope
  imports Journal CanonJson
begin

text \<open>
  \<open>authority/scope.py\<close>: what a principal may do, and attenuation, the rule that a delegated scope
  is contained in the one it comes from. The frozen sets are sets of strings; constraints are the
  sorted pairs the constructor keeps.
\<close>

section \<open>Scopes\<close>

record scope =
  allowed_tools :: "string set"
  allowed_actions :: "string set"
  max_risk :: int
  constraints :: args
  min_reversibility :: reversibility

definition WILDCARD :: string where
  "WILDCARD = ''*''"

definition validate_token_set :: "string set \<Rightarrow> revoco_error + unit" where
  "validate_token_set values =
     raise_if (4096 < card values) ValidationError
     (raise_if (\<exists>v \<in> values. v = [] \<or> 512 < py_len v) ValidationError (Inr ()))"

definition scope_post_init :: "scope \<Rightarrow> revoco_error + scope" where
  "scope_post_init s =
     bind_err (validate_token_set (allowed_tools s)) (\<lambda>_.
     bind_err (validate_token_set (allowed_actions s)) (\<lambda>_.
     raise_if (\<not> (0 \<le> max_risk s \<and> max_risk s \<le> 100)) ValidationError (Inr s)))"

definition scope_make ::
  "string set \<Rightarrow> string set \<Rightarrow> int \<Rightarrow> args \<Rightarrow> reversibility \<Rightarrow> revoco_error + scope" where
  "scope_make tools actions risk cons floor_kind =
     scope_post_init \<lparr>allowed_tools = tools, allowed_actions = actions, max_risk = risk,
       constraints = sort_items cons, min_reversibility = floor_kind\<rparr>"

definition tool_allowed :: "scope \<Rightarrow> string \<Rightarrow> bool" where
  "tool_allowed s tool \<longleftrightarrow> WILDCARD \<in> allowed_tools s \<or> tool \<in> allowed_tools s"

definition action_allowed :: "scope \<Rightarrow> string \<Rightarrow> bool" where
  "action_allowed s action \<longleftrightarrow> WILDCARD \<in> allowed_actions s \<or> action \<in> allowed_actions s"

definition permits_action :: "scope \<Rightarrow> string \<Rightarrow> string \<Rightarrow> int \<Rightarrow> bool" where
  "permits_action s tool action risk \<longleftrightarrow>
     tool_allowed s tool \<and> action_allowed s action \<and> 0 \<le> risk \<and> risk \<le> max_risk s"

definition permits_reversibility :: "scope \<Rightarrow> reversibility \<Rightarrow> bool" where
  "permits_reversibility s kind \<longleftrightarrow>
     (if min_reversibility s = UNKNOWN then True
      else posture_rank (min_reversibility s) \<le> posture_rank kind)"

section \<open>Attenuation\<close>

text \<open>A number that is not a boolean: the values that count as caps.\<close>

definition cap_of :: "val \<Rightarrow> pyfloat option" where
  "cap_of v = (if is_bool v then None else number_of v)"

definition names_contained :: "string set \<Rightarrow> string set \<Rightarrow> bool" where
  "names_contained parent child \<longleftrightarrow>
     (WILDCARD \<notin> parent \<longrightarrow> WILDCARD \<notin> child \<and> child \<subseteq> parent)"

definition floor_contained :: "reversibility \<Rightarrow> reversibility \<Rightarrow> bool" where
  "floor_contained parent child \<longleftrightarrow>
     (parent \<noteq> UNKNOWN \<longrightarrow> child \<noteq> UNKNOWN \<and> \<not> posture_rank child < posture_rank parent)"

text \<open>The check of one constraint of the parent against the child's constraints.\<close>

definition cap_contained :: "args \<Rightarrow> string \<times> val \<Rightarrow> bool" where
  "cap_contained child kv =
     (case cap_of (snd kv) of
        None \<Rightarrow> True
      | Some parent_val \<Rightarrow>
         (case map_of child (fst kv) of
            None \<Rightarrow> True
          | Some v \<Rightarrow> (case number_of v of None \<Rightarrow> False | Some child_val \<Rightarrow> \<not> fl_lt parent_val child_val)))"

definition scope_contains :: "scope \<Rightarrow> scope \<Rightarrow> bool" where
  "scope_contains s child \<longleftrightarrow>
     names_contained (allowed_tools s) (allowed_tools child)
     \<and> names_contained (allowed_actions s) (allowed_actions child)
     \<and> \<not> max_risk s < max_risk child
     \<and> floor_contained (min_reversibility s) (min_reversibility child)
     \<and> list_all (cap_contained (constraints child)) (constraints s)"

section \<open>What is in force at the end of a chain\<close>

text \<open>\<open>min(old, val)\<close> on numbers of either type: the first unless the second is smaller.\<close>

definition cap_min :: "val \<Rightarrow> val \<Rightarrow> val" where
  "cap_min a b =
     (case (number_of a, number_of b) of (Some x, Some y) \<Rightarrow> if fl_lt y x then b else a | _ \<Rightarrow> a)"

fun add_caps :: "args \<Rightarrow> args \<Rightarrow> args" where
  "add_caps [] eff = eff"
| "add_caps ((k, v) # cs) eff =
     add_caps cs (if cap_of v = None then eff
                  else AList.update k (cap_min (case map_of eff k of None \<Rightarrow> v | Some old \<Rightarrow> old) v) eff)"

definition effective_constraints :: "scope list \<Rightarrow> args" where
  "effective_constraints chain = fold (\<lambda>s. add_caps (constraints s)) chain []"

definition floor_step :: "scope \<Rightarrow> reversibility \<Rightarrow> reversibility" where
  "floor_step s fl =
     (if min_reversibility s = UNKNOWN then fl
      else if fl = UNKNOWN \<or> posture_rank fl < posture_rank (min_reversibility s)
        then min_reversibility s else fl)"

definition effective_reversibility_floor :: "scope list \<Rightarrow> reversibility" where
  "effective_reversibility_floor chain = fold floor_step chain UNKNOWN"

definition v_str_set :: "string set \<Rightarrow> val" where
  "v_str_set xs = VList (map VStr (sorted_list_of_set xs))"

definition scope_to_dict :: "scope \<Rightarrow> val" where
  "scope_to_dict s = VDict
    [(''allowed_tools'', v_str_set (allowed_tools s)), (''allowed_actions'', v_str_set (allowed_actions s)),
     (''max_risk'', VInt (max_risk s)), (''constraints'', VDict (constraints s)),
     (''min_reversibility'', VStr (posture_value (min_reversibility s)))]"

section \<open>Attenuation is sound\<close>

lemma names_contained_trans:
  "names_contained a b \<Longrightarrow> names_contained b c \<Longrightarrow> names_contained a c"
  by (auto simp: names_contained_def)

lemma floor_contained_iff: "floor_contained p c \<longleftrightarrow> p \<le> c"
  by (cases p; cases c) (simp_all add: floor_contained_def posture_order)

lemma permits_reversibility_iff: "permits_reversibility s k \<longleftrightarrow> min_reversibility s \<le> k"
  by (simp add: permits_reversibility_def posture_order)

lemma contains_permits:
  assumes "scope_contains p c"
  shows "permits_action c tool action risk \<Longrightarrow> permits_action p tool action risk"
    and "permits_reversibility c k \<Longrightarrow> permits_reversibility p k"
  using assms
  by (auto simp: scope_contains_def permits_action_def tool_allowed_def action_allowed_def
      names_contained_def permits_reversibility_iff floor_contained_iff)

text \<open>Each scope of a chain is contained in the next one, towards the root.\<close>

fun attenuated :: "scope list \<Rightarrow> bool" where
  "attenuated [] = True"
| "attenuated [s] = True"
| "attenuated (s # p # rest) = (scope_contains p s \<and> attenuated (p # rest))"

lemma attenuated_permits:
  "attenuated (s # rest) \<Longrightarrow> permits_action s tool action risk \<Longrightarrow> p \<in> set (s # rest) \<Longrightarrow>
   permits_action p tool action risk"
proof (induction rest arbitrary: s)
  case Nil
  then show ?case by simp
next
  case (Cons q rest)
  then show ?case using contains_permits(1) by (cases "p = s") auto
qed

lemma attenuated_reversibility:
  "attenuated (s # rest) \<Longrightarrow> permits_reversibility s k \<Longrightarrow> p \<in> set (s # rest) \<Longrightarrow> permits_reversibility p k"
proof (induction rest arbitrary: s)
  case Nil
  then show ?case by simp
next
  case (Cons q rest)
  then show ?case using contains_permits(2) by (cases "p = s") auto
qed

section \<open>The floor and the caps in force\<close>

lemma floor_step_max: "floor_step s fl = max fl (min_reversibility s)"
  by (cases fl; cases "min_reversibility s") (simp_all add: floor_step_def max_def posture_order)

lemma fold_floor_ge:
  "fl \<le> fold floor_step chain fl \<and> (\<forall>s \<in> set chain. min_reversibility s \<le> fold floor_step chain fl)"
proof (induction chain arbitrary: fl)
  case Nil
  then show ?case by simp
next
  case (Cons s chain)
  from Cons.IH [of "floor_step s fl"] show ?case by (auto simp: floor_step_max intro: order_trans)
qed

lemma fold_floor_attained:
  "fold floor_step chain fl = fl \<or> fold floor_step chain fl \<in> min_reversibility ` set chain"
proof (induction chain arbitrary: fl)
  case Nil
  then show ?case by simp
next
  case (Cons s chain)
  from Cons.IH [of "floor_step s fl"] show ?case by (auto simp: floor_step_max max_def split: if_splits)
qed

lemma floor_permits_all:
  "(\<forall>s \<in> set chain. permits_reversibility s k) \<longleftrightarrow> effective_reversibility_floor chain \<le> k"
  using fold_floor_ge [of UNKNOWN chain] fold_floor_attained [of chain UNKNOWN]
  by (auto simp: effective_reversibility_floor_def permits_reversibility_iff intro: order_trans)

text \<open>A number that compares: every comparison with NaN is false.\<close>

definition comparable :: "val \<Rightarrow> bool" where
  "comparable v \<longleftrightarrow> number_of v \<noteq> None \<and> number_of v \<noteq> Some NaN"

definition num_le :: "val \<Rightarrow> val \<Rightarrow> bool" where
  "num_le a b \<longleftrightarrow> (case (number_of a, number_of b) of (Some x, Some y) \<Rightarrow> \<not> fl_lt y x | _ \<Rightarrow> False)"

lemma fl_le_not_lt: "x \<noteq> NaN \<Longrightarrow> y \<noteq> NaN \<Longrightarrow> \<not> fl_lt y x \<Longrightarrow> \<not> fl_lt z y \<Longrightarrow> z \<noteq> NaN \<Longrightarrow> \<not> fl_lt z x"
  by (cases x; cases y; cases z) auto

lemma fl_lt_asym: "fl_lt x y \<Longrightarrow> \<not> fl_lt y x"
  by (cases x; cases y) auto

lemma num_le_refl [simp]: "comparable v \<Longrightarrow> num_le v v"
  unfolding comparable_def num_le_def by (cases "number_of v") (auto dest: fl_lt_asym)

lemma num_le_trans: "num_le a b \<Longrightarrow> num_le b c \<Longrightarrow> comparable a \<Longrightarrow> comparable b \<Longrightarrow> comparable c \<Longrightarrow> num_le a c"
  unfolding num_le_def comparable_def
  by (auto split: option.splits dest: fl_le_not_lt)

lemma cap_min_le:
  assumes "comparable a" "comparable b"
  shows "comparable (cap_min a b)" "num_le (cap_min a b) a" "num_le (cap_min a b) b"
  using assms unfolding cap_min_def comparable_def num_le_def
  by (auto split: option.splits dest: fl_lt_asym)

lemma cap_of_number: "cap_of v = Some x \<Longrightarrow> number_of v = Some x"
  by (auto simp: cap_of_def split: if_splits)

text \<open>
  The caps in force: for every numeric constraint of every scope, a bound at least as tight.
\<close>

definition caps_ok :: "args \<Rightarrow> bool" where
  "caps_ok cs \<longleftrightarrow> (\<forall>(k, v) \<in> set cs. cap_of v \<noteq> Some NaN)"

definition eff_ok :: "args \<Rightarrow> bool" where
  "eff_ok eff \<longleftrightarrow> (\<forall>(k, v) \<in> set eff. comparable v)"

lemma eff_ok_lookup: "eff_ok eff \<Longrightarrow> map_of eff k = Some v \<Longrightarrow> comparable v"
  by (auto simp: eff_ok_def dest!: map_of_SomeD)

lemma eff_ok_update: "eff_ok eff \<Longrightarrow> comparable v \<Longrightarrow> eff_ok (AList.update k v eff)"
  by (auto simp: eff_ok_def dest!: in_set_update)

text \<open>\<open>bound_by eff k v\<close>: the cap in force for \<open>k\<close> exists and is at most \<open>v\<close>.\<close>

definition bound_by :: "args \<Rightarrow> string \<Rightarrow> val \<Rightarrow> bool" where
  "bound_by eff k v \<longleftrightarrow> (case map_of eff k of None \<Rightarrow> False | Some e \<Rightarrow> num_le e v)"

lemma add_caps_step:
  fixes k :: string
  assumes "eff_ok eff" "cap_of v = Some x" "x \<noteq> NaN"
  defines "eff' \<equiv> AList.update k (cap_min (case map_of eff k of None \<Rightarrow> v | Some old \<Rightarrow> old) v) eff"
  shows "eff_ok eff' \<and> bound_by eff' k v \<and> (\<forall>k' u. comparable u \<longrightarrow> bound_by eff k' u \<longrightarrow> bound_by eff' k' u)"
proof -
  have v: "comparable v" using assms(2,3) by (simp add: comparable_def cap_of_number)
  let ?old = "case map_of eff k of None \<Rightarrow> v | Some old \<Rightarrow> old"
  have old: "comparable ?old" using v eff_ok_lookup [OF assms(1)] by (auto split: option.splits)
  note m = cap_min_le [OF old v]
  have "bound_by eff' k u" if "bound_by eff k u" "comparable u" for u
  proof -
    from that(1) obtain e where "map_of eff k = Some e" "num_le e u"
      by (auto simp: bound_by_def split: option.splits)
    with m old that(2) show ?thesis
      using num_le_trans [of "cap_min e v" e u] by (simp add: bound_by_def eff'_def)
  qed
  then show ?thesis
    using m eff_ok_update [OF assms(1) m(1)] by (auto simp: bound_by_def eff'_def map_of_update)
qed

lemma add_caps_bound:
  "eff_ok eff \<Longrightarrow> caps_ok cs \<Longrightarrow>
   eff_ok (add_caps cs eff)
   \<and> (\<forall>(k, v) \<in> set cs. cap_of v \<noteq> None \<longrightarrow> bound_by (add_caps cs eff) k v)
   \<and> (\<forall>k u. comparable u \<longrightarrow> bound_by eff k u \<longrightarrow> bound_by (add_caps cs eff) k u)"
proof (induction cs eff rule: add_caps.induct)
  case (1 eff)
  then show ?case by simp
next
  case (2 k v cs eff)
  show ?case
  proof (cases "cap_of v")
    case None
    with 2 show ?thesis by (simp add: caps_ok_def)
  next
    case (Some x)
    let ?eff = "AList.update k (cap_min (case map_of eff k of None \<Rightarrow> v | Some old \<Rightarrow> old) v) eff"
    have "x \<noteq> NaN" using 2(3) Some by (auto simp: caps_ok_def)
    from add_caps_step [OF 2(2) Some this, of k] have s: "eff_ok ?eff" "bound_by ?eff k v"
      "\<forall>k' u. comparable u \<longrightarrow> bound_by eff k' u \<longrightarrow> bound_by ?eff k' u" by auto
    have "comparable v" using Some \<open>x \<noteq> NaN\<close> by (simp add: comparable_def cap_of_number)
    moreover have "caps_ok cs" using 2(3) by (simp add: caps_ok_def)
    ultimately show ?thesis using 2(1) Some s by auto
  qed
qed

lemma effective_constraints_bound:
  assumes "\<forall>s \<in> set chain. caps_ok (constraints s)" "s \<in> set chain" "(k, v) \<in> set (constraints s)"
    and "cap_of v \<noteq> None"
  shows "bound_by (effective_constraints chain) k v"
proof -
  have "eff_ok eff \<Longrightarrow> \<forall>s \<in> set chain. caps_ok (constraints s) \<Longrightarrow>
      (\<forall>k u. comparable u \<longrightarrow> bound_by eff k u \<longrightarrow> bound_by (fold (\<lambda>s. add_caps (constraints s)) chain eff) k u)
      \<and> (\<forall>s \<in> set chain. \<forall>(k, v) \<in> set (constraints s). cap_of v \<noteq> None \<longrightarrow>
           bound_by (fold (\<lambda>s. add_caps (constraints s)) chain eff) k v)" for eff
  proof (induction chain arbitrary: eff)
    case Nil
    then show ?case by simp
  next
    case (Cons s chain)
    have c: "caps_ok (constraints s)" using Cons.prems by simp
    note a = add_caps_bound [OF Cons.prems(1) c]
    have "\<forall>s \<in> set chain. caps_ok (constraints s)" using Cons.prems(2) by simp
    note ih = Cons.IH [OF conjunct1 [OF a] this, THEN conjunct1] Cons.IH [OF conjunct1 [OF a] this, THEN conjunct2]
    let ?F = "fold (\<lambda>s. add_caps (constraints s)) (s # chain) eff"
    have "bound_by ?F k v" if m: "s' \<in> set (s # chain)" "(k, v) \<in> set (constraints s')" "cap_of v \<noteq> None" for s' k v
    proof (cases "s' = s")
      case True
      have "comparable v" using m True c by (force simp: caps_ok_def comparable_def dest: cap_of_number)
      moreover have "bound_by (add_caps (constraints s) eff) k v" using a m True by blast
      ultimately show ?thesis using ih(1) by simp
    next
      case False
      then have "s' \<in> set chain" using m(1) by simp
      with ih(2) m(2,3) show ?thesis by fastforce
    qed
    moreover have "\<forall>k u. comparable u \<longrightarrow> bound_by eff k u \<longrightarrow> bound_by ?F k u" using a ih(1) by simp
    ultimately show ?case by blast
  qed
  note all = this [of "[]", OF _ assms(1), THEN conjunct2]
  have "\<forall>(k, v) \<in> set (constraints s). cap_of v \<noteq> None \<longrightarrow> bound_by (effective_constraints chain) k v"
    unfolding effective_constraints_def using all assms(2) by (simp add: eff_ok_def)
  then show ?thesis using assms(3,4) by fast
qed

end
