(* ===== verification/Grants.thy ===== *)
theory Grants
  imports Identity Scope
begin

text \<open>
  \<open>authority/delegation.py\<close> and \<open>authority/action.py\<close>: signed grants and signed action records.
  The constructors' checks, the payload a signature covers, and building and verifying one.
\<close>

section \<open>Delegations\<close>

record delegation =
  dg_id :: string
  dg_issuer :: string
  dg_subject :: string
  dg_scope :: scope
  dg_purpose :: string
  dg_parent :: "string option"
  dg_issued_at :: rat
  dg_expires_at :: rat
  dg_signature :: string

definition delegation_post_init :: "delegation \<Rightarrow> revoco_error + delegation" where
  "delegation_post_init d =
     raise_if (1024 < py_len (dg_purpose d)) ValidationError
     (raise_if (dg_expires_at d < dg_issued_at d) ValidationError
     (raise_if (dg_issuer d = dg_subject d) ValidationError (Inr d)))"

definition is_root :: "delegation \<Rightarrow> bool" where
  "is_root d \<longleftrightarrow> dg_parent d = None"

definition delegation_expired :: "rat \<Rightarrow> delegation \<Rightarrow> bool" where
  "delegation_expired now d \<longleftrightarrow> dg_expires_at d \<le> now"

definition delegation_payload :: "delegation \<Rightarrow> (string \<times> val) list" where
  "delegation_payload d =
    [(''id'', VStr (dg_id d)), (''issuer_id'', VStr (dg_issuer d)), (''subject_id'', VStr (dg_subject d)),
     (''scope'', scope_to_dict (dg_scope d)), (''purpose'', VStr (dg_purpose d)),
     (''parent_id'', v_opt_str (dg_parent d)), (''issued_at'', VFloat (Fin (dg_issued_at d))),
     (''expires_at'', VFloat (Fin (dg_expires_at d)))]"

definition delegation_bytes :: "('sk, 'pk) crypto \<Rightarrow> delegation \<Rightarrow> string" where
  "delegation_bytes cr d = canonical_bytes cr (VDict (delegation_payload d))"

definition delegation_verifies :: "('sk, 'pk) crypto \<Rightarrow> 'pk \<Rightarrow> delegation \<Rightarrow> bool" where
  "delegation_verifies cr key d = verify cr key (delegation_bytes cr d) (dg_signature d)"

definition delegation_to_dict :: "delegation \<Rightarrow> val" where
  "delegation_to_dict d = VDict (delegation_payload d @ [(''signature'', VStr (dg_signature d))])"

definition build_signed_delegation ::
  "('sk, 'pk) crypto \<Rightarrow> 'sk \<Rightarrow> string \<Rightarrow> string \<Rightarrow> string \<Rightarrow> scope \<Rightarrow> string \<Rightarrow> string option \<Rightarrow> rat \<Rightarrow> rat
   \<Rightarrow> revoco_error + delegation" where
  "build_signed_delegation cr sk fresh issuer subject sc purpose parent ttl now =
     raise_if (ttl \<le> 0) ValidationError
     (bind_err (delegation_post_init
         \<lparr>dg_id = fresh, dg_issuer = issuer, dg_subject = subject, dg_scope = sc, dg_purpose = purpose,
          dg_parent = parent, dg_issued_at = now, dg_expires_at = now + ttl, dg_signature = []\<rparr>)
       (\<lambda>d. delegation_post_init (d\<lparr>dg_signature := sign cr sk (delegation_bytes cr d)\<rparr>)))"

lemma delegation_post_init_Inr:
  "delegation_post_init d = Inr d' \<longleftrightarrow> d' = d \<and> py_len (dg_purpose d) \<le> 1024
     \<and> dg_issued_at d \<le> dg_expires_at d \<and> dg_issuer d \<noteq> dg_subject d"
  by (auto simp: delegation_post_init_def)

lemma build_signed_delegation_Inr:
  assumes "build_signed_delegation cr sk fresh issuer subject sc purpose parent ttl now = Inr d"
  shows "dg_id d = fresh" "dg_issuer d = issuer" "dg_subject d = subject" "dg_scope d = sc"
    "dg_parent d = parent" "dg_issued_at d = now" "dg_expires_at d = now + ttl" "0 < ttl" "issuer \<noteq> subject"
  using assms by (auto simp: build_signed_delegation_def delegation_post_init_Inr)

section \<open>Actions\<close>

record action_record =
  ar_id :: string
  ar_actor :: string
  ar_delegation :: string
  ar_tool :: string
  ar_action :: string
  ar_risk :: int
  ar_description :: string
  ar_params_digest :: string
  ar_occurred_at :: rat
  ar_session :: string
  ar_plan :: "string option"
  ar_signature :: string

definition action_post_init :: "action_record \<Rightarrow> revoco_error + action_record" where
  "action_post_init a =
     raise_if (\<not> (0 < py_len (ar_tool a) \<and> py_len (ar_tool a) \<le> 256)) ValidationError
     (raise_if (\<not> (0 < py_len (ar_action a) \<and> py_len (ar_action a) \<le> 256)) ValidationError
     (raise_if (\<not> (0 \<le> ar_risk a \<and> ar_risk a \<le> 100)) ValidationError
     (raise_if (2048 < py_len (ar_description a)) ValidationError (Inr a))))"

definition action_payload :: "action_record \<Rightarrow> (string \<times> val) list" where
  "action_payload a =
    [(''id'', VStr (ar_id a)), (''actor_id'', VStr (ar_actor a)), (''delegation_id'', VStr (ar_delegation a)),
     (''tool'', VStr (ar_tool a)), (''action'', VStr (ar_action a)), (''risk'', VInt (ar_risk a)),
     (''description'', VStr (ar_description a)), (''params_digest'', VStr (ar_params_digest a)),
     (''occurred_at'', VFloat (Fin (ar_occurred_at a))), (''session_id'', VStr (ar_session a)),
     (''reversal_plan_id'', v_opt_str (ar_plan a))]"

definition action_bytes :: "('sk, 'pk) crypto \<Rightarrow> action_record \<Rightarrow> string" where
  "action_bytes cr a = canonical_bytes cr (VDict (action_payload a))"

definition action_verifies :: "('sk, 'pk) crypto \<Rightarrow> 'pk \<Rightarrow> action_record \<Rightarrow> bool" where
  "action_verifies cr key a = verify cr key (action_bytes cr a) (ar_signature a)"

definition action_to_dict :: "action_record \<Rightarrow> val" where
  "action_to_dict a = VDict (action_payload a @ [(''signature'', VStr (ar_signature a))])"

definition build_signed_action ::
  "('sk, 'pk) crypto \<Rightarrow> 'sk \<Rightarrow> string \<Rightarrow> string \<Rightarrow> string \<Rightarrow> string \<Rightarrow> string \<Rightarrow> int \<Rightarrow> string \<Rightarrow> args \<Rightarrow> string
   \<Rightarrow> string option \<Rightarrow> rat \<Rightarrow> revoco_error + action_record" where
  "build_signed_action cr sk fresh actor deleg tool action risk descr params sess plan_id now =
     bind_err (action_post_init
        \<lparr>ar_id = fresh, ar_actor = actor, ar_delegation = deleg, ar_tool = tool, ar_action = action,
         ar_risk = risk, ar_description = descr, ar_params_digest = digest_of cr (VDict params),
         ar_occurred_at = now, ar_session = sess, ar_plan = plan_id, ar_signature = []\<rparr>)
       (\<lambda>a. action_post_init (a\<lparr>ar_signature := sign cr sk (action_bytes cr a)\<rparr>))"

lemma action_post_init_Inr:
  "action_post_init a = Inr a' \<longleftrightarrow> a' = a \<and> 0 < py_len (ar_tool a) \<and> py_len (ar_tool a) \<le> 256
     \<and> 0 < py_len (ar_action a) \<and> py_len (ar_action a) \<le> 256 \<and> 0 \<le> ar_risk a \<and> ar_risk a \<le> 100
     \<and> py_len (ar_description a) \<le> 2048"
  by (auto simp: action_post_init_def)

lemma build_signed_action_Inr:
  assumes "build_signed_action cr sk fresh actor deleg tool action risk descr params sess plan_id now = Inr a"
  shows "ar_id a = fresh" "ar_actor a = actor" "ar_delegation a = deleg" "ar_tool a = tool"
    "ar_action a = action" "ar_risk a = risk" "ar_session a = sess" "ar_plan a = plan_id" "ar_occurred_at a = now"
    "0 \<le> risk \<and> risk \<le> 100"
  using assms by (auto simp: build_signed_action_def action_post_init_Inr)

end
