(* ===== verification/Authority.thy ===== *)
theory Authority
  imports Grants
begin

text \<open>
  \<open>authority/engine.py\<close>: issue grants, record actions, and walk an action back to the human who
  started its chain. The engine's state is the four registries. Operations return the events they
  emit; the engine swallows an exception of its event sink.
\<close>

section \<open>State\<close>

record 'pk authority =
  au_principals :: "'pk principals"
  au_revocations :: revocations
  au_delegations :: "(string, delegation) dict"
  au_actions :: "(string, action_record) dict"

type_synonym events = "(string \<times> val) list"

definition new_authority :: "'pk authority" where
  "new_authority = \<lparr>au_principals = [], au_revocations = [], au_delegations = [], au_actions = []\<rparr>"

definition register_identity ::
  "('sk, 'pk) crypto \<Rightarrow> principal_kind \<Rightarrow> string \<Rightarrow> 'pk \<Rightarrow> string option \<Rightarrow> string \<Rightarrow> string set \<Rightarrow> (string, string) dict
   \<Rightarrow> 'pk authority \<Rightarrow> (revoco_error + 'pk principal) \<times> 'pk authority \<times> events" where
  "register_identity cr kind name key given fresh roles claims au =
     (case registry_register cr kind name key given fresh roles claims (au_principals au) of
        (Inl e, ps) \<Rightarrow> (Inl e, au\<lparr>au_principals := ps\<rparr>, [])
      | (Inr p, ps) \<Rightarrow> (Inr p, au\<lparr>au_principals := ps\<rparr>, [(''principal'', principal_to_dict cr p)]))"

definition revoke_target ::
  "string \<Rightarrow> string \<Rightarrow> target_kind \<Rightarrow> string \<Rightarrow> string option \<Rightarrow> rat \<Rightarrow> 'pk authority
   \<Rightarrow> revocation \<times> 'pk authority \<times> events" where
  "revoke_target fresh target kind reason by_whom now au =
     (case revoke fresh target kind reason by_whom now (au_revocations au) of
        (r, rs) \<Rightarrow> (r, au\<lparr>au_revocations := rs\<rparr>, [(''revocation'', revocation_to_dict r)]))"

text \<open>The public entry points, one per kind.\<close>

definition register_human ::
  "('sk, 'pk) crypto \<Rightarrow> string \<Rightarrow> 'pk \<Rightarrow> string option \<Rightarrow> string \<Rightarrow> string set \<Rightarrow> (string, string) dict
   \<Rightarrow> 'pk authority \<Rightarrow> (revoco_error + 'pk principal) \<times> 'pk authority \<times> events" where
  "register_human cr = register_identity cr HUMAN"

definition register_agent ::
  "('sk, 'pk) crypto \<Rightarrow> string \<Rightarrow> 'pk \<Rightarrow> string option \<Rightarrow> string \<Rightarrow> string set \<Rightarrow> (string, string) dict
   \<Rightarrow> 'pk authority \<Rightarrow> (revoco_error + 'pk principal) \<times> 'pk authority \<times> events" where
  "register_agent cr = register_identity cr AGENT"

definition revoke_delegation ::
  "string \<Rightarrow> string \<Rightarrow> string \<Rightarrow> string option \<Rightarrow> rat \<Rightarrow> 'pk authority \<Rightarrow> revocation \<times> 'pk authority \<times> events" where
  "revoke_delegation fresh target = revoke_target fresh target TDelegation"

definition revoke_principal ::
  "string \<Rightarrow> string \<Rightarrow> string \<Rightarrow> string option \<Rightarrow> rat \<Rightarrow> 'pk authority \<Rightarrow> revocation \<times> 'pk authority \<times> events" where
  "revoke_principal fresh target = revoke_target fresh target TPrincipal"

section \<open>Grants\<close>

definition store_delegation :: "delegation \<Rightarrow> 'pk authority \<Rightarrow> 'pk authority \<times> events" where
  "store_delegation d au =
     (au\<lparr>au_delegations := AList.update (dg_id d) d (au_delegations au)\<rparr>, [(''delegation'', delegation_to_dict d)])"

definition get_delegation :: "string \<Rightarrow> 'pk authority \<Rightarrow> delegation option" where
  "get_delegation did au = map_of (au_delegations au) did"

definition root_delegation ::
  "('sk, 'pk) crypto \<Rightarrow> 'sk \<Rightarrow> string \<Rightarrow> string \<Rightarrow> string \<Rightarrow> scope \<Rightarrow> string \<Rightarrow> rat \<Rightarrow> rat \<Rightarrow> 'pk authority
   \<Rightarrow> revoco_error + delegation" where
  "root_delegation cr sk fresh human_id agent_id sc purpose ttl now au =
     bind_err (get_principal human_id (au_principals au)) (\<lambda>human.
     raise_if (pr_kind human \<noteq> HUMAN) ValidationError
     (bind_err (get_principal agent_id (au_principals au)) (\<lambda>_.
      bind_err (build_signed_delegation cr sk fresh human_id agent_id sc purpose None ttl now) (\<lambda>d.
      raise_if (\<not> delegation_verifies cr (pr_key human) d) SignatureError (Inr d)))))"

definition issue_root_delegation ::
  "('sk, 'pk) crypto \<Rightarrow> 'sk \<Rightarrow> string \<Rightarrow> string \<Rightarrow> string \<Rightarrow> scope \<Rightarrow> string \<Rightarrow> rat \<Rightarrow> rat \<Rightarrow> 'pk authority
   \<Rightarrow> (revoco_error + delegation) \<times> 'pk authority \<times> events" where
  "issue_root_delegation cr sk fresh human_id agent_id sc purpose ttl now au =
     (case root_delegation cr sk fresh human_id agent_id sc purpose ttl now au of
        Inl e \<Rightarrow> (Inl e, au, [])
      | Inr d \<Rightarrow> (case store_delegation d au of (au', ev) \<Rightarrow> (Inr d, au', ev)))"

text \<open>The checks of \<open>sub_delegate\<close>, in its order.\<close>

definition child_delegation ::
  "('sk, 'pk) crypto \<Rightarrow> 'sk \<Rightarrow> string \<Rightarrow> string \<Rightarrow> string \<Rightarrow> string \<Rightarrow> scope \<Rightarrow> string \<Rightarrow> rat \<Rightarrow> rat \<Rightarrow> 'pk authority
   \<Rightarrow> revoco_error + delegation" where
  "child_delegation cr sk fresh issuer_id subject_id parent_id sc purpose ttl now au =
     (case get_delegation parent_id au of
        None \<Rightarrow> Inl ChainBroken
      | Some parent \<Rightarrow>
         raise_if (dg_subject parent \<noteq> issuer_id) ScopeViolation
         (raise_if (delegation_expired now parent) ExpiredGrant
         (raise_if (\<not> scope_contains (dg_scope parent) sc) ScopeViolation
         (let effective_ttl = min ttl (max 0 (dg_expires_at parent - now)) in
          raise_if (effective_ttl \<le> 0) ExpiredGrant
          (bind_err (get_principal issuer_id (au_principals au)) (\<lambda>issuer.
           bind_err (get_principal subject_id (au_principals au)) (\<lambda>_.
           bind_err (build_signed_delegation cr sk fresh issuer_id subject_id sc purpose (Some parent_id)
                       effective_ttl now) (\<lambda>d.
           raise_if (\<not> delegation_verifies cr (pr_key issuer) d) SignatureError (Inr d)))))))))"

definition sub_delegate ::
  "('sk, 'pk) crypto \<Rightarrow> 'sk \<Rightarrow> string \<Rightarrow> string \<Rightarrow> string \<Rightarrow> string \<Rightarrow> scope \<Rightarrow> string \<Rightarrow> rat \<Rightarrow> rat \<Rightarrow> 'pk authority
   \<Rightarrow> (revoco_error + delegation) \<times> 'pk authority \<times> events" where
  "sub_delegate cr sk fresh issuer_id subject_id parent_id sc purpose ttl now au =
     (case child_delegation cr sk fresh issuer_id subject_id parent_id sc purpose ttl now au of
        Inl e \<Rightarrow> (Inl e, au, [])
      | Inr d \<Rightarrow> (case store_delegation d au of (au', ev) \<Rightarrow> (Inr d, au', ev)))"

section \<open>Actions\<close>

definition record_action ::
  "('sk, 'pk) crypto \<Rightarrow> 'sk \<Rightarrow> string \<Rightarrow> string \<Rightarrow> string \<Rightarrow> string \<Rightarrow> string \<Rightarrow> int \<Rightarrow> string \<Rightarrow> args \<Rightarrow> string
   \<Rightarrow> string option \<Rightarrow> rat \<Rightarrow> 'pk authority \<Rightarrow> (revoco_error + action_record) \<times> 'pk authority \<times> events" where
  "record_action cr sk fresh actor deleg tool action risk descr params sess plan_id now au =
     (if deleg \<notin> dkeys (au_delegations au) then (Inl ChainBroken, au, [])
      else case build_signed_action cr sk fresh actor deleg tool action risk descr params sess plan_id now of
        Inl e \<Rightarrow> (Inl e, au, [])
      | Inr rec \<Rightarrow> (Inr rec, au\<lparr>au_actions := AList.update (ar_id rec) rec (au_actions au)\<rparr>,
                    [(''action'', action_to_dict rec)]))"

definition get_action :: "string \<Rightarrow> 'pk authority \<Rightarrow> action_record option" where
  "get_action aid au = map_of (au_actions au) aid"

definition actions_by_actor :: "string \<Rightarrow> string option \<Rightarrow> 'pk authority \<Rightarrow> action_record list" where
  "actions_by_actor actor excl au =
     filter (\<lambda>a. ar_actor a = actor \<and> Some (ar_id a) \<noteq> excl) (map snd (au_actions au))"

definition actions_under_delegation :: "string \<Rightarrow> 'pk authority \<Rightarrow> action_record list" where
  "actions_under_delegation did au = filter (\<lambda>a. ar_delegation a = did) (map snd (au_actions au))"

section \<open>The subtree of a grant\<close>

definition children :: "(string, delegation) dict \<Rightarrow> string \<Rightarrow> string list" where
  "children ds did = map dg_id (filter (\<lambda>d. dg_parent d = Some did) (map snd ds))"

definition known_ids :: "(string, delegation) dict \<Rightarrow> string set" where
  "known_ids ds = set (map dg_id (map snd ds))"

lemma children_known: "set (children ds c) \<subseteq> known_ids ds"
  by (auto simp: children_def known_ids_def)

text \<open>The loop of \<open>descendant_delegations\<close>; the frontier is a stack whose top is the head here.\<close>

function descend :: "(string, delegation) dict \<Rightarrow> string list \<Rightarrow> string list \<Rightarrow> string list" where
  "descend ds [] out = out"
| "descend ds (c # frontier) out =
     (if c \<in> set out then descend ds frontier out
      else descend ds (rev (children ds c) @ frontier) (out @ [c]))"
  by pat_completeness auto

termination
proof (relation "measures [\<lambda>(ds, fr, out). card ((known_ids ds \<union> set fr) - set out), \<lambda>(ds, fr, out). length fr]")
  show "wf (measures [\<lambda>(ds, fr, out). card ((known_ids ds \<union> set fr) - set out), \<lambda>(ds, fr, out). length fr])"
    by simp
next
  fix ds :: "(string, delegation) dict" and c :: string and fr out :: "string list"
  assume "c \<in> set out"
  then have "(known_ids ds \<union> set (c # fr)) - set out = (known_ids ds \<union> set fr) - set out" by auto
  then show "((ds, fr, out), (ds, c # fr, out)) \<in>
      measures [\<lambda>(ds, fr, out). card ((known_ids ds \<union> set fr) - set out), \<lambda>(ds, fr, out). length fr]"
    by simp
next
  fix ds :: "(string, delegation) dict" and c :: string and fr out :: "string list"
  assume "c \<notin> set out"
  then have "(known_ids ds \<union> set (rev (children ds c) @ fr)) - set (out @ [c])
      \<subset> (known_ids ds \<union> set (c # fr)) - set out"
    using children_known [of ds c] by auto
  then show "((ds, rev (children ds c) @ fr, out @ [c]), (ds, c # fr, out)) \<in>
      measures [\<lambda>(ds, fr, out). card ((known_ids ds \<union> set fr) - set out), \<lambda>(ds, fr, out). length fr]"
    by (simp add: psubset_card_mono known_ids_def)
qed

definition descendant_delegations :: "string \<Rightarrow> 'pk authority \<Rightarrow> string list" where
  "descendant_delegations did au = descend (au_delegations au) [did] []"

section \<open>Walking a chain\<close>

datatype chain_error =
    UnknownAction
  | ActionSignatureInvalid
  | ActorNotRegistered
  | ActorRevoked string
  | DelegationNotFound
  | ChainTooDeep
  | ChainCycle
  | DelegationRevoked string
  | IssuerRevoked string
  | IssuerNotRegistered string
  | DelegationSignatureInvalid string
  | RootNotHuman
  | ParentMissing "string option"
  | WrongIssuer string string string
  | Escalation string
  | NoHumanRoot

text \<open>The messages, because the last check looks for the word \<open>root\<close> in them.\<close>

fun chain_error_text :: "chain_error \<Rightarrow> string" where
  "chain_error_text UnknownAction = ''unknown action''"
| "chain_error_text ActionSignatureInvalid = ''action signature invalid''"
| "chain_error_text ActorNotRegistered = ''action actor is not a registered principal''"
| "chain_error_text (ActorRevoked a) = ''actor '' @ a @ '' has been revoked''"
| "chain_error_text DelegationNotFound = ''authorizing delegation not found''"
| "chain_error_text ChainTooDeep = ''chain exceeds maximum depth (possible cycle)''"
| "chain_error_text ChainCycle = ''cycle detected in delegation chain''"
| "chain_error_text (DelegationRevoked d) = ''delegation '' @ d @ '' has been revoked''"
| "chain_error_text (IssuerRevoked p) = ''issuer '' @ p @ '' has been revoked''"
| "chain_error_text (IssuerNotRegistered p) = ''issuer '' @ p @ '' not registered''"
| "chain_error_text (DelegationSignatureInvalid d) = ''delegation '' @ d @ '' signature invalid''"
| "chain_error_text RootNotHuman = ''root delegation not issued by a human''"
| "chain_error_text (ParentMissing p) =
     ''parent delegation '' @ (case p of None \<Rightarrow> ''None'' | Some s \<Rightarrow> s) @ '' missing''"
| "chain_error_text (WrongIssuer d i s) =
     ''delegation '' @ d @ '' issued by '' @ i @ '' but parent granted authority to '' @ s"
| "chain_error_text (Escalation d) = ''privilege escalation at delegation '' @ d"
| "chain_error_text NoHumanRoot = ''chain did not terminate at a human root''"

record chain_result =
  cn_ok :: bool
  cn_action_id :: string
  cn_human_root_id :: "string option"
  cn_human_root_name :: "string option"
  cn_chain :: "delegation list"
  cn_hops :: nat
  cn_errors :: "chain_error list"
  cn_effective_constraints :: args
  cn_reversibility_floor :: reversibility

definition chain_start :: "bool \<Rightarrow> string \<Rightarrow> chain_result" where
  "chain_start ok aid = \<lparr>cn_ok = ok, cn_action_id = aid, cn_human_root_id = None, cn_human_root_name = None,
     cn_chain = [], cn_hops = 0, cn_errors = [], cn_effective_constraints = [], cn_reversibility_floor = UNKNOWN\<rparr>"

definition fail :: "chain_error \<Rightarrow> chain_result \<Rightarrow> chain_result" where
  "fail e r = r\<lparr>cn_ok := False, cn_errors := cn_errors r @ [e]\<rparr>"

definition fail_if :: "bool \<Rightarrow> chain_error \<Rightarrow> chain_result \<Rightarrow> chain_result" where
  "fail_if b e r = (if b then fail e r else r)"

definition check_actor :: "('sk, 'pk) crypto \<Rightarrow> action_record \<Rightarrow> 'pk authority \<Rightarrow> chain_result \<Rightarrow> chain_result" where
  "check_actor cr a au r =
     fail_if (is_revoked (ar_actor a) (au_revocations au)) (ActorRevoked (ar_actor a))
       (case get_principal (ar_actor a) (au_principals au) of
          Inl _ \<Rightarrow> fail ActorNotRegistered r
        | Inr actor \<Rightarrow> fail_if (\<not> action_verifies cr (pr_key actor) a) ActionSignatureInvalid r)"

definition root_check :: "'pk principal \<Rightarrow> chain_result \<Rightarrow> chain_result" where
  "root_check issuer r =
     (if pr_kind issuer \<noteq> HUMAN then fail RootNotHuman r
      else r\<lparr>cn_human_root_id := Some (pr_id issuer), cn_human_root_name := Some (pr_name issuer)\<rparr>)"

definition revocation_check :: "delegation \<Rightarrow> 'pk authority \<Rightarrow> chain_result \<Rightarrow> chain_result" where
  "revocation_check d au r =
     fail_if (is_revoked (dg_issuer d) (au_revocations au)) (IssuerRevoked (dg_issuer d))
       (fail_if (is_revoked (dg_id d) (au_revocations au)) (DelegationRevoked (dg_id d)) r)"

definition link_check :: "delegation \<Rightarrow> delegation \<Rightarrow> chain_result \<Rightarrow> chain_result" where
  "link_check parent d r =
     fail_if (\<not> scope_contains (dg_scope parent) (dg_scope d)) (Escalation (dg_id d))
       (fail_if (dg_subject parent \<noteq> dg_issuer d) (WrongIssuer (dg_id d) (dg_issuer d) (dg_subject parent)) r)"

text \<open>The loop; the number counts down from the maximum depth.\<close>

fun walk_chain :: "('sk, 'pk) crypto \<Rightarrow> 'pk authority \<Rightarrow> nat \<Rightarrow> string list \<Rightarrow> delegation \<Rightarrow> chain_result \<Rightarrow> chain_result" where
  "walk_chain cr au 0 seen d r = fail ChainTooDeep r"
| "walk_chain cr au (Suc n) seen d r =
     (if dg_id d \<in> set seen then fail ChainCycle r
      else let r1 = revocation_check d au r in
        case get_principal (dg_issuer d) (au_principals au) of
          Inl _ \<Rightarrow> fail (IssuerNotRegistered (dg_issuer d)) r1
        | Inr issuer \<Rightarrow>
           (let r2 = fail_if (\<not> delegation_verifies cr (pr_key issuer) d) (DelegationSignatureInvalid (dg_id d)) r1;
                r3 = r2\<lparr>cn_chain := cn_chain r2 @ [d]\<rparr>
            in case dg_parent d of
                 None \<Rightarrow> root_check issuer r3
               | Some pid \<Rightarrow>
                  (case get_delegation pid au of
                     None \<Rightarrow> fail (ParentMissing (dg_parent d)) r3
                   | Some parent \<Rightarrow> walk_chain cr au n (dg_id d # seen) parent (link_check parent d r3))))"

definition MAX_CHAIN_DEPTH :: nat where
  "MAX_CHAIN_DEPTH = 64"

definition finish_chain :: "chain_result \<Rightarrow> chain_result" where
  "finish_chain r =
     (let scopes = map dg_scope (cn_chain r);
          r1 = r\<lparr>cn_hops := length (cn_chain r), cn_effective_constraints := effective_constraints scopes,
                 cn_reversibility_floor := effective_reversibility_floor scopes\<rparr>
      in fail_if (cn_human_root_id r1 = None
                  \<and> \<not> list_ex (\<lambda>e. contains_sub ''root'' (chain_error_text e)) (cn_errors r1)) NoHumanRoot r1)"

definition reconstruct_chain :: "('sk, 'pk) crypto \<Rightarrow> string \<Rightarrow> 'pk authority \<Rightarrow> chain_result" where
  "reconstruct_chain cr aid au =
     (case map_of (au_actions au) aid of
        None \<Rightarrow> (chain_start False aid)\<lparr>cn_errors := [UnknownAction]\<rparr>
      | Some a \<Rightarrow>
         (let r = check_actor cr a au (chain_start True aid) in
          case map_of (au_delegations au) (ar_delegation a) of
            None \<Rightarrow> fail DelegationNotFound r
          | Some d \<Rightarrow> finish_chain (walk_chain cr au MAX_CHAIN_DEPTH [] d r)))"

record authority_stats =
  as_principals :: nat
  as_delegations :: nat
  as_actions :: nat
  as_revocations :: nat

definition authority_stats_of :: "'pk authority \<Rightarrow> authority_stats" where
  "authority_stats_of au = \<lparr>as_principals = length (au_principals au), as_delegations = length (au_delegations au),
     as_actions = length (au_actions au), as_revocations = length (au_revocations au)\<rparr>"

end
