(* ===== verification/AuthorityFacts.thy ===== *)
theory AuthorityFacts
  imports Authority
begin

text \<open>
  The chain an action is walked back along, as a specification of its own: the hops, what each must
  satisfy and how two are linked. Reconstruction accepts an action exactly when such a chain exists.
\<close>

section \<open>Valid chains\<close>

definition good_hop :: "('sk, 'pk) crypto \<Rightarrow> 'pk authority \<Rightarrow> delegation \<Rightarrow> bool" where
  "good_hop cr au d \<longleftrightarrow> \<not> is_revoked (dg_id d) (au_revocations au) \<and> \<not> is_revoked (dg_issuer d) (au_revocations au)
     \<and> (case get_principal (dg_issuer d) (au_principals au) of
          Inl _ \<Rightarrow> False | Inr issuer \<Rightarrow> delegation_verifies cr (pr_key issuer) d)"

definition linked :: "'pk authority \<Rightarrow> delegation \<Rightarrow> delegation \<Rightarrow> bool" where
  "linked au d parent \<longleftrightarrow>
     (case dg_parent d of None \<Rightarrow> False | Some pid \<Rightarrow> get_delegation pid au = Some parent)
     \<and> dg_subject parent = dg_issuer d \<and> scope_contains (dg_scope parent) (dg_scope d)"

fun valid_chain :: "('sk, 'pk) crypto \<Rightarrow> 'pk authority \<Rightarrow> delegation list \<Rightarrow> 'pk principal \<Rightarrow> bool" where
  "valid_chain cr au [] h = False"
| "valid_chain cr au [d] h = (good_hop cr au d \<and> dg_parent d = None
     \<and> get_principal (dg_issuer d) (au_principals au) = Inr h \<and> pr_kind h = HUMAN)"
| "valid_chain cr au (d # p # ds) h = (good_hop cr au d \<and> linked au d p \<and> valid_chain cr au (p # ds) h)"

definition good_actor :: "('sk, 'pk) crypto \<Rightarrow> 'pk authority \<Rightarrow> action_record \<Rightarrow> bool" where
  "good_actor cr au a \<longleftrightarrow> \<not> is_revoked (ar_actor a) (au_revocations au)
     \<and> (case get_principal (ar_actor a) (au_principals au) of
          Inl _ \<Rightarrow> False | Inr actor \<Rightarrow> action_verifies cr (pr_key actor) a)"

lemma fail_simps [simp]:
  "cn_ok (fail e r) = False" "cn_chain (fail e r) = cn_chain r" "cn_errors (fail e r) = cn_errors r @ [e]"
  "cn_human_root_id (fail e r) = cn_human_root_id r" "cn_human_root_name (fail e r) = cn_human_root_name r"
  by (simp_all add: fail_def)

lemma fail_if_simps [simp]:
  "cn_ok (fail_if b e r) = (cn_ok r \<and> \<not> b)" "cn_chain (fail_if b e r) = cn_chain r"
  "cn_human_root_id (fail_if b e r) = cn_human_root_id r"
  "cn_human_root_name (fail_if b e r) = cn_human_root_name r"
  by (simp_all add: fail_if_def)

lemma check_simps [simp]:
  "cn_ok (revocation_check d au r) \<longleftrightarrow> cn_ok r \<and> \<not> is_revoked (dg_id d) (au_revocations au)
     \<and> \<not> is_revoked (dg_issuer d) (au_revocations au)"
  "cn_chain (revocation_check d au r) = cn_chain r"
  "cn_human_root_id (revocation_check d au r) = cn_human_root_id r"
  "cn_ok (link_check p d r) \<longleftrightarrow> cn_ok r \<and> dg_subject p = dg_issuer d \<and> scope_contains (dg_scope p) (dg_scope d)"
  "cn_chain (link_check p d r) = cn_chain r"
  "cn_human_root_id (link_check p d r) = cn_human_root_id r"
  by (auto simp: revocation_check_def link_check_def)

lemma walk_chain_sound:
  "cn_ok (walk_chain cr au n seen d r) \<Longrightarrow> cn_ok r \<and> (\<exists>ds h. cn_chain (walk_chain cr au n seen d r) = cn_chain r @ d # ds
     \<and> valid_chain cr au (d # ds) h \<and> length (d # ds) \<le> n \<and> distinct (map dg_id (d # ds))
     \<and> set (map dg_id (d # ds)) \<inter> set seen = {}
     \<and> cn_human_root_id (walk_chain cr au n seen d r) = Some (pr_id h))"
proof (induction cr au n seen d r rule: walk_chain.induct)
  case (1 cr au seen d r)
  then show ?case by simp
next
  case (2 cr au n seen d r)
  have fresh: "dg_id d \<notin> set seen" using 2(2) by auto
  obtain issuer where issuer: "get_principal (dg_issuer d) (au_principals au) = Inr issuer"
    using 2(2) fresh by (cases "get_principal (dg_issuer d) (au_principals au)") (auto simp: Let_def)
  let ?r2 = "fail_if (\<not> delegation_verifies cr (pr_key issuer) d) (DelegationSignatureInvalid (dg_id d)) (revocation_check d au r)"
  let ?r3 = "?r2\<lparr>cn_chain := cn_chain ?r2 @ [d]\<rparr>"
  show ?case
  proof (cases "dg_parent d")
    case None
    then have w: "walk_chain cr au (Suc n) seen d r = root_check issuer ?r3"
      using fresh issuer by (simp add: Let_def)
    with 2(2) have "pr_kind issuer = HUMAN" "cn_ok ?r3" by (auto simp: root_check_def split: if_splits)
    then show ?thesis
      using w fresh issuer None
      by (auto simp: root_check_def good_hop_def intro!: exI [of _ "[]"])
  next
    case (Some pid)
    obtain parent where parent: "get_delegation pid au = Some parent"
      using 2(2) fresh issuer Some by (cases "get_delegation pid au") (auto simp: Let_def)
    have w: "walk_chain cr au (Suc n) seen d r = walk_chain cr au n (dg_id d # seen) parent (link_check parent d ?r3)"
      using fresh issuer Some parent by (simp add: Let_def)
    note ok_w = 2(2) [unfolded w]
    note IH = 2(1) [OF fresh refl issuer refl refl Some parent ok_w]
    then obtain ds h where ds: "cn_chain (walk_chain cr au n (dg_id d # seen) parent (link_check parent d ?r3)) = cn_chain r @ d # parent # ds"
      "valid_chain cr au (parent # ds) h" "length (parent # ds) \<le> n" "distinct (map dg_id (parent # ds))"
      "set (map dg_id (parent # ds)) \<inter> set (dg_id d # seen) = {}"
      "cn_human_root_id (walk_chain cr au n (dg_id d # seen) parent (link_check parent d ?r3)) = Some (pr_id h)"
      by auto
    from IH have ok: "cn_ok (link_check parent d ?r3)" by blast
    have good: "good_hop cr au d" "linked au d parent"
      using ok issuer Some parent by (auto simp: good_hop_def linked_def)
    then have "valid_chain cr au (d # parent # ds) h" using ds(2) by simp
    then show ?thesis
      unfolding w using ds ok fresh by (intro conjI exI [of _ "parent # ds"] exI [of _ h]) auto
  qed
qed

lemma walk_chain_complete:
  "valid_chain cr au (d # ds) h \<Longrightarrow> length (d # ds) \<le> n \<Longrightarrow> distinct (map dg_id (d # ds)) \<Longrightarrow>
   set (map dg_id (d # ds)) \<inter> set seen = {} \<Longrightarrow> cn_ok r \<Longrightarrow> cn_ok (walk_chain cr au n seen d r)"
proof (induction ds arbitrary: d n seen r)
  case Nil
  then obtain m where "n = Suc m" by (cases n) auto
  with Nil show ?case by (auto simp: Let_def good_hop_def root_check_def)
next
  case (Cons p ds)
  then obtain m where n: "n = Suc m" by (cases n) auto
  obtain issuer where issuer: "get_principal (dg_issuer d) (au_principals au) = Inr issuer"
    "delegation_verifies cr (pr_key issuer) d"
    using Cons.prems(1) by (auto simp: good_hop_def split: sum.splits)
  obtain pid where pid: "dg_parent d = Some pid" "get_delegation pid au = Some p"
    using Cons.prems(1) by (auto simp: linked_def split: option.splits)
  let ?r2 = "fail_if (\<not> delegation_verifies cr (pr_key issuer) d) (DelegationSignatureInvalid (dg_id d)) (revocation_check d au r)"
  have "cn_ok (link_check p d (?r2\<lparr>cn_chain := cn_chain ?r2 @ [d]\<rparr>))"
    using Cons.prems(1,5) issuer by (auto simp: good_hop_def linked_def)
  moreover have "set (map dg_id (p # ds)) \<inter> set (dg_id d # seen) = {}" using Cons.prems(3,4) by auto
  moreover have "valid_chain cr au (p # ds) h" "length (p # ds) \<le> m" "distinct (map dg_id (p # ds))"
    using Cons.prems n by auto
  ultimately have "cn_ok (walk_chain cr au m (dg_id d # seen) p (link_check p d (?r2\<lparr>cn_chain := cn_chain ?r2 @ [d]\<rparr>)))"
    by (intro Cons.IH)
  then show ?case using n issuer pid Cons.prems(4) by (simp add: Let_def)
qed

section \<open>Reconstruction\<close>

lemma finish_chain_simps [simp]:
  "cn_chain (finish_chain r) = cn_chain r" "cn_human_root_id (finish_chain r) = cn_human_root_id r"
  "cn_effective_constraints (finish_chain r) = effective_constraints (map dg_scope (cn_chain r))"
  "cn_reversibility_floor (finish_chain r) = effective_reversibility_floor (map dg_scope (cn_chain r))"
  "cn_hops (finish_chain r) = length (cn_chain r)"
  by (simp_all add: finish_chain_def Let_def fail_if_def fail_def)

lemma finish_chain_ok: "cn_ok (finish_chain r) \<Longrightarrow> cn_ok r"
  by (auto simp: finish_chain_def Let_def)

lemma finish_chain_root: "cn_human_root_id r \<noteq> None \<Longrightarrow> cn_ok (finish_chain r) = cn_ok r"
  by (auto simp: finish_chain_def Let_def)

lemma check_actor_simps [simp]:
  "cn_ok (check_actor cr a au r) \<longleftrightarrow> cn_ok r \<and> good_actor cr au a"
  "cn_chain (check_actor cr a au r) = cn_chain r"
  by (auto simp: check_actor_def good_actor_def split: sum.splits)

lemma chain_start_simps [simp]:
  "cn_ok (chain_start b aid) = b" "cn_chain (chain_start b aid) = []"
  by (simp_all add: chain_start_def)

text \<open>The specification: the action, its grant, and a valid chain of distinct hops from it.\<close>

definition authorized_by ::
  "('sk, 'pk) crypto \<Rightarrow> 'pk authority \<Rightarrow> string \<Rightarrow> action_record \<Rightarrow> delegation list \<Rightarrow> 'pk principal \<Rightarrow> bool" where
  "authorized_by cr au aid a ds h \<longleftrightarrow> map_of (au_actions au) aid = Some a \<and> good_actor cr au a
     \<and> (case ds of [] \<Rightarrow> False | d # _ \<Rightarrow> map_of (au_delegations au) (ar_delegation a) = Some d)
     \<and> valid_chain cr au ds h \<and> length ds \<le> MAX_CHAIN_DEPTH \<and> distinct (map dg_id ds)"

lemma reconstruct_ok:
  assumes "cn_ok (reconstruct_chain cr aid au)"
  shows "\<exists>a ds h. authorized_by cr au aid a ds h \<and> cn_chain (reconstruct_chain cr aid au) = ds
    \<and> cn_human_root_id (reconstruct_chain cr aid au) = Some (pr_id h)
    \<and> cn_effective_constraints (reconstruct_chain cr aid au) = effective_constraints (map dg_scope ds)
    \<and> cn_reversibility_floor (reconstruct_chain cr aid au) = effective_reversibility_floor (map dg_scope ds)"
proof -
  obtain a where a: "map_of (au_actions au) aid = Some a"
    using assms by (cases "map_of (au_actions au) aid") (auto simp: reconstruct_chain_def chain_start_def)
  obtain d where d: "map_of (au_delegations au) (ar_delegation a) = Some d"
    using assms a by (cases "map_of (au_delegations au) (ar_delegation a)") (auto simp: reconstruct_chain_def Let_def)
  let ?w = "walk_chain cr au MAX_CHAIN_DEPTH [] d (check_actor cr a au (chain_start True aid))"
  have r: "reconstruct_chain cr aid au = finish_chain ?w" using a d by (simp add: reconstruct_chain_def Let_def)
  have "cn_ok ?w" using assms finish_chain_ok by (simp add: r)
  from walk_chain_sound [OF this] obtain ds h where ds: "cn_chain ?w = d # ds" "valid_chain cr au (d # ds) h"
    "length (d # ds) \<le> MAX_CHAIN_DEPTH" "distinct (map dg_id (d # ds))" "cn_human_root_id ?w = Some (pr_id h)"
    and "good_actor cr au a" by auto
  then have "authorized_by cr au aid a (d # ds) h" using a d by (simp add: authorized_by_def)
  then show ?thesis
    unfolding r using ds by (intro exI [of _ a] exI [of _ "d # ds"] exI [of _ h]) simp
qed

lemma reconstruct_complete:
  assumes "authorized_by cr au aid a ds h"
  shows "cn_ok (reconstruct_chain cr aid au)"
proof -
  obtain d ds' where ds: "ds = d # ds'" using assms by (cases ds) (auto simp: authorized_by_def)
  let ?w = "walk_chain cr au MAX_CHAIN_DEPTH [] d (check_actor cr a au (chain_start True aid))"
  have r: "reconstruct_chain cr aid au = finish_chain ?w"
    using assms by (simp add: reconstruct_chain_def Let_def authorized_by_def ds)
  have ok: "cn_ok ?w"
    by (rule walk_chain_complete [where ds = ds' and h = h]) (use assms ds in \<open>auto simp: authorized_by_def\<close>)
  moreover have "cn_human_root_id ?w \<noteq> None" using walk_chain_sound [OF ok] by auto
  ultimately show ?thesis using finish_chain_root r by simp
qed

lemma valid_chain_attenuated: "valid_chain cr au ds h \<Longrightarrow> attenuated (map dg_scope ds)"
  by (induction cr au ds h rule: valid_chain.induct) (auto simp: linked_def)

lemma valid_chain_hops: "valid_chain cr au ds h \<Longrightarrow> d \<in> set ds \<Longrightarrow> good_hop cr au d"
  by (induction cr au ds h rule: valid_chain.induct) auto

lemma valid_chain_root:
  "valid_chain cr au ds h \<Longrightarrow> dg_parent (last ds) = None \<and> pr_kind h = HUMAN
     \<and> get_principal (dg_issuer (last ds)) (au_principals au) = Inr h"
  by (induction cr au ds h rule: valid_chain.induct) auto

end
