(* ===== verification/AuthorityMachine.thy ===== *)
theory AuthorityMachine
  imports AuthorityFacts
begin

text \<open>
  The authority engine as a transition system, the invariant of its grants, and the subtree of a
  grant as a closure. A step issues under an identifier not used before, as \<open>ids.new_id\<close> draws it.
\<close>

section \<open>Steps\<close>

inductive authority_step :: "('sk, 'pk) crypto \<Rightarrow> 'pk authority \<Rightarrow> 'pk authority \<Rightarrow> bool" for cr where
  identity: "register_identity cr kind name key given fresh roles claims au = (r, au', ev) \<Longrightarrow> authority_step cr au au'"
| revocation: "revoke_target fresh target kind reason by_whom now au = (r, au', ev) \<Longrightarrow> authority_step cr au au'"
| issue: "issue_root_delegation cr sk fresh human_id agent_id sc purpose ttl now au = (r, au', ev) \<Longrightarrow>
    fresh \<notin> dkeys (au_delegations au) \<Longrightarrow> authority_step cr au au'"
| delegate: "sub_delegate cr sk fresh issuer_id subject_id parent_id sc purpose ttl now au = (r, au', ev) \<Longrightarrow>
    fresh \<notin> dkeys (au_delegations au) \<Longrightarrow> authority_step cr au au'"
| act: "record_action cr sk fresh actor deleg tool action risk descr params sess plan_id now au = (r, au', ev) \<Longrightarrow>
    fresh \<notin> dkeys (au_actions au) \<Longrightarrow> authority_step cr au au'"

inductive authority_run :: "('sk, 'pk) crypto \<Rightarrow> 'pk authority \<Rightarrow> 'pk authority \<Rightarrow> bool" for cr where
  refl: "authority_run cr au au"
| step: "authority_run cr au au' \<Longrightarrow> authority_step cr au' au'' \<Longrightarrow> authority_run cr au au''"

section \<open>What every step keeps\<close>

definition keeps :: "'pk authority \<Rightarrow> 'pk authority \<Rightarrow> bool" where
  "keeps au au' \<longleftrightarrow>
     (\<forall>k p. map_of (au_principals au) k = Some p \<longrightarrow> map_of (au_principals au') k = Some p)
   \<and> (\<forall>k r. map_of (au_revocations au) k = Some r \<longrightarrow> map_of (au_revocations au') k = Some r)
   \<and> (\<forall>k d. map_of (au_delegations au) k = Some d \<longrightarrow> map_of (au_delegations au') k = Some d)
   \<and> (\<forall>k a. map_of (au_actions au) k = Some a \<longrightarrow> map_of (au_actions au') k = Some a)"

lemma keeps_refl [simp]: "keeps au au"
  by (simp add: keeps_def)

lemma keeps_trans: "keeps a b \<Longrightarrow> keeps b c \<Longrightarrow> keeps a c"
  by (simp add: keeps_def)

lemma keeps_store:
  "dg_id d \<notin> dkeys (au_delegations au) \<Longrightarrow> keeps au (fst (store_delegation d au))"
  by (auto simp: keeps_def store_delegation_def map_of_update dest: map_of_Some_dkeys)

lemma root_delegation_Inr:
  assumes "root_delegation cr sk fresh human_id agent_id sc purpose ttl now au = Inr d"
  obtains h where "get_principal human_id (au_principals au) = Inr h" "pr_kind h = HUMAN"
    "delegation_verifies cr (pr_key h) d" "dg_id d = fresh" "dg_issuer d = human_id" "dg_parent d = None"
    "dg_scope d = sc" "dg_subject d = agent_id" "dg_expires_at d = now + ttl"
  using assms build_signed_delegation_Inr
  by (fastforce simp: root_delegation_def)

lemma child_delegation_Inr:
  assumes "child_delegation cr sk fresh issuer_id subject_id parent_id sc purpose ttl now au = Inr d"
  obtains p i where "get_delegation parent_id au = Some p" "dg_subject p = issuer_id" "\<not> delegation_expired now p"
    "scope_contains (dg_scope p) sc" "get_principal issuer_id (au_principals au) = Inr i"
    "delegation_verifies cr (pr_key i) d" "dg_id d = fresh" "dg_issuer d = issuer_id" "dg_parent d = Some parent_id"
    "dg_scope d = sc" "dg_subject d = subject_id" "dg_issued_at d = now"
    "dg_expires_at d = now + min ttl (max 0 (dg_expires_at p - now))"
proof -
  from assms obtain p where p: "get_delegation parent_id au = Some p" "dg_subject p = issuer_id"
    "\<not> delegation_expired now p" "scope_contains (dg_scope p) sc"
    by (auto simp: child_delegation_def Let_def split: option.splits)
  with assms obtain i where i: "get_principal issuer_id (au_principals au) = Inr i"
    "delegation_verifies cr (pr_key i) d"
    and b: "build_signed_delegation cr sk fresh issuer_id subject_id sc purpose (Some parent_id)
      (min ttl (max 0 (dg_expires_at p - now))) now = Inr d"
    by (auto simp: child_delegation_def Let_def)
  show thesis
    by (rule that [OF p i]) (use build_signed_delegation_Inr [OF b] in auto)
qed

lemma issue_stores:
  assumes "issue_root_delegation cr sk fresh human_id agent_id sc purpose ttl now au = (r, au', ev)"
  obtains "au' = au" "\<exists>e. r = Inl e"
  | d where "root_delegation cr sk fresh human_id agent_id sc purpose ttl now au = Inr d" "r = Inr d"
      "au' = fst (store_delegation d au)" "dg_id d = fresh"
proof (cases "root_delegation cr sk fresh human_id agent_id sc purpose ttl now au")
  case (Inl e)
  with assms have "(r, au', ev) = (Inl e, au, [])" by (simp add: issue_root_delegation_def)
  then have "au' = au" "r = Inl e" by simp_all
  then show thesis using that(1) by blast
next
  case (Inr d)
  moreover from this have "dg_id d = fresh" by (rule root_delegation_Inr)
  ultimately show thesis using that(2) assms by (simp add: issue_root_delegation_def split: prod.splits)
qed

lemma delegate_stores:
  assumes "sub_delegate cr sk fresh issuer_id subject_id parent_id sc purpose ttl now au = (r, au', ev)"
  obtains "au' = au" "\<exists>e. r = Inl e"
  | d where "child_delegation cr sk fresh issuer_id subject_id parent_id sc purpose ttl now au = Inr d" "r = Inr d"
      "au' = fst (store_delegation d au)" "dg_id d = fresh"
proof (cases "child_delegation cr sk fresh issuer_id subject_id parent_id sc purpose ttl now au")
  case (Inl e)
  with assms have "(r, au', ev) = (Inl e, au, [])" by (simp add: sub_delegate_def)
  then have "au' = au" "r = Inl e" by simp_all
  then show thesis using that(1) by blast
next
  case (Inr d)
  moreover from this have "dg_id d = fresh" by (rule child_delegation_Inr)
  ultimately show thesis using that(2) assms by (simp add: sub_delegate_def split: prod.splits)
qed

lemma authority_step_keeps: "authority_step cr au au' \<Longrightarrow> keeps au au'"
proof (induction rule: authority_step.induct)
  case (identity kind name key given fresh roles claims au r au' ev)
  then show ?case
    using registry_register_keeps [of "au_principals au"]
    by (auto simp: register_identity_def keeps_def split: prod.splits sum.splits)
next
  case (revocation fresh target kind reason by_whom now au r au' ev)
  then show ?case
    by (auto simp: revoke_target_def keeps_def split: prod.splits) (metis revoke_keeps snd_conv)
next
  case (issue sk fresh human_id agent_id sc purpose ttl now au r au' ev)
  from issue(1) show ?case by (rule issue_stores) (use issue(2) keeps_store in auto)
next
  case (delegate sk fresh issuer_id subject_id parent_id sc purpose ttl now au r au' ev)
  from delegate(1) show ?case by (rule delegate_stores) (use delegate(2) keeps_store in auto)
next
  case (act sk fresh actor deleg tool action risk descr params sess plan_id now au r au' ev)
  show ?case
  proof (cases r)
    case (Inl e)
    then have "au' = au" using act(1) by (auto simp: record_action_def split: if_splits sum.splits)
    then show ?thesis by simp
  next
    case (Inr a)
    then have b: "build_signed_action cr sk fresh actor deleg tool action risk descr params sess plan_id now = Inr a"
      and au': "au' = au\<lparr>au_actions := AList.update (ar_id a) a (au_actions au)\<rparr>"
      using act(1) by (auto simp: record_action_def split: if_splits sum.splits)
    have "map_of (au_actions au) (ar_id a) = None"
      using act(2) build_signed_action_Inr(1) [OF b] by (simp add: map_of_None_dkeys)
    then show ?thesis by (auto simp: keeps_def au' map_of_update)
  qed
qed

lemma authority_run_keeps: "authority_run cr au au' \<Longrightarrow> keeps au au'"
  by (induction rule: authority_run.induct) (auto intro: keeps_trans authority_step_keeps)

lemma keeps_revoked: "keeps au au' \<Longrightarrow> is_revoked t (au_revocations au) \<Longrightarrow> is_revoked t (au_revocations au')"
  by (auto simp: keeps_def is_revoked_def)

section \<open>The grants on record\<close>

text \<open>A grant is anchored when its parents lead to one a human issued, each link attenuating, each
  signature that of the registered issuer, and none outliving its parent.\<close>

inductive anchored :: "('sk, 'pk) crypto \<Rightarrow> 'pk authority \<Rightarrow> delegation \<Rightarrow> bool" for cr au where
  root: "dg_parent d = None \<Longrightarrow> get_principal (dg_issuer d) (au_principals au) = Inr h \<Longrightarrow> pr_kind h = HUMAN \<Longrightarrow>
    delegation_verifies cr (pr_key h) d \<Longrightarrow> anchored cr au d"
| link: "linked au d p \<Longrightarrow> anchored cr au p \<Longrightarrow> get_principal (dg_issuer d) (au_principals au) = Inr i \<Longrightarrow>
    delegation_verifies cr (pr_key i) d \<Longrightarrow> dg_expires_at d \<le> dg_expires_at p \<Longrightarrow> anchored cr au d"

lemma keeps_principal:
  "keeps au au' \<Longrightarrow> get_principal k (au_principals au) = Inr p \<Longrightarrow> get_principal k (au_principals au') = Inr p"
  by (auto simp: keeps_def get_principal_def split: option.splits)

lemma keeps_linked: "keeps au au' \<Longrightarrow> linked au d p \<Longrightarrow> linked au' d p"
  by (auto simp: keeps_def linked_def get_delegation_def split: option.splits)

lemma keeps_anchored: "anchored cr au d \<Longrightarrow> keeps au au' \<Longrightarrow> anchored cr au' d"
proof (induction rule: anchored.induct)
  case (root d h)
  show ?case
    by (rule anchored.root [OF root.hyps(1) keeps_principal [OF root.prems root.hyps(2)] root.hyps(3,4)])
next
  case (link d p i)
  show ?case
    by (rule anchored.link [OF keeps_linked [OF link.prems link.hyps(1)] link.IH [OF link.prems]
          keeps_principal [OF link.prems link.hyps(3)] link.hyps(4,5)])
qed

definition grants_inv :: "('sk, 'pk) crypto \<Rightarrow> 'pk authority \<Rightarrow> bool" where
  "grants_inv cr au \<longleftrightarrow>
     (\<forall>k d. map_of (au_delegations au) k = Some d \<longrightarrow> dg_id d = k \<and> anchored cr au d)
   \<and> (\<forall>k a. map_of (au_actions au) k = Some a \<longrightarrow> ar_id a = k \<and> ar_delegation a \<in> dkeys (au_delegations au))"

lemma grants_inv_new: "grants_inv cr new_authority"
  by (simp add: grants_inv_def new_authority_def)

lemma keeps_dkeys: "keeps au au' \<Longrightarrow> k \<in> dkeys (au_delegations au) \<Longrightarrow> k \<in> dkeys (au_delegations au')"
  unfolding keeps_def using map_of_None_dkeys map_of_Some_dkeys by (metis option.exhaust)

lemma grants_inv_store:
  assumes "grants_inv cr au" "dg_id d \<notin> dkeys (au_delegations au)" "anchored cr au d"
  shows "grants_inv cr (fst (store_delegation d au))"
proof -
  note k = keeps_store [OF assms(2)]
  have "dg_id e = j \<and> anchored cr (fst (store_delegation d au)) e"
    if "map_of (au_delegations (fst (store_delegation d au))) j = Some e" for j e
  proof (cases "j = dg_id d")
    case True
    then show ?thesis using that keeps_anchored [OF assms(3) k] by (simp add: store_delegation_def)
  next
    case False
    then have "map_of (au_delegations au) j = Some e" using that by (simp add: store_delegation_def)
    then show ?thesis using assms(1) keeps_anchored [OF _ k] by (auto simp: grants_inv_def)
  qed
  moreover have "au_actions (fst (store_delegation d au)) = au_actions au" by (simp add: store_delegation_def)
  ultimately show ?thesis
    using assms(1) keeps_dkeys [OF k] by (auto simp: grants_inv_def)
qed

lemma root_anchored:
  assumes "root_delegation cr sk fresh human_id agent_id sc purpose ttl now au = Inr d"
  shows "anchored cr au d \<and> dg_id d = fresh"
  using assms by (rule root_delegation_Inr) (auto intro: anchored.root)

lemma child_anchored:
  assumes "child_delegation cr sk fresh issuer_id subject_id parent_id sc purpose ttl now au = Inr d" "grants_inv cr au"
  shows "anchored cr au d \<and> dg_id d = fresh"
  using assms(1)
proof (rule child_delegation_Inr)
  fix p i
  assume p: "get_delegation parent_id au = Some p" "dg_subject p = issuer_id" "\<not> delegation_expired now p"
    "scope_contains (dg_scope p) sc" "get_principal issuer_id (au_principals au) = Inr i"
    "delegation_verifies cr (pr_key i) d" "dg_id d = fresh" "dg_issuer d = issuer_id" "dg_parent d = Some parent_id"
    "dg_scope d = sc" "dg_expires_at d = now + min ttl (max 0 (dg_expires_at p - now))"
  then have "linked au d p" by (simp add: linked_def)
  moreover have "anchored cr au p" using p(1) assms(2) by (auto simp: grants_inv_def get_delegation_def)
  moreover have "dg_expires_at d \<le> dg_expires_at p"
    using p(3,11) by (auto simp: delegation_expired_def)
  ultimately show ?thesis using p by (auto intro: anchored.link)
qed

lemma grants_inv_frame:
  "grants_inv cr au \<Longrightarrow> keeps au au' \<Longrightarrow> au_delegations au' = au_delegations au \<Longrightarrow> au_actions au' = au_actions au \<Longrightarrow>
   grants_inv cr au'"
  by (auto simp: grants_inv_def intro: keeps_anchored)

lemma grants_inv_step: "authority_step cr au au' \<Longrightarrow> grants_inv cr au \<Longrightarrow> grants_inv cr au'"
proof -
  assume s: "authority_step cr au au'" and inv: "grants_inv cr au"
  note k = authority_step_keeps [OF s]
  from s show "grants_inv cr au'"
  proof cases
    case identity
    then show ?thesis
      by (intro grants_inv_frame [OF inv k]) (auto simp: register_identity_def split: prod.splits sum.splits)
  next
    case revocation
    then show ?thesis
      by (intro grants_inv_frame [OF inv k]) (auto simp: revoke_target_def split: prod.splits)
  next
    case (issue sk fresh human_id agent_id sc purpose ttl now r ev)
    from issue(1) show ?thesis
    proof (rule issue_stores)
      fix d
      assume d: "root_delegation cr sk fresh human_id agent_id sc purpose ttl now au = Inr d"
        "au' = fst (store_delegation d au)" "dg_id d = fresh"
      show ?thesis
        unfolding d(2) by (rule grants_inv_store [OF inv]) (use d(3) issue(2) root_anchored [OF d(1)] in auto)
    qed (use inv in simp)
  next
    case (delegate sk fresh issuer_id subject_id parent_id sc purpose ttl now r ev)
    from delegate(1) show ?thesis
    proof (rule delegate_stores)
      fix d
      assume d: "child_delegation cr sk fresh issuer_id subject_id parent_id sc purpose ttl now au = Inr d"
        "au' = fst (store_delegation d au)" "dg_id d = fresh"
      show ?thesis
        unfolding d(2) by (rule grants_inv_store [OF inv]) (use d(3) delegate(2) child_anchored [OF d(1) inv] in auto)
    qed (use inv in simp)
  next
    case (act sk fresh actor deleg tool action risk descr params sess plan_id now r ev)
    show ?thesis
    proof (cases r)
      case (Inl e)
      then have "au' = au" using act by (auto simp: record_action_def split: if_splits sum.splits)
      then show ?thesis using inv by simp
    next
      case (Inr a)
      then have b: "build_signed_action cr sk fresh actor deleg tool action risk descr params sess plan_id now = Inr a"
        and d: "deleg \<in> dkeys (au_delegations au)"
        and au': "au' = au\<lparr>au_actions := AList.update (ar_id a) a (au_actions au)\<rparr>"
        using act by (auto simp: record_action_def split: if_splits sum.splits)
      have "anchored cr au' e" if "map_of (au_delegations au) j = Some e" for j e
        using inv that by (intro keeps_anchored [OF _ k]) (auto simp: grants_inv_def)
      then show ?thesis
        using inv d build_signed_action_Inr(3) [OF b]
        by (auto simp: grants_inv_def au' map_of_update)
    qed
  qed
qed

lemma grants_inv_run: "authority_run cr au au' \<Longrightarrow> grants_inv cr au \<Longrightarrow> grants_inv cr au'"
  by (induction rule: authority_run.induct) (auto intro: grants_inv_step)

end
