(* ===== verification/AuthorityTree.thy ===== *)
theory AuthorityTree
  imports AuthorityMachine
begin

text \<open>
  Grants as a graph: the child relation, the exploration of a subtree as its closure, and the walk
  back from a grant to its ancestors, which a valid chain contains.
\<close>

section \<open>The subtree of a grant\<close>

definition child_rel :: "(string, delegation) dict \<Rightarrow> (string \<times> string) set" where
  "child_rel ds = {(p, c). c \<in> set (children ds p)}"

lemma closed_reach:
  assumes "child_rel ds `` S \<subseteq> S \<union> F" "x \<in> S" "(x, y) \<in> (child_rel ds)\<^sup>*"
  shows "y \<in> S \<union> (child_rel ds)\<^sup>* `` F"
  using assms(3)
proof (induction rule: rtrancl_induct)
  case base
  then show ?case using assms(2) by simp
next
  case (step y z)
  then show ?case
  proof (cases "y \<in> S")
    case True
    then have "z \<in> S \<union> F" using step(2) assms(1) by blast
    then show ?thesis by blast
  next
    case False
    then show ?thesis using step by (auto intro: rtrancl_into_rtrancl)
  qed
qed

lemma descend_set:
  "child_rel ds `` set out \<subseteq> set out \<union> set fr \<Longrightarrow>
   set (descend ds fr out) = set out \<union> (child_rel ds)\<^sup>* `` set fr"
proof (induction ds fr out rule: descend.induct)
  case (1 ds out)
  then show ?case by simp
next
  case (2 ds c fr out)
  show ?case
  proof (cases "c \<in> set out")
    case True
    then have inv: "child_rel ds `` set out \<subseteq> set out \<union> set fr" using "2.prems" by auto
    have "(child_rel ds)\<^sup>* `` {c} \<subseteq> set out \<union> (child_rel ds)\<^sup>* `` set fr"
      using closed_reach [OF inv True] by auto
    with 2(1) [OF True inv] True show ?thesis by auto
  next
    case False
    have step: "child_rel ds `` {c} = set (children ds c)" by (auto simp: child_rel_def)
    have inv: "child_rel ds `` set (out @ [c]) \<subseteq> set (out @ [c]) \<union> set (rev (children ds c) @ fr)"
      using "2.prems" step by auto
    have reach: "(child_rel ds)\<^sup>* `` {c} = insert c ((child_rel ds)\<^sup>* `` set (children ds c))"
      unfolding step [symmetric] by (auto elim: converse_rtranclE intro: converse_rtrancl_into_rtrancl)
    have "set (descend ds (c # fr) out)
        = set (out @ [c]) \<union> (child_rel ds)\<^sup>* `` set (rev (children ds c) @ fr)"
      using 2(2) [OF False inv] False by simp
    also have "\<dots> = set out \<union> (child_rel ds)\<^sup>* `` set (c # fr)"
      using reach by auto
    finally show ?thesis .
  qed
qed

lemma descend_distinct: "distinct out \<Longrightarrow> distinct (descend ds fr out)"
  by (induction ds fr out rule: descend.induct) auto

section \<open>Ancestors are in the chain\<close>

definition grants_keyed :: "'pk authority \<Rightarrow> bool" where
  "grants_keyed au \<longleftrightarrow> distinct_keys (au_delegations au) \<and> (\<forall>(k, d) \<in> set (au_delegations au). dg_id d = k)"

lemma grants_keyed_new: "grants_keyed new_authority"
  by (simp add: grants_keyed_def new_authority_def)

lemma grants_keyed_store: "grants_keyed au \<Longrightarrow> grants_keyed (fst (store_delegation d au))"
  by (auto simp: grants_keyed_def store_delegation_def dest!: in_set_update)

lemma grants_keyed_frame: "grants_keyed au \<Longrightarrow> au_delegations au' = au_delegations au \<Longrightarrow> grants_keyed au'"
  by (simp add: grants_keyed_def)

lemma grants_keyed_step: "authority_step cr au au' \<Longrightarrow> grants_keyed au \<Longrightarrow> grants_keyed au'"
proof (induction rule: authority_step.induct)
  case (identity kind name key given fresh roles claims au r au' ev)
  from identity(1) have "au_delegations au' = au_delegations au"
    by (auto simp: register_identity_def split: prod.splits sum.splits)
  with identity(2) show ?case by (rule grants_keyed_frame)
next
  case (revocation fresh target kind reason by_whom now au r au' ev)
  from revocation(1) have "au_delegations au' = au_delegations au"
    by (auto simp: revoke_target_def split: prod.splits)
  with revocation(2) show ?case by (rule grants_keyed_frame)
next
  case (issue sk fresh human_id agent_id sc purpose ttl now au r au' ev)
  from issue(1) show ?case by (rule issue_stores) (simp_all add: issue(3) grants_keyed_store)
next
  case (delegate sk fresh issuer_id subject_id parent_id sc purpose ttl now au r au' ev)
  from delegate(1) show ?case by (rule delegate_stores) (simp_all add: delegate(3) grants_keyed_store)
next
  case (act sk fresh actor deleg tool action risk descr params sess plan_id now au r au' ev)
  from act(1) have "au_delegations au' = au_delegations au"
    by (auto simp: record_action_def split: if_splits sum.splits)
  with act(3) show ?case by (rule grants_keyed_frame)
qed

lemma grants_keyed_run: "authority_run cr au au' \<Longrightarrow> grants_keyed au \<Longrightarrow> grants_keyed au'"
  by (induction rule: authority_run.induct) (auto intro: grants_keyed_step)

lemma keyed_lookup: "grants_keyed au \<Longrightarrow> (k, d) \<in> set (au_delegations au) \<Longrightarrow> get_delegation (dg_id d) au = Some d"
  by (auto simp: grants_keyed_def get_delegation_def map_of_distinct_keys_mem)

lemma valid_chain_parent:
  "valid_chain cr au ds h \<Longrightarrow> d \<in> set ds \<Longrightarrow> dg_parent d = Some c \<Longrightarrow> \<exists>p \<in> set ds. get_delegation c au = Some p"
  by (induction cr au ds h rule: valid_chain.induct) (auto simp: linked_def)

lemma valid_chain_members:
  "valid_chain cr au (d # ds) h \<Longrightarrow> x \<in> set ds \<Longrightarrow> \<exists>k. get_delegation k au = Some x"
proof (induction ds arbitrary: d)
  case (Cons p ds)
  then show ?case by (auto simp: linked_def split: option.splits)
qed simp

lemma ancestor_in_chain:
  assumes keyed: "grants_keyed au" and auth: "authorized_by cr au aid a ds h"
    and reach: "(did, ar_delegation a) \<in> (child_rel (au_delegations au))\<^sup>*"
  shows "did \<in> dg_id ` set ds"
proof -
  from auth obtain d ds' where ds: "ds = d # ds'" and leaf: "get_delegation (ar_delegation a) au = Some d"
    and chain: "valid_chain cr au ds h"
    by (auto simp: authorized_by_def get_delegation_def split: list.splits)
  have self: "get_delegation (dg_id x) au = Some x" if "x \<in> set ds" for x
  proof -
    have "\<exists>k. get_delegation k au = Some x"
      using that leaf valid_chain_members [of cr au d ds' h x] chain by (auto simp: ds)
    then obtain k where "(k, x) \<in> set (au_delegations au)" by (auto simp: get_delegation_def dest: map_of_SomeD)
    then show ?thesis by (rule keyed_lookup [OF keyed])
  qed
  have "dg_id d = ar_delegation a"
    using leaf keyed by (auto simp: get_delegation_def grants_keyed_def dest!: map_of_SomeD)
  then have start: "ar_delegation a \<in> dg_id ` set ds" by (force simp: ds)
  from reach show ?thesis
  proof (induction rule: converse_rtrancl_induct)
    case base
    show ?case by (rule start)
  next
    case (step c y)
    then obtain x where x: "x \<in> set ds" "dg_id x = y" by blast
    from step(1) obtain k z where z: "(k, z) \<in> set (au_delegations au)" "dg_id z = y" "dg_parent z = Some c"
      by (auto simp: child_rel_def children_def)
    have "z = x" using keyed_lookup [OF keyed z(1)] self [OF x(1)] x(2) z(2) by simp
    then obtain p where p: "p \<in> set ds" "get_delegation c au = Some p"
      using valid_chain_parent [OF chain x(1)] z(3) by blast
    have "dg_id p = c" using p(2) keyed by (auto simp: get_delegation_def grants_keyed_def dest!: map_of_SomeD)
    with p(1) show ?case by blast
  qed
qed

text \<open>A withdrawn grant takes everything below it along.\<close>

lemma revoked_ancestor_refused:
  assumes "grants_keyed au" "is_revoked did (au_revocations au)" "get_action aid au = Some a"
    and "(did, ar_delegation a) \<in> (child_rel (au_delegations au))\<^sup>*"
  shows "\<not> cn_ok (reconstruct_chain cr aid au)"
proof
  assume "cn_ok (reconstruct_chain cr aid au)"
  from reconstruct_ok [OF this] obtain a' ds h where auth: "authorized_by cr au aid a' ds h" by blast
  then have "a' = a" using assms(3) by (simp add: authorized_by_def get_action_def)
  with auth have "did \<in> dg_id ` set ds" using ancestor_in_chain [OF assms(1) auth] assms(4) by simp
  then show False using auth assms(2) valid_chain_hops by (fastforce simp: authorized_by_def good_hop_def)
qed

end
