(* ===== verification/AuthorityProps.thy ===== *)
theory AuthorityProps
  imports AuthorityTree
begin

text \<open>
  The properties of delegated authority: what an accepted chain proves, that attenuation bounds
  every hop, that revocation is final, and that the subtree of a grant is computed exactly.
\<close>

section \<open>The subtree of a grant\<close>

text \<open>
  The subtree containment acts on is exact, on any graph of grants, cyclic ones included: it
  lists, once each, the given grant and every grant reachable from it through parent links.
\<close>

theorem descendant_delegations_exact:
  "set (descendant_delegations did au) = {x. (did, x) \<in> (child_rel (au_delegations au))\<^sup>*}
   \<and> distinct (descendant_delegations did au)"
  unfolding descendant_delegations_def using descend_set [of "au_delegations au" "[]" "[did]"]
  by (auto simp: descend_distinct)

section \<open>A concrete engine\<close>

definition toy_crypto :: "(string, string) crypto" where
  "toy_crypto = \<lparr>float_repr = (\<lambda>x. ''0.0''), sha256 = id, sign = (\<lambda>k m. k),
     verify = (\<lambda>k m s. s = k), public_key_to_b64 = id\<rparr>"

definition pay_scope :: "string set \<Rightarrow> int \<Rightarrow> scope" where
  "pay_scope tools risk = \<lparr>allowed_tools = tools, allowed_actions = {''write''}, max_risk = risk,
     constraints = [(''max:amount'', VInt 500)], min_reversibility = COMPENSABLE\<rparr>"

definition demo_principals :: "string principals" where
  "demo_principals =
     map (\<lambda>(i, k). (i, \<lparr>pr_id = i, pr_kind = k, pr_name = i, pr_key = i, pr_roles = {}, pr_claims = []\<rparr>))
       [(''hum'', HUMAN), (''bot'', AGENT), (''sub'', AGENT)]"

definition demo_d1 :: delegation where
  "demo_d1 = \<lparr>dg_id = ''d1'', dg_issuer = ''hum'', dg_subject = ''bot'', dg_scope = pay_scope {''pay'', ''read''} 80,
     dg_purpose = ''payables'', dg_parent = None, dg_issued_at = 0, dg_expires_at = 100, dg_signature = ''hum''\<rparr>"

definition demo_d2 :: delegation where
  "demo_d2 = \<lparr>dg_id = ''d2'', dg_issuer = ''bot'', dg_subject = ''sub'', dg_scope = pay_scope {''pay''} 50,
     dg_purpose = ''invoice'', dg_parent = Some ''d1'', dg_issued_at = 10, dg_expires_at = 100, dg_signature = ''bot''\<rparr>"

definition demo_a1 :: action_record where
  "demo_a1 = \<lparr>ar_id = ''a1'', ar_actor = ''sub'', ar_delegation = ''d2'', ar_tool = ''pay'', ar_action = ''write'',
     ar_risk = 40, ar_description = [], ar_params_digest = ''{}'', ar_occurred_at = 20, ar_session = ''s'',
     ar_plan = None, ar_signature = ''sub''\<rparr>"

definition demo_rooted :: "string authority" where
  "demo_rooted = \<lparr>au_principals = demo_principals, au_revocations = [], au_delegations = [(''d1'', demo_d1)],
     au_actions = []\<rparr>"

definition demo :: "string authority" where
  "demo = \<lparr>au_principals = demo_principals, au_revocations = [],
     au_delegations = [(''d1'', demo_d1), (''d2'', demo_d2)], au_actions = [(''a1'', demo_a1)]\<rparr>"

lemma toy_verifies [simp]:
  "delegation_verifies toy_crypto k d \<longleftrightarrow> dg_signature d = k" "action_verifies toy_crypto k a \<longleftrightarrow> ar_signature a = k"
  by (simp_all add: delegation_verifies_def action_verifies_def toy_crypto_def)

lemma demo_authorized:
  "authorized_by toy_crypto demo ''a1'' demo_a1 [demo_d2, demo_d1]
     \<lparr>pr_id = ''hum'', pr_kind = HUMAN, pr_name = ''hum'', pr_key = ''hum'', pr_roles = {}, pr_claims = []\<rparr>"
  by (simp add: authorized_by_def demo_def demo_principals_def demo_a1_def demo_d1_def demo_d2_def good_actor_def
      good_hop_def linked_def get_principal_def get_delegation_def is_revoked_def MAX_CHAIN_DEPTH_def
      scope_contains_def names_contained_def floor_contained_def pay_scope_def cap_contained_def cap_of_def WILDCARD_def)

lemma demo_ok: "cn_ok (reconstruct_chain toy_crypto ''a1'' demo)"
  by (rule reconstruct_complete [OF demo_authorized])

lemma demo_chain: "cn_chain (reconstruct_chain toy_crypto ''a1'' demo) = [demo_d2, demo_d1]"
  by (simp add: reconstruct_chain_def demo_def demo_principals_def demo_a1_def demo_d1_def demo_d2_def Let_def
      get_principal_def get_delegation_def MAX_CHAIN_DEPTH_def root_check_def numeral_eq_Suc)

section \<open>Chains\<close>

text \<open>
  C3: an action is accepted exactly when it is on record with a valid signature of its registered,
  unrevoked actor and a chain of at most 64 distinct grants leads from its grant to one issued by a
  registered human, each grant and its issuer unrevoked, each signature that of the registered
  issuer, each hop issued by the subject of its parent and contained in its parent's scope.
\<close>

theorem chain_ok_iff:
  "cn_ok (reconstruct_chain cr aid au) \<longleftrightarrow> (\<exists>a ds h. authorized_by cr au aid a ds h)"
  using reconstruct_ok reconstruct_complete by blast



section \<open>Revocation is final\<close>

text \<open>
  C9: once a grant or a principal is revoked, no later action of any run makes an action accepted
  whose actor, or any grant or issuer of whose chain, is the revoked one; this holds for actions
  recorded before the revocation too.
\<close>

theorem revocation_is_final:
  assumes "revoke_target fresh target kind reason by_whom now au0 = (rv, au1, ev)" "authority_run cr au1 au2"
    and "map_of (au_actions au2) aid = Some a"
    and "target = ar_actor a \<or> target \<in> dg_id ` set (cn_chain (reconstruct_chain cr aid au2))
         \<or> target \<in> dg_issuer ` set (cn_chain (reconstruct_chain cr aid au2))"
  shows "\<not> cn_ok (reconstruct_chain cr aid au2)"
proof
  assume ok: "cn_ok (reconstruct_chain cr aid au2)"
  have "is_revoked target (au_revocations au1)"
    using assms(1) revoke_revokes [of target fresh kind reason by_whom now "au_revocations au0"]
    by (auto simp: revoke_target_def split: prod.splits)
  then have rv: "is_revoked target (au_revocations au2)"
    using keeps_revoked [OF authority_run_keeps [OF assms(2)]] by blast
  obtain a' ds h where "authorized_by cr au2 aid a' ds h" "cn_chain (reconstruct_chain cr aid au2) = ds"
    using reconstruct_ok [OF ok] by blast
  with assms(3) have ds: "good_actor cr au2 a" "valid_chain cr au2 ds h"
    "cn_chain (reconstruct_chain cr aid au2) = ds"
    by (auto simp: authorized_by_def)
  have "\<not> is_revoked (dg_id d) (au_revocations au2) \<and> \<not> is_revoked (dg_issuer d) (au_revocations au2)"
    if "d \<in> set ds" for d
    using valid_chain_hops [OF ds(2) that] by (simp add: good_hop_def)
  with ds rv assms(4) show False by (auto simp: good_actor_def)
qed

lemma revocation_is_final_witness:
  "\<not> cn_ok (reconstruct_chain toy_crypto ''a1'' (fst (snd (revoke_target ''r1'' ''sub'' TPrincipal ''leak'' None 30 demo))))"
proof -
  have r: "revoke_target ''r1'' ''sub'' TPrincipal ''leak'' None 30 demo
      = (fst (revoke_target ''r1'' ''sub'' TPrincipal ''leak'' None 30 demo),
         fst (snd (revoke_target ''r1'' ''sub'' TPrincipal ''leak'' None 30 demo)),
         snd (snd (revoke_target ''r1'' ''sub'' TPrincipal ''leak'' None 30 demo)))" by simp
  have acts: "au_actions (fst (snd (revoke_target ''r1'' ''sub'' TPrincipal ''leak'' None 30 demo))) = au_actions demo"
    by (simp add: revoke_target_def split: prod.splits)
  have a: "map_of (au_actions demo) ''a1'' = Some demo_a1" "ar_actor demo_a1 = ''sub''"
    by (simp_all add: demo_def demo_a1_def)
  show ?thesis
    by (rule revocation_is_final [OF r authority_run.refl a(1) [folded acts]]) (simp add: a(2))
qed

section \<open>What is issued is anchored and attenuated\<close>

text \<open>
  C35: starting from an empty engine, in any run that draws fresh identifiers, every grant on record
  is filed under its own identifier and anchored: its parents lead in finitely many steps to a grant
  a registered human issued, each link is issued by the parent's subject, contained in the parent's
  scope, signed by the registered issuer and outlived by no child.
\<close>

theorem every_grant_is_anchored:
  assumes "authority_run cr new_authority au" "map_of (au_delegations au) did = Some d"
  shows "dg_id d = did \<and> anchored cr au d"
  using grants_inv_run [OF assms(1) grants_inv_new] assms(2) by (simp add: grants_inv_def)

definition tiny_human :: "(revoco_error + string principal) \<times> string authority \<times> events" where
  "tiny_human = register_identity toy_crypto HUMAN ''hum'' ''hum'' (Some ''hum'') ''x'' {} [] new_authority"

definition tiny_agent :: "(revoco_error + string principal) \<times> string authority \<times> events" where
  "tiny_agent = register_identity toy_crypto AGENT ''bot'' ''bot'' (Some ''bot'') ''y'' {} [] (fst (snd tiny_human))"

definition tiny_root :: "(revoco_error + delegation) \<times> string authority \<times> events" where
  "tiny_root = issue_root_delegation toy_crypto ''hum'' ''d1'' ''hum'' ''bot'' (pay_scope {''pay''} 80) ''p'' 100 0
     (fst (snd tiny_agent))"

lemma short_names [simp]: "py_len ''hum'' = 3" "py_len ''bot'' = 3" "py_len ''p'' = 1"
  by code_simp+

lemma tiny_agent_state:
  "fst (snd tiny_agent) = new_authority\<lparr>au_principals := take 2 demo_principals\<rparr>"
  by (simp add: tiny_agent_def tiny_human_def register_identity_def registry_register_def principal_post_init_def
      id_or_new_def register_principal_def new_authority_def demo_principals_def)

lemma tiny_root_state:
  "map_of (au_delegations (fst (snd tiny_root))) ''d1'' \<noteq> None"
  unfolding tiny_root_def tiny_agent_state
  by (simp add: issue_root_delegation_def root_delegation_def get_principal_def build_signed_delegation_def
      delegation_post_init_def store_delegation_def new_authority_def demo_principals_def toy_crypto_def
      delegation_verifies_def)

lemma every_grant_is_anchored_witness:
  "\<exists>d. map_of (au_delegations (fst (snd tiny_root))) ''d1'' = Some d \<and> anchored toy_crypto (fst (snd tiny_root)) d"
proof -
  have 1: "authority_step toy_crypto new_authority (fst (snd tiny_human))"
    by (rule authority_step.identity [of _ _ _ _ _ _ _ _ _ "fst tiny_human" _ "snd (snd tiny_human)"])
       (simp add: tiny_human_def)
  have 2: "authority_step toy_crypto (fst (snd tiny_human)) (fst (snd tiny_agent))"
    by (rule authority_step.identity [of _ _ _ _ _ _ _ _ _ "fst tiny_agent" _ "snd (snd tiny_agent)"])
       (simp add: tiny_agent_def)
  have 3: "authority_step toy_crypto (fst (snd tiny_agent)) (fst (snd tiny_root))"
    by (rule authority_step.issue [of _ _ _ _ _ _ _ _ _ _ "fst tiny_root" _ "snd (snd tiny_root)"])
       (simp_all add: tiny_root_def tiny_agent_state new_authority_def)
  have run: "authority_run toy_crypto new_authority (fst (snd tiny_root))"
    using authority_run.refl 1 2 3 by (meson authority_run.step)
  obtain d where d: "map_of (au_delegations (fst (snd tiny_root))) ''d1'' = Some d" using tiny_root_state by blast
  from every_grant_is_anchored [OF run d] d show ?thesis by blast
qed

text \<open>
  A sub-delegation is issued only by the subject of an unexpired parent grant, within the
  parent's scope, for no longer than the parent lives, and any refusal leaves the engine as it was.
\<close>

theorem sub_delegation_attenuates:
  assumes "sub_delegate cr sk fresh issuer subject parent_id sc purpose ttl now au = (r, au', ev)"
  shows "case r of
      Inl e \<Rightarrow> au' = au \<and> ev = []
    | Inr d \<Rightarrow> (\<exists>p. get_delegation parent_id au = Some p \<and> dg_subject p = issuer \<and> now < dg_expires_at p
        \<and> dg_parent d = Some parent_id \<and> dg_scope d = sc \<and> scope_contains (dg_scope p) sc
        \<and> dg_expires_at d \<le> dg_expires_at p \<and> dg_expires_at d \<le> now + ttl
        \<and> au_delegations au' = AList.update fresh d (au_delegations au))"
proof (cases "child_delegation cr sk fresh issuer subject parent_id sc purpose ttl now au")
  case (Inl e)
  with assms have "(r, au', ev) = (Inl e, au, [])" by (simp add: sub_delegate_def)
  then show ?thesis by simp
next
  case (Inr d)
  with assms have r: "r = Inr d" "au' = fst (store_delegation d au)"
    by (auto simp: sub_delegate_def split: prod.splits)
  from Inr show ?thesis
  proof (rule child_delegation_Inr)
    fix p i
    assume p: "get_delegation parent_id au = Some p" "dg_subject p = issuer" "\<not> delegation_expired now p"
      "scope_contains (dg_scope p) sc" "dg_id d = fresh" "dg_parent d = Some parent_id" "dg_scope d = sc"
      "dg_expires_at d = now + min ttl (max 0 (dg_expires_at p - now))"
    then have "now < dg_expires_at p" "dg_expires_at d \<le> dg_expires_at p" "dg_expires_at d \<le> now + ttl"
      by (auto simp: delegation_expired_def)
    with p r show ?thesis by (simp add: store_delegation_def)
  qed
qed

lemma sub_delegation_attenuates_witness:
  "case fst (sub_delegate toy_crypto ''bot'' ''d2'' ''bot'' ''sub'' ''d1'' (pay_scope {''pay''} 50) ''p'' 900 10 demo_rooted) of
     Inl e \<Rightarrow> False | Inr d \<Rightarrow> dg_expires_at d \<le> 100"
proof -
  let ?s = "sub_delegate toy_crypto ''bot'' ''d2'' ''bot'' ''sub'' ''d1'' (pay_scope {''pay''} 50) ''p'' 900 10 demo_rooted"
  have "\<not> isl (fst ?s)"
    by (simp add: sub_delegate_def child_delegation_def get_delegation_def demo_rooted_def demo_d1_def
        delegation_expired_def get_principal_def demo_principals_def build_signed_delegation_def
        delegation_post_init_def store_delegation_def toy_crypto_def delegation_verifies_def
        scope_contains_def names_contained_def floor_contained_def pay_scope_def cap_contained_def cap_of_def WILDCARD_def)
  then obtain d where d: "fst ?s = Inr d" by (cases "fst ?s") auto
  have "?s = (fst ?s, fst (snd ?s), snd (snd ?s))" by simp
  from sub_delegation_attenuates [OF this] d show ?thesis
    by (auto simp: get_delegation_def demo_rooted_def demo_d1_def)
qed

end
