(* ===== verification/Conditions.thy ===== *)
theory Conditions
  imports Posture
begin

text \<open>
  \<open>gate/conditions.py\<close>: the predicate language of policy rules. A condition is a tree; evaluating
  one returns a truth value or the exception that escapes (\<open>TypeError\<close> and \<open>ValueError\<close> inside a
  comparison are caught and mean false). The record \<open>pyrt\<close> holds the parts of the Python runtime
  that are not modelled: \<open>re.search\<close> of a pattern that the policy supplies, the parsers behind
  \<open>float(text)\<close> and \<open>int(text)\<close>, \<open>dict(x)\<close> of anything but a mapping, the text of floats and
  containers, and the character classes of Unicode beyond ASCII.
\<close>

section \<open>Runtime\<close>

record pyrt =
  rt_search :: "string \<Rightarrow> bool \<Rightarrow> string \<Rightarrow> pyexn + nat option"
  rt_parse_float :: "string \<Rightarrow> pyfloat option"
  rt_parse_int :: "string \<Rightarrow> int option"
  rt_pairs :: "val \<Rightarrow> pyexn + args"
  rt_text :: "val \<Rightarrow> string"
  rt_unicode_digit :: "nat \<Rightarrow> bool"
  rt_unicode_alnum :: "nat \<Rightarrow> bool"

text \<open>\<open>str(x)\<close>.\<close>

fun py_str :: "pyrt \<Rightarrow> val \<Rightarrow> string" where
  "py_str rt VNone = ''None''"
| "py_str rt (VBool b) = (if b then ''True'' else ''False'')"
| "py_str rt (VInt n) = show_int n"
| "py_str rt (VStr s) = s"
| "py_str rt v = rt_text rt v"

text \<open>\<open>s[:n]\<close> on a UTF-8 string.\<close>

fun py_take :: "nat \<Rightarrow> string \<Rightarrow> string" where
  "py_take n [] = []"
| "py_take n (c # cs) =
     (if is_continuation c then c # py_take n cs
      else case n of 0 \<Rightarrow> [] | Suc m \<Rightarrow> c # py_take m cs)"

text \<open>\<open>float(n)\<close> of an integer overflows from \<open>2\<^sup>1\<^sup>0\<^sup>2\<^sup>4 - 2\<^sup>9\<^sup>7\<^sup>0\<close> on.\<close>

definition float_of_int :: "int \<Rightarrow> pyexn + pyfloat" where
  "float_of_int n =
     (if 2 ^ 1024 - 2 ^ 970 \<le> \<bar>n\<bar> then Inl (PyExn ''OverflowError'' ''int too large to convert to float'')
      else Inr (Fin (of_int n)))"

definition type_error :: "pyexn" where
  "type_error = PyExn ''TypeError'' []"

definition value_error :: "pyexn" where
  "value_error = PyExn ''ValueError'' []"

text \<open>\<open>float(x)\<close>.\<close>

fun py_float :: "pyrt \<Rightarrow> val \<Rightarrow> pyexn + pyfloat" where
  "py_float rt (VBool b) = Inr (Fin (if b then 1 else 0))"
| "py_float rt (VInt n) = float_of_int n"
| "py_float rt (VFloat x) = Inr x"
| "py_float rt (VStr s) = (case rt_parse_float rt s of None \<Rightarrow> Inl value_error | Some x \<Rightarrow> Inr x)"
| "py_float rt _ = Inl type_error"

text \<open>\<open>int(x)\<close>: truncates a float, parses a string, rejects the rest.\<close>

fun py_int :: "pyrt \<Rightarrow> val \<Rightarrow> pyexn + int" where
  "py_int rt (VInt n) = Inr n"
| "py_int rt (VBool b) = Inr (if b then 1 else 0)"
| "py_int rt (VFloat (Fin x)) = Inr (if 0 \<le> x then floor x else - floor (- x))"
| "py_int rt (VFloat NaN) = Inl value_error"
| "py_int rt (VFloat _) = Inl (PyExn ''OverflowError'' [])"
| "py_int rt (VStr s) = (case rt_parse_int rt s of None \<Rightarrow> Inl value_error | Some n \<Rightarrow> Inr n)"
| "py_int rt _ = Inl type_error"

text \<open>\<open>x in container\<close>; \<open>None\<close> where Python raises \<open>TypeError\<close>.\<close>

fun py_in :: "val \<Rightarrow> val \<Rightarrow> bool option" where
  "py_in x (VList ys) = Some (list_ex (\<lambda>y. py_eq x y) ys)"
| "py_in x (VStr t) = (case x of VStr s \<Rightarrow> Some (contains_sub s t) | _ \<Rightarrow> None)"
| "py_in x (VDict d) =
     (case x of VStr s \<Rightarrow> Some (s \<in> set (map fst d)) | VList _ \<Rightarrow> None | VDict _ \<Rightarrow> None | _ \<Rightarrow> Some False)"
| "py_in x _ = None"

section \<open>Conditions\<close>

datatype condition =
    AlwaysTrue
  | Comparison (co_field: string) (co_op: string) (co_value: val)
  | CAnd "condition list"
  | COr "condition list"
  | CNot condition

definition MAX_REGEX_INPUT :: nat where
  "MAX_REGEX_INPUT = 8192"

text \<open>\<open>_num\<close>: booleans are rejected.\<close>

fun num :: "pyrt \<Rightarrow> val \<Rightarrow> pyexn + pyfloat" where
  "num rt (VBool b) = Inl value_error"
| "num rt v = py_float rt v"

definition num_cmp :: "pyrt \<Rightarrow> (pyfloat \<Rightarrow> pyfloat \<Rightarrow> bool) \<Rightarrow> val \<Rightarrow> val \<Rightarrow> pyexn + bool" where
  "num_cmp rt cmp a v = bind_err (num rt a) (\<lambda>x. bind_err (num rt v) (\<lambda>y. Inr (cmp x y)))"

definition in_or_raise :: "bool option \<Rightarrow> pyexn + bool" where
  "in_or_raise r = (case r of None \<Rightarrow> Inl type_error | Some b \<Rightarrow> Inr b)"

definition compare_values :: "pyrt \<Rightarrow> string \<Rightarrow> val \<Rightarrow> val \<Rightarrow> pyexn + bool" where
  "compare_values rt op actual v =
     (if op = ''eq'' then Inr (py_eq actual v)
      else if op = ''ne'' then Inr (\<not> py_eq actual v)
      else if op = ''lt'' then num_cmp rt fl_lt actual v
      else if op = ''le'' then num_cmp rt fl_le actual v
      else if op = ''gt'' then num_cmp rt (\<lambda>x y. fl_lt y x) actual v
      else if op = ''ge'' then num_cmp rt (\<lambda>x y. fl_le y x) actual v
      else if op = ''in'' then in_or_raise (py_in actual v)
      else if op = ''not_in'' then bind_err (in_or_raise (py_in actual v)) (\<lambda>b. Inr (\<not> b))
      else if op = ''contains'' then in_or_raise (py_in v actual)
      else if op = ''startswith'' then Inr (starts_with (py_str rt v) (py_str rt actual))
      else if op = ''endswith'' then Inr (ends_with (py_str rt v) (py_str rt actual))
      else if op = ''regex'' then
        bind_err (rt_search rt (py_str rt v) False (py_take MAX_REGEX_INPUT (py_str rt actual)))
          (\<lambda>m. Inr (m \<noteq> None))
      else Inl (PyExn ''PolicyError'' (''unknown op: '' @ op)))"

definition caught :: "pyexn \<Rightarrow> bool" where
  "caught e \<longleftrightarrow> exn_name e \<in> {''TypeError'', ''ValueError''}"

definition eval_comparison :: "pyrt \<Rightarrow> string \<Rightarrow> string \<Rightarrow> val \<Rightarrow> args \<Rightarrow> pyexn + bool" where
  "eval_comparison rt fd op v args =
     (case resolve_path fd (VDict args) of
        None \<Rightarrow> Inr False
      | Some actual \<Rightarrow>
         if op = ''exists'' then Inr True
         else (case compare_values rt op actual v of
                 Inl e \<Rightarrow> if caught e then Inr False else Inl e
               | Inr b \<Rightarrow> Inr b))"

fun eval_cond :: "pyrt \<Rightarrow> args \<Rightarrow> condition \<Rightarrow> pyexn + bool"
  and eval_all :: "pyrt \<Rightarrow> args \<Rightarrow> condition list \<Rightarrow> pyexn + bool"
  and eval_any :: "pyrt \<Rightarrow> args \<Rightarrow> condition list \<Rightarrow> pyexn + bool" where
  "eval_cond rt a AlwaysTrue = Inr True"
| "eval_cond rt a (Comparison fd op v) = eval_comparison rt fd op v a"
| "eval_cond rt a (CAnd ps) = eval_all rt a ps"
| "eval_cond rt a (COr ps) = eval_any rt a ps"
| "eval_cond rt a (CNot c) = bind_err (eval_cond rt a c) (\<lambda>b. Inr (\<not> b))"
| "eval_all rt a [] = Inr True"
| "eval_all rt a (c # cs) = bind_err (eval_cond rt a c) (\<lambda>b. if b then eval_all rt a cs else Inr False)"
| "eval_any rt a [] = Inr False"
| "eval_any rt a (c # cs) = bind_err (eval_cond rt a c) (\<lambda>b. if b then Inr True else eval_any rt a cs)"

fun cond_to_dict :: "condition \<Rightarrow> val" where
  "cond_to_dict AlwaysTrue = VNone"
| "cond_to_dict (Comparison fd op v) = VDict [(''field'', VStr fd), (''op'', VStr op), (''value'', v)]"
| "cond_to_dict (CAnd ps) = VDict [(''all'', VList (map cond_to_dict ps))]"
| "cond_to_dict (COr ps) = VDict [(''any'', VList (map cond_to_dict ps))]"
| "cond_to_dict (CNot c) = VDict [(''not'', cond_to_dict c)]"

section \<open>Parsing\<close>

definition VALID_OPS :: "string list" where
  "VALID_OPS = [''eq'', ''ne'', ''lt'', ''le'', ''gt'', ''ge'', ''in'', ''not_in'', ''contains'', ''startswith'',
     ''endswith'', ''regex'', ''exists'']"

definition MAX_DEPTH :: nat where
  "MAX_DEPTH = 32"

text \<open>The elements a \<open>for\<close> loop draws from a value; \<open>None\<close> where it is not iterable.\<close>

fun iter_of :: "val \<Rightarrow> val list option" where
  "iter_of (VList xs) = Some xs"
| "iter_of (VStr s) = Some (map (\<lambda>c. VStr [c]) s)"
| "iter_of (VDict d) = Some (map (VStr \<circ> fst) d)"
| "iter_of _ = None"

fun map_err :: "('a \<Rightarrow> 'e + 'b) \<Rightarrow> 'a list \<Rightarrow> 'e + 'b list" where
  "map_err f [] = Inr []"
| "map_err f (x # xs) = bind_err (f x) (\<lambda>y. bind_err (map_err f xs) (\<lambda>ys. Inr (y # ys)))"

definition get_item :: "string \<Rightarrow> val \<Rightarrow> val" where
  "get_item k raw = (case raw of VDict d \<Rightarrow> (case map_of d k of None \<Rightarrow> VNone | Some v \<Rightarrow> v) | _ \<Rightarrow> VNone)"

definition has_item :: "string \<Rightarrow> val \<Rightarrow> bool" where
  "has_item k raw = (case raw of VDict d \<Rightarrow> map_of d k \<noteq> None | _ \<Rightarrow> False)"

definition parse_comparison :: "pyrt \<Rightarrow> val \<Rightarrow> revoco_error + condition" where
  "parse_comparison rt raw =
     (case get_item ''op'' raw of
        VStr op \<Rightarrow> raise_if (op \<notin> set VALID_OPS) PolicyError
                    (Inr (Comparison (py_str rt (get_item ''field'' raw)) op (get_item ''value'' raw)))
      | VList _ \<Rightarrow> Inl (Raised type_error)
      | VDict _ \<Rightarrow> Inl (Raised type_error)
      | _ \<Rightarrow> Inl PolicyError)"

text \<open>The number counts down the levels that are left; a string is iterated by characters, which
  are then not mappings.\<close>

fun parse_levels :: "pyrt \<Rightarrow> nat \<Rightarrow> val \<Rightarrow> revoco_error + condition" where
  "parse_levels rt 0 raw = Inl PolicyError"
| "parse_levels rt (Suc n) raw =
     (case raw of
        VNone \<Rightarrow> Inr AlwaysTrue
      | VDict d \<Rightarrow>
         (if has_item ''all'' raw then
            (case iter_of (get_item ''all'' raw) of
               None \<Rightarrow> Inl (Raised type_error)
             | Some ps \<Rightarrow> bind_err (map_err (parse_levels rt n) ps) (\<lambda>cs. Inr (CAnd cs)))
          else if has_item ''any'' raw then
            (case iter_of (get_item ''any'' raw) of
               None \<Rightarrow> Inl (Raised type_error)
             | Some ps \<Rightarrow> bind_err (map_err (parse_levels rt n) ps) (\<lambda>cs. Inr (COr cs)))
          else if has_item ''not'' raw then
            bind_err (parse_levels rt n (get_item ''not'' raw)) (\<lambda>c. Inr (CNot c))
          else if has_item ''field'' raw \<and> has_item ''op'' raw then parse_comparison rt raw
          else Inl PolicyError)
      | _ \<Rightarrow> Inl PolicyError)"

definition parse_condition :: "pyrt \<Rightarrow> val \<Rightarrow> revoco_error + condition" where
  "parse_condition rt raw = parse_levels rt (Suc MAX_DEPTH) raw"

section \<open>Facts\<close>

fun cond_depth :: "condition \<Rightarrow> nat" where
  "cond_depth AlwaysTrue = 0"
| "cond_depth (Comparison fd op v) = 0"
| "cond_depth (CAnd ps) = fold max (map (\<lambda>p. Suc (cond_depth p)) ps) 0"
| "cond_depth (COr ps) = fold max (map (\<lambda>p. Suc (cond_depth p)) ps) 0"
| "cond_depth (CNot c) = Suc (cond_depth c)"

fun cond_ops_valid :: "condition \<Rightarrow> bool" where
  "cond_ops_valid AlwaysTrue = True"
| "cond_ops_valid (Comparison fd op v) = (op \<in> set VALID_OPS)"
| "cond_ops_valid (CAnd ps) = (\<forall>p \<in> set ps. cond_ops_valid p)"
| "cond_ops_valid (COr ps) = (\<forall>p \<in> set ps. cond_ops_valid p)"
| "cond_ops_valid (CNot c) = cond_ops_valid c"

lemma fold_max_ge: "m \<le> fold max ns (m :: 'a::linorder)" "n \<in> set ns \<Longrightarrow> n \<le> fold max ns m"
proof (induction ns arbitrary: m)
  case (Cons k ns)
  { case 1 show ?case using Cons.IH(1) [of "max k m"] by simp }
  { case 2 then show ?case using Cons.IH(1) [of "max k m"] Cons.IH(2) [of "max k m"] by auto }
qed simp_all

lemma map_err_map:
  "(\<And>x. x \<in> set xs \<Longrightarrow> f (g x) = Inr x) \<Longrightarrow> map_err f (map g xs) = Inr xs"
  by (induction xs) auto

lemma item_simps [simp]:
  "has_item k (VDict d) = (map_of d k \<noteq> None)"
  "map_of d k = Some v \<Longrightarrow> get_item k (VDict d) = v"
  by (simp_all add: has_item_def get_item_def)

text \<open>A condition is read back from its own dictionary.\<close>

lemma parse_levels_dict:
  "cond_ops_valid c \<Longrightarrow> cond_depth c < n \<Longrightarrow> parse_levels rt n (cond_to_dict c) = Inr c"
proof (induction c arbitrary: n)
  case (CAnd ps)
  then obtain m where n: "n = Suc m" by (cases n) auto
  have "map_err (parse_levels rt m) (map cond_to_dict ps) = Inr ps"
  proof (rule map_err_map)
    fix p assume p: "p \<in> set ps"
    have "Suc (cond_depth p) \<le> fold max (map (\<lambda>p. Suc (cond_depth p)) ps) 0" using p by (intro fold_max_ge(2)) simp
    then show "parse_levels rt m (cond_to_dict p) = Inr p"
      using CAnd.prems n p by (intro CAnd.IH) auto
  qed
  then show ?case by (simp add: n)
next
  case (COr ps)
  then obtain m where n: "n = Suc m" by (cases n) auto
  have "map_err (parse_levels rt m) (map cond_to_dict ps) = Inr ps"
  proof (rule map_err_map)
    fix p assume p: "p \<in> set ps"
    have "Suc (cond_depth p) \<le> fold max (map (\<lambda>p. Suc (cond_depth p)) ps) 0" using p by (intro fold_max_ge(2)) simp
    then show "parse_levels rt m (cond_to_dict p) = Inr p"
      using COr.prems n p by (intro COr.IH) auto
  qed
  then show ?case by (simp add: n)
next
  case AlwaysTrue
  then show ?case by (cases n) auto
next
  case (Comparison fd op v)
  then show ?case by (cases n) (auto simp: parse_comparison_def)
next
  case (CNot c)
  then show ?case by (cases n) auto
qed

lemma eval_cond_Not_Not:
  "eval_cond rt a (CNot (CNot c)) = eval_cond rt a c"
  by (cases "eval_cond rt a c") simp_all

lemma eval_missing:
  "resolve_path fd (VDict a) = None \<Longrightarrow> eval_cond rt a (Comparison fd op v) = Inr False"
  by (simp add: eval_comparison_def)

section \<open>A runtime for worked examples\<close>

text \<open>No text parses as a number, nothing beyond ASCII is a word.\<close>

definition demo_rt :: pyrt where
  "demo_rt = \<lparr>rt_search = \<lambda>_ _ _. Inr None, rt_parse_float = \<lambda>_. None, rt_parse_int = \<lambda>_. None,
     rt_pairs = \<lambda>_. Inl type_error, rt_text = \<lambda>_. ''?'', rt_unicode_digit = \<lambda>_. False,
     rt_unicode_alnum = \<lambda>_. False\<rparr>"

end
