(* ===== verification/Policy.thy ===== *)
theory Policy
  imports Conditions CanonJson
begin

text \<open>
  \<open>gate/decision.py\<close> and \<open>gate/policy.py\<close>: effects, decisions, rules, budgets and policies, their
  recorded form, and the parser that reads a policy from parsed YAML or JSON.
\<close>

section \<open>Decisions\<close>

datatype effect = ALLOW | DENY | REQUIRE_APPROVAL | REDACT

fun effect_value :: "effect \<Rightarrow> string" where
  "effect_value ALLOW = ''allow''"
| "effect_value DENY = ''deny''"
| "effect_value REQUIRE_APPROVAL = ''require_approval''"
| "effect_value REDACT = ''redact''"

definition effect_of_value :: "string \<Rightarrow> effect option" where
  "effect_of_value s = find (\<lambda>e. effect_value e = s) [ALLOW, DENY, REQUIRE_APPROVAL, REDACT]"

lemma effect_roundtrip [simp]: "effect_of_value (effect_value e) = Some e"
  by (cases e) (simp_all add: effect_of_value_def)

record decision =
  de_effect :: effect
  de_rule_id :: string
  de_reason :: string
  de_redact_fields :: "string list"
  de_obligations :: args

definition allowed :: "decision \<Rightarrow> bool" where
  "allowed d \<longleftrightarrow> de_effect d = ALLOW"

definition blocks :: "decision \<Rightarrow> bool" where
  "blocks d \<longleftrightarrow> de_effect d \<in> {DENY, REQUIRE_APPROVAL}"

definition p_strs :: "string list \<Rightarrow> val" where
  "p_strs xs = VList (map VStr xs)"

definition decision_to_dict :: "decision \<Rightarrow> val" where
  "decision_to_dict d = VDict
    [(''effect'', VStr (effect_value (de_effect d))), (''rule_id'', VStr (de_rule_id d)),
     (''reason'', VStr (de_reason d)), (''redact_fields'', p_strs (de_redact_fields d)),
     (''obligations'', VDict (de_obligations d))]"

section \<open>Rules\<close>

record budget_rule =
  br_key :: string
  br_field :: string
  br_limit :: pyfloat

record rule =
  ru_id :: string
  ru_effect :: effect
  ru_tools :: "string list"
  ru_agents :: "string list"
  ru_require_roles :: "string list"
  ru_actions :: "string list"
  ru_reversibility :: "reversibility list"
  ru_min_reversibility :: "reversibility option"
  ru_condition :: condition
  ru_redact_fields :: "string list"
  ru_budget :: "budget_rule option"
  ru_min_threat_score :: "int option"
  ru_max_risk :: "int option"
  ru_min_risk :: "int option"
  ru_reason :: string
  ru_obligations :: args

fun v_opt_int :: "int option \<Rightarrow> val" where
  "v_opt_int None = VNone"
| "v_opt_int (Some n) = VInt n"

definition budget_to_dict :: "budget_rule \<Rightarrow> val" where
  "budget_to_dict b = VDict [(''key'', VStr (br_key b)), (''field'', VStr (br_field b)), (''limit'', VFloat (br_limit b))]"

definition rule_to_dict :: "rule \<Rightarrow> val" where
  "rule_to_dict r = VDict
    [(''id'', VStr (ru_id r)), (''effect'', VStr (effect_value (ru_effect r))),
     (''tools'', p_strs (ru_tools r)), (''agents'', p_strs (ru_agents r)),
     (''actions'', p_strs (ru_actions r)), (''require_roles'', p_strs (ru_require_roles r)),
     (''reversibility'', p_strs (map posture_value (ru_reversibility r))),
     (''min_reversibility'', (case ru_min_reversibility r of None \<Rightarrow> VNone | Some k \<Rightarrow> VStr (posture_value k))),
     (''when'', cond_to_dict (ru_condition r)), (''redact_fields'', p_strs (ru_redact_fields r)),
     (''budget'', (case ru_budget r of None \<Rightarrow> VNone | Some b \<Rightarrow> budget_to_dict b)),
     (''min_threat_score'', v_opt_int (ru_min_threat_score r)), (''max_risk'', v_opt_int (ru_max_risk r)),
     (''min_risk'', v_opt_int (ru_min_risk r)), (''reason'', VStr (ru_reason r)),
     (''obligations'', VDict (ru_obligations r))]"

record policy =
  po_rules :: "rule list"
  po_default :: effect
  po_version :: string
  po_name :: string

definition policy_digest :: "('sk, 'pk) crypto \<Rightarrow> policy \<Rightarrow> string" where
  "policy_digest cr p = digest_of cr (VDict
    [(''name'', VStr (po_name p)), (''version'', VStr (po_version p)),
     (''default_effect'', VStr (effect_value (po_default p))),
     (''rules'', VList (map rule_to_dict (po_rules p)))])"

definition policy_to_dict :: "('sk, 'pk) crypto \<Rightarrow> policy \<Rightarrow> val" where
  "policy_to_dict cr p = VDict
    [(''name'', VStr (po_name p)), (''version'', VStr (po_version p)),
     (''default_effect'', VStr (effect_value (po_default p))), (''digest'', VStr (policy_digest cr p)),
     (''rules'', VList (map rule_to_dict (po_rules p)))]"

section \<open>Parsing\<close>

text \<open>\<open>raw.get(name)\<close> on a mapping; calling it on anything else is an \<open>AttributeError\<close>, which the
  callers below rule out or raise.\<close>

fun as_tuple :: "val \<Rightarrow> revoco_error + string list" where
  "as_tuple VNone = Inr []"
| "as_tuple (VStr s) = Inr [s]"
| "as_tuple (VList xs) =
     (if list_all is_str xs then Inr (map (\<lambda>v. case v of VStr s \<Rightarrow> s | _ \<Rightarrow> []) xs) else Inl PolicyError)"
| "as_tuple _ = Inl PolicyError"

definition or_star :: "string list \<Rightarrow> string list" where
  "or_star xs = (if xs = [] then [''*''] else xs)"

definition get_or :: "val \<Rightarrow> string \<Rightarrow> val \<Rightarrow> val" where
  "get_or dflt k raw = (if has_item k raw then get_item k raw else dflt)"

text \<open>\<open>x in {"allow", ...}\<close> followed by \<open>Effect(x)\<close>: an unhashable value raises \<open>TypeError\<close>.\<close>

fun hashable_str :: "val \<Rightarrow> revoco_error + string option" where
  "hashable_str (VStr s) = Inr (Some s)"
| "hashable_str (VList _) = Inl (Raised type_error)"
| "hashable_str (VDict _) = Inl (Raised type_error)"
| "hashable_str _ = Inr None"

definition parse_effect :: "val \<Rightarrow> revoco_error + effect" where
  "parse_effect v = bind_err (hashable_str v) (\<lambda>s.
     case s of None \<Rightarrow> Inl PolicyError
     | Some t \<Rightarrow> (case effect_of_value t of None \<Rightarrow> Inl PolicyError | Some e \<Rightarrow> Inr e))"

definition parse_posture :: "string \<Rightarrow> revoco_error + reversibility" where
  "parse_posture s = (case posture_of_value s of None \<Rightarrow> Inl PolicyError | Some k \<Rightarrow> Inr k)"

definition parse_floor :: "reversibility list \<Rightarrow> val \<Rightarrow> revoco_error + reversibility option" where
  "parse_floor revs v =
     (if v = VNone then Inr None
      else bind_err (hashable_str v) (\<lambda>s.
        case s of None \<Rightarrow> Inl PolicyError
        | Some t \<Rightarrow> bind_err (parse_posture t) (\<lambda>k. raise_if (revs \<noteq> []) PolicyError (Inr (Some k)))))"

text \<open>\<open>Budget(key=str(b["key"]), ...)\<close>, where \<open>KeyError\<close>, \<open>TypeError\<close> and \<open>ValueError\<close> become
  \<open>PolicyError\<close> and an overflow escapes.\<close>

definition parse_budget :: "pyrt \<Rightarrow> val \<Rightarrow> revoco_error + budget_rule option" where
  "parse_budget rt v =
     (if v = VNone then Inr None
      else if \<not> (has_item ''key'' v \<and> has_item ''field'' v \<and> has_item ''limit'' v) then Inl PolicyError
      else (case py_float rt (get_item ''limit'' v) of
              Inl e \<Rightarrow> Inl (if caught e then PolicyError else Raised e)
            | Inr x \<Rightarrow> Inr (Some \<lparr>br_key = py_str rt (get_item ''key'' v), br_field = py_str rt (get_item ''field'' v),
                                br_limit = x\<rparr>)))"

definition opt_int :: "pyrt \<Rightarrow> val \<Rightarrow> revoco_error + int option" where
  "opt_int rt v =
     (if v = VNone then Inr None
      else (case py_int rt v of Inl e \<Rightarrow> Inl (if caught e then PolicyError else Raised e) | Inr n \<Rightarrow> Inr (Some n)))"

text \<open>\<open>dict(x)\<close>.\<close>

definition py_dict :: "pyrt \<Rightarrow> val \<Rightarrow> revoco_error + args" where
  "py_dict rt v = (case v of VDict d \<Rightarrow> Inr d
     | _ \<Rightarrow> (case rt_pairs rt v of Inl e \<Rightarrow> Inl (Raised e) | Inr d \<Rightarrow> Inr d))"

definition parse_rule :: "pyrt \<Rightarrow> val \<Rightarrow> nat \<Rightarrow> revoco_error + rule" where
  "parse_rule rt raw index =
     raise_if (\<not> is_dict raw) (Raised (PyExn ''AttributeError'' []))
     (let rid = (if truthy (get_item ''id'' raw) then py_str rt (get_item ''id'' raw)
                 else ''rule-'' @ show_nat index) in
      bind_err (parse_effect (get_item ''effect'' raw)) (\<lambda>eff.
      bind_err (as_tuple (get_or (VStr ''*'') ''tools'' raw)) (\<lambda>tools.
      bind_err (as_tuple (get_or (VStr ''*'') ''agents'' raw)) (\<lambda>agents.
      bind_err (as_tuple (get_or (VStr ''*'') ''actions'' raw)) (\<lambda>actions.
      bind_err (as_tuple (get_item ''require_roles'' raw)) (\<lambda>roles.
      bind_err (as_tuple (get_item ''redact_fields'' raw)) (\<lambda>redact.
      bind_err (as_tuple (get_item ''reversibility'' raw)) (\<lambda>rev_raw.
      bind_err (map_err parse_posture rev_raw) (\<lambda>revs.
      bind_err (parse_floor revs (get_item ''min_reversibility'' raw)) (\<lambda>min_rev.
      bind_err (if get_item ''when'' raw = VNone then Inr AlwaysTrue else parse_condition rt (get_item ''when'' raw)) (\<lambda>cond.
      bind_err (parse_budget rt (get_item ''budget'' raw)) (\<lambda>bud.
      raise_if (eff = REDACT \<and> redact = []) PolicyError
     (bind_err (opt_int rt (get_item ''min_threat_score'' raw)) (\<lambda>mts.
      bind_err (opt_int rt (get_item ''max_risk'' raw)) (\<lambda>maxr.
      bind_err (opt_int rt (get_item ''min_risk'' raw)) (\<lambda>minr.
      bind_err (py_dict rt (get_or (VDict []) ''obligations'' raw)) (\<lambda>obl.
      Inr \<lparr>ru_id = rid, ru_effect = eff, ru_tools = or_star tools, ru_agents = or_star agents,
           ru_require_roles = roles, ru_actions = or_star actions, ru_reversibility = revs,
           ru_min_reversibility = min_rev, ru_condition = cond, ru_redact_fields = redact, ru_budget = bud,
           ru_min_threat_score = mts, ru_max_risk = maxr, ru_min_risk = minr,
           ru_reason = py_str rt (get_or (VStr []) ''reason'' raw), ru_obligations = obl\<rparr>)))))))))))))))))"

fun parse_rules :: "pyrt \<Rightarrow> nat \<Rightarrow> val list \<Rightarrow> revoco_error + rule list" where
  "parse_rules rt i [] = Inr []"
| "parse_rules rt i (r # rs) =
     bind_err (parse_rule rt r i) (\<lambda>x. bind_err (parse_rules rt (Suc i) rs) (\<lambda>xs. Inr (x # xs)))"

definition load_policy :: "pyrt \<Rightarrow> val \<Rightarrow> revoco_error + policy" where
  "load_policy rt data =
     raise_if (\<not> is_dict data) PolicyError
     (bind_err (parse_effect (get_or (VStr ''deny'') ''default_effect'' data)) (\<lambda>dflt.
      (case get_or (VList []) ''rules'' data of
         VList raws \<Rightarrow>
           bind_err (parse_rules rt 0 raws) (\<lambda>rules.
           raise_if (\<not> distinct (map ru_id rules)) PolicyError
           (Inr \<lparr>po_rules = rules, po_default = dflt,
                po_version = py_str rt (get_or (VStr ''0'') ''version'' data),
                po_name = py_str rt (get_or (VStr ''unnamed-policy'') ''name'' data)\<rparr>))
       | _ \<Rightarrow> Inl PolicyError)))"

section \<open>The starter policy\<close>

definition STARTER_POLICY :: val where
  "STARTER_POLICY = VDict
    [(''name'', VStr ''ap-reversibility-first''), (''version'', VStr ''1''), (''default_effect'', VStr ''deny''),
     (''rules'', VList
      [VDict [(''id'', VStr ''reads-always-fine''), (''effect'', VStr ''allow''), (''actions'', VList [VStr ''read'']),
         (''reason'', VStr ''Reads change nothing and carry no rollback obligation.'')],
       VDict [(''id'', VStr ''hold-injection-suspects''), (''effect'', VStr ''require_approval''),
         (''min_threat_score'', VInt 4),
         (''reason'', VStr ''Arguments carry markers of injected instructions; a human decides.'')],
       VDict [(''id'', VStr ''no-undo-needs-a-human''), (''effect'', VStr ''require_approval''),
         (''reversibility'', VList [VStr ''irreversible'', VStr ''unknown'']),
         (''reason'', VStr (''No rollback path exists for this action, so a person must own the '' @
            ''decision rather than inherit it from an agent.''))],
       VDict [(''id'', VStr ''bounded-reversible-payments''), (''effect'', VStr ''allow''),
         (''tools'', VList [VStr ''invoices.pay'', VStr ''invoices.approve'']),
         (''min_reversibility'', VStr ''compensable''),
         (''budget'', VDict [(''key'', VStr ''payments_total''), (''field'', VStr ''amount''), (''limit'', VInt 25000)]),
         (''reason'', VStr ''Undoable payment within the session ceiling.'')],
       VDict [(''id'', VStr ''vendor-master-changes-are-reviewed''), (''effect'', VStr ''require_approval''),
         (''tools'', VList [VStr ''vendors.*'']),
         (''reason'', VStr (''Vendor-master edits are the standard payment-fraud vector; they are '' @
            ''reversible here, but they still get a second pair of eyes.''))]])]"

definition starter_policy :: "pyrt \<Rightarrow> revoco_error + policy" where
  "starter_policy rt = load_policy rt STARTER_POLICY"

section \<open>A policy survives its own serialization\<close>

text \<open>What every parsed policy satisfies.\<close>

definition wf_rule :: "rule \<Rightarrow> bool" where
  "wf_rule r \<longleftrightarrow> ru_id r \<noteq> [] \<and> ru_tools r \<noteq> [] \<and> ru_agents r \<noteq> [] \<and> ru_actions r \<noteq> []
     \<and> (ru_min_reversibility r \<noteq> None \<longrightarrow> ru_reversibility r = [])
     \<and> (ru_effect r = REDACT \<longrightarrow> ru_redact_fields r \<noteq> [])
     \<and> cond_ops_valid (ru_condition r) \<and> cond_depth (ru_condition r) \<le> MAX_DEPTH"

definition wf_policy :: "policy \<Rightarrow> bool" where
  "wf_policy p \<longleftrightarrow> (\<forall>r \<in> set (po_rules p). wf_rule r) \<and> distinct (map ru_id (po_rules p))"

lemma as_tuple_strs [simp]: "as_tuple (p_strs xs) = Inr xs"
  by (simp add: p_strs_def list_all_iff comp_def)

lemma parse_effect_value [simp]: "parse_effect (VStr (effect_value e)) = Inr e"
  by (simp add: parse_effect_def)

lemma parse_posture_value [simp]: "parse_posture (posture_value k) = Inr k"
  by (simp add: parse_posture_def)

lemma map_err_postures [simp]: "map_err parse_posture (map posture_value ks) = Inr ks"
  by (rule map_err_map) simp

lemma opt_int_value [simp]: "opt_int rt (v_opt_int n) = Inr n"
  by (cases n) (simp_all add: opt_int_def)

lemma parse_budget_dict [simp]:
  "parse_budget rt (case b of None \<Rightarrow> VNone | Some b \<Rightarrow> budget_to_dict b) = Inr b"
  by (cases b) (simp_all add: parse_budget_def budget_to_dict_def)

lemma parse_floor_value:
  "(k \<noteq> None \<longrightarrow> revs = []) \<Longrightarrow>
   parse_floor revs (case k of None \<Rightarrow> VNone | Some x \<Rightarrow> VStr (posture_value x)) = Inr k"
  by (cases k) (simp_all add: parse_floor_def)

lemma or_star_id [simp]: "xs \<noteq> [] \<Longrightarrow> or_star xs = xs"
  by (simp add: or_star_def)

lemma cond_to_dict_None [simp]: "cond_to_dict c = VNone \<longleftrightarrow> c = AlwaysTrue"
  by (cases c) auto

lemma parse_condition_dict:
  "cond_ops_valid c \<Longrightarrow> cond_depth c \<le> MAX_DEPTH \<Longrightarrow> cond_to_dict c \<noteq> VNone \<Longrightarrow>
   parse_condition rt (cond_to_dict c) = Inr c"
  using parse_levels_dict [of c "Suc MAX_DEPTH" rt] by (simp add: parse_condition_def)

lemma parse_rule_dict: "wf_rule r \<Longrightarrow> parse_rule rt (rule_to_dict r) i = Inr r"
  by (cases r)
     (simp add: wf_rule_def parse_rule_def rule_to_dict_def get_or_def parse_condition_dict parse_floor_value
       py_dict_def)

lemma parse_rules_dict: "\<forall>r \<in> set rs. wf_rule r \<Longrightarrow> parse_rules rt i (map rule_to_dict rs) = Inr rs"
  by (induction rs arbitrary: i) (simp_all add: parse_rule_dict)

end
