(* ===== verification/Session.thy ===== *)
theory Session
  imports PyValue
begin

text \<open>
  \<open>gate/session.py\<close>: running totals per session and budget key. The protocol \<open>SessionStore\<close> that
  the policy engine relies on is the locale \<open>session_store\<close>; the in-process store interprets it.
  Amounts are Python floats, without rounding.
\<close>

section \<open>The in-process store\<close>

type_synonym session_totals = "(string \<times> string, pyfloat) dict"

definition get_total :: "string \<Rightarrow> string \<Rightarrow> session_totals \<Rightarrow> pyfloat" where
  "get_total sid key st = (case map_of st (sid, key) of None \<Rightarrow> Fin 0 | Some x \<Rightarrow> x)"

definition over_limit :: "string \<Rightarrow> string \<Rightarrow> pyfloat \<Rightarrow> pyfloat \<Rightarrow> session_totals \<Rightarrow> bool" where
  "over_limit sid key add limit st = fl_lt limit (fl_add (get_total sid key st) add)"

definition commit_total :: "string \<Rightarrow> string \<Rightarrow> pyfloat \<Rightarrow> session_totals \<Rightarrow> session_totals" where
  "commit_total sid key add st = AList.update (sid, key) (fl_add (get_total sid key st) add) st"

definition release_total :: "string \<Rightarrow> string \<Rightarrow> pyfloat \<Rightarrow> session_totals \<Rightarrow> session_totals" where
  "release_total sid key amount st =
     AList.update (sid, key) (py_max (Fin 0) (fl_sub (get_total sid key st) amount)) st"

definition totals_for :: "string \<Rightarrow> session_totals \<Rightarrow> (string, pyfloat) dict" where
  "totals_for sid st = map (\<lambda>(k, v). (snd k, v)) (filter (\<lambda>(k, v). fst k = sid) st)"

section \<open>The protocol\<close>

text \<open>
  What a client of a store relies on: a commit adds to one total, a release subtracts from it but
  not below zero, no other total moves, and the comparison is with the total that is there.
\<close>

locale session_store =
  fixes total :: "string \<Rightarrow> string \<Rightarrow> 's \<Rightarrow> pyfloat"
    and exceeds :: "string \<Rightarrow> string \<Rightarrow> pyfloat \<Rightarrow> pyfloat \<Rightarrow> 's \<Rightarrow> bool"
    and add :: "string \<Rightarrow> string \<Rightarrow> pyfloat \<Rightarrow> 's \<Rightarrow> 's"
    and give_back :: "string \<Rightarrow> string \<Rightarrow> pyfloat \<Rightarrow> 's \<Rightarrow> 's"
  assumes total_add: "total s' k' (add s k x st) = (if s' = s \<and> k' = k then fl_add (total s k st) x else total s' k' st)"
    and total_give_back: "total s' k' (give_back s k x st) =
          (if s' = s \<and> k' = k then py_max (Fin 0) (fl_sub (total s k st) x) else total s' k' st)"
    and exceeds_iff: "exceeds s k x bound st = fl_lt bound (fl_add (total s k st) x)"
begin

text \<open>Spending in the protocol: check, and add when the limit allows it.\<close>

definition spend :: "string \<Rightarrow> string \<Rightarrow> pyfloat \<Rightarrow> pyfloat \<Rightarrow> 's \<Rightarrow> bool \<times> 's" where
  "spend s k bound x st = (if exceeds s k x bound st then (False, st) else (True, add s k x st))"

lemma spend_bounded:
  assumes "\<not> fl_lt bound (total s k st)"
  shows "\<not> fl_lt bound (total s k (snd (spend s k bound x st)))"
  using assms by (simp add: spend_def exceeds_iff total_add)

lemma fold_spend_bounded:
  "\<not> fl_lt bound (total s k st) \<Longrightarrow> \<not> fl_lt bound (total s k (fold (\<lambda>x st. snd (spend s k bound x st)) xs st))"
proof (induction xs arbitrary: st)
  case Nil
  then show ?case by simp
next
  case (Cons x xs)
  from Cons.IH [OF spend_bounded [OF Cons.prems]] show ?case by simp
qed

lemma other_session: "s' \<noteq> s \<Longrightarrow> total s' k' (snd (spend s k bound x st)) = total s' k' st"
  by (simp add: spend_def total_add)

lemma give_back_nonneg: "\<not> fl_lt (total s k (give_back s k x st)) (Fin 0)"
  by (cases "fl_sub (total s k st) x") (auto simp: total_give_back py_max_def)

text \<open>A finite spend that is given back leaves the total where it was, when that was not negative.\<close>

lemma give_back_add:
  assumes "total s k st = Fin t" "0 \<le> t"
  shows "total s k (give_back s k (Fin x) (add s k (Fin x) st)) = Fin t"
  using assms by (simp add: total_give_back total_add fl_sub_def py_max_def)

end

lemma get_total_update:
  "get_total s' k' (AList.update (s, k) v st) = (if s' = s \<and> k' = k then v else get_total s' k' st)"
  by (simp add: get_total_def map_of_update)

interpretation in_memory: session_store get_total over_limit commit_total release_total
  by unfold_locales (auto simp: over_limit_def commit_total_def release_total_def get_total_update)

text \<open>A NaN that is committed once lets every later amount through: nothing compares above a limit.\<close>

lemma nan_total_never_exceeds:
  "get_total s k st = NaN \<Longrightarrow> \<not> over_limit s k x bound st \<and> get_total s k (commit_total s k x st) = NaN"
  by (simp add: over_limit_def in_memory.total_add)

end
