(* ===== verification/Regex.thy ===== *)
theory Regex
  imports Conditions Glob
begin

text \<open>
  The part of the standard library's \<open>re\<close> that the fixed threat patterns use, over code points:
  characters and classes, sequence, alternation, bounded and unbounded repetition, \<open>\b\<close> and \<open>$\<close>,
  with and without \<open>re.I\<close>. Only whether and where a search finds something is used, so laziness
  and groups do not matter. A position is the code point before it and the text from it on.
\<close>

datatype citem = ILit nat | IRange nat nat | ISpace | IDigit

datatype rx =
    RSet bool "citem list"
  | REmpty
  | RSeq rx rx
  | RAlt rx rx
  | RRep nat "nat option" rx
  | RWordBoundary
  | RDollar

type_synonym pos = "nat option \<times> nat list"

definition is_space :: "nat \<Rightarrow> bool" where
  "is_space c \<longleftrightarrow> (9 \<le> c \<and> c \<le> 13) \<or> (28 \<le> c \<and> c \<le> 32) \<or> c = 0x85 \<or> c = 0xA0 \<or> c = 0x1680
     \<or> (0x2000 \<le> c \<and> c \<le> 0x200A) \<or> c = 0x2028 \<or> c = 0x2029 \<or> c = 0x202F \<or> c = 0x205F \<or> c = 0x3000"

definition is_digit :: "pyrt \<Rightarrow> nat \<Rightarrow> bool" where
  "is_digit rt c \<longleftrightarrow> (48 \<le> c \<and> c \<le> 57) \<or> (128 \<le> c \<and> rt_unicode_digit rt c)"

definition ascii_alnum :: "nat \<Rightarrow> bool" where
  "ascii_alnum c \<longleftrightarrow> (48 \<le> c \<and> c \<le> 57) \<or> (65 \<le> c \<and> c \<le> 90) \<or> (97 \<le> c \<and> c \<le> 122)"

definition is_word :: "pyrt \<Rightarrow> nat \<Rightarrow> bool" where
  "is_word rt c \<longleftrightarrow> ascii_alnum c \<or> c = 95 \<or> (128 \<le> c \<and> rt_unicode_alnum rt c)"

text \<open>The case folding that \<open>re.I\<close> applies to an ASCII pattern: four letters beyond ASCII fold
  onto \<open>i\<close>, \<open>s\<close> and \<open>k\<close>.\<close>

definition fold_case :: "nat \<Rightarrow> nat" where
  "fold_case c =
     (if 65 \<le> c \<and> c \<le> 90 then c + 32
      else if c = 0x130 \<or> c = 0x131 then 105
      else if c = 0x17F then 115
      else if c = 0x212A then 107
      else c)"

fun in_item :: "pyrt \<Rightarrow> bool \<Rightarrow> nat \<Rightarrow> citem \<Rightarrow> bool" where
  "in_item rt ci c (ILit d) = (if ci then fold_case c = fold_case d else c = d)"
| "in_item rt ci c (IRange a b) =
     ((a \<le> c \<and> c \<le> b)
      \<or> (ci \<and> ((a \<le> fold_case c \<and> fold_case c \<le> b)
             \<or> (97 \<le> fold_case c \<and> fold_case c \<le> 122 \<and> a \<le> fold_case c - 32 \<and> fold_case c - 32 \<le> b))))"
| "in_item rt ci c ISpace = is_space c"
| "in_item rt ci c IDigit = is_digit rt c"

definition at_boundary :: "pyrt \<Rightarrow> pos \<Rightarrow> bool" where
  "at_boundary rt p =
     ((case fst p of None \<Rightarrow> False | Some c \<Rightarrow> is_word rt c) \<noteq>
      (case snd p of [] \<Rightarrow> False | c # cs \<Rightarrow> is_word rt c))"

fun rep_min :: "nat \<Rightarrow> (pos \<Rightarrow> pos list) \<Rightarrow> pos \<Rightarrow> pos list" where
  "rep_min 0 f p = [p]"
| "rep_min (Suc n) f p = concat (map (rep_min n f) (f p))"

fun rep_more :: "nat \<Rightarrow> (pos \<Rightarrow> pos list) \<Rightarrow> pos \<Rightarrow> pos list" where
  "rep_more 0 f p = [p]"
| "rep_more (Suc n) f p =
     p # concat (map (rep_more n f) (filter (\<lambda>q. length (snd q) < length (snd p)) (f p)))"

text \<open>The positions a match from a position can end in. An unbounded repetition consumes at
  least one code point each time round, so the length of the text bounds it.\<close>

fun ends :: "pyrt \<Rightarrow> bool \<Rightarrow> rx \<Rightarrow> pos \<Rightarrow> pos list" where
  "ends rt ci (RSet neg items) p =
     (case snd p of [] \<Rightarrow> []
      | c # cs \<Rightarrow> if list_ex (in_item rt ci c) items \<noteq> neg then [(Some c, cs)] else [])"
| "ends rt ci REmpty p = [p]"
| "ends rt ci (RSeq r s) p = concat (map (ends rt ci s) (ends rt ci r p))"
| "ends rt ci (RAlt r s) p = ends rt ci r p @ ends rt ci s p"
| "ends rt ci (RRep lo hi r) p =
     concat (map (\<lambda>q. rep_more (case hi of None \<Rightarrow> length (snd q) | Some h \<Rightarrow> h - lo) (ends rt ci r) q)
       (rep_min lo (ends rt ci r) p))"
| "ends rt ci RWordBoundary p = (if at_boundary rt p then [p] else [])"
| "ends rt ci RDollar p = (if snd p = [] \<or> snd p = [10] then [p] else [])"

fun search_from :: "pyrt \<Rightarrow> bool \<Rightarrow> rx \<Rightarrow> nat \<Rightarrow> nat option \<Rightarrow> nat list \<Rightarrow> nat option" where
  "search_from rt ci r n b [] = (if ends rt ci r (b, []) \<noteq> [] then Some n else None)"
| "search_from rt ci r n b (c # cs) =
     (if ends rt ci r (b, c # cs) \<noteq> [] then Some n else search_from rt ci r (Suc n) (Some c) cs)"

text \<open>\<open>pattern.search(text)\<close>: the offset where the leftmost match starts.\<close>

definition rx_search :: "pyrt \<Rightarrow> bool \<Rightarrow> rx \<Rightarrow> nat list \<Rightarrow> nat option" where
  "rx_search rt ci r cps = search_from rt ci r 0 None cps"

section \<open>Building patterns\<close>

definition rchar :: "nat \<Rightarrow> rx" where
  "rchar c = RSet False [ILit c]"

fun rseq :: "rx list \<Rightarrow> rx" where
  "rseq [] = REmpty"
| "rseq [r] = r"
| "rseq (r # rs) = RSeq r (rseq rs)"

fun ralt :: "rx list \<Rightarrow> rx" where
  "ralt [] = RSet False []"
| "ralt [r] = r"
| "ralt (r # rs) = RAlt r (ralt rs)"

definition rlit :: "string \<Rightarrow> rx" where
  "rlit s = rseq (map (\<lambda>c. rchar (of_char c)) s)"

definition rwords :: "string list \<Rightarrow> rx" where
  "rwords ws = ralt (map rlit ws)"

definition ropt :: "rx \<Rightarrow> rx" where
  "ropt r = RRep 0 (Some 1) r"

definition rspaces :: rx where
  "rspaces = RRep 1 None (RSet False [ISpace])"

section \<open>Facts\<close>

lemma ends_shorter_rep_min:
  assumes "\<And>p q. q \<in> set (f p) \<Longrightarrow> length (snd q) \<le> length (snd p)" "q \<in> set (rep_min n f p)"
  shows "length (snd q) \<le> length (snd p)"
  using assms(2)
proof (induction n arbitrary: p)
  case (Suc n)
  then obtain x where "x \<in> set (f p)" "q \<in> set (rep_min n f x)" by auto
  with Suc.IH [of x] assms(1) [of x p] show ?case by linarith
qed simp

lemma ends_shorter_rep_more: "q \<in> set (rep_more n f p) \<Longrightarrow> length (snd q) \<le> length (snd p)"
proof (induction n arbitrary: p)
  case (Suc n)
  then show ?case by (auto dest!: Suc.IH)
qed simp

lemma ends_shorter: "q \<in> set (ends rt ci r p) \<Longrightarrow> length (snd q) \<le> length (snd p)"
proof (induction r arbitrary: p q)
  case (RSet neg items)
  then show ?case by (cases p; cases "snd p") (auto split: if_splits)
next
  case (RSeq r s)
  then obtain x where "x \<in> set (ends rt ci r p)" "q \<in> set (ends rt ci s x)" by auto
  then have "length (snd q) \<le> length (snd x)" "length (snd x) \<le> length (snd p)" using RSeq.IH by blast+
  then show ?case by (rule le_trans)
next
  case (RRep lo hi r)
  then obtain x n where "x \<in> set (rep_min lo (ends rt ci r) p)" "q \<in> set (rep_more n (ends rt ci r) x)"
    by auto
  then have "length (snd q) \<le> length (snd x)" "length (snd x) \<le> length (snd p)"
    using ends_shorter_rep_more ends_shorter_rep_min [of "ends rt ci r"] RRep.IH by blast+
  then show ?case by (rule le_trans)
qed (auto split: if_splits)

text \<open>A search succeeds exactly when some suffix has a match, and then reports the first one.\<close>

lemma search_from_None:
  "search_from rt ci r n b cs = None \<longleftrightarrow>
     (\<forall>i \<le> length cs. ends rt ci r (if i = 0 then b else Some (cs ! (i - 1)), drop i cs) = [])"
proof (induction cs arbitrary: n b)
  case Nil
  then show ?case by simp
next
  case (Cons c cs)
  let ?E = "\<lambda>i. ends rt ci r (if i = 0 then b else Some ((c # cs) ! (i - 1)), drop i (c # cs))"
  have "(\<forall>i \<le> length (c # cs). ?E i = []) \<longleftrightarrow> ?E 0 = [] \<and> (\<forall>i \<le> length cs. ?E (Suc i) = [])"
  proof -
    have "{i. i \<le> length (c # cs)} = insert 0 (Suc ` {i. i \<le> length cs})"
      by (auto simp: image_iff) (metis Suc_le_mono not0_implies_Suc)
    then have "(\<forall>i \<in> {i. i \<le> length (c # cs)}. ?E i = []) \<longleftrightarrow> ?E 0 = [] \<and> (\<forall>i \<in> {i. i \<le> length cs}. ?E (Suc i) = [])"
      by simp
    then show ?thesis by simp
  qed
  moreover have "?E (Suc i) = ends rt ci r (if i = 0 then Some c else Some (cs ! (i - 1)), drop i cs)" for i
    by (cases i) auto
  ultimately show ?case using Cons.IH [of "Suc n" "Some c"] by simp
qed

lemma search_from_bound: "search_from rt ci r n b cs = Some k \<Longrightarrow> n \<le> k \<and> k \<le> n + length cs"
proof (induction cs arbitrary: n b)
  case (Cons c cs)
  then show ?case by (fastforce split: if_splits dest: Cons.IH)
qed (auto split: if_splits)

end
