(* ===== verification/Threats.thy ===== *)
theory Threats
  imports Regex "HOL-Library.List_Lexorder" "HOL-Library.Char_ord"
begin

text \<open>
  \<open>gate/threats.py\<close> and \<open>gate/obfuscation.py\<close>: the heuristic scanner over the strings of a
  call's arguments, and the detection and removal of hidden characters. Text is handled as code
  points, as the source does.
\<close>

section \<open>Patterns\<close>

datatype threat_category =
  PROMPT_INJECTION | COMMAND_INJECTION | SECRET_EXFIL | PATH_TRAVERSAL | SUSPICIOUS_URL | OBFUSCATION

fun category_value :: "threat_category \<Rightarrow> string" where
  "category_value PROMPT_INJECTION = ''prompt_injection''"
| "category_value COMMAND_INJECTION = ''command_injection''"
| "category_value SECRET_EXFIL = ''secret_exfiltration''"
| "category_value PATH_TRAVERSAL = ''path_traversal''"
| "category_value SUSPICIOUS_URL = ''suspicious_url''"
| "category_value OBFUSCATION = ''obfuscation''"

record threat_pattern =
  tp_rx :: rx
  tp_ignorecase :: bool
  tp_category :: threat_category
  tp_label :: string
  tp_weight :: int

definition rhost :: rx where
  "rhost = rseq [rlit ''http'', ropt (rlit ''s''), rlit ''://'',
     RRep 0 None (RSet True [ISpace, ILit 34, ILit 39, ILit 47])]"

definition PATTERNS :: "threat_pattern list" where
  "PATTERNS =
   [\<lparr>tp_rx = rseq [rlit ''ignore'', rspaces, ropt (rseq [rlit ''all'', rspaces]),
        rwords [''previous'', ''prior'', ''above''], rspaces, rlit ''instructions''],
     tp_ignorecase = True, tp_category = PROMPT_INJECTION, tp_label = ''ignore-previous-instructions'', tp_weight = 4\<rparr>,
    \<lparr>tp_rx = rseq [rlit ''disregard'', rspaces, ropt (rseq [rlit ''the'', rspaces]),
        rwords [''system'', ''above'', ''prior'']],
     tp_ignorecase = True, tp_category = PROMPT_INJECTION, tp_label = ''disregard-system'', tp_weight = 3\<rparr>,
    \<lparr>tp_rx = ralt [
        rseq [RWordBoundary, rlit ''you'', rspaces, rlit ''are'', rspaces, rlit ''now'', RWordBoundary],
        rseq [RWordBoundary, rlit ''new'', rspaces, rlit ''role'', RWordBoundary],
        rseq [RWordBoundary, rlit ''act'', rspaces, rlit ''as'', RWordBoundary]],
     tp_ignorecase = True, tp_category = PROMPT_INJECTION, tp_label = ''role-reassignment'', tp_weight = 2\<rparr>,
    \<lparr>tp_rx = rseq [RWordBoundary,
        rwords [''reveal'', ''exfiltrate'', ''leak'', ''expose'', ''send'', ''post'', ''upload''], RWordBoundary,
        RRep 0 (Some 60) (RSet True [ILit 46, ILit 10]), RWordBoundary,
        ralt [rseq [rlit ''api'', ropt (RSet False [ILit 95, ISpace, ILit 45]), rlit ''key'', ropt (rlit ''s'')],
              rlit ''password'', rlit ''secret'', rlit ''token'', rlit ''credential''],
        ropt (rlit ''s''), RWordBoundary],
     tp_ignorecase = True, tp_category = PROMPT_INJECTION, tp_label = ''instruction-to-exfiltrate'', tp_weight = 0\<rparr>,
    \<lparr>tp_rx = rseq [rlit ''<'', ropt (rlit ''/''), rwords [''system'', ''assistant'', ''tool''],
        RSet False [ILit 62, ILit 93]],
     tp_ignorecase = True, tp_category = PROMPT_INJECTION, tp_label = ''fake-role-delimiter'', tp_weight = 3\<rparr>,
    \<lparr>tp_rx = rseq [rlit '';'', RRep 0 None (RSet False [ISpace]),
        rwords [''rm'', ''del'', ''format'', ''shutdown'', ''reboot''], RWordBoundary],
     tp_ignorecase = True, tp_category = COMMAND_INJECTION, tp_label = ''chained-destructive-command'', tp_weight = 4\<rparr>,
    \<lparr>tp_rx = ralt [rlit ''$('', rseq [RWordBoundary, rlit ''subprocess'', RWordBoundary],
        rseq [RWordBoundary, rlit ''os.system'', RWordBoundary],
        rseq [RWordBoundary, rlit ''eval(''], rseq [RWordBoundary, rlit ''exec('']],
     tp_ignorecase = True, tp_category = COMMAND_INJECTION, tp_label = ''code-exec-primitive'', tp_weight = 3\<rparr>,
    \<lparr>tp_rx = rseq [rlit ''|'', RRep 0 None (RSet False [ISpace]),
        rwords [''sh'', ''bash'', ''powershell'', ''cmd''], RWordBoundary],
     tp_ignorecase = True, tp_category = COMMAND_INJECTION, tp_label = ''pipe-to-shell'', tp_weight = 4\<rparr>,
    \<lparr>tp_rx = rseq [rlit ''AKIA'', RRep 16 (Some 16) (RSet False [IRange 48 57, IRange 65 90])],
     tp_ignorecase = False, tp_category = SECRET_EXFIL, tp_label = ''aws-access-key-id'', tp_weight = 4\<rparr>,
    \<lparr>tp_rx = rseq [rlit ''-----BEGIN'', rspaces, rwords [''RSA'', ''OPENSSH'', ''EC'', ''DSA'', ''PGP''], rspaces,
        rlit ''PRIVATE'', rspaces, rlit ''KEY-----''],
     tp_ignorecase = False, tp_category = SECRET_EXFIL, tp_label = ''private-key-block'', tp_weight = 5\<rparr>,
    \<lparr>tp_rx = rseq [RWordBoundary, rwords [''sk'', ''rk''], rlit ''-'',
        RRep 20 None (RSet False [IRange 65 90, IRange 97 122, IRange 48 57]), RWordBoundary],
     tp_ignorecase = False, tp_category = SECRET_EXFIL, tp_label = ''api-secret-token'', tp_weight = 3\<rparr>,
    \<lparr>tp_rx = ralt [rlit ''../'', rseq [rlit ''..'', rchar 92]],
     tp_ignorecase = False, tp_category = PATH_TRAVERSAL, tp_label = ''dot-dot-slash'', tp_weight = 3\<rparr>,
    \<lparr>tp_rx = rseq [rlit ''/etc/'', rwords [''passwd'', ''shadow'', ''sudoers''], RWordBoundary],
     tp_ignorecase = False, tp_category = PATH_TRAVERSAL, tp_label = ''sensitive-system-file'', tp_weight = 4\<rparr>,
    \<lparr>tp_rx = rseq [rlit ''http'', ropt (rlit ''s''), rlit ''://'', RRep 1 (Some 3) (RSet False [IDigit]),
        RRep 3 (Some 3) (rseq [rlit ''.'', RRep 1 (Some 3) (RSet False [IDigit])])],
     tp_ignorecase = False, tp_category = SUSPICIOUS_URL, tp_label = ''raw-ip-url'', tp_weight = 2\<rparr>,
    \<lparr>tp_rx = rseq [rhost, rlit ''.'', rwords [''tk'', ''top'', ''xyz'', ''click''], RWordBoundary],
     tp_ignorecase = True, tp_category = SUSPICIOUS_URL, tp_label = ''high-risk-tld'', tp_weight = 0\<rparr>,
    \<lparr>tp_rx = rseq [rhost, rlit ''.'', rwords [''zip'', ''mov''],
        ralt [RSet False [ILit 47, ILit 63, ILit 35], RDollar]],
     tp_ignorecase = True, tp_category = SUSPICIOUS_URL, tp_label = ''filename-lookalike-tld'', tp_weight = 2\<rparr>]"

section \<open>Strings of a structure\<close>

text \<open>Twenty-five levels: depth 0 to 24.\<close>

definition child_path :: "string \<Rightarrow> string \<Rightarrow> string" where
  "child_path prefix k = (if prefix = [] then k else prefix @ ''.'' @ k)"

fun walk_strings :: "nat \<Rightarrow> string \<Rightarrow> val \<Rightarrow> (string \<times> string) list" where
  "walk_strings 0 prefix v = []"
| "walk_strings (Suc n) prefix v =
     (case v of
        VStr s \<Rightarrow> [(if prefix = [] then ''<root>'' else prefix, s)]
      | VDict d \<Rightarrow> concat (map (\<lambda>(k, w). walk_strings n (child_path prefix k) w) d)
      | VList xs \<Rightarrow> concat (map (\<lambda>(i, w). walk_strings n (prefix @ ''['' @ show_nat i @ '']'') w)
                     (zip [0..<length xs] xs))
      | _ \<Rightarrow> [])"

definition MAX_WALK :: nat where
  "MAX_WALK = 25"

section \<open>Hidden characters\<close>

definition is_tag :: "nat \<Rightarrow> bool" where
  "is_tag c \<longleftrightarrow> 0xE0000 \<le> c \<and> c \<le> 0xE007F"

definition BIDI_CONTROLS :: "nat list" where
  "BIDI_CONTROLS = [0x202A, 0x202B, 0x202C, 0x202D, 0x202E, 0x2066, 0x2067, 0x2068, 0x2069]"

definition ZERO_WIDTH :: "nat list" where
  "ZERO_WIDTH = [0x200B, 0x200C, 0xFEFF, 0x2060, 0x00AD]"

definition ZWJ :: nat where
  "ZWJ = 0x200D"

definition ascii_word :: "nat \<Rightarrow> bool" where
  "ascii_word c \<longleftrightarrow> ascii_alnum c \<or> c = 95"

definition next_word :: "nat list \<Rightarrow> bool" where
  "next_word cs = (case cs of [] \<Rightarrow> False | c # _ \<Rightarrow> ascii_word c)"

text \<open>The first argument says whether the code point before is an ASCII word character.\<close>

fun interleaved_from :: "bool \<Rightarrow> nat list \<Rightarrow> nat" where
  "interleaved_from b [] = 0"
| "interleaved_from b (c # cs) =
     (if c \<in> set ZERO_WIDTH \<and> (b \<or> next_word cs) then 1
      else if c = ZWJ \<and> b \<and> next_word cs then 1 else 0) + interleaved_from (ascii_word c) cs"

definition interleaved_zero_width :: "nat list \<Rightarrow> nat" where
  "interleaved_zero_width cs = interleaved_from False cs"

text \<open>The loop of \<open>strip\<close>: \<open>b\<close> says whether the last character kept is an ASCII word character.\<close>

fun strip_from :: "bool \<Rightarrow> nat list \<Rightarrow> nat list" where
  "strip_from b [] = []"
| "strip_from b (c # cs) =
     (if is_tag c \<or> c \<in> set BIDI_CONTROLS \<or> c \<in> set ZERO_WIDTH then strip_from b cs
      else if c = ZWJ \<and> b \<and> next_word cs then strip_from b cs
      else c # strip_from (ascii_word c) cs)"

definition is_blank :: "nat \<Rightarrow> bool" where
  "is_blank c \<longleftrightarrow> c = 32 \<or> c = 9"

text \<open>\<open>re.sub(r"[ \t]{2,}", " ", text)\<close>: a run of two or more blanks becomes one space.\<close>

function squeeze :: "nat list \<Rightarrow> nat list" where
  "squeeze [] = []"
| "squeeze (c # cs) =
     (if is_blank c \<and> (case cs of [] \<Rightarrow> False | d # _ \<Rightarrow> is_blank d)
      then 32 # squeeze (dropWhile is_blank cs)
      else c # squeeze cs)"
  by pat_completeness auto
termination
  by (relation "measure length") (auto simp: le_imp_less_Suc length_dropWhile_le)

definition strip_cps :: "nat list \<Rightarrow> nat list" where
  "strip_cps cs = squeeze (strip_from False cs)"

fun encode_point :: "nat \<Rightarrow> nat list" where
  "encode_point c =
     (if c < 128 then [c]
      else if c < 2048 then [192 + c div 64, 128 + c mod 64]
      else if c < 65536 then [224 + c div 4096, 128 + c div 64 mod 64, 128 + c mod 64]
      else [240 + c div 262144, 128 + c div 4096 mod 64, 128 + c div 64 mod 64, 128 + c mod 64])"

definition encode :: "nat list \<Rightarrow> string" where
  "encode cs = map char_of (concat (map encode_point cs))"

definition strip_text :: "string \<Rightarrow> string" where
  "strip_text s = encode (strip_cps (code_points s))"

section \<open>Hits\<close>

record threat_hit =
  th_category :: threat_category
  th_label :: string
  th_weight :: int
  th_field :: string
  th_excerpt :: string

record scan_result =
  sr_hits :: "threat_hit list"
  sr_score :: int
  sr_categories :: "threat_category set"

definition clean :: "scan_result \<Rightarrow> bool" where
  "clean sr \<longleftrightarrow> sr_hits sr = []"

definition visible :: "nat list \<Rightarrow> nat \<Rightarrow> string" where
  "visible cs limit = encode (take limit (strip_cps cs))"

definition em_dash :: string where
  "em_dash = [CHR 0xE2, CHR 0x80, CHR 0x94]"

definition hidden_hit :: "string \<Rightarrow> int \<Rightarrow> string \<Rightarrow> nat list \<Rightarrow> nat \<Rightarrow> threat_hit" where
  "hidden_hit label weight path cs limit =
     \<lparr>th_category = OBFUSCATION, th_label = label, th_weight = weight, th_field = path,
      th_excerpt = visible cs limit\<rparr>"

definition detect_one :: "nat \<Rightarrow> string \<Rightarrow> nat list \<Rightarrow> threat_hit list" where
  "detect_one limit path cs =
     (let tags = length (filter is_tag cs);
          bidi = length (filter (\<lambda>c. c \<in> set BIDI_CONTROLS) cs);
          zw = interleaved_zero_width cs
      in (if tags = 0 then [] else
            [hidden_hit (''unicode tag characters ('' @ show_nat tags @ '') '' @ em_dash @ '' invisible payload'')
               5 path cs limit])
       @ (if bidi = 0 then [] else
            [hidden_hit (''bidirectional override/isolate ('' @ show_nat bidi @ '') '' @ em_dash
               @ '' renders differently from how it parses'') 4 path cs limit])
       @ (if zw = 0 then [] else
            [hidden_hit (''zero-width characters interleaved with text ('' @ show_nat zw @ '') '' @ em_dash
               @ '' defeats pattern matching'') (if 3 \<le> zw then 4 else 3) path cs limit]))"

definition detect_hidden :: "nat \<Rightarrow> args \<Rightarrow> threat_hit list" where
  "detect_hidden limit a =
     concat (map (\<lambda>(path, s). detect_one limit path (code_points s)) (walk_strings MAX_WALK [] (VDict a)))"

definition pattern_hit :: "pyrt \<Rightarrow> nat \<Rightarrow> string \<Rightarrow> nat list \<Rightarrow> threat_pattern \<Rightarrow> threat_hit list" where
  "pattern_hit rt limit path cs p =
     (case rx_search rt (tp_ignorecase p) (tp_rx p) cs of
        None \<Rightarrow> []
      | Some start \<Rightarrow>
         [\<lparr>th_category = tp_category p, th_label = tp_label p, th_weight = tp_weight p, th_field = path,
           th_excerpt = encode (take limit (drop (start - 10) cs))\<rparr>])"

definition scan :: "pyrt \<Rightarrow> nat \<Rightarrow> args \<Rightarrow> scan_result" where
  "scan rt limit a =
     (let hits = detect_hidden limit a
            @ concat (map (\<lambda>(path, s). concat (map (pattern_hit rt limit path (code_points s)) PATTERNS))
                       (walk_strings MAX_WALK [] (VDict a)))
      in \<lparr>sr_hits = hits, sr_score = sum_list (map th_weight hits), sr_categories = set (map th_category hits)\<rparr>)"

definition hit_to_dict :: "threat_hit \<Rightarrow> val" where
  "hit_to_dict h = VDict [(''category'', VStr (category_value (th_category h))), (''label'', VStr (th_label h)),
     (''weight'', VInt (th_weight h)), (''field'', VStr (th_field h))]"

definition scan_to_dict :: "scan_result \<Rightarrow> val" where
  "scan_to_dict sr = VDict
    [(''score'', VInt (sr_score sr)),
     (''categories'', VList (map VStr (sorted_list_of_set (category_value ` sr_categories sr)))),
     (''hits'', VList (map hit_to_dict (sr_hits sr)))]"

end
