(* ===== verification/Gate.thy ===== *)
theory Gate
  imports Policy Session Threats Identity
begin

text \<open>
  \<open>gate/engine.py\<close>: the policy decision point. The first rule that matches decides; a budgeted
  rule stops matching when the session total would pass its limit. The engine is the policy and
  the session store; the scanner keeps excerpts of 60 characters.
\<close>

section \<open>Arguments\<close>

text \<open>\<open>_safe_float\<close>: zero for a boolean and for what is not a number; an integer beyond the range of
  a float still raises.\<close>

definition safe_float :: "pyrt \<Rightarrow> val \<Rightarrow> pyexn + pyfloat" where
  "safe_float rt v =
     (if is_bool v then Inr (Fin 0)
      else case py_float rt v of
             Inl e \<Rightarrow> if caught e then Inr (Fin 0) else Inl e
           | Inr x \<Rightarrow> Inr x)"

definition amount_of :: "pyrt \<Rightarrow> string \<Rightarrow> args \<Rightarrow> pyexn + pyfloat" where
  "amount_of rt fd a =
     (case resolve_path fd (VDict a) of None \<Rightarrow> Inr (Fin 0) | Some v \<Rightarrow> safe_float rt v)"

section \<open>Matching\<close>

definition MAX_EXCERPT :: nat where
  "MAX_EXCERPT = 60"

definition static_match ::
  "rule \<Rightarrow> string \<Rightarrow> string \<Rightarrow> 'pk principal \<Rightarrow> int \<Rightarrow> reversibility \<Rightarrow> int \<Rightarrow> bool" where
  "static_match r tool action p score posture risk \<longleftrightarrow>
     matches_any_glob tool (ru_tools r) \<and> matches_any_glob action (ru_actions r)
     \<and> matches_any_glob (pr_id p) (ru_agents r)
     \<and> (\<forall>role \<in> set (ru_require_roles r). has_role role p)
     \<and> (case ru_min_reversibility r of None \<Rightarrow> True | Some k \<Rightarrow> \<not> posture < k)
     \<and> (ru_reversibility r = [] \<or> posture \<in> set (ru_reversibility r))
     \<and> (case ru_min_threat_score r of None \<Rightarrow> True | Some n \<Rightarrow> \<not> score < n)
     \<and> (case ru_min_risk r of None \<Rightarrow> True | Some n \<Rightarrow> \<not> risk < n)
     \<and> (case ru_max_risk r of None \<Rightarrow> True | Some n \<Rightarrow> \<not> risk > n)"

definition within_budget :: "pyrt \<Rightarrow> rule \<Rightarrow> args \<Rightarrow> string \<Rightarrow> session_totals \<Rightarrow> pyexn + bool" where
  "within_budget rt r a sid st =
     (case ru_budget r of None \<Rightarrow> Inr True
      | Some b \<Rightarrow> bind_err (amount_of rt (br_field b) a)
          (\<lambda>add. Inr (\<not> over_limit sid (br_key b) add (br_limit b) st)))"

definition rule_matches ::
  "pyrt \<Rightarrow> rule \<Rightarrow> string \<Rightarrow> string \<Rightarrow> args \<Rightarrow> 'pk principal \<Rightarrow> string \<Rightarrow> int \<Rightarrow> reversibility \<Rightarrow> int
     \<Rightarrow> session_totals \<Rightarrow> pyexn + bool" where
  "rule_matches rt r tool action a p sid score posture risk st =
     (if \<not> static_match r tool action p score posture risk then Inr False
      else bind_err (eval_cond rt a (ru_condition r))
             (\<lambda>c. if \<not> c then Inr False else within_budget rt r a sid st))"

section \<open>Evaluation\<close>

record 'pk gate_call =
  gl_tool :: string
  gl_args :: args
  gl_principal :: "'pk principal"
  gl_session :: string
  gl_action :: string
  gl_posture :: reversibility
  gl_risk :: int

definition rule_obligations :: "rule \<Rightarrow> scan_result \<Rightarrow> reversibility \<Rightarrow> args" where
  "rule_obligations r sr posture =
     AList.update ''reversibility'' (VStr (posture_value posture))
       (if clean sr then ru_obligations r
        else AList.update ''threat_scan'' (scan_to_dict sr) (ru_obligations r))"

definition rule_decision :: "rule \<Rightarrow> scan_result \<Rightarrow> reversibility \<Rightarrow> decision" where
  "rule_decision r sr posture =
     \<lparr>de_effect = ru_effect r, de_rule_id = ru_id r,
      de_reason = (if ru_reason r = [] then ''matched rule '' @ ru_id r else ru_reason r),
      de_redact_fields = ru_redact_fields r, de_obligations = rule_obligations r sr posture\<rparr>"

definition DEFAULT_RULE :: string where
  "DEFAULT_RULE = ''__default__''"

definition default_decision :: "effect \<Rightarrow> scan_result \<Rightarrow> reversibility \<Rightarrow> decision" where
  "default_decision eff sr posture =
     \<lparr>de_effect = eff, de_rule_id = DEFAULT_RULE,
      de_reason = ''no rule matched; default '' @ effect_value eff, de_redact_fields = [],
      de_obligations = (''reversibility'', VStr (posture_value posture))
        # (if clean sr then [] else [(''threat_scan'', scan_to_dict sr)])\<rparr>"

definition call_matches :: "pyrt \<Rightarrow> 'pk gate_call \<Rightarrow> session_totals \<Rightarrow> rule \<Rightarrow> pyexn + bool" where
  "call_matches rt c st r =
     rule_matches rt r (gl_tool c) (gl_action c) (gl_args c) (gl_principal c) (gl_session c)
       (sr_score (scan rt MAX_EXCERPT (gl_args c))) (gl_posture c) (gl_risk c) st"

fun first_match :: "(rule \<Rightarrow> pyexn + bool) \<Rightarrow> rule list \<Rightarrow> pyexn + rule option" where
  "first_match m [] = Inr None"
| "first_match m (r # rs) = bind_err (m r) (\<lambda>b. if b then Inr (Some r) else first_match m rs)"

definition evaluate :: "pyrt \<Rightarrow> policy \<Rightarrow> 'pk gate_call \<Rightarrow> session_totals \<Rightarrow> pyexn + decision" where
  "evaluate rt p c st =
     (let sr = scan rt MAX_EXCERPT (gl_args c) in
      bind_err (first_match (call_matches rt c st) (po_rules p))
        (\<lambda>found. Inr (case found of
             Some r \<Rightarrow> rule_decision r sr (gl_posture c)
           | None \<Rightarrow> default_decision (po_default p) sr (gl_posture c))))"

section \<open>Budgets\<close>

definition ENGINE_FAILURE :: string where
  "ENGINE_FAILURE = ''__engine_failure__''"

definition rule_for :: "policy \<Rightarrow> decision \<Rightarrow> rule option" where
  "rule_for p d =
     (if de_rule_id d \<in> {DEFAULT_RULE, ENGINE_FAILURE} then None
      else find (\<lambda>r. ru_id r = de_rule_id d) (po_rules p))"

definition rule_spend :: "pyrt \<Rightarrow> policy \<Rightarrow> args \<Rightarrow> decision \<Rightarrow> pyexn + (string \<times> pyfloat) option" where
  "rule_spend rt p a d =
     (case rule_for p d of None \<Rightarrow> Inr None
      | Some r \<Rightarrow>
        (case ru_budget r of None \<Rightarrow> Inr None
         | Some b \<Rightarrow>
           (case resolve_path (br_field b) (VDict a) of None \<Rightarrow> Inr None
            | Some v \<Rightarrow> bind_err (safe_float rt v) (\<lambda>x. Inr (Some (br_key b, x))))))"

definition commit_budget ::
  "pyrt \<Rightarrow> policy \<Rightarrow> args \<Rightarrow> decision \<Rightarrow> string \<Rightarrow> session_totals \<Rightarrow> pyexn + session_totals" where
  "commit_budget rt p a d sid st =
     bind_err (rule_spend rt p a d)
       (\<lambda>s. Inr (case s of None \<Rightarrow> st | Some (k, x) \<Rightarrow> commit_total sid k x st))"

definition release_budget ::
  "pyrt \<Rightarrow> policy \<Rightarrow> args \<Rightarrow> decision \<Rightarrow> string \<Rightarrow> session_totals \<Rightarrow> pyexn + session_totals" where
  "release_budget rt p a d sid st =
     bind_err (rule_spend rt p a d)
       (\<lambda>s. Inr (case s of None \<Rightarrow> st | Some (k, x) \<Rightarrow> release_total sid k x st))"

section \<open>Redaction\<close>

definition REDACTED :: val where
  "REDACTED = VStr ''[REDACTED]''"

fun redact_path :: "string list \<Rightarrow> val \<Rightarrow> val" where
  "redact_path [] v = v"
| "redact_path [p] (VDict d) =
     (case map_of d p of None \<Rightarrow> VDict d | Some _ \<Rightarrow> VDict (AList.update p REDACTED d))"
| "redact_path (p # q # ps) (VDict d) =
     (case map_of d p of None \<Rightarrow> VDict d
      | Some w \<Rightarrow> VDict (AList.update p (redact_path (q # ps) w) d))"
| "redact_path (p # ps) v = v"

definition redact_arguments :: "val \<Rightarrow> string list \<Rightarrow> val" where
  "redact_arguments a fs = fold (\<lambda>f v. redact_path (split_on CHR ''.'' f) v) fs a"

end
