(* ===== verification/PolicyProps.thy ===== *)
theory PolicyProps
  imports Policy
begin

text \<open>
  What the policy parser guarantees: whatever it accepts is well formed, and a policy written out
  by \<open>to_dict\<close> is read back unchanged.
\<close>

lemma map_err_all:
  "map_err f xs = Inr ys \<Longrightarrow> y \<in> set ys \<Longrightarrow> \<exists>x \<in> set xs. f x = Inr y"
  by (induction xs arbitrary: ys) auto

lemma fold_max_le: "(m::nat) \<le> b \<Longrightarrow> \<forall>n \<in> set ns. n \<le> b \<Longrightarrow> fold max ns m \<le> b"
  by (induction ns arbitrary: m) auto

lemma parse_comparison_ok:
  assumes "parse_comparison rt raw = Inr c"
  shows "cond_ops_valid c" "cond_depth c = 0"
  using assms by (auto simp: parse_comparison_def split: val.splits)

text \<open>What the parser accepts has known operators only and is at most as deep as it allows.\<close>

lemma parse_levels_ok:
  "parse_levels rt n raw = Inr c \<Longrightarrow> cond_ops_valid c \<and> cond_depth c < n"
proof (induction n arbitrary: raw c)
  case 0
  then show ?case by simp
next
  case (Suc n)
  have many: "(\<forall>q \<in> set qs. cond_ops_valid q) \<and> fold max (map (\<lambda>q. Suc (cond_depth q)) qs) 0 < Suc n"
    if "map_err (parse_levels rt n) ps = Inr qs" for ps qs
  proof -
    have "\<forall>q \<in> set qs. cond_ops_valid q \<and> cond_depth q < n" using map_err_all [OF that] Suc.IH by blast
    then show ?thesis
      using fold_max_le [of 0 n "map (\<lambda>q. Suc (cond_depth q)) qs"] by (simp add: Suc_le_eq less_Suc_eq_le)
  qed
  show ?case
  proof (cases raw)
    case (VDict d)
    consider (all) "has_item ''all'' raw" | (any) "\<not> has_item ''all'' raw" "has_item ''any'' raw"
      | (neg) "\<not> has_item ''all'' raw" "\<not> has_item ''any'' raw" "has_item ''not'' raw"
      | (cmp) "\<not> has_item ''all'' raw" "\<not> has_item ''any'' raw" "\<not> has_item ''not'' raw"
      by blast
    then show ?thesis
    proof cases
      case all
      with Suc.prems VDict obtain ps qs where q: "map_err (parse_levels rt n) ps = Inr qs" "c = CAnd qs"
        by (auto split: option.splits)
      from many [OF q(1)] show ?thesis by (simp add: q(2))
    next
      case any
      with Suc.prems VDict obtain ps qs where q: "map_err (parse_levels rt n) ps = Inr qs" "c = COr qs"
        by (auto split: option.splits)
      from many [OF q(1)] show ?thesis by (simp add: q(2))
    next
      case neg
      with Suc.prems VDict show ?thesis by (auto dest: Suc.IH)
    next
      case cmp
      with Suc.prems VDict have "parse_comparison rt raw = Inr c" by (auto split: if_splits)
      from parse_comparison_ok [OF this] show ?thesis by simp
    qed
  qed (use Suc.prems in auto)
qed

section \<open>Rules and policies\<close>

lemma or_star_nonempty [simp]: "or_star xs \<noteq> []"
  by (simp add: or_star_def)

lemma parse_floor_exclusive: "parse_floor revs v = Inr (Some k) \<Longrightarrow> revs = []"
  by (auto simp: parse_floor_def split: if_splits option.splits)

lemma show_nat_nonempty [simp]: "show_nat n \<noteq> []"
  by (subst show_nat.simps) simp

lemma show_int_nonempty [simp]: "show_int i \<noteq> []"
  by (simp add: show_int_def)

lemma py_str_truthy: "\<forall>v. rt_text rt v \<noteq> [] \<Longrightarrow> truthy v \<Longrightarrow> py_str rt v \<noteq> []"
  by (cases v) auto

lemma parse_condition_ok:
  "parse_condition rt raw = Inr c \<Longrightarrow> cond_ops_valid c \<and> cond_depth c \<le> MAX_DEPTH"
  using parse_levels_ok [of rt "Suc MAX_DEPTH" raw c] by (simp add: parse_condition_def)

lemma parse_rule_wf:
  assumes printed: "\<forall>v. rt_text rt v \<noteq> []" and ok: "parse_rule rt raw i = Inr r"
  shows "wf_rule r"
proof -
  from ok have
      id: "ru_id r = (if truthy (get_item ''id'' raw) then py_str rt (get_item ''id'' raw) else ''rule-'' @ show_nat i)"
    and globs: "ru_tools r \<noteq> []" "ru_agents r \<noteq> []" "ru_actions r \<noteq> []"
    and flr: "parse_floor (ru_reversibility r) (get_item ''min_reversibility'' raw) = Inr (ru_min_reversibility r)"
    and red: "\<not> (ru_effect r = REDACT \<and> ru_redact_fields r = [])"
    and cond: "(if get_item ''when'' raw = VNone then Inr AlwaysTrue else parse_condition rt (get_item ''when'' raw))
          = Inr (ru_condition r)"
    unfolding parse_rule_def Let_def raise_if_Inr bind_err_Inr by auto
  from id have "ru_id r \<noteq> []" using py_str_truthy [OF printed] by (simp split: if_splits)
  moreover have "ru_min_reversibility r \<noteq> None \<longrightarrow> ru_reversibility r = []"
    using flr parse_floor_exclusive by (cases "ru_min_reversibility r") auto
  moreover have "cond_ops_valid (ru_condition r) \<and> cond_depth (ru_condition r) \<le> MAX_DEPTH"
    using cond parse_condition_ok by (auto split: if_splits)
  ultimately show ?thesis using globs red by (simp add: wf_rule_def)
qed

lemma parse_rules_wf:
  assumes "\<forall>v. rt_text rt v \<noteq> []"
  shows "parse_rules rt i raws = Inr rs \<Longrightarrow> r \<in> set rs \<Longrightarrow> wf_rule r"
  by (induction raws arbitrary: i rs) (auto dest: parse_rule_wf [OF assms])

lemma load_policy_wf:
  assumes "\<forall>v. rt_text rt v \<noteq> []" "load_policy rt data = Inr p"
  shows "wf_policy p"
proof (cases "get_or (VList []) ''rules'' data")
  case (VList raws)
  with assms(2) obtain rs where rs: "parse_rules rt 0 raws = Inr rs" "distinct (map ru_id rs)" "po_rules p = rs"
    by (auto simp: load_policy_def)
  then show ?thesis using parse_rules_wf [OF assms(1) rs(1)] by (simp add: wf_policy_def)
qed (use assms(2) in \<open>simp_all add: load_policy_def\<close>)

lemma load_policy_dict: "wf_policy p \<Longrightarrow> load_policy rt (policy_to_dict cr p) = Inr p"
  by (cases p) (simp add: load_policy_def policy_to_dict_def get_or_def wf_policy_def parse_rules_dict)

text \<open>A policy that was loaded from any document is well formed (identifiers are distinct and not
  empty, a rule has a set or a floor of postures but not both, a redacting rule names fields,
  conditions use known operators and nest at most 32 deep), and writing it out with its digest and
  loading that document gives the same policy back, rule for rule.\<close>

theorem policy_round_trip:
  assumes "\<forall>v. rt_text rt v \<noteq> []" "load_policy rt data = Inr p"
  shows "wf_policy p \<and> load_policy rt (policy_to_dict cr p) = Inr p"
  using load_policy_wf [OF assms] load_policy_dict by blast

section \<open>The starter policy\<close>

definition plain_rule :: "string \<Rightarrow> effect \<Rightarrow> string \<Rightarrow> rule" where
  "plain_rule rid eff reason = \<lparr>ru_id = rid, ru_effect = eff, ru_tools = [''*''], ru_agents = [''*''],
     ru_require_roles = [], ru_actions = [''*''], ru_reversibility = [], ru_min_reversibility = None,
     ru_condition = AlwaysTrue, ru_redact_fields = [], ru_budget = None, ru_min_threat_score = None,
     ru_max_risk = None, ru_min_risk = None, ru_reason = reason, ru_obligations = []\<rparr>"

definition starter_rules :: "rule list" where
  "starter_rules =
    [(plain_rule ''reads-always-fine'' ALLOW ''Reads change nothing and carry no rollback obligation.'')
       \<lparr>ru_actions := [''read'']\<rparr>,
     (plain_rule ''hold-injection-suspects'' REQUIRE_APPROVAL
       ''Arguments carry markers of injected instructions; a human decides.'')\<lparr>ru_min_threat_score := Some 4\<rparr>,
     (plain_rule ''no-undo-needs-a-human'' REQUIRE_APPROVAL
       ''No rollback path exists for this action, so a person must own the decision rather than inherit it from an agent.'')
       \<lparr>ru_reversibility := [IRREVERSIBLE, UNKNOWN]\<rparr>,
     (plain_rule ''bounded-reversible-payments'' ALLOW ''Undoable payment within the session ceiling.'')
       \<lparr>ru_tools := [''invoices.pay'', ''invoices.approve''], ru_min_reversibility := Some COMPENSABLE,
        ru_budget := Some \<lparr>br_key = ''payments_total'', br_field = ''amount'', br_limit = Fin 25000\<rparr>\<rparr>,
     (plain_rule ''vendor-master-changes-are-reviewed'' REQUIRE_APPROVAL
       ''Vendor-master edits are the standard payment-fraud vector; they are reversible here, but they still get a second pair of eyes.'')
       \<lparr>ru_tools := [''vendors.*'']\<rparr>]"

definition starter_parsed :: policy where
  "starter_parsed = \<lparr>po_rules = starter_rules, po_default = DENY, po_version = ''1'', po_name = ''ap-reversibility-first''\<rparr>"

lemmas parse_eval = parse_rule_def Let_def get_or_def get_item_def has_item_def parse_effect_def effect_of_value_def
  or_star_def parse_floor_def parse_posture_def posture_of_value_def parse_budget_def opt_int_def py_dict_def
  float_of_int_def

lemma starter_policy_parsed: "starter_policy rt = Inr starter_parsed"
  by (simp add: starter_policy_def load_policy_def STARTER_POLICY_def starter_parsed_def starter_rules_def
      plain_rule_def parse_eval)

text \<open>The starter policy survives the round trip.\<close>

lemma policy_round_trip_witness:
  "wf_policy starter_parsed
   \<and> (\<forall>cr :: (nat, nat) crypto. load_policy demo_rt (policy_to_dict cr starter_parsed) = Inr starter_parsed)"
proof -
  have "\<forall>v. rt_text demo_rt v \<noteq> []" by (simp add: demo_rt_def)
  from policy_round_trip [OF this starter_policy_parsed [of demo_rt, unfolded starter_policy_def]]
  show ?thesis by blast
qed

end
