(* ===== verification/ThreatProps.thy ===== *)
theory ThreatProps
  imports Threats
begin

text \<open>
  What the scanner guarantees: it looks at every string down to its depth limit and at nothing
  deeper, it is clean exactly when nothing fired there, and what stripping removes and keeps.
\<close>

section \<open>The walk\<close>

text \<open>\<open>nested n v s\<close>: the string \<open>s\<close> sits in \<open>v\<close> under exactly \<open>n\<close> containers.\<close>

inductive nested :: "nat \<Rightarrow> val \<Rightarrow> string \<Rightarrow> bool" where
  nested_here: "nested 0 (VStr s) s"
| nested_list: "w \<in> set xs \<Longrightarrow> nested n w s \<Longrightarrow> nested (Suc n) (VList xs) s"
| nested_dict: "(k, w) \<in> set d \<Longrightarrow> nested n w s \<Longrightarrow> nested (Suc n) (VDict d) s"

inductive_simps nested_VDict: "nested n (VDict d) s"
inductive_simps nested_VInt: "nested n (VInt i) s"
inductive_simps nested_Suc_list: "nested (Suc n) (VList xs) s"
inductive_simps nested_Suc_dict: "nested (Suc n) (VDict d) s"

lemma zip_upt_snd: "w \<in> set xs \<Longrightarrow> \<exists>i. (i, w) \<in> set (zip [0..<length xs] xs)"
  by (auto simp: in_set_conv_nth) (metis add.left_neutral nth_upt length_upt length_zip diff_zero min.idem nth_zip)

lemma walk_complete: "nested n v s \<Longrightarrow> n < m \<Longrightarrow> \<exists>path. (path, s) \<in> set (walk_strings m prefix v)"
proof (induction n v s arbitrary: m prefix rule: nested.induct)
  case (nested_here s)
  then show ?case by (cases m) auto
next
  case (nested_list w xs n s)
  then obtain m' where m: "m = Suc m'" "n < m'" by (cases m) auto
  from zip_upt_snd [OF nested_list.hyps(1)] obtain i where i: "(i, w) \<in> set (zip [0..<length xs] xs)" ..
  from nested_list.IH [OF m(2), of "prefix @ ''['' @ show_nat i @ '']''"]
  obtain path where "(path, s) \<in> set (walk_strings m' (prefix @ ''['' @ show_nat i @ '']'') w)" ..
  with i show ?case by (auto simp: m intro!: exI [of _ path] bexI [of _ "(i, w)"])
next
  case (nested_dict k w d n s)
  then obtain m' where m: "m = Suc m'" "n < m'" by (cases m) auto
  from nested_dict.IH [OF m(2), of "child_path prefix k"]
  obtain path where "(path, s) \<in> set (walk_strings m' (child_path prefix k) w)" ..
  with nested_dict.hyps(1) show ?case by (auto simp: m intro!: exI [of _ path] bexI [of _ "(k, w)"])
qed

lemma walk_sound: "(path, s) \<in> set (walk_strings m prefix v) \<Longrightarrow> \<exists>n < m. nested n v s"
proof (induction m arbitrary: prefix v)
  case 0
  then show ?case by simp
next
  case (Suc m)
  show ?case
  proof (cases v)
    case (VStr t)
    with Suc.prems show ?thesis by (auto intro: nested.intros)
  next
    case (VList xs)
    with Suc.prems obtain i w where iw: "(i, w) \<in> set (zip [0..<length xs] xs)"
        "(path, s) \<in> set (walk_strings m (prefix @ ''['' @ show_nat i @ '']'') w)" by auto
    from Suc.IH [OF iw(2)] obtain n where n: "n < m" "nested n w s" by blast
    from iw(1) have "w \<in> set xs" by (auto dest: set_zip_rightD)
    with n VList show ?thesis by (intro exI [of _ "Suc n"]) (auto intro: nested.intros)
  next
    case (VDict d)
    with Suc.prems obtain k w where kw: "(k, w) \<in> set d"
        "(path, s) \<in> set (walk_strings m (child_path prefix k) w)" by auto
    from Suc.IH [OF kw(2)] obtain n where n: "n < m" "nested n w s" by blast
    with kw VDict show ?thesis by (intro exI [of _ "Suc n"]) (auto intro: nested.intros)
  qed (use Suc.prems in auto)
qed

section \<open>Clean scans\<close>

definition hidden_free :: "nat list \<Rightarrow> bool" where
  "hidden_free cs \<longleftrightarrow> (\<forall>c \<in> set cs. \<not> is_tag c \<and> c \<notin> set BIDI_CONTROLS) \<and> interleaved_zero_width cs = 0"

lemma detect_one_Nil: "detect_one limit path cs = [] \<longleftrightarrow> hidden_free cs"
  by (auto simp: detect_one_def Let_def hidden_free_def filter_empty_conv)

lemma pattern_hit_Nil: "pattern_hit rt limit path cs p = [] \<longleftrightarrow> rx_search rt (tp_ignorecase p) (tp_rx p) cs = None"
  by (simp add: pattern_hit_def split: option.splits)

lemma clean_walk:
  "clean (scan rt limit a) \<longleftrightarrow>
     (\<forall>path s. (path, s) \<in> set (walk_strings MAX_WALK [] (VDict a)) \<longrightarrow>
        hidden_free (code_points s)
        \<and> (\<forall>p \<in> set PATTERNS. rx_search rt (tp_ignorecase p) (tp_rx p) (code_points s) = None))"
proof -
  let ?W = "walk_strings MAX_WALK [] (VDict a)"
  have "sr_hits (scan rt limit a) = [] \<longleftrightarrow>
     (\<forall>x \<in> set ?W. detect_one limit (fst x) (code_points (snd x)) = [])
     \<and> (\<forall>x \<in> set ?W. \<forall>p \<in> set PATTERNS. pattern_hit rt limit (fst x) (code_points (snd x)) p = [])"
    by (simp add: scan_def Let_def detect_hidden_def split_beta del: set_simps)
  then show ?thesis
    unfolding clean_def detect_one_Nil pattern_hit_Nil by auto
qed

text \<open>A scan of a call's arguments reports nothing exactly when no string nested under at most 24
  containers has a match of one of the sixteen patterns, a tag character, a bidirectional control
  or an interleaved zero-width character. Every such string is looked at, wherever it sits; a
  string under 25 containers or more is not.\<close>

theorem scan_clean_iff:
  "clean (scan rt limit a) \<longleftrightarrow>
     (\<forall>n s. n \<le> 24 \<and> nested n (VDict a) s \<longrightarrow>
        hidden_free (code_points s)
        \<and> (\<forall>p \<in> set PATTERNS. rx_search rt (tp_ignorecase p) (tp_rx p) (code_points s) = None))"
proof -
  have "(\<exists>path. (path, s) \<in> set (walk_strings MAX_WALK [] (VDict a))) \<longleftrightarrow> (\<exists>n. n \<le> 24 \<and> nested n (VDict a) s)" for s
  proof
    assume "\<exists>path. (path, s) \<in> set (walk_strings MAX_WALK [] (VDict a))"
    then obtain path where "(path, s) \<in> set (walk_strings MAX_WALK [] (VDict a))" ..
    from walk_sound [OF this] obtain n where "n < MAX_WALK" "nested n (VDict a) s" by blast
    then show "\<exists>n. n \<le> 24 \<and> nested n (VDict a) s" by (intro exI [of _ n]) (simp add: MAX_WALK_def)
  next
    assume "\<exists>n. n \<le> 24 \<and> nested n (VDict a) s"
    then obtain n where "n \<le> 24" "nested n (VDict a) s" by blast
    then show "\<exists>path. (path, s) \<in> set (walk_strings MAX_WALK [] (VDict a))"
      by (intro walk_complete [of n]) (simp_all add: MAX_WALK_def)
  qed
  then show ?thesis unfolding clean_walk by blast
qed

lemma traversal_pattern:
  "rx_search rt (tp_ignorecase (PATTERNS ! 11)) (tp_rx (PATTERNS ! 11)) (code_points ''../x'') \<noteq> None"
  "PATTERNS ! 11 \<in> set PATTERNS" "tp_weight (PATTERNS ! 11) = 3"
proof -
  let ?p = "PATTERNS ! 11"
  have "code_points ''../x'' = [46, 46, 47, 120]" by (simp add: code_points_def)
  moreover have "tp_rx ?p = ralt [rlit ''../'', rseq [rlit ''..'', rchar 92]]" "\<not> tp_ignorecase ?p"
    by (simp_all add: PATTERNS_def)
  ultimately show "rx_search rt (tp_ignorecase ?p) (tp_rx ?p) (code_points ''../x'') \<noteq> None"
    by (simp add: rx_search_def rlit_def rchar_def)
  show "?p \<in> set PATTERNS" "tp_weight ?p = 3" by (simp_all add: PATTERNS_def)
qed

lemma dot_dot_slash_found:
  "\<exists>p \<in> set PATTERNS. rx_search rt (tp_ignorecase p) (tp_rx p) (code_points ''../x'') \<noteq> None"
  using traversal_pattern(1) [of rt] traversal_pattern(2) by blast

text \<open>A traversal inside a list inside the arguments is reported, and plain numbers are not.\<close>

lemma scan_clean_iff_witness:
  "\<not> clean (scan demo_rt 60 [(''paths'', VList [VInt 1, VStr ''../x''])]) \<and> clean (scan demo_rt 60 [(''n'', VInt 3)])"
proof
  let ?a = "[(''paths'', VList [VInt 1, VStr ''../x''])]"
  have "nested (Suc (Suc 0)) (VDict ?a) ''../x''"
    by (auto simp: nested_Suc_dict nested_Suc_list intro: nested_here)
  then have n: "Suc (Suc 0) \<le> 24 \<and> nested (Suc (Suc 0)) (VDict ?a) ''../x''" by (intro conjI) simp
  show "\<not> clean (scan demo_rt 60 ?a)"
  proof
    assume "clean (scan demo_rt 60 ?a)"
    from scan_clean_iff [THEN iffD1, OF this, THEN spec, THEN spec, THEN mp, OF n] dot_dot_slash_found [of demo_rt]
    show False by (elim conjE bexE) (drule (1) bspec, erule (1) notE)
  qed
  have "\<not> nested n (VDict [(''n'', VInt 3)]) s" for n s by (simp add: nested_VDict nested_VInt)
  then show "clean (scan demo_rt 60 [(''n'', VInt 3)])" by (intro scan_clean_iff [THEN iffD2]) simp
qed

section \<open>Stripping\<close>

definition removable :: "nat \<Rightarrow> bool" where
  "removable c \<longleftrightarrow> is_tag c \<or> c \<in> set BIDI_CONTROLS \<or> c \<in> set ZERO_WIDTH"

lemma set_squeeze: "set (squeeze cs) \<subseteq> insert 32 (set cs)"
  by (induction cs rule: squeeze.induct) (auto dest: set_dropWhileD)

lemma squeeze_space: "\<not> removable 32"
  by (simp add: removable_def is_tag_def BIDI_CONTROLS_def ZERO_WIDTH_def)

lemma strip_from_free: "c \<in> set (strip_from b cs) \<Longrightarrow> \<not> removable c \<and> c \<in> set cs"
  by (induction b cs rule: strip_from.induct) (auto simp: removable_def split: if_splits)

lemma strip_removes: "c \<in> set (strip_cps cs) \<Longrightarrow> \<not> removable c"
  using set_squeeze [of "strip_from False cs"] strip_from_free squeeze_space
  by (auto simp: strip_cps_def)

text \<open>Text without hidden characters and without runs of blanks is returned unchanged, so joined
  emoji and right-to-left marks survive.\<close>

fun single_blanks :: "nat list \<Rightarrow> bool" where
  "single_blanks (c # d # cs) = (\<not> (is_blank c \<and> is_blank d) \<and> single_blanks (d # cs))"
| "single_blanks _ = True"

lemma squeeze_id: "single_blanks cs \<Longrightarrow> squeeze cs = cs"
  by (induction cs rule: single_blanks.induct) auto

lemma strip_from_id:
  "(\<forall>c \<in> set cs. \<not> removable c) \<Longrightarrow> interleaved_from b cs = 0 \<Longrightarrow> strip_from b cs = cs"
  by (induction b cs rule: strip_from.induct) (auto simp: removable_def split: if_splits)

lemma strip_keeps:
  assumes "\<forall>c \<in> set cs. \<not> removable c" "interleaved_zero_width cs = 0" "single_blanks cs"
  shows "strip_cps cs = cs"
  using assms by (simp add: strip_cps_def strip_from_id interleaved_zero_width_def squeeze_id)

text \<open>Stripping removes every tag character, every bidirectional override or isolate and every
  zero-width spacer, and returns text that has none of them, no joiner between word characters and
  no run of blanks exactly as it was; so legitimate joined emoji and right-to-left marks survive.\<close>

theorem strip_removes_and_keeps:
  "(\<forall>c \<in> set (strip_cps cs). \<not> removable c)
   \<and> ((\<forall>c \<in> set cs. \<not> removable c) \<and> interleaved_zero_width cs = 0 \<and> single_blanks cs \<longrightarrow> strip_cps cs = cs)"
  using strip_removes strip_keeps by blast

text \<open>A family emoji, three pictographs and two joiners, between words.\<close>

lemma strip_removes_and_keeps_witness:
  "strip_cps [97, 32, 0x1F468, 0x200D, 0x1F469, 0x200D, 0x1F467, 32, 0x200F, 0x5D0]
     = [97, 32, 0x1F468, 0x200D, 0x1F469, 0x200D, 0x1F467, 32, 0x200F, 0x5D0]"
proof (rule strip_removes_and_keeps [THEN conjunct2, THEN mp], intro conjI)
qed (simp_all add: removable_def is_tag_def BIDI_CONTROLS_def ZERO_WIDTH_def interleaved_zero_width_def ZWJ_def
       next_word_def ascii_word_def ascii_alnum_def is_blank_def)

text \<open>One pass is not enough: a joiner hidden behind a zero-width space is kept, because the look
  ahead reads the original text, and what is left still interleaves with the word.\<close>

lemma strip_leaves_smuggled_joiner:
  "strip_cps [97, 0x200D, 0x200B, 98] = [97, 0x200D, 98]"
  "interleaved_zero_width (strip_cps [97, 0x200D, 0x200B, 98]) = 1"
  by (simp_all add: strip_cps_def is_tag_def BIDI_CONTROLS_def ZERO_WIDTH_def ZWJ_def next_word_def ascii_word_def
      ascii_alnum_def is_blank_def interleaved_zero_width_def)

text \<open>A second pass removes it.\<close>

lemma second_strip_removes_it:
  "strip_cps (strip_cps [97, 0x200D, 0x200B, 98]) = [97, 98]"
  by (simp add: strip_cps_def is_tag_def BIDI_CONTROLS_def ZERO_WIDTH_def ZWJ_def next_word_def ascii_word_def
      ascii_alnum_def is_blank_def)


section \<open>Scores\<close>

lemma threat_weight_nonneg: "h \<in> set (sr_hits (scan rt limit a)) \<Longrightarrow> 0 \<le> th_weight h"
proof -
  have one: "0 \<le> th_weight h" if "h \<in> set (detect_one limit path cs)" for h path cs
    using that by (auto simp: detect_one_def hidden_hit_def Let_def split: if_splits)
  have pat: "0 \<le> tp_weight p" if "p \<in> set PATTERNS" for p using that by (auto simp: PATTERNS_def)
  have two: "0 \<le> th_weight h" if "h \<in> set (pattern_hit rt limit path cs p)" "p \<in> set PATTERNS" for h path cs p
    using that pat by (auto simp: pattern_hit_def split: option.splits)
  show "h \<in> set (sr_hits (scan rt limit a)) \<Longrightarrow> 0 \<le> th_weight h"
    using one two by (fastforce simp: scan_def detect_hidden_def Let_def)
qed

lemma threat_score: "sr_score (scan rt limit a) = sum_list (map th_weight (sr_hits (scan rt limit a)))"
  by (simp add: scan_def Let_def)

lemma threat_score_nonneg: "0 \<le> sr_score (scan rt limit a)"
  unfolding threat_score using threat_weight_nonneg by (intro sum_list_nonneg) auto

lemma threat_score_hit:
  assumes "h \<in> set (sr_hits (scan rt limit a))"
  shows "th_weight h \<le> sr_score (scan rt limit a)"
proof -
  obtain xs ys where split: "sr_hits (scan rt limit a) = xs @ h # ys" using assms by (meson split_list)
  have "0 \<le> sum_list (map th_weight xs)" "0 \<le> sum_list (map th_weight ys)"
    using threat_weight_nonneg [of _ rt limit a] split by (auto intro!: sum_list_nonneg)
  then show ?thesis unfolding threat_score split by simp
qed

end
