(* ===== verification/GateProps.thy ===== *)
theory GateProps
  imports Gate PolicyProps ThreatProps "HOL-Library.Sublist"
begin

text \<open>
  What the decision point guarantees: the first matching rule decides, a session never spends more
  than a budget allows, the starter policy sends what cannot be undone to a person, and redaction
  masks the named fields and leaves the others alone.
\<close>

section \<open>First match\<close>

lemma first_match_Some:
  "first_match m rs = Inr (Some r) \<longleftrightarrow>
     (\<exists>pre post. rs = pre @ r # post \<and> (\<forall>q \<in> set pre. m q = Inr False) \<and> m r = Inr True)"
proof (induction rs)
  case Nil
  then show ?case by simp
next
  case (Cons q qs)
  note split = ex_split_Cons [of q qs r "\<lambda>q. m q = Inr False" "\<lambda>r. m r = Inr True"]
  show ?case
  proof (cases "m q")
    case (Inl e)
    then show ?thesis unfolding split by auto
  next
    case (Inr b)
    then show ?thesis unfolding split by (cases b) (auto simp: Cons.IH)
  qed
qed

lemma first_match_None: "first_match m rs = Inr None \<longleftrightarrow> (\<forall>q \<in> set rs. m q = Inr False)"
proof (induction rs)
  case Nil
  then show ?case by simp
next
  case (Cons q qs)
  then show ?case by (cases "m q") auto
qed

lemma first_match_in: "first_match m rs = Inr (Some r) \<Longrightarrow> r \<in> set rs \<and> m r = Inr True"
  by (auto simp: first_match_Some)

lemma evaluate_cases:
  assumes "evaluate rt p c st = Inr d"
  obtains r where "r \<in> set (po_rules p)" "call_matches rt c st r = Inr True"
      "d = rule_decision r (scan rt MAX_EXCERPT (gl_args c)) (gl_posture c)"
    | "d = default_decision (po_default p) (scan rt MAX_EXCERPT (gl_args c)) (gl_posture c)"
proof -
  from assms obtain f where f: "first_match (call_matches rt c st) (po_rules p) = Inr f"
      "d = (case f of Some r \<Rightarrow> rule_decision r (scan rt MAX_EXCERPT (gl_args c)) (gl_posture c)
              | None \<Rightarrow> default_decision (po_default p) (scan rt MAX_EXCERPT (gl_args c)) (gl_posture c))"
    by (auto simp: evaluate_def Let_def)
  show ?thesis
  proof (cases f)
    case None
    with f(2) that(2) show ?thesis by simp
  next
    case (Some r)
    with f first_match_in [of "call_matches rt c st" "po_rules p" r] show ?thesis by (intro that(1) [of r]) simp_all
  qed
qed

text \<open>C6: the decision on a call is that of the first rule in policy order that matches it, every rule
  before it having been evaluated without an exception and found not to match; when no rule
  matches, and only then, it is the policy's default effect.\<close>

theorem evaluate_first_match:
  "evaluate rt p c st = Inr d \<longleftrightarrow>
     (\<exists>r. (\<exists>pre post. po_rules p = pre @ r # post \<and> (\<forall>q \<in> set pre. call_matches rt c st q = Inr False)
            \<and> call_matches rt c st r = Inr True)
        \<and> d = rule_decision r (scan rt MAX_EXCERPT (gl_args c)) (gl_posture c))
   \<or> ((\<forall>q \<in> set (po_rules p). call_matches rt c st q = Inr False)
        \<and> d = default_decision (po_default p) (scan rt MAX_EXCERPT (gl_args c)) (gl_posture c))"
proof -
  let ?m = "first_match (call_matches rt c st) (po_rules p)"
  have "evaluate rt p c st = Inr d \<longleftrightarrow>
      (\<exists>r. ?m = Inr (Some r) \<and> d = rule_decision r (scan rt MAX_EXCERPT (gl_args c)) (gl_posture c))
      \<or> (?m = Inr None \<and> d = default_decision (po_default p) (scan rt MAX_EXCERPT (gl_args c)) (gl_posture c))"
    unfolding evaluate_def Let_def bind_err_Inr by (auto split: option.splits)
  then show ?thesis by (simp only: first_match_Some first_match_None)
qed

section \<open>Session budgets\<close>

lemma rule_for_decision:
  assumes "distinct (map ru_id (po_rules p))" "r \<in> set (po_rules p)"
    "rule_for p (rule_decision r sr k) = Some q"
  shows "q = r"
proof -
  from assms(3) have "q \<in> set (po_rules p)" "ru_id q = ru_id r"
    by (auto simp: rule_for_def rule_decision_def find_Some_iff split: if_splits)
  with assms(1,2) show ?thesis by (auto simp: distinct_map dest: inj_onD)
qed

lemma rule_for_default [simp]: "rule_for p (default_decision e sr k) = None"
  by (simp add: rule_for_def default_decision_def)

lemma rule_spend_matched:
  assumes "distinct (map ru_id (po_rules p))" "r \<in> set (po_rules p)"
    "rule_spend rt p a (rule_decision r sr k) = Inr (Some (key, x))"
  obtains b where "ru_budget r = Some b" "br_key b = key" "amount_of rt (br_field b) a = Inr x"
proof -
  from assms(3) obtain q b where q: "rule_for p (rule_decision r sr k) = Some q" "ru_budget q = Some b"
      "br_key b = key" "amount_of rt (br_field b) a = Inr x"
    by (auto simp: rule_spend_def amount_of_def split: option.splits)
  from rule_for_decision [OF assms(1,2) q(1)] q(2-4) that show ?thesis by blast
qed

text \<open>One call: it is evaluated, and when it was executed its spend is recorded. An exception of either
  leaves the session as it was.\<close>

fun gate_step :: "pyrt \<Rightarrow> policy \<Rightarrow> 'pk gate_call \<times> bool \<Rightarrow> session_totals \<Rightarrow> session_totals" where
  "gate_step rt p (c, executed) st =
     (case evaluate rt p c st of
        Inl e \<Rightarrow> st
      | Inr d \<Rightarrow>
         (if \<not> executed then st
          else (case commit_budget rt p (gl_args c) d (gl_session c) st of Inl e \<Rightarrow> st | Inr st' \<Rightarrow> st')))"

text \<open>A step leaves the totals alone or spends within a limit of the policy.\<close>

lemma gate_step_cases:
  assumes "distinct (map ru_id (po_rules p))"
  obtains "gate_step rt p (c, executed) st = st"
  | b x r where "r \<in> set (po_rules p)" "ru_budget r = Some b"
      "gate_step rt p (c, executed) st = snd (in_memory.spend (gl_session c) (br_key b) (br_limit b) x st)"
proof (cases "gate_step rt p (c, executed) st = st")
  case False
  then obtain d st' where d: "evaluate rt p c st = Inr d"
      and st': "commit_budget rt p (gl_args c) d (gl_session c) st = Inr st'" "gate_step rt p (c, executed) st = st'"
    by (auto split: sum.splits if_splits)
  with False obtain k x where kx: "rule_spend rt p (gl_args c) d = Inr (Some (k, x))"
      "st' = commit_total (gl_session c) k x st"
    by (auto simp: commit_budget_def split: option.splits)
  from d show ?thesis
  proof (cases rule: evaluate_cases)
    case (1 r)
    from rule_spend_matched [OF assms 1(1)] kx(1) 1(3) obtain b where
        b: "ru_budget r = Some b" "br_key b = k" "amount_of rt (br_field b) (gl_args c) = Inr x" by metis
    from 1(2) b have "\<not> over_limit (gl_session c) k x (br_limit b) st"
      by (auto simp: call_matches_def rule_matches_def within_budget_def split: if_splits)
    then have "st' = snd (in_memory.spend (gl_session c) (br_key b) (br_limit b) x st)"
      by (simp add: in_memory.spend_def kx(2) b(2))
    with 1(1) b(1) st'(2) that(2) show ?thesis by blast
  next
    case 2
    with kx(1) show ?thesis by (simp add: rule_spend_def)
  qed
qed (use that(1) in blast)



section \<open>Redaction\<close>

lemma redact_frame:
  "fs \<noteq> [] \<Longrightarrow> \<not> prefix fs gs \<Longrightarrow> \<not> prefix gs fs \<Longrightarrow> walk gs (redact_path fs v) = walk gs v"
proof (induction fs v arbitrary: gs rule: redact_path.induct)
  case (2 p d)
  then show ?case by (cases gs) (auto split: option.splits)
next
  case (3 p q ps d)
  then show ?case by (cases gs) (auto simp: map_of_update split: option.splits if_splits)
qed auto

lemma redact_masks:
  "fs \<noteq> [] \<Longrightarrow> walk fs (redact_path fs v) = (if walk fs v = None then None else Some REDACTED)"
  by (induction fs v rule: redact_path.induct) (auto split: option.splits)

definition masked :: "string list \<Rightarrow> val \<Rightarrow> bool" where
  "masked gs v \<longleftrightarrow> walk gs v \<in> {None, Some REDACTED}"

lemma walk_REDACTED: "walk gs REDACTED = (if gs = [] then Some REDACTED else None)"
  by (cases gs) (simp_all add: REDACTED_def)

lemma redact_REDACTED [simp]: "redact_path fs REDACTED = REDACTED"
  by (cases fs) (simp_all add: REDACTED_def)

lemma redact_keeps_masked:
  "fs \<noteq> [] \<Longrightarrow> gs \<noteq> [] \<Longrightarrow> masked gs v \<Longrightarrow> masked gs (redact_path fs v)"
proof (induction fs v arbitrary: gs rule: redact_path.induct)
  case (2 p d)
  then show ?case
    by (cases gs) (auto simp: masked_def map_of_update walk_REDACTED split: option.splits if_splits)
next
  case (3 p q ps d)
  obtain g gs' where gs: "gs = g # gs'" using "3.prems"(2) by (cases gs) auto
  show ?case
  proof (cases "g = p \<and> gs' \<noteq> []")
    case True
    then show ?thesis
      using "3.IH" [of _ gs'] "3.prems"(3) by (auto simp: gs masked_def split: option.splits)
  next
    case False
    then show ?thesis
      using "3.prems"(3) by (auto simp: gs masked_def map_of_update split: option.splits)
  qed
qed auto

lemma redact_arguments_frame:
  assumes "\<forall>f \<in> set fs. \<not> prefix (split_on CHR ''.'' f) gs \<and> \<not> prefix gs (split_on CHR ''.'' f)"
  shows "walk gs (redact_arguments v fs) = walk gs v"
  using assms unfolding redact_arguments_def
  by (induction fs arbitrary: v) (simp_all add: redact_frame)

lemma redact_arguments_keeps_masked:
  "gs \<noteq> [] \<Longrightarrow> masked gs v \<Longrightarrow> masked gs (redact_arguments v fs)"
  unfolding redact_arguments_def by (induction fs arbitrary: v) (simp_all add: redact_keeps_masked)

lemma redact_arguments_masks: "f \<in> set fs \<Longrightarrow> masked (split_on CHR ''.'' f) (redact_arguments v fs)"
proof (induction fs arbitrary: v)
  case Nil
  then show ?case by simp
next
  case (Cons g fs)
  have step: "redact_arguments v (g # fs) = redact_arguments (redact_path (split_on CHR ''.'' g) v) fs"
    by (simp add: redact_arguments_def)
  show ?case
  proof (cases "f = g")
    case True
    have "masked (split_on CHR ''.'' g) (redact_path (split_on CHR ''.'' g) v)"
      by (simp add: masked_def redact_masks)
    then show ?thesis unfolding step True by (rule redact_arguments_keeps_masked [rotated]) simp
  next
    case False
    with Cons.prems Cons.IH show ?thesis unfolding step by simp
  qed
qed

text \<open>After redaction no dotted path that a rule names reads back its original value: it is the
  marker or nothing at all, in whatever order the fields are given and even where one contains
  another; and every path that neither contains nor lies inside a named one reads as before.\<close>

theorem redaction_masks_exactly:
  "(\<forall>f \<in> set fs. resolve_path f (redact_arguments v fs) \<in> {None, Some REDACTED})
   \<and> (\<forall>g. (\<forall>f \<in> set fs. \<not> prefix (split_on CHR ''.'' f) (split_on CHR ''.'' g)
              \<and> \<not> prefix (split_on CHR ''.'' g) (split_on CHR ''.'' f))
          \<longrightarrow> resolve_path g (redact_arguments v fs) = resolve_path g v)"
  using redact_arguments_masks [of _ fs v] redact_arguments_frame [of fs _ v]
  by (auto simp: resolve_path_def masked_def)

text \<open>A card number inside the customer is masked and the amount is not.\<close>

lemma redaction_masks_exactly_witness:
  "let v = VDict [(''customer'', VDict [(''card'', VStr ''4111''), (''name'', VStr ''bo'')]), (''amount'', VInt 5)];
       w = redact_arguments v [''customer.card'', ''missing'']
   in resolve_path ''customer.card'' w = Some REDACTED \<and> resolve_path ''amount'' w = Some (VInt 5)
      \<and> resolve_path ''customer.name'' w = Some (VStr ''bo'')"
proof -
  let ?v = "VDict [(''customer'', VDict [(''card'', VStr ''4111''), (''name'', VStr ''bo'')]), (''amount'', VInt 5)]"
  let ?w = "redact_arguments ?v [''customer.card'', ''missing'']"
  have "resolve_path ''amount'' ?w = resolve_path ''amount'' ?v"
    "resolve_path ''customer.name'' ?w = resolve_path ''customer.name'' ?v"
    by (rule redaction_masks_exactly [THEN conjunct2, rule_format]; auto)+
  moreover have "resolve_path ''customer.card'' ?w = Some REDACTED"
    by (simp add: redact_arguments_def resolve_path_def REDACTED_def)
  ultimately show ?thesis by (simp add: Let_def resolve_path_def)
qed

section \<open>The starter policy\<close>

lemma exact_read: "matches_any_glob v [''read''] \<longleftrightarrow> code_points v = code_points ''read''"
proof -
  have "fnmatchcase v ''read'' \<longleftrightarrow> code_points v = code_points ''read''"
    by (rule glob_plain_exact) (simp add: code_points_def)
  then show ?thesis by (simp add: matches_any_glob_def)
qed

lemma matches_star_rule [simp]: "\<not> s < UNKNOWN"
  by (cases s) (simp_all add: posture_order)

text \<open>C33: under the starter policy, a call whose action is irreversible or unknown and is not labelled
  \<open>read\<close> is always decided, whatever the tool, arguments, agent, session totals, threat score and
  risk, and the decision is to ask a person.\<close>

theorem starter_policy_escalates_one_way:
  assumes "is_one_way (gl_posture c)" "code_points (gl_action c) \<noteq> code_points ''read''"
  shows "\<exists>d. evaluate rt starter_parsed c st = Inr d \<and> de_effect d = REQUIRE_APPROVAL"
proof -
  let ?m = "call_matches rt c st"
  obtain r0 r1 r2 rest where rules: "starter_rules = r0 # r1 # r2 # rest"
    and r0: "ru_actions r0 = [''read'']" and r12: "ru_effect r1 = REQUIRE_APPROVAL" "ru_effect r2 = REQUIRE_APPROVAL"
    and r1: "?m r1 = Inr True \<or> ?m r1 = Inr False" and r2: "?m r2 = Inr True"
  proof (rule that)
    show "starter_rules = starter_rules ! 0 # starter_rules ! 1 # starter_rules ! 2 # drop 3 starter_rules"
      by (simp add: starter_rules_def)
    show "ru_actions (starter_rules ! 0) = [''read'']" "ru_effect (starter_rules ! 1) = REQUIRE_APPROVAL"
        "ru_effect (starter_rules ! 2) = REQUIRE_APPROVAL"
      by (simp_all add: starter_rules_def plain_rule_def)
    show "?m (starter_rules ! 1) = Inr True \<or> ?m (starter_rules ! 1) = Inr False"
      by (simp add: starter_rules_def plain_rule_def call_matches_def rule_matches_def within_budget_def)
    show "?m (starter_rules ! 2) = Inr True" using assms(1)
      by (cases "gl_posture c")
         (simp_all add: starter_rules_def plain_rule_def call_matches_def rule_matches_def static_match_def within_budget_def)
  qed
  have "?m r0 = Inr False"
    using assms(2) r0 by (simp add: call_matches_def rule_matches_def static_match_def exact_read)
  then have "first_match ?m starter_rules = Inr (Some (if ?m r1 = Inr True then r1 else r2))"
    using r1 r2 by (auto simp: rules)
  then show ?thesis
    using r12 by (simp add: evaluate_def Let_def starter_parsed_def rule_decision_def)
qed

definition demo_call :: "string \<Rightarrow> string \<Rightarrow> args \<Rightarrow> reversibility \<Rightarrow> nat gate_call" where
  "demo_call tool action a k = \<lparr>gl_tool = tool, gl_args = a,
     gl_principal = \<lparr>pr_id = ''a1'', pr_kind = AGENT, pr_name = ''payer'', pr_key = 0, pr_roles = {}, pr_claims = []\<rparr>,
     gl_session = ''s1'', gl_action = action, gl_posture = k, gl_risk = 2\<rparr>"

text \<open>A wire transfer.\<close>

lemma starter_policy_escalates_one_way_witness:
  "\<exists>d. evaluate demo_rt starter_parsed (demo_call ''bank.wire'' ''write'' [(''amount'', VInt 9)] IRREVERSIBLE) [] = Inr d
     \<and> de_effect d = REQUIRE_APPROVAL"
  by (rule starter_policy_escalates_one_way) (simp_all add: demo_call_def code_points_def)

lemma read_rule_first:
  "po_rules starter_parsed = [] @ starter_rules ! 0 # drop 1 starter_rules"
  "call_matches rt (demo_call tool ''read'' a k) st (starter_rules ! 0) = Inr True"
  by (simp_all add: starter_parsed_def starter_rules_def plain_rule_def call_matches_def rule_matches_def
      static_match_def within_budget_def exact_read demo_call_def)

text \<open>The label decides, not the tool: an irreversible call that the caller labels \<open>read\<close> is allowed.\<close>

lemma starter_policy_trusts_the_label:
  "\<exists>d. evaluate rt starter_parsed (demo_call tool ''read'' a IRREVERSIBLE) st = Inr d \<and> de_effect d = ALLOW"
proof -
  let ?c = "demo_call tool ''read'' a IRREVERSIBLE"
  have "first_match (call_matches rt ?c st) (po_rules starter_parsed) = Inr (Some (starter_rules ! 0))"
    using read_rule_first(2) by (subst read_rule_first(1)) simp
  moreover have "ru_effect (starter_rules ! 0) = ALLOW" by (simp add: starter_rules_def plain_rule_def)
  ultimately show ?thesis by (simp add: evaluate_def Let_def rule_decision_def)
qed

text \<open>The read rule comes first, so it decides.\<close>

lemma evaluate_first_match_witness:
  "evaluate demo_rt starter_parsed (demo_call ''erp.list'' ''read'' [] REVERSIBLE) []
     = Inr (rule_decision (starter_rules ! 0) (scan demo_rt MAX_EXCERPT []) REVERSIBLE)"
proof (rule evaluate_first_match [THEN iffD2], intro disjI1 exI conjI)
  show "po_rules starter_parsed = [] @ starter_rules ! 0 # drop 1 starter_rules" by (rule read_rule_first)
  show "call_matches demo_rt (demo_call ''erp.list'' ''read'' [] REVERSIBLE) [] (starter_rules ! 0) = Inr True"
    by (rule read_rule_first)
qed (simp_all add: demo_call_def)

text \<open>An amount beyond the range of a float makes the evaluation itself raise.\<close>

lemma huge_amount_raises:
  "safe_float rt (VInt (2 ^ 1024)) = Inl (PyExn ''OverflowError'' ''int too large to convert to float'')"
  by (simp add: safe_float_def float_of_int_def caught_def)

text \<open>A rule that is called \<open>__default__\<close> loads, decides, and is never charged to its budget.\<close>

lemma reserved_rule_never_charged:
  "de_rule_id d = DEFAULT_RULE \<Longrightarrow> commit_budget rt p a d sid st = Inr st"
  by (simp add: commit_budget_def rule_spend_def rule_for_def)

section \<open>Giving a spend back\<close>

lemma commit_then_release:
  assumes "commit_budget rt p a d sid st = Inr st1" "release_budget rt p a d sid st1 = Inr st2"
    and "\<forall>key x. rule_spend rt p a d = Inr (Some (key, x)) \<longrightarrow>
           (\<exists>q. x = Fin q) \<and> (\<exists>t \<ge> 0. get_total sid key st = Fin t)"
  shows "get_total sid' key' st2 = get_total sid' key' st"
proof -
  from assms(1) obtain s where s: "rule_spend rt p a d = Inr s"
    by (auto simp: commit_budget_def)
  show ?thesis
  proof (cases s)
    case None
    with s assms(1,2) show ?thesis by (simp add: commit_budget_def release_budget_def)
  next
    case (Some kx)
    obtain key x where kx: "kx = (key, x)" by (cases kx)
    with s Some assms(3) obtain q t where qt: "x = Fin q" "0 \<le> t" "get_total sid key st = Fin t" by blast
    have st2: "st2 = release_total sid key (Fin q) (commit_total sid key (Fin q) st)"
      using assms(1,2) s Some kx qt(1) by (simp add: commit_budget_def release_budget_def)
    show ?thesis
    proof (cases "sid' = sid \<and> key' = key")
      case True
      with in_memory.give_back_add [OF qt(3,2)] show ?thesis by (simp add: st2 qt(3))
    next
      case False
      then show ?thesis by (auto simp: st2 in_memory.total_give_back in_memory.total_add)
    qed
  qed
qed

text \<open>Recording a call's spend and returning it after the call was undone leaves every session
  total where it was, for a finite amount and a total that was not negative.\<close>

theorem release_undoes_commit:
  assumes "commit_budget rt p a d sid st = Inr st1" "release_budget rt p a d sid st1 = Inr st2"
    and "\<forall>key x. rule_spend rt p a d = Inr (Some (key, x)) \<longrightarrow>
           (\<exists>q. x = Fin q) \<and> (\<exists>t \<ge> 0. get_total sid key st = Fin t)"
  shows "get_total sid' key' st2 = get_total sid' key' st"
  using assms by (rule commit_then_release)

text \<open>A payment of 900 on top of 100, undone.\<close>

lemma release_undoes_commit_witness:
  "\<exists>st1 st2. commit_budget demo_rt starter_parsed [(''amount'', VInt 900)]
       (rule_decision (starter_rules ! 3) (scan demo_rt 60 []) REVERSIBLE) ''s1'' [((''s1'', ''payments_total''), Fin 100)] = Inr st1
     \<and> release_budget demo_rt starter_parsed [(''amount'', VInt 900)]
       (rule_decision (starter_rules ! 3) (scan demo_rt 60 []) REVERSIBLE) ''s1'' st1 = Inr st2
     \<and> get_total ''s1'' ''payments_total'' st2 = Fin 100"
proof -
  let ?d = "rule_decision (starter_rules ! 3) (scan demo_rt 60 []) REVERSIBLE"
  let ?a = "[(''amount'', VInt 900)]" and ?st = "[((''s1'', ''payments_total''), Fin 100)]"
  have sp: "rule_spend demo_rt starter_parsed ?a ?d = Inr (Some (''payments_total'', Fin 900))"
    by (simp add: rule_spend_def rule_for_def rule_decision_def starter_parsed_def starter_rules_def plain_rule_def
        DEFAULT_RULE_def ENGINE_FAILURE_def safe_float_def float_of_int_def resolve_path_def)
  then obtain st1 st2 where *: "commit_budget demo_rt starter_parsed ?a ?d ''s1'' ?st = Inr st1"
    "release_budget demo_rt starter_parsed ?a ?d ''s1'' st1 = Inr st2"
    by (simp add: commit_budget_def release_budget_def)
  from sp have "\<forall>key x. rule_spend demo_rt starter_parsed ?a ?d = Inr (Some (key, x)) \<longrightarrow>
      (\<exists>q. x = Fin q) \<and> (\<exists>t \<ge> 0. get_total ''s1'' key ?st = Fin t)"
    by (simp add: get_total_def)
  from release_undoes_commit [OF * this] have "get_total ''s1'' ''payments_total'' st2 = Fin 100"
    by (simp add: get_total_def)
  with * show ?thesis by blast
qed

end
