(* ===== verification/CanonInj.thy ===== *)
theory CanonInj
  imports CanonJson
begin

text \<open>
  The canonical bytes determine the value: two values with the same canonical text are equal up to
  the order of the keys of their mappings. So what a signature or a hash covers is the content, with
  no second reading. Of the text of a finite float it is assumed that it determines the float and is
  made of digits, signs, \<open>e\<close> and a point, with \<open>e\<close> or the point in it, as \<open>float.__repr__\<close> writes it.
\<close>

section \<open>Atoms and delimiters\<close>

definition delims :: "char set" where
  "delims = {CHR '','', CHR '']'', CHR ''}''}"

definition closed_off :: "string \<Rightarrow> bool" where
  "closed_off s \<longleftrightarrow> s = [] \<or> hd s \<in> delims"

definition number_chars :: "char set" where
  "number_chars = set ''0123456789+-.e''"

definition repr_ok :: "(pyfloat \<Rightarrow> string) \<Rightarrow> bool" where
  "repr_ok fr \<longleftrightarrow> (\<forall>x y. fr (Fin x) = fr (Fin y) \<longrightarrow> x = y)
     \<and> (\<forall>x. set (fr (Fin x)) \<subseteq> number_chars \<and> (CHR ''e'' \<in> set (fr (Fin x)) \<or> CHR ''.'' \<in> set (fr (Fin x))))"

text \<open>Two texts without delimiters, each followed by a delimiter or the end, are equal if the wholes are.\<close>

lemma split_at_delim:
  assumes "u @ s = v @ t" "set u \<inter> delims = {}" "set v \<inter> delims = {}" "closed_off s" "closed_off t"
  shows "u = v \<and> s = t"
proof -
  have "takeWhile (\<lambda>c. c \<notin> delims) (u @ s) = u" if "set u \<inter> delims = {}" "closed_off s" for u s
    using that by (subst takeWhile_append2) (auto simp: closed_off_def takeWhile_eq_Nil_iff disjoint_iff)
  from this [OF assms(2,4)] this [OF assms(3,5)] assms(1) have "u = v" by simp
  with assms(1) show ?thesis by simp
qed

section \<open>Numbers\<close>

lemma of_digit: "d < 10 \<Longrightarrow> (of_char (digit d) :: nat) = 48 + d"
  by (simp add: digit_def)

lemma digit_inj: "m < 10 \<Longrightarrow> n < 10 \<Longrightarrow> digit m = digit n \<Longrightarrow> m = n"
proof -
  assume "m < 10" "n < 10" "digit m = digit n"
  then have "48 + m = 48 + n" using of_digit by metis
  then show "m = n" by simp
qed

lemma digit_in: "d < 10 \<Longrightarrow> digit d \<in> set ''0123456789''"
proof -
  have "\<forall>d \<in> set [0..<10]. digit d \<in> set ''0123456789''" by code_simp
  then show "d < 10 \<Longrightarrow> digit d \<in> set ''0123456789''" by (simp del: set_simps)
qed

lemma show_nat_inj: "show_nat m = show_nat n \<Longrightarrow> m = n"
proof (induction m arbitrary: n rule: show_nat.induct)
  case (1 m)
  have len: "show_nat k = [digit k] \<or> (10 \<le> k \<and> show_nat k = show_nat (k div 10) @ [digit (k mod 10)])" for k
    by (subst (1 2) show_nat.simps) simp
  have ne: "show_nat k \<noteq> []" for k by (subst show_nat.simps) simp
  show ?case
  proof (cases "m < 10")
    case True
    then have m: "show_nat m = [digit m]" by (subst show_nat.simps) simp
    have "n < 10"
    proof (rule ccontr)
      assume "\<not> n < 10"
      then have "show_nat n = show_nat (n div 10) @ [digit (n mod 10)]" by (subst show_nat.simps) simp
      with m "1.prems" ne [of "n div 10"] show False by (cases "show_nat (n div 10)") auto
    qed
    then have "show_nat n = [digit n]" by (subst show_nat.simps) simp
    with m "1.prems" True \<open>n < 10\<close> show ?thesis by (simp add: digit_inj)
  next
    case False
    then have m: "show_nat m = show_nat (m div 10) @ [digit (m mod 10)]" by (subst show_nat.simps) simp
    have "\<not> n < 10"
    proof
      assume "n < 10"
      then have "show_nat n = [digit n]" by (subst show_nat.simps) simp
      with m "1.prems" ne [of "m div 10"] show False by (cases "show_nat (m div 10)") auto
    qed
    then have n: "show_nat n = show_nat (n div 10) @ [digit (n mod 10)]" by (subst show_nat.simps) simp
    from m n "1.prems" have "show_nat (m div 10) = show_nat (n div 10)" "digit (m mod 10) = digit (n mod 10)"
      by auto
    with "1.IH" [OF False] have "m div 10 = n div 10" "m mod 10 = n mod 10" by (simp_all add: digit_inj)
    then show ?thesis by (metis div_mult_mod_eq)
  qed
qed

lemma show_nat_chars: "set (show_nat n) \<subseteq> set ''0123456789''"
proof (induction n rule: show_nat.induct)
  case (1 n)
  then show ?case using digit_in [of n] digit_in [of "n mod 10"] by (subst show_nat.simps) auto
qed

lemma show_int_chars: "set (show_int i) \<subseteq> insert (CHR ''-'') (set ''0123456789'')"
proof (cases "i < 0")
  case True
  then have "set (show_int i) = insert (CHR ''-'') (set (show_nat (nat (- i))))" by (simp add: show_int_def)
  with show_nat_chars show ?thesis by blast
next
  case False
  then have "set (show_int i) = set (show_nat (nat i))" by (simp add: show_int_def)
  with show_nat_chars show ?thesis by blast
qed

lemma show_nat_no_minus: "CHR ''-'' \<notin> set (show_nat n)"
proof
  assume "CHR ''-'' \<in> set (show_nat n)"
  then have "CHR ''-'' \<in> set ''0123456789''" using show_nat_chars by blast
  then show False by simp
qed

lemma show_int_inj: "show_int i = show_int j \<Longrightarrow> i = j"
proof -
  assume eq: "show_int i = show_int j"
  have neg: "k < 0 \<longleftrightarrow> CHR ''-'' \<in> set (show_int k)" for k
  proof (cases "k < 0")
    case True
    then show ?thesis by (simp add: show_int_def)
  next
    case False
    then have "show_int k = show_nat (nat k)" by (simp add: show_int_def)
    with False show_nat_no_minus show ?thesis by simp
  qed
  show "i = j"
  proof (cases "i < 0")
    case True
    with eq neg [of i] neg [of j] have "j < 0" by simp
    with True eq have "show_nat (nat (- i)) = show_nat (nat (- j))" by (simp add: show_int_def)
    then have "nat (- i) = nat (- j)" by (rule show_nat_inj)
    with True \<open>j < 0\<close> show ?thesis by simp
  next
    case False
    with eq neg [of i] neg [of j] have "\<not> j < 0" by simp
    with False eq have "show_nat (nat i) = show_nat (nat j)" by (simp add: show_int_def)
    then have "nat i = nat j" by (rule show_nat_inj)
    with False \<open>\<not> j < 0\<close> show ?thesis by simp
  qed
qed

lemma show_nat_Nil [simp]: "show_nat n \<noteq> []"
  by (subst show_nat.simps) simp

section \<open>Strings\<close>

lemma of_hex_digit: "d < 16 \<Longrightarrow> (of_char (hex_digit d) :: nat) = (if d < 10 then 48 + d else 87 + d)"
  by (simp add: hex_digit_def)

lemma hex_digit_inj:
  assumes "m < 16" "n < 16" "hex_digit m = hex_digit n"
  shows "m = n"
proof -
  have "(of_char (hex_digit m) :: nat) = of_char (hex_digit n)" using assms(3) by simp
  then show ?thesis
    unfolding of_hex_digit [OF assms(1)] of_hex_digit [OF assms(2)] by (auto split: if_splits)
qed

definition escape_u :: "char \<Rightarrow> string" where
  "escape_u c = [CHR 0x5C, CHR ''u'', CHR ''0'', CHR ''0'', hex_digit (of_char c div 16), hex_digit (of_char c mod 16)]"

definition short_escapes :: "(char \<times> char) list" where
  "short_escapes = [(CHR 0x22, CHR 0x22), (CHR 0x5C, CHR 0x5C), (CHR 0x0A, CHR ''n''), (CHR 0x0D, CHR ''r''),
     (CHR 0x09, CHR ''t''), (CHR 0x0C, CHR ''f''), (CHR 0x08, CHR ''b'')]"

lemma escape_char_cases:
  obtains (short) k where "(c, k) \<in> set short_escapes" "escape_char c = [CHR 0x5C, k]"
    | (unicode) "of_char c < (32 :: nat)" "escape_char c = escape_u c"
    | (plain) "c \<noteq> CHR 0x22" "c \<noteq> CHR 0x5C" "escape_char c = [c]"
proof (cases "c \<in> fst ` set short_escapes")
  case True
  then obtain k where k: "(c, k) \<in> set short_escapes" by auto
  then have "escape_char c = [CHR 0x5C, k]" by (auto simp: short_escapes_def escape_char_def)
  with k show ?thesis by (rule short)
next
  case False
  then have ne: "c \<noteq> CHR 0x22" "c \<noteq> CHR 0x5C" "c \<noteq> CHR 0x0A" "c \<noteq> CHR 0x0D" "c \<noteq> CHR 0x09" "c \<noteq> CHR 0x0C"
      "c \<noteq> CHR 0x08"
    by (auto simp: short_escapes_def)
  show ?thesis
  proof (cases "of_char c < (32 :: nat)")
    case True
    with ne show ?thesis by (intro unicode) (simp_all add: escape_char_def escape_u_def)
  next
    case False
    with ne show ?thesis by (intro plain) (simp_all add: escape_char_def)
  qed
qed

lemma short_escapes_det: "(c, k) \<in> set short_escapes \<Longrightarrow> (d, k) \<in> set short_escapes \<Longrightarrow> c = d"
  by (auto simp: short_escapes_def)

lemma short_escapes_u: "(c, k) \<in> set short_escapes \<Longrightarrow> k \<noteq> CHR ''u''"
  by (auto simp: short_escapes_def)

lemma escape_u_inj:
  assumes "escape_u c @ a = escape_u d @ b" "of_char c < (32 :: nat)" "of_char d < (32 :: nat)"
  shows "c = d \<and> a = b"
proof -
  have "of_char c div 16 = (of_char d div 16 :: nat)" "of_char c mod 16 = (of_char d mod 16 :: nat)" "a = b"
    using assms by (auto simp: escape_u_def dest!: hex_digit_inj [rotated 2])
  then have "of_char c = (of_char d :: nat)" by (metis div_mult_mod_eq)
  with \<open>a = b\<close> show ?thesis by simp
qed

lemma escape_u_head:
  "escape_u d @ b = CHR 0x5C # k # a \<Longrightarrow> k = CHR ''u''" "CHR 0x5C # k # a = escape_u d @ b \<Longrightarrow> k = CHR ''u''"
  "escape_u d @ b = x # y \<Longrightarrow> x = CHR 0x5C" "x # y = escape_u d @ b \<Longrightarrow> x = CHR 0x5C"
  by (auto simp: escape_u_def)

lemma escape_char_inj: "escape_char c @ a = escape_char d @ b \<Longrightarrow> c = d \<and> a = b"
  by (cases c rule: escape_char_cases; cases d rule: escape_char_cases)
     (auto dest: short_escapes_det short_escapes_u escape_u_inj escape_u_head)

lemma escape_char_quote: "escape_char c @ a \<noteq> CHR 0x22 # b"
  by (cases c rule: escape_char_cases) (auto dest: escape_u_head)

lemma escapes_inj:
  "concat (map escape_char s) @ CHR 0x22 # x = concat (map escape_char t) @ CHR 0x22 # y \<Longrightarrow> s = t \<and> x = y"
proof (induction s arbitrary: t)
  case Nil
  then show ?case using escape_char_quote by (cases t) (auto, metis)
next
  case (Cons c s)
  show ?case
  proof (cases t)
    case Nil
    with Cons.prems escape_char_quote [of c "concat (map escape_char s) @ CHR 0x22 # x" y] show ?thesis by simp
  next
    case (Cons d t')
    with Cons.prems have "escape_char c @ (concat (map escape_char s) @ CHR 0x22 # x)
        = escape_char d @ (concat (map escape_char t') @ CHR 0x22 # y)" by simp
    from escape_char_inj [OF this] Cons.IH [of t'] Cons show ?thesis by blast
  qed
qed

lemma json_string_inj: "json_string s @ x = json_string t @ y \<Longrightarrow> s = t \<and> x = y"
  using escapes_inj [of s x t y] by (simp add: json_string_def)

section \<open>Sequences\<close>

text \<open>
  An encoder whose texts can be read off the front of a longer text, up to a key: what follows a text
  must be a delimiter or the end. Comma-separated sequences of such texts, closed by a bracket, can
  then be read off too.
\<close>

definition opens :: "string \<Rightarrow> bool" where
  "opens s \<longleftrightarrow> s \<noteq> [] \<and> hd s \<notin> delims"

definition readable :: "('a \<Rightarrow> string) \<Rightarrow> ('a \<Rightarrow> 'b) \<Rightarrow> 'a \<Rightarrow> bool" where
  "readable enc key x \<longleftrightarrow> (\<forall>y s t. enc x @ s = enc y @ t \<and> closed_off s \<and> closed_off t \<longrightarrow> key x = key y \<and> s = t)"

fun rest_text :: "('a \<Rightarrow> string) \<Rightarrow> 'a list \<Rightarrow> string" where
  "rest_text enc [] = []"
| "rest_text enc (x # xs) = CHR '','' # enc x @ rest_text enc xs"

lemma join_rest: "join '','' (map enc (x # xs)) = enc x @ rest_text enc xs"
  by (induction xs arbitrary: x) auto

lemma closed_off_rest: "e \<in> delims \<Longrightarrow> closed_off (rest_text enc xs @ e # s)"
  by (cases xs) (auto simp: closed_off_def delims_def)

lemma rest_text_readable:
  assumes "\<forall>x \<in> set xs. readable enc key x" "e \<in> delims - {CHR '',''}"
  shows "rest_text enc xs @ e # s = rest_text enc ys @ e # t \<Longrightarrow> map key xs = map key ys \<and> s = t"
  using assms(1)
proof (induction xs arbitrary: ys)
  case Nil
  then show ?case using assms(2) by (cases ys) auto
next
  case (Cons x xs)
  then obtain y ys' where ys: "ys = y # ys'" using assms(2) by (cases ys) auto
  have "enc x @ (rest_text enc xs @ e # s) = enc y @ (rest_text enc ys' @ e # t)" using Cons.prems(1) ys by simp
  moreover have "readable enc key x" using Cons.prems(2) by simp
  ultimately have "key x = key y" "rest_text enc xs @ e # s = rest_text enc ys' @ e # t"
    using assms(2) closed_off_rest unfolding readable_def by (metis DiffE)+
  with Cons.IH [of ys'] Cons.prems(2) ys show ?case by simp
qed

lemma join_readable:
  assumes "\<forall>x \<in> set xs. readable enc key x" "e \<in> delims - {CHR '',''}" "\<forall>x. opens (enc x)"
    "join '','' (map enc xs) @ e # s = join '','' (map enc ys) @ e # t"
  shows "map key xs = map key ys \<and> s = t"
proof -
  have o: "enc x @ u \<noteq> e # v" for x u v
    using assms(2) assms(3) [rule_format, of x] by (cases "enc x") (auto simp: opens_def)
  show ?thesis
  proof (cases xs)
    case Nil
    show ?thesis
    proof (cases ys)
      case (Cons y ys')
      have "e # s = join '','' (map enc ys) @ e # t" using assms(4) Nil by simp
      also have "\<dots> = enc y @ (rest_text enc ys' @ e # t)" using Cons by (simp add: join_rest del: list.map)
      finally have "enc y @ (rest_text enc ys' @ e # t) = e # s" by simp
      with o show ?thesis by blast
    qed (use assms(4) Nil in simp)
  next
    case (Cons x xs')
    have "ys \<noteq> []"
    proof
      assume "ys = []"
      have "enc x @ (rest_text enc xs' @ e # s) = join '','' (map enc xs) @ e # s"
        using Cons by (simp add: join_rest del: list.map)
      also have "\<dots> = e # t" using assms(4) \<open>ys = []\<close> by simp
      finally have "enc x @ (rest_text enc xs' @ e # s) = e # t" .
      with o show False by blast
    qed
    then obtain y ys' where ys: "ys = y # ys'" by (cases ys) auto
    have "rest_text enc xs @ e # s = rest_text enc ys @ e # t"
      using assms(4) Cons ys by (simp add: join_rest del: list.map)
    then show ?thesis by (rule rest_text_readable [OF assms(1,2)])
  qed
qed

section \<open>Values\<close>

text \<open>The content of a value: its mappings with their keys in order.\<close>

fun canon :: "val \<Rightarrow> val" where
  "canon (VList xs) = VList (map canon xs)"
| "canon (VDict d) = VDict (sort_items (map (\<lambda>(k, v). (k, canon v)) d))"
| "canon v = v"

fun is_atom :: "val \<Rightarrow> bool" where
  "is_atom (VStr _) = False"
| "is_atom (VList _) = False"
| "is_atom (VDict _) = False"
| "is_atom _ = True"

definition atom_chars :: "char set" where
  "atom_chars = set ''nultrefasNIiy0123456789+-.''"

lemma atom_chars_facts: "atom_chars \<inter> delims = {}" "CHR 0x22 \<notin> atom_chars" "CHR ''['' \<notin> atom_chars" "CHR ''{'' \<notin> atom_chars"
  by (auto simp: atom_chars_def delims_def)

lemma number_chars_atom: "number_chars \<subseteq> atom_chars"
  by (auto simp: number_chars_def atom_chars_def)

lemma int_number_chars: "set (show_int i) \<subseteq> number_chars - {CHR ''e'', CHR ''.''}"
proof -
  have "insert (CHR ''-'') (set ''0123456789'') \<subseteq> number_chars - {CHR ''e'', CHR ''.''}"
    by (auto simp: number_chars_def)
  with show_int_chars show ?thesis by blast
qed

lemma atom_text:
  assumes "repr_ok fr" "is_atom v"
  shows "set (json fr v) \<subseteq> atom_chars" "json fr v \<noteq> []"
proof -
  have words: "set ''null'' \<subseteq> atom_chars" "set ''true'' \<subseteq> atom_chars" "set ''false'' \<subseteq> atom_chars"
      "set ''NaN'' \<subseteq> atom_chars" "set ''Infinity'' \<subseteq> atom_chars" "set ''-Infinity'' \<subseteq> atom_chars"
    by (auto simp: atom_chars_def)
  have fin: "set (fr (Fin x)) \<subseteq> atom_chars" "fr (Fin x) \<noteq> []" for x
  proof -
    have *: "set (fr (Fin x)) \<subseteq> number_chars" "CHR ''e'' \<in> set (fr (Fin x)) \<or> CHR ''.'' \<in> set (fr (Fin x))"
      using assms(1) unfolding repr_ok_def by blast+
    from *(1) number_chars_atom show "set (fr (Fin x)) \<subseteq> atom_chars" by (rule order_trans)
    from *(2) show "fr (Fin x) \<noteq> []" by (metis empty_iff empty_set)
  qed
  have ints: "set (show_int i) \<subseteq> atom_chars" "show_int i \<noteq> []" for i
    using int_number_chars [of i] number_chars_atom by (auto simp: show_int_def)
  show "set (json fr v) \<subseteq> atom_chars"
  proof (cases v)
    case (VBool b)
    then show ?thesis using words by (cases b) simp_all
  next
    case (VInt i)
    then show ?thesis using ints by simp
  next
    case (VFloat x)
    then show ?thesis using words fin by (cases x) simp_all
  qed (use assms(2) words in simp_all)
  show "json fr v \<noteq> []"
  proof (cases v)
    case (VFloat x)
    then show ?thesis using fin by (cases x) simp_all
  qed (use assms(2) ints in simp_all)
qed

text \<open>An atom is a word, with a letter that no number has, or a number.\<close>

fun wordy :: "val \<Rightarrow> bool" where
  "wordy VNone = True"
| "wordy (VBool b) = True"
| "wordy (VFloat NaN) = True"
| "wordy (VFloat PInf) = True"
| "wordy (VFloat NInf) = True"
| "wordy _ = False"

lemma wordy_text: "wordy v \<Longrightarrow> \<not> set (json fr v) \<subseteq> number_chars"
  by (induction v rule: wordy.induct) (auto simp: number_chars_def)

lemma number_text: "repr_ok fr \<Longrightarrow> is_atom v \<Longrightarrow> \<not> wordy v \<Longrightarrow> set (json fr v) \<subseteq> number_chars"
  using int_number_chars by (induction v rule: wordy.induct) (auto simp: repr_ok_def)

lemma wordy_inj: "wordy v \<Longrightarrow> wordy w \<Longrightarrow> json fr v = json fr w \<Longrightarrow> v = w"
  by (elim wordy.elims(2)) (simp_all split: if_splits)

lemma number_inj:
  assumes "repr_ok fr" "is_atom v" "is_atom w" "\<not> wordy v" "\<not> wordy w" "json fr v = json fr w"
  shows "v = w"
proof -
  have if1: "show_int i \<noteq> fr (Fin x)" for i x
    using assms(1) int_number_chars [of i] unfolding repr_ok_def by (metis Diff_iff insertCI subsetD)
  have inj: "fr (Fin x) = fr (Fin y) \<Longrightarrow> x = y" for x y using assms(1) by (simp add: repr_ok_def)
  have form: "(\<exists>i. u = VInt i) \<or> (\<exists>x. u = VFloat (Fin x))" if "is_atom u" "\<not> wordy u" for u
    using that by (induction u rule: wordy.induct) auto
  from form [OF assms(2,4)] form [OF assms(3,5)] assms(6) show ?thesis
    using if1 if1 [symmetric] by (elim disjE exE) (auto dest: show_int_inj inj)
qed

lemma atom_inj:
  assumes "repr_ok fr" "is_atom v" "is_atom w" "json fr v = json fr w"
  shows "v = w"
proof (cases "wordy v = wordy w")
  case True
  then show ?thesis using assms wordy_inj number_inj by blast
next
  case False
  then show ?thesis using assms wordy_text [of v fr] wordy_text [of w fr] number_text [of fr v] number_text [of fr w] by auto
qed

lemma json_opens:
  assumes "repr_ok fr"
  shows "opens (json fr v)"
proof (cases "is_atom v")
  case True
  then show ?thesis
    using atom_text [OF assms True] atom_chars_facts(1) unfolding opens_def by (metis disjoint_iff hd_in_set subsetD)
next
  case False
  then show ?thesis by (cases v) (auto simp: opens_def delims_def json_string_def)
qed

section \<open>Reading a value\<close>

lemma sort_items_map:
  "sort_items (map (\<lambda>(k, v). (k, f v)) d) = map (\<lambda>(k, v). (k, f v)) (sort_items d)"
proof (induction d)
  case (Cons x d)
  have "insert_item (case x of (k, v) \<Rightarrow> (k, f v)) (map (\<lambda>(k, v). (k, f v)) e)
      = map (\<lambda>(k, v). (k, f v)) (insert_item x e)" for e
    by (induction e) (auto split: prod.splits)
  with Cons show ?case by simp
qed simp

lemma set_sort_items [simp]: "set (sort_items d) = set d"
  by (simp add: sort_items_sort)

definition item_text :: "(pyfloat \<Rightarrow> string) \<Rightarrow> string \<times> val \<Rightarrow> string" where
  "item_text fr kv = json_string (fst kv) @ '':'' @ json fr (snd kv)"

lemma json_VDict:
  "json fr (VDict d) = ''{'' @ join '','' (map (item_text fr) (sort_items d)) @ ''}''"
proof -
  have "map (\<lambda>(k, t). json_string k @ '':'' @ t) (map (\<lambda>(k, v). (k, json fr v)) (sort_items d)) = map (item_text fr) (sort_items d)"
    by (simp add: item_text_def split_beta)
  then show ?thesis by (simp only: json.simps sort_items_map)
qed

definition item_key :: "string \<times> val \<Rightarrow> string \<times> val" where
  "item_key kv = (fst kv, canon (snd kv))"

lemma canon_VDict: "canon (VDict d) = VDict (map item_key (sort_items d))"
  by (simp add: sort_items_map item_key_def split_beta)

lemma item_readable:
  "readable (json fr) canon v \<Longrightarrow> readable (item_text fr) item_key (k, v)"
  unfolding readable_def
proof (intro allI impI, elim conjE)
  fix y s t
  assume v: "\<forall>y s t. json fr v @ s = json fr y @ t \<and> closed_off s \<and> closed_off t \<longrightarrow> canon v = canon y \<and> s = t"
    and eq: "item_text fr (k, v) @ s = item_text fr y @ t" "closed_off s" "closed_off t"
  from eq(1) have "json_string k @ ('':'' @ json fr v @ s) = json_string (fst y) @ ('':'' @ json fr (snd y) @ t)"
    by (simp add: item_text_def)
  from json_string_inj [OF this] have ky: "k = fst y" and "json fr v @ s = json fr (snd y) @ t" by simp_all
  with v [THEN spec, THEN spec, THEN spec, THEN mp, of s "snd y" t] eq(2,3) have "canon v = canon (snd y) \<and> s = t"
    by blast
  with ky show "item_key (k, v) = item_key y \<and> s = t" by (simp add: item_key_def)
qed

lemma json_head:
  assumes "repr_ok fr"
  shows "is_atom v \<Longrightarrow> hd (json fr v) \<in> atom_chars" "hd (json fr (VStr x)) = CHR 0x22"
    "hd (json fr (VList xs)) = CHR ''[''" "hd (json fr (VDict d)) = CHR ''{''"
proof -
  show "hd (json fr v) \<in> atom_chars" if "is_atom v"
    using atom_text [OF assms that] hd_in_set by blast
qed (simp_all add: json_string_def)

lemma same_head:
  assumes "repr_ok fr" "json fr v @ s = json fr w @ t"
  shows "hd (json fr v) = hd (json fr w)"
proof -
  have "json fr v \<noteq> []" "json fr w \<noteq> []" using json_opens [OF assms(1)] by (auto simp: opens_def)
  then show ?thesis using assms(2) by (metis hd_append2)
qed

lemma head_kind:
  assumes "repr_ok fr"
  shows "hd (json fr y) = CHR 0x22 \<Longrightarrow> \<exists>x. y = VStr x" "hd (json fr y) = CHR ''['' \<Longrightarrow> \<exists>xs. y = VList xs"
    "hd (json fr y) = CHR ''{'' \<Longrightarrow> \<exists>d. y = VDict d"
proof -
  consider "hd (json fr y) \<in> atom_chars" | x where "y = VStr x" | xs where "y = VList xs" | d where "y = VDict d"
    using json_head(1) [OF assms, of y] by (cases y) auto
  note cases = this
  show "hd (json fr y) = CHR 0x22 \<Longrightarrow> \<exists>x. y = VStr x"
    using cases atom_chars_facts json_head(3,4) [OF assms] by cases auto
  show "hd (json fr y) = CHR ''['' \<Longrightarrow> \<exists>xs. y = VList xs"
    using cases atom_chars_facts json_head(2,4) [OF assms] by cases auto
  show "hd (json fr y) = CHR ''{'' \<Longrightarrow> \<exists>d. y = VDict d"
    using cases atom_chars_facts json_head(2,3) [OF assms] by cases auto
qed

lemma bracket_delims: "CHR '']'' \<in> delims - {CHR '',''}" "CHR ''}'' \<in> delims - {CHR '',''}"
  by (simp_all add: delims_def)

lemma atom_readable:
  assumes ok: "repr_ok fr" and v: "is_atom v"
  shows "readable (json fr) canon v"
  unfolding readable_def
proof (intro allI impI, elim conjE)
  fix y s t
  assume eq: "json fr v @ s = json fr y @ t" and st: "closed_off s" "closed_off t"
  have "hd (json fr y) \<in> atom_chars" using same_head [OF ok eq] json_head(1) [OF ok v] by simp
  then have y: "is_atom y" using json_head(2-4) [OF ok] atom_chars_facts by (cases y) auto
  have "set (json fr v) \<inter> delims = {}" "set (json fr y) \<inter> delims = {}"
    using atom_text [OF ok v] atom_text [OF ok y] atom_chars_facts(1) by blast+
  from split_at_delim [OF eq this st] atom_inj [OF ok v y] show "canon v = canon y \<and> s = t" by simp
qed

text \<open>The text of a value can be read off the front of a longer text, up to the order of keys.\<close>

lemma json_readable:
  assumes ok: "repr_ok fr"
  shows "readable (json fr) canon v"
proof (induction v)
  case (VStr x)
  show ?case unfolding readable_def
  proof (intro allI impI, elim conjE)
    fix y s t
    assume eq: "json fr (VStr x) @ s = json fr y @ t"
    from head_kind(1) [OF ok, of y] same_head [OF ok eq] json_head(2) [OF ok] obtain z where y: "y = VStr z"
      by auto
    with eq json_string_inj [of x s z t] show "canon (VStr x) = canon y \<and> s = t" by simp
  qed
next
  case (VList xs)
  show ?case unfolding readable_def
  proof (intro allI impI, elim conjE)
    fix y s t
    assume eq: "json fr (VList xs) @ s = json fr y @ t"
    from head_kind(2) [OF ok, of y] same_head [OF ok eq] json_head(3) [OF ok] obtain ys where y: "y = VList ys"
      by auto
    have "join '','' (map (json fr) xs) @ CHR '']'' # s = join '','' (map (json fr) ys) @ CHR '']'' # t"
      using eq y by simp
    from join_readable [OF _ bracket_delims(1) _ this, of canon] VList.IH json_opens [OF ok]
    show "canon (VList xs) = canon y \<and> s = t" by (simp add: y)
  qed
next
  case (VDict d)
  have items: "\<forall>x \<in> set (sort_items d). readable (item_text fr) item_key x"
  proof
    fix x assume "x \<in> set (sort_items d)"
    then have "(fst x, snd x) \<in> set d" by simp
    then have "readable (json fr) canon (snd x)" by (rule VDict.IH) (metis snds.intros prod.collapse snd_conv)
    then show "readable (item_text fr) item_key x" using item_readable [of fr "snd x" "fst x"] by simp
  qed
  have op: "\<forall>x. opens (item_text fr x)"
    by (simp add: item_text_def opens_def json_string_def delims_def)
  show ?case unfolding readable_def
  proof (intro allI impI, elim conjE)
    fix y s t
    assume eq: "json fr (VDict d) @ s = json fr y @ t"
    from head_kind(3) [OF ok, of y] same_head [OF ok eq] json_head(4) [OF ok] obtain e where y: "y = VDict e"
      by auto
    have "join '','' (map (item_text fr) (sort_items d)) @ CHR ''}'' # s
        = join '','' (map (item_text fr) (sort_items e)) @ CHR ''}'' # t"
      using eq unfolding y json_VDict by simp
    from join_readable [OF items bracket_delims(2) op this]
    show "canon (VDict d) = canon y \<and> s = t" unfolding y canon_VDict by simp
  qed
next
  case VNone
  show ?case by (rule atom_readable [OF ok]) simp
next
  case (VBool b)
  show ?case by (rule atom_readable [OF ok]) simp
next
  case (VInt i)
  show ?case by (rule atom_readable [OF ok]) simp
next
  case (VFloat x)
  show ?case by (rule atom_readable [OF ok]) simp
qed

lemma json_canon: "json fr (canon v) = json fr v"
proof (induction v)
  case (VList xs)
  then have "map (json fr) (map canon xs) = map (json fr) xs" by simp
  then show ?case by (simp only: canon.simps json.simps)
next
  case (VDict d)
  have "map (item_text fr) (sort_items (map item_key (sort_items d))) = map (item_text fr) (sort_items d)"
  proof -
    have "sort_items (map item_key (sort_items d)) = map item_key (sort_items (sort_items d))"
      using sort_items_map [of canon "sort_items d"] by (simp add: item_key_def split_beta cong: map_cong)
    moreover have "sort_items (sort_items d) = sort_items d"
      unfolding sort_items_sort by (rule sort_key_id_if_sorted) simp
    moreover have "item_text fr (item_key x) = item_text fr x" if "x \<in> set d" for x
      using VDict.IH [of x "snd x"] that by (simp add: item_text_def item_key_def snds.intros)
    ultimately show ?thesis by simp
  qed
  then show ?case unfolding canon_VDict json_VDict by simp
qed simp_all

theorem json_injective: "repr_ok fr \<Longrightarrow> json fr v = json fr w \<longleftrightarrow> canon v = canon w"
proof
  assume "repr_ok fr" "json fr v = json fr w"
  then show "canon v = canon w"
    using json_readable [of fr v] unfolding readable_def closed_off_def by (metis append_Nil2)
next
  assume "canon v = canon w"
  then show "json fr v = json fr w" using json_canon by metis
qed

section \<open>Fields of a canonical mapping\<close>

lemma map_of_insert_item: "map_of (insert_item x e) k = (if k = fst x then Some (snd x) else map_of e k)"
  by (induction e) (cases x; auto)+

lemma map_of_sort_items [simp]: "map_of (sort_items d) = map_of d"
  by (induction d) (auto simp: map_of_insert_item fun_eq_iff)

lemma map_of_item_key: "map_of (map item_key d) k = map_option canon (map_of d k)"
  by (induction d) (auto simp: item_key_def)

lemma canon_items: "canon (VDict d) = canon (VDict e) \<Longrightarrow> map_option canon (map_of d k) = map_option canon (map_of e k)"
  unfolding canon_VDict by (metis map_of_item_key map_of_sort_items val.inject(6))

lemma canon_item:
  assumes "canon (VDict d) = canon (VDict e)" "map_of d k = Some v" "map_of e k = Some w"
  shows "canon v = canon w"
  using canon_items [OF assms(1), of k] assms(2,3) by simp

section \<open>What a hash or a signature covers\<close>


text \<open>A text of floats that meets the assumption: numerator and denominator.\<close>

definition demo_repr :: "pyfloat \<Rightarrow> string" where
  "demo_repr x = (case x of Fin q \<Rightarrow> show_int (fst (quotient_of q)) @ ''e'' @ show_int (snd (quotient_of q)) | _ \<Rightarrow> [])"

lemma demo_repr_ok: "repr_ok demo_repr"
  unfolding repr_ok_def
proof (intro conjI allI impI)
  fix x y
  assume eq: "demo_repr (Fin x) = demo_repr (Fin y)"
  have no_e: "CHR ''e'' \<notin> set (show_int i)" for i using int_number_chars [of i] by blast
  have split: "takeWhile (\<lambda>c. c \<noteq> CHR ''e'') (show_int i @ CHR ''e'' # t) = show_int i" for i t
    using no_e [of i] by (subst takeWhile_append2) auto
  from eq have "show_int (fst (quotient_of x)) @ CHR ''e'' # show_int (snd (quotient_of x))
      = show_int (fst (quotient_of y)) @ CHR ''e'' # show_int (snd (quotient_of y))" by (simp add: demo_repr_def)
  moreover from this split have "show_int (fst (quotient_of x)) = show_int (fst (quotient_of y))" by metis
  ultimately have "show_int (snd (quotient_of x)) = show_int (snd (quotient_of y))"
    "show_int (fst (quotient_of x)) = show_int (fst (quotient_of y))" by simp_all
  then have "fst (quotient_of x) = fst (quotient_of y)" "snd (quotient_of x) = snd (quotient_of y)"
    using show_int_inj by blast+
  then show "x = y" by (intro quotient_of_inject) (simp add: prod_eq_iff)
next
  fix x
  have "CHR ''e'' \<in> number_chars" by (simp add: number_chars_def)
  moreover have "set (show_int i) \<subseteq> number_chars" for i using int_number_chars [of i] by blast
  moreover have "set (demo_repr (Fin x)) = set (show_int (fst (quotient_of x))) \<union> {CHR ''e''}
      \<union> set (show_int (snd (quotient_of x)))" by (simp add: demo_repr_def)
  ultimately show "set (demo_repr (Fin x)) \<subseteq> number_chars" by (simp only: Un_subset_iff insert_subset empty_subsetI simp_thms)
  show "CHR ''e'' \<in> set (demo_repr (Fin x)) \<or> CHR ''.'' \<in> set (demo_repr (Fin x))"
    by (simp add: demo_repr_def)
qed

definition demo_crypto :: "(nat, nat) crypto" where
  "demo_crypto = \<lparr>float_repr = demo_repr, sha256 = (\<lambda>s. s), sign = (\<lambda>k m. m), verify = (\<lambda>k m s. m = s),
     public_key_to_b64 = show_nat\<rparr>"


end
