(* ===== verification/Ledger.thy ===== *)
theory Ledger
  imports CanonInj Conditions
begin

text \<open>
  \<open>ledger.py\<close>: the append-only list of entries, each carrying the hash of the one before. The state
  is the list; the clock reading is an argument, and the write-through hook, whose failure the
  source swallows, does not touch the list. The locale \<open>hash_chain\<close> is what makes a linked list of
  digests evidence: the content an entry's digest covers includes the digest before it.
\<close>

section \<open>Entries\<close>

definition GENESIS_PREV_HASH :: string where
  "GENESIS_PREV_HASH = replicate 64 CHR ''0''"

definition ALL_KINDS :: "string list" where
  "ALL_KINDS = [''principal'', ''delegation'', ''revocation'', ''action'', ''verdict'', ''gate_decision'',
     ''reversal_plan'', ''reversal_commit'', ''reversal_abandon'', ''reversal_executed'', ''reversal_expired'',
     ''checkpoint'']"

record ledger_entry =
  le_seq :: int
  le_kind :: string
  le_payload :: val
  le_recorded_at :: pyfloat
  le_prev_hash :: string
  le_entry_hash :: string

definition hash_fields :: "ledger_entry \<Rightarrow> (string \<times> val) list" where
  "hash_fields e =
     [(''seq'', VInt (le_seq e)), (''kind'', VStr (le_kind e)), (''payload'', le_payload e),
      (''recorded_at'', VFloat (le_recorded_at e)), (''prev_hash'', VStr (le_prev_hash e))]"

definition hash_input :: "('sk, 'pk) crypto \<Rightarrow> ledger_entry \<Rightarrow> string" where
  "hash_input cr e = canonical_bytes cr (VDict (hash_fields e))"

definition compute_hash :: "('sk, 'pk) crypto \<Rightarrow> ledger_entry \<Rightarrow> string" where
  "compute_hash cr e = sha256 cr (hash_input cr e)"

definition entry_dict :: "ledger_entry \<Rightarrow> val" where
  "entry_dict e = VDict (hash_fields e @ [(''entry_hash'', VStr (le_entry_hash e))])"

section \<open>Writing\<close>

type_synonym ledger = "ledger_entry list"

definition head_hash :: "ledger \<Rightarrow> string" where
  "head_hash es = (if es = [] then GENESIS_PREV_HASH else le_entry_hash (last es))"

definition build_entry :: "('sk, 'pk) crypto \<Rightarrow> pyfloat \<Rightarrow> string \<Rightarrow> val \<Rightarrow> ledger \<Rightarrow> ledger_entry" where
  "build_entry cr now kind payload es =
     (let e = \<lparr>le_seq = int (length es), le_kind = kind, le_payload = payload, le_recorded_at = now,
               le_prev_hash = head_hash es, le_entry_hash = []\<rparr>
      in e\<lparr>le_entry_hash := compute_hash cr e\<rparr>)"

definition append_entry ::
  "('sk, 'pk) crypto \<Rightarrow> pyfloat \<Rightarrow> string \<Rightarrow> val \<Rightarrow> ledger \<Rightarrow> ledger_entry \<times> ledger" where
  "append_entry cr now kind payload es =
     (let e = build_entry cr now kind payload es in (e, es @ [e]))"

definition load_entries :: "ledger_entry list \<Rightarrow> ledger" where
  "load_entries es = sort_key le_seq es"

definition append_prebuilt :: "ledger_entry \<Rightarrow> ledger \<Rightarrow> ledger" where
  "append_prebuilt e es = es @ [e]"

section \<open>Reading\<close>

definition find_kind :: "string option \<Rightarrow> ledger \<Rightarrow> ledger_entry list" where
  "find_kind k es = filter (\<lambda>e. k = None \<or> k = Some (le_kind e)) es"

definition counts_by_kind :: "ledger \<Rightarrow> (string, nat) dict" where
  "counts_by_kind es =
     fold (\<lambda>e d. AList.update (le_kind e) (Suc (case map_of d (le_kind e) of None \<Rightarrow> 0 | Some n \<Rightarrow> n)) d) es []"

section \<open>Integrity\<close>

fun verify_from :: "('sk, 'pk) crypto \<Rightarrow> int \<Rightarrow> string \<Rightarrow> ledger \<Rightarrow> revoco_error + unit" where
  "verify_from cr i prev [] = Inr ()"
| "verify_from cr i prev (e # es) =
     raise_if (le_seq e \<noteq> i) TamperDetected
     (raise_if (le_prev_hash e \<noteq> prev) TamperDetected
     (raise_if (compute_hash cr e \<noteq> le_entry_hash e) TamperDetected
     (verify_from cr (i + 1) (le_entry_hash e) es)))"

definition verify_integrity :: "('sk, 'pk) crypto \<Rightarrow> ledger \<Rightarrow> revoco_error + unit" where
  "verify_integrity cr es = verify_from cr 0 GENESIS_PREV_HASH es"

definition verify_against_head :: "('sk, 'pk) crypto \<Rightarrow> string \<Rightarrow> ledger \<Rightarrow> revoco_error + unit" where
  "verify_against_head cr expected es =
     bind_err (verify_integrity cr es) (\<lambda>_. raise_if (head_hash es \<noteq> expected) TamperDetected (Inr ()))"

fun pair_level :: "('sk, 'pk) crypto \<Rightarrow> string list \<Rightarrow> string list" where
  "pair_level cr [] = []"
| "pair_level cr [x] = [sha256 cr (x @ x)]"
| "pair_level cr (x # y # xs) = sha256 cr (x @ y) # pair_level cr xs"

lemma length_pair_level: "length (pair_level cr xs) = (length xs + 1) div 2"
  by (induction cr xs rule: pair_level.induct) auto

function merkle_levels :: "('sk, 'pk) crypto \<Rightarrow> string list \<Rightarrow> string" where
  "merkle_levels cr level = (case level of [] \<Rightarrow> GENESIS_PREV_HASH | [x] \<Rightarrow> x | _ \<Rightarrow> merkle_levels cr (pair_level cr level))"
  by pat_completeness auto
termination
  by (relation "measure (\<lambda>(cr, level). length level)") (auto simp: length_pair_level)

declare merkle_levels.simps [simp del]

definition merkle_root :: "('sk, 'pk) crypto \<Rightarrow> ledger \<Rightarrow> string" where
  "merkle_root cr es = merkle_levels cr (map le_entry_hash es)"

definition checkpoint :: "('sk, 'pk) crypto \<Rightarrow> pyfloat \<Rightarrow> ledger \<Rightarrow> val" where
  "checkpoint cr now es = VDict [(''entries'', VInt (int (length es))), (''head_hash'', VStr (head_hash es)),
     (''merkle_root'', VStr (merkle_root cr es)), (''at'', VFloat now)]"

section \<open>Reading an entry back\<close>

text \<open>\<open>LedgerEntry.from_dict\<close>. The outer result is the exception of a missing key or a failed
  conversion; \<open>None\<close> stands for a text column that holds another type, which the source keeps.\<close>

definition req :: "string \<Rightarrow> val \<Rightarrow> pyexn + val" where
  "req k d = (case d of
     VDict m \<Rightarrow> (case map_of m k of None \<Rightarrow> Inl (PyExn ''KeyError'' k) | Some v \<Rightarrow> Inr v)
   | _ \<Rightarrow> Inl type_error)"

definition entry_of_dict :: "pyrt \<Rightarrow> val \<Rightarrow> pyexn + ledger_entry option" where
  "entry_of_dict rt d =
     bind_err (bind_err (req ''seq'' d) (py_int rt)) (\<lambda>s.
     bind_err (req ''kind'' d) (\<lambda>k.
     bind_err (req ''payload'' d) (\<lambda>p.
     bind_err (bind_err (req ''recorded_at'' d) (py_float rt)) (\<lambda>t.
     bind_err (req ''prev_hash'' d) (\<lambda>pv.
     bind_err (req ''entry_hash'' d) (\<lambda>h.
     Inr (case (k, pv, h) of
            (VStr k', VStr pv', VStr h') \<Rightarrow>
              Some \<lparr>le_seq = s, le_kind = k', le_payload = p, le_recorded_at = t, le_prev_hash = pv', le_entry_hash = h'\<rparr>
          | _ \<Rightarrow> None)))))))"

lemma entry_of_dict_dict: "entry_of_dict rt (entry_dict e) = Inr (Some e)"
  by (simp add: entry_of_dict_def entry_dict_def hash_fields_def req_def)

section \<open>Linked digests\<close>

text \<open>
  The interface between a log and its digest: each entry has a stored digest, and the content that the
  digest covers determines the digest of the entry before.
\<close>

locale hash_chain =
  fixes content :: "'e \<Rightarrow> 'c"
    and before :: "'e \<Rightarrow> string"
    and stored :: "'e \<Rightarrow> string"
  assumes content_before: "content x = content y \<Longrightarrow> before x = before y"
begin

fun linked :: "('c \<Rightarrow> string) \<Rightarrow> string \<Rightarrow> 'e list \<Rightarrow> bool" where
  "linked h p [] \<longleftrightarrow> True"
| "linked h p (e # es) \<longleftrightarrow> before e = p \<and> stored e = h (content e) \<and> linked h (stored e) es"

definition head_of :: "string \<Rightarrow> 'e list \<Rightarrow> string" where
  "head_of p es = (if es = [] then p else stored (last es))"

lemma linked_snoc: "linked h p (es @ [e]) \<longleftrightarrow> linked h p es \<and> before e = head_of p es \<and> stored e = h (content e)"
  by (induction es arbitrary: p) (auto simp: head_of_def)

text \<open>Without a collision among the contents, and without one that digests to the starting value,
  the head determines the whole history.\<close>

lemma same_head_same_history:
  assumes "linked h p xs" "linked h p ys" "head_of p xs = head_of p ys"
    and inj: "inj_on h (content ` (set xs \<union> set ys))" and fresh: "p \<notin> h ` content ` (set xs \<union> set ys)"
  shows "map content xs = map content ys"
  using assms
proof (induction xs arbitrary: ys rule: rev_induct)
  case Nil
  show ?case
  proof (cases ys rule: rev_cases)
    case (snoc zs z)
    with Nil.prems(2,3) have "p = h (content z)" by (simp add: linked_snoc head_of_def)
    with Nil.prems(5) snoc show ?thesis by simp
  qed simp
next
  case (snoc x xs)
  show ?case
  proof (cases ys rule: rev_cases)
    case Nil
    with snoc.prems(1,3) have "p = h (content x)" by (simp add: linked_snoc head_of_def)
    with snoc.prems(5) show ?thesis by simp
  next
    case ys: (snoc zs z)
    from snoc.prems(1-3) ys have eq: "h (content x) = h (content z)" by (simp add: linked_snoc head_of_def)
    then have c: "content x = content z" by (rule inj_onD [OF snoc.prems(4)]) (simp_all add: ys)
    then have "before x = before z" by (rule content_before)
    with snoc.prems(1,2) ys have "head_of p xs = head_of p zs" by (simp add: linked_snoc)
    moreover have "inj_on h (content ` (set xs \<union> set zs))" using snoc.prems(4) ys by (auto intro: inj_on_subset)
    ultimately have "map content xs = map content zs"
      using snoc.IH [of zs] snoc.prems(1,2,5) ys by (auto simp: linked_snoc)
    with c ys show ?thesis by simp
  qed
qed

end

text \<open>The content of a ledger entry is what its hash input says, with the keys in order.\<close>

definition le_content :: "ledger_entry \<Rightarrow> val" where
  "le_content e = canon (VDict (hash_fields e))"

lemma le_content_fields:
  assumes "le_content e = le_content f"
  shows "le_seq e = le_seq f" "le_kind e = le_kind f" "canon (le_payload e) = canon (le_payload f)"
    "le_recorded_at e = le_recorded_at f" "le_prev_hash e = le_prev_hash f"
proof -
  note item = canon_item [OF assms [unfolded le_content_def]]
  show "le_seq e = le_seq f" using item [of "''seq''" "VInt (le_seq e)" "VInt (le_seq f)"] by (simp add: hash_fields_def)
  show "le_kind e = le_kind f" using item [of "''kind''" "VStr (le_kind e)" "VStr (le_kind f)"] by (simp add: hash_fields_def)
  show "canon (le_payload e) = canon (le_payload f)" using item [of "''payload''" "le_payload e" "le_payload f"] by (simp add: hash_fields_def)
  show "le_recorded_at e = le_recorded_at f" using item [of "''recorded_at''" "VFloat (le_recorded_at e)" "VFloat (le_recorded_at f)"] by (simp add: hash_fields_def)
  show "le_prev_hash e = le_prev_hash f" using item [of "''prev_hash''" "VStr (le_prev_hash e)" "VStr (le_prev_hash f)"] by (simp add: hash_fields_def)
qed

interpretation chain: hash_chain le_content le_prev_hash le_entry_hash
  by unfold_locales (rule le_content_fields)

end
