(* ===== verification/LedgerProps.thy ===== *)
theory LedgerProps
  imports Ledger
begin

text \<open>
  What the ledger guarantees: appending keeps it verifiable, a ledger that verifies against a
  witnessed head has the witnessed history, and loading its rows in any order restores it.
\<close>

section \<open>Verification as a linked chain\<close>

definition content_digest :: "('sk, 'pk) crypto \<Rightarrow> val \<Rightarrow> string" where
  "content_digest cr c = sha256 cr (canonical_bytes cr c)"

lemma compute_hash_content: "compute_hash cr e = content_digest cr (le_content e)"
  by (simp only: compute_hash_def hash_input_def content_digest_def canonical_bytes_def le_content_def json_canon)

fun numbered :: "int \<Rightarrow> ledger \<Rightarrow> bool" where
  "numbered i [] = True"
| "numbered i (e # es) = (le_seq e = i \<and> numbered (i + 1) es)"

lemma verify_from_iff:
  "verify_from cr i p es = Inr () \<longleftrightarrow> numbered i es \<and> chain.linked (content_digest cr) p es"
proof (induction es arbitrary: i p)
  case Nil
  then show ?case by simp
next
  case (Cons e es)
  then show ?case using compute_hash_content [of cr e] by auto
qed

lemma head_hash_chain: "head_hash es = chain.head_of GENESIS_PREV_HASH es"
  by (simp add: head_hash_def chain.head_of_def)

lemma numbered_snoc: "numbered i (es @ [e]) \<longleftrightarrow> numbered i es \<and> le_seq e = i + int (length es)"
proof (induction es arbitrary: i)
  case (Cons x es)
  from Cons.IH [of "i + 1"] show ?case by (simp add: algebra_simps)
qed simp

lemma verify_append:
  "verify_integrity cr es = Inr () \<Longrightarrow> verify_integrity cr (snd (append_entry cr now kind payload es)) = Inr ()"
  by (simp add: verify_integrity_def verify_from_iff append_entry_def Let_def numbered_snoc chain.linked_snoc
      build_entry_def head_hash_chain compute_hash_content [symmetric])
     (simp add: compute_hash_def hash_input_def hash_fields_def)

definition append_all :: "('sk, 'pk) crypto \<Rightarrow> (pyfloat \<times> string \<times> val) list \<Rightarrow> ledger \<Rightarrow> ledger" where
  "append_all cr items es = fold (\<lambda>(now, kind, payload) l. snd (append_entry cr now kind payload l)) items es"

lemma append_all_prefix: "\<exists>new. append_all cr items es = es @ new \<and> length new = length items"
proof (induction items arbitrary: es)
  case Nil
  then show ?case by (simp add: append_all_def)
next
  case (Cons x items)
  obtain now kind payload where x: "x = (now, kind, payload)" by (cases x)
  let ?l = "snd (append_entry cr now kind payload es)"
  have "append_all cr (x # items) es = append_all cr items ?l" by (simp add: append_all_def x)
  moreover obtain new where "append_all cr items ?l = ?l @ new" "length new = length items" using Cons.IH by blast
  ultimately show ?case by (auto simp: append_entry_def Let_def)
qed

lemma verify_append_all:
  "verify_integrity cr es = Inr () \<Longrightarrow> verify_integrity cr (append_all cr items es) = Inr ()"
  unfolding append_all_def by (induction items arbitrary: es) (auto simp: verify_append split: prod.splits)

text \<open>Whatever is appended to a ledger that verifies, with whatever clock readings, the result
  verifies, every earlier entry is still in its place, and one entry was added for each call; so a
  ledger that was only ever appended to always passes its own check.\<close>

theorem append_only_verifies:
  assumes "verify_integrity cr es = Inr ()"
  shows "verify_integrity cr (append_all cr items es) = Inr ()
    \<and> (\<exists>new. append_all cr items es = es @ new \<and> length new = length items)"
  using verify_append_all [OF assms] append_all_prefix by blast

text \<open>Two entries on an empty ledger.\<close>

lemma append_only_verifies_witness:
  "verify_integrity demo_crypto
     (append_all demo_crypto [(Fin 1, ''action'', VDict []), (Fin 2, ''verdict'', VDict [(''allowed'', VBool True)])] []) = Inr ()"
  by (rule append_only_verifies [THEN conjunct1]) (simp add: verify_integrity_def)

section \<open>Tampering\<close>

lemma verified_heads_agree:
  assumes ok: "repr_ok (float_repr cr)"
    and xs: "verify_integrity cr xs = Inr ()" and ys: "verify_integrity cr ys = Inr ()"
    and eq: "head_hash xs = head_hash ys"
    and inj: "inj_on (sha256 cr) (hash_input cr ` (set xs \<union> set ys))"
    and fresh: "GENESIS_PREV_HASH \<notin> compute_hash cr ` (set xs \<union> set ys)"
  shows "map le_content xs = map le_content ys"
proof (rule chain.same_head_same_history)
  show "chain.linked (content_digest cr) GENESIS_PREV_HASH xs" "chain.linked (content_digest cr) GENESIS_PREV_HASH ys"
    using xs ys by (simp_all add: verify_integrity_def verify_from_iff)
  show "chain.head_of GENESIS_PREV_HASH xs = chain.head_of GENESIS_PREV_HASH ys"
    using eq by (simp add: head_hash_chain)
  show "GENESIS_PREV_HASH \<notin> content_digest cr ` le_content ` (set xs \<union> set ys)"
    using fresh by (simp add: image_image compute_hash_content)
  show "inj_on (content_digest cr) (le_content ` (set xs \<union> set ys))"
  proof (rule inj_onI, elim imageE)
    fix c d x y
    assume *: "content_digest cr c = content_digest cr d" "c = le_content x" "x \<in> set xs \<union> set ys"
      "d = le_content y" "y \<in> set xs \<union> set ys"
    then have "compute_hash cr x = compute_hash cr y" by (simp only: compute_hash_content)
    then have "sha256 cr (hash_input cr x) = sha256 cr (hash_input cr y)" by (simp only: compute_hash_def)
    from inj_onD [OF inj this] *(3,5) have "hash_input cr x = hash_input cr y" by blast
    then have "canon (VDict (hash_fields x)) = canon (VDict (hash_fields y))"
      unfolding hash_input_def canonical_bytes_def json_injective [OF ok] .
    then show "c = d" unfolding *(2,4) le_content_def .
  qed
qed

text \<open>C38: a ledger that passes the check against a witnessed head hash is the witnessed ledger: the same
  number of entries, and entry by entry the same sequence number, kind, payload, time and previous
  hash. Editing, dropping, reordering, inserting or truncating entries is therefore detected, unless
  SHA-256 collides on the entries of the two ledgers or an entry hashes to the genesis value.\<close>

theorem witnessed_head_pins_history:
  assumes "repr_ok (float_repr cr)"
    and "verify_integrity cr original = Inr ()"
    and "verify_against_head cr (head_hash original) presented = Inr ()"
    and "inj_on (sha256 cr) (hash_input cr ` (set original \<union> set presented))"
    and "GENESIS_PREV_HASH \<notin> compute_hash cr ` (set original \<union> set presented)"
  shows "length presented = length original
    \<and> list_all2 (\<lambda>e f. le_seq e = le_seq f \<and> le_kind e = le_kind f \<and> canon (le_payload e) = canon (le_payload f)
         \<and> le_recorded_at e = le_recorded_at f \<and> le_prev_hash e = le_prev_hash f) presented original"
proof -
  from assms(3) have "verify_integrity cr presented = Inr ()" "head_hash presented = head_hash original"
    by (auto simp: verify_against_head_def)
  then have eq: "map le_content presented = map le_content original"
    using assms(1,2) assms(4,5) [folded Un_commute [of "set presented"]] by (intro verified_heads_agree [of cr])
  then have len: "length presented = length original" by (metis length_map)
  have c: "le_content (presented ! i) = le_content (original ! i)" if "i < length presented" for i
    using eq that len by (metis nth_map)
  have "list_all2 (\<lambda>e f. le_content e = le_content f) presented original"
    using len c by (simp add: list_all2_conv_all_nth)
  then have "list_all2 (\<lambda>e f. le_seq e = le_seq f \<and> le_kind e = le_kind f \<and> canon (le_payload e) = canon (le_payload f)
         \<and> le_recorded_at e = le_recorded_at f \<and> le_prev_hash e = le_prev_hash f) presented original"
    by (rule list_all2_mono) (use le_content_fields in blast)
  with len show ?thesis by simp
qed

text \<open>Two entries; the digest of the worked example is the text itself, so it has no collisions.\<close>

definition demo_ledger :: ledger where
  "demo_ledger = append_all demo_crypto [(Fin 1, ''action'', VDict []), (Fin 2, ''verdict'', VDict [(''allowed'', VBool True)])] []"

lemma demo_hash_not_genesis: "compute_hash demo_crypto e \<noteq> GENESIS_PREV_HASH"
proof
  assume "compute_hash demo_crypto e = GENESIS_PREV_HASH"
  then have "json demo_repr (VDict (hash_fields e)) = GENESIS_PREV_HASH"
    by (simp only: compute_hash_def hash_input_def canonical_bytes_def) (simp add: demo_crypto_def del: json.simps)
  then have "hd GENESIS_PREV_HASH = CHR ''{''" using json_head(4) [OF demo_repr_ok] by metis
  then show False by (simp add: GENESIS_PREV_HASH_def)
qed

definition demo_one :: "val \<Rightarrow> ledger" where
  "demo_one payload = append_all demo_crypto [(Fin 1, ''verdict'', payload)] []"

definition demo_payload :: "val \<times> val" where
  "demo_payload = (VDict [(''tool'', VStr ''pay''), (''risk'', VInt 2)], VDict [(''risk'', VInt 2), (''tool'', VStr ''pay'')])"

lemma demo_one_verifies: "verify_integrity demo_crypto (demo_one p) = Inr ()"
  unfolding demo_one_def by (rule verify_append_all) (simp add: verify_integrity_def)

lemma demo_one_head: "head_hash (demo_one p) = content_digest demo_crypto (canon (VDict
    [(''seq'', VInt 0), (''kind'', VStr ''verdict''), (''payload'', p), (''recorded_at'', VFloat (Fin 1)),
     (''prev_hash'', VStr GENESIS_PREV_HASH)]))"
  unfolding demo_one_def append_all_def append_entry_def build_entry_def Let_def
  by (simp only: fold.simps case_prod_conv id_apply comp_apply snd_conv append_Nil head_hash_def last.simps
      simp_thms list.distinct if_False if_True list.size of_nat_0 ledger_entry.simps compute_hash_content le_content_def hash_fields_def)

text \<open>The same entry with its keys in another order is accepted under the witnessed head.\<close>

lemma witnessed_head_pins_history_witness:
  "length (demo_one (snd demo_payload)) = length (demo_one (fst demo_payload))
   \<and> list_all2 (\<lambda>e f. le_seq e = le_seq f \<and> le_kind e = le_kind f \<and> canon (le_payload e) = canon (le_payload f)
         \<and> le_recorded_at e = le_recorded_at f \<and> le_prev_hash e = le_prev_hash f)
       (demo_one (snd demo_payload)) (demo_one (fst demo_payload))"
proof (rule witnessed_head_pins_history)
  show "repr_ok (float_repr demo_crypto)" by (simp add: demo_crypto_def demo_repr_ok)
  show "verify_integrity demo_crypto (demo_one (fst demo_payload)) = Inr ()" by (rule demo_one_verifies)
  have "canon (fst demo_payload) = canon (snd demo_payload)" by (simp add: demo_payload_def)
  then have "head_hash (demo_one (fst demo_payload)) = head_hash (demo_one (snd demo_payload))"
    unfolding demo_one_head by simp
  then show "verify_against_head demo_crypto (head_hash (demo_one (fst demo_payload))) (demo_one (snd demo_payload)) = Inr ()"
    using demo_one_verifies by (simp add: verify_against_head_def)
  show "inj_on (sha256 demo_crypto) (hash_input demo_crypto ` (set (demo_one (fst demo_payload)) \<union> set (demo_one (snd demo_payload))))"
    by (simp add: demo_crypto_def inj_on_def)
  show "GENESIS_PREV_HASH \<notin> compute_hash demo_crypto ` (set (demo_one (fst demo_payload)) \<union> set (demo_one (snd demo_payload)))"
    using demo_hash_not_genesis by (metis imageE)
qed

section \<open>Loading\<close>

lemma numbered_sorted: "numbered i es \<Longrightarrow> sorted (map le_seq es) \<and> (\<forall>e \<in> set es. i \<le> le_seq e)"
proof (induction es arbitrary: i)
  case (Cons x es)
  from Cons.IH [of "i + 1"] Cons.prems show ?case by fastforce
qed simp

lemma numbered_distinct: "numbered i es \<Longrightarrow> inj_on le_seq (set es)"
proof (induction es arbitrary: i)
  case (Cons x es)
  have "\<forall>e \<in> set es. le_seq x < le_seq e" using numbered_sorted [of "i + 1" es] Cons.prems by force
  then show ?case using Cons.IH [of "i + 1"] Cons.prems by (auto simp: inj_on_def)
qed simp

text \<open>Loading the entries of a verified ledger in any order, as a store may return them, restores
  that ledger exactly, so that it still verifies and appending continues where it ended.\<close>

theorem load_restores_ledger:
  assumes "verify_integrity cr es = Inr ()" "mset rows = mset es"
  shows "load_entries rows = es"
proof -
  have n: "numbered 0 es" using assms(1) by (simp add: verify_integrity_def verify_from_iff)
  have "sort_key le_seq rows = sort_key le_seq es"
    using assms(2) numbered_distinct [OF n] by (intro sort_key_inj_key_eq) (auto dest: mset_eq_setD)
  also have "\<dots> = es" using numbered_sorted [OF n] by (intro sort_key_id_if_sorted) simp
  finally show ?thesis by (simp add: load_entries_def)
qed

text \<open>The two entries, read back newest first.\<close>

lemma load_restores_ledger_witness: "load_entries (rev demo_ledger) = demo_ledger"
proof (rule load_restores_ledger)
  show "verify_integrity demo_crypto demo_ledger = Inr ()"
    unfolding demo_ledger_def by (rule verify_append_all) (simp add: verify_integrity_def)
qed simp

section \<open>Limits\<close>

text \<open>Dropping the newest entries leaves a ledger that verifies on its own.\<close>

lemma truncation_verifies: "verify_integrity cr (es @ new) = Inr () \<Longrightarrow> verify_integrity cr es = Inr ()"
  unfolding verify_integrity_def
proof -
  have "verify_from cr i p (es @ new) = Inr () \<Longrightarrow> verify_from cr i p es = Inr ()" for i p
    by (induction es arbitrary: i p) auto
  then show "verify_from cr 0 GENESIS_PREV_HASH (es @ new) = Inr () \<Longrightarrow> verify_from cr 0 GENESIS_PREV_HASH es = Inr ()"
    by blast
qed

text \<open>The Merkle root pairs an odd last leaf with itself, so repeating that leaf gives the same root.\<close>

lemma merkle_root_repeats_odd_leaf:
  "merkle_levels cr [a, b, c] = merkle_levels cr [a, b, c, c]"
proof -
  have "merkle_levels cr [a, b, c] = merkle_levels cr [sha256 cr (a @ b), sha256 cr (c @ c)]"
    by (subst merkle_levels.simps) simp
  moreover have "merkle_levels cr [a, b, c, c] = merkle_levels cr [sha256 cr (a @ b), sha256 cr (c @ c)]"
    by (subst merkle_levels.simps) simp
  ultimately show ?thesis by simp
qed

text \<open>The ledger takes kinds that its own list of kinds does not have.\<close>

lemma kinds_not_listed: "''containment'' \<notin> set ALL_KINDS" "''reversal_gate_blocked'' \<notin> set ALL_KINDS"
  by (simp_all add: ALL_KINDS_def)

end
