(* ===== verification/Horizon.thy ===== *)
theory Horizon
  imports UndoCascade
begin

text \<open>
  \<open>reversal/horizon.py\<close> and \<open>ReversalEngine.horizon\<close>: which undo options are still open, and when
  each one closes. The clock reading is an argument.
\<close>

section \<open>Entries\<close>

record horizon_entry =
  hz_journal_id :: string
  hz_action_id :: "string option"
  hz_tool :: string
  hz_kind :: reversibility
  hz_session_id :: string
  hz_delegation_id :: "string option"
  hz_committed_at :: "rat option"
  hz_expires_at :: "rat option"
  hz_seconds_remaining :: "rat option"
  hz_one_shot :: bool
  hz_residue :: string
  hz_gates :: "string list"
  hz_reason :: string

definition has_deadline :: "horizon_entry \<Rightarrow> bool" where
  "has_deadline h \<longleftrightarrow> hz_expires_at h \<noteq> None"

definition horizon_entry_of :: "rat \<Rightarrow> string \<Rightarrow> journal_entry \<Rightarrow> horizon_entry" where
  "horizon_entry_of now reason e =
     \<lparr>hz_journal_id = je_id e, hz_action_id = je_action_id e, hz_tool = rp_tool (je_plan e),
      hz_kind = rp_kind (je_plan e), hz_session_id = je_session_id e, hz_delegation_id = je_delegation_id e,
      hz_committed_at = je_committed_at e, hz_expires_at = entry_expires_at e,
      hz_seconds_remaining = map_option (\<lambda>x. x - now) (entry_expires_at e),
      hz_one_shot = rp_one_shot (je_plan e), hz_residue = rp_residue (je_plan e),
      hz_gates = map g_name (rp_gates (je_plan e)), hz_reason = reason\<rparr>"

definition v_opt_round :: "rat option \<Rightarrow> val" where
  "v_opt_round x = (case x of None \<Rightarrow> VNone | Some t \<Rightarrow> VFloat (Fin (py_round t 2)))"

definition horizon_entry_to_dict :: "horizon_entry \<Rightarrow> val" where
  "horizon_entry_to_dict h = VDict
    [(''journal_id'', VStr (hz_journal_id h)), (''action_id'', v_opt_str (hz_action_id h)),
     (''tool'', VStr (hz_tool h)), (''kind'', VStr (posture_value (hz_kind h))),
     (''session_id'', VStr (hz_session_id h)), (''delegation_id'', v_opt_str (hz_delegation_id h)),
     (''committed_at'', v_opt_time (hz_committed_at h)), (''expires_at'', v_opt_time (hz_expires_at h)),
     (''seconds_remaining'', v_opt_round (hz_seconds_remaining h)), (''one_shot'', VBool (hz_one_shot h)),
     (''gates'', v_strs (hz_gates h)), (''residue'', VStr (hz_residue h)), (''reason'', VStr (hz_reason h))]"

section \<open>The view\<close>

record horizon =
  ho_at :: rat
  ho_warn_within :: rat
  ho_closing :: "horizon_entry list"
  ho_open :: "horizon_entry list"
  ho_expired :: "horizon_entry list"
  ho_standing :: "horizon_entry list"
  ho_broken :: "horizon_entry list"
  ho_notes :: "string list"

definition DEFAULT_WARN_WITHIN :: rat where
  "DEFAULT_WARN_WITHIN = 3600"

definition time_to_first_close :: "horizon \<Rightarrow> rat option" where
  "time_to_first_close h = (case ho_closing h of [] \<Rightarrow> None | x # _ \<Rightarrow> hz_seconds_remaining x)"

definition next_to_close :: "horizon \<Rightarrow> horizon_entry option" where
  "next_to_close h = (case ho_closing h of [] \<Rightarrow> None | x # _ \<Rightarrow> Some x)"

definition closing_soon :: "horizon \<Rightarrow> horizon_entry list" where
  "closing_soon h = filter (\<lambda>e. case hz_seconds_remaining e of None \<Rightarrow> False | Some t \<Rightarrow> t \<le> ho_warn_within h) (ho_closing h)"

definition undoable_count :: "horizon \<Rightarrow> nat" where
  "undoable_count h = length (ho_closing h) + length (ho_open h)"

definition unrecoverable_count :: "horizon \<Rightarrow> nat" where
  "unrecoverable_count h = length (ho_expired h) + length (ho_standing h) + length (ho_broken h)"

definition recoverable_fraction :: "horizon \<Rightarrow> rat" where
  "recoverable_fraction h =
     (let total = undoable_count h + unrecoverable_count h
      in if total = 0 then 1 else of_nat (undoable_count h) / of_nat total)"

definition v_len :: "'a list \<Rightarrow> val" where
  "v_len xs = VInt (int (length xs))"

definition v_entries :: "horizon_entry list \<Rightarrow> val" where
  "v_entries xs = VList (map horizon_entry_to_dict xs)"

definition horizon_to_dict :: "horizon \<Rightarrow> val" where
  "horizon_to_dict h = VDict
    [(''at'', VFloat (Fin (ho_at h))), (''warn_within'', VFloat (Fin (ho_warn_within h))),
     (''time_to_first_close'', v_opt_round (time_to_first_close h)),
     (''undoable'', VInt (int (undoable_count h))), (''unrecoverable'', VInt (int (unrecoverable_count h))),
     (''recoverable_fraction'', VFloat (Fin (py_round (recoverable_fraction h) 4))),
     (''counts'', VDict
       [(''closing'', v_len (ho_closing h)), (''closing_soon'', v_len (closing_soon h)),
        (''open_indefinitely'', v_len (ho_open h)), (''expired'', v_len (ho_expired h)),
        (''standing_exposure'', v_len (ho_standing h)), (''broken'', v_len (ho_broken h))]),
     (''closing'', v_entries (ho_closing h)), (''closing_soon'', v_entries (closing_soon h)),
     (''open_indefinitely'', v_entries (ho_open h)), (''expired'', v_entries (ho_expired h)),
     (''standing_exposure'', v_entries (ho_standing h)), (''broken'', v_entries (ho_broken h)),
     (''notes'', v_strs (ho_notes h))]"

section \<open>Sorting entries into the view\<close>

datatype bucket = BClosing | BOpen | BExpired | BStanding | BBroken

text \<open>Where the loop puts an entry and with what reason; \<open>None\<close> for an entry it skips.\<close>

definition or_text :: "string option \<Rightarrow> string \<Rightarrow> string" where
  "or_text x dflt = (case x of Some (c # cs) \<Rightarrow> c # cs | _ \<Rightarrow> dflt)"

definition bucket_of :: "rat \<Rightarrow> journal_entry \<Rightarrow> (bucket \<times> string) option" where
  "bucket_of now e =
     (let p = je_plan e in
      if je_state e = EXPIRED then Some (BExpired, ''undo window closed'')
      else if je_state e = FAILED then Some (BStanding, ''undo was attempted and failed: '' @ or_text (je_error e) ''?'')
      else if je_state e \<noteq> COMMITTED then None
      else if is_one_way (rp_kind p) then Some (BStanding, posture_value (rp_kind p) @ '': no undo path exists'')
      else if is_broken p then
        Some (BBroken, (if rp_unresolved_args p \<noteq> [] then ''unresolved inverse arguments '' @ repr_strs (rp_unresolved_args p)
                        else or_text (rp_snapshot_error p) ''incomplete plan''))
      else if entry_is_expired now e then Some (BExpired, ''past its window; not yet swept by expire_stale()'')
      else if entry_expires_at e = None then Some (BOpen, [])
      else Some (BClosing, []))"

definition in_bucket :: "rat \<Rightarrow> bucket \<Rightarrow> journal_entry list \<Rightarrow> horizon_entry list" where
  "in_bucket now b es =
     List.map_filter (\<lambda>e. case bucket_of now e of
        Some (b', reason) \<Rightarrow> if b' = b then Some (horizon_entry_of now reason e) else None
      | None \<Rightarrow> None) es"

text \<open>\<open>{x:.1f}\<close> of a number that is not negative.\<close>

definition show_fixed1 :: "rat \<Rightarrow> string" where
  "show_fixed1 x =
     (let n = nat (floor (py_round x 1 * 10)) in show_nat (n div 10) @ ''.'' @ show_nat (n mod 10))"

definition horizon_notes :: "rat \<Rightarrow> horizon \<Rightarrow> string list" where
  "horizon_notes warn h =
     (if ho_broken h = [] then [] else
        [show_nat (length (ho_broken h)) @ '' action(s) claim an undo path that could not actually be ''
         @ ''executed. These are the dangerous ones: they read as recoverable in every report except this one.''])
   @ (if closing_soon h = [] then [] else
        [show_nat (length (closing_soon h)) @ '' undo window(s) close within '' @ show_fixed1 (warn / 3600)
         @ ''h. After that the choice is gone, not merely harder.''])
   @ (if ho_standing h = [] \<or> ho_closing h \<noteq> [] then [] else
        [''Nothing is counting down, but that is not the same as safe'' @ dash
         @ show_nat (length (ho_standing h)) @ '' committed action(s) were never undoable at all.''])"

definition build :: "rat \<Rightarrow> rat \<Rightarrow> journal_entry list \<Rightarrow> horizon" where
  "build now warn es =
     (let h = \<lparr>ho_at = now, ho_warn_within = warn,
               ho_closing = sort_key (\<lambda>x. case hz_seconds_remaining x of None \<Rightarrow> 0 | Some t \<Rightarrow> t) (in_bucket now BClosing es),
               ho_open = in_bucket now BOpen es, ho_expired = in_bucket now BExpired es,
               ho_standing = in_bucket now BStanding es, ho_broken = in_bucket now BBroken es, ho_notes = []\<rparr>
      in h\<lparr>ho_notes := horizon_notes warn h\<rparr>)"

definition engine_horizon :: "rat \<Rightarrow> rat \<Rightarrow> string option \<Rightarrow> string option \<Rightarrow> rengine \<Rightarrow> horizon" where
  "engine_horizon now warn session deleg eng =
     build now warn
       (filter (\<lambda>e. (case deleg of None \<Rightarrow> True | Some d \<Rightarrow> je_delegation_id e = Some d))
         (filter (\<lambda>e. (case session of None \<Rightarrow> True | Some s \<Rightarrow> je_session_id e = s)) (journal_values eng)))"

end
