(* ===== verification/HorizonProps.thy ===== *)
theory HorizonProps
  imports Horizon
begin

text \<open>
  What the horizon guarantees: it accounts for every entry that is exposure and for no other, the
  soonest deadline comes first, and what it offers as undoable is what an undo accepts.
\<close>

definition is_exposure :: "journal_entry \<Rightarrow> bool" where
  "is_exposure e \<longleftrightarrow> je_state e \<in> {COMMITTED, EXPIRED, FAILED}"

lemma bucket_of_exposure: "bucket_of now e \<noteq> None \<longleftrightarrow> is_exposure e"
  by (auto simp: bucket_of_def Let_def is_exposure_def)

lemma in_bucket_Nil [simp]: "in_bucket now b [] = []"
  by (simp add: in_bucket_def List.map_filter_def)

lemma in_bucket_Cons: "in_bucket now b (e # es) =
    (case bucket_of now e of Some (b', reason) \<Rightarrow> if b' = b then [horizon_entry_of now reason e] else [] | None \<Rightarrow> [])
    @ in_bucket now b es"
  by (auto simp: in_bucket_def List.map_filter_def split: option.splits)

lemma in_bucket_member: "x \<in> set (in_bucket now b es) \<longleftrightarrow>
    (\<exists>e reason. e \<in> set es \<and> bucket_of now e = Some (b, reason) \<and> x = horizon_entry_of now reason e)"
proof (induction es)
  case Nil
  then show ?case by simp
next
  case (Cons e es)
  have "x \<in> set (in_bucket now b (e # es)) \<longleftrightarrow>
      (\<exists>reason. bucket_of now e = Some (b, reason) \<and> x = horizon_entry_of now reason e) \<or> x \<in> set (in_bucket now b es)"
    unfolding in_bucket_Cons by (cases "bucket_of now e") auto
  then show ?case unfolding Cons.IH by (auto simp del: split_paired_Ex)
qed

lemma buckets_total:
  "length (in_bucket now BClosing es) + length (in_bucket now BOpen es) + (length (in_bucket now BExpired es)
     + length (in_bucket now BStanding es) + length (in_bucket now BBroken es)) = length (filter is_exposure es)"
proof (induction es)
  case Nil
  then show ?case by simp
next
  case (Cons e es)
  show ?case
  proof (cases "bucket_of now e")
    case None
    then have "\<not> is_exposure e" using bucket_of_exposure [of now e] by simp
    then show ?thesis using None Cons.IH by (simp add: in_bucket_Cons)
  next
    case (Some br)
    then have "is_exposure e" using bucket_of_exposure [of now e] by simp
    moreover obtain b reason where "br = (b, reason)" by (cases br)
    ultimately show ?thesis using Some Cons.IH by (cases b) (simp_all add: in_bucket_Cons)
  qed
qed

lemma closing_facts:
  assumes "bucket_of now e = Some (BClosing, reason)"
  shows "\<exists>t. entry_expires_at e = Some t \<and> now < t"
  using assms by (auto simp: bucket_of_def Let_def entry_is_expired_def split: if_splits option.splits)

lemma build_simps [simp]:
  "ho_open (build now warn es) = in_bucket now BOpen es" "ho_expired (build now warn es) = in_bucket now BExpired es"
  "ho_standing (build now warn es) = in_bucket now BStanding es" "ho_broken (build now warn es) = in_bucket now BBroken es"
  "set (ho_closing (build now warn es)) = set (in_bucket now BClosing es)"
  "length (ho_closing (build now warn es)) = length (in_bucket now BClosing es)"
  by (simp_all add: build_def Let_def)

definition remaining_time :: "horizon_entry \<Rightarrow> rat" where
  "remaining_time x = (case hz_seconds_remaining x of None \<Rightarrow> 0 | Some t \<Rightarrow> t)"

lemma closing_sorted: "sorted (map remaining_time (ho_closing (build now warn es)))"
  unfolding build_def Let_def remaining_time_def by simp

lemma closing_remaining: "x \<in> set (ho_closing (build now warn es)) \<Longrightarrow> \<exists>t > 0. hz_seconds_remaining x = Some t"
  by (auto simp: in_bucket_member horizon_entry_of_def dest!: closing_facts)

text \<open>The horizon accounts for every entry that was committed, expired or failed, exactly once, and for
  no other; every option it lists as closing still has time left, and the time to the first close
  is the least time left of any of them.\<close>

theorem horizon_accounts:
  "undoable_count (build now warn es) + unrecoverable_count (build now warn es) = length (filter is_exposure es)
   \<and> (\<forall>x \<in> set (ho_closing (build now warn es)). \<exists>t > 0. hz_seconds_remaining x = Some t)
   \<and> (\<forall>t. time_to_first_close (build now warn es) = Some t \<longrightarrow>
        (\<forall>x \<in> set (ho_closing (build now warn es)). \<exists>s \<ge> t. hz_seconds_remaining x = Some s))"
proof (intro conjI allI impI)
  show "undoable_count (build now warn es) + unrecoverable_count (build now warn es) = length (filter is_exposure es)"
    using buckets_total [of now es] by (simp add: undoable_count_def unrecoverable_count_def)
  show "\<forall>x \<in> set (ho_closing (build now warn es)). \<exists>t > 0. hz_seconds_remaining x = Some t"
    using closing_remaining by blast
  fix t assume t: "time_to_first_close (build now warn es) = Some t"
  then obtain y ys where c: "ho_closing (build now warn es) = y # ys" "hz_seconds_remaining y = Some t"
    by (auto simp: time_to_first_close_def split: list.splits)
  show "\<forall>x \<in> set (ho_closing (build now warn es)). \<exists>s \<ge> t. hz_seconds_remaining x = Some s"
  proof
    fix x assume x: "x \<in> set (ho_closing (build now warn es))"
    then obtain s where s: "hz_seconds_remaining x = Some s" using closing_remaining by blast
    from closing_sorted [of now warn es] x have "remaining_time y \<le> remaining_time x" by (auto simp: c(1))
    with s c(2) show "\<exists>s \<ge> t. hz_seconds_remaining x = Some s" by (simp add: remaining_time_def)
  qed
qed

section \<open>Against the undo\<close>

lemma offered_accepted:
  assumes "bucket_of now e = Some (b, reason)" "b = BClosing \<or> b = BOpen" "is_executable (je_plan e)"
  shows "reverse_refusal e = None \<and> \<not> entry_is_expired now e"
  using assms by (auto simp: bucket_of_def Let_def reverse_refusal_def is_broken_def is_executable_def split: if_splits)

lemma not_offered_refused:
  assumes "bucket_of now e = Some (b, reason)" "b \<noteq> BClosing" "b \<noteq> BOpen" "je_state e \<noteq> FAILED"
    "\<not> has_text (rp_snapshot_error (je_plan e))"
  shows "reverse_refusal e \<noteq> None \<or> entry_is_expired now e"
  using assms
  by (auto simp: bucket_of_def Let_def reverse_refusal_def is_broken_def is_executable_def split: if_splits
      dest: undoable_exclusive)


text \<open>A worked entry: a committed, undoable payment with an hour left.\<close>

definition demo_entry :: "reversibility \<Rightarrow> rat option \<Rightarrow> journal_entry" where
  "demo_entry k window =
     \<lparr>je_id = ''j1'',
      je_plan = \<lparr>rp_id = ''p1'', rp_tool = ''pay'', rp_kind = k, rp_inverse_tool = Some ''void'', rp_inverse_args = [],
         rp_unresolved_args = [], rp_snapshot = [], rp_window_seconds = window, rp_residue = [], rp_created_at = 0,
         rp_snapshot_error = None, rp_deferred_args = [],
         rp_steps = [\<lparr>ps_name = ''void'', ps_tool = ''void'', ps_args = [], ps_unresolved = [], ps_deferred = [],
            ps_from_prior_step = [], ps_description = [], ps_critical = True\<rparr>],
         rp_gates = [], rp_one_shot = False\<rparr>,
      je_state = COMMITTED, je_action_id = Some ''a1'', je_delegation_id = None, je_session_id = [],
      je_actor_id = None, je_committed_at = Some 10, je_resolved_at = None, je_reversal_result = VNone,
      je_error = None, je_note = [], je_history = []\<rparr>"

lemma demo_entry_bucket: "bucket_of 100 (demo_entry REVERSIBLE (Some 3600)) = Some (BClosing, [])"
  by (simp add: bucket_of_def demo_entry_def is_broken_def entry_is_expired_def entry_expires_at_def plan_expires_at_def)


lemma horizon_accounts_witness:
  "undoable_count (build 100 60 [demo_entry REVERSIBLE (Some 3600)])
     + unrecoverable_count (build 100 60 [demo_entry REVERSIBLE (Some 3600)]) = 1
   \<and> (\<exists>s \<ge> 3510. hz_seconds_remaining (horizon_entry_of 100 [] (demo_entry REVERSIBLE (Some 3600))) = Some s)"
proof
  let ?e = "demo_entry REVERSIBLE (Some 3600)" and ?h = "build 100 60 [demo_entry REVERSIBLE (Some 3600)]"
  note acc = horizon_accounts [of 100 60 "[?e]"]
  show "undoable_count ?h + unrecoverable_count ?h = 1"
    using acc by (simp add: is_exposure_def) (simp add: demo_entry_def)
  have x: "horizon_entry_of 100 [] ?e \<in> set (ho_closing ?h)" by (simp add: in_bucket_Cons demo_entry_bucket)
  have "ho_closing ?h = [horizon_entry_of 100 [] ?e]" by (simp add: build_def in_bucket_Cons demo_entry_bucket)
  then have "time_to_first_close ?h = Some 3510"
    by (simp add: time_to_first_close_def horizon_entry_of_def entry_expires_at_def plan_expires_at_def demo_entry_def)
  with acc x show "\<exists>s \<ge> 3510. hz_seconds_remaining (horizon_entry_of 100 [] ?e) = Some s" by blast
qed

text \<open>An action that changed nothing is counted as undoable, though an undo of it is refused.\<close>

lemma idempotent_offered_but_refused:
  "bucket_of 100 (demo_entry IDEMPOTENT None) = Some (BOpen, [])"
  "reverse_refusal (demo_entry IDEMPOTENT None) = Some NotReversible"
  by (simp_all add: bucket_of_def demo_entry_def is_broken_def entry_is_expired_def entry_expires_at_def
      plan_expires_at_def reverse_refusal_def is_executable_def)

end
