(* ===== verification/Shell.thy ===== *)
theory Shell
  imports Regex ApStarter UndoEngine
begin

text \<open>
  \<open>reversal/shell.py\<close>: how far a shell command reaches, from its text alone. A command is a list
  of code points. What depends on the host - the home directory, variables, links - is a record the
  definitions take: the components of the snapshot root, and of a path written in the command once
  expanded, joined to the root and resolved.
\<close>

section \<open>Reach\<close>

datatype reach = READ_ONLY | LOCAL | ESCAPES | UNREADABLE

fun reach_value :: "reach \<Rightarrow> string" where
  "reach_value READ_ONLY = ''read_only''"
| "reach_value LOCAL = ''local''"
| "reach_value ESCAPES = ''escapes''"
| "reach_value UNREADABLE = ''unknown''"

fun reach_rank :: "reach \<Rightarrow> nat" where
  "reach_rank READ_ONLY = 0"
| "reach_rank LOCAL = 1"
| "reach_rank UNREADABLE = 2"
| "reach_rank ESCAPES = 3"

definition worst :: "reach \<Rightarrow> reach \<Rightarrow> reach" where
  "worst a b = (if reach_rank a < reach_rank b then b else a)"

record shell_verdict =
  sv_reach :: reach
  sv_posture :: reversibility
  sv_why :: string
  sv_needs_snapshot :: bool

record shell_host =
  sh_root :: "string \<Rightarrow> pyexn + nat list list"
  sh_resolve :: "nat list list \<Rightarrow> nat list \<Rightarrow> nat list list option"
  sh_exc_text :: "revoco_error \<Rightarrow> string"

section \<open>Names\<close>

definition asc :: "string \<Rightarrow> nat list" where
  "asc s = map of_char s"

definition named :: "nat list \<Rightarrow> string list \<Rightarrow> bool" where
  "named t ws \<longleftrightarrow> list_ex (\<lambda>w. asc w = t) ws"

definition READ_ONLY_COMMANDS :: "string list" where
  "READ_ONLY_COMMANDS =
    [''awk'', ''basename'', ''cat'', ''cksum'', ''column'', ''comm'', ''cut'', ''date'', ''df'',
     ''diff'', ''dirname'', ''du'', ''echo'', ''env'', ''false'', ''file'', ''find'', ''grep'',
     ''head'', ''hostname'', ''id'', ''jq'', ''less'', ''ls'', ''md5sum'', ''more'', ''nl'', ''od'',
     ''printenv'', ''printf'', ''ps'', ''pwd'', ''readlink'', ''realpath'', ''rg'', ''sed'',
     ''seq'', ''sha1sum'', ''sha256sum'', ''sleep'', ''sort'', ''stat'', ''tail'', ''tee'',
     ''test'', ''top'', ''tr'', ''true'', ''type'', ''uname'', ''uniq'', ''uptime'', ''wc'',
     ''whereis'', ''which'', ''who'', ''whoami'', ''xxd'', ''yes'',
     ''read'', ''local'', ''declare'', ''typeset'', ''set'', ''unset'', ''shift'', ''export'',
     ''return'', ''break'', ''continue'', ''exit'', ''trap'', ''alias'', ''let'', ''getopts'',
     ''base64'', ''cmp'', ''dig'', ''expr'', ''host'', ''join'', ''locale'', ''look'',
     ''nproc'', ''ping'', ''pgrep'', ''sha512sum'', ''strings'', ''tty'',
     ''uuidgen'', ''wait'', ''watch'', ''xargs-noop'']"

definition READ_ONLY_SUBCOMMANDS :: "(string \<times> string list) list" where
  "READ_ONLY_SUBCOMMANDS =
    [(''git'', [''status'', ''log'', ''diff'', ''show'', ''branch'', ''remote'', ''config'',
        ''rev-parse'', ''describe'', ''blame'', ''ls-files'', ''ls-tree'', ''cat-file'',
        ''shortlog'', ''reflog'', ''count-objects'', ''check-ignore'', ''grep'']),
     (''docker'', [''ps'', ''images'', ''inspect'', ''logs'', ''version'', ''info'']),
     (''kubectl'', [''get'', ''describe'', ''logs'', ''explain'', ''version'', ''top'']),
     (''npm'', [''ls'', ''list'', ''view'', ''outdated'', ''audit'', ''why'']),
     (''pip'', [''list'', ''show'', ''freeze'', ''check'']),
     (''uv'', [''tree'', ''version'']),
     (''cargo'', [''tree'', ''metadata'', ''search'']),
     (''gh'', [''status'', ''browse'', ''search'', ''auth'', ''config'', ''label'', ''ruleset'']),
     (''python'', []), (''python3'', []), (''make'', []), (''pytest'', []), (''pipx'', [''list'']), (''curl'', []),
     (''terraform'', [''plan'', ''show'', ''validate'', ''fmt'', ''version'', ''output''])]"

definition LOCAL_WRITE_COMMANDS :: "string list" where
  "LOCAL_WRITE_COMMANDS =
    [''rm'', ''rmdir'', ''mv'', ''cp'', ''mkdir'', ''touch'', ''ln'', ''chmod'', ''chown'',
     ''truncate'', ''install'', ''patch'', ''split'', ''gzip'', ''gunzip'', ''bzip2'', ''xz'',
     ''zip'', ''unzip'', ''tar'']"

definition NAVIGATION_COMMANDS :: "string list" where
  "NAVIGATION_COMMANDS = [''cd'', ''pushd'', ''popd'', ''dirs'']"

definition SHELL_KEYWORDS :: "string list" where
  "SHELL_KEYWORDS = [''do'', ''done'', ''if'', ''then'', ''elif'', ''else'', ''fi'', ''while'', ''until'',
     ''esac'', ''function'', ''{'', ''}'', ''!'', ''[['', '']]'']"

definition CONTROL_HEADERS :: "string list" where
  "CONTROL_HEADERS = [''for'', ''select'', ''case'']"

definition WRAPPERS :: "string list" where
  "WRAPPERS = [''command'', ''nice'', ''nohup'', ''time'', ''env'', ''sudo-less'']"

section \<open>Patterns\<close>

text \<open>Only whether a pattern occurs matters, so the look-ahead that ends the \<open>curl\<close> rule is what
  follows it. The anchored alternative of the last opaque pattern is \<open>leading_dot\<close>.\<close>

definition rany :: rx where
  "rany = RRep 0 None (RSet True [ILit 10])"

definition rspace :: rx where
  "rspace = RSet False [ISpace]"

definition rgap :: rx where
  "rgap = RRep 0 None rspace"

definition rvisible :: rx where
  "rvisible = RSet True [ISpace]"

definition rmethod :: rx where
  "rmethod = rwords [''POST'', ''PUT'', ''PATCH'', ''DELETE'']"

definition rword :: "string \<Rightarrow> rx" where
  "rword s = rseq [RWordBoundary, rlit s]"

definition rpair :: "string \<Rightarrow> string \<Rightarrow> rx" where
  "rpair a b = rseq [rlit a, rspaces, rlit b]"

definition ESCAPE_PATTERNS :: "(rx \<times> string) list" where
  "ESCAPE_PATTERNS =
    [(rseq [rword ''git'', rspaces, rlit ''push'', RWordBoundary, rany,
        ralt [rlit ''--force'', rlit ''--delete'', rseq [rlit ''-f'', RWordBoundary]]],
      ''force-pushes or deletes a remote ref; anyone who already fetched keeps the old history''),
     (rseq [rword ''git'', rspaces, rlit ''push'', RWordBoundary],
      ''publishes commits to a remote; a local undo does not retract them''),
     (rseq [rword ''git'', rspaces, rlit ''tag'', RWordBoundary, rany, rspace, rlit ''-d'', RWordBoundary, rany],
      ''deletes a tag others may already have fetched''),
     (rseq [rword ''gh'', rspaces, ralt [rpair ''pr'' ''merge'', rpair ''release'' ''create'', rpair ''repo'' ''delete'',
        rseq [rlit ''api'', rspaces, rany, rlit ''-X'', rgap, rmethod]]],
      ''changes state on GitHub, outside anything this machine can restore''),
     (rseq [rword ''npm'', rspaces, rwords [''publish'', ''unpublish''], RWordBoundary],
      ''publishes to npm; registry versions are immutable''),
     (rseq [RWordBoundary, ralt [rpair ''twine'' ''upload'', rpair ''uv'' ''publish'', rpair ''flit'' ''publish''], RWordBoundary],
      ''publishes to PyPI; versions cannot be replaced, only yanked''),
     (rseq [rword ''cargo'', rspaces, rlit ''publish'', RWordBoundary],
      ''publishes to crates.io; versions are permanent''),
     (rseq [rword ''docker'', rspaces, rlit ''push'', RWordBoundary], ''pushes an image to a registry''),
     (rseq [rword ''terraform'', rspaces, rwords [''apply'', ''destroy''], RWordBoundary], ''changes real infrastructure''),
     (rseq [RWordBoundary, rwords [''aws'', ''gcloud'', ''az''], rspaces],
      ''acts on a cloud account; nothing local reverses it''),
     (rseq [rword ''kubectl'', rspaces,
        rwords [''apply'', ''delete'', ''scale'', ''patch'', ''replace'', ''drain'', ''cordon'', ''rollout''], RWordBoundary],
      ''changes cluster state''),
     (rseq [rword ''helm'', rspaces, rwords [''install'', ''upgrade'', ''uninstall'', ''rollback''], RWordBoundary],
      ''changes cluster state''),
     (rseq [rword ''curl'', RWordBoundary, rany,
        ralt [rseq [rlit ''-X'', rgap, rmethod], rlit ''--data'', rseq [rlit ''-d'', rspace], rlit ''--upload-file'',
              rseq [rlit ''-T'', rspace]]],
      ''sends data to a remote service; the request cannot be recalled''),
     (rseq [rword ''wget'', RWordBoundary, rany,
        ralt [rlit ''--post-data'', rlit ''--post-file'', rseq [rlit ''--method='', rmethod]]],
      ''sends data to a remote service''),
     (rseq [rword ''httpi'', ropt (rlit ''e''), RWordBoundary, rany, RWordBoundary, rmethod, RWordBoundary],
      ''sends data to a remote service''),
     (rseq [rword ''ssh'', RWordBoundary, rspaces, RRep 1 None rvisible, rspaces, rvisible],
      ''runs a command on another machine, outside this snapshot''),
     (rseq [RWordBoundary, rwords [''scp'', ''rsync''], RWordBoundary, rany, RRep 1 None rvisible, rlit '':''],
      ''copies to or from another machine''),
     (rseq [RWordBoundary, ralt [rlit ''sendmail'', rseq [rlit ''mail'', ropt (rlit ''x'')], rlit ''mutt''], RWordBoundary],
      ''sends mail; it cannot be unsent''),
     (rseq [RWordBoundary, rwords [''psql'', ''mysql'', ''mongosh'', ''redis-cli''], RWordBoundary, rany,
        rwords [''DROP'', ''DELETE'', ''TRUNCATE'', ''FLUSHALL'']],
      ''destructive statement against a database server''),
     (rseq [rword ''sudo'', RWordBoundary], ''runs as root; changes outside the working tree are not snapshotted''),
     (rseq [RWordBoundary, rwords [''mkfs'', ''fdisk'', ''dd''], RWordBoundary], ''writes at the device level''),
     (rseq [rword ''shred'', RWordBoundary], ''overwrites data specifically so it cannot be recovered'')]"

definition OPAQUE_PATTERNS :: "rx list" where
  "OPAQUE_PATTERNS =
    [rlit ''$('', rchar 96, rseq [rword ''eval'', RWordBoundary], rseq [rword ''exec'', RWordBoundary],
     rseq [rlit ''|'', rgap, ropt (rwords [''ba'', ''z'', ''k'']), rlit ''sh'', RWordBoundary],
     rseq [rword ''xargs'', RWordBoundary], rseq [rword ''source'', RWordBoundary]]"

definition leading_dot :: "nat list \<Rightarrow> bool" where
  "leading_dot cs \<longleftrightarrow> (case dropWhile is_space cs of [] \<Rightarrow> False | c # _ \<Rightarrow> c = 46)"

definition escape_why :: "pyrt \<Rightarrow> nat list \<Rightarrow> string option" where
  "escape_why rt cs = map_option snd (find (\<lambda>(r, _). rx_search rt True r cs \<noteq> None) ESCAPE_PATTERNS)"

definition opaque :: "pyrt \<Rightarrow> nat list \<Rightarrow> bool" where
  "opaque rt cs \<longleftrightarrow> list_ex (\<lambda>r. rx_search rt False r cs \<noteq> None) OPAQUE_PATTERNS \<or> leading_dot cs"

section \<open>Heredocs\<close>

definition strip_ws :: "nat list \<Rightarrow> nat list" where
  "strip_ws cs = List.rev (dropWhile is_space (List.rev (dropWhile is_space cs)))"

fun split_lines :: "nat list \<Rightarrow> nat list list" where
  "split_lines [] = [[]]"
| "split_lines (c # cs) =
     (case split_lines cs of
        l # ls \<Rightarrow> if c = 10 then [] # l # ls else (c # l) # ls
      | [] \<Rightarrow> [])"

fun join_lines :: "nat list list \<Rightarrow> nat list" where
  "join_lines [] = []"
| "join_lines [l] = l"
| "join_lines (l # ls) = l @ 10 # join_lines ls"

definition ident_start :: "nat \<Rightarrow> bool" where
  "ident_start c \<longleftrightarrow> (65 \<le> c \<and> c \<le> 90) \<or> (97 \<le> c \<and> c \<le> 122) \<or> c = 95"

definition take_ident :: "nat list \<Rightarrow> (nat list \<times> nat list) option" where
  "take_ident cs =
     (case cs of [] \<Rightarrow> None
      | c # _ \<Rightarrow> if ident_start c then
           Some (takeWhile (\<lambda>x. ascii_alnum x \<or> x = 95) cs, dropWhile (\<lambda>x. ascii_alnum x \<or> x = 95) cs)
         else None)"

text \<open>\<open>_HEREDOC\<close> at the start of a text: the tag and what follows the match.\<close>

definition heredoc_at :: "nat list \<Rightarrow> (nat list \<times> nat list) option" where
  "heredoc_at cs =
     (if take 2 cs \<noteq> [60, 60] then None
      else (let r1 = drop 2 cs; r2 = (if take 1 r1 = [45] then drop 1 r1 else r1); r3 = dropWhile is_space r2 in
        case r3 of [] \<Rightarrow> None
        | q # r4 \<Rightarrow>
            if q = 39 \<or> q = 34 then
              (case take_ident r4 of None \<Rightarrow> None
               | Some (tag, rest) \<Rightarrow> if take 1 rest = [q] then Some (tag, drop 1 rest) else None)
            else take_ident r3))"

lemma take_ident_le: "take_ident cs = Some (tag, rest) \<Longrightarrow> length rest \<le> length cs"
proof -
  assume "take_ident cs = Some (tag, rest)"
  then have "rest = dropWhile (\<lambda>x. ascii_alnum x \<or> x = 95) cs"
    by (simp add: take_ident_def del: dropWhile.simps split: list.splits if_splits)
  then show ?thesis by (simp add: length_dropWhile_le)
qed

lemma heredoc_at_shorter: "heredoc_at cs = Some (tag, rest) \<Longrightarrow> length rest < length cs"
proof -
  assume h: "heredoc_at cs = Some (tag, rest)"
  then have two: "take 2 cs = [60, 60]" by (auto simp: heredoc_at_def split: if_splits)
  then have n: "2 \<le> length cs" by (metis length_Cons list.size(3) length_take min.absorb_iff2 min.commute One_nat_def Suc_1 le_refl)
  let ?r2 = "if take 1 (drop 2 cs) = [45] then drop 1 (drop 2 cs) else drop 2 cs"
  obtain q r4 where r: "dropWhile is_space ?r2 = q # r4"
    using h two by (cases "dropWhile is_space ?r2") (simp_all add: heredoc_at_def Let_def del: dropWhile_eq_Nil_conv)
  have le: "length (q # r4) \<le> length (drop 2 cs)"
    unfolding r [symmetric] by (rule le_trans [OF length_dropWhile_le]) auto
  have "length rest \<le> length (q # r4)"
  proof (cases "q = 39 \<or> q = 34")
    case True
    with h two r obtain rest' where "take_ident r4 = Some (tag, rest')" "rest = drop 1 rest'"
      by (auto simp: heredoc_at_def Let_def split: option.splits if_splits)
    then show ?thesis using take_ident_le [of r4 tag rest'] by auto
  next
    case False
    with h two r have "take_ident (q # r4) = Some (tag, rest)" by (simp add: heredoc_at_def Let_def)
    then show ?thesis by (rule take_ident_le)
  qed
  then show ?thesis using le n by auto
qed

function heredoc_tags :: "nat list \<Rightarrow> nat list list" where
  "heredoc_tags [] = []"
| "heredoc_tags (c # cs) =
     (case heredoc_at (c # cs) of None \<Rightarrow> heredoc_tags cs | Some (tag, rest) \<Rightarrow> tag # heredoc_tags rest)"
  by pat_completeness auto
termination
  by (relation "measure length") (auto dest: heredoc_at_shorter)

fun skip_body :: "nat list \<Rightarrow> nat list list \<Rightarrow> nat list list" where
  "skip_body tag [] = []"
| "skip_body tag (l # ls) = (if strip_ws l = tag then ls else skip_body tag ls)"

lemma skip_body_le: "length (skip_body tag ls) \<le> length ls"
  by (induction ls) auto

lemma skip_bodies_le: "length (fold skip_body tags ls) \<le> length ls"
  by (induction tags arbitrary: ls) (auto intro: le_trans skip_body_le)

function drop_bodies :: "nat list list \<Rightarrow> nat list list" where
  "drop_bodies [] = []"
| "drop_bodies (l # ls) = l # drop_bodies (fold skip_body (heredoc_tags l) ls)"
  by pat_completeness auto
termination
  by (relation "measure length") (auto simp: le_imp_less_Suc skip_bodies_le)

definition strip_heredocs :: "nat list \<Rightarrow> nat list" where
  "strip_heredocs cs = join_lines (drop_bodies (split_lines cs))"

section \<open>Fragments\<close>

text \<open>\<open>_SEPARATORS\<close> at the start of a text: what follows the match.\<close>

definition sep_at :: "nat list \<Rightarrow> nat list option" where
  "sep_at cs =
     (let r = dropWhile is_space cs in
      if take 2 r = [38, 38] \<or> take 2 r = [124, 124] then Some (dropWhile is_space (drop 2 r))
      else if take 1 r = [59] \<or> take 1 r = [124] then Some (dropWhile is_space (drop 1 r))
      else if 10 \<in> set (takeWhile is_space cs) then Some r
      else None)"

lemma sep_at_Nil [simp]: "sep_at [] = None"
  by (simp add: sep_at_def)

lemma sep_at_shorter:
  assumes "sep_at cs = Some rest"
  shows "length rest < length cs"
proof -
  let ?r = "dropWhile is_space cs"
  have d: "length (dropWhile is_space (drop n ?r)) \<le> length ?r - n" for n
    using length_dropWhile_le [of is_space "drop n ?r"] by simp
  have rest: "rest = dropWhile is_space (drop 2 ?r) \<or> rest = dropWhile is_space (drop 1 ?r)
      \<or> (10 \<in> set (takeWhile is_space cs) \<and> rest = ?r)"
    using assms unfolding sep_at_def Let_def by (simp split: if_splits)
  show ?thesis
  proof (cases "takeWhile is_space cs = []")
    case True
    have "?r = cs" using takeWhile_dropWhile_id [of is_space cs] True by simp
    moreover have "cs \<noteq> []" using assms by auto
    ultimately show ?thesis using rest True d [of 1] d [of 2] by (cases cs) auto
  next
    case False
    have "length ?r < length cs"
      using False takeWhile_dropWhile_id [of is_space cs] by (metis length_append length_greater_0_conv less_add_same_cancel2)
    then show ?thesis using rest d [of 1] d [of 2] by auto
  qed
qed

function split_fragments :: "nat list \<Rightarrow> nat list list" where
  "split_fragments [] = [[]]"
| "split_fragments (c # cs) =
     (case sep_at (c # cs) of
        Some rest \<Rightarrow> [] # split_fragments rest
      | None \<Rightarrow> (case split_fragments cs of f # fs \<Rightarrow> (c # f) # fs | [] \<Rightarrow> [[c]]))"
  by pat_completeness auto
termination
  by (relation "measure length") (auto dest: sep_at_shorter)

definition fragments_of :: "nat list \<Rightarrow> nat list list" where
  "fragments_of cs = filter (\<lambda>f. strip_ws f \<noteq> []) (split_fragments cs)"

section \<open>Words\<close>

text \<open>\<open>shlex.split(text, comments=True)\<close>: \<open>None\<close> where it raises. A quoted part makes a word even
  when it is empty; a comment sign ends a word wherever it stands.\<close>

datatype lex_state = LSpace | LWord | LQuote nat | LEscape "nat option"

definition lex_space :: "nat \<Rightarrow> bool" where
  "lex_space c \<longleftrightarrow> c = 32 \<or> c = 9 \<or> c = 13 \<or> c = 10"

definition emit :: "bool \<Rightarrow> nat list \<Rightarrow> nat list list option \<Rightarrow> nat list list option" where
  "emit quoted tok rest = (if tok \<noteq> [] \<or> quoted then map_option ((#) tok) rest else rest)"

text \<open>After a comment sign: the rest of the line is skipped. The boolean says that a word is being
  read, which the comment ends.\<close>

fun lex :: "bool \<Rightarrow> lex_state \<Rightarrow> bool \<Rightarrow> nat list \<Rightarrow> nat list \<Rightarrow> nat list list option" where
  "lex True st quoted tok [] = Some []"
| "lex True st quoted tok (c # cs) = lex (c \<noteq> 10) LSpace quoted tok cs"
| "lex False st quoted tok [] =
     (case st of LQuote _ \<Rightarrow> None | LEscape _ \<Rightarrow> None | _ \<Rightarrow> emit quoted tok (Some []))"
| "lex False st quoted tok (c # cs) =
     (case st of
        LSpace \<Rightarrow>
          if lex_space c then emit quoted tok (lex False LSpace False [] cs)
          else if c = 35 then lex True LSpace quoted tok cs
          else if c = 92 then lex False (LEscape None) quoted tok cs
          else if c = 39 \<or> c = 34 then lex False (LQuote c) quoted tok cs
          else lex False LWord quoted [c] cs
      | LQuote q \<Rightarrow>
          if c = q then lex False LWord True tok cs
          else if c = 92 \<and> q = 34 then lex False (LEscape (Some q)) True tok cs
          else lex False (LQuote q) True (tok @ [c]) cs
      | LEscape e \<Rightarrow>
          (case e of
             None \<Rightarrow> lex False LWord quoted (tok @ [c]) cs
           | Some q \<Rightarrow> lex False (LQuote q) quoted (if c \<noteq> 92 \<and> c \<noteq> q then tok @ [92, c] else tok @ [c]) cs)
      | LWord \<Rightarrow>
          if lex_space c then emit quoted tok (lex False LSpace False [] cs)
          else if c = 35 then emit quoted tok (lex True LSpace False [] cs)
          else if c = 39 \<or> c = 34 then lex False (LQuote c) quoted tok cs
          else if c = 92 then lex False (LEscape None) quoted tok cs
          else lex False LWord quoted (tok @ [c]) cs)"

definition shlex_split :: "nat list \<Rightarrow> nat list list option" where
  "shlex_split cs = lex False LSpace False [] cs"

definition is_assignment :: "nat list \<Rightarrow> bool" where
  "is_assignment t \<longleftrightarrow> (case take_ident t of None \<Rightarrow> False | Some (_, r) \<Rightarrow> take 1 r = [61] \<and> 10 \<notin> set r)"

definition base_name :: "nat list \<Rightarrow> nat list" where
  "base_name t = List.rev (takeWhile (\<lambda>c. c \<noteq> 47) (List.rev t))"

text \<open>The target of the first redirect.\<close>

definition redirect_word :: "nat list \<Rightarrow> nat list" where
  "redirect_word cs = takeWhile (\<lambda>c. \<not> is_space c) (dropWhile is_space cs)"

definition redirect_here :: "nat list \<Rightarrow> nat list option" where
  "redirect_here cs =
     (if take 1 cs = [62] \<and> redirect_word (drop 1 cs) \<noteq> [] then Some (redirect_word (drop 1 cs))
      else if redirect_word cs \<noteq> [] then Some (redirect_word cs) else None)"

definition no_redirect_after :: "nat option \<Rightarrow> bool" where
  "no_redirect_after b \<longleftrightarrow> (case b of None \<Rightarrow> False | Some c \<Rightarrow> (48 \<le> c \<and> c \<le> 57) \<or> c = 60 \<or> c = 62)"

fun redirect_from :: "nat option \<Rightarrow> nat list \<Rightarrow> nat list option" where
  "redirect_from b [] = None"
| "redirect_from b (c # cs) =
     (case (if c = 62 \<and> \<not> no_redirect_after b then redirect_here cs else None) of
        Some t \<Rightarrow> Some t
      | None \<Rightarrow> redirect_from (Some c) cs)"

section \<open>Paths\<close>

definition starts :: "string \<Rightarrow> nat list \<Rightarrow> bool" where
  "starts s cs \<longleftrightarrow> take (length s) cs = asc s"

fun has_infix :: "nat list \<Rightarrow> nat list \<Rightarrow> bool" where
  "has_infix p [] \<longleftrightarrow> p = []"
| "has_infix p (c # cs) \<longleftrightarrow> take (length p) (c # cs) = p \<or> has_infix p cs"

definition looks_like_path :: "nat list \<Rightarrow> bool" where
  "looks_like_path t \<longleftrightarrow> starts ''/'' t \<or> starts ''~'' t \<or> starts ''./'' t \<or> starts ''../'' t \<or> 47 \<in> set t \<or> t = asc ''..''"

definition escapes_root :: "shell_host \<Rightarrow> nat list list option \<Rightarrow> nat list \<Rightarrow> bool" where
  "escapes_root h base t =
     (case base of
        None \<Rightarrow> False
      | Some dir \<Rightarrow>
          if t = [] \<or> starts ''-'' t then False
          else if has_infix (asc ''://'') t then False
          else if \<not> looks_like_path t then False
          else (case sh_resolve h dir t of None \<Rightarrow> True | Some p \<Rightarrow> take (length dir) p \<noteq> dir))"

definition navigates_away :: "shell_host \<Rightarrow> nat list list option \<Rightarrow> nat list \<Rightarrow> bool" where
  "navigates_away h base f =
     (if base = None then False
      else (case shlex_split (strip_ws f) of
          None \<Rightarrow> False
        | Some [] \<Rightarrow> False
        | Some (t # ts) \<Rightarrow>
            if \<not> named (base_name t) NAVIGATION_COMMANDS then False
            else (case find (\<lambda>x. \<not> starts ''-'' x) ts of None \<Rightarrow> True | Some x \<Rightarrow> escapes_root h base x)))"

section \<open>One fragment\<close>

definition subcommands_of :: "nat list \<Rightarrow> string list option" where
  "subcommands_of name = map_option snd (find (\<lambda>(n, _). asc n = name) READ_ONLY_SUBCOMMANDS)"

definition classify_named :: "shell_host \<Rightarrow> nat list list option \<Rightarrow> nat list \<Rightarrow> nat list list \<Rightarrow> reach" where
  "classify_named h base name args =
     (if named name NAVIGATION_COMMANDS then READ_ONLY
      else if named name READ_ONLY_COMMANDS then READ_ONLY
      else (let subs = subcommands_of name in
        if (case (subs, find (\<lambda>a. \<not> starts ''-'' a) args) of (Some ws, Some a) \<Rightarrow> named a ws | _ \<Rightarrow> False) then READ_ONLY
        else if list_ex (escapes_root h base) args then ESCAPES
        else if named name LOCAL_WRITE_COMMANDS then LOCAL
        else if subs \<noteq> None then LOCAL else UNREADABLE))"

definition classify_words :: "shell_host \<Rightarrow> nat list list option \<Rightarrow> nat list list \<Rightarrow> reach" where
  "classify_words h base tokens =
     (let t1 = dropWhile is_assignment tokens in
      if t1 = [] then LOCAL
      else if named (hd t1) CONTROL_HEADERS then READ_ONLY
      else (let t2 = dropWhile (\<lambda>t. named t SHELL_KEYWORDS) t1 in
        if t2 \<noteq> [] \<and> named (hd t2) CONTROL_HEADERS then READ_ONLY
        else (let t3 = (if t2 \<noteq> [] \<and> named (hd t2) WRAPPERS then tl t2 else t2) in
          if t3 = [] then READ_ONLY else classify_named h base (base_name (hd t3)) (tl t3))))"

definition classify_simple :: "shell_host \<Rightarrow> nat list list option \<Rightarrow> nat list \<Rightarrow> reach" where
  "classify_simple h base part =
     (let f = strip_ws part in
      if f = [] then READ_ONLY
      else (case redirect_from None f of
          Some t \<Rightarrow> if escapes_root h base t then ESCAPES else LOCAL
        | None \<Rightarrow>
           (case shlex_split f of
              None \<Rightarrow> UNREADABLE
            | Some [] \<Rightarrow> READ_ONLY
            | Some tokens \<Rightarrow> classify_words h base tokens)))"

section \<open>The whole command\<close>

fun verdict_of_reach :: "reach \<Rightarrow> shell_verdict" where
  "verdict_of_reach READ_ONLY =
     \<lparr>sv_reach = READ_ONLY, sv_posture = IDEMPOTENT, sv_why = [], sv_needs_snapshot = False\<rparr>"
| "verdict_of_reach LOCAL =
     \<lparr>sv_reach = LOCAL, sv_posture = REVERSIBLE,
      sv_why = ''changes the working tree; snapshotted first'', sv_needs_snapshot = True\<rparr>"
| "verdict_of_reach UNREADABLE =
     \<lparr>sv_reach = UNREADABLE, sv_posture = UNKNOWN,
      sv_why = ''not recognised, so it is snapshotted rather than predicted'', sv_needs_snapshot = True\<rparr>"
| "verdict_of_reach ESCAPES =
     \<lparr>sv_reach = ESCAPES, sv_posture = IRREVERSIBLE,
      sv_why = ''writes outside the directory being snapshotted, so a local undo would not reach it'', sv_needs_snapshot = True\<rparr>"

definition reach_of_fragments :: "shell_host \<Rightarrow> nat list list option \<Rightarrow> nat list list \<Rightarrow> reach" where
  "reach_of_fragments h base fs =
     (let w = fold (\<lambda>f acc. worst acc (classify_simple h base f)) fs READ_ONLY
      in if list_ex (navigates_away h base) fs \<and> w \<noteq> READ_ONLY then ESCAPES else w)"

definition base_of :: "shell_host \<Rightarrow> string option \<Rightarrow> pyexn + nat list list option" where
  "base_of h dir = (case dir of None \<Rightarrow> Inr None | Some d \<Rightarrow> if d = [] then Inr None else bind_err (sh_root h d) (\<lambda>p. Inr (Some p)))"

definition shell_classify :: "pyrt \<Rightarrow> shell_host \<Rightarrow> string option \<Rightarrow> nat list \<Rightarrow> pyexn + shell_verdict" where
  "shell_classify rt h dir command =
     (let cs = strip_heredocs (strip_ws command) in
      if cs = [] then Inr (verdict_of_reach READ_ONLY)
      else (case escape_why rt cs of
          Some why \<Rightarrow> Inr \<lparr>sv_reach = ESCAPES, sv_posture = IRREVERSIBLE, sv_why = why, sv_needs_snapshot = True\<rparr>
        | None \<Rightarrow>
           if opaque rt cs then
             Inr \<lparr>sv_reach = UNREADABLE, sv_posture = UNKNOWN,
                  sv_why = ''cannot be read statically, so it is snapshotted rather than predicted'', sv_needs_snapshot = True\<rparr>
           else bind_err (base_of h dir) (\<lambda>base. Inr (verdict_of_reach (reach_of_fragments h base (fragments_of cs))))))"

section \<open>The seam\<close>

definition DEFAULT_SHELL_TOOLS :: "string list" where
  "DEFAULT_SHELL_TOOLS = [''bash'', ''sh'', ''zsh'', ''shell'', ''shell.run'', ''Bash'']"

definition shell_spec :: "string \<Rightarrow> reversibility \<Rightarrow> string \<Rightarrow> inverse_spec" where
  "shell_spec tool kind notes = (bare_spec tool kind)\<lparr>sp_notes := notes\<rparr>"

definition answer_spec :: "shell_host \<Rightarrow> inverse_spec \<Rightarrow> pyexn + classifier_answer" where
  "answer_spec h s =
     (case spec_post_init s of
        Inl e \<Rightarrow> Inl (PyExn (error_name e) (sh_exc_text h e))
      | Inr s' \<Rightarrow> Inr (CSpec s'))"

definition shell_command_classifier ::
  "pyrt \<Rightarrow> shell_host \<Rightarrow> string option \<Rightarrow> string list \<Rightarrow> string \<Rightarrow> inverse_spec option \<Rightarrow> string \<Rightarrow> args
   \<Rightarrow> pyexn + classifier_answer" where
  "shell_command_classifier rt h dir tools arg local_spec tool a =
     (if tool \<notin> set tools then Inr CNone
      else (case map_of a arg of
          Some (VStr c) \<Rightarrow>
            if strip_ws (code_points c) = [] then Inr CNone
            else bind_err (shell_classify rt h dir (code_points c)) (\<lambda>v.
              case (sv_reach v, local_spec) of
                (READ_ONLY, _) \<Rightarrow> answer_spec h (shell_spec tool IDEMPOTENT ''read-only shell command: nothing to undo'')
              | (ESCAPES, _) \<Rightarrow> answer_spec h (shell_spec tool IRREVERSIBLE ''reaches beyond the working tree'')
              | (LOCAL, Some s) \<Rightarrow> answer_spec h (s\<lparr>sp_tool := tool\<rparr>)
              | _ \<Rightarrow> answer_spec h (shell_spec tool UNKNOWN ''no snapshot mechanism configured''))
        | _ \<Rightarrow> Inr CNone))"

end
