(* ===== verification/ShellProps.thy ===== *)
theory ShellProps
  imports Shell UndoProps
begin

text \<open>
  What a classification of a shell command guarantees, and how far the text of a command can be
  trusted: an undoable answer means that everything that can write names only paths under the root.
\<close>

section \<open>Severity\<close>

lemma reach_rank_inj: "reach_rank a = reach_rank b \<longleftrightarrow> a = b"
  by (cases a; cases b) auto

lemma reach_rank_worst: "reach_rank (worst a b) = max (reach_rank a) (reach_rank b)"
  by (simp add: worst_def)

lemma fold_worst_le:
  "reach_rank (fold (\<lambda>f acc. worst acc (g f)) fs r) \<le> n \<longleftrightarrow> reach_rank r \<le> n \<and> (\<forall>f \<in> set fs. reach_rank (g f) \<le> n)"
  by (induction fs arbitrary: r) (auto simp: reach_rank_worst)

lemma read_only_rank: "reach_rank r = 0 \<longleftrightarrow> r = READ_ONLY"
  by (cases r) auto

text \<open>The fragments decide together: no order among them, and no read-only one, hides another.\<close>

lemma reach_of_fragments_le:
  assumes "n < 3"
  shows "reach_rank (reach_of_fragments h base fs) \<le> n \<longleftrightarrow>
     (\<forall>f \<in> set fs. reach_rank (classify_simple h base f) \<le> n)
   \<and> ((\<forall>f \<in> set fs. \<not> navigates_away h base f) \<or> (\<forall>f \<in> set fs. classify_simple h base f = READ_ONLY))"
proof -
  let ?w = "fold (\<lambda>f acc. worst acc (classify_simple h base f)) fs READ_ONLY"
  have w: "reach_rank ?w \<le> m \<longleftrightarrow> (\<forall>f \<in> set fs. reach_rank (classify_simple h base f) \<le> m)" for m
    by (simp add: fold_worst_le)
  have ro: "?w = READ_ONLY \<longleftrightarrow> (\<forall>f \<in> set fs. classify_simple h base f = READ_ONLY)"
    using w [of 0] by (simp add: read_only_rank)
  show ?thesis using assms w [of n] ro by (auto simp: reach_of_fragments_def Let_def list_ex_iff)
qed

section \<open>What a fragment may do\<close>

text \<open>The word that runs, with its arguments, once assignments, keywords and one wrapper are stepped
  past; none where a loop header or nothing is left.\<close>

definition deciding_word :: "nat list list \<Rightarrow> (nat list \<times> nat list list) option" where
  "deciding_word ws =
     (let t1 = dropWhile is_assignment ws; t2 = dropWhile (\<lambda>t. named t SHELL_KEYWORDS) t1;
          t3 = (if t2 \<noteq> [] \<and> named (hd t2) WRAPPERS then tl t2 else t2)
      in if t1 = [] \<or> named (hd t1) CONTROL_HEADERS \<or> t2 \<noteq> [] \<and> named (hd t2) CONTROL_HEADERS \<or> t3 = [] then None
         else Some (base_name (hd t3), tl t3))"

definition only_reads :: "nat list \<Rightarrow> nat list list \<Rightarrow> bool" where
  "only_reads name args \<longleftrightarrow> named name NAVIGATION_COMMANDS \<or> named name READ_ONLY_COMMANDS
     \<or> (\<exists>ws a. subcommands_of name = Some ws \<and> find (\<lambda>x. \<not> starts ''-'' x) args = Some a \<and> named a ws)"

definition writes_inside :: "shell_host \<Rightarrow> nat list list option \<Rightarrow> nat list \<Rightarrow> bool" where
  "writes_inside h base f \<longleftrightarrow>
     (case redirect_from None (strip_ws f) of
        Some t \<Rightarrow> \<not> escapes_root h base t
      | None \<Rightarrow> \<exists>ws. shlex_split (strip_ws f) = Some ws \<and>
          (case deciding_word ws of None \<Rightarrow> True
           | Some (name, args) \<Rightarrow> only_reads name args
               \<or> (\<forall>a \<in> set args. \<not> escapes_root h base a) \<and> (named name LOCAL_WRITE_COMMANDS \<or> subcommands_of name \<noteq> None)))"

lemma classify_named_le:
  "reach_rank (classify_named h base name args) \<le> Suc 0 \<longleftrightarrow> only_reads name args
     \<or> (\<forall>a \<in> set args. \<not> escapes_root h base a) \<and> (named name LOCAL_WRITE_COMMANDS \<or> subcommands_of name \<noteq> None)"
  by (auto simp: classify_named_def only_reads_def Let_def list_ex_iff split: option.splits)

lemma classify_words_le:
  "reach_rank (classify_words h base ws) \<le> Suc 0 \<longleftrightarrow>
     (case deciding_word ws of None \<Rightarrow> True | Some (name, args) \<Rightarrow> reach_rank (classify_named h base name args) \<le> Suc 0)"
  by (auto simp: classify_words_def deciding_word_def Let_def)

lemma strip_ws_Nil [simp]: "strip_ws [] = []"
  by (simp add: strip_ws_def)

lemma deciding_word_Nil [simp]: "deciding_word [] = None"
  by (simp add: deciding_word_def)

lemma classify_simple_le: "reach_rank (classify_simple h base f) \<le> Suc 0 \<longleftrightarrow> strip_ws f = [] \<or> writes_inside h base f"
proof (cases "strip_ws f = []")
  case False
  show ?thesis
  proof (cases "redirect_from None (strip_ws f)")
    case None
    show ?thesis
    proof (cases "shlex_split (strip_ws f)")
      case (Some ws)
      then show ?thesis
        by (cases ws; cases "deciding_word ws")
           (simp_all add: False None classify_simple_def writes_inside_def classify_words_le classify_named_le split_beta)
    qed (simp add: False None classify_simple_def writes_inside_def)
  qed (simp add: False classify_simple_def writes_inside_def)
qed (simp add: classify_simple_def)

section \<open>The answer of the classifier\<close>

lemma post_init_kind: "spec_post_init s0 = Inr s \<Longrightarrow> sp_kind s = sp_kind s0"
  unfolding spec_post_init_iff by (simp add: spec_canon_def)

lemma answer_kind: "answer_spec h s0 = Inr (CSpec s) \<Longrightarrow> sp_kind s = sp_kind s0 \<and> spec_post_init s0 = Inr s"
  by (cases "spec_post_init s0") (simp_all add: answer_spec_def post_init_kind)

lemma undoable_answer_is_local:
  assumes "shell_command_classifier rt h dir tools arg local_spec tool a = Inr (CSpec s)" "is_undoable (sp_kind s)"
  obtains c l v where "map_of a arg = Some (VStr c)" "local_spec = Some l" "shell_classify rt h dir (code_points c) = Inr v"
    "sv_reach v = LOCAL" "spec_post_init (l\<lparr>sp_tool := tool\<rparr>) = Inr s"
proof -
  from assms(1) obtain c v where c: "map_of a arg = Some (VStr c)" "shell_classify rt h dir (code_points c) = Inr v"
    and ans: "(case (sv_reach v, local_spec) of
                (READ_ONLY, _) \<Rightarrow> answer_spec h (shell_spec tool IDEMPOTENT ''read-only shell command: nothing to undo'')
              | (ESCAPES, _) \<Rightarrow> answer_spec h (shell_spec tool IRREVERSIBLE ''reaches beyond the working tree'')
              | (LOCAL, Some s) \<Rightarrow> answer_spec h (s\<lparr>sp_tool := tool\<rparr>)
              | _ \<Rightarrow> answer_spec h (shell_spec tool UNKNOWN ''no snapshot mechanism configured'')) = Inr (CSpec s)"
    by (auto simp: shell_command_classifier_def split: if_splits option.splits val.splits)
  have kinds: "sp_kind (shell_spec tool k n) = k" for k n by (simp add: shell_spec_def bare_spec_def)
  show thesis
  proof (cases "sv_reach v")
    case LOCAL
    with ans assms(2) obtain l where "local_spec = Some l" "answer_spec h (l\<lparr>sp_tool := tool\<rparr>) = Inr (CSpec s)"
      by (cases local_spec) (auto dest!: answer_kind simp: kinds)
    then show thesis using that c LOCAL answer_kind by blast
  qed (use ans assms(2) in \<open>auto dest!: answer_kind simp: kinds\<close>)
qed

lemma local_verdict:
  assumes "shell_classify rt h dir c = Inr v" "sv_reach v = LOCAL"
  obtains base where "base_of h dir = Inr base" "escape_why rt (strip_heredocs (strip_ws c)) = None"
    "\<not> opaque rt (strip_heredocs (strip_ws c))" "reach_of_fragments h base (fragments_of (strip_heredocs (strip_ws c))) = LOCAL"
proof -
  have r: "sv_reach (verdict_of_reach r) = r" for r by (cases r) auto
  from assms have "\<exists>base. base_of h dir = Inr base \<and> escape_why rt (strip_heredocs (strip_ws c)) = None
    \<and> \<not> opaque rt (strip_heredocs (strip_ws c)) \<and> reach_of_fragments h base (fragments_of (strip_heredocs (strip_ws c))) = LOCAL"
    by (auto simp: shell_classify_def Let_def r split: if_splits option.splits)
  then show thesis using that by blast
qed


section \<open>A host\<close>

text \<open>One without links, where a path is resolved by its text.\<close>

fun split_slash :: "nat list \<Rightarrow> nat list list" where
  "split_slash [] = [[]]"
| "split_slash (c # cs) =
     (case split_slash cs of l # ls \<Rightarrow> if c = 47 then [] # l # ls else (c # l) # ls | [] \<Rightarrow> [])"

fun tidy_path :: "nat list list \<Rightarrow> nat list list \<Rightarrow> nat list list" where
  "tidy_path acc [] = List.rev acc"
| "tidy_path acc (p # ps) =
     (if p = [] \<or> p = [46] then tidy_path acc ps
      else if p = [46, 46] then tidy_path (tl acc) ps else tidy_path (p # acc) ps)"

definition plain_host :: shell_host where
  "plain_host = \<lparr>sh_root = \<lambda>d. Inr (tidy_path [] (split_slash (asc d))),
     sh_resolve = \<lambda>dir t. Some
       (if starts ''/'' t then tidy_path [] (split_slash t)
        else if starts ''~'' t then tidy_path [] (asc ''home'' # split_slash (drop 1 t))
        else tidy_path [] (dir @ split_slash t)),
     sh_exc_text = \<lambda>_. []\<rparr>"

definition work_spec :: inverse_spec where
  "work_spec = (bare_spec ''shell'' REVERSIBLE)\<lparr>sp_inverse_tool := Some ''workspace.restore''\<rparr>"

lemmas rx_simps = rx_search_def at_boundary_def is_word_def is_digit_def ascii_alnum_def fold_case_def is_space_def demo_rt_def
lemmas rx_parts = rlit_def rwords_def ropt_def rspaces_def rchar_def rany_def rspace_def rgap_def rvisible_def rmethod_def
  rword_def rpair_def

lemmas word_simps = asc_def strip_ws_def is_space_def no_redirect_after_def redirect_here_def redirect_word_def shlex_split_def emit_def
  lex_space_def is_assignment_def take_ident_def ident_start_def ascii_alnum_def named_def base_name_def
lemmas name_lists = CONTROL_HEADERS_def SHELL_KEYWORDS_def WRAPPERS_def NAVIGATION_COMMANDS_def READ_ONLY_COMMANDS_def
  READ_ONLY_SUBCOMMANDS_def LOCAL_WRITE_COMMANDS_def
lemmas simple_simps = classify_simple_def classify_words_def classify_named_def subcommands_of_def escapes_root_def starts_def
  looks_like_path_def Let_def word_simps name_lists
lemmas text_simps = strip_heredocs_def heredoc_at_def sep_at_def fragments_of_def word_simps
lemmas pattern_simps = escape_why_def opaque_def ESCAPE_PATTERNS_def OPAQUE_PATTERNS_def leading_dot_def asc_def rx_parts rx_simps

lemma plain_base: "base_of plain_host (Some ''/w'') = Inr (Some [asc ''w''])"
  by (simp add: base_of_def plain_host_def asc_def)

lemma remove_is_plain: "escape_why demo_rt (asc ''rm -rf a'') = None" "\<not> opaque demo_rt (asc ''rm -rf a'')"
  by (simp_all add: pattern_simps)

lemma remove_text: "strip_heredocs (strip_ws (asc ''rm -rf a'')) = asc ''rm -rf a''" "fragments_of (asc ''rm -rf a'') = [asc ''rm -rf a'']"
  by (simp_all add: text_simps)

lemma remove_local: "reach_of_fragments plain_host (Some [asc ''w'']) [asc ''rm -rf a''] = LOCAL"
proof -
  have "classify_simple plain_host (Some [asc ''w'']) (asc ''rm -rf a'') = LOCAL" by (simp add: simple_simps)
  moreover have "\<not> navigates_away plain_host (Some [asc ''w'']) (asc ''rm -rf a'')"
    by (simp add: navigates_away_def word_simps NAVIGATION_COMMANDS_def)
  ultimately show ?thesis by (simp add: reach_of_fragments_def worst_def)
qed

lemma remove_classified: "shell_classify demo_rt plain_host (Some ''/w'') (asc ''rm -rf a'') = Inr (verdict_of_reach LOCAL)"
  using remove_is_plain remove_text remove_local plain_base
  by (simp add: shell_classify_def Let_def) (simp add: asc_def)


section \<open>Where the text misleads\<close>

text \<open>A variable names no path until it is expanded, and expansion happens only for words that already
  look like one: removing the home directory counts as work inside the root.\<close>

lemma home_variable_counts_as_local:
  "classify_simple plain_host (Some [asc ''w'']) (asc ''rm -rf $HOME'') = LOCAL"
  "escape_why demo_rt (asc ''rm -rf $HOME'') = None" "\<not> opaque demo_rt (asc ''rm -rf $HOME'')"
  by (simp_all add: simple_simps pattern_simps)

text \<open>An option between \<open>git\<close> and \<open>push\<close> hides the push.\<close>

lemma push_behind_option_counts_as_local:
  "classify_simple plain_host (Some [asc ''w'']) (asc ''git -C r push'') = LOCAL"
  "escape_why demo_rt (asc ''git -C r push'') = None" "\<not> opaque demo_rt (asc ''git -C r push'')"
  by (simp_all add: simple_simps pattern_simps)

text \<open>A command in the background is not split off: only the first word of the line is looked at.\<close>

lemma background_job_hides_the_rest:
  "fragments_of (asc ''ls & rm -rf ~'') = [asc ''ls & rm -rf ~'']"
  "classify_simple plain_host (Some [asc ''w'']) (asc ''ls & rm -rf ~'') = READ_ONLY"
  by (simp_all add: text_simps simple_simps)

text \<open>A here-string is taken for a here-document, and everything after it for its body.\<close>

lemma here_string_swallows_the_rest:
  "strip_heredocs (asc ''cat <<< x'' @ 10 # asc ''git push'') = asc ''cat <<< x''"
  by (simp add: text_simps)

text \<open>Listed readers that write, and a redirect behind a digit.\<close>

lemma writers_listed_as_readers:
  "classify_simple plain_host (Some [asc ''w'']) (asc ''tee /etc/x'') = READ_ONLY"
  "classify_simple plain_host (Some [asc ''w'']) (asc ''find / -delete'') = READ_ONLY"
  "classify_simple plain_host (Some [asc ''w'']) (asc ''sed -i s/a/b/ /etc/x'') = READ_ONLY"
  "classify_simple plain_host (Some [asc ''w'']) (asc ''echo 1> /etc/x'') = READ_ONLY"
  by (simp_all add: simple_simps)

text \<open>A comment sign inside a word ends the command for the classifier, but not for a shell.\<close>

lemma comment_sign_hides_target:
  "classify_simple plain_host (Some [asc ''w'']) (asc ''cp a#b /etc/x'') = LOCAL"
  by (simp add: simple_simps)

end
