(* ===== verification/Drills.thy ===== *)
theory Drills
  imports UndoEngine Grants
begin

text \<open>
  \<open>drills.py\<close>: exercising an undo against a canary, comparing three reads of the system of record;
  the register of the freshest evidence per tool, which decides what a declared posture is worth; the
  schedule of what to drill next; and the signed statement that an action could be undone.
  Clock readings and identifiers are arguments; the text of the reasons in a schedule is not kept.
\<close>

section \<open>What counts as returned\<close>

record exemption =
  xm_field :: string
  xm_reason :: string

definition exemption_post_init :: "exemption \<Rightarrow> revoco_error + exemption" where
  "exemption_post_init x = raise_if (xm_field x = []) ValidationError (raise_if (xm_reason x = []) ValidationError (Inr x))"

record state_equivalence =
  se_name :: string
  se_exempt :: "exemption list"

definition equivalence_post_init :: "state_equivalence \<Rightarrow> revoco_error + state_equivalence" where
  "equivalence_post_init s = raise_if (se_name s = []) ValidationError
     (raise_if (\<not> distinct (map xm_field (se_exempt s))) ValidationError (Inr s))"

definition exempt_fields :: "state_equivalence \<Rightarrow> string list" where
  "exempt_fields s = map xm_field (se_exempt s)"

definition describe_equivalence :: "state_equivalence \<Rightarrow> string" where
  "describe_equivalence s =
     (if se_exempt s = [] then se_name s @ '': every reported field must return exactly''
      else join [CHR 0x0A] ((se_name s @ '': every reported field must return exactly, except'')
        # map (\<lambda>e. ''  - '' @ xm_field e @ '': '' @ xm_reason e) (sort_key xm_field (se_exempt s))))"

text \<open>A canary reads the system of record, in whatever state the world is.\<close>

record 'w canary =
  ca_tool :: string
  ca_args :: args
  ca_verify :: "'w \<Rightarrow> pyexn + args"
  ca_label :: string
  ca_equivalence :: "state_equivalence option"
  ca_compare :: "string list"

definition canary_post_init :: "'w canary \<Rightarrow> revoco_error + 'w canary" where
  "canary_post_init c = raise_if (ca_tool c = []) ValidationError
     (raise_if (ca_equivalence c \<noteq> None \<and> ca_compare c \<noteq> []) ValidationError (Inr c))"

definition canary_name :: "'w canary \<Rightarrow> string" where
  "canary_name c = (if ca_label c = [] then ca_tool c else ca_label c)"

definition sorted_names :: "string list \<Rightarrow> string list" where
  "sorted_names xs = sort (dedup xs)"

text \<open>The fields that must return, and those that are only watched.\<close>

definition split_fields :: "'w canary \<Rightarrow> args \<Rightarrow> args \<Rightarrow> string list \<times> string list" where
  "split_fields c before after =
     (let seen = map fst before @ map fst after in
      case ca_equivalence c of
        Some s \<Rightarrow> (sorted_names (filter (\<lambda>f. f \<notin> set (exempt_fields s)) seen),
                   sorted_names (filter (\<lambda>f. f \<in> set (exempt_fields s)) seen))
      | None \<Rightarrow>
         if ca_compare c \<noteq> [] then (ca_compare c, sorted_names (filter (\<lambda>f. f \<notin> set (ca_compare c)) seen))
         else (sorted_names seen, []))"

definition read_field :: "string \<Rightarrow> args \<Rightarrow> val" where
  "read_field f d = (case map_of d f of None \<Rightarrow> VNone | Some v \<Rightarrow> v)"

definition diff_fields :: "args \<Rightarrow> args \<Rightarrow> string list \<Rightarrow> string list" where
  "diff_fields before after fs = filter (\<lambda>f. \<not> py_eq (read_field f before) (read_field f after)) fs"

section \<open>Outcomes\<close>

datatype drill_outcome =
  OPassed | OPartial | OFailed | OUnavailable | OErrored | OForwardFailed | OForwardNoOp | ONotDrillable

fun outcome_value :: "drill_outcome \<Rightarrow> string" where
  "outcome_value OPassed = ''passed''"
| "outcome_value OPartial = ''partial''"
| "outcome_value OFailed = ''failed''"
| "outcome_value OUnavailable = ''unavailable''"
| "outcome_value OErrored = ''errored''"
| "outcome_value OForwardFailed = ''forward_failed''"
| "outcome_value OForwardNoOp = ''forward_no_op''"
| "outcome_value ONotDrillable = ''not_drillable''"

definition is_proof :: "drill_outcome \<Rightarrow> bool" where
  "is_proof x = (x = OPassed)"

definition is_alarm :: "drill_outcome \<Rightarrow> bool" where
  "is_alarm x = (x \<in> {OPartial, OFailed, OUnavailable, OErrored, OForwardFailed, OForwardNoOp})"

record drill_result =
  dr_id :: string
  dr_tool :: string
  dr_outcome :: drill_outcome
  dr_kind :: reversibility
  dr_at :: rat
  dr_duration_ms :: rat
  dr_canary :: string
  dr_error :: "string option"
  dr_mismatches :: "string list"
  dr_restored :: "string list"
  dr_unrestored :: "string list"
  dr_collateral :: "string list"
  dr_unavailable_reason :: string
  dr_residue :: string
  dr_observed :: "string list"

definition drill_result_to_dict :: "drill_result \<Rightarrow> val" where
  "drill_result_to_dict r = VDict
    [(''id'', VStr (dr_id r)), (''tool'', VStr (dr_tool r)), (''outcome'', VStr (outcome_value (dr_outcome r))),
     (''declared_kind'', VStr (posture_value (dr_kind r))), (''at'', VFloat (Fin (dr_at r))),
     (''duration_ms'', VFloat (Fin (py_round (dr_duration_ms r) 2))), (''canary'', VStr (dr_canary r)),
     (''error'', (case dr_error r of None \<Rightarrow> VNone | Some e \<Rightarrow> VStr e)), (''mismatches'', v_strs (dr_mismatches r)),
     (''restored'', v_strs (dr_restored r)), (''unrestored'', v_strs (dr_unrestored r)),
     (''collateral'', v_strs (dr_collateral r)), (''unavailable_reason'', VStr (dr_unavailable_reason r)),
     (''residue'', VStr (dr_residue r)), (''observed_residue'', v_strs (dr_observed r))]"

section \<open>One drill\<close>

text \<open>What a drill draws: identifiers, the reading of the clock, how long it took, and \<open>str\<close> of an error.\<close>

record drill_run =
  du_id :: string
  du_plan :: string
  du_journal :: string
  du_reversal :: string
  du_started :: rat
  du_duration_ms :: rat
  du_text :: "revoco_error \<Rightarrow> string"

definition drill_finish :: "drill_run \<Rightarrow> 'w canary \<Rightarrow> inverse_spec option \<Rightarrow> drill_outcome \<Rightarrow> drill_result" where
  "drill_finish u c spec out =
     \<lparr>dr_id = du_id u, dr_tool = ca_tool c, dr_outcome = out,
      dr_kind = (case spec of None \<Rightarrow> UNKNOWN | Some s \<Rightarrow> sp_kind s), dr_at = du_started u,
      dr_duration_ms = du_duration_ms u, dr_canary = canary_name c, dr_error = None, dr_mismatches = [],
      dr_restored = [], dr_unrestored = [], dr_collateral = [], dr_unavailable_reason = [],
      dr_residue = (case spec of None \<Rightarrow> [] | Some s \<Rightarrow> sp_residue s), dr_observed = []\<rparr>"

definition named_error :: "drill_run \<Rightarrow> revoco_error \<Rightarrow> string" where
  "named_error u e = error_name e @ '': '' @ du_text u e"

definition undo_error :: "drill_run \<Rightarrow> 'w canary \<Rightarrow> inverse_spec \<Rightarrow> revoco_error \<Rightarrow> drill_result" where
  "undo_error u c s e =
     (case e of
        ReversalWindowExpired \<Rightarrow>
          (drill_finish u c (Some s) OUnavailable)\<lparr>dr_unavailable_reason := ''window_expired'', dr_error := Some (named_error u e)\<rparr>
      | ReversalGateClosed m \<Rightarrow>
          (drill_finish u c (Some s) OUnavailable)\<lparr>dr_unavailable_reason := ''gate_closed'', dr_error := Some (named_error u e)\<rparr>
      | NotReversible \<Rightarrow>
          (drill_finish u c (Some s) OUnavailable)\<lparr>dr_unavailable_reason := ''no_undo_path'', dr_error := Some (named_error u e)\<rparr>
      | _ \<Rightarrow> (drill_finish u c (Some s) OErrored)\<lparr>dr_error := Some (named_error u e)\<rparr>)"

text \<open>The verdict over the three reads.\<close>

definition judge_reads :: "drill_run \<Rightarrow> 'w canary \<Rightarrow> inverse_spec \<Rightarrow> args \<Rightarrow> args \<Rightarrow> args \<Rightarrow> drill_result" where
  "judge_reads u c s before midway after =
     (let moved = diff_fields before midway (fst (split_fields c before midway));
          mismatches = diff_fields before after (fst (split_fields c before after));
          observed = diff_fields before after (snd (split_fields c before after));
          unrestored = sorted_names (filter (\<lambda>f. f \<in> set moved) mismatches);
          collateral = sorted_names (filter (\<lambda>f. f \<notin> set moved) mismatches);
          restored = sorted_names (filter (\<lambda>f. f \<notin> set mismatches) moved)
      in if mismatches = [] then
           (drill_finish u c (Some s) OPassed)\<lparr>dr_restored := sorted_names moved, dr_observed := observed\<rparr>
         else
           (drill_finish u c (Some s) (if restored = [] \<and> collateral = [] then OFailed else OPartial))
             \<lparr>dr_mismatches := mismatches, dr_restored := restored, dr_unrestored := unrestored,
              dr_collateral := collateral, dr_observed := observed\<rparr>)"

definition read_failed :: "drill_run \<Rightarrow> 'w canary \<Rightarrow> inverse_spec \<Rightarrow> drill_outcome \<Rightarrow> string \<Rightarrow> pyexn \<Rightarrow> drill_result" where
  "read_failed u c s out when exc =
     (drill_finish u c (Some s) out)\<lparr>dr_error := Some (''verify() failed '' @ when @ '': '' @ repr_exn exc)\<rparr>"

text \<open>From the forward action on, over the engine that holds the planned entry.\<close>

definition drill_undo ::
  "'w seams \<Rightarrow> 'w executor \<Rightarrow> drill_run \<Rightarrow> 'w canary \<Rightarrow> inverse_spec \<Rightarrow> args \<Rightarrow> args \<Rightarrow> rengine \<Rightarrow> 'w \<Rightarrow> drill_result \<times> 'w" where
  "drill_undo cb exec u c s before midway eng w =
     (case reverse cb exec (du_reversal u) (du_journal u) (du_started u) False eng w of
        (Inl e, eng', ev, w') \<Rightarrow> (undo_error u c s e, w')
      | (Inr rc, eng', ev, w') \<Rightarrow>
         if \<not> rc_ok rc then
           ((drill_finish u c (Some s) OErrored)\<lparr>dr_error := Some
              (case rc_error rc of None \<Rightarrow> ''inverse reported failure'' | Some e \<Rightarrow> if e = [] then ''inverse reported failure'' else e)\<rparr>, w')
         else (case ca_verify c w' of
             Inl exc \<Rightarrow> (read_failed u c s OErrored ''after the drill'' exc, w')
           | Inr after \<Rightarrow> (judge_reads u c s before midway after, w')))"

definition drill_forward ::
  "'w seams \<Rightarrow> 'w executor \<Rightarrow> drill_run \<Rightarrow> 'w canary \<Rightarrow> inverse_spec \<Rightarrow> args \<Rightarrow> rengine \<Rightarrow> 'w
   \<Rightarrow> (revoco_error + drill_result) \<times> 'w" where
  "drill_forward cb exec u c s before eng w =
     (case exec w (ca_tool c) (ca_args c) of
        (Inl exc, w1) \<Rightarrow>
          (Inr ((drill_finish u c (Some s) OForwardFailed)
             \<lparr>dr_error := Some (''forward action failed: '' @ exn_text exc)\<rparr>), w1)
      | (Inr result, w1) \<Rightarrow>
         (case commit (du_journal u) (''drill-'' @ du_journal u) result (du_started u) eng of
            (Inl e, eng1, ev) \<Rightarrow> (Inl e, w1)
          | (Inr entry, eng1, ev) \<Rightarrow>
             (case ca_verify c w1 of
                Inl exc \<Rightarrow> (Inr (read_failed u c s OErrored ''after the forward action'' exc), w1)
              | Inr midway \<Rightarrow>
                 if diff_fields before midway (fst (split_fields c before midway)) = [] then
                   (Inr ((drill_finish u c (Some s) OForwardNoOp)
                      \<lparr>dr_error := Some (''forward action reported success but left every compared ''
                         @ ''field unchanged; the inverse was never exercised'')\<rparr>), w1)
                 else (case drill_undo cb exec u c s before midway eng1 w1 of (r, w2) \<Rightarrow> (Inr r, w2)))))"

definition drill ::
  "'w seams \<Rightarrow> 'w executor \<Rightarrow> registry \<Rightarrow> drill_run \<Rightarrow> 'w canary \<Rightarrow> 'w \<Rightarrow> (revoco_error + drill_result) \<times> 'w" where
  "drill cb exec reg u c w =
     (let eng = new_engine reg; spec = fst (spec_for cb w (ca_tool c) (Some (ca_args c)) eng) in
      case spec of
        None \<Rightarrow> (Inr (drill_finish u c None ONotDrillable), w)
      | Some s \<Rightarrow>
         if \<not> is_undoable (sp_kind s) then (Inr (drill_finish u c (Some s) ONotDrillable), w)
         else (case ca_verify c w of
             Inl exc \<Rightarrow> (Inr (read_failed u c s OForwardFailed ''before the drill'' exc), w)
           | Inr before \<Rightarrow>
              (case plan cb w (du_plan u) (du_started u) (ca_tool c) (ca_args c) eng of
                 (Inl e, ev) \<Rightarrow> (Inl e, w)
               | (Inr p, ev) \<Rightarrow>
                  drill_forward cb exec u c s before
                    (snd (open_journal (du_journal u) p None None (''drill-'' @ canary_name c) eng)) w)))"

section \<open>The register\<close>

record proven =
  pv_tool :: string
  pv_stale_after :: rat
  pv_last :: "drill_result option"
  pv_last_pass :: "drill_result option"
  pv_history :: "drill_result list"

definition proof_age :: "rat \<Rightarrow> proven \<Rightarrow> rat option" where
  "proof_age now p = map_option (\<lambda>r. now - dr_at r) (pv_last_pass p)"

definition is_proven :: "rat \<Rightarrow> proven \<Rightarrow> bool" where
  "is_proven now p =
     (case pv_last p of None \<Rightarrow> False
      | Some r \<Rightarrow> is_proof (dr_outcome r)
          \<and> (case proof_age now p of None \<Rightarrow> False | Some a \<Rightarrow> a \<le> pv_stale_after p))"

record register_state =
  rg_stale_after :: rat
  rg_by_tool :: "(string, proven) dict"

definition new_register :: "rat \<Rightarrow> register_state" where
  "new_register stale = \<lparr>rg_stale_after = stale, rg_by_tool = []\<rparr>"

definition ingest :: "drill_result \<Rightarrow> register_state \<Rightarrow> register_state" where
  "ingest r g =
     (let e = (case map_of (rg_by_tool g) (dr_tool r) of
                 Some e \<Rightarrow> e
               | None \<Rightarrow> \<lparr>pv_tool = dr_tool r, pv_stale_after = rg_stale_after g, pv_last = None, pv_last_pass = None, pv_history = []\<rparr>);
          e' = e\<lparr>pv_history := pv_history e @ [r], pv_last := Some r,
                 pv_last_pass := (if is_proof (dr_outcome r) then Some r else pv_last_pass e)\<rparr>
      in g\<lparr>rg_by_tool := AList.update (dr_tool r) e' (rg_by_tool g)\<rparr>)"

definition record_all :: "drill_result list \<Rightarrow> register_state \<Rightarrow> register_state" where
  "record_all rs g = fold ingest rs g"

definition get_proven :: "string \<Rightarrow> register_state \<Rightarrow> proven option" where
  "get_proven tool g = map_of (rg_by_tool g) tool"

definition tool_proven :: "string \<Rightarrow> rat \<Rightarrow> register_state \<Rightarrow> bool" where
  "tool_proven tool now g = (case get_proven tool g of None \<Rightarrow> False | Some e \<Rightarrow> is_proven now e)"

text \<open>\<open>classify_hook\<close>: what a declared posture is worth.\<close>

definition proof_gate :: "register_state \<Rightarrow> rat \<Rightarrow> string \<Rightarrow> reversibility \<Rightarrow> reversibility" where
  "proof_gate g now tool declared =
     (if \<not> is_undoable declared then declared
      else (case get_proven tool g of
          None \<Rightarrow> declared
        | Some e \<Rightarrow> if pv_last e = None then declared else if is_proven now e then declared else IRREVERSIBLE))"

section \<open>Scheduling\<close>

definition alarm_urgency :: "drill_outcome \<Rightarrow> string" where
  "alarm_urgency x =
     (case x of OUnavailable \<Rightarrow> ''blocked'' | OForwardFailed \<Rightarrow> ''untested'' | OForwardNoOp \<Rightarrow> ''untested'' | _ \<Rightarrow> ''failing'')"

definition URGENCY :: "(string \<times> nat) list" where
  "URGENCY = [(''failing'', 0), (''blocked'', 1), (''untested'', 2), (''never_drilled'', 3), (''stale'', 4), (''ageing'', 5)]"

record drill_due =
  dd_tool :: string
  dd_urgency :: string
  dd_priority :: nat
  dd_age :: "rat option"

definition due_entry :: "string \<Rightarrow> string \<Rightarrow> rat option \<Rightarrow> drill_due" where
  "due_entry tool urgency age =
     \<lparr>dd_tool = tool, dd_urgency = urgency, dd_priority = the (map_of URGENCY urgency), dd_age = age\<rparr>"

definition due_for :: "register_state \<Rightarrow> rat \<Rightarrow> rat \<Rightarrow> string \<Rightarrow> drill_due option" where
  "due_for g now refresh_at tool =
     (case get_proven tool g of
        None \<Rightarrow> Some (due_entry tool ''never_drilled'' None)
      | Some e \<Rightarrow>
         (case pv_last e of
            Some r \<Rightarrow>
              if dr_outcome r = ONotDrillable then None
              else if is_alarm (dr_outcome r) then Some (due_entry tool (alarm_urgency (dr_outcome r)) (proof_age now e))
              else (case proof_age now e of
                  None \<Rightarrow> Some (due_entry tool ''never_drilled'' None)
                | Some a \<Rightarrow> if pv_stale_after e < a then Some (due_entry tool ''stale'' (Some a))
                    else if pv_stale_after e * refresh_at \<le> a then Some (due_entry tool ''ageing'' (Some a)) else None)
          | None \<Rightarrow>
             (case proof_age now e of
                  None \<Rightarrow> Some (due_entry tool ''never_drilled'' None)
                | Some a \<Rightarrow> if pv_stale_after e < a then Some (due_entry tool ''stale'' (Some a))
                    else if pv_stale_after e * refresh_at \<le> a then Some (due_entry tool ''ageing'' (Some a)) else None)))"

definition due_key :: "drill_due \<Rightarrow> nat \<times> rat" where
  "due_key d = (dd_priority d, - (case dd_age d of None \<Rightarrow> 0 | Some a \<Rightarrow> a))"

definition due :: "register_state \<Rightarrow> rat \<Rightarrow> rat \<Rightarrow> nat option \<Rightarrow> string list \<Rightarrow> drill_due list" where
  "due g now refresh_at max_batch tools =
     (let out = sort_key due_key (List.map_filter (due_for g now refresh_at) tools)
      in case max_batch of None \<Rightarrow> out | Some n \<Rightarrow> if n = 0 then out else take n out)"

text \<open>The first canary of each tool.\<close>

definition canaries_by_tool :: "'w canary list \<Rightarrow> (string, 'w canary) dict" where
  "canaries_by_tool cs = fold (\<lambda>c d. if map_of d (ca_tool c) = None then d @ [(ca_tool c, c)] else d) cs []"

fun drill_each ::
  "'w seams \<Rightarrow> 'w executor \<Rightarrow> registry \<Rightarrow> (nat \<Rightarrow> drill_run) \<Rightarrow> nat \<Rightarrow> 'w canary list \<Rightarrow> register_state \<Rightarrow> 'w
   \<Rightarrow> (revoco_error + drill_result list) \<times> register_state \<times> 'w" where
  "drill_each cb exec reg u n [] g w = (Inr [], g, w)"
| "drill_each cb exec reg u n (c # cs) g w =
     (case drill cb exec reg (u n) c w of
        (Inl e, w1) \<Rightarrow> (Inl e, g, w1)
      | (Inr r, w1) \<Rightarrow>
         (case drill_each cb exec reg u (Suc n) cs (ingest r g) w1 of
            (Inl e, g2, w2) \<Rightarrow> (Inl e, g2, w2)
          | (Inr rs, g2, w2) \<Rightarrow> (Inr (r # rs), g2, w2)))"

definition drill_due_now ::
  "'w seams \<Rightarrow> 'w executor \<Rightarrow> registry \<Rightarrow> (nat \<Rightarrow> drill_run) \<Rightarrow> rat \<Rightarrow> rat \<Rightarrow> nat option \<Rightarrow> 'w canary list \<Rightarrow> register_state \<Rightarrow> 'w
   \<Rightarrow> (revoco_error + drill_result list) \<times> register_state \<times> 'w" where
  "drill_due_now cb exec reg u now refresh_at max_batch cs g w =
     (let d = canaries_by_tool cs
      in drill_each cb exec reg u 0
           (List.map_filter (\<lambda>x. map_of d (dd_tool x)) (due g now refresh_at max_batch (map fst d))) g w)"

section \<open>Attestation\<close>

record attestation =
  at_id :: string
  at_action_id :: string
  at_tool :: string
  at_posture :: reversibility
  at_plan_digest :: string
  at_plan_complete :: bool
  at_proven :: bool
  at_proof_age :: "rat option"
  at_last_proven_at :: "rat option"
  at_drill_outcome :: "string option"
  at_attested_at :: rat
  at_attestor_id :: string
  at_residue :: string
  at_signature :: string

definition v_time :: "rat option \<Rightarrow> val" where
  "v_time t = (case t of None \<Rightarrow> VNone | Some x \<Rightarrow> VFloat (Fin x))"

definition attestation_payload :: "attestation \<Rightarrow> (string \<times> val) list" where
  "attestation_payload a =
    [(''id'', VStr (at_id a)), (''action_id'', VStr (at_action_id a)), (''tool'', VStr (at_tool a)),
     (''reversibility'', VStr (posture_value (at_posture a))), (''plan_digest'', VStr (at_plan_digest a)),
     (''plan_complete'', VBool (at_plan_complete a)), (''proven'', VBool (at_proven a)),
     (''proof_age_seconds'', v_time (at_proof_age a)), (''last_proven_at'', v_time (at_last_proven_at a)),
     (''drill_outcome'', (case at_drill_outcome a of None \<Rightarrow> VNone | Some s \<Rightarrow> VStr s)),
     (''attested_at'', VFloat (Fin (at_attested_at a))), (''attestor_id'', VStr (at_attestor_id a)),
     (''residue'', VStr (at_residue a))]"

definition attestation_bytes :: "('sk, 'pk) crypto \<Rightarrow> attestation \<Rightarrow> string" where
  "attestation_bytes cr a = canonical_bytes cr (VDict (attestation_payload a))"

definition attestation_verifies :: "('sk, 'pk) crypto \<Rightarrow> 'pk \<Rightarrow> attestation \<Rightarrow> bool" where
  "attestation_verifies cr pk a = verify cr pk (attestation_bytes cr a) (at_signature a)"

definition attestation_to_dict :: "attestation \<Rightarrow> val" where
  "attestation_to_dict a = VDict (attestation_payload a @ [(''signature'', VStr (at_signature a))])"

definition attest ::
  "('sk, 'pk) crypto \<Rightarrow> 'sk \<Rightarrow> string \<Rightarrow> string \<Rightarrow> string \<Rightarrow> reversibility \<Rightarrow> string \<Rightarrow> bool \<Rightarrow> register_state option
   \<Rightarrow> string \<Rightarrow> string \<Rightarrow> rat \<Rightarrow> attestation" where
  "attest cr sk fresh action_id tool posture digest whole g attestor residue now =
     (let entry = (case g of None \<Rightarrow> None | Some g \<Rightarrow> get_proven tool g);
          a = \<lparr>at_id = fresh, at_action_id = action_id, at_tool = tool, at_posture = posture, at_plan_digest = digest,
               at_plan_complete = whole,
               at_proven = (case entry of None \<Rightarrow> False | Some e \<Rightarrow> is_proven now e),
               at_proof_age = (case entry of None \<Rightarrow> None | Some e \<Rightarrow> proof_age now e),
               at_last_proven_at = (case entry of None \<Rightarrow> None | Some e \<Rightarrow> map_option dr_at (pv_last_pass e)),
               at_drill_outcome = (case entry of None \<Rightarrow> None | Some e \<Rightarrow> map_option (\<lambda>r. outcome_value (dr_outcome r)) (pv_last e)),
               at_attested_at = now, at_attestor_id = attestor, at_residue = residue, at_signature = []\<rparr>
      in a\<lparr>at_signature := sign cr sk (attestation_bytes cr a)\<rparr>)"

end
