(* ===== verification/DrillProps.thy ===== *)
theory DrillProps
  imports Drills UndoProps AuthorityProps
begin

text \<open>
  What a drill proves, and what its evidence is used for: a passing drill is an undo that was seen to
  work; an undoable posture that survives the register has the freshest evidence behind it; and the
  schedule leaves out only tools whose proof is young or that have nothing to prove.
\<close>

section \<open>Fields\<close>

lemma set_sorted_names [simp]: "set (sorted_names xs) = set xs"
  by (simp add: sorted_names_def)

definition must_return :: "'w canary \<Rightarrow> string \<Rightarrow> bool" where
  "must_return c f \<longleftrightarrow> (case ca_equivalence c of
     Some s \<Rightarrow> f \<notin> set (exempt_fields s) | None \<Rightarrow> ca_compare c \<noteq> [] \<longrightarrow> f \<in> set (ca_compare c))"

lemma read_absent: "f \<notin> fst ` set d \<Longrightarrow> read_field f d = VNone"
  by (simp add: read_field_def map_of_eq_None_iff [THEN iffD2])

lemma diff_fields_Nil:
  "diff_fields before after (fst (split_fields c before after)) = [] \<longleftrightarrow>
     (\<forall>f. must_return c f \<longrightarrow> py_eq (read_field f before) (read_field f after))"
proof -
  have absent: "py_eq (read_field f before) (read_field f after)" if "f \<notin> fst ` set before" "f \<notin> fst ` set after" for f
    using that by (simp add: read_absent)
  show ?thesis
    using absent by (auto simp: diff_fields_def split_fields_def must_return_def filter_empty_conv Let_def split: option.splits)
qed

lemma diff_fields_member:
  "f \<in> set (diff_fields before after (fst (split_fields c before after))) \<Longrightarrow>
   must_return c f \<and> \<not> py_eq (read_field f before) (read_field f after)"
  by (auto simp: diff_fields_def split_fields_def must_return_def Let_def split: option.splits if_splits)

section \<open>A passing drill\<close>

lemma finish_outcome [simp]: "dr_outcome (drill_finish u c s x) = x"
  by (simp add: drill_finish_def)

lemma undo_error_outcome [simp]: "dr_outcome (undo_error u c s e) \<noteq> OPassed"
  by (cases e) (simp_all add: undo_error_def)

lemma judge_passed:
  "dr_outcome (judge_reads u c s before midway after) = OPassed \<longleftrightarrow>
     (\<forall>f. must_return c f \<longrightarrow> py_eq (read_field f before) (read_field f after))"
  by (simp add: judge_reads_def Let_def diff_fields_Nil)

lemma read_failed_outcome [simp]: "dr_outcome (read_failed u c s x t e) = x"
  by (simp add: read_failed_def)

lemma drill_undo_passed:
  assumes "drill_undo cb exec u c s before midway eng w = (r, w')" "dr_outcome r = OPassed"
  shows "\<exists>rc eng' ev after. reverse cb exec (du_reversal u) (du_journal u) (du_started u) False eng w = (Inr rc, eng', ev, w')
    \<and> rc_ok rc \<and> ca_verify c w' = Inr after \<and> r = judge_reads u c s before midway after"
  using assms by (auto simp: drill_undo_def split: prod.splits sum.splits if_splits)

lemma drill_forward_passed:
  assumes "drill_forward cb exec u c s before eng w = (Inr r, w')" "dr_outcome r = OPassed"
  shows "\<exists>result w1 entry eng1 ev midway. exec w (ca_tool c) (ca_args c) = (Inr result, w1)
    \<and> commit (du_journal u) (''drill-'' @ du_journal u) result (du_started u) eng = (Inr entry, eng1, ev)
    \<and> ca_verify c w1 = Inr midway \<and> diff_fields before midway (fst (split_fields c before midway)) \<noteq> []
    \<and> drill_undo cb exec u c s before midway eng1 w1 = (r, w')"
  using assms by (auto simp: drill_forward_def split: prod.splits sum.splits if_splits)

lemma drill_passed_path:
  assumes "drill cb exec reg u c w = (Inr r, w')" "dr_outcome r = OPassed"
  shows "\<exists>s before p ev. fst (spec_for cb w (ca_tool c) (Some (ca_args c)) (new_engine reg)) = Some s \<and> is_undoable (sp_kind s)
    \<and> ca_verify c w = Inr before
    \<and> plan cb w (du_plan u) (du_started u) (ca_tool c) (ca_args c) (new_engine reg) = (Inr p, ev)
    \<and> drill_forward cb exec u c s before
        (snd (open_journal (du_journal u) p None None (''drill-'' @ canary_name c) (new_engine reg))) w = (Inr r, w')"
  using assms by (auto simp: drill_def Let_def simp del: is_undoable.simps split: option.splits if_splits sum.splits prod.splits)

lemma commit_opened:
  "commit jid a result now (snd (open_journal jid p x y z eng)) = (Inr entry, eng1, ev) \<Longrightarrow> map_of (re_by_action eng1) a = Some jid"
  by (auto simp: commit_def put_entry_def require_entry_def open_journal_def Let_def map_of_update split: sum.splits prod.splits)

text \<open>
  C32: a passing drill is a proof. The tool has a declared undo; the forward action ran and was seen to
  change a field that has to return; the undo of exactly that action then ran through the engine with
  every step succeeding; and in the read after it every field that has to return is back at the value
  of the first read - every field but the exempt ones, whether or not either read reports it.
\<close>

theorem passed_drill_is_a_proof:
  assumes "drill cb exec reg u c w = (Inr r, w')" "dr_outcome r = OPassed"
  shows "\<exists>s before result w1 midway eng1 rc eng2 ev after.
      fst (spec_for cb w (ca_tool c) (Some (ca_args c)) (new_engine reg)) = Some s \<and> is_undoable (sp_kind s)
    \<and> ca_verify c w = Inr before \<and> exec w (ca_tool c) (ca_args c) = (Inr result, w1) \<and> ca_verify c w1 = Inr midway
    \<and> (\<exists>f. must_return c f \<and> \<not> py_eq (read_field f before) (read_field f midway))
    \<and> reverse cb exec (du_reversal u) (du_journal u) (du_started u) False eng1 w1 = (Inr rc, eng2, ev, w')
    \<and> map_of (re_by_action eng1) (''drill-'' @ du_journal u) = Some (du_journal u) \<and> rc_ok rc
    \<and> ca_verify c w' = Inr after
    \<and> (\<forall>f. must_return c f \<longrightarrow> py_eq (read_field f before) (read_field f after))"
proof -
  from drill_passed_path [OF assms] obtain s before p where s: "fst (spec_for cb w (ca_tool c) (Some (ca_args c)) (new_engine reg)) = Some s"
      "is_undoable (sp_kind s)" "ca_verify c w = Inr before" "drill_forward cb exec u c s before (snd (open_journal (du_journal u) p None None (''drill-'' @ canary_name c) (new_engine reg))) w
       = (Inr r, w')" by blast
  from drill_forward_passed [OF s(4) assms(2)] obtain result w1 entry eng1 ev midway where f: "exec w (ca_tool c) (ca_args c) = (Inr result, w1)"
      "commit (du_journal u) (''drill-'' @ du_journal u) result (du_started u)
        (snd (open_journal (du_journal u) p None None (''drill-'' @ canary_name c) (new_engine reg))) = (Inr entry, eng1, ev)"
      "ca_verify c w1 = Inr midway" "diff_fields before midway (fst (split_fields c before midway)) \<noteq> []"
      "drill_undo cb exec u c s before midway eng1 w1 = (r, w')" by blast
  from drill_undo_passed [OF f(5) assms(2)] obtain rc eng' ev' after where r:
      "reverse cb exec (du_reversal u) (du_journal u) (du_started u) False eng1 w1 = (Inr rc, eng', ev', w')" "rc_ok rc"
      "ca_verify c w' = Inr after" "r = judge_reads u c s before midway after" by blast
  have moved: "\<exists>f. must_return c f \<and> \<not> py_eq (read_field f before) (read_field f midway)"
    using f(4) by (simp add: diff_fields_Nil)
  have returned: "\<forall>f. must_return c f \<longrightarrow> py_eq (read_field f before) (read_field f after)"
    using assms(2) unfolding r(4) judge_passed .
  have "map_of (re_by_action eng1) (''drill-'' @ du_journal u) = Some (du_journal u)"
    by (rule commit_opened [OF f(2)])
  with s(1-3) f(1,3) moved r(1-3) returned show ?thesis by blast
qed

text \<open>A canary whose forward action raises a counter and whose undo puts it back.\<close>

definition counter_spec :: inverse_spec where
  "counter_spec = (bare_spec ''raise'' REVERSIBLE)\<lparr>sp_inverse_tool := Some ''lower''\<rparr>"

definition counter_exec :: "args executor" where
  "counter_exec w tool a = (Inr VNone, if tool = ''raise'' then [(''n'', VInt 1)] else [(''n'', VInt 0)])"

definition counter_canary :: "args canary" where
  "counter_canary = \<lparr>ca_tool = ''raise'', ca_args = [], ca_verify = (\<lambda>w. Inr w), ca_label = [], ca_equivalence = None, ca_compare = []\<rparr>"

definition counter_run :: drill_run where
  "counter_run = \<lparr>du_id = ''d'', du_plan = ''p'', du_journal = ''j'', du_reversal = ''r'', du_started = 5, du_duration_ms = 1, du_text = \<lambda>_. []\<rparr>"

definition counter_drill :: "(revoco_error + drill_result) \<times> args" where
  "counter_drill = drill (no_seams :: args seams) counter_exec (register counter_spec empty_registry) counter_run counter_canary [(''n'', VInt 0)]"

lemma counter_passes: "case fst counter_drill of Inl _ \<Rightarrow> False | Inr r \<Rightarrow> dr_outcome r = OPassed \<and> dr_restored r = [''n'']"
  unfolding counter_drill_def by code_simp

lemma passed_drill_is_a_proof_witness:
  "\<exists>f. must_return counter_canary f \<and> \<not> py_eq (read_field f [(''n'', VInt 0)]) (read_field f [(''n'', VInt 1)])"
proof -
  obtain x w' where d: "counter_drill = (x, w')" by fastforce
  have x: "fst counter_drill = x" by (simp add: d)
  obtain r where r: "x = Inr r" "dr_outcome r = OPassed" using counter_passes unfolding x by (cases x) simp_all
  from passed_drill_is_a_proof [OF d [unfolded counter_drill_def r(1)] r(2)]
  show ?thesis by (auto simp: counter_canary_def counter_exec_def)
qed

section \<open>The register\<close>

lemma ingest_get: "get_proven t (ingest r g) =
    (if t = dr_tool r then Some (let e = (case get_proven t g of Some e \<Rightarrow> e
        | None \<Rightarrow> \<lparr>pv_tool = t, pv_stale_after = rg_stale_after g, pv_last = None, pv_last_pass = None, pv_history = []\<rparr>)
      in e\<lparr>pv_history := pv_history e @ [r], pv_last := Some r,
           pv_last_pass := (if is_proof (dr_outcome r) then Some r else pv_last_pass e)\<rparr>) else get_proven t g)"
  by (auto simp: ingest_def get_proven_def Let_def map_of_update split: option.splits)

lemma ingest_stale [simp]: "rg_stale_after (ingest r g) = rg_stale_after g"
  by (simp add: ingest_def Let_def)

text \<open>What the register knows of a tool, as a function of the results in order.\<close>

definition evidence :: "rat \<Rightarrow> string \<Rightarrow> drill_result list \<Rightarrow> proven option" where
  "evidence stale t rs =
     (let mine = filter (\<lambda>r. dr_tool r = t) rs; passes = filter (\<lambda>r. is_proof (dr_outcome r)) mine in
      if mine = [] then None
      else Some \<lparr>pv_tool = t, pv_stale_after = stale, pv_last = Some (last mine),
                 pv_last_pass = (if passes = [] then None else Some (last passes)), pv_history = mine\<rparr>)"

lemma register_is_evidence:
  "get_proven t (record_all rs (new_register stale)) = evidence stale t rs
   \<and> rg_stale_after (record_all rs (new_register stale)) = stale"
proof (induction rs rule: rev_induct)
  case Nil
  then show ?case by (simp add: record_all_def new_register_def get_proven_def evidence_def)
next
  case (snoc r rs)
  then show ?case by (auto simp: record_all_def ingest_get evidence_def Let_def simp del: filter_filter)
qed

lemma proven_evidence:
  "evidence stale t rs = Some e \<Longrightarrow> is_proven now e \<Longrightarrow>
     dr_outcome (last (filter (\<lambda>r. dr_tool r = t) rs)) = OPassed
   \<and> now - dr_at (last (filter (\<lambda>r. dr_tool r = t) rs)) \<le> stale"
proof -
  assume e: "evidence stale t rs = Some e" "is_proven now e"
  let ?m = "filter (\<lambda>r. dr_tool r = t) rs"
  from e have m: "?m \<noteq> []" and pass: "is_proof (dr_outcome (last ?m))"
    by (auto simp: evidence_def Let_def is_proven_def split: if_splits)
  have "last (filter (\<lambda>r. is_proof (dr_outcome r)) ?m) = last ?m"
    using m pass by (metis append_butlast_last_id filter.simps(1,2) filter_append last_snoc)
  then show ?thesis
    using e m pass by (auto simp: evidence_def Let_def is_proven_def proof_age_def is_proof_def split: if_splits)
qed

lemma hook_undoable:
  assumes "classify_hook cb = Some (\<lambda>w t k. Inr (HKind (proof_gate (g w) (now w) t k)))"
    and "is_undoable (fst (apply_hook cb w tool kind))"
  shows "case get_proven tool (g w) of None \<Rightarrow> True | Some e \<Rightarrow> pv_last e = None \<or> is_proven (now w) e"
  using assms by (auto simp: apply_hook_def proof_gate_def split: option.splits if_splits)

lemma classify_through_hook: "(\<exists>kind. fst (classify cb w tool a eng) = fst (apply_hook cb w tool kind)) \<or> fst (classify cb w tool a eng) = UNKNOWN"
  by (auto simp: classify_def Let_def split: option.splits prod.splits) (metis fst_conv)+

text \<open>
  C33: with the register wired into the engine, no stale or bad evidence passes for recoverability: when
  the engine still calls a tool undoable, then either no drill of the tool was ever recorded, or the
  most recent one passed and is no older than the freshness window.
\<close>

theorem undoable_posture_has_fresh_proof:
  assumes "classify_hook cb = Some (\<lambda>w t k. Inr (HKind (proof_gate (record_all (rs w) (new_register stale)) (now w) t k)))"
    and "is_undoable (fst (classify cb w tool a eng))"
  shows "(\<forall>r \<in> set (rs w). dr_tool r \<noteq> tool)
    \<or> dr_outcome (last (filter (\<lambda>r. dr_tool r = tool) (rs w))) = OPassed
      \<and> now w - dr_at (last (filter (\<lambda>r. dr_tool r = tool) (rs w))) \<le> stale"
proof -
  obtain kind where k: "is_undoable (fst (apply_hook cb w tool kind))"
    using classify_through_hook [of cb w tool a eng] assms(2) by (metis is_undoable.simps insertE reversibility.distinct(3,5) empty_iff)
  note h = hook_undoable [of cb "\<lambda>w. record_all (rs w) (new_register stale)" now, OF assms(1) k]
  show ?thesis
  proof (cases "evidence stale tool (rs w)")
    case None
    then show ?thesis by (auto simp: evidence_def Let_def filter_empty_conv split: if_splits)
  next
    case (Some e)
    then have "pv_last e \<noteq> None" by (auto simp: evidence_def Let_def split: if_splits)
    with h Some have "is_proven (now w) e" by (simp add: register_is_evidence)
    from proven_evidence [OF Some this] show ?thesis by blast
  qed
qed

text \<open>A tool that passed its drill five seconds ago.\<close>

definition counter_result :: drill_result where
  "counter_result = drill_finish counter_run counter_canary (Some counter_spec) OPassed"

definition proof_seams :: "unit seams" where
  "proof_seams = no_seams\<lparr>classify_hook := Some (\<lambda>w t k. Inr (HKind (proof_gate (record_all [counter_result] (new_register 100)) 10 t k)))\<rparr>"

lemma counter_still_undoable:
  "is_undoable (fst (classify proof_seams () ''raise'' (Some []) (new_engine (register counter_spec empty_registry))))"
  by code_simp

lemma undoable_posture_has_fresh_proof_witness:
  "dr_outcome (last (filter (\<lambda>r. dr_tool r = ''raise'') [counter_result])) = OPassed"
proof -
  have tool: "dr_tool counter_result = ''raise''" by (simp add: counter_result_def drill_finish_def counter_canary_def)
  have "classify_hook proof_seams = Some (\<lambda>w t k. Inr (HKind (proof_gate (record_all ((\<lambda>_. [counter_result]) w) (new_register 100)) ((\<lambda>_. 10) w) t k)))"
    by (simp add: proof_seams_def)
  from undoable_posture_has_fresh_proof [OF this counter_still_undoable] tool show ?thesis by simp
qed

section \<open>The schedule\<close>

lemma due_None:
  "due_for g now refresh tool = None \<longleftrightarrow> (\<exists>e. get_proven tool g = Some e \<and>
     ((\<exists>r. pv_last e = Some r \<and> dr_outcome r = ONotDrillable)
      \<or> (\<forall>r. pv_last e = Some r \<longrightarrow> \<not> is_alarm (dr_outcome r)) \<and>
        (\<exists>a. proof_age now e = Some a \<and> a \<le> pv_stale_after e \<and> a < pv_stale_after e * refresh)))"
  by (auto simp: due_for_def is_alarm_def not_le not_less split: option.splits if_splits)

lemma due_for_tool: "due_for g now refresh tool = Some d \<Longrightarrow> dd_tool d = tool"
  by (auto simp: due_for_def due_entry_def split: option.splits if_splits)

lemma set_due_all: "set (due g now refresh None tools) = {d. \<exists>t \<in> set tools. due_for g now refresh t = Some d}"
proof -
  have "set (List.map_filter f xs) = {d. \<exists>t \<in> set xs. f t = Some d}" for f and xs :: "string list"
    by (induction xs) (auto simp: List.map_filter_simps split: option.splits)
  then show ?thesis by (simp add: due_def)
qed

lemma due_sorted: "sorted (map due_key (due g now refresh m tools))"
proof -
  have "sorted (map due_key (take n (sort_key due_key xs)))" for n xs
    using sorted_wrt_take [OF sorted_sort_key [of due_key xs], of n] by (simp add: take_map)
  then show ?thesis by (auto simp: due_def Let_def split: option.split)
qed

lemma due_throttle:
  "due g now refresh (Some (Suc n)) tools = take (Suc n) (due g now refresh None tools)"
  by (simp add: due_def Let_def)

text \<open>
  The schedule forgets no tool: with a register built from any sequence of results, a tool of the
  surface that is not listed as due either has nothing to prove by its last drill, or its last drill
  passed and the proof is younger than the refresh point, so that it has not lapsed. The list is in
  order of urgency, and a batch limit cuts off only its tail.
\<close>

theorem schedule_forgets_no_tool:
  assumes "tool \<in> set tools" "refresh \<le> 1" "0 \<le> stale"
    and "g = record_all rs (new_register stale)"
  shows "(tool \<in> dd_tool ` set (due g now refresh None tools)
      \<or> (\<exists>r. last (filter (\<lambda>r. dr_tool r = tool) rs) = r \<and> filter (\<lambda>r. dr_tool r = tool) rs \<noteq> []
           \<and> (dr_outcome r = ONotDrillable \<or> dr_outcome r = OPassed \<and> now - dr_at r < stale * refresh \<and> tool_proven tool now g)))
    \<and> sorted (map due_key (due g now refresh m tools))
    \<and> (case m of None \<Rightarrow> True | Some n \<Rightarrow> n = 0 \<or> due g now refresh m tools = take n (due g now refresh None tools))"
proof -
  let ?mine = "filter (\<lambda>r. dr_tool r = tool) rs"
  have listed: "?mine \<noteq> [] \<and> (dr_outcome (last ?mine) = ONotDrillable
        \<or> dr_outcome (last ?mine) = OPassed \<and> now - dr_at (last ?mine) < stale * refresh \<and> tool_proven tool now g)"
    if "tool \<notin> dd_tool ` set (due g now refresh None tools)"
  proof -
    have "due_for g now refresh tool = None"
    proof (rule ccontr)
      assume "due_for g now refresh tool \<noteq> None"
      then obtain d where "due_for g now refresh tool = Some d" by blast
      moreover from this have "dd_tool d = tool" by (rule due_for_tool)
      ultimately show False using that assms(1) set_due_all by (metis (mono_tags, lifting) imageI mem_Collect_eq)
    qed
    then obtain e where e: "get_proven tool g = Some e" and ok: "(\<exists>r. pv_last e = Some r \<and> dr_outcome r = ONotDrillable)
      \<or> (\<forall>r. pv_last e = Some r \<longrightarrow> \<not> is_alarm (dr_outcome r)) \<and>
        (\<exists>a. proof_age now e = Some a \<and> a \<le> pv_stale_after e \<and> a < pv_stale_after e * refresh)"
      unfolding due_None by blast
    from e have ev: "evidence stale tool rs = Some e" by (simp add: assms(4) register_is_evidence)
    then have mine: "?mine \<noteq> []" and parts: "pv_last e = Some (last ?mine)" "pv_stale_after e = stale"
      by (auto simp: evidence_def Let_def split: if_splits)
    show ?thesis
    proof (cases "dr_outcome (last ?mine) = ONotDrillable")
      case False
      with ok parts obtain a where a: "proof_age now e = Some a" "a \<le> stale" "a < stale * refresh"
        and quiet: "\<not> is_alarm (dr_outcome (last ?mine))" by auto
      then have pass: "dr_outcome (last ?mine) = OPassed" using False by (cases "dr_outcome (last ?mine)") (auto simp: is_alarm_def)
      then have "is_proven now e" using a parts by (simp add: is_proven_def is_proof_def)
      moreover have "a = now - dr_at (last ?mine)"
      proof -
        have "last (filter (\<lambda>r. is_proof (dr_outcome r)) ?mine) = last ?mine"
          using mine pass by (metis is_proof_def append_butlast_last_id filter.simps(1,2) filter_append last_snoc)
        then show ?thesis using ev a(1) mine by (auto simp: evidence_def Let_def proof_age_def split: if_splits)
      qed
      ultimately show ?thesis using mine pass a(3) e by (simp add: tool_proven_def)
    qed (use mine in simp)
  qed
  have throttle: "case m of None \<Rightarrow> True | Some n \<Rightarrow> n = 0 \<or> due g now refresh m tools = take n (due g now refresh None tools)"
    by (simp add: due_def Let_def split: option.split)
  show ?thesis using listed throttle due_sorted by blast
qed

lemma schedule_forgets_no_tool_witness:
  "''raise'' \<in> dd_tool ` set (due (record_all [] (new_register 100)) 10 (4 / 5) None [''raise''])"
  using schedule_forgets_no_tool [of "''raise''" "[''raise'']" "4 / 5" 100 "record_all [] (new_register 100)" "[]" 10 None] by simp

text \<open>A batch limit of zero is no limit.\<close>

lemma zero_batch_is_unlimited: "due g now refresh (Some 0) tools = due g now refresh None tools"
  by (simp add: due_def Let_def)

text \<open>A field that is gone counts as returned when its value was null.\<close>

lemma missing_field_counts_as_null: "diff_fields [(''owner'', VNone)] [] [''owner''] = []"
  by (simp add: diff_fields_def read_field_def)

section \<open>Attestation\<close>

text \<open>
  An attestation verifies under the attestor's key, whatever is attested, and says proven exactly
  when the register holds fresh proof of the tool at that moment.
\<close>

theorem attestation_states_the_evidence:
  assumes "\<And>m. verify cr pk m (sign cr sk m)"
  shows "attestation_verifies cr pk (attest cr sk fresh action_id tool posture digest whole g attestor residue now)
    \<and> (at_proven (attest cr sk fresh action_id tool posture digest whole g attestor residue now)
       \<longleftrightarrow> (case g of None \<Rightarrow> False | Some r \<Rightarrow> tool_proven tool now r))"
proof -
  have bytes: "attestation_bytes cr (a\<lparr>at_signature := x\<rparr>) = attestation_bytes cr a" for a x
    by (simp add: attestation_bytes_def attestation_payload_def)
  have "attestation_verifies cr pk (a\<lparr>at_signature := sign cr sk (attestation_bytes cr a)\<rparr>)" for a
    by (simp add: attestation_verifies_def bytes assms)
  then have "attestation_verifies cr pk (attest cr sk fresh action_id tool posture digest whole g attestor residue now)"
    unfolding attest_def Let_def .
  then show ?thesis by (simp add: attest_def Let_def tool_proven_def split: option.split)
qed

lemma attestation_states_the_evidence_witness:
  "at_proven (attest toy_crypto ''k'' ''att1'' ''a9'' ''raise'' REVERSIBLE ''d'' True (Some (record_all [counter_result] (new_register 100)))
     ''control'' [] 10)"
proof -
  have "tool_proven ''raise'' 10 (record_all [counter_result] (new_register 100))" by code_simp
  moreover have "verify toy_crypto ''k'' m (sign toy_crypto ''k'' m)" for m by (simp add: toy_crypto_def)
  ultimately show ?thesis
    using attestation_states_the_evidence [of toy_crypto "''k''" "''k''" "''att1''" "''a9''" "''raise''" REVERSIBLE "''d''" True
        "Some (record_all [counter_result] (new_register 100))" "''control''" "[]" 10] by simp
qed

end
