(* ===== verification/Detect.thy ===== *)
theory Detect
  imports Authority UndoCascade Glob Conditions
begin

text \<open>
  \<open>detect.py\<close>: the deterministic detectors that run over an action, its chain, its arguments and its
  undo plan, and the severity that blocks. Thresholds are fields of the record \<open>detector\<close>.
\<close>

section \<open>Findings\<close>

datatype severity = SInfo | SLow | SMedium | SHigh | SCritical

fun severity_value :: "severity \<Rightarrow> string" where
  "severity_value SInfo = ''info''"
| "severity_value SLow = ''low''"
| "severity_value SMedium = ''medium''"
| "severity_value SHigh = ''high''"
| "severity_value SCritical = ''critical''"

fun severity_order :: "severity \<Rightarrow> nat" where
  "severity_order SInfo = 0"
| "severity_order SLow = 1"
| "severity_order SMedium = 2"
| "severity_order SHigh = 3"
| "severity_order SCritical = 4"

record finding =
  fd_code :: string
  fd_title :: string
  fd_severity :: severity
  fd_message :: string
  fd_evidence :: args

definition finding_to_dict :: "finding \<Rightarrow> val" where
  "finding_to_dict f = VDict
    [(''code'', VStr (fd_code f)), (''title'', VStr (fd_title f)), (''severity'', VStr (severity_value (fd_severity f))),
     (''message'', VStr (fd_message f)), (''evidence'', VDict (fd_evidence f))]"

text \<open>\<open>max(..., key=order)\<close>: the first of the greatest.\<close>

fun severest :: "severity \<Rightarrow> severity list \<Rightarrow> severity" where
  "severest s [] = s"
| "severest s (t # ts) = severest (if severity_order s < severity_order t then t else s) ts"

definition max_severity :: "finding list \<Rightarrow> severity" where
  "max_severity fs = (case map fd_severity fs of [] \<Rightarrow> SInfo | s # ss \<Rightarrow> severest s ss)"

definition is_blocking :: "severity \<Rightarrow> bool" where
  "is_blocking s \<longleftrightarrow> s \<in> {SHigh, SCritical}"

section \<open>Words\<close>

text \<open>\<open>re.findall("[a-z0-9]+", text.lower())\<close> over code points. Two letters beyond ASCII have an ASCII
  letter in their lower case.\<close>

definition lower_point :: "nat \<Rightarrow> nat list" where
  "lower_point c =
     (if 65 \<le> c \<and> c \<le> 90 then [c + 32]
      else if c = 0x130 then [105, 0x307]
      else if c = 0x212A then [107]
      else [c])"

definition token_char :: "nat \<Rightarrow> bool" where
  "token_char c \<longleftrightarrow> (97 \<le> c \<and> c \<le> 122) \<or> (48 \<le> c \<and> c \<le> 57)"

fun words_of :: "nat list \<Rightarrow> nat list \<Rightarrow> nat list list" where
  "words_of w [] = (if w = [] then [] else [w])"
| "words_of w (c # cs) =
     (if token_char c then words_of (w @ [c]) cs
      else (if w = [] then [] else [w]) @ words_of [] cs)"

definition tokens :: "string \<Rightarrow> nat list set" where
  "tokens s = set (words_of [] (concat (map lower_point (code_points s))))"

definition jaccard :: "'a set \<Rightarrow> 'a set \<Rightarrow> rat" where
  "jaccard a b =
     (if a = {} \<and> b = {} then 1 else if a = {} \<or> b = {} then 0
      else of_nat (card (a \<inter> b)) / of_nat (card (a \<union> b)))"

section \<open>Detectors\<close>

record detector =
  dt_intent_drift_threshold :: rat
  dt_fatigue_window_seconds :: rat
  dt_fatigue_low_risk_max :: int
  dt_fatigue_high_risk_min :: int
  dt_fatigue_burst_count :: nat
  dt_cascade_window_seconds :: rat
  dt_cascade_fanout_threshold :: nat
  dt_irreversible_fanout_threshold :: nat
  dt_rogue_strike_threshold :: nat

definition default_detector :: detector where
  "default_detector = \<lparr>dt_intent_drift_threshold = 5 / 100, dt_fatigue_window_seconds = 300,
     dt_fatigue_low_risk_max = 25, dt_fatigue_high_risk_min = 70, dt_fatigue_burst_count = 5,
     dt_cascade_window_seconds = 60, dt_cascade_fanout_threshold = 25, dt_irreversible_fanout_threshold = 5,
     dt_rogue_strike_threshold = 3\<rparr>"

definition finding_if :: "bool \<Rightarrow> finding \<Rightarrow> finding list" where
  "finding_if b f = (if b then [f] else [])"

definition v_count :: "nat \<Rightarrow> val" where
  "v_count n = VInt (int n)"

definition v_rat :: "rat \<Rightarrow> val" where
  "v_rat x = VFloat (Fin x)"

definition signature_finding :: "action_record \<Rightarrow> finding" where
  "signature_finding a =
     \<lparr>fd_code = ''ASI03'', fd_title = ''Identity Abuse: invalid actor signature'', fd_severity = SCritical,
      fd_message = ''Action signature did not verify against the actor's registered key.'',
      fd_evidence = [(''action_id'', VStr (ar_id a)), (''actor_id'', VStr (ar_actor a))]\<rparr>"

definition subject_finding :: "action_record \<Rightarrow> delegation \<Rightarrow> finding" where
  "subject_finding a d =
     \<lparr>fd_code = ''ASI03'', fd_title = ''Identity Abuse: actor is not the delegation subject'', fd_severity = SCritical,
      fd_message = ''The acting principal was not the subject the delegation was issued to.'',
      fd_evidence = [(''action_actor'', VStr (ar_actor a)), (''delegation_subject'', VStr (dg_subject d))]\<rparr>"

definition scope_finding :: "action_record \<Rightarrow> delegation \<Rightarrow> finding" where
  "scope_finding a d =
     \<lparr>fd_code = ''ASI02'', fd_title = ''Tool Misuse / Goal Hijack: action outside delegated scope'', fd_severity = SHigh,
      fd_message = ''Action '' @ ar_action a @ '' on tool '' @ [CHR 39] @ ar_tool a @ [CHR 39] @ '' at risk ''
        @ show_int (ar_risk a) @ '' is not within the delegated scope.'',
      fd_evidence = [(''tool'', VStr (ar_tool a)), (''action'', VStr (ar_action a)), (''risk'', VInt (ar_risk a)),
        (''allowed_tools'', v_str_set (allowed_tools (dg_scope d))),
        (''allowed_actions'', v_str_set (allowed_actions (dg_scope d))), (''max_risk'', VInt (max_risk (dg_scope d)))]\<rparr>"

definition expired_finding :: "action_record \<Rightarrow> delegation \<Rightarrow> finding" where
  "expired_finding a d =
     \<lparr>fd_code = ''ASI03'', fd_title = ''Privilege Abuse: action under expired authority'', fd_severity = SHigh,
      fd_message = ''Action occurred after its authorizing delegation expired.'',
      fd_evidence = [(''occurred_at'', v_rat (ar_occurred_at a)), (''expires_at'', v_rat (dg_expires_at d))]\<rparr>"

definition drift_finding :: "detector \<Rightarrow> action_record \<Rightarrow> rat \<Rightarrow> finding" where
  "drift_finding dt a similarity =
     \<lparr>fd_code = ''ASI06'', fd_title = ''Intent Drift: action diverges from delegated purpose'', fd_severity = SMedium,
      fd_message = ''The action's stated intent has low overlap with the purpose it was delegated for'' @ dash
        @ ''possible goal redirection or memory poisoning.'',
      fd_evidence = [(''similarity'', v_rat (py_round similarity 3)), (''threshold'', v_rat (dt_intent_drift_threshold dt)),
        (''action_description'', VStr (py_take 200 (ar_description a)))]\<rparr>"

definition fatigue_finding :: "detector \<Rightarrow> action_record \<Rightarrow> nat \<Rightarrow> finding" where
  "fatigue_finding dt a n =
     \<lparr>fd_code = ''ASI09'', fd_title = ''Human-Agent Trust Exploitation: consent fatigue'', fd_severity = SHigh,
      fd_message = ''A high-risk action was approved immediately after a burst of low-risk approvals'' @ dash
        @ ''a classic human-in-the-loop bypass.'',
      fd_evidence = [(''high_risk'', VInt (ar_risk a)), (''preceding_low_risk_count'', v_count n),
        (''window_seconds'', v_rat (dt_fatigue_window_seconds dt))]\<rparr>"

definition intent_similarity :: "action_record \<Rightarrow> delegation list \<Rightarrow> rat" where
  "intent_similarity a chain =
     jaccard (tokens (ar_description a) \<union> tokens (ar_tool a) \<union> tokens (ar_action a))
       (\<Union> (set (map (\<lambda>d. tokens (dg_purpose d)) chain)))"

definition low_risk_burst :: "detector \<Rightarrow> action_record \<Rightarrow> action_record list \<Rightarrow> action_record list" where
  "low_risk_burst dt a recent =
     filter (\<lambda>x. ar_occurred_at a - dt_fatigue_window_seconds dt \<le> ar_occurred_at x
        \<and> ar_occurred_at x < ar_occurred_at a \<and> ar_risk x \<le> dt_fatigue_low_risk_max dt) recent"

definition evaluate_action ::
  "detector \<Rightarrow> action_record \<Rightarrow> delegation \<Rightarrow> delegation list \<Rightarrow> bool \<Rightarrow> action_record list \<Rightarrow> finding list" where
  "evaluate_action dt a d chain sig_valid recent =
     finding_if (\<not> sig_valid) (signature_finding a)
   @ finding_if (ar_actor a \<noteq> dg_subject d) (subject_finding a d)
   @ finding_if (\<not> permits_action (dg_scope d) (ar_tool a) (ar_action a) (ar_risk a)) (scope_finding a d)
   @ finding_if (delegation_expired (ar_occurred_at a) d) (expired_finding a d)
   @ finding_if (intent_similarity a chain < dt_intent_drift_threshold dt \<and> 40 \<le> ar_risk a)
       (drift_finding dt a (intent_similarity a chain))
   @ finding_if (dt_fatigue_high_risk_min dt \<le> ar_risk a
        \<and> dt_fatigue_burst_count dt \<le> length (low_risk_burst dt a recent))
       (fatigue_finding dt a (length (low_risk_burst dt a recent)))"

subsection \<open>The chain\<close>

definition revoked_finding :: "action_record \<Rightarrow> string \<Rightarrow> finding" where
  "revoked_finding a msg =
     \<lparr>fd_code = ''ASI03'', fd_title = ''Privilege Abuse: revoked authority used'', fd_severity = SCritical,
      fd_message = msg, fd_evidence = [(''action_id'', VStr (ar_id a))]\<rparr>"

definition forged_finding :: "string \<Rightarrow> finding" where
  "forged_finding err =
     \<lparr>fd_code = ''ASI07'', fd_title = ''Insecure Inter-Agent Communication: forged delegation in chain'',
      fd_severity = SCritical, fd_message = ''A delegation passed between agents failed signature verification.'',
      fd_evidence = [(''detail'', VStr err)]\<rparr>"

definition fanout_finding :: "detector \<Rightarrow> nat \<Rightarrow> finding" where
  "fanout_finding dt n =
     \<lparr>fd_code = ''ASI08'', fd_title = ''Cascading Failure risk: high action fan-out'', fd_severity = SMedium,
      fd_message = ''An unusually large number of actions fired under a single grant in a short window'' @ dash
        @ ''a fault here would cascade across the workflow.'',
      fd_evidence = [(''fanout'', v_count n), (''window_seconds'', v_rat (dt_cascade_window_seconds dt)),
        (''threshold'', v_count (dt_cascade_fanout_threshold dt))]\<rparr>"

definition rogue_finding :: "detector \<Rightarrow> nat \<Rightarrow> finding" where
  "rogue_finding dt strikes =
     \<lparr>fd_code = ''ASI10'', fd_title = ''Rogue Agent: repeated authorization violations'', fd_severity = SHigh,
      fd_message = ''This actor has accumulated multiple blocking findings'' @ dash
        @ ''its behavior has drifted from authorized bounds and it should be quarantined.'',
      fd_evidence = [(''strikes'', v_count strikes), (''threshold'', v_count (dt_rogue_strike_threshold dt))]\<rparr>"

definition grant_burst :: "detector \<Rightarrow> action_record \<Rightarrow> action_record list \<Rightarrow> action_record list" where
  "grant_burst dt a recent =
     filter (\<lambda>x. ar_delegation x = ar_delegation a
        \<and> ar_occurred_at a - dt_cascade_window_seconds dt \<le> ar_occurred_at x) recent"

definition evaluate_chain ::
  "detector \<Rightarrow> action_record \<Rightarrow> string list \<Rightarrow> action_record list \<Rightarrow> nat \<Rightarrow> finding list" where
  "evaluate_chain dt a errors recent strikes =
     map (revoked_finding a) (filter (contains_sub ''revoked'') errors)
   @ map forged_finding (filter (\<lambda>e. contains_sub ''signature invalid'' e \<and> contains_sub ''delegation'' e) errors)
   @ (let n = length (grant_burst dt a recent) + 1
      in finding_if (dt_cascade_fanout_threshold dt \<le> n) (fanout_finding dt n))
   @ finding_if (dt_rogue_strike_threshold dt \<le> strikes) (rogue_finding dt strikes)"

subsection \<open>Caps\<close>

definition py_repr :: "pyrt \<Rightarrow> val \<Rightarrow> string" where
  "py_repr rt v = (case v of VStr s \<Rightarrow> repr_str s | _ \<Rightarrow> py_str rt v)"

definition not_numeric_finding :: "pyrt \<Rightarrow> string \<Rightarrow> string \<Rightarrow> val \<Rightarrow> val \<Rightarrow> finding" where
  "not_numeric_finding rt key path cap v =
     \<lparr>fd_code = ''ASI02'', fd_title = ''Tool Misuse: capped argument is not numeric'', fd_severity = SHigh,
      fd_message = ''The chain caps '' @ repr_str path @ '' at '' @ py_str rt cap
        @ '', but the supplied value is not a number, so the cap cannot be enforced.'',
      fd_evidence = [(''constraint'', VStr key), (''cap'', cap), (''value'', VStr (py_repr rt v))]\<rparr>"

definition over_cap_finding :: "pyrt \<Rightarrow> action_record \<Rightarrow> string \<Rightarrow> string \<Rightarrow> val \<Rightarrow> pyfloat \<Rightarrow> finding" where
  "over_cap_finding rt a key path cap x =
     \<lparr>fd_code = ''ASI02'', fd_title = ''Tool Misuse: action exceeds a delegated cap'', fd_severity = SHigh,
      fd_message = repr_str path @ '' is '' @ py_str rt (VFloat x) @ '', above the '' @ py_str rt cap
        @ '' ceiling the authorizing chain permits.'',
      fd_evidence = [(''constraint'', VStr key), (''cap'', cap), (''value'', VFloat x), (''tool'', VStr (ar_tool a))]\<rparr>"

definition check_cap :: "pyrt \<Rightarrow> action_record \<Rightarrow> args \<Rightarrow> string \<times> val \<Rightarrow> pyexn + finding list" where
  "check_cap rt a args kc =
     (let (key, cap) = kc in
      if \<not> starts_with ''max:'' key then Inr []
      else case cap_of cap of
        None \<Rightarrow> Inr []
      | Some bound \<Rightarrow>
         (let path = drop 4 key in
          case resolve_path path (VDict args) of
            None \<Rightarrow> Inr []
          | Some v \<Rightarrow>
             (case py_float rt v of
                Inl e \<Rightarrow> if caught e then Inr [not_numeric_finding rt key path cap v] else Inl e
              | Inr x \<Rightarrow> Inr (finding_if (fl_lt bound x) (over_cap_finding rt a key path cap x)))))"

fun evaluate_constraints :: "pyrt \<Rightarrow> action_record \<Rightarrow> args \<Rightarrow> args \<Rightarrow> pyexn + finding list" where
  "evaluate_constraints rt a args [] = Inr []"
| "evaluate_constraints rt a args (kc # kcs) =
     bind_err (check_cap rt a args kc) (\<lambda>fs. bind_err (evaluate_constraints rt a args kcs) (\<lambda>gs. Inr (fs @ gs)))"

subsection \<open>Reversibility\<close>

definition fanout_one_way_finding :: "detector \<Rightarrow> action_record \<Rightarrow> nat \<Rightarrow> finding" where
  "fanout_one_way_finding dt a n =
     \<lparr>fd_code = ''PRA01'', fd_title = ''Unrecoverable blast radius: irreversible fan-out under one grant'', fd_severity = SHigh,
      fd_message = ''Multiple irreversible actions have executed under a single delegation. Revoking the grant stops ''
        @ ''further damage but cannot undo what has already happened, so the exposure is now bounded ''
        @ ''only by what the agent already did.'',
      fd_evidence = [(''delegation_id'', VStr (ar_delegation a)), (''irreversible_count'', v_count n),
        (''threshold'', v_count (dt_irreversible_fanout_threshold dt)), (''tool'', VStr (ar_tool a))]\<rparr>"

definition phantom_finding :: "reversal_plan \<Rightarrow> finding" where
  "phantom_finding p =
     \<lparr>fd_code = ''PRA02'', fd_title = ''Phantom rollback: undo path recorded but not executable'', fd_severity = SHigh,
      fd_message = repr_str (rp_tool p) @ '' is classified '' @ posture_value (rp_kind p)
        @ '', but its reversal plan cannot execute as recorded. The rollback capability this ''
        @ ''organization believes it has for this action does not exist.'',
      fd_evidence = [(''plan_id'', VStr (rp_id p)), (''unresolved_args'', v_strs (rp_unresolved_args p)),
        (''deferred_args'', v_strs (rp_deferred_args p)), (''snapshot_error'', v_opt_str (rp_snapshot_error p))]\<rparr>"

definition floor_finding :: "reversal_plan \<Rightarrow> reversibility \<Rightarrow> finding" where
  "floor_finding p fl =
     \<lparr>fd_code = ''ASI02'', fd_title = ''Tool Misuse: action below the chain's reversibility floor'', fd_severity = SHigh,
      fd_message = ''The authorizing chain requires at least '' @ repr_str (posture_value fl)
        @ '' reversibility; this action is '' @ repr_str (posture_value (rp_kind p)) @ ''.'',
      fd_evidence = [(''required'', VStr (posture_value fl)), (''actual'', VStr (posture_value (rp_kind p))),
        (''tool'', VStr (rp_tool p))]\<rparr>"

definition evaluate_reversibility ::
  "detector \<Rightarrow> action_record \<Rightarrow> reversal_plan option \<Rightarrow> nat \<Rightarrow> reversibility \<Rightarrow> finding list" where
  "evaluate_reversibility dt a up committed fl =
     (case up of None \<Rightarrow> []
      | Some p \<Rightarrow>
          finding_if (is_one_way (rp_kind p) \<and> dt_irreversible_fanout_threshold dt \<le> committed + 1)
            (fanout_one_way_finding dt a (committed + 1))
        @ finding_if (is_broken p) (phantom_finding p)
        @ finding_if (fl \<noteq> UNKNOWN \<and> rp_kind p < fl) (floor_finding p fl))"

section \<open>Journal health\<close>

definition phantom_entries :: "rat \<Rightarrow> journal_entry list \<Rightarrow> journal_entry list" where
  "phantom_entries now es =
     filter (\<lambda>e. is_undoable (rp_kind (je_plan e)) \<and> (\<not> is_complete (je_plan e) \<or> entry_is_expired now e))
       (filter (\<lambda>e. je_state e = COMMITTED) es)"

definition phantom_detail :: "rat \<Rightarrow> journal_entry \<Rightarrow> val" where
  "phantom_detail now e = VDict
     [(''journal_id'', VStr (je_id e)), (''tool'', VStr (rp_tool (je_plan e))),
      (''unresolved_args'', v_strs (rp_unresolved_args (je_plan e) @ rp_deferred_args (je_plan e))),
      (''snapshot_error'', v_opt_str (rp_snapshot_error (je_plan e))), (''expired'', VBool (entry_is_expired now e))]"

definition journal_health :: "rat \<Rightarrow> journal_entry list \<Rightarrow> val" where
  "journal_health now es =
     (let committed = filter (\<lambda>e. je_state e = COMMITTED) es in VDict
      [(''committed'', v_count (length committed)),
       (''actually_undoable'', v_count (length (filter (\<lambda>e. is_complete (je_plan e) \<and> \<not> entry_is_expired now e) committed))),
       (''phantom_rollbacks'', v_count (length (phantom_entries now es))),
       (''irreversible'', v_count (length (filter (\<lambda>e. is_one_way (rp_kind (je_plan e))) committed))),
       (''phantom_details'', VList (map (phantom_detail now) (phantom_entries now es)))])"

section \<open>Facts\<close>

lemma severest_ge: "severity_order s \<le> severity_order (severest s ts)"
  "t \<in> set ts \<Longrightarrow> severity_order t \<le> severity_order (severest s ts)"
proof (induction ts arbitrary: s)
  case (Cons u ts)
  { case 1 show ?case using Cons.IH(1) [of u] Cons.IH(1) [of s] by (simp split: if_splits) }
  { case 2 show ?case
    proof (cases "t = u")
      case True
      then show ?thesis using Cons.IH(1) [of u] Cons.IH(1) [of s] by (simp split: if_splits)
    next
      case False
      with 2 Cons.IH(2) show ?thesis by simp
    qed }
qed simp_all

lemma severest_in: "severest s ts \<in> insert s (set ts)"
  by (induction ts arbitrary: s) auto

lemma blocking_order: "is_blocking s \<longleftrightarrow> 3 \<le> severity_order s"
  by (cases s) (simp_all add: is_blocking_def)

text \<open>The combined severity blocks exactly when one finding does.\<close>

lemma max_severity_blocks: "is_blocking (max_severity fs) \<longleftrightarrow> (\<exists>f \<in> set fs. is_blocking (fd_severity f))"
proof (cases "map fd_severity fs")
  case Nil
  then show ?thesis by (simp add: max_severity_def is_blocking_def)
next
  case (Cons s ss)
  then have m: "max_severity fs = severest s ss" by (simp add: max_severity_def)
  have set: "fd_severity ` set fs = insert s (set ss)" using Cons by (metis list.set(2) set_map)
  have "is_blocking (severest s ss) \<longleftrightarrow> (\<exists>t \<in> insert s (set ss). is_blocking t)"
  proof
    assume "is_blocking (severest s ss)"
    with severest_in [of s ss] show "\<exists>t \<in> insert s (set ss). is_blocking t" by blast
  next
    assume "\<exists>t \<in> insert s (set ss). is_blocking t"
    then obtain t where t: "t \<in> insert s (set ss)" "3 \<le> severity_order t" unfolding blocking_order by blast
    from t(1) severest_ge(1) [of s ss] severest_ge(2) [of t ss s] have "severity_order t \<le> severity_order (severest s ss)" by blast
    with t(2) show "is_blocking (severest s ss)" unfolding blocking_order by (rule le_trans)
  qed
  also have "\<dots> \<longleftrightarrow> (\<exists>t \<in> fd_severity ` set fs. is_blocking t)" by (simp only: set)
  finally show ?thesis unfolding m by simp
qed

lemma finding_if_set [simp]: "f \<in> set (finding_if b g) \<longleftrightarrow> b \<and> f = g"
  by (auto simp: finding_if_def)

end
