(* ===== verification/ControlPlane.thy ===== *)
theory ControlPlane
  imports Gate IrrevBudget AuthorityMachine UndoMachine Ledger Detect Horizon
begin

text \<open>
  \<open>controlplane.py\<close>: the pipeline from an agent's request to a recorded verdict, and what follows
  it: confirming that the call ran, undoing it, containing a grant. The state is that of the engines
  it composes, the budgets, the strikes, the verdicts and the ledger every engine writes to. An
  operation that raises keeps what it had done until then, so results are pairs of an error or a
  value and the state. This is the control plane without a durable store.
\<close>

section \<open>Environment and state\<close>

text \<open>
  The configuration and the callbacks. The approval hook and the seams of the undo engine read a
  world of any type; \<open>clock n\<close> is the reading taken for ledger entry \<open>n\<close>; \<open>exc_text\<close> is \<open>str(exc)\<close>.
\<close>

record ('sk, 'pk, 'w) env =
  en_crypto :: "('sk, 'pk) crypto"
  en_rt :: pyrt
  en_policy :: policy
  en_detector :: detector
  en_seams :: "'w seams"
  en_approval :: "'w \<Rightarrow> string \<Rightarrow> args \<Rightarrow> 'pk principal \<Rightarrow> decision \<Rightarrow> pyexn + bool"
  en_clock :: "nat \<Rightarrow> pyfloat"
  en_exc_text :: "revoco_error \<Rightarrow> string"
  en_fail_closed :: bool

definition deny_by_default :: "'w \<Rightarrow> string \<Rightarrow> args \<Rightarrow> 'pk principal \<Rightarrow> decision \<Rightarrow> pyexn + bool" where
  "deny_by_default w tool a p d = Inr False"

definition STAGE_ENFORCE :: string where "STAGE_ENFORCE = ''enforce''"
definition STAGE_BUDGET :: string where "STAGE_BUDGET = ''budget''"
definition STAGE_AUTHORITY :: string where "STAGE_AUTHORITY = ''authority''"
definition STAGE_DETECT :: string where "STAGE_DETECT = ''detect''"
definition STAGE_ALLOWED :: string where "STAGE_ALLOWED = ''allowed''"
definition STAGE_FAILURE :: string where "STAGE_FAILURE = ''engine_failure''"

lemmas stage_defs = STAGE_ENFORCE_def STAGE_BUDGET_def STAGE_AUTHORITY_def STAGE_DETECT_def
  STAGE_ALLOWED_def STAGE_FAILURE_def

record verdict =
  vd_action_id :: string
  vd_allowed :: bool
  vd_stage :: string
  vd_effect :: effect
  vd_reason :: string
  vd_tool :: string
  vd_action :: string
  vd_risk :: int
  vd_reversibility :: reversibility
  vd_chain :: "chain_result option"
  vd_decision :: "decision option"
  vd_plan :: "reversal_plan option"
  vd_journal_id :: "string option"
  vd_findings :: "val list"
  vd_max_severity :: string
  vd_effective_args :: args
  vd_ledger_seq :: "int option"
  vd_approved_by_human :: bool
  vd_charge :: "charge option"

definition verdict_human_root :: "verdict \<Rightarrow> string option" where
  "verdict_human_root v = (case vd_chain v of None \<Rightarrow> None | Some c \<Rightarrow> cn_human_root_name c)"

definition verdict_undoable :: "verdict \<Rightarrow> bool" where
  "verdict_undoable v =
     (case vd_plan v of None \<Rightarrow> False | Some p \<Rightarrow> is_executable p \<and> rp_unresolved_args p = [])"

definition chain_result_to_dict :: "chain_result \<Rightarrow> val" where
  "chain_result_to_dict r = VDict
    [(''ok'', VBool (cn_ok r)), (''action_id'', VStr (cn_action_id r)),
     (''human_root_id'', v_opt_str (cn_human_root_id r)), (''human_root_name'', v_opt_str (cn_human_root_name r)),
     (''hops'', VInt (int (cn_hops r))), (''errors'', v_strs (map chain_error_text (cn_errors r))),
     (''effective_constraints'', VDict (cn_effective_constraints r)),
     (''reversibility_floor'', VStr (posture_value (cn_reversibility_floor r))),
     (''chain'', VList (map delegation_to_dict (cn_chain r)))]"

fun v_opt :: "('a \<Rightarrow> val) \<Rightarrow> 'a option \<Rightarrow> val" where
  "v_opt f None = VNone"
| "v_opt f (Some x) = f x"

definition verdict_to_dict :: "verdict \<Rightarrow> val" where
  "verdict_to_dict v = VDict
    [(''action_id'', VStr (vd_action_id v)), (''allowed'', VBool (vd_allowed v)), (''stage'', VStr (vd_stage v)),
     (''effect'', VStr (effect_value (vd_effect v))), (''reason'', VStr (vd_reason v)), (''tool'', VStr (vd_tool v)),
     (''action'', VStr (vd_action v)), (''risk'', VInt (vd_risk v)),
     (''reversibility'', VStr (posture_value (vd_reversibility v))), (''undoable'', VBool (verdict_undoable v)),
     (''human_root'', v_opt_str (verdict_human_root v)), (''approved_by_human'', VBool (vd_approved_by_human v)),
     (''max_severity'', VStr (vd_max_severity v)), (''budget_charge'', v_opt charge_to_dict (vd_charge v)),
     (''findings'', VList (vd_findings v)), (''chain'', v_opt chain_result_to_dict (vd_chain v)),
     (''gate_decision'', v_opt decision_to_dict (vd_decision v)), (''plan'', v_opt plan_to_dict (vd_plan v)),
     (''journal_id'', v_opt_str (vd_journal_id v)), (''ledger_seq'', v_opt VInt (vd_ledger_seq v))]"

record 'pk cplane =
  cp_authority :: "'pk authority"
  cp_reversal :: rengine
  cp_totals :: session_totals
  cp_budget :: "ibudget option"
  cp_strikes :: "(string, nat) dict"
  cp_verdicts :: "(string, verdict) dict"
  cp_args :: "(string, args) dict"
  cp_ledger :: ledger

definition new_cplane :: "registry \<Rightarrow> ibudget option \<Rightarrow> 'pk cplane" where
  "new_cplane r b = \<lparr>cp_authority = new_authority, cp_reversal = new_engine r, cp_totals = [], cp_budget = b,
     cp_strikes = [], cp_verdicts = [], cp_args = [], cp_ledger = []\<rparr>"

section \<open>The ledger\<close>

definition append_log :: "('sk, 'pk, 'w) env \<Rightarrow> string \<Rightarrow> val \<Rightarrow> 'pk cplane \<Rightarrow> ledger_entry \<times> 'pk cplane" where
  "append_log en kind payload cp =
     (case append_entry (en_crypto en) (en_clock en (length (cp_ledger cp))) kind payload (cp_ledger cp) of
        (e, l) \<Rightarrow> (e, cp\<lparr>cp_ledger := l\<rparr>))"

definition log_events :: "('sk, 'pk, 'w) env \<Rightarrow> (string \<times> val) list \<Rightarrow> 'pk cplane \<Rightarrow> 'pk cplane" where
  "log_events en evs cp = fold (\<lambda>(kind, payload) c. snd (append_log en kind payload c)) evs cp"

text \<open>The operations of the authority engine, which the control plane passes through.\<close>

definition via_authority ::
  "('sk, 'pk, 'w) env \<Rightarrow> ('pk authority \<Rightarrow> 'a \<times> 'pk authority \<times> (string \<times> val) list) \<Rightarrow> 'pk cplane \<Rightarrow> 'a \<times> 'pk cplane" where
  "via_authority en f cp =
     (case f (cp_authority cp) of (r, au, ev) \<Rightarrow> (r, log_events en ev (cp\<lparr>cp_authority := au\<rparr>)))"

definition cp_register_human where
  "cp_register_human en name key given fresh roles claims =
     via_authority en (register_human (en_crypto en) name key given fresh roles claims)"

definition cp_register_agent where
  "cp_register_agent en name key given fresh roles claims =
     via_authority en (register_agent (en_crypto en) name key given fresh roles claims)"

definition cp_issue_root_delegation where
  "cp_issue_root_delegation en sk fresh human_id agent_id sc purpose ttl now =
     via_authority en (issue_root_delegation (en_crypto en) sk fresh human_id agent_id sc purpose ttl now)"

definition cp_sub_delegate where
  "cp_sub_delegate en sk fresh issuer subject parent sc purpose ttl now =
     via_authority en (sub_delegate (en_crypto en) sk fresh issuer subject parent sc purpose ttl now)"

section \<open>Authorizing a call\<close>

text \<open>A request, with the clock readings and identifiers its processing draws.\<close>

record 'sk request =
  rq_key :: 'sk
  rq_actor :: string
  rq_delegation :: string
  rq_tool :: string
  rq_args :: args
  rq_action :: string
  rq_risk :: int
  rq_description :: string
  rq_session :: string
  rq_now :: rat
  rq_abandon_at :: rat
  rq_fresh_action :: string
  rq_fresh_plan :: string
  rq_fresh_journal :: string

definition and_then ::
  "('e + 'a) \<times> 's \<Rightarrow> ('a \<Rightarrow> 's \<Rightarrow> ('e + 'b) \<times> 's) \<Rightarrow> ('e + 'b) \<times> 's" where
  "and_then m f = (case m of (Inl e, s) \<Rightarrow> (Inl e, s) | (Inr x, s) \<Rightarrow> f x s)"

definition lift_exn :: "pyexn + 'a \<Rightarrow> revoco_error + 'a" where
  "lift_exn m = (case m of Inl e \<Rightarrow> Inl (Raised e) | Inr x \<Rightarrow> Inr x)"

definition record_attempt ::
  "('sk, 'pk, 'w) env \<Rightarrow> 'sk request \<Rightarrow> string option \<Rightarrow> 'pk cplane \<Rightarrow> (revoco_error + action_record) \<times> 'pk cplane" where
  "record_attempt en rq plan_id =
     via_authority en (record_action (en_crypto en) (rq_key rq) (rq_fresh_action rq) (rq_actor rq) (rq_delegation rq)
       (rq_tool rq) (rq_action rq) (rq_risk rq)
       (if rq_description rq = [] then rq_action rq @ '' '' @ rq_tool rq else rq_description rq)
       (rq_args rq) (rq_session rq) plan_id (rq_now rq))"

definition gate_call_of :: "'sk request \<Rightarrow> 'pk principal \<Rightarrow> reversibility \<Rightarrow> 'pk gate_call" where
  "gate_call_of rq p posture = \<lparr>gl_tool = rq_tool rq, gl_args = rq_args rq, gl_principal = p,
     gl_session = rq_session rq, gl_action = rq_action rq, gl_posture = posture, gl_risk = rq_risk rq\<rparr>"

definition gate_stage ::
  "('sk, 'pk, 'w) env \<Rightarrow> 'w \<Rightarrow> 'sk request \<Rightarrow> reversibility \<Rightarrow> 'pk cplane \<Rightarrow> revoco_error + (decision \<times> bool)" where
  "gate_stage en w rq posture cp =
     bind_err (get_principal (rq_actor rq) (au_principals (cp_authority cp))) (\<lambda>p.
     bind_err (lift_exn (evaluate (en_rt en) (en_policy en) (gate_call_of rq p posture) (cp_totals cp))) (\<lambda>d.
     if de_effect d = REQUIRE_APPROVAL
     then bind_err (lift_exn (en_approval en w (rq_tool rq) (rq_args rq) p d)) (\<lambda>ok. Inr (d, ok))
     else Inr (d, False)))"

definition gate_blocks :: "decision \<Rightarrow> bool \<Rightarrow> bool" where
  "gate_blocks d approved \<longleftrightarrow> de_effect d = DENY \<or> (de_effect d = REQUIRE_APPROVAL \<and> \<not> approved)"

definition effective_args_of :: "decision \<Rightarrow> args \<Rightarrow> args" where
  "effective_args_of d a =
     (if de_effect d = REDACT
      then (case redact_arguments (VDict a) (de_redact_fields d) of VDict a' \<Rightarrow> a' | _ \<Rightarrow> [])
      else a)"

text \<open>Strike accounting, the ledger entry and the bookkeeping. The stored verdict and the returned
  one are the same object, so both carry the entry's number.\<close>

definition add_strike :: "verdict \<Rightarrow> 'pk cplane \<Rightarrow> 'pk cplane" where
  "add_strike v cp =
     (if \<not> vd_allowed v \<and> vd_action_id v \<noteq> [] \<and> vd_effect v \<noteq> REQUIRE_APPROVAL
      then (case get_action (vd_action_id v) (cp_authority cp) of
              None \<Rightarrow> cp
            | Some a \<Rightarrow> cp\<lparr>cp_strikes := AList.update (ar_actor a)
                (Suc (case map_of (cp_strikes cp) (ar_actor a) of None \<Rightarrow> 0 | Some n \<Rightarrow> n)) (cp_strikes cp)\<rparr>)
      else cp)"

definition log_verdict :: "('sk, 'pk, 'w) env \<Rightarrow> verdict \<Rightarrow> 'pk cplane \<Rightarrow> verdict \<times> 'pk cplane" where
  "log_verdict en v cp =
     (case append_log en ''verdict'' (verdict_to_dict v) cp of
        (e, cp') \<Rightarrow> (v\<lparr>vd_ledger_seq := Some (le_seq e)\<rparr>, cp'))"

definition finalize :: "('sk, 'pk, 'w) env \<Rightarrow> verdict \<Rightarrow> args \<Rightarrow> 'pk cplane \<Rightarrow> verdict \<times> 'pk cplane" where
  "finalize en v raw_args cp =
     (case log_verdict en v (add_strike v cp) of
        (v', cp') \<Rightarrow> (v', if vd_action_id v = [] then cp'
           else cp'\<lparr>cp_verdicts := AList.update (vd_action_id v) v' (cp_verdicts cp'),
                    cp_args := AList.update (vd_action_id v) raw_args (cp_args cp')\<rparr>))"

text \<open>A verdict of a stage before planning.\<close>

definition refused_verdict ::
  "'sk request \<Rightarrow> reversibility \<Rightarrow> decision \<Rightarrow> bool \<Rightarrow> string \<Rightarrow> string \<Rightarrow> effect \<Rightarrow> string \<Rightarrow> charge option \<Rightarrow> verdict" where
  "refused_verdict rq posture d approved aid stage eff reason ch =
     \<lparr>vd_action_id = aid, vd_allowed = False, vd_stage = stage, vd_effect = eff, vd_reason = reason,
      vd_tool = rq_tool rq, vd_action = rq_action rq, vd_risk = rq_risk rq, vd_reversibility = posture,
      vd_chain = None, vd_decision = Some d, vd_plan = None, vd_journal_id = None, vd_findings = [],
      vd_max_severity = severity_value SInfo, vd_effective_args = [], vd_ledger_seq = None,
      vd_approved_by_human = approved, vd_charge = ch\<rparr>"

definition refuse ::
  "('sk, 'pk, 'w) env \<Rightarrow> 'sk request \<Rightarrow> reversibility \<Rightarrow> decision \<Rightarrow> bool \<Rightarrow> string \<Rightarrow> effect \<Rightarrow> string \<Rightarrow> charge option
   \<Rightarrow> 'pk cplane \<Rightarrow> (revoco_error + verdict) \<times> 'pk cplane" where
  "refuse en rq posture d approved stage eff reason ch cp =
     and_then (record_attempt en rq None cp) (\<lambda>a cp1.
       case finalize en (refused_verdict rq posture d approved (ar_id a) stage eff reason ch) (rq_args rq) cp1 of
         (v, cp2) \<Rightarrow> (Inr v, cp2))"

subsection \<open>The irreversibility budget\<close>

text \<open>\<open>{x:.3f}\<close> of a number that is not negative, and the reason of a refused check; the reason of
  an accepted one is not used.\<close>

definition show_fixed3 :: "rat \<Rightarrow> string" where
  "show_fixed3 x =
     (let n = nat (floor (py_round x 3 * 1000))
      in show_nat (n div 1000) @ ''.'' @ show_nat (n div 100 mod 10) @ show_nat (n div 10 mod 10) @ show_nat (n mod 10))"

definition refusal_text :: "budget_reason \<Rightarrow> string" where
  "refusal_text why =
     (case why of
        BExhausted spent cap cost \<Rightarrow>
          ''irreversibility budget exhausted for this grant: '' @ show_fixed3 spent @ '' of '' @ show_fixed3 cap
          @ '' already committed and this action costs '' @ show_fixed3 cost
          @ ''. A human must re-authorize before more unrecoverable work proceeds.''
      | _ \<Rightarrow> [])"

text \<open>The charge, if there is a budget, and the reason if the budget refuses.\<close>

definition budget_stage ::
  "'sk request \<Rightarrow> reversibility \<Rightarrow> 'pk cplane \<Rightarrow> (charge option \<times> string option) \<times> 'pk cplane" where
  "budget_stage rq posture cp =
     (case cp_budget cp of
        None \<Rightarrow> ((None, None), cp)
      | Some b \<Rightarrow>
         (let spec = registry_get (rq_tool rq) (re_registry (cp_reversal cp));
              ((ok, ch, why), b') = budget_check (rq_delegation rq) (rq_tool rq) posture (rq_risk rq)
                (case spec of None \<Rightarrow> False | Some s \<Rightarrow> sp_residue s \<noteq> []) b
          in ((Some ch, if ok then None else Some (refusal_text why)), cp\<lparr>cp_budget := Some b'\<rparr>)))"

subsection \<open>Detection\<close>

definition committed_one_way :: "string \<Rightarrow> 'pk cplane \<Rightarrow> nat" where
  "committed_one_way did cp =
     length (filter (\<lambda>e. is_one_way (rp_kind (je_plan e))) (entries (Some COMMITTED) None (Some did) (cp_reversal cp)))"

definition strikes_of :: "string \<Rightarrow> 'pk cplane \<Rightarrow> nat" where
  "strikes_of actor cp = (case map_of (cp_strikes cp) actor of None \<Rightarrow> 0 | Some n \<Rightarrow> n)"

definition signature_valid :: "('sk, 'pk) crypto \<Rightarrow> action_record \<Rightarrow> 'pk authority \<Rightarrow> bool" where
  "signature_valid cr a au =
     (case get_principal (ar_actor a) (au_principals au) of Inl _ \<Rightarrow> False | Inr p \<Rightarrow> action_verifies cr (pr_key p) a)"

definition run_detectors ::
  "('sk, 'pk, 'w) env \<Rightarrow> action_record \<Rightarrow> chain_result \<Rightarrow> reversal_plan option \<Rightarrow> args \<Rightarrow> 'pk cplane
   \<Rightarrow> revoco_error + finding list" where
  "run_detectors en a ch up call_args cp =
     (case get_delegation (ar_delegation a) (cp_authority cp) of
        None \<Rightarrow> Inr []
      | Some d \<Rightarrow>
         (let recent = actions_by_actor (ar_actor a) (Some (ar_id a)) (cp_authority cp);
              dt = en_detector en
          in bind_err (lift_exn (evaluate_constraints (en_rt en) a call_args (cn_effective_constraints ch))) (\<lambda>caps.
             Inr (evaluate_action dt a d (cn_chain ch) (signature_valid (en_crypto en) a (cp_authority cp)) recent
                @ evaluate_chain dt a (map chain_error_text (cn_errors ch)) recent (strikes_of (ar_actor a) cp)
                @ caps
                @ evaluate_reversibility dt a up (committed_one_way (ar_delegation a) cp) (cn_reversibility_floor ch)))))"

text \<open>The stage that decides, whether the call is allowed, and the reason.\<close>

definition combine :: "chain_result \<Rightarrow> finding list \<Rightarrow> decision \<Rightarrow> string \<times> bool \<times> string" where
  "combine ch fs d =
     (if \<not> cn_ok ch then
        (let t = join ''; '' (map chain_error_text (cn_errors ch))
         in (STAGE_AUTHORITY, False, if t = [] then ''authority chain did not verify'' else t))
      else if is_blocking (max_severity fs) then
        (STAGE_DETECT, False, join ''; '' (map fd_title (filter (\<lambda>f. fd_severity f \<in> {SHigh, SCritical}) fs)))
      else (STAGE_ALLOWED, True, de_reason d))"

definition combined_verdict ::
  "'sk request \<Rightarrow> reversibility \<Rightarrow> decision \<Rightarrow> bool \<Rightarrow> charge option \<Rightarrow> reversal_plan \<Rightarrow> action_record \<Rightarrow> chain_result
   \<Rightarrow> finding list \<Rightarrow> verdict" where
  "combined_verdict rq posture d approved charge p a ch fs =
     (case combine ch fs d of (stage, ok, reason) \<Rightarrow>
       \<lparr>vd_action_id = ar_id a, vd_allowed = ok, vd_stage = stage, vd_effect = (if ok then de_effect d else DENY),
        vd_reason = reason, vd_tool = rq_tool rq, vd_action = rq_action rq, vd_risk = rq_risk rq,
        vd_reversibility = posture, vd_chain = Some ch, vd_decision = Some d, vd_plan = Some p,
        vd_journal_id = Some (rq_fresh_journal rq), vd_findings = map finding_to_dict fs,
        vd_max_severity = severity_value (max_severity fs),
        vd_effective_args = (if ok then effective_args_of d (rq_args rq) else []), vd_ledger_seq = None,
        vd_approved_by_human = approved, vd_charge = charge\<rparr>)"

subsection \<open>The pipeline\<close>

definition plan_stage ::
  "('sk, 'pk, 'w) env \<Rightarrow> 'w \<Rightarrow> 'sk request \<Rightarrow> 'pk cplane \<Rightarrow> (revoco_error + reversal_plan) \<times> 'pk cplane" where
  "plan_stage en w rq cp =
     (case plan (en_seams en) w (rq_fresh_plan rq) (rq_now rq) (rq_tool rq) (rq_args rq) (cp_reversal cp) of
        (r, ev) \<Rightarrow> (r, log_events en ev cp))"

definition journal_stage ::
  "('sk, 'pk, 'w) env \<Rightarrow> 'sk request \<Rightarrow> reversal_plan \<Rightarrow> 'pk cplane \<Rightarrow> 'pk cplane" where
  "journal_stage en rq p cp =
     cp\<lparr>cp_reversal := snd (open_journal (rq_fresh_journal rq) p (Some (rq_actor rq)) (Some (rq_delegation rq))
                              (rq_session rq) (cp_reversal cp))\<rparr>"

definition abandon_stage ::
  "('sk, 'pk, 'w) env \<Rightarrow> 'sk request \<Rightarrow> verdict \<Rightarrow> 'pk cplane \<Rightarrow> (revoco_error + unit) \<times> 'pk cplane" where
  "abandon_stage en rq v cp =
     (if vd_allowed v then (Inr (), cp)
      else case abandon (rq_fresh_journal rq) (''blocked at '' @ vd_stage v @ '': '' @ vd_reason v) (rq_abandon_at rq)
                  (cp_reversal cp) of
        (r, eng, ev) \<Rightarrow> (bind_err r (\<lambda>_. Inr ()), log_events en ev (cp\<lparr>cp_reversal := eng\<rparr>)))"

text \<open>From planning on, for a call that the gate and the budget let through.\<close>

definition judge ::
  "('sk, 'pk, 'w) env \<Rightarrow> 'w \<Rightarrow> 'sk request \<Rightarrow> reversibility \<Rightarrow> decision \<Rightarrow> bool \<Rightarrow> charge option \<Rightarrow> 'pk cplane
   \<Rightarrow> (revoco_error + verdict) \<times> 'pk cplane" where
  "judge en w rq posture d approved charge cp =
     and_then (plan_stage en w rq cp) (\<lambda>p cp1.
     and_then (record_attempt en rq (Some (rp_id p)) cp1) (\<lambda>a cp2.
       let ch = reconstruct_chain (en_crypto en) (ar_id a) (cp_authority cp2) in
       case run_detectors en a ch (Some p) (rq_args rq) cp2 of
         Inl e \<Rightarrow> (Inl e, cp2)
       | Inr fs \<Rightarrow>
          (let v = combined_verdict rq posture d approved charge p a ch fs in
           and_then (abandon_stage en rq v (journal_stage en rq p cp2)) (\<lambda>_ cp3.
             case finalize en v (rq_args rq) cp3 of (v', cp4) \<Rightarrow> (Inr v', cp4)))))"

definition authorize_inner ::
  "('sk, 'pk, 'w) env \<Rightarrow> 'w \<Rightarrow> 'sk request \<Rightarrow> 'pk cplane \<Rightarrow> (revoco_error + verdict) \<times> 'pk cplane" where
  "authorize_inner en w rq cp =
     (let (posture, ev) = classify (en_seams en) w (rq_tool rq) (Some (rq_args rq)) (cp_reversal cp);
          cp1 = log_events en ev cp
      in case gate_stage en w rq posture cp1 of
           Inl e \<Rightarrow> (Inl e, cp1)
         | Inr (d, approved) \<Rightarrow>
            if gate_blocks d approved
            then refuse en rq posture d approved STAGE_ENFORCE (de_effect d) (de_reason d) None cp1
            else (case budget_stage rq posture cp1 of
                ((charge, Some reason), cp2) \<Rightarrow>
                  refuse en rq posture d approved STAGE_BUDGET DENY reason charge cp2
              | ((charge, None), cp2) \<Rightarrow> judge en w rq posture d approved charge cp2))"

definition failure_verdict :: "('sk, 'pk, 'w) env \<Rightarrow> 'sk request \<Rightarrow> revoco_error \<Rightarrow> verdict" where
  "failure_verdict en rq e =
     \<lparr>vd_action_id = [], vd_allowed = (\<not> en_fail_closed en), vd_stage = STAGE_FAILURE,
      vd_effect = (if en_fail_closed en then DENY else ALLOW),
      vd_reason = (if en_fail_closed en
        then ''control plane error, blocked (fail-closed): '' @ error_name e @ '': '' @ en_exc_text en e
        else ''control plane error, fail_closed=False: '' @ error_name e),
      vd_tool = rq_tool rq, vd_action = rq_action rq, vd_risk = rq_risk rq, vd_reversibility = UNKNOWN,
      vd_chain = None, vd_decision = None, vd_plan = None, vd_journal_id = None, vd_findings = [],
      vd_max_severity = severity_value SInfo,
      vd_effective_args = (if en_fail_closed en then [] else rq_args rq), vd_ledger_seq = None,
      vd_approved_by_human = False, vd_charge = None\<rparr>"

definition authorize ::
  "('sk, 'pk, 'w) env \<Rightarrow> 'w \<Rightarrow> 'sk request \<Rightarrow> 'pk cplane \<Rightarrow> (revoco_error + verdict) \<times> 'pk cplane" where
  "authorize en w rq cp =
     (case authorize_inner en w rq cp of
        (Inr v, cp') \<Rightarrow> (Inr v, cp')
      | (Inl e, cp') \<Rightarrow>
         if e = ChainBroken then (Inl e, cp')
         else (case log_verdict en (failure_verdict en rq e) cp' of (v, cp'') \<Rightarrow> (Inr v, cp'')))"

section \<open>After the call\<close>

definition args_of :: "string \<Rightarrow> 'pk cplane \<Rightarrow> args" where
  "args_of aid cp = (case map_of (cp_args cp) aid of None \<Rightarrow> [] | Some a \<Rightarrow> a)"

definition session_of :: "string \<Rightarrow> 'pk cplane \<Rightarrow> string" where
  "session_of aid cp = (case get_action aid (cp_authority cp) of None \<Rightarrow> [] | Some a \<Rightarrow> ar_session a)"

text \<open>Charging and returning the session budget of the rule that decided, and the exposure of the
  grant.\<close>

definition charge_session :: "('sk, 'pk, 'w) env \<Rightarrow> verdict \<Rightarrow> 'pk cplane \<Rightarrow> revoco_error + 'pk cplane" where
  "charge_session en v cp =
     (case vd_decision v of
        None \<Rightarrow> Inr cp
      | Some d \<Rightarrow>
          bind_err (lift_exn (commit_budget (en_rt en) (en_policy en) (args_of (vd_action_id v) cp) d
                                (session_of (vd_action_id v) cp) (cp_totals cp)))
            (\<lambda>t. Inr (cp\<lparr>cp_totals := t\<rparr>)))"

definition release_session ::
  "('sk, 'pk, 'w) env \<Rightarrow> string \<Rightarrow> verdict \<Rightarrow> 'pk cplane \<Rightarrow> revoco_error + 'pk cplane" where
  "release_session en aid v cp =
     (case vd_decision v of
        None \<Rightarrow> Inr cp
      | Some d \<Rightarrow>
          bind_err (lift_exn (release_budget (en_rt en) (en_policy en) (args_of aid cp) d (session_of aid cp) (cp_totals cp)))
            (\<lambda>t. Inr (cp\<lparr>cp_totals := t\<rparr>)))"

definition on_budget ::
  "(string \<Rightarrow> charge \<Rightarrow> ibudget \<Rightarrow> budget_state \<times> ibudget) \<Rightarrow> string \<Rightarrow> verdict \<Rightarrow> 'pk cplane \<Rightarrow> 'pk cplane" where
  "on_budget f aid v cp =
     (case (cp_budget cp, vd_charge v, get_action aid (cp_authority cp)) of
        (Some b, Some ch, Some a) \<Rightarrow> cp\<lparr>cp_budget := Some (snd (f (ar_delegation a) ch b))\<rparr>
      | _ \<Rightarrow> cp)"

definition with_reversal ::
  "('sk, 'pk, 'w) env \<Rightarrow> rengine \<Rightarrow> (string \<times> val) list \<Rightarrow> 'pk cplane \<Rightarrow> 'pk cplane" where
  "with_reversal en eng ev cp = log_events en ev (cp\<lparr>cp_reversal := eng\<rparr>)"

text \<open>The verdict passed in is the stored object: the plan that \<open>confirm\<close> writes into it is written
  into the stored one.\<close>

definition store_plan :: "verdict \<Rightarrow> 'pk cplane \<Rightarrow> 'pk cplane" where
  "store_plan v cp =
     (case map_of (cp_verdicts cp) (vd_action_id v) of
        None \<Rightarrow> cp
      | Some v0 \<Rightarrow> cp\<lparr>cp_verdicts := AList.update (vd_action_id v) (v0\<lparr>vd_plan := vd_plan v\<rparr>) (cp_verdicts cp)\<rparr>)"

definition confirm ::
  "('sk, 'pk, 'w) env \<Rightarrow> verdict \<Rightarrow> val \<Rightarrow> rat \<Rightarrow> 'pk cplane \<Rightarrow> (revoco_error + journal_entry option) \<times> verdict \<times> 'pk cplane" where
  "confirm en v result now cp =
     (case vd_journal_id v of
        None \<Rightarrow> (Inr None, v, cp)
      | Some jid \<Rightarrow>
         if \<not> vd_allowed v then (Inr None, v, cp)
         else (case commit jid (vd_action_id v) result now (cp_reversal cp) of
             (Inl e, eng, ev) \<Rightarrow> (Inl e, v, with_reversal en eng ev cp)
           | (Inr entry, eng, ev) \<Rightarrow>
              (let cp1 = with_reversal en eng ev cp in
               case charge_session en v cp1 of
                 Inl e \<Rightarrow> (Inl e, v, cp1)
               | Inr cp2 \<Rightarrow>
                  (let v' = v\<lparr>vd_plan := Some (je_plan entry)\<rparr>
                   in (Inr (Some entry), v', store_plan v' (on_budget budget_commit (vd_action_id v) v cp2))))))"

section \<open>Undo\<close>

definition undo ::
  "('sk, 'pk, 'w) env \<Rightarrow> 'w executor \<Rightarrow> string \<Rightarrow> string \<Rightarrow> rat \<Rightarrow> 'pk cplane \<Rightarrow> 'w
   \<Rightarrow> (revoco_error + reversal_receipt) \<times> 'pk cplane \<times> 'w" where
  "undo en exec rid aid now cp w =
     (case reverse (en_seams en) exec rid aid now False (cp_reversal cp) w of
        (r, eng, ev, w') \<Rightarrow>
         (let cp1 = with_reversal en eng ev cp in
          case r of
            Inl e \<Rightarrow> (Inl e, cp1, w')
          | Inr receipt \<Rightarrow>
             (case (rc_ok receipt, map_of (cp_verdicts cp1) aid) of
                (True, Some v) \<Rightarrow>
                  (case release_session en aid v cp1 of
                     Inl e \<Rightarrow> (Inl e, cp1, w')
                   | Inr cp2 \<Rightarrow> (Inr receipt, on_budget budget_refund aid v cp2, w'))
              | _ \<Rightarrow> (Inr receipt, cp1, w'))))"

definition radius_actions :: "string list \<Rightarrow> 'pk authority \<Rightarrow> string list" where
  "radius_actions dids au = concat (map (\<lambda>d. map ar_id (actions_under_delegation d au)) dids)"

definition cascade_over ::
  "('sk, 'pk, 'w) env \<Rightarrow> 'w executor \<Rightarrow> (nat \<Rightarrow> string) \<Rightarrow> string option \<Rightarrow> string option \<Rightarrow> string list option \<Rightarrow> bool \<Rightarrow> rat
   \<Rightarrow> 'pk cplane \<Rightarrow> 'w \<Rightarrow> (revoco_error + cascade_report) \<times> 'pk cplane \<times> 'w" where
  "cascade_over en exec rids session deleg acts stop now cp w =
     (case reverse_cascade (en_seams en) exec rids session deleg acts stop now (cp_reversal cp) w of
        (r, eng, ev, w') \<Rightarrow> (r, with_reversal en eng ev cp, w'))"

definition undo_all ::
  "('sk, 'pk, 'w) env \<Rightarrow> 'w executor \<Rightarrow> (nat \<Rightarrow> string) \<Rightarrow> string option \<Rightarrow> string option \<Rightarrow> bool \<Rightarrow> bool \<Rightarrow> rat
   \<Rightarrow> 'pk cplane \<Rightarrow> 'w \<Rightarrow> (revoco_error + cascade_report) \<times> 'pk cplane \<times> 'w" where
  "undo_all en exec rids session deleg subtree stop now cp w =
     (case deleg of
        Some d \<Rightarrow>
          if subtree then
            cascade_over en exec rids None None
              (Some (radius_actions (descendant_delegations d (cp_authority cp)) (cp_authority cp))) stop now cp w
          else cascade_over en exec rids session deleg None stop now cp w
      | None \<Rightarrow> cascade_over en exec rids session deleg None stop now cp w)"

section \<open>Containment\<close>

text \<open>Each revocation draws an identifier and reads the clock.\<close>

fun revoke_each ::
  "('sk, 'pk, 'w) env \<Rightarrow> (nat \<Rightarrow> string \<times> rat) \<Rightarrow> string \<Rightarrow> string option \<Rightarrow> nat \<Rightarrow> string list \<Rightarrow> 'pk cplane \<Rightarrow> 'pk cplane" where
  "revoke_each en draw reason by_whom n [] cp = cp"
| "revoke_each en draw reason by_whom n (d # ds) cp =
     revoke_each en draw reason by_whom (Suc n) ds
       (snd (via_authority en (revoke_delegation (fst (draw n)) d reason by_whom (snd (draw n))) cp))"

definition containment_record :: "string \<Rightarrow> string list \<Rightarrow> string list \<Rightarrow> cascade_report \<Rightarrow> val" where
  "containment_record did subtree acts rep = VDict
    [(''delegation_id'', VStr did), (''revoked_delegations'', v_strs subtree),
     (''actions_in_radius'', VInt (int (length acts))), (''rollback'', report_to_dict rep),
     (''fully_contained'', VBool (cascade_ok rep \<and> cr_skipped rep = 0)),
     (''needs_human_to_unblock'', v_strs (cr_blocked_by_gates rep))]"

definition contain ::
  "('sk, 'pk, 'w) env \<Rightarrow> 'w executor \<Rightarrow> (nat \<Rightarrow> string) \<Rightarrow> (nat \<Rightarrow> string \<times> rat) \<Rightarrow> string \<Rightarrow> string \<Rightarrow> string option \<Rightarrow> bool \<Rightarrow> rat
   \<Rightarrow> 'pk cplane \<Rightarrow> 'w \<Rightarrow> (revoco_error + val) \<times> 'pk cplane \<times> 'w" where
  "contain en exec rids draw did reason by_whom stop now cp w =
     (let subtree = descendant_delegations did (cp_authority cp);
          cp1 = revoke_each en draw reason by_whom 0 subtree cp;
          acts = radius_actions subtree (cp_authority cp1)
      in case cascade_over en exec rids None None (Some acts) stop now cp1 w of
           (Inl e, cp2, w') \<Rightarrow> (Inl e, cp2, w')
         | (Inr rep, cp2, w') \<Rightarrow>
            (let out = containment_record did subtree acts rep
             in (Inr out, snd (append_log en ''containment'' out cp2), w')))"

section \<open>Introspection\<close>

definition cp_horizon :: "rat \<Rightarrow> rat \<Rightarrow> string option \<Rightarrow> string option \<Rightarrow> 'pk cplane \<Rightarrow> horizon" where
  "cp_horizon now warn session deleg cp = engine_horizon now warn session deleg (cp_reversal cp)"

definition cp_verify :: "('sk, 'pk, 'w) env \<Rightarrow> 'pk cplane \<Rightarrow> revoco_error + unit" where
  "cp_verify en cp = verify_integrity (en_crypto en) (cp_ledger cp)"

definition verdict_for :: "string \<Rightarrow> 'pk cplane \<Rightarrow> verdict option" where
  "verdict_for aid cp = map_of (cp_verdicts cp) aid"

definition v_counts :: "(string \<times> nat) list \<Rightarrow> val" where
  "v_counts xs = VDict (map (\<lambda>(k, n). (k, v_count n)) xs)"

definition cp_stats :: "('sk, 'pk, 'w) env \<Rightarrow> rat \<Rightarrow> 'pk cplane \<Rightarrow> val" where
  "cp_stats en now cp =
     (let a = authority_stats_of (cp_authority cp); r = engine_stats_of now (cp_reversal cp) in VDict
      [(''principals'', v_count (as_principals a)), (''delegations'', v_count (as_delegations a)),
       (''actions'', v_count (as_actions a)), (''revocations'', v_count (as_revocations a)),
       (''journal_entries'', v_count (es_journal_entries r)), (''by_state'', v_counts (es_by_state r)),
       (''undoable_now'', v_count (es_undoable_now r)), (''registered_inverses'', v_count (es_registered r)),
       (''ledger_entries'', v_count (length (cp_ledger cp))), (''ledger_head'', VStr (head_hash (cp_ledger cp))),
       (''merkle_root'', VStr (merkle_root (en_crypto en) (cp_ledger cp))), (''policy'', VStr (po_name (en_policy en))),
       (''policy_digest'', VStr (policy_digest (en_crypto en) (en_policy en))),
       (''by_kind'', v_counts (counts_by_kind (cp_ledger cp)))])"

end
