(* ===== verification/ControlFacts.thy ===== *)
theory ControlFacts
  imports ControlPlane LedgerProps
begin

text \<open>
  What every operation of the control plane does to its parts: the authority moves by steps of the
  authority machine, the undo engine by steps of the undo machine, and the ledger by appending.
\<close>

section \<open>Logging changes only the ledger\<close>

lemma append_log_eq:
  "append_log en k p cp =
     (build_entry (en_crypto en) (en_clock en (length (cp_ledger cp))) k p (cp_ledger cp),
      cp\<lparr>cp_ledger := cp_ledger cp @ [build_entry (en_crypto en) (en_clock en (length (cp_ledger cp))) k p (cp_ledger cp)]\<rparr>)"
  by (simp add: append_log_def append_entry_def Let_def)

lemma log_events_Nil [simp]: "log_events en [] cp = cp"
  by (simp add: log_events_def)

lemma log_events_Cons:
  "log_events en (ev # evs) cp = log_events en evs (snd (append_log en (fst ev) (snd ev) cp))"
  by (simp add: log_events_def split_beta)

lemma append_log_fields [simp]:
  "cp_authority (snd (append_log en k p cp)) = cp_authority cp"
  "cp_reversal (snd (append_log en k p cp)) = cp_reversal cp"
  "cp_totals (snd (append_log en k p cp)) = cp_totals cp"
  "cp_budget (snd (append_log en k p cp)) = cp_budget cp"
  "cp_strikes (snd (append_log en k p cp)) = cp_strikes cp"
  "cp_verdicts (snd (append_log en k p cp)) = cp_verdicts cp"
  "cp_args (snd (append_log en k p cp)) = cp_args cp"
  by (simp_all add: append_log_eq)

lemma log_events_fields [simp]:
  "cp_authority (log_events en evs cp) = cp_authority cp"
  "cp_reversal (log_events en evs cp) = cp_reversal cp"
  "cp_totals (log_events en evs cp) = cp_totals cp"
  "cp_budget (log_events en evs cp) = cp_budget cp"
  "cp_strikes (log_events en evs cp) = cp_strikes cp"
  "cp_verdicts (log_events en evs cp) = cp_verdicts cp"
  "cp_args (log_events en evs cp) = cp_args cp"
  by (induction evs arbitrary: cp) (simp_all add: log_events_Cons)

text \<open>What the ledger says, without hashes and times.\<close>

definition ledger_lines :: "ledger \<Rightarrow> (string \<times> val) list" where
  "ledger_lines l = map (\<lambda>e. (le_kind e, le_payload e)) l"

lemma logged_append [simp]: "ledger_lines (l @ m) = ledger_lines l @ ledger_lines m"
  by (simp add: ledger_lines_def)

lemma build_entry_fields [simp]:
  "le_kind (build_entry cr t k p l) = k" "le_payload (build_entry cr t k p l) = p"
  "le_seq (build_entry cr t k p l) = int (length l)"
  by (simp_all add: build_entry_def Let_def)

lemma logged_append_log: "ledger_lines (cp_ledger (snd (append_log en k p cp))) = ledger_lines (cp_ledger cp) @ [(k, p)]"
  by (simp add: append_log_eq ledger_lines_def)

lemma logged_log_events: "ledger_lines (cp_ledger (log_events en evs cp)) = ledger_lines (cp_ledger cp) @ evs"
  by (induction evs arbitrary: cp) (simp_all add: log_events_Cons logged_append_log)

lemma append_all_snoc: "append_all cr (items @ [(t, k, p)]) l = append_all cr items l @ [build_entry cr t k p (append_all cr items l)]"
  by (simp add: append_all_def append_entry_def Let_def)

lemma append_all_append: "append_all cr (xs @ ys) l = append_all cr ys (append_all cr xs l)"
  by (simp add: append_all_def)

definition grows :: "('sk, 'pk) crypto \<Rightarrow> ledger \<Rightarrow> ledger \<Rightarrow> bool" where
  "grows cr l l' \<longleftrightarrow> (\<exists>items. l' = append_all cr items l)"

lemma grows_refl [simp]: "grows cr l l"
  unfolding grows_def by (rule exI [of _ "[]"]) (simp add: append_all_def)

lemma grows_trans: "grows cr a b \<Longrightarrow> grows cr b c \<Longrightarrow> grows cr a c"
  unfolding grows_def by (metis append_all_append)

lemma grows_append_log: "grows (en_crypto en) (cp_ledger cp) (cp_ledger (snd (append_log en k p cp)))"
  unfolding grows_def
  by (rule exI [of _ "[(en_clock en (length (cp_ledger cp)), k, p)]"])
     (simp add: append_log_eq append_all_def append_entry_def Let_def)

lemma grows_log_events: "grows (en_crypto en) (cp_ledger cp) (cp_ledger (log_events en evs cp))"
proof (induction evs arbitrary: cp)
  case (Cons ev evs)
  show ?case unfolding log_events_Cons by (rule grows_trans [OF grows_append_log Cons.IH])
qed simp

lemma grows_prefix: "grows cr l l' \<Longrightarrow> \<exists>new. l' = l @ new"
  unfolding grows_def using append_all_prefix by blast

lemma grows_verifies: "grows cr l l' \<Longrightarrow> verify_integrity cr l = Inr () \<Longrightarrow> verify_integrity cr l' = Inr ()"
  unfolding grows_def using verify_append_all by blast

section \<open>Evolution\<close>

lemma authority_run_trans: "authority_run cr b c \<Longrightarrow> authority_run cr a b \<Longrightarrow> authority_run cr a c"
  by (induction rule: authority_run.induct) (auto intro: authority_run.step)

lemma authority_run_step: "authority_step cr a b \<Longrightarrow> authority_run cr a b"
  by (rule authority_run.step [OF authority_run.refl])

definition evolves :: "('sk, 'pk, 'w) env \<Rightarrow> 'pk cplane \<times> 'w \<Rightarrow> 'pk cplane \<times> 'w \<Rightarrow> bool" where
  "evolves en s t \<longleftrightarrow> authority_run (en_crypto en) (cp_authority (fst s)) (cp_authority (fst t))
     \<and> (engine_step (en_seams en))\<^sup>*\<^sup>* (cp_reversal (fst s), snd s) (cp_reversal (fst t), snd t)
     \<and> grows (en_crypto en) (cp_ledger (fst s)) (cp_ledger (fst t))"

lemma evolves_refl [simp]: "evolves en s s"
  by (simp add: evolves_def authority_run.refl)

lemma evolves_trans: "evolves en s t \<Longrightarrow> evolves en t u \<Longrightarrow> evolves en s u"
  unfolding evolves_def by (auto intro: authority_run_trans grows_trans)

text \<open>The fields that no machine owns do not matter.\<close>

lemma evolves_frame:
  assumes "cp_authority cp' = cp_authority cp" "cp_reversal cp' = cp_reversal cp" "cp_ledger cp' = cp_ledger cp"
  shows "evolves en (cp, w) (cp', w)"
  using assms by (simp add: evolves_def authority_run.refl)

lemma evolves_log: "evolves en (cp, w) (log_events en evs cp, w)"
  by (simp add: evolves_def authority_run.refl grows_log_events)

lemma evolves_append_log: "evolves en (cp, w) (snd (append_log en k p cp), w)"
  by (simp add: evolves_def authority_run.refl grows_append_log)

lemma evolves_via_authority:
  assumes "via_authority en f cp = (r, cp')"
    and "\<And>x au ev. f (cp_authority cp) = (x, au, ev) \<Longrightarrow> authority_step (en_crypto en) (cp_authority cp) au"
  shows "evolves en (cp, w) (cp', w)"
proof -
  obtain x au ev where f: "f (cp_authority cp) = (x, au, ev)" using prod_cases3 by blast
  then have "cp' = log_events en ev (cp\<lparr>cp_authority := au\<rparr>)" using assms(1) by (simp add: via_authority_def)
  then show ?thesis
    using authority_run_step [OF assms(2) [OF f]] grows_log_events [of en "cp\<lparr>cp_authority := au\<rparr>" ev]
    by (simp add: evolves_def)
qed

lemma evolves_reversal:
  assumes "(engine_step (en_seams en))\<^sup>*\<^sup>* (cp_reversal cp, w) (eng, w')"
  shows "evolves en (cp, w) (with_reversal en eng ev cp, w')"
  using assms grows_log_events [of en "cp\<lparr>cp_reversal := eng\<rparr>" ev]
  by (simp add: evolves_def with_reversal_def authority_run.refl)

lemma evolves_step:
  "engine_step (en_seams en) (cp_reversal cp, w) (eng, w') \<Longrightarrow> evolves en (cp, w) (with_reversal en eng ev cp, w')"
  by (rule evolves_reversal) (rule r_into_rtranclp)

section \<open>The pipeline\<close>

lemma and_thenE:
  assumes "and_then m f = (r, s)"
  obtains (error) e where "m = (Inl e, s)" "r = Inl e"
  | (ok) x s1 where "m = (Inr x, s1)" "f x s1 = (r, s)"
  using assms by (cases m; cases "fst m") (auto simp: and_then_def)

lemma log_verdict_eq:
  "log_verdict en v cp = (v\<lparr>vd_ledger_seq := Some (int (length (cp_ledger cp)))\<rparr>, snd (append_log en ''verdict'' (verdict_to_dict v) cp))"
  by (simp add: log_verdict_def append_log_eq)

lemma add_strike_fields [simp]:
  "cp_authority (add_strike v cp) = cp_authority cp" "cp_reversal (add_strike v cp) = cp_reversal cp"
  "cp_totals (add_strike v cp) = cp_totals cp" "cp_budget (add_strike v cp) = cp_budget cp"
  "cp_verdicts (add_strike v cp) = cp_verdicts cp" "cp_args (add_strike v cp) = cp_args cp"
  "cp_ledger (add_strike v cp) = cp_ledger cp"
  by (simp_all add: add_strike_def split: option.splits)

lemma finalize_verdict [simp]:
  "fst (finalize en v a cp) = v\<lparr>vd_ledger_seq := Some (int (length (cp_ledger cp)))\<rparr>"
  by (simp add: finalize_def log_verdict_eq)

lemma finalize_fields [simp]:
  "cp_authority (snd (finalize en v a cp)) = cp_authority cp" "cp_reversal (snd (finalize en v a cp)) = cp_reversal cp"
  "cp_totals (snd (finalize en v a cp)) = cp_totals cp" "cp_budget (snd (finalize en v a cp)) = cp_budget cp"
  "cp_ledger (snd (finalize en v a cp)) = cp_ledger (snd (append_log en ''verdict'' (verdict_to_dict v) cp))"
  by (simp_all add: finalize_def log_verdict_eq append_log_eq)

lemma evolves_finalize: "evolves en (cp, w) (snd (finalize en v a cp), w)"
  by (simp add: evolves_def authority_run.refl grows_append_log)

lemma evolves_record:
  assumes "record_attempt en rq pid cp = (r, cp')" "rq_fresh_action rq \<notin> dkeys (au_actions (cp_authority cp))"
  shows "evolves en (cp, w) (cp', w)"
  using assms unfolding record_attempt_def
  by (elim evolves_via_authority) (rule authority_step.act)

lemma record_attempt_engine: "record_attempt en rq pid cp = (r, cp') \<Longrightarrow> cp_reversal cp' = cp_reversal cp"
  by (auto simp: record_attempt_def via_authority_def split: prod.splits)

lemma refuseE:
  assumes "refuse en rq posture d approved stage eff reason ch cp = (r, cp')"
  obtains (error) e where "record_attempt en rq None cp = (Inl e, cp')" "r = Inl e"
  | (ok) a cp1 where "record_attempt en rq None cp = (Inr a, cp1)"
      "r = Inr (fst (finalize en (refused_verdict rq posture d approved (ar_id a) stage eff reason ch) (rq_args rq) cp1))"
      "cp' = snd (finalize en (refused_verdict rq posture d approved (ar_id a) stage eff reason ch) (rq_args rq) cp1)"
  using assms unfolding refuse_def by (rule and_thenE) (auto simp: split_beta simp del: finalize_verdict)

lemma evolves_refuse:
  assumes "refuse en rq posture d approved stage eff reason ch cp = (r, cp')"
    and "rq_fresh_action rq \<notin> dkeys (au_actions (cp_authority cp))"
  shows "evolves en (cp, w) (cp', w)"
  using assms(1)
proof (cases rule: refuseE)
  case (ok a cp1)
  then show ?thesis using evolves_trans [OF evolves_record [OF ok(1) assms(2)] evolves_finalize] by simp
qed (rule evolves_record [OF _ assms(2)])

text \<open>The stages of \<open>judge\<close> that end in a verdict, with the states between them.\<close>

lemma judgeE:
  assumes "judge en w rq posture d approved charge cp = (r, cp')"
  obtains (plan_error) e where "plan_stage en w rq cp = (Inl e, cp')" "r = Inl e"
  | (record_error) p cp1 e where "plan_stage en w rq cp = (Inr p, cp1)"
      "record_attempt en rq (Some (rp_id p)) cp1 = (Inl e, cp')" "r = Inl e"
  | (detect_error) p cp1 a e where "plan_stage en w rq cp = (Inr p, cp1)"
      "record_attempt en rq (Some (rp_id p)) cp1 = (Inr a, cp')"
      "run_detectors en a (reconstruct_chain (en_crypto en) (ar_id a) (cp_authority cp')) (Some p) (rq_args rq) cp' = Inl e"
      "r = Inl e"
  | (abandon_error) p cp1 a cp2 fs v e where "plan_stage en w rq cp = (Inr p, cp1)"
      "record_attempt en rq (Some (rp_id p)) cp1 = (Inr a, cp2)"
      "run_detectors en a (reconstruct_chain (en_crypto en) (ar_id a) (cp_authority cp2)) (Some p) (rq_args rq) cp2 = Inr fs"
      "v = combined_verdict rq posture d approved charge p a (reconstruct_chain (en_crypto en) (ar_id a) (cp_authority cp2)) fs"
      "abandon_stage en rq v (journal_stage en rq p cp2) = (Inl e, cp')" "r = Inl e"
  | (judged) p cp1 a cp2 fs v cp3 where "plan_stage en w rq cp = (Inr p, cp1)"
      "record_attempt en rq (Some (rp_id p)) cp1 = (Inr a, cp2)"
      "run_detectors en a (reconstruct_chain (en_crypto en) (ar_id a) (cp_authority cp2)) (Some p) (rq_args rq) cp2 = Inr fs"
      "v = combined_verdict rq posture d approved charge p a (reconstruct_chain (en_crypto en) (ar_id a) (cp_authority cp2)) fs"
      "abandon_stage en rq v (journal_stage en rq p cp2) = (Inr (), cp3)"
      "r = Inr (fst (finalize en v (rq_args rq) cp3))" "cp' = snd (finalize en v (rq_args rq) cp3)"
proof -
  from assms show thesis unfolding judge_def
  proof (cases rule: and_thenE)
    case (ok p cp1)
    from ok(2) show thesis
    proof (cases rule: and_thenE)
      case rec: (ok a cp2)
      show thesis
      proof (cases "run_detectors en a (reconstruct_chain (en_crypto en) (ar_id a) (cp_authority cp2)) (Some p) (rq_args rq) cp2")
        case (Inl e)
        with rec show thesis using detect_error [OF ok(1)] by (simp add: Let_def)
      next
        case (Inr fs)
        let ?v = "combined_verdict rq posture d approved charge p a (reconstruct_chain (en_crypto en) (ar_id a) (cp_authority cp2)) fs"
        from Inr rec(2) have "and_then (abandon_stage en rq ?v (journal_stage en rq p cp2))
            (\<lambda>_ cp3. case finalize en ?v (rq_args rq) cp3 of (v', cp4) \<Rightarrow> (Inr v', cp4)) = (r, cp')"
          by (simp add: Let_def)
        then show thesis
        proof (cases rule: and_thenE)
          case (error e)
          then show thesis using abandon_error [OF ok(1) rec(1) Inr HOL.refl] by simp
        next
          case fin: (ok u cp3)
          then show thesis using judged [OF ok(1) rec(1) Inr HOL.refl] by (auto simp: split_beta simp del: finalize_verdict)
        qed
      qed
    qed (use ok record_error in blast)
  qed (use plan_error in blast)
qed

lemma plan_stage_eq:
  "plan_stage en w rq cp =
     (fst (plan (en_seams en) w (rq_fresh_plan rq) (rq_now rq) (rq_tool rq) (rq_args rq) (cp_reversal cp)),
      log_events en (snd (plan (en_seams en) w (rq_fresh_plan rq) (rq_now rq) (rq_tool rq) (rq_args rq) (cp_reversal cp))) cp)"
  by (simp add: plan_stage_def split: prod.splits)

lemma evolves_plan: "plan_stage en w rq cp = (r, cp') \<Longrightarrow> evolves en (cp, w) (cp', w)"
  by (auto simp: plan_stage_eq evolves_log)

lemma evolves_journal:
  assumes "plan_stage en w rq cp = (Inr p, cp1)" "cp_reversal cp2 = cp_reversal cp"
  shows "evolves en (cp2, w) (journal_stage en rq p cp2, w)"
proof -
  have "engine_step (en_seams en) (cp_reversal cp2, w) (cp_reversal (journal_stage en rq p cp2), w)"
    unfolding journal_stage_def
    using engine_step.open_plan [of "en_seams en" w "rq_fresh_plan rq" "rq_now rq" "rq_tool rq" "rq_args rq" "cp_reversal cp" p]
      assms by (simp add: plan_stage_eq)
  then show ?thesis by (simp add: evolves_def authority_run.refl journal_stage_def r_into_rtranclp)
qed

lemma evolves_abandon:
  assumes "abandon_stage en rq v cp = (r, cp')"
  shows "evolves en (cp, w) (cp', w)"
proof (cases "vd_allowed v")
  case False
  with assms obtain x eng ev where a: "abandon (rq_fresh_journal rq) (''blocked at '' @ vd_stage v @ '': '' @ vd_reason v)
      (rq_abandon_at rq) (cp_reversal cp) = (x, eng, ev)" "cp' = with_reversal en eng ev cp"
    by (auto simp: abandon_stage_def with_reversal_def split: prod.splits)
  have "engine_step (en_seams en) (cp_reversal cp, w) (eng, w)" by (rule engine_step.abandon [OF a(1)])
  then show ?thesis unfolding a(2) by (rule evolves_step)
qed (use assms in \<open>simp add: abandon_stage_def\<close>)

lemma evolves_judge:
  assumes "judge en w rq posture d approved charge cp = (r, cp')"
    and fresh: "rq_fresh_action rq \<notin> dkeys (au_actions (cp_authority cp))"
  shows "evolves en (cp, w) (cp', w)"
proof -
  have rec: "evolves en (cp, w) (cp2, w) \<and> cp_reversal cp2 = cp_reversal cp"
    if "plan_stage en w rq cp = (Inr p, cp1)" "record_attempt en rq (Some (rp_id p)) cp1 = (x, cp2)" for p cp1 x cp2
    using evolves_trans [OF evolves_plan [OF that(1)] evolves_record [OF that(2)]] record_attempt_engine [OF that(2)]
      that(1) fresh by (auto simp: plan_stage_eq)
  from assms(1) show ?thesis
  proof (cases rule: judgeE)
    case plan_error
    then show ?thesis by (auto intro: evolves_plan)
  next
    case (abandon_error p cp1 a cp2 fs v e)
    note r = rec [OF abandon_error(1,2)]
    show ?thesis
      using evolves_trans [OF conjunct1 [OF r] evolves_trans [OF evolves_journal [OF abandon_error(1) conjunct2 [OF r]]
          evolves_abandon [OF abandon_error(5)]]] .
  next
    case (judged p cp1 a cp2 fs v cp3)
    note r = rec [OF judged(1,2)]
    show ?thesis
      unfolding judged(7)
      by (rule evolves_trans [OF conjunct1 [OF r] evolves_trans [OF evolves_journal [OF judged(1) conjunct2 [OF r]]
          evolves_trans [OF evolves_abandon [OF judged(5)] evolves_finalize]]])
  qed (use rec in blast)+
qed

lemma budget_stage_frame:
  assumes "budget_stage rq posture cp = (x, cp')"
  shows "cp_authority cp' = cp_authority cp \<and> cp_reversal cp' = cp_reversal cp \<and> cp_ledger cp' = cp_ledger cp
    \<and> cp_totals cp' = cp_totals cp \<and> cp_verdicts cp' = cp_verdicts cp \<and> cp_args cp' = cp_args cp \<and> cp_strikes cp' = cp_strikes cp"
  using assms by (auto simp: budget_stage_def Let_def split: option.splits prod.splits)

text \<open>The ways the pipeline goes, with the state after classification.\<close>

definition classified :: "('sk, 'pk, 'w) env \<Rightarrow> 'w \<Rightarrow> 'sk request \<Rightarrow> 'pk cplane \<Rightarrow> reversibility \<times> 'pk cplane" where
  "classified en w rq cp =
     (case classify (en_seams en) w (rq_tool rq) (Some (rq_args rq)) (cp_reversal cp) of
        (k, ev) \<Rightarrow> (k, log_events en ev cp))"

lemma authorize_innerE:
  assumes "authorize_inner en w rq cp = (r, cp')"
  obtains (gate_error) k e where "classified en w rq cp = (k, cp')" "gate_stage en w rq k cp' = Inl e" "r = Inl e"
  | (enforce) k cp1 d ok where "classified en w rq cp = (k, cp1)" "gate_stage en w rq k cp1 = Inr (d, ok)" "gate_blocks d ok"
      "refuse en rq k d ok STAGE_ENFORCE (de_effect d) (de_reason d) None cp1 = (r, cp')"
  | (budget) k cp1 d ok ch reason cp2 where "classified en w rq cp = (k, cp1)" "gate_stage en w rq k cp1 = Inr (d, ok)"
      "\<not> gate_blocks d ok" "budget_stage rq k cp1 = ((ch, Some reason), cp2)"
      "refuse en rq k d ok STAGE_BUDGET DENY reason ch cp2 = (r, cp')"
  | (judged) k cp1 d ok ch cp2 where "classified en w rq cp = (k, cp1)" "gate_stage en w rq k cp1 = Inr (d, ok)"
      "\<not> gate_blocks d ok" "budget_stage rq k cp1 = ((ch, None), cp2)"
      "judge en w rq k d ok ch cp2 = (r, cp')"
proof -
  obtain k ev where k: "classify (en_seams en) w (rq_tool rq) (Some (rq_args rq)) (cp_reversal cp) = (k, ev)" by fastforce
  let ?cp1 = "log_events en ev cp"
  have c: "classified en w rq cp = (k, ?cp1)" by (simp add: classified_def k)
  show thesis
  proof (cases "gate_stage en w rq k ?cp1")
    case (Inl e)
    with assms k have "r = Inl e" "cp' = ?cp1" by (simp_all add: authorize_inner_def)
    then show thesis using gate_error c Inl by blast
  next
    case (Inr x)
    obtain d ok where x: "x = (d, ok)" by fastforce
    obtain ch why cp2 where b: "budget_stage rq k ?cp1 = ((ch, why), cp2)" by (metis prod.collapse)
    show thesis
    proof (cases "gate_blocks d ok")
      case True
      with assms k Inr x show thesis by (intro enforce [OF c]) (auto simp: authorize_inner_def)
    next
      case False
      show thesis
      proof (cases why)
        case None
        with assms k Inr x b False show thesis by (intro judged [OF c _ False]) (auto simp: authorize_inner_def)
      next
        case (Some reason)
        with assms k Inr x b False show thesis by (intro budget [OF c _ False]) (auto simp: authorize_inner_def)
      qed
    qed
  qed
qed

lemma evolves_classified: "classified en w rq cp = (k, cp') \<Longrightarrow> evolves en (cp, w) (cp', w)"
  by (auto simp: classified_def evolves_log split: prod.splits)

lemma classified_fields:
  assumes "classified en w rq cp = (k, cp')"
  shows "cp_authority cp' = cp_authority cp" "cp_reversal cp' = cp_reversal cp" "cp_totals cp' = cp_totals cp"
    "cp_budget cp' = cp_budget cp" "cp_verdicts cp' = cp_verdicts cp" "cp_args cp' = cp_args cp" "cp_strikes cp' = cp_strikes cp"
  using assms by (auto simp: classified_def split: prod.splits)

lemma evolves_authorize_inner:
  assumes "authorize_inner en w rq cp = (r, cp')"
    and fresh: "rq_fresh_action rq \<notin> dkeys (au_actions (cp_authority cp))"
  shows "evolves en (cp, w) (cp', w)"
  using assms(1)
proof (cases rule: authorize_innerE)
  case (gate_error k e)
  show ?thesis by (rule evolves_classified [OF gate_error(1)])
next
  case (enforce k cp1 d ok)
  show ?thesis
    by (rule evolves_trans [OF evolves_classified [OF enforce(1)] evolves_refuse [OF enforce(4)]])
       (simp add: classified_fields [OF enforce(1)] fresh)
next
  case (budget k cp1 d ok ch reason cp2)
  note f = budget_stage_frame [OF budget(4)]
  have "evolves en (cp1, w) (cp2, w)" using f by (intro evolves_frame) simp_all
  moreover have "evolves en (cp2, w) (cp', w)"
    by (rule evolves_refuse [OF budget(5)]) (simp add: f classified_fields [OF budget(1)] fresh)
  ultimately show ?thesis using evolves_classified [OF budget(1)] evolves_trans by blast
next
  case (judged k cp1 d ok ch cp2)
  note f = budget_stage_frame [OF judged(4)]
  have "evolves en (cp1, w) (cp2, w)" using f by (intro evolves_frame) simp_all
  moreover have "evolves en (cp2, w) (cp', w)"
    by (rule evolves_judge [OF judged(5)]) (simp add: f classified_fields [OF judged(1)] fresh)
  ultimately show ?thesis using evolves_classified [OF judged(1)] evolves_trans by blast
qed

lemma authorizeE:
  assumes "authorize en w rq cp = (r, cp')"
  obtains (verdict) v where "authorize_inner en w rq cp = (Inr v, cp')" "r = Inr v"
  | (broken) "authorize_inner en w rq cp = (Inl ChainBroken, cp')" "r = Inl ChainBroken"
  | (failure) e cp1 where "authorize_inner en w rq cp = (Inl e, cp1)" "e \<noteq> ChainBroken"
      "r = Inr (failure_verdict en rq e\<lparr>vd_ledger_seq := Some (int (length (cp_ledger cp1)))\<rparr>)"
      "cp' = snd (append_log en ''verdict'' (verdict_to_dict (failure_verdict en rq e)) cp1)"
proof -
  obtain x cp1 where a: "authorize_inner en w rq cp = (x, cp1)" by fastforce
  show thesis
  proof (cases x)
    case (Inr v)
    with assms a have "r = Inr v" "cp' = cp1" by (simp_all add: authorize_def)
    then show thesis using verdict a Inr by blast
  next
    case (Inl e)
    show thesis
    proof (cases "e = ChainBroken")
      case True
      with assms a Inl have "r = Inl ChainBroken" "cp' = cp1" by (simp_all add: authorize_def)
      then show thesis using broken a Inl True by blast
    next
      case False
      with assms a Inl show thesis by (intro failure) (auto simp: authorize_def log_verdict_eq)
    qed
  qed
qed

lemma evolves_authorize:
  assumes "authorize en w rq cp = (r, cp')"
    and "rq_fresh_action rq \<notin> dkeys (au_actions (cp_authority cp))"
  shows "evolves en (cp, w) (cp', w)"
  using assms(1)
proof (cases rule: authorizeE)
  case (failure e cp1)
  show ?thesis unfolding failure(4)
    by (rule evolves_trans [OF evolves_authorize_inner [OF failure(1) assms(2)] evolves_append_log])
qed (auto intro: evolves_authorize_inner [OF _ assms(2)])

section \<open>Afterwards\<close>

lemma on_budget_fields [simp]:
  "cp_authority (on_budget f a v cp) = cp_authority cp" "cp_reversal (on_budget f a v cp) = cp_reversal cp"
  "cp_totals (on_budget f a v cp) = cp_totals cp" "cp_ledger (on_budget f a v cp) = cp_ledger cp"
  "cp_verdicts (on_budget f a v cp) = cp_verdicts cp" "cp_args (on_budget f a v cp) = cp_args cp"
  "cp_strikes (on_budget f a v cp) = cp_strikes cp"
  by (simp_all add: on_budget_def split: option.splits)

lemma store_plan_fields [simp]:
  "cp_authority (store_plan v cp) = cp_authority cp" "cp_reversal (store_plan v cp) = cp_reversal cp"
  "cp_totals (store_plan v cp) = cp_totals cp" "cp_ledger (store_plan v cp) = cp_ledger cp"
  "cp_budget (store_plan v cp) = cp_budget cp" "cp_args (store_plan v cp) = cp_args cp"
  "cp_strikes (store_plan v cp) = cp_strikes cp"
  by (simp_all add: store_plan_def split: option.splits)

lemma with_reversal_fields [simp]:
  "cp_authority (with_reversal en eng ev cp) = cp_authority cp" "cp_reversal (with_reversal en eng ev cp) = eng"
  "cp_totals (with_reversal en eng ev cp) = cp_totals cp" "cp_budget (with_reversal en eng ev cp) = cp_budget cp"
  "cp_verdicts (with_reversal en eng ev cp) = cp_verdicts cp" "cp_args (with_reversal en eng ev cp) = cp_args cp"
  "cp_strikes (with_reversal en eng ev cp) = cp_strikes cp"
  by (simp_all add: with_reversal_def)

lemma charge_session_Inr:
  "charge_session en v cp = Inr cp' \<Longrightarrow> \<exists>t. cp' = cp\<lparr>cp_totals := t\<rparr>"
  by (cases "vd_decision v") (auto simp: charge_session_def intro: exI [of _ "cp_totals cp"])

lemma release_session_Inr:
  "release_session en aid v cp = Inr cp' \<Longrightarrow> \<exists>t. cp' = cp\<lparr>cp_totals := t\<rparr>"
  by (cases "vd_decision v") (auto simp: release_session_def intro: exI [of _ "cp_totals cp"])

lemma confirmE:
  assumes "confirm en v result now cp = (r, v', cp')"
  obtains (ignored) "\<not> vd_allowed v \<or> vd_journal_id v = None" "r = Inr None" "v' = v" "cp' = cp"
  | (commit_error) jid e eng ev where "commit jid (vd_action_id v) result now (cp_reversal cp) = (Inl e, eng, ev)"
      "r = Inl e" "v' = v" "cp' = with_reversal en eng ev cp"
  | (charge_error) jid x eng ev e where "commit jid (vd_action_id v) result now (cp_reversal cp) = (Inr x, eng, ev)"
      "charge_session en v (with_reversal en eng ev cp) = Inl e" "r = Inl e" "v' = v" "cp' = with_reversal en eng ev cp"
  | (confirmed) jid x eng ev cp2 where "vd_allowed v" "vd_journal_id v = Some jid"
      "commit jid (vd_action_id v) result now (cp_reversal cp) = (Inr x, eng, ev)"
      "charge_session en v (with_reversal en eng ev cp) = Inr cp2" "r = Inr (Some x)" "v' = v\<lparr>vd_plan := Some (je_plan x)\<rparr>"
      "cp' = store_plan v' (on_budget budget_commit (vd_action_id v) v cp2)"
proof (cases "vd_allowed v \<and> vd_journal_id v \<noteq> None")
  case False
  with assms show thesis by (intro ignored) (auto simp: confirm_def split: option.splits)
next
  case True
  then obtain jid where j: "vd_allowed v" "vd_journal_id v = Some jid" by auto
  obtain x eng ev where c: "commit jid (vd_action_id v) result now (cp_reversal cp) = (x, eng, ev)" using prod_cases3 by blast
  show thesis
  proof (cases x)
    case (Inl e)
    with assms j c show thesis by (intro commit_error) (auto simp: confirm_def)
  next
    case (Inr entry)
    show thesis
    proof (cases "charge_session en v (with_reversal en eng ev cp)")
      case (Inl e)
      with assms j c Inr show thesis by (intro charge_error) (auto simp: confirm_def Let_def)
    next
      case ok: (Inr cp2)
      with assms j c Inr show thesis by (intro confirmed [OF j]) (auto simp: confirm_def Let_def)
    qed
  qed
qed

lemma evolves_commit:
  "commit jid aid result now (cp_reversal cp) = (x, eng, ev) \<Longrightarrow> evolves en (cp, w) (with_reversal en eng ev cp, w)"
  by (rule evolves_step) (rule engine_step.commit)

lemma evolves_confirm:
  assumes "confirm en v result now cp = (r, v', cp')"
  shows "evolves en (cp, w) (cp', w)"
  using assms
proof (cases rule: confirmE)
  case (confirmed jid x eng ev cp2)
  from charge_session_Inr [OF confirmed(4)] obtain t where "cp2 = with_reversal en eng ev cp\<lparr>cp_totals := t\<rparr>" by blast
  then have "evolves en (with_reversal en eng ev cp, w) (cp', w)"
    unfolding confirmed(7) by (intro evolves_frame) simp_all
  then show ?thesis by (rule evolves_trans [OF evolves_commit [OF confirmed(3)]])
qed (auto intro: evolves_commit)

lemma undoE:
  assumes "undo en exec rid aid now cp w = (r, cp', w')"
  obtains (error) e eng ev where "reverse (en_seams en) exec rid aid now False (cp_reversal cp) w = (Inl e, eng, ev, w')"
      "r = Inl e" "cp' = with_reversal en eng ev cp"
  | (kept) rc eng ev where "reverse (en_seams en) exec rid aid now False (cp_reversal cp) w = (Inr rc, eng, ev, w')"
      "\<not> rc_ok rc \<or> map_of (cp_verdicts cp) aid = None" "r = Inr rc" "cp' = with_reversal en eng ev cp"
  | (release_error) rc eng ev v e where "reverse (en_seams en) exec rid aid now False (cp_reversal cp) w = (Inr rc, eng, ev, w')"
      "release_session en aid v (with_reversal en eng ev cp) = Inl e" "r = Inl e" "cp' = with_reversal en eng ev cp"
      "map_of (cp_verdicts cp) aid = Some v"
  | (returned) rc eng ev v cp2 where "reverse (en_seams en) exec rid aid now False (cp_reversal cp) w = (Inr rc, eng, ev, w')"
      "rc_ok rc" "map_of (cp_verdicts cp) aid = Some v" "release_session en aid v (with_reversal en eng ev cp) = Inr cp2"
      "r = Inr rc" "cp' = on_budget budget_refund aid v cp2"
proof -
  obtain x eng ev w1 where rv: "reverse (en_seams en) exec rid aid now False (cp_reversal cp) w = (x, eng, ev, w1)"
    using prod_cases4 by blast
  show thesis
  proof (cases x)
    case (Inl e)
    with assms rv show thesis by (intro error) (auto simp: undo_def Let_def)
  next
    case rc: (Inr rc)
    show thesis
    proof (cases "rc_ok rc \<and> map_of (cp_verdicts cp) aid \<noteq> None")
      case False
      with assms rv rc show thesis by (intro kept) (auto simp: undo_def Let_def split: bool.splits option.splits)
    next
      case True
      then obtain v where v: "rc_ok rc" "map_of (cp_verdicts cp) aid = Some v" by auto
      show thesis
      proof (cases "release_session en aid v (with_reversal en eng ev cp)")
        case (Inl e)
        with assms rv rc v show thesis by (intro release_error) (auto simp: undo_def Let_def)
      next
        case (Inr cp2)
        with assms rv rc v show thesis by (intro returned) (auto simp: undo_def Let_def)
      qed
    qed
  qed
qed

lemma evolves_reverse:
  "reverse (en_seams en) exec rid ref now force (cp_reversal cp) w = (x, eng, ev, w') \<Longrightarrow>
   evolves en (cp, w) (with_reversal en eng ev cp, w')"
  by (rule evolves_step) (rule engine_step.reverse)

lemma evolves_undo:
  assumes "undo en exec rid aid now cp w = (r, cp', w')"
  shows "evolves en (cp, w) (cp', w')"
  using assms
proof (cases rule: undoE)
  case (returned rc eng ev v cp2)
  from release_session_Inr [OF returned(4)] obtain t where "cp2 = with_reversal en eng ev cp\<lparr>cp_totals := t\<rparr>" by blast
  then have "evolves en (with_reversal en eng ev cp, w') (cp', w')"
    unfolding returned(6) by (intro evolves_frame) simp_all
  then show ?thesis by (rule evolves_trans [OF evolves_reverse [OF returned(1)]])
qed (auto intro: evolves_reverse)

lemma cascade_overE:
  assumes "cascade_over en exec rids s d a stop now cp w = (r, cp', w')"
  obtains eng ev where "reverse_cascade (en_seams en) exec rids s d a stop now (cp_reversal cp) w = (r, eng, ev, w')"
    "cp' = with_reversal en eng ev cp"
  using assms by (auto simp: cascade_over_def split: prod.splits)

lemma evolves_cascade:
  assumes "cascade_over en exec rids s d a stop now cp w = (r, cp', w')"
  shows "evolves en (cp, w) (cp', w')"
  using assms
proof (rule cascade_overE)
  fix eng ev
  assume c: "reverse_cascade (en_seams en) exec rids s d a stop now (cp_reversal cp) w = (r, eng, ev, w')"
    and cp': "cp' = with_reversal en eng ev cp"
  show ?thesis unfolding cp' by (rule evolves_step) (rule engine_step.cascade [OF c])
qed

lemma evolves_undo_all:
  "undo_all en exec rids s d subtree stop now cp w = (r, cp', w') \<Longrightarrow> evolves en (cp, w) (cp', w')"
  by (auto simp: undo_all_def split: option.splits if_splits intro: evolves_cascade)

lemma via_authority_snd:
  "snd (via_authority en f cp) = log_events en (snd (snd (f (cp_authority cp)))) (cp\<lparr>cp_authority := fst (snd (f (cp_authority cp)))\<rparr>)"
  by (simp add: via_authority_def split_beta)

lemma evolves_revoke_each: "evolves en (cp, w) (revoke_each en draw reason by_whom n ds cp, w)"
proof (induction ds arbitrary: n cp)
  case (Cons d ds)
  let ?cp1 = "snd (via_authority en (revoke_delegation (fst (draw n)) d reason by_whom (snd (draw n))) cp)"
  have "evolves en (cp, w) (?cp1, w)"
    by (rule evolves_via_authority [OF prod.collapse [symmetric]])
       (auto simp: revoke_delegation_def intro: authority_step.revocation)
  then show ?case unfolding revoke_each.simps by (rule evolves_trans [OF _ Cons.IH])
qed simp

lemma revoke_each_engine [simp]: "cp_reversal (revoke_each en draw reason by_whom n ds cp) = cp_reversal cp"
  by (induction ds arbitrary: n cp) (simp_all add: via_authority_snd)

lemma containE:
  assumes "contain en exec rids draw did reason by_whom stop now cp w = (r, cp', w')"
  obtains (error) e where
      "cascade_over en exec rids None None
        (Some (radius_actions (descendant_delegations did (cp_authority cp))
          (cp_authority (revoke_each en draw reason by_whom 0 (descendant_delegations did (cp_authority cp)) cp)))) stop now
        (revoke_each en draw reason by_whom 0 (descendant_delegations did (cp_authority cp)) cp) w = (Inl e, cp', w')"
      "r = Inl e"
  | (contained) rep cp2 where
      "cascade_over en exec rids None None
        (Some (radius_actions (descendant_delegations did (cp_authority cp))
          (cp_authority (revoke_each en draw reason by_whom 0 (descendant_delegations did (cp_authority cp)) cp)))) stop now
        (revoke_each en draw reason by_whom 0 (descendant_delegations did (cp_authority cp)) cp) w = (Inr rep, cp2, w')"
      "r = Inr (containment_record did (descendant_delegations did (cp_authority cp))
        (radius_actions (descendant_delegations did (cp_authority cp))
          (cp_authority (revoke_each en draw reason by_whom 0 (descendant_delegations did (cp_authority cp)) cp))) rep)"
      "cp' = snd (append_log en ''containment'' (projr r) cp2)"
  using assms unfolding contain_def Let_def by (auto split: prod.splits sum.splits)

lemma evolves_contain:
  assumes "contain en exec rids draw did reason by_whom stop now cp w = (r, cp', w')"
  shows "evolves en (cp, w) (cp', w')"
  using assms
proof (cases rule: containE)
  case (error e)
  show ?thesis by (rule evolves_trans [OF evolves_revoke_each evolves_cascade [OF error(1)]])
next
  case (contained rep cp2)
  show ?thesis unfolding contained(3)
    by (rule evolves_trans [OF evolves_revoke_each evolves_trans [OF evolves_cascade [OF contained(1)] evolves_append_log]])
qed

end
