(* ===== verification/ControlMachine.thy ===== *)
theory ControlMachine
  imports ControlFacts
begin

text \<open>
  The control plane as a transition system: every public operation with any arguments, in any order,
  and a world that may change between them; identifiers of grants and actions are drawn fresh. Each
  step evolves the state, and everything the engines hold is on the ledger.
\<close>

section \<open>Steps\<close>

inductive cp_step :: "('sk, 'pk, 'w) env \<Rightarrow> 'pk cplane \<times> 'w \<Rightarrow> 'pk cplane \<times> 'w \<Rightarrow> bool" for en where
  human: "cp_register_human en name key given fresh roles claims cp = (r, cp') \<Longrightarrow> cp_step en (cp, w) (cp', w)"
| agent: "cp_register_agent en name key given fresh roles claims cp = (r, cp') \<Longrightarrow> cp_step en (cp, w) (cp', w)"
| issue: "cp_issue_root_delegation en sk fresh human_id agent_id sc purpose ttl now cp = (r, cp') \<Longrightarrow>
    fresh \<notin> dkeys (au_delegations (cp_authority cp)) \<Longrightarrow> cp_step en (cp, w) (cp', w)"
| delegate: "cp_sub_delegate en sk fresh issuer subject parent sc purpose ttl now cp = (r, cp') \<Longrightarrow>
    fresh \<notin> dkeys (au_delegations (cp_authority cp)) \<Longrightarrow> cp_step en (cp, w) (cp', w)"
| revoke: "via_authority en (revoke_target fresh target kind reason by_whom now) cp = (r, cp') \<Longrightarrow> cp_step en (cp, w) (cp', w)"
| authorize: "authorize en w rq cp = (r, cp') \<Longrightarrow> rq_fresh_action rq \<notin> dkeys (au_actions (cp_authority cp)) \<Longrightarrow>
    cp_step en (cp, w) (cp', w)"
| confirm: "confirm en v result now cp = (r, v', cp') \<Longrightarrow> cp_step en (cp, w) (cp', w)"
| undo: "undo en exec rid aid now cp w = (r, cp', w') \<Longrightarrow> cp_step en (cp, w) (cp', w')"
| undo_all: "undo_all en exec rids s d subtree stop now cp w = (r, cp', w') \<Longrightarrow> cp_step en (cp, w) (cp', w')"
| contain: "contain en exec rids draw did reason by_whom stop now cp w = (r, cp', w') \<Longrightarrow> cp_step en (cp, w) (cp', w')"
| expire: "expire_stale now (cp_reversal cp) = (ids, eng, ev) \<Longrightarrow> cp_step en (cp, w) (with_reversal en eng ev cp, w)"
| world: "cp_step en (cp, w) (cp, w')"

inductive cp_run :: "('sk, 'pk, 'w) env \<Rightarrow> 'pk cplane \<times> 'w \<Rightarrow> 'pk cplane \<times> 'w \<Rightarrow> bool" for en where
  stop: "cp_run en s s"
| step: "cp_run en s t \<Longrightarrow> cp_step en t u \<Longrightarrow> cp_run en s u"

definition cp_start :: "'pk cplane \<Rightarrow> bool" where
  "cp_start cp \<longleftrightarrow> (\<exists>r b. registry_inv r \<and> cp = new_cplane r b)"

lemma cp_step_evolves: "cp_step en s t \<Longrightarrow> evolves en s t"
proof (induction rule: cp_step.induct)
  case (human name key given fresh roles claims cp r cp' w)
  then show ?case unfolding cp_register_human_def
    by (rule evolves_via_authority) (auto simp: register_human_def intro: authority_step.identity)
next
  case (agent name key given fresh roles claims cp r cp' w)
  then show ?case unfolding cp_register_agent_def
    by (rule evolves_via_authority) (auto simp: register_agent_def intro: authority_step.identity)
next
  case (issue sk fresh human_id agent_id sc purpose ttl now cp r cp' w)
  show ?case
    by (rule evolves_via_authority [OF issue(1) [unfolded cp_issue_root_delegation_def]])
       (rule authority_step.issue [OF _ issue(2)])
next
  case (delegate sk fresh issuer subject parent sc purpose ttl now cp r cp' w)
  show ?case
    by (rule evolves_via_authority [OF delegate(1) [unfolded cp_sub_delegate_def]])
       (rule authority_step.delegate [OF _ delegate(2)])
next
  case (revoke fresh target kind reason by_whom now cp r cp' w)
  then show ?case by (rule evolves_via_authority) (rule authority_step.revocation)
next
  case (expire now cp ids eng ev w)
  show ?case by (rule evolves_step) (rule engine_step.expire [OF expire])
next
  case (world cp w w')
  show ?case
    using r_into_rtranclp [of "engine_step (en_seams en)", OF engine_step.world]
    by (simp add: evolves_def authority_run.refl)
qed (simp_all add: evolves_authorize evolves_confirm evolves_undo evolves_undo_all evolves_contain)

lemma cp_run_evolves: "cp_run en s t \<Longrightarrow> evolves en s t"
  by (induction rule: cp_run.induct) (auto intro: evolves_trans cp_step_evolves)

lemma engine_reachable_steps:
  "(engine_step cb)\<^sup>*\<^sup>* s t \<Longrightarrow> engine_reachable cb s \<Longrightarrow> engine_reachable cb t"
  by (induction rule: rtranclp_induct) (auto intro: engine_reachable.step)

section \<open>Everything is on the ledger\<close>

definition authority_recorded :: "('sk, 'pk) crypto \<Rightarrow> 'pk authority \<Rightarrow> (string \<times> val) set \<Rightarrow> bool" where
  "authority_recorded cr au l \<longleftrightarrow>
     (\<forall>k p. map_of (au_principals au) k = Some p \<longrightarrow> (''principal'', principal_to_dict cr p) \<in> l)
   \<and> (\<forall>k d. map_of (au_delegations au) k = Some d \<longrightarrow> (''delegation'', delegation_to_dict d) \<in> l)
   \<and> (\<forall>k a. map_of (au_actions au) k = Some a \<longrightarrow> (''action'', action_to_dict a) \<in> l)
   \<and> (\<forall>k r. map_of (au_revocations au) k = Some r \<longrightarrow> (''revocation'', revocation_to_dict r) \<in> l)"

lemma authority_recorded_mono: "authority_recorded cr au l \<Longrightarrow> l \<subseteq> l' \<Longrightarrow> authority_recorded cr au l'"
  unfolding authority_recorded_def by (meson subsetD)

lemma registry_register_new:
  assumes "registry_register cr kind name key given fresh roles claims ps = (r, ps')" "map_of ps' k = Some p"
  shows "map_of ps k = Some p \<or> r = Inr p"
proof (cases "principal_post_init \<lparr>pr_id = id_or_new given fresh, pr_kind = kind, pr_name = name, pr_key = key,
    pr_roles = roles, pr_claims = sort_items claims\<rparr>")
  case (Inl e)
  with assms show ?thesis by (simp add: registry_register_def)
next
  case (Inr q)
  with assms show ?thesis
    by (auto simp: registry_register_def register_principal_def map_of_update split: option.splits if_splits)
qed

lemma recorded_identity:
  assumes "authority_recorded cr au l" "register_identity cr kind name key given fresh roles claims au = (r, au', ev)"
  shows "authority_recorded cr au' (l \<union> set ev)"
proof -
  obtain x ps where reg: "registry_register cr kind name key given fresh roles claims (au_principals au) = (x, ps)" by fastforce
  have "map_of (au_principals au) k = Some p \<or> x = Inr p" if "map_of ps k = Some p" for k p
    using registry_register_new [OF reg that] .
  then show ?thesis
    using assms reg by (cases x) (auto simp: authority_recorded_def register_identity_def, blast+)
qed

lemma recorded_revoke:
  assumes "authority_recorded cr au l" "revoke_target fresh target kind reason by_whom now au = (r, au', ev)"
  shows "authority_recorded cr au' (l \<union> set ev)"
  using assms
  by (auto simp: authority_recorded_def revoke_target_def Identity.revoke_def map_of_update Let_def
      split: prod.splits option.splits if_splits)

lemma recorded_store:
  "authority_recorded cr au l \<Longrightarrow> store_delegation d au = (au', ev) \<Longrightarrow> authority_recorded cr au' (l \<union> set ev)"
  by (auto simp: authority_recorded_def store_delegation_def map_of_update split: if_splits)

lemma recorded_issue:
  assumes "authority_recorded cr au l" "issue_root_delegation cr sk fresh human_id agent_id sc purpose ttl now au = (r, au', ev)"
  shows "authority_recorded cr au' (l \<union> set ev)"
  using assms recorded_store [OF assms(1)]
  by (auto simp: issue_root_delegation_def split: sum.splits prod.splits)

lemma recorded_delegate:
  assumes "authority_recorded cr au l" "sub_delegate cr sk fresh issuer subject parent sc purpose ttl now au = (r, au', ev)"
  shows "authority_recorded cr au' (l \<union> set ev)"
  using assms recorded_store [OF assms(1)]
  by (auto simp: sub_delegate_def split: sum.splits prod.splits)

lemma recorded_act:
  assumes "authority_recorded cr au l"
    and "record_action cr sk fresh actor deleg tool action risk descr params sess plan_id now au = (r, au', ev)"
  shows "authority_recorded cr au' (l \<union> set ev)"
  using assms by (auto simp: authority_recorded_def record_action_def map_of_update split: if_splits sum.splits)

text \<open>A stored verdict names the ledger entry that holds it; only the plan may have changed since, when
  the call was confirmed.\<close>

definition verdict_logged :: "ledger \<Rightarrow> verdict \<Rightarrow> bool" where
  "verdict_logged l v \<longleftrightarrow> (\<exists>n p. vd_ledger_seq v = Some (int n) \<and> n < length l
     \<and> ledger_lines l ! n = (''verdict'', verdict_to_dict (v\<lparr>vd_ledger_seq := None, vd_plan := p\<rparr>)))"

definition recorded :: "('sk, 'pk, 'w) env \<Rightarrow> 'pk cplane \<Rightarrow> bool" where
  "recorded en cp \<longleftrightarrow> authority_recorded (en_crypto en) (cp_authority cp) (set (ledger_lines (cp_ledger cp)))
     \<and> (\<forall>aid v. map_of (cp_verdicts cp) aid = Some v \<longrightarrow> vd_action_id v = aid \<and> verdict_logged (cp_ledger cp) v)"

lemma verdict_logged_grows: "verdict_logged l v \<Longrightarrow> grows cr l l' \<Longrightarrow> verdict_logged l' v"
  by (drule grows_prefix) (force simp: verdict_logged_def nth_append ledger_lines_def)

lemma recorded_frame:
  assumes "recorded en cp" "cp_authority cp' = cp_authority cp" "cp_verdicts cp' = cp_verdicts cp"
    and g: "grows cr (cp_ledger cp) (cp_ledger cp')"
  shows "recorded en cp'"
proof -
  have "set (ledger_lines (cp_ledger cp)) \<subseteq> set (ledger_lines (cp_ledger cp'))" using grows_prefix [OF g] by auto
  then show ?thesis
    using assms(1-3) authority_recorded_mono verdict_logged_grows [OF _ g] by (metis recorded_def)
qed

lemma recorded_log: "recorded en cp \<Longrightarrow> recorded en (log_events en evs cp)"
  by (rule recorded_frame [OF _ _ _ grows_log_events]) simp_all

lemma recorded_append_log: "recorded en cp \<Longrightarrow> recorded en (snd (append_log en k p cp))"
  by (rule recorded_frame [OF _ _ _ grows_append_log]) simp_all

lemma recorded_with_reversal: "recorded en cp \<Longrightarrow> recorded en (with_reversal en eng ev cp)"
  unfolding with_reversal_def by (rule recorded_log, rule recorded_frame [of en cp _ "en_crypto en"]) simp_all

lemma recorded_via_authority:
  assumes "recorded en cp" "via_authority en f cp = (r, cp')"
    and "\<And>x au ev. f (cp_authority cp) = (x, au, ev) \<Longrightarrow>
      authority_recorded (en_crypto en) au (set (ledger_lines (cp_ledger cp)) \<union> set ev)"
  shows "recorded en cp'"
proof -
  obtain x au ev where f: "f (cp_authority cp) = (x, au, ev)" using prod_cases3 by blast
  then have cp': "cp' = log_events en ev (cp\<lparr>cp_authority := au\<rparr>)" using assms(2) by (simp add: via_authority_def)
  have "verdict_logged (cp_ledger cp') v" if "map_of (cp_verdicts cp) aid = Some v" for aid v
    using that assms(1) verdict_logged_grows [of "cp_ledger cp" v "en_crypto en" "cp_ledger cp'"]
      grows_log_events [of en "cp\<lparr>cp_authority := au\<rparr>" ev] by (simp add: cp' recorded_def)
  then show ?thesis
    using assms(1) assms(3) [OF f] by (simp add: recorded_def cp' logged_log_events)
qed

lemma recorded_record:
  assumes "recorded en cp" "record_attempt en rq pid cp = (r, cp')"
  shows "recorded en cp'"
  by (rule recorded_via_authority [OF assms(1) assms(2) [unfolded record_attempt_def]])
     (rule recorded_act, use assms(1) in \<open>simp_all add: recorded_def\<close>)

lemma recorded_finalize:
  assumes "recorded en cp" "vd_ledger_seq v = None"
  shows "recorded en (snd (finalize en v a cp))"
proof -
  let ?cp = "snd (finalize en v a cp)" and ?v = "v\<lparr>vd_ledger_seq := Some (int (length (cp_ledger cp)))\<rparr>"
  have g: "grows (en_crypto en) (cp_ledger cp) (cp_ledger ?cp)" by (simp add: grows_append_log)
  have plain: "v\<lparr>vd_ledger_seq := None\<rparr> = v" using assms(2) by (cases v) simp
  have new: "verdict_logged (cp_ledger ?cp) ?v"
    unfolding verdict_logged_def
    by (rule exI [of _ "length (cp_ledger cp)"], rule exI [of _ "vd_plan v"])
       (simp add: append_log_eq ledger_lines_def nth_append plain)
  have verdicts: "map_of (cp_verdicts ?cp) aid = Some u \<Longrightarrow> map_of (cp_verdicts cp) aid = Some u \<or> (u = ?v \<and> aid = vd_action_id v)" for aid u
    by (auto simp: finalize_def log_verdict_eq map_of_update split: if_splits)
  have "set (ledger_lines (cp_ledger cp)) \<subseteq> set (ledger_lines (cp_ledger ?cp))" by (auto simp: logged_append_log)
  then have "authority_recorded (en_crypto en) (cp_authority ?cp) (set (ledger_lines (cp_ledger ?cp)))"
    using assms(1) authority_recorded_mono by (simp add: recorded_def) blast
  moreover have "vd_action_id u = aid \<and> verdict_logged (cp_ledger ?cp) u" if "map_of (cp_verdicts ?cp) aid = Some u" for aid u
    using verdicts [OF that] new assms(1) verdict_logged_grows [OF _ g] by (auto simp: recorded_def)
  ultimately show ?thesis unfolding recorded_def by blast
qed

section \<open>Every step keeps it\<close>

lemma refused_verdict_unnumbered [simp]: "vd_ledger_seq (refused_verdict rq posture d ok aid stage eff reason ch) = None"
  by (simp add: refused_verdict_def)

lemma combined_verdict_unnumbered [simp]: "vd_ledger_seq (combined_verdict rq posture d ok ch p a c fs) = None"
  by (simp add: combined_verdict_def split: prod.splits)

lemma recorded_refuse:
  "refuse en rq posture d ok stage eff reason ch cp = (r, cp') \<Longrightarrow> recorded en cp \<Longrightarrow> recorded en cp'"
  by (erule refuseE) (auto intro: recorded_record recorded_finalize)

lemma recorded_plan: "plan_stage en w rq cp = (r, cp') \<Longrightarrow> recorded en cp \<Longrightarrow> recorded en cp'"
  by (auto simp: plan_stage_eq recorded_log)

lemma recorded_journal: "recorded en cp \<Longrightarrow> recorded en (journal_stage en rq p cp)"
  by (rule recorded_frame [of en cp _ "en_crypto en"]) (simp_all add: journal_stage_def)

lemma recorded_abandon: "abandon_stage en rq v cp = (r, cp') \<Longrightarrow> recorded en cp \<Longrightarrow> recorded en cp'"
  by (auto simp: abandon_stage_def with_reversal_def [symmetric] recorded_with_reversal split: if_splits prod.splits)

lemma recorded_judge:
  assumes "judge en w rq posture d ok ch cp = (r, cp')" "recorded en cp"
  shows "recorded en cp'"
  using assms(1)
proof (cases rule: judgeE)
  case (abandon_error p cp1 a cp2 fs v e)
  show ?thesis
    by (rule recorded_abandon [OF abandon_error(5) recorded_journal [OF recorded_record [OF
        recorded_plan [OF abandon_error(1) assms(2)] abandon_error(2)]]])
next
  case (judged p cp1 a cp2 fs v cp3)
  show ?thesis unfolding judged(7)
    by (rule recorded_finalize [OF recorded_abandon [OF judged(5) recorded_journal [OF recorded_record [OF
        recorded_plan [OF judged(1) assms(2)] judged(2)]]]]) (simp add: judged(4))
next
  case (plan_error e)
  show ?thesis by (rule recorded_plan [OF plan_error(1) assms(2)])
next
  case (record_error p cp1 e)
  show ?thesis by (rule recorded_record [OF recorded_plan [OF record_error(1) assms(2)] record_error(2)])
next
  case (detect_error p cp1 a e)
  show ?thesis by (rule recorded_record [OF recorded_plan [OF detect_error(1) assms(2)] detect_error(2)])
qed

lemma recorded_classified: "classified en w rq cp = (k, cp') \<Longrightarrow> recorded en cp \<Longrightarrow> recorded en cp'"
  by (auto simp: classified_def recorded_log split: prod.splits)

lemma recorded_budget:
  assumes "budget_stage rq k cp = (x, cp')" "recorded en cp"
  shows "recorded en cp'"
  by (rule recorded_frame [OF assms(2), of _ "en_crypto en"]) (simp_all add: budget_stage_frame [OF assms(1)])

lemma recorded_authorize:
  assumes "authorize en w rq cp = (r, cp')" "recorded en cp"
  shows "recorded en cp'"
proof -
  have inner: "recorded en cp1" if "authorize_inner en w rq cp = (x, cp1)" for x cp1
    using that
  proof (cases rule: authorize_innerE)
    case (budget k cp2 d ok ch reason cp3)
    show ?thesis by (rule recorded_refuse [OF budget(5) recorded_budget [OF budget(4) recorded_classified [OF budget(1) assms(2)]]])
  next
    case (judged k cp2 d ok ch cp3)
    show ?thesis by (rule recorded_judge [OF judged(5) recorded_budget [OF judged(4) recorded_classified [OF judged(1) assms(2)]]])
  next
    case (gate_error k e)
    show ?thesis by (rule recorded_classified [OF gate_error(1) assms(2)])
  next
    case (enforce k cp2 d ok)
    show ?thesis by (rule recorded_refuse [OF enforce(4) recorded_classified [OF enforce(1) assms(2)]])
  qed
  from assms(1) show ?thesis
    by (cases rule: authorizeE) (auto intro: inner recorded_append_log)
qed

lemma recorded_store_plan: "recorded en cp \<Longrightarrow> recorded en (store_plan v cp)"
  by (cases "map_of (cp_verdicts cp) (vd_action_id v)")
     (auto simp: store_plan_def recorded_def map_of_update verdict_logged_def)

lemma recorded_confirm:
  assumes "confirm en v result now cp = (r, v', cp')" "recorded en cp"
  shows "recorded en cp'"
  using assms(1)
proof (cases rule: confirmE)
  case (confirmed jid x eng ev cp2)
  from charge_session_Inr [OF confirmed(4)] obtain t where cp2: "cp2 = with_reversal en eng ev cp\<lparr>cp_totals := t\<rparr>" by blast
  have "recorded en (on_budget budget_commit (vd_action_id v) v cp2)"
    by (rule recorded_frame [OF recorded_with_reversal [OF assms(2), of eng ev]]) (simp_all add: cp2 grows_refl [of "en_crypto en"])
  then show ?thesis unfolding confirmed(7) by (rule recorded_store_plan)
qed (use assms(2) recorded_with_reversal in auto)

lemma recorded_undo:
  assumes "undo en exec rid aid now cp w = (r, cp', w')" "recorded en cp"
  shows "recorded en cp'"
  using assms(1)
proof (cases rule: undoE)
  case (returned rc eng ev v cp2)
  from release_session_Inr [OF returned(4)] obtain t where cp2: "cp2 = with_reversal en eng ev cp\<lparr>cp_totals := t\<rparr>" by blast
  show ?thesis unfolding returned(6)
    by (rule recorded_frame [OF recorded_with_reversal [OF assms(2), of eng ev]]) (simp_all add: cp2 grows_refl [of "en_crypto en"])
qed (use assms(2) recorded_with_reversal in auto)

lemma recorded_cascade: "cascade_over en exec rids s d a stop now cp w = (r, cp', w') \<Longrightarrow> recorded en cp \<Longrightarrow> recorded en cp'"
  by (erule cascade_overE) (simp add: recorded_with_reversal)

lemma recorded_revoke_each: "recorded en cp \<Longrightarrow> recorded en (revoke_each en draw reason by_whom n ds cp)"
proof (induction ds arbitrary: n cp)
  case (Cons d ds)
  let ?f = "revoke_delegation (fst (draw n)) d reason by_whom (snd (draw n))"
  have "recorded en (snd (via_authority en ?f cp))"
    by (rule recorded_via_authority [OF Cons.prems prod.collapse [symmetric]])
       (auto simp: revoke_delegation_def intro!: recorded_revoke [rotated] Cons.prems [unfolded recorded_def, THEN conjunct1])
  then show ?case by (simp add: Cons.IH)
qed simp

lemma recorded_contain:
  "contain en exec rids draw did reason by_whom stop now cp w = (r, cp', w') \<Longrightarrow> recorded en cp \<Longrightarrow> recorded en cp'"
  by (erule containE) (auto intro: recorded_cascade recorded_revoke_each recorded_append_log)

lemma recorded_step: "cp_step en s t \<Longrightarrow> recorded en (fst s) \<Longrightarrow> recorded en (fst t)"
proof (induction rule: cp_step.induct)
  case (human name key given fresh roles claims cp r cp' w)
  from human(2,1) show ?case unfolding cp_register_human_def fst_conv register_human_def
    by (rule recorded_via_authority) (rule recorded_identity, use human(2) in \<open>simp_all add: recorded_def\<close>)
next
  case (agent name key given fresh roles claims cp r cp' w)
  from agent(2,1) show ?case unfolding cp_register_agent_def fst_conv register_agent_def
    by (rule recorded_via_authority) (rule recorded_identity, use agent(2) in \<open>simp_all add: recorded_def\<close>)
next
  case (issue sk fresh human_id agent_id sc purpose ttl now cp r cp' w)
  from issue(3,1) show ?case unfolding cp_issue_root_delegation_def fst_conv
    by (rule recorded_via_authority) (rule recorded_issue, use issue(3) in \<open>simp_all add: recorded_def\<close>)
next
  case (delegate sk fresh issuer subject parent sc purpose ttl now cp r cp' w)
  from delegate(3,1) show ?case unfolding cp_sub_delegate_def fst_conv
    by (rule recorded_via_authority) (rule recorded_delegate, use delegate(3) in \<open>simp_all add: recorded_def\<close>)
next
  case (revoke fresh target kind reason by_whom now cp r cp' w)
  from revoke(2,1) show ?case unfolding fst_conv
    by (rule recorded_via_authority) (rule recorded_revoke, use revoke(2) in \<open>simp_all add: recorded_def\<close>)
qed (auto intro: recorded_authorize recorded_confirm recorded_undo recorded_contain recorded_with_reversal
       simp: undo_all_def recorded_cascade split: option.splits if_splits)

lemma recorded_run: "cp_run en s t \<Longrightarrow> recorded en (fst s) \<Longrightarrow> recorded en (fst t)"
  by (induction rule: cp_run.induct) (auto intro: recorded_step)

lemma recorded_start: "cp_start cp \<Longrightarrow> recorded en cp"
  by (auto simp: cp_start_def new_cplane_def recorded_def authority_recorded_def new_authority_def)

end
