(* ===== verification/ControlStages.thy ===== *)
theory ControlStages
  imports ControlMachine AuthorityProps UndoProps GateProps
begin

text \<open>
  What the stages of the pipeline establish for a call that gets past them: the gate, the budget, the
  detectors, the record of the action, and the whole path of an allowed call.
\<close>

section \<open>Detectors that stay silent\<close>

lemma no_blocking: "\<not> is_blocking (max_severity fs) \<Longrightarrow> f \<in> set fs \<Longrightarrow> fd_severity f \<notin> {SHigh, SCritical}"
  using max_severity_blocks [of fs] by (auto simp: is_blocking_def)

lemma finding_severities [simp]:
  "fd_severity (signature_finding a) = SCritical" "fd_severity (subject_finding a d) = SCritical"
  "fd_severity (scope_finding a d) = SHigh" "fd_severity (expired_finding a d) = SHigh"
  "fd_severity (rogue_finding dt n) = SHigh" "fd_severity (phantom_finding p) = SHigh"
  "fd_severity (floor_finding p fl) = SHigh" "fd_severity (not_numeric_finding rt k path c v) = SHigh"
  "fd_severity (over_cap_finding rt a k path c y) = SHigh" "fd_severity (drift_finding dt a s) = SMedium"
  "fd_severity (fatigue_finding dt a n) = SHigh" "fd_severity (fanout_finding dt n) = SMedium"
  "fd_severity (fanout_one_way_finding dt a n) = SHigh"
  by (simp_all add: signature_finding_def subject_finding_def scope_finding_def expired_finding_def rogue_finding_def
      drift_finding_def fatigue_finding_def fanout_finding_def fanout_one_way_finding_def phantom_finding_def floor_finding_def not_numeric_finding_def over_cap_finding_def)

lemma ball_finding_if [simp]: "(\<forall>f \<in> set (finding_if b g). P f) \<longleftrightarrow> (b \<longrightarrow> P g)"
  by (auto simp: finding_if_def)

lemma constraints_clean:
  assumes "evaluate_constraints rt a call_args ks = Inr fs" "\<forall>f \<in> set fs. fd_severity f \<notin> {SHigh, SCritical}"
    and "(k, c) \<in> set ks" "starts_with ''max:'' k" "cap_of c = Some bound" "resolve_path (drop 4 k) (VDict call_args) = Some x"
  shows "\<exists>y. py_float rt x = Inr y \<and> \<not> fl_lt bound y"
  using assms(1-3)
proof (induction ks arbitrary: fs)
  case (Cons kc ks)
  from Cons.prems(1) obtain f1 f2 where f: "check_cap rt a call_args kc = Inr f1" "evaluate_constraints rt a call_args ks = Inr f2"
    "fs = f1 @ f2" by auto
  show ?case
  proof (cases "kc = (k, c)")
    case True
    with f(1) assms(4-6) Cons.prems(2) f(3) show ?thesis
      by (auto simp: check_cap_def Let_def ball_Un split: sum.splits if_splits)
  next
    case False
    with Cons.prems f show ?thesis by (intro Cons.IH [OF f(2)]) auto
  qed
qed simp

text \<open>The conditions on the grant, the arguments and the plan that a silent detector run stands for.\<close>

definition within_grant :: "pyrt \<Rightarrow> action_record \<Rightarrow> delegation \<Rightarrow> args \<Rightarrow> args \<Rightarrow> bool" where
  "within_grant rt a d caps call_args \<longleftrightarrow>
     ar_actor a = dg_subject d \<and> permits_action (dg_scope d) (ar_tool a) (ar_action a) (ar_risk a)
   \<and> \<not> delegation_expired (ar_occurred_at a) d
   \<and> (\<forall>k c bound x. (k, c) \<in> set caps \<longrightarrow> starts_with ''max:'' k \<longrightarrow> cap_of c = Some bound
        \<longrightarrow> resolve_path (drop 4 k) (VDict call_args) = Some x \<longrightarrow> (\<exists>y. py_float rt x = Inr y \<and> \<not> fl_lt bound y))"

definition recoverable_enough :: "reversal_plan \<Rightarrow> reversibility \<Rightarrow> bool" where
  "recoverable_enough p fl \<longleftrightarrow> \<not> is_broken p \<and> fl \<le> rp_kind p"

lemma detectors_silent:
  assumes r: "run_detectors en a ch (Some p) call_args cp = Inr fs" "\<not> is_blocking (max_severity fs)"
    and d: "get_delegation (ar_delegation a) (cp_authority cp) = Some d"
  shows "within_grant (en_rt en) a d (cn_effective_constraints ch) call_args
    \<and> recoverable_enough p (cn_reversibility_floor ch)
    \<and> signature_valid (en_crypto en) a (cp_authority cp)
    \<and> strikes_of (ar_actor a) cp < dt_rogue_strike_threshold (en_detector en)"
proof -
  from r(1) d obtain caps where c: "evaluate_constraints (en_rt en) a call_args (cn_effective_constraints ch) = Inr caps"
    and fs: "fs = evaluate_action (en_detector en) a d (cn_chain ch) (signature_valid (en_crypto en) a (cp_authority cp))
            (actions_by_actor (ar_actor a) (Some (ar_id a)) (cp_authority cp))
        @ evaluate_chain (en_detector en) a (map chain_error_text (cn_errors ch))
            (actions_by_actor (ar_actor a) (Some (ar_id a)) (cp_authority cp)) (strikes_of (ar_actor a) cp)
        @ caps
        @ evaluate_reversibility (en_detector en) a (Some p) (committed_one_way (ar_delegation a) cp) (cn_reversibility_floor ch)"
    by (auto simp: run_detectors_def Let_def lift_exn_def split: sum.splits)
  have quiet: "\<forall>f \<in> set fs. fd_severity f \<notin> {SHigh, SCritical}" using no_blocking [OF r(2)] by blast
  then have "\<forall>f \<in> set caps. fd_severity f \<notin> {SHigh, SCritical}" unfolding fs by auto
  note clean = constraints_clean [OF c this]
  have 1: "signature_valid (en_crypto en) a (cp_authority cp)" "ar_actor a = dg_subject d"
    "permits_action (dg_scope d) (ar_tool a) (ar_action a) (ar_risk a)" "\<not> delegation_expired (ar_occurred_at a) d"
    using quiet unfolding fs evaluate_action_def
    by (simp_all add: ball_Un)
  have 2: "strikes_of (ar_actor a) cp < dt_rogue_strike_threshold (en_detector en)"
    using quiet unfolding fs evaluate_chain_def by (simp add: ball_Un)
  have "recoverable_enough p (cn_reversibility_floor ch)"
    using quiet unfolding fs evaluate_reversibility_def recoverable_enough_def
    by (auto simp: ball_Un not_less less_eq_reversibility_def)
  with 1 2 clean show ?thesis unfolding within_grant_def by blast
qed

lemma record_attempt_Inr:
  assumes "record_attempt en rq pid cp = (Inr a, cp')"
  shows "get_action (ar_id a) (cp_authority cp') = Some a" "ar_id a = rq_fresh_action rq" "ar_actor a = rq_actor rq"
    "ar_delegation a = rq_delegation rq" "ar_tool a = rq_tool rq" "ar_action a = rq_action rq" "ar_risk a = rq_risk rq"
    "ar_session a = rq_session rq" "ar_occurred_at a = rq_now rq"
    "au_delegations (cp_authority cp') = au_delegations (cp_authority cp)"
    "\<exists>d. get_delegation (rq_delegation rq) (cp_authority cp') = Some d"
    "cp_totals cp' = cp_totals cp" "cp_budget cp' = cp_budget cp" "cp_verdicts cp' = cp_verdicts cp"
proof -
  obtain r au ev where ra: "record_action (en_crypto en) (rq_key rq) (rq_fresh_action rq) (rq_actor rq) (rq_delegation rq)
       (rq_tool rq) (rq_action rq) (rq_risk rq)
       (if rq_description rq = [] then rq_action rq @ '' '' @ rq_tool rq else rq_description rq)
       (rq_args rq) (rq_session rq) pid (rq_now rq) (cp_authority cp) = (r, au, ev)"
    using prod_cases3 by blast
  with assms have r: "r = Inr a" and cp': "cp' = log_events en ev (cp\<lparr>cp_authority := au\<rparr>)"
    by (auto simp: record_attempt_def via_authority_def)
  from ra r have b: "build_signed_action (en_crypto en) (rq_key rq) (rq_fresh_action rq) (rq_actor rq) (rq_delegation rq)
       (rq_tool rq) (rq_action rq) (rq_risk rq)
       (if rq_description rq = [] then rq_action rq @ '' '' @ rq_tool rq else rq_description rq)
       (rq_args rq) (rq_session rq) pid (rq_now rq) = Inr a"
    and au: "au = (cp_authority cp)\<lparr>au_actions := AList.update (ar_id a) a (au_actions (cp_authority cp))\<rparr>"
    and deleg: "rq_delegation rq \<in> dkeys (au_delegations (cp_authority cp))"
    unfolding record_action_def by (auto split: if_splits sum.splits)
  note f = build_signed_action_Inr [OF b]
  show "ar_id a = rq_fresh_action rq" "ar_actor a = rq_actor rq" "ar_delegation a = rq_delegation rq" "ar_tool a = rq_tool rq"
    "ar_action a = rq_action rq" "ar_risk a = rq_risk rq" "ar_session a = rq_session rq" "ar_occurred_at a = rq_now rq"
    using f by simp_all
  show "get_action (ar_id a) (cp_authority cp') = Some a" by (simp add: cp' au get_action_def)
  show "au_delegations (cp_authority cp') = au_delegations (cp_authority cp)" by (simp add: cp' au)
  show "\<exists>d. get_delegation (rq_delegation rq) (cp_authority cp') = Some d"
    using deleg by (simp add: cp' au get_delegation_def) (metis map_of_None_dkeys option.exhaust)
  show "cp_totals cp' = cp_totals cp" "cp_budget cp' = cp_budget cp" "cp_verdicts cp' = cp_verdicts cp" by (simp_all add: cp')
qed

lemma refused_not_allowed:
  "refuse en rq k d ok stage eff reason ch cp = (Inr v, cp') \<Longrightarrow> \<not> vd_allowed v \<and> vd_stage v = stage"
  by (erule refuseE) (auto simp: refused_verdict_def)

lemma combine_allowed:
  "combine ch fs d = (stage, True, reason) \<longleftrightarrow> cn_ok ch \<and> \<not> is_blocking (max_severity fs) \<and> stage = STAGE_ALLOWED \<and> reason = de_reason d"
  by (auto simp: combine_def Let_def)

lemma combined_verdict_fields [simp]:
  "vd_action_id (combined_verdict rq k d ok ch p a c fs) = ar_id a" "vd_plan (combined_verdict rq k d ok ch p a c fs) = Some p"
  "vd_decision (combined_verdict rq k d ok ch p a c fs) = Some d" "vd_charge (combined_verdict rq k d ok ch p a c fs) = ch"
  "vd_approved_by_human (combined_verdict rq k d ok ch p a c fs) = ok"
  "vd_journal_id (combined_verdict rq k d ok ch p a c fs) = Some (rq_fresh_journal rq)"
  "vd_chain (combined_verdict rq k d ok ch p a c fs) = Some c" "vd_reversibility (combined_verdict rq k d ok ch p a c fs) = k"
  "vd_tool (combined_verdict rq k d ok ch p a c fs) = rq_tool rq"
  by (simp_all add: combined_verdict_def split: prod.splits)

lemma combined_verdict_allowed:
  "vd_allowed (combined_verdict rq k d ok ch p a c fs) \<longleftrightarrow> cn_ok c \<and> \<not> is_blocking (max_severity fs)"
  "vd_allowed (combined_verdict rq k d ok ch p a c fs) \<Longrightarrow> vd_stage (combined_verdict rq k d ok ch p a c fs) = STAGE_ALLOWED"
  by (auto simp: combined_verdict_def combine_def Let_def)

lemma budget_stage_passed:
  assumes "budget_stage rq k cp = ((ch, None), cp')"
  shows "case cp_budget cp of None \<Rightarrow> ch = None
    | Some b \<Rightarrow> (\<exists>c. ch = Some c \<and> (0 < ch_cost c \<longrightarrow>
        bs_spent (account (rq_delegation rq) b) + ch_cost c \<le> bs_ceiling (account (rq_delegation rq) b)))"
  using assms
  by (auto simp: budget_stage_def Let_def budget_check_def budget_account_def split: option.splits prod.splits if_splits)

lemma logged_last: "ledger_lines l = xs @ [y] \<Longrightarrow> last (ledger_lines l) = y"
  by simp

text \<open>The whole path of an allowed call.\<close>

lemma allowed_path:
  assumes "authorize en w rq cp = (Inr v, cp')" "vd_allowed v" "en_fail_closed en"
  obtains k cp1 d ok ch cp2 p cp3 a cp4 fs v0 where
    "classified en w rq cp = (k, cp1)" "gate_stage en w rq k cp1 = Inr (d, ok)" "\<not> gate_blocks d ok"
    "budget_stage rq k cp1 = ((ch, None), cp2)" "plan_stage en w rq cp2 = (Inr p, cp3)"
    "record_attempt en rq (Some (rp_id p)) cp3 = (Inr a, cp4)"
    "run_detectors en a (reconstruct_chain (en_crypto en) (ar_id a) (cp_authority cp4)) (Some p) (rq_args rq) cp4 = Inr fs"
    "v0 = combined_verdict rq k d ok ch p a (reconstruct_chain (en_crypto en) (ar_id a) (cp_authority cp4)) fs"
    "cn_ok (reconstruct_chain (en_crypto en) (ar_id a) (cp_authority cp4))" "\<not> is_blocking (max_severity fs)"
    "v = fst (finalize en v0 (rq_args rq) (journal_stage en rq p cp4))" "cp' = snd (finalize en v0 (rq_args rq) (journal_stage en rq p cp4))"
    "vd_stage v = STAGE_ALLOWED"
  using assms(1)
proof (cases rule: authorizeE)
  case (verdict u)
  then have "authorize_inner en w rq cp = (Inr v, cp')" by simp
  then show thesis
  proof (cases rule: authorize_innerE)
    case (enforce k cp1 d ok)
    then show thesis using refused_not_allowed [OF enforce(4)] assms(2) by simp
  next
    case (budget k cp1 d ok ch reason cp2)
    then show thesis using refused_not_allowed [OF budget(5)] assms(2) by simp
  next
    case (judged k cp1 d ok ch cp2)
    note j = judged
    from judged(5) show thesis
    proof (cases rule: judgeE)
      case (judged p cp3 a cp4 fs v0 cp5)
      have v: "v = fst (finalize en v0 (rq_args rq) cp5)" using judged(6) by simp
      then have ok0: "vd_allowed v0" using assms(2) by simp
      then have cp5: "cp5 = journal_stage en rq p cp4" using judged(5) by (simp add: abandon_stage_def)
      show thesis
        by (rule that [OF j(1-4) judged(1-4)])
           (use ok0 judged(4,7) v combined_verdict_allowed [of rq k d ok ch p a] cp5 in \<open>auto simp del: finalize_fields\<close>)
    qed simp_all
  qed simp
next
  case (failure e cp1)
  with assms(2,3) show thesis by (simp add: failure_verdict_def)
qed simp

lemma lift_exn_Inr [simp]: "lift_exn m = Inr x \<longleftrightarrow> m = Inr x"
  by (simp add: lift_exn_def split: sum.splits)

text \<open>What the policy says of the request, and the person where it asks for one.\<close>

definition let_through :: "('sk, 'pk, 'w) env \<Rightarrow> 'w \<Rightarrow> 'sk request \<Rightarrow> 'pk cplane \<Rightarrow> reversibility \<Rightarrow> decision \<Rightarrow> bool" where
  "let_through en w rq cp k d \<longleftrightarrow> (\<exists>pr. get_principal (rq_actor rq) (au_principals (cp_authority cp)) = Inr pr
     \<and> evaluate (en_rt en) (en_policy en) (gate_call_of rq pr k) (cp_totals cp) = Inr d \<and> de_effect d \<noteq> DENY
     \<and> (de_effect d = REQUIRE_APPROVAL \<longrightarrow> en_approval en w (rq_tool rq) (rq_args rq) pr d = Inr True))"

lemma gate_let_through:
  assumes "classified en w rq cp = (k, cp1)" "gate_stage en w rq k cp1 = Inr (d, ok)" "\<not> gate_blocks d ok"
  shows "let_through en w rq cp k d"
  using assms(2,3) classified_fields [OF assms(1)]
  by (auto simp: gate_stage_def let_through_def gate_blocks_def split: if_splits)

lemma open_journal_entry:
  "\<exists>e. get_entry jid (snd (open_journal jid p actor deleg sess eng)) = Some e \<and> je_state e = PLANNED \<and> je_plan e = p"
  by (simp add: open_journal_def Let_def get_entry_def)

lemma finalize_last: "last (ledger_lines (cp_ledger (snd (finalize en v a cp)))) = (''verdict'', verdict_to_dict v)"
  by (simp add: logged_append_log)

end
