(* ===== verification/ControlRun.thy ===== *)
theory ControlRun
  imports ControlStages
begin

text \<open>
  A worked run: the agent of the authority examples pays 100 under a grant that caps the amount at
  500, with an undo that needs the identifier the payment returns. Each stage is evaluated on its own;
  the ledger is kept symbolic.
\<close>

section \<open>The setting\<close>

definition pay_spec :: inverse_spec where
  "pay_spec = \<lparr>sp_tool = ''pay'', sp_kind = COMPENSABLE, sp_inverse_tool = Some ''void'', sp_arg_map = [(''id'', ''result.id'')],
     sp_static_args = [], sp_steps = [], sp_gates = [], sp_snapshot_fields = [], sp_window_seconds = Some 600,
     sp_one_shot = False, sp_degraded_kind = IRREVERSIBLE, sp_residue = ''fee'', sp_notes = []\<rparr>"

definition pay_policy :: policy where
  "pay_policy = \<lparr>po_rules = [], po_default = ALLOW, po_version = ''1'', po_name = ''p''\<rparr>"

definition pay_env :: "(string, string, unit) env" where
  "pay_env = \<lparr>en_crypto = toy_crypto, en_rt = demo_rt, en_policy = pay_policy, en_detector = default_detector,
     en_seams = no_seams, en_approval = deny_by_default, en_clock = \<lambda>_. Fin 0, en_exc_text = \<lambda>_. [], en_fail_closed = True\<rparr>"

lemma pay_env_parts: "en_crypto pay_env = toy_crypto" "en_rt pay_env = demo_rt" "en_policy pay_env = pay_policy" "en_detector pay_env = default_detector"
  "en_seams pay_env = no_seams" "en_fail_closed pay_env"
  by (simp_all add: pay_env_def)

section \<open>The grants\<close>

text \<open>A person, two agents, a grant and a sub-grant, from a fresh control plane.\<close>

definition fresh_cp :: "string cplane" where
  "fresh_cp = new_cplane (register pay_spec empty_registry) None"

definition hum_cp :: "string cplane" where
  "hum_cp = snd (cp_register_human pay_env ''hum'' ''hum'' (Some ''hum'') ''x'' {} [] fresh_cp)"

definition bot_cp :: "string cplane" where
  "bot_cp = snd (cp_register_agent pay_env ''bot'' ''bot'' (Some ''bot'') ''x'' {} [] hum_cp)"

definition sub_cp :: "string cplane" where
  "sub_cp = snd (cp_register_agent pay_env ''sub'' ''sub'' (Some ''sub'') ''x'' {} [] bot_cp)"

definition issued_cp :: "string cplane" where
  "issued_cp = snd (cp_issue_root_delegation pay_env ''hum'' ''d1'' ''hum'' ''bot'' (pay_scope {''pay'', ''read''} 80) ''payables'' 100 0 sub_cp)"

definition grant_cp :: "string cplane" where
  "grant_cp = snd (cp_sub_delegate pay_env ''bot'' ''d2'' ''bot'' ''sub'' ''d1'' (pay_scope {''pay''} 50) ''invoice'' 900 10 issued_cp)"

definition grant_base :: "string authority" where
  "grant_base = demo\<lparr>au_actions := []\<rparr>"

lemma via_authority_result: "cp_authority (snd (via_authority en f cp)) = fst (snd (f (cp_authority cp)))"
  by (simp add: via_authority_snd)

lemma grant_lengths: "py_len ''hum'' = 3" "py_len ''bot'' = 3" "py_len ''sub'' = 3" "py_len ''payables'' = 8" "py_len ''invoice'' = 7"
  by code_simp+

lemma sub_cp_authority: "cp_authority sub_cp = new_authority\<lparr>au_principals := demo_principals\<rparr>"
  by (simp add: sub_cp_def bot_cp_def hum_cp_def fresh_cp_def cp_register_agent_def cp_register_human_def via_authority_result
      register_agent_def register_human_def register_identity_def registry_register_def principal_post_init_def grant_lengths
      id_or_new_def register_principal_def new_authority_def new_cplane_def demo_principals_def pay_env_parts)

lemma issued_cp_authority: "cp_authority issued_cp = demo_rooted"
  by (simp add: issued_cp_def cp_issue_root_delegation_def via_authority_result sub_cp_authority
      issue_root_delegation_def root_delegation_def get_principal_def build_signed_delegation_def grant_lengths
      delegation_post_init_def store_delegation_def new_authority_def demo_principals_def toy_crypto_def
      delegation_verifies_def pay_env_parts demo_rooted_def demo_d1_def)

lemma grant_authority: "cp_authority grant_cp = grant_base"
  by (simp add: grant_cp_def cp_sub_delegate_def via_authority_result issued_cp_authority sub_delegate_def child_delegation_def
      get_delegation_def demo_rooted_def demo_d1_def grant_lengths delegation_expired_def get_principal_def demo_principals_def
      build_signed_delegation_def delegation_post_init_def store_delegation_def toy_crypto_def delegation_verifies_def pay_env_parts
      scope_contains_def names_contained_def floor_contained_def pay_scope_def cap_contained_def cap_of_def WILDCARD_def
      grant_base_def demo_def demo_d2_def)

lemma grant_start: "cp_start fresh_cp"
proof -
  have "wf_spec pay_spec" by code_simp
  then have "registry_inv (register pay_spec empty_registry)" by (simp add: registry_inv_register)
  then show ?thesis unfolding cp_start_def fresh_cp_def by blast
qed

lemma grant_run: "cp_run pay_env (fresh_cp, ()) (grant_cp, ())"
proof -
  have 1: "cp_step pay_env (fresh_cp, ()) (hum_cp, ())" unfolding hum_cp_def by (rule cp_step.human [OF prod.collapse [symmetric]])
  have 2: "cp_step pay_env (hum_cp, ()) (bot_cp, ())" unfolding bot_cp_def by (rule cp_step.agent [OF prod.collapse [symmetric]])
  have 3: "cp_step pay_env (bot_cp, ()) (sub_cp, ())" unfolding sub_cp_def by (rule cp_step.agent [OF prod.collapse [symmetric]])
  have 4: "cp_step pay_env (sub_cp, ()) (issued_cp, ())"
    unfolding issued_cp_def by (rule cp_step.issue [OF prod.collapse [symmetric]]) (simp add: sub_cp_authority new_authority_def)
  have 5: "cp_step pay_env (issued_cp, ()) (grant_cp, ())"
    unfolding grant_cp_def by (rule cp_step.delegate [OF prod.collapse [symmetric]]) (simp add: issued_cp_authority demo_rooted_def)
  show ?thesis by (rule cp_run.step [OF cp_run.step [OF cp_run.step [OF cp_run.step [OF cp_run.step [OF cp_run.stop 1] 2] 3] 4] 5])
qed

definition pay_registered :: rengine where
  "pay_registered = new_engine (register pay_spec empty_registry)"

lemma grant_engine: "cp_reversal grant_cp = pay_registered" "cp_totals grant_cp = []" "cp_budget grant_cp = None"
  "cp_strikes grant_cp = []" "cp_verdicts grant_cp = []" "cp_args grant_cp = []"
  by (simp_all add: grant_cp_def cp_sub_delegate_def issued_cp_def cp_issue_root_delegation_def sub_cp_def bot_cp_def hum_cp_def
      cp_register_agent_def cp_register_human_def via_authority_snd fresh_cp_def new_cplane_def pay_registered_def)

section \<open>The payment\<close>

definition pay_rq :: "string request" where
  "pay_rq = \<lparr>rq_key = ''sub'', rq_actor = ''sub'', rq_delegation = ''d2'', rq_tool = ''pay'', rq_args = [(''amount'', VInt 100)],
     rq_action = ''write'', rq_risk = 40, rq_description = [], rq_session = ''s'', rq_now = 20, rq_abandon_at = 20,
     rq_fresh_action = ''a9'', rq_fresh_plan = ''p9'', rq_fresh_journal = ''j9''\<rparr>"

definition pay_plan :: reversal_plan where
  "pay_plan = projr (fst (plan (no_seams :: unit seams) () ''p9'' 20 ''pay'' (rq_args pay_rq) pay_registered))"

lemma pay_classify: "classify (no_seams :: unit seams) () ''pay'' (Some (rq_args pay_rq)) pay_registered = (COMPENSABLE, [])"
  by code_simp

lemma pay_plan_eq: "plan (no_seams :: unit seams) () ''p9'' 20 ''pay'' (rq_args pay_rq) pay_registered = (Inr pay_plan, [(''reversal_plan'', plan_to_dict pay_plan)])"
  unfolding pay_plan_def by code_simp

definition pay_bot :: "string principal" where
  "pay_bot = \<lparr>pr_id = ''sub'', pr_kind = AGENT, pr_name = ''sub'', pr_key = ''sub'', pr_roles = {}, pr_claims = []\<rparr>"

definition pay_decision :: decision where
  "pay_decision = default_decision ALLOW (scan demo_rt MAX_EXCERPT [(''amount'', VInt 100)]) COMPENSABLE"

lemma pay_evaluate: "evaluate demo_rt pay_policy (gate_call_of pay_rq pay_bot COMPENSABLE) [] = Inr pay_decision"
  by (simp add: evaluate_def pay_policy_def pay_decision_def gate_call_of_def pay_rq_def Let_def)

lemma pay_decision_effect: "de_effect pay_decision = ALLOW"
  by (simp add: pay_decision_def default_decision_def)

lemma pay_principal: "get_principal ''sub'' demo_principals = Inr pay_bot"
  by (simp add: get_principal_def demo_principals_def pay_bot_def)

definition pay_action :: action_record where
  "pay_action = \<lparr>ar_id = ''a9'', ar_actor = ''sub'', ar_delegation = ''d2'', ar_tool = ''pay'', ar_action = ''write'',
     ar_risk = 40, ar_description = ''write pay'', ar_params_digest = digest_of toy_crypto (VDict [(''amount'', VInt 100)]),
     ar_occurred_at = 20, ar_session = ''s'', ar_plan = Some ''p9'', ar_signature = ''sub''\<rparr>"

lemma pay_plan_id: "rp_id pay_plan = ''p9''"
  unfolding pay_plan_def by code_simp

lemma pay_build: "build_signed_action toy_crypto ''sub'' ''a9'' ''sub'' ''d2'' ''pay'' ''write'' 40 ''write pay'' [(''amount'', VInt 100)] ''s'' (Some ''p9'') 20 = Inr pay_action"
proof -
  have len: "py_len ''pay'' = 3" "py_len ''write'' = 5" "py_len ''write pay'' = 9" by code_simp+
  have sign: "sign toy_crypto k m = k" for k m by (simp add: toy_crypto_def)
  show ?thesis by (simp add: build_signed_action_def action_post_init_Inr len sign pay_action_def)
qed

definition pay_after :: "string authority" where
  "pay_after = demo\<lparr>au_actions := [(''a9'', pay_action)]\<rparr>"

lemma pay_record: "record_action toy_crypto ''sub'' ''a9'' ''sub'' ''d2'' ''pay'' ''write'' 40 ''write pay'' [(''amount'', VInt 100)] ''s'' (Some ''p9'') 20 grant_base = (Inr pay_action, pay_after, [(''action'', action_to_dict pay_action)])"
  unfolding record_action_def pay_build by (simp add: grant_base_def demo_def pay_after_def pay_action_def)

definition pay_verified :: chain_result where
  "pay_verified = \<lparr>cn_ok = True, cn_action_id = ''a9'', cn_human_root_id = Some ''hum'', cn_human_root_name = Some ''hum'',
     cn_chain = [demo_d2, demo_d1], cn_hops = 2, cn_errors = [], cn_effective_constraints = [(''max:amount'', VInt 500)],
     cn_reversibility_floor = COMPENSABLE\<rparr>"

lemma pay_effective: "effective_constraints [dg_scope demo_d2, dg_scope demo_d1] = [(''max:amount'', VInt 500)]"
   "effective_reversibility_floor [dg_scope demo_d2, dg_scope demo_d1] = COMPENSABLE"
  by code_simp+

lemma pay_chain: "reconstruct_chain toy_crypto ''a9'' pay_after = pay_verified"
  by (simp add: reconstruct_chain_def pay_after_def pay_action_def demo_def demo_principals_def pay_verified_def
      get_principal_def get_delegation_def MAX_CHAIN_DEPTH_def root_check_def numeral_eq_Suc
      chain_start_def check_actor_def fail_if_def is_revoked_def revocation_check_def link_check_def finish_chain_def Let_def pay_effective [unfolded demo_d1_def demo_d2_def pay_scope_def, simplified]
      demo_d1_def demo_d2_def scope_contains_def names_contained_def floor_contained_def pay_scope_def cap_contained_def cap_of_def WILDCARD_def)

lemma pay_plan_facts: "rp_kind pay_plan = COMPENSABLE" "is_broken pay_plan = False"
  unfolding pay_plan_def by code_simp+

lemma pay_amount: "resolve_path ''amount'' (VDict [(''amount'', VInt 100)]) = Some (VInt 100)"
  by code_simp

lemma pay_float: "py_float demo_rt (VInt 100) = Inr (Fin 100)"
  by (simp add: float_of_int_def)

lemma pay_caps: "evaluate_constraints demo_rt a [(''amount'', VInt 100)] [(''max:amount'', VInt 500)] = Inr []"
  by (simp add: check_cap_def cap_of_def Let_def finding_if_def pay_amount pay_float del: py_float.simps)

lemma pay_action_simps [simp]: "ar_id pay_action = ''a9''" "ar_actor pay_action = ''sub''" "ar_delegation pay_action = ''d2''" "ar_tool pay_action = ''pay''"
   "ar_action pay_action = ''write''" "ar_risk pay_action = 40" "ar_occurred_at pay_action = 20" "ar_session pay_action = ''s''"
   "ar_signature pay_action = ''sub''"
  by (simp_all add: pay_action_def)

lemma pay_permits: "permits_action (dg_scope demo_d2) ''pay'' ''write'' 40" by code_simp

lemma pay_leaf: "dg_subject demo_d2 = ''sub''" "\<not> delegation_expired 20 demo_d2"
  by (simp_all add: demo_d2_def delegation_expired_def)

lemma pay_quiet:
  "\<not> is_blocking (max_severity (
     evaluate_action default_detector pay_action demo_d2 ds True recent
     @ evaluate_chain default_detector pay_action [] recent 0 @ []
     @ evaluate_reversibility default_detector pay_action (Some pay_plan) n COMPENSABLE))"
  unfolding max_severity_blocks
  by (simp add: ball_Un evaluate_action_def evaluate_chain_def evaluate_reversibility_def
     pay_plan_facts is_blocking_def default_detector_def Let_def pay_permits pay_leaf)

lemma pay_signature: "signature_valid toy_crypto pay_action pay_after"
  by (simp add: signature_valid_def pay_after_def demo_def pay_principal) (simp add: pay_bot_def)

definition pay_recorded :: "string cplane" where
  "pay_recorded = log_events pay_env [(''action'', action_to_dict pay_action)]
     ((log_events pay_env [(''reversal_plan'', plan_to_dict pay_plan)] grant_cp)\<lparr>cp_authority := pay_after\<rparr>)"

definition pay_findings :: "finding list" where
  "pay_findings = projr (run_detectors pay_env pay_action pay_verified (Some pay_plan) [(''amount'', VInt 100)] pay_recorded)"


lemma pay_rq_parts: "rq_key pay_rq = ''sub''" "rq_actor pay_rq = ''sub''" "rq_delegation pay_rq = ''d2''" "rq_tool pay_rq = ''pay''"
  "rq_args pay_rq = [(''amount'', VInt 100)]" "rq_action pay_rq = ''write''" "rq_risk pay_rq = 40" "rq_description pay_rq = []"
  "rq_session pay_rq = ''s''" "rq_now pay_rq = 20" "rq_fresh_action pay_rq = ''a9''" "rq_fresh_plan pay_rq = ''p9''"
  by (simp_all add: pay_rq_def)

lemmas pay_parts = grant_authority grant_engine pay_env_parts pay_rq_parts

lemma pay_detect: "run_detectors pay_env pay_action pay_verified (Some pay_plan) [(''amount'', VInt 100)] pay_recorded = Inr pay_findings
   \<and> \<not> is_blocking (max_severity pay_findings)"
proof -
  have d: "get_delegation ''d2'' pay_after = Some demo_d2"
    by (simp add: pay_after_def demo_def get_delegation_def)
  have "cp_strikes pay_recorded = []" by (simp add: pay_recorded_def grant_engine)
  then have s: "strikes_of ''sub'' pay_recorded = 0" by (simp add: strikes_of_def)
  have au: "cp_authority pay_recorded = pay_after" by (simp add: pay_recorded_def)
  have v: "cn_errors pay_verified = []" "cn_effective_constraints pay_verified = [(''max:amount'', VInt 500)]"
     "cn_reversibility_floor pay_verified = COMPENSABLE" by (simp_all add: pay_verified_def)
  from pay_quiet show ?thesis unfolding pay_findings_def
    by (simp add: run_detectors_def d s au v pay_env_parts pay_signature pay_caps Let_def lift_exn_def del: evaluate_constraints.simps)
qed

lemma pay_plan_stage: "plan_stage pay_env () pay_rq grant_cp = (Inr pay_plan, log_events pay_env [(''reversal_plan'', plan_to_dict pay_plan)] grant_cp)"
  using pay_plan_eq by (simp add: plan_stage_def pay_parts)

lemma pay_record_stage: "record_attempt pay_env pay_rq (Some (rp_id pay_plan)) (log_events pay_env [(''reversal_plan'', plan_to_dict pay_plan)] grant_cp)
   = (Inr pay_action, pay_recorded)"
  using pay_record by (simp add: record_attempt_def via_authority_def pay_parts pay_plan_id pay_recorded_def)

lemma pay_gate: "gate_stage pay_env () pay_rq COMPENSABLE grant_cp = Inr (pay_decision, False)"
proof -
  have "get_principal ''sub'' (au_principals grant_base) = Inr pay_bot" using pay_principal by (simp add: grant_base_def demo_def)
  then show ?thesis
    using pay_evaluate by (simp add: gate_stage_def pay_parts pay_decision_effect lift_exn_def)
qed

lemma pay_classified: "classified pay_env () pay_rq grant_cp = (COMPENSABLE, grant_cp)"
  using pay_classify by (simp add: classified_def pay_parts)

definition pay_verdict :: verdict where
  "pay_verdict = combined_verdict pay_rq COMPENSABLE pay_decision False None pay_plan pay_action pay_verified pay_findings"

definition pay_out :: "verdict \<times> string cplane" where
  "pay_out = finalize pay_env pay_verdict (rq_args pay_rq) (journal_stage pay_env pay_rq pay_plan pay_recorded)"

lemma pay_allowed: "vd_allowed pay_verdict"
  unfolding pay_verdict_def combined_verdict_allowed using pay_detect by (simp add: pay_verified_def)

lemma pay_authorize: "authorize pay_env () pay_rq grant_cp = (Inr (fst pay_out), snd pay_out)"
proof -
  have ch: "reconstruct_chain toy_crypto ''a9'' (cp_authority pay_recorded) = pay_verified"
    using pay_chain by (simp add: pay_recorded_def)
  have "judge pay_env () pay_rq COMPENSABLE pay_decision False None grant_cp = (Inr (fst pay_out), snd pay_out)"
    using pay_detect pay_allowed
    by (simp add: judge_def and_then_def pay_plan_stage pay_record_stage pay_parts ch Let_def pay_verdict_def [symmetric]
        abandon_stage_def pay_out_def split_beta del: finalize_verdict)
  moreover have "budget_stage pay_rq COMPENSABLE grant_cp = ((None, None), grant_cp)" by (simp add: budget_stage_def pay_parts)
  moreover have "\<not> gate_blocks pay_decision False" by (simp add: gate_blocks_def pay_decision_effect)
  ultimately have "authorize_inner pay_env () pay_rq grant_cp = (Inr (fst pay_out), snd pay_out)"
    using pay_classified pay_gate by (simp add: authorize_inner_def classified_def split: prod.splits)
  then show ?thesis by (simp add: authorize_def)
qed

section \<open>Confirming it\<close>

definition pay_journal :: rengine where
  "pay_journal = snd (open_journal ''j9'' pay_plan (Some ''sub'') (Some ''d2'') ''s'' pay_registered)"

definition pay_commit :: "(revoco_error + journal_entry) \<times> rengine \<times> (string \<times> val) list" where
  "pay_commit = commit ''j9'' ''a9'' (VDict [(''id'', VStr ''x1'')]) 25 pay_journal"

definition obliging :: "unit executor" where
  "obliging w tool a = (Inr VNone, w)"

lemma pay_committed: "map_option je_state (map_of (re_journal (fst (snd pay_commit))) ''j9'') = Some COMMITTED
   \<and> map_of (re_by_action (fst (snd pay_commit))) ''a9'' = Some ''j9'' \<and> \<not> isl (fst pay_commit)"
  unfolding pay_commit_def by code_simp

lemma pay_cascade: "case fst (reverse_cascade no_seams obliging (\<lambda>_. ''r'') None None (Some [''a9'']) False 30 (fst (snd pay_commit)) ())
   of Inl _ \<Rightarrow> False | Inr r \<Rightarrow> cascade_ok r \<and> cr_skipped r = 0"
  unfolding pay_commit_def by code_simp

lemma pay_reverse: "case fst (reverse no_seams obliging ''r'' ''a9'' 30 False (fst (snd pay_commit)) ()) of Inl _ \<Rightarrow> False | Inr r \<Rightarrow> rc_ok r"
  unfolding pay_commit_def by code_simp

definition paid_cp :: "string cplane" where
  "paid_cp = snd (snd (confirm pay_env (fst pay_out) (VDict [(''id'', VStr ''x1'')]) 25 (snd pay_out)))"

lemma pay_out_verdict: "vd_action_id (fst pay_out) = ''a9''" "vd_decision (fst pay_out) = Some pay_decision"
  "vd_allowed (fst pay_out)" "vd_journal_id (fst pay_out) = Some ''j9''" "vd_charge (fst pay_out) = None"
  using pay_allowed by (simp_all add: pay_out_def pay_verdict_def) (simp add: pay_rq_def)

lemma pay_out_state: "cp_reversal (snd pay_out) = pay_journal" "cp_authority (snd pay_out) = pay_after"
  "map_of (cp_verdicts (snd pay_out)) ''a9'' = Some (fst pay_out)" "cp_totals (snd pay_out) = []" "cp_budget (snd pay_out) = None"
proof -
  show "map_of (cp_verdicts (snd pay_out)) ''a9'' = Some (fst pay_out)"
    using pay_out_verdict(1) by (simp add: pay_out_def finalize_def log_verdict_eq)
qed (simp_all add: pay_out_def journal_stage_def pay_recorded_def pay_parts pay_journal_def, simp add: pay_rq_def)

lemma pay_spends_nothing: "rule_spend rt pay_policy a pay_decision = Inr None"
  by (simp add: rule_spend_def rule_for_def pay_policy_def)

lemma pay_confirm: "\<exists>e v'. confirm pay_env (fst pay_out) (VDict [(''id'', VStr ''x1'')]) 25 (snd pay_out) = (Inr (Some e), v', paid_cp)"
  "cp_reversal paid_cp = fst (snd pay_commit)" "cp_authority paid_cp = pay_after"
  "\<exists>p. map_of (cp_verdicts paid_cp) ''a9'' = Some ((fst pay_out)\<lparr>vd_plan := p\<rparr>)"
proof -
  obtain e eng ev where c: "commit ''j9'' ''a9'' (VDict [(''id'', VStr ''x1'')]) 25 pay_journal = (Inr e, eng, ev)"
    using pay_committed by (metis pay_commit_def isl_def obj_sumE prod.collapse)
  then have "confirm pay_env (fst pay_out) (VDict [(''id'', VStr ''x1'')]) 25 (snd pay_out)
      = (Inr (Some e), (fst pay_out)\<lparr>vd_plan := Some (je_plan e)\<rparr>,
         store_plan ((fst pay_out)\<lparr>vd_plan := Some (je_plan e)\<rparr>) (with_reversal pay_env eng ev (snd pay_out)))"
    by (simp add: confirm_def pay_out_verdict pay_out_state charge_session_def commit_budget_def lift_exn_def pay_env_parts
        pay_spends_nothing on_budget_def Let_def)
  with c show "\<exists>e v'. confirm pay_env (fst pay_out) (VDict [(''id'', VStr ''x1'')]) 25 (snd pay_out) = (Inr (Some e), v', paid_cp)"
    "cp_reversal paid_cp = fst (snd pay_commit)" "cp_authority paid_cp = pay_after"
    "\<exists>p. map_of (cp_verdicts paid_cp) ''a9'' = Some ((fst pay_out)\<lparr>vd_plan := p\<rparr>)"
    by (auto simp add: paid_cp_def pay_commit_def pay_out_state pay_out_verdict store_plan_def)
qed

lemma paid_run: "cp_run pay_env (fresh_cp, ()) (paid_cp, ())"
proof -
  have 1: "cp_step pay_env (grant_cp, ()) (snd pay_out, ())"
    by (rule cp_step.authorize [OF pay_authorize]) (simp add: grant_authority grant_base_def)
  have 2: "cp_step pay_env (snd pay_out, ()) (paid_cp, ())"
    using pay_confirm(1) by (elim exE) (rule cp_step.confirm)
  show ?thesis by (rule cp_run.step [OF cp_run.step [OF grant_run 1] 2])
qed

end
