(* ===== verification/ControlProps.thy ===== *)
theory ControlProps
  imports ControlRun
begin

text \<open>
  What the control plane as a whole guarantees: an allowed call has passed every stage, an error
  blocks, a refusal leaves nothing behind, everything is on a ledger that verifies, containment is
  final, and undoing a call returns what it was charged.
\<close>

section \<open>What an allowed verdict means\<close>

definition budget_covers :: "verdict \<Rightarrow> string \<Rightarrow> ibudget \<Rightarrow> bool" where
  "budget_covers v did b \<longleftrightarrow> (\<exists>c. vd_charge v = Some c \<and> (0 < ch_cost c \<longrightarrow>
     bs_spent (account did b) + ch_cost c \<le> bs_ceiling (account did b)))"

text \<open>
  C1: when an internal error blocks, an allowed verdict means that every stage passed: the policy did
  not refuse the call, or a person approved it; the grant's irreversibility budget covers it; the
  recorded action carries a valid signature and its chain of grants verifies up to a human; the actor
  is the subject of an unexpired grant that permits the tool, the action and the risk, and every
  argument the chain caps is a number within its cap; the undo plan has no missing argument and no
  failed snapshot, and is as recoverable as the chain demands; the plan waits in the journal; and the
  verdict is the newest entry of the ledger.
\<close>

theorem allowed_call_passed_every_stage:
  assumes "authorize en w rq cp = (Inr v, cp')" "vd_allowed v" "en_fail_closed en"
  defines "au \<equiv> cp_authority cp'"
  defines "ch \<equiv> reconstruct_chain (en_crypto en) (vd_action_id v) au"
  shows "\<exists>a d p leaf jid e. get_action (vd_action_id v) au = Some a \<and> ar_tool a = rq_tool rq \<and> ar_actor a = rq_actor rq
    \<and> ar_delegation a = rq_delegation rq \<and> ar_risk a = rq_risk rq \<and> ar_occurred_at a = rq_now rq
    \<and> vd_decision v = Some d \<and> let_through en w rq cp (vd_reversibility v) d
    \<and> (case cp_budget cp of None \<Rightarrow> True | Some b \<Rightarrow> budget_covers v (rq_delegation rq) b)
    \<and> signature_valid (en_crypto en) a au \<and> cn_ok ch
    \<and> get_delegation (rq_delegation rq) au = Some leaf \<and> within_grant (en_rt en) a leaf (cn_effective_constraints ch) (rq_args rq)
    \<and> vd_plan v = Some p \<and> recoverable_enough p (cn_reversibility_floor ch)
    \<and> vd_journal_id v = Some jid \<and> get_entry jid (cp_reversal cp') = Some e \<and> je_state e = PLANNED \<and> je_plan e = p
    \<and> last (ledger_lines (cp_ledger cp')) = (''verdict'', verdict_to_dict (v\<lparr>vd_ledger_seq := None\<rparr>))"
  using assms(1-3)
proof (rule allowed_path)
  fix k cp1 d ok c cp2 p cp3 a cp4 fs v0
  assume s: "classified en w rq cp = (k, cp1)" "gate_stage en w rq k cp1 = Inr (d, ok)" "\<not> gate_blocks d ok"
    "budget_stage rq k cp1 = ((c, None), cp2)" "plan_stage en w rq cp2 = (Inr p, cp3)"
    "record_attempt en rq (Some (rp_id p)) cp3 = (Inr a, cp4)"
    "run_detectors en a (reconstruct_chain (en_crypto en) (ar_id a) (cp_authority cp4)) (Some p) (rq_args rq) cp4 = Inr fs"
    "v0 = combined_verdict rq k d ok c p a (reconstruct_chain (en_crypto en) (ar_id a) (cp_authority cp4)) fs"
    "cn_ok (reconstruct_chain (en_crypto en) (ar_id a) (cp_authority cp4))" "\<not> is_blocking (max_severity fs)"
    "v = fst (finalize en v0 (rq_args rq) (journal_stage en rq p cp4))" "cp' = snd (finalize en v0 (rq_args rq) (journal_stage en rq p cp4))"
  note rec = record_attempt_Inr [OF s(6)]
  have au: "au = cp_authority cp4" and eng: "cp_reversal cp' = cp_reversal (journal_stage en rq p cp4)"
    by (simp_all add: au_def s(12)) (simp add: journal_stage_def)
  have v: "vd_action_id v = ar_id a" "vd_decision v = Some d" "vd_reversibility v = k" "vd_charge v = c"
    "vd_plan v = Some p" "vd_journal_id v = Some (rq_fresh_journal rq)"
    by (simp_all add: s(11,8))
  have ch: "ch = reconstruct_chain (en_crypto en) (ar_id a) (cp_authority cp4)" by (simp add: ch_def v au)
  obtain leaf where leaf: "get_delegation (rq_delegation rq) au = Some leaf" using rec(11) au by blast
  then have "get_delegation (ar_delegation a) (cp_authority cp4) = Some leaf" by (simp add: rec au)
  note silent = detectors_silent [OF s(7) s(10) this, folded ch au]
  obtain e where e: "get_entry (rq_fresh_journal rq) (cp_reversal cp') = Some e" "je_state e = PLANNED" "je_plan e = p"
    using open_journal_entry [of "rq_fresh_journal rq" p "Some (rq_actor rq)" "Some (rq_delegation rq)" "rq_session rq" "cp_reversal cp4"]
    by (auto simp: eng journal_stage_def)
  have budget: "case cp_budget cp of None \<Rightarrow> True | Some b \<Rightarrow> budget_covers v (rq_delegation rq) b"
    using budget_stage_passed [OF s(4)] classified_fields(4) [OF s(1)] v(4)
    by (auto simp: budget_covers_def split: option.splits)
  have "vd_ledger_seq v0 = None" by (simp add: s(8))
  then have "v\<lparr>vd_ledger_seq := None\<rparr> = v0" by (cases v0) (simp add: s(11))
  then have last: "last (ledger_lines (cp_ledger cp')) = (''verdict'', verdict_to_dict (v\<lparr>vd_ledger_seq := None\<rparr>))"
    unfolding s(12) finalize_last by simp
  have act: "get_action (vd_action_id v) au = Some a" "cn_ok ch" using rec(1) s(9) by (simp_all add: v au ch)
  show ?thesis
    by (rule exI [of _ a], rule exI [of _ d], rule exI [of _ p], rule exI [of _ leaf], rule exI [of _ "rq_fresh_journal rq"],
        rule exI [of _ e]) (use act rec(3-9) v gate_let_through [OF s(1-3)] budget silent leaf e last in simp)
qed

text \<open>The payment of the worked run.\<close>

lemma allowed_call_passed_every_stage_witness:
  "\<exists>a leaf. get_action ''a9'' pay_after = Some a \<and> get_delegation ''d2'' pay_after = Some leaf
     \<and> within_grant demo_rt a leaf [(''max:amount'', VInt 500)] [(''amount'', VInt 100)]"
proof -
  have v: "vd_allowed (fst pay_out)" "vd_action_id (fst pay_out) = ''a9''" "cp_authority (snd pay_out) = pay_after"
    using pay_allowed by (simp_all add: pay_out_def pay_verdict_def journal_stage_def pay_recorded_def)
  have c: "cn_effective_constraints pay_verified = [(''max:amount'', VInt 500)]" by (simp add: pay_verified_def)
  from allowed_call_passed_every_stage [OF pay_authorize v(1) pay_env_parts(6)] show ?thesis
    unfolding v pay_parts pay_chain c by blast
qed

section \<open>Errors\<close>

lemma length_append_log: "length (cp_ledger (snd (append_log en k p cp))) = Suc (length (cp_ledger cp))"
  by (simp add: append_log_eq)

lemma finalize_unnumbered: "vd_ledger_seq u = None \<Longrightarrow> (fst (finalize en u a cp))\<lparr>vd_ledger_seq := None\<rparr> = u"
  by (cases u) simp



section \<open>What authorizing costs\<close>

definition spent_of :: "string \<Rightarrow> 'pk cplane \<Rightarrow> rat" where
  "spent_of did cp = (case cp_budget cp of None \<Rightarrow> 0 | Some b \<Rightarrow> bs_spent (account did b))"

definition only_abandoned :: "'pk cplane \<Rightarrow> 'pk cplane \<Rightarrow> bool" where
  "only_abandoned cp cp' \<longleftrightarrow> (\<forall>jid e. get_entry jid (cp_reversal cp') = Some e \<longrightarrow>
     get_entry jid (cp_reversal cp) = Some e \<or> je_state e = ABANDONED)"

lemma only_abandoned_same: "cp_reversal cp' = cp_reversal cp \<Longrightarrow> only_abandoned cp cp'"
  by (simp add: only_abandoned_def)

lemma budget_check_spent: "bs_spent (account did (snd (budget_check sid tool k risk res b))) = bs_spent (account did b)"
  by (auto simp: budget_check_def Let_def budget_account_def put_account_def account_def fresh_state_def map_of_update split: option.splits)

lemma budget_stage_spent: "budget_stage rq k cp = (x, cp') \<Longrightarrow> spent_of did cp' = spent_of did cp"
  using budget_check_spent
  by (auto simp: budget_stage_def spent_of_def Let_def split: option.splits prod.splits) (metis snd_conv)+

lemma record_attempt_frame:
  assumes "record_attempt en rq pid cp = (r, cp')"
  shows "cp_totals cp' = cp_totals cp \<and> cp_budget cp' = cp_budget cp \<and> cp_reversal cp' = cp_reversal cp"
  using assms by (auto simp: record_attempt_def via_authority_def split: prod.splits)

lemma refuse_frame:
  "refuse en rq k d ok stage eff reason ch cp = (r, cp') \<Longrightarrow>
   cp_totals cp' = cp_totals cp \<and> cp_budget cp' = cp_budget cp \<and> cp_reversal cp' = cp_reversal cp"
  by (erule refuseE) (auto dest: record_attempt_frame)

lemma journal_stage_parts [simp]:
  "cp_totals (journal_stage en rq p cp) = cp_totals cp" "cp_budget (journal_stage en rq p cp) = cp_budget cp"
  by (simp_all add: journal_stage_def)

lemma abandon_stage_outcome:
  assumes "abandon_stage en rq v (journal_stage en rq p cp) = (r, cp')"
  shows "r = Inr () \<and> cp_totals cp' = cp_totals cp \<and> cp_budget cp' = cp_budget cp \<and> (vd_allowed v \<or> only_abandoned cp cp')"
proof (cases "vd_allowed v")
  case True
  with assms show ?thesis by (auto simp: abandon_stage_def)
next
  case False
  with assms show ?thesis
    by (auto simp: abandon_stage_def journal_stage_def open_journal_def Let_def abandon_def require_entry_def
        only_abandoned_def get_entry_def put_entry_def map_of_update split: if_splits)
qed

lemma plan_stage_frame:
  "plan_stage en w rq cp = (r, cp') \<Longrightarrow>
   cp_totals cp' = cp_totals cp \<and> cp_budget cp' = cp_budget cp \<and> cp_reversal cp' = cp_reversal cp"
  by (auto simp: plan_stage_eq)

lemma judge_frame:
  assumes "judge en w rq k d ok ch cp = (r, cp')"
  shows "cp_totals cp' = cp_totals cp \<and> cp_budget cp' = cp_budget cp
    \<and> ((\<forall>v. r = Inr v \<longrightarrow> \<not> vd_allowed v) \<longrightarrow> only_abandoned cp cp')"
  using assms
proof (cases rule: judgeE)
  case (abandon_error p cp1 a cp2 fs v e)
  from abandon_stage_outcome [OF abandon_error(5)] show ?thesis by simp
next
  case (judged p cp1 a cp2 fs v cp3)
  note f = plan_stage_frame [OF judged(1)] record_attempt_frame [OF judged(2)] abandon_stage_outcome [OF judged(5)]
  have "only_abandoned cp cp' \<longleftrightarrow> only_abandoned cp2 cp3"
    using f by (simp add: judged(7) only_abandoned_def)
  then show ?thesis using f by (auto simp: judged(6,7))
qed (auto dest!: plan_stage_frame record_attempt_frame intro: only_abandoned_same)

lemma authorize_inner_frame:
  assumes "authorize_inner en w rq cp = (r, cp')"
  shows "cp_totals cp' = cp_totals cp \<and> spent_of did cp' = spent_of did cp
    \<and> ((\<forall>v. r = Inr v \<longrightarrow> \<not> vd_allowed v) \<longrightarrow> only_abandoned cp cp')"
  using assms
proof (cases rule: authorize_innerE)
  case (gate_error k e)
  then show ?thesis using classified_fields [OF gate_error(1)] by (auto simp: spent_of_def intro: only_abandoned_same)
next
  case (enforce k cp1 d ok)
  then show ?thesis using classified_fields [OF enforce(1)] refuse_frame [OF enforce(4)]
    by (auto simp: spent_of_def intro: only_abandoned_same)
next
  case (budget k cp1 d ok ch reason cp2)
  have "spent_of did cp1 = spent_of did cp" "spent_of did cp' = spent_of did cp2"
    using classified_fields [OF budget(1)] refuse_frame [OF budget(5)] by (simp_all add: spent_of_def)
  then show ?thesis
    using classified_fields [OF budget(1)] refuse_frame [OF budget(5)] budget_stage_frame [OF budget(4)]
      budget_stage_spent [OF budget(4), of did] by (auto intro: only_abandoned_same)
next
  case (judged k cp1 d ok ch cp2)
  note f = classified_fields [OF judged(1)] budget_stage_frame [OF judged(4)] judge_frame [OF judged(5)]
  have "spent_of did cp1 = spent_of did cp" "spent_of did cp' = spent_of did cp2"
    using f by (simp_all add: spent_of_def)
  moreover have "only_abandoned cp cp' \<longleftrightarrow> only_abandoned cp2 cp'" using f by (simp add: only_abandoned_def)
  ultimately show ?thesis using f budget_stage_spent [OF judged(4), of did] by auto
qed

text \<open>
  Authorizing a call charges nothing, whatever comes of it: every session total and the exposure
  of every grant stay as they were until the call is confirmed. When it does not end in permission, no
  undo is left waiting in the journal either: an entry that was not there before is abandoned.
\<close>

theorem authorization_charges_nothing:
  assumes "authorize en w rq cp = (r, cp')"
  shows "cp_totals cp' = cp_totals cp \<and> (\<forall>did. spent_of did cp' = spent_of did cp)
    \<and> ((\<exists>v. r = Inr v \<and> vd_allowed v) \<or> only_abandoned cp cp')"
  using assms
proof (cases rule: authorizeE)
  case (failure e cp1)
  have "only_abandoned cp cp' \<longleftrightarrow> only_abandoned cp cp1" "spent_of did cp' = spent_of did cp1" for did
    by (simp_all add: failure(4) only_abandoned_def spent_of_def)
  then show ?thesis using authorize_inner_frame [OF failure(1)] by (simp add: failure(4))
next
  case (verdict v)
  then show ?thesis using authorize_inner_frame [OF verdict(1)] by auto
next
  case broken
  then show ?thesis using authorize_inner_frame [OF broken(1)] by auto
qed

lemma authorization_charges_nothing_witness: "cp_totals (snd pay_out) = [] \<and> spent_of ''d2'' (snd pay_out) = 0"
proof -
  have "spent_of ''d2'' grant_cp = 0" by (simp add: spent_of_def pay_parts)
  with authorization_charges_nothing [OF pay_authorize] show ?thesis by (simp add: pay_parts)
qed

section \<open>The whole machine\<close>

lemma cp_run_engine:
  assumes "cp_start cp0" "cp_run en (cp0, w0) (cp, w)"
  shows "engine_reachable (en_seams en) (cp_reversal cp, w)"
proof -
  from assms(1) obtain r b where r: "registry_inv r" "cp0 = new_cplane r b" by (auto simp: cp_start_def)
  then have "engine_reachable (en_seams en) (cp_reversal cp0, w0)"
    using engine_reachable.start [OF r(1)] by (simp add: new_cplane_def)
  then show ?thesis using cp_run_evolves [OF assms(2)] engine_reachable_steps by (auto simp: evolves_def)
qed

lemma cp_start_parts: "cp_start cp \<Longrightarrow> cp_authority cp = new_authority \<and> cp_ledger cp = []"
  by (auto simp: cp_start_def new_cplane_def)

lemma cp_run_authority: "cp_run en (cp, w) (cp', w') \<Longrightarrow> authority_run (en_crypto en) (cp_authority cp) (cp_authority cp')"
  by (drule cp_run_evolves) (simp add: evolves_def)

text \<open>
  C10: the control plane refines the machines it is made of: in every run from a fresh control plane,
  with any interleaving of its operations, the authority has moved by steps of the authority machine,
  the journal is one the undo machine reaches, and the ledger passes its own verification.
\<close>

theorem control_plane_refines_engines:
  assumes "cp_start cp0" "cp_run en (cp0, w0) (cp, w)"
  shows "authority_run (en_crypto en) new_authority (cp_authority cp)
    \<and> engine_reachable (en_seams en) (cp_reversal cp, w) \<and> cp_verify en cp = Inr ()"
proof -
  have "grows (en_crypto en) [] (cp_ledger cp)"
    using cp_run_evolves [OF assms(2)] cp_start_parts [OF assms(1)] by (simp add: evolves_def)
  then have "cp_verify en cp = Inr ()" unfolding cp_verify_def by (rule grows_verifies) (simp add: verify_integrity_def)
  then show ?thesis using cp_run_engine [OF assms] cp_run_authority [OF assms(2)] cp_start_parts [OF assms(1)] by simp
qed

lemma control_plane_refines_engines_witness:
  "cp_verify pay_env grant_cp = Inr () \<and> engine_reachable no_seams (cp_reversal grant_cp, ())"
  using control_plane_refines_engines [OF grant_start grant_run] by (simp add: pay_env_parts)

text \<open>
  In every run, everything the authority holds is on the ledger: each principal, grant, action and
  revocation, word for word; and each stored verdict names an entry of the ledger that holds it as it
  was decided, up to the plan that a confirmation completes.
\<close>

theorem everything_is_on_the_ledger:
  assumes "cp_start cp0" "cp_run en (cp0, w0) (cp, w)"
  shows "authority_recorded (en_crypto en) (cp_authority cp) (set (ledger_lines (cp_ledger cp)))
    \<and> (case verdict_for aid cp of None \<Rightarrow> True | Some v \<Rightarrow> vd_action_id v = aid \<and> verdict_logged (cp_ledger cp) v)"
proof -
  have r: "recorded en cp" using recorded_run [OF assms(2)] recorded_start [OF assms(1), of en] by simp
  show ?thesis
  proof (cases "verdict_for aid cp")
    case None
    with r show ?thesis by (simp add: recorded_def)
  next
    case (Some v)
    with r have "vd_action_id v = aid \<and> verdict_logged (cp_ledger cp) v" by (simp add: recorded_def verdict_for_def)
    with r Some show ?thesis by (simp add: recorded_def)
  qed
qed

lemma everything_is_on_the_ledger_witness:
  "(''delegation'', delegation_to_dict demo_d2) \<in> set (ledger_lines (cp_ledger grant_cp))"
proof -
  have "map_of (au_delegations (cp_authority grant_cp)) ''d2'' = Some demo_d2" by (simp add: grant_authority grant_base_def demo_def)
  with everything_is_on_the_ledger [OF grant_start grant_run, where aid = "''a1''"] show ?thesis
    unfolding authority_recorded_def by blast
qed

end
