(* ===== verification/ControlAfter.thy ===== *)
theory ControlAfter
  imports ControlProps
begin

text \<open>
  What holds after the call: undoing returns what confirming charged, a contained grant stays dead,
  and a containment that reports itself complete has undone every committed action in its radius.
\<close>

section \<open>Containment\<close>

lemma revoke_each_delegations [simp]:
  "au_delegations (cp_authority (revoke_each en draw reason by_whom n ds cp)) = au_delegations (cp_authority cp)"
  by (induction ds arbitrary: n cp)
     (simp_all add: via_authority_result revoke_delegation_def revoke_target_def split: prod.splits)

lemma revoke_each_keeps:
  "is_revoked t (au_revocations (cp_authority cp)) \<Longrightarrow>
   is_revoked t (au_revocations (cp_authority (revoke_each en draw reason by_whom n ds cp)))"
proof (induction ds arbitrary: n cp)
  case (Cons d ds)
  then show ?case
    using revoke_keeps_revoked [OF Cons.prems]
    by (simp add: via_authority_result revoke_delegation_def revoke_target_def split_beta)
qed simp

lemma revoke_each_revokes:
  "d \<in> set ds \<Longrightarrow> is_revoked d (au_revocations (cp_authority (revoke_each en draw reason by_whom n ds cp)))"
proof (induction ds arbitrary: n cp)
  case (Cons x ds)
  show ?case
  proof (cases "d = x")
    case True
    have "is_revoked d (au_revocations (cp_authority
        (snd (via_authority en (revoke_delegation (fst (draw n)) x reason by_whom (snd (draw n))) cp))))"
      by (simp add: True via_authority_result revoke_delegation_def revoke_target_def split_beta revoke_revokes)
    then show ?thesis by (simp add: revoke_each_keeps)
  next
    case False
    then show ?thesis using Cons by simp
  qed
qed simp

lemma contain_authority:
  assumes "contain en exec rids draw did reason by_whom stop now cp w = (r, cp', w')"
  shows "cp_authority cp' = cp_authority (revoke_each en draw reason by_whom 0 (descendant_delegations did (cp_authority cp)) cp)"
  using assms
proof (cases rule: containE)
  case (error e)
  from error(1) show ?thesis by (rule cascade_overE) simp
next
  case (contained rep cp2)
  from contained(1) have "cp_authority cp2 = cp_authority (revoke_each en draw reason by_whom 0 (descendant_delegations did (cp_authority cp)) cp)"
    by (rule cascade_overE) simp
  then show ?thesis by (simp add: contained(3))
qed

lemma in_own_subtree: "did \<in> set (descendant_delegations did au)"
  unfolding descendant_delegations_def using descend_set [of "au_delegations au" "[]" "[did]"] by auto

lemma record_attempt_authority:
  assumes "record_attempt en rq pid cp = (Inr a, cp')"
  shows "au_revocations (cp_authority cp') = au_revocations (cp_authority cp)"
  using assms by (auto simp: record_attempt_def via_authority_def record_action_def split: prod.splits sum.splits if_splits)

lemma no_call_under_revoked:
  assumes keyed: "grants_keyed (cp_authority cp)" and dead: "is_revoked did (au_revocations (cp_authority cp))"
    and sub: "rq_delegation rq \<in> set (descendant_delegations did (cp_authority cp))"
    and run: "authorize en w rq cp = (Inr v, cp')" and "en_fail_closed en"
  shows "\<not> vd_allowed v"
proof
  assume "vd_allowed v"
  from run this assms(5) show False
  proof (rule allowed_path)
    fix k cp1 d ok c cp2 p cp3 a cp4
    assume s: "classified en w rq cp = (k, cp1)" "budget_stage rq k cp1 = ((c, None), cp2)"
      "plan_stage en w rq cp2 = (Inr p, cp3)" "record_attempt en rq (Some (rp_id p)) cp3 = (Inr a, cp4)"
      and ok: "cn_ok (reconstruct_chain (en_crypto en) (ar_id a) (cp_authority cp4))"
    have au: "cp_authority cp3 = cp_authority cp"
      using classified_fields(1) [OF s(1)] budget_stage_frame [OF s(2)] s(3) by (auto simp: plan_stage_eq)
    note rec = record_attempt_Inr [OF s(4)]
    have "grants_keyed (cp_authority cp4)" using keyed rec(10) au by (simp add: grants_keyed_def)
    moreover have "is_revoked did (au_revocations (cp_authority cp4))" using dead record_attempt_authority [OF s(4)] au by simp
    moreover have "(did, ar_delegation a) \<in> (child_rel (au_delegations (cp_authority cp4)))\<^sup>*"
      using sub descend_set [of "au_delegations (cp_authority cp)" "[]" "[did]"] rec(4,10) au
      by (simp add: descendant_delegations_def)
    ultimately show False using revoked_ancestor_refused [OF _ _ rec(1)] ok by blast
  qed
qed

text \<open>
  C4: containment is final: however the control plane came to be in its state, once a grant has been
  contained - whether or not the roll-back succeeded - and whatever is done afterwards, no call under
  that grant, under any grant below it, or under one issued below it later, is ever allowed again.
\<close>

theorem containment_is_final:
  assumes "cp_start cp0" "cp_run en (cp0, w0) (cp, w)"
    and "contain en exec rids draw did reason by_whom stop now cp w = (r, cp1, w1)"
    and "cp_run en (cp1, w1) (cp2, w2)" "en_fail_closed en"
    and "rq_delegation rq \<in> set (descendant_delegations did (cp_authority cp2))"
  shows "case fst (authorize en w2 rq cp2) of Inl e \<Rightarrow> e = ChainBroken | Inr v \<Rightarrow> \<not> vd_allowed v"
proof -
  have step: "cp_run en (cp, w) (cp1, w1)" by (rule cp_run.step [OF cp_run.stop cp_step.contain [OF assms(3)]])
  have "is_revoked did (au_revocations (cp_authority cp1))"
    unfolding contain_authority [OF assms(3)] by (rule revoke_each_revokes [OF in_own_subtree])
  then have dead: "is_revoked did (au_revocations (cp_authority cp2))"
    by (rule keeps_revoked [OF authority_run_keeps [OF cp_run_authority [OF assms(4)]]])
  have keyed: "grants_keyed (cp_authority cp2)"
    using grants_keyed_new cp_start_parts [OF assms(1)]
    by (metis grants_keyed_run cp_run_authority [OF assms(2)] cp_run_authority [OF step] cp_run_authority [OF assms(4)])
  obtain x cp3 where a: "authorize en w2 rq cp2 = (x, cp3)" by fastforce
  show ?thesis
  proof (cases x)
    case (Inl e)
    from a have "e = ChainBroken" unfolding Inl by (cases rule: authorizeE) simp_all
    with a Inl show ?thesis by simp
  next
    case (Inr v)
    with no_call_under_revoked [OF keyed dead assms(6) _ assms(5), of w2 v cp3] a show ?thesis by simp
  qed
qed

text \<open>The grant of the payment's parent is contained; the payment is then refused.\<close>

lemma containment_is_final_witness:
  "case contain pay_env (\<lambda>w _ _. (Inl (PyExn ''RuntimeError'' []), w)) (\<lambda>_. ''r'') (\<lambda>n. (''v'', 30)) ''d1'' ''leak'' None False 30 grant_cp () of
     (r, cp1, w1) \<Rightarrow> (case fst (authorize pay_env w1 pay_rq cp1) of Inl e \<Rightarrow> e = ChainBroken | Inr v \<Rightarrow> \<not> vd_allowed v)"
proof -
  obtain r cp1 w1 where c: "contain pay_env (\<lambda>w _ _. (Inl (PyExn ''RuntimeError'' []), w)) (\<lambda>_. ''r'') (\<lambda>n. (''v'', 30)) ''d1'' ''leak'' None False 30
      grant_cp () = (r, cp1, w1)" using prod_cases3 by blast
  have "au_delegations (cp_authority cp1) = au_delegations demo"
    by (simp add: contain_authority [OF c] grant_authority grant_base_def)
  moreover have "''d2'' \<in> set (descendant_delegations ''d1'' demo)" by code_simp
  ultimately have "rq_delegation pay_rq \<in> set (descendant_delegations ''d1'' (cp_authority cp1))"
    by (simp add: descendant_delegations_def pay_rq_parts)
  from containment_is_final [OF grant_start grant_run c cp_run.stop pay_env_parts(6) this] c show ?thesis by simp
qed

text \<open>What a containment that calls itself complete has done.\<close>

lemma revoke_each_actions [simp]:
  "au_actions (cp_authority (revoke_each en draw reason by_whom n ds cp)) = au_actions (cp_authority cp)"
  by (induction ds arbitrary: n cp)
     (simp_all add: via_authority_result revoke_delegation_def revoke_target_def split: prod.splits)

lemma radius_member:
  "a \<in> set (actions_under_delegation d au) \<Longrightarrow> d \<in> set dids \<Longrightarrow> ar_id a \<in> set (radius_actions dids au)"
  by (auto simp: radius_actions_def)

lemma radius_revoke_each:
  "radius_actions dids (cp_authority (revoke_each en draw reason by_whom n ds cp)) = radius_actions dids (cp_authority cp)"
  by (simp add: radius_actions_def actions_under_delegation_def)

lemma entries_of_actions_member:
  "aid \<in> set wanted \<Longrightarrow> map_of (re_by_action eng) aid = Some jid \<Longrightarrow> map_of (re_journal eng) jid = Some e \<Longrightarrow>
   e \<in> set (entries_of_actions wanted eng)"
  by (force simp: entries_of_actions_def List.map_filter_def)

text \<open>
  C11: a containment that reports itself complete is complete: in any state the control plane can be in,
  when the report says fully contained, the undo of every committed action taken under the contained
  grant or any grant below it stands as reversed in the journal.
\<close>

theorem full_containment_undoes_everything:
  assumes "cp_start cp0" "cp_run en (cp0, w0) (cp, w)" "wf_seams (en_seams en)"
    and "contain en exec rids draw did reason by_whom stop now cp w = (Inr (VDict items), cp1, w1)"
    and "map_of items ''fully_contained'' = Some (VBool True)"
    and "d \<in> set (descendant_delegations did (cp_authority cp))" "a \<in> set (actions_under_delegation d (cp_authority cp))"
    and "map_of (re_by_action (cp_reversal cp)) (ar_id a) = Some jid"
    and "map_of (re_journal (cp_reversal cp)) jid = Some e" "je_state e = COMMITTED"
  shows "map_option je_state (map_of (re_journal (cp_reversal cp1)) jid) = Some REVERSED"
  using assms(4)
proof (cases rule: containE)
  case (contained rep cp2)
  let ?dids = "descendant_delegations did (cp_authority cp)"
  let ?cp = "revoke_each en draw reason by_whom 0 ?dids cp"
  let ?acts = "radius_actions ?dids (cp_authority ?cp)"
  have inv: "engine_inv (cp_reversal cp)" using engine_reachable_inv [OF cp_run_engine [OF assms(1,2)] assms(3)] by simp
  from contained(1) obtain eng ev where run: "reverse_cascade (en_seams en) exec rids None None (Some ?acts) stop now (cp_reversal cp) w
      = (Inr rep, eng, ev, w1)" and cp2: "cp_reversal cp2 = eng" by (rule cascade_overE) simp
  have clean: "cascade_ok rep" "cr_skipped rep = 0" using contained(2) assms(5) by (auto simp: containment_record_def)
  have "ar_id a \<in> set ?acts"
    unfolding radius_revoke_each by (rule radius_member [OF assms(7,6)])
  then have mem: "e \<in> set (entries_of_actions ?acts (cp_reversal cp))" by (rule entries_of_actions_member [OF _ assms(8,9)])
  have "select_entries None None (Some ?acts) (cp_reversal cp)
      = Inr (entries_of_actions ?acts (cp_reversal cp), ''explicit'', show_nat (length ?acts) @ '' actions'')"
    by (simp add: select_entries_def)
  from clean_cascade_lookup [OF inv this run clean mem assms(10)] engine_inv_entry [OF inv assms(9)]
  show ?thesis by (simp add: contained(3) cp2)
qed simp

text \<open>The confirmed payment, undone by containing the grant above it.\<close>

lemma full_containment_undoes_everything_witness:
  "\<exists>r cp1 w1. contain pay_env obliging (\<lambda>_. ''r'') (\<lambda>n. (''v'', 30)) ''d1'' ''leak'' None False 30 paid_cp () = (Inr r, cp1, w1)
     \<and> map_option je_state (map_of (re_journal (cp_reversal cp1)) ''j9'') = Some REVERSED"
proof -
  have wf: "wf_seams (en_seams pay_env)" by (simp add: pay_env_parts wf_no_seams)
  have under: "descendant_delegations ''d1'' pay_after = [''d1'', ''d2'']" "actions_under_delegation ''d2'' pay_after = [pay_action]"
    "actions_under_delegation ''d1'' pay_after = []"
    by (simp_all add: pay_after_def demo_def descendant_delegations_def children_def demo_d1_def demo_d2_def actions_under_delegation_def)
  then have radius: "radius_actions (descendant_delegations ''d1'' pay_after) pay_after = [''a9'']" by (simp add: radius_actions_def)
  obtain r cp1 w1 where c: "contain pay_env obliging (\<lambda>_. ''r'') (\<lambda>n. (''v'', 30)) ''d1'' ''leak'' None False 30 paid_cp () = (r, cp1, w1)"
    using prod_cases3 by blast
  from c obtain items where r: "r = Inr (VDict items)" and full: "map_of items ''fully_contained'' = Some (VBool True)"
  proof (cases rule: containE)
    case (error e)
    from error(1) [unfolded radius_revoke_each] pay_cascade show thesis
      by (auto simp: cascade_over_def pay_confirm radius pay_env_parts simp del: revoke_each.simps split: prod.splits)
  next
    case (contained rep cp2)
    from contained(1) [unfolded radius_revoke_each] pay_cascade have "cascade_ok rep \<and> cr_skipped rep = 0"
      by (auto simp: cascade_over_def pay_confirm radius pay_env_parts simp del: revoke_each.simps split: prod.splits)
    with contained(2) show thesis by (intro that) (auto simp: containment_record_def)
  qed
  from pay_committed obtain e where "map_of (re_journal (fst (snd pay_commit))) ''j9'' = Some e" "je_state e = COMMITTED" by auto
  then have "map_option je_state (map_of (re_journal (cp_reversal cp1)) ''j9'') = Some REVERSED"
    using full_containment_undoes_everything [OF grant_start paid_run wf c [unfolded r] full, of "''d2''" pay_action "''j9''" e]
      pay_committed by (simp add: pay_confirm under)
  with c r show ?thesis by blast
qed

section \<open>Giving back\<close>

definition spend_is_finite :: "('sk, 'pk, 'w) env \<Rightarrow> verdict \<Rightarrow> 'pk cplane \<Rightarrow> bool" where
  "spend_is_finite en v cp \<longleftrightarrow> (case vd_decision v of None \<Rightarrow> True | Some d \<Rightarrow>
     \<forall>key x. rule_spend (en_rt en) (en_policy en) (args_of (vd_action_id v) cp) d = Inr (Some (key, x)) \<longrightarrow>
       (\<exists>q. x = Fin q) \<and> (\<exists>t \<ge> 0. get_total (session_of (vd_action_id v) cp) key (cp_totals cp) = Fin t))"

lemma charge_then_release:
  assumes "charge_session en v cp = Inr cp1" "spend_is_finite en v cp"
    and "release_session en (vd_action_id v) u cp2 = Inr cp3" "vd_decision u = vd_decision v"
    and "cp_totals cp2 = cp_totals cp1" "cp_authority cp2 = cp_authority cp1" "cp_args cp2 = cp_args cp1"
  shows "get_total sid key (cp_totals cp3) = get_total sid key (cp_totals cp)"
proof (cases "vd_decision v")
  case None
  with assms show ?thesis by (simp add: charge_session_def release_session_def)
next
  case (Some d)
  with assms(1) obtain t where t: "commit_budget (en_rt en) (en_policy en) (args_of (vd_action_id v) cp) d (session_of (vd_action_id v) cp)
      (cp_totals cp) = Inr t" "cp1 = cp\<lparr>cp_totals := t\<rparr>" by (auto simp: charge_session_def)
  have same: "args_of (vd_action_id v) cp2 = args_of (vd_action_id v) cp" "session_of (vd_action_id v) cp2 = session_of (vd_action_id v) cp"
    "cp_totals cp2 = t"
    using assms(5-7) t(2) by (simp_all add: args_of_def session_of_def)
  with assms(3,4) Some obtain t' where "release_budget (en_rt en) (en_policy en) (args_of (vd_action_id v) cp) d
      (session_of (vd_action_id v) cp) t = Inr t'" "cp3 = cp2\<lparr>cp_totals := t'\<rparr>" by (auto simp: release_session_def)
  then show ?thesis
    using commit_then_release [OF t(1)] assms(2) Some by (simp add: spend_is_finite_def)
qed

lemma commit_then_refund:
  assumes "cp_authority cp2 = cp_authority cp" "cp_budget cp1 = cp_budget (on_budget budget_commit aid v cp)" "cp_budget cp2 = cp_budget cp1"
    and "vd_charge u = vd_charge v" "0 \<le> spent_of did cp"
  shows "spent_of did (on_budget budget_refund aid u cp2) = spent_of did cp"
  using assms
  by (auto simp: on_budget_def spent_of_def budget_commit_account budget_refund_account split: option.splits)



text \<open>A cascade, on its own or as part of a containment, gives nothing back.\<close>

lemma cascade_returns_nothing:
  "undo_all en exec rids s d subtree stop now cp w = (r, cp', w') \<Longrightarrow>
   cp_totals cp' = cp_totals cp \<and> cp_budget cp' = cp_budget cp"
  by (auto simp: undo_all_def split: option.splits if_splits elim!: cascade_overE)

end
