(* ===== verification/ModelParse.thy ===== *)
theory ModelParse
  imports Journal InverseRegistry Ledger Policy
begin

text \<open>
  Reading the reversal model back: the \<open>from_dict\<close> constructors of \<open>reversal/model.py\<close> and
  \<open>InverseRegistry.load\<close> of \<open>reversal/registry.py\<close> on parsed YAML or JSON. A parser raises or
  returns an object; its inner \<open>None\<close> stands for a value of another type in a place where the
  source does not check the type, which the model does not follow further.
\<close>

section \<open>Reading fields\<close>

text \<open>A constructor applied field by field, in the source's order: the first error wins.\<close>

definition mk :: "'a \<Rightarrow> revoco_error + 'a option" where
  "mk f = Inr (Some f)"

definition ap :: "(revoco_error + ('a \<Rightarrow> 'b) option) \<Rightarrow> (revoco_error + 'a option) \<Rightarrow> revoco_error + 'b option" where
  "ap f x = bind_err f (\<lambda>g. bind_err x (\<lambda>y.
     Inr (case (g, y) of (Some h, Some z) \<Rightarrow> Some (h z) | _ \<Rightarrow> None)))"

definition checked :: "('a \<Rightarrow> revoco_error + 'b) \<Rightarrow> (revoco_error + 'a option) \<Rightarrow> revoco_error + 'b option" where
  "checked f x = bind_err x (\<lambda>y. case y of None \<Rightarrow> Inr None | Some z \<Rightarrow> bind_err (f z) (\<lambda>r. Inr (Some r)))"

fun seq_of :: "('a \<Rightarrow> revoco_error + 'b option) \<Rightarrow> 'a list \<Rightarrow> revoco_error + 'b list option" where
  "seq_of f [] = mk []"
| "seq_of f (x # xs) = ap (ap (mk Cons) (f x)) (seq_of f xs)"

lemma ap_mk [simp]: "ap (mk f) (mk x) = mk (f x)"
  by (simp add: ap_def mk_def)

lemma ap_Inr_Some [simp]: "ap (mk f) (Inr (Some x)) = mk (f x)"
  by (simp add: ap_def mk_def)

lemma ap_eq_mk: "ap f x = mk b \<longleftrightarrow> (\<exists>g z. f = mk g \<and> x = mk z \<and> b = g z)"
proof (cases f)
  case (Inr g)
  then show ?thesis by (cases g; cases x) (auto simp: ap_def mk_def split: option.splits)
qed (simp add: ap_def mk_def)

lemma Inl_not_mk [simp]: "Inl e \<noteq> mk y"
  by (simp add: mk_def)

lemma raise_if_mk [simp]: "raise_if c e k = mk x \<longleftrightarrow> \<not> c \<and> k = mk x"
  by (simp add: mk_def)

lemma mk_inject [simp]: "mk a = mk b \<longleftrightarrow> a = b"
  by (simp add: mk_def)

lemma checked_eq_mk: "checked f x = mk b \<longleftrightarrow> (\<exists>z. x = mk z \<and> f z = Inr b)"
  by (auto simp: checked_def mk_def split: option.splits)

lemma checked_mk [simp]: "f z = Inr b \<Longrightarrow> checked f (mk z) = mk b"
  by (simp add: checked_def mk_def)

lemma seq_of_mk: "(\<And>x. x \<in> set xs \<Longrightarrow> f (g x) = mk (h x)) \<Longrightarrow> seq_of f (map g xs) = mk (map h xs)"
  by (induction xs) auto

lemma seq_of_all: "seq_of f xs = mk ys \<Longrightarrow> (\<And>x y. f x = mk y \<Longrightarrow> P y) \<Longrightarrow> list_all P ys"
  by (induction xs arbitrary: ys) (auto simp: ap_eq_mk)

text \<open>\<open>except (KeyError, TypeError, ValueError)\<close>.\<close>

definition guarded :: "pyexn + 'a \<Rightarrow> revoco_error + 'a" where
  "guarded x = (case x of
     Inl e \<Rightarrow> Inl (if exn_name e \<in> {''KeyError'', ''TypeError'', ''ValueError''} then ValidationError else Raised e)
   | Inr y \<Rightarrow> Inr y)"

definition f_req :: "string \<Rightarrow> val \<Rightarrow> revoco_error + string option" where
  "f_req k d = bind_err (guarded (req k d)) (\<lambda>v. Inr (case v of VStr s \<Rightarrow> Some s | _ \<Rightarrow> None))"

text \<open>A name that the constructor requires to be a non-empty text is rejected like the empty one when
  it is no text.\<close>

definition f_name :: "string \<Rightarrow> val \<Rightarrow> revoco_error + string option" where
  "f_name k d = bind_err (guarded (req k d)) (\<lambda>v. mk (case v of VStr s \<Rightarrow> s | _ \<Rightarrow> []))"

definition f_str :: "string \<Rightarrow> val \<Rightarrow> revoco_error + string option" where
  "f_str k d = Inr (case get_or (VStr []) k d of VStr s \<Rightarrow> Some s | _ \<Rightarrow> None)"

definition f_opt_str :: "string \<Rightarrow> val \<Rightarrow> revoco_error + string option option" where
  "f_opt_str k d = Inr (case get_item k d of VNone \<Rightarrow> Some None | VStr s \<Rightarrow> Some (Some s) | _ \<Rightarrow> None)"

definition f_bool :: "bool \<Rightarrow> string \<Rightarrow> val \<Rightarrow> revoco_error + bool option" where
  "f_bool dflt k d = mk (truthy (get_or (VBool dflt) k d))"

text \<open>\<open>dict(d.get(k) or {})\<close>, \<open>(d.get(k) or {}).items()\<close> and \<open>tuple(d.get(k) or ())\<close>.\<close>

definition f_dict :: "pyrt \<Rightarrow> string \<Rightarrow> val \<Rightarrow> revoco_error + args option" where
  "f_dict rt k d = (let v = get_item k d in
     if \<not> truthy v then mk []
     else case v of VDict m \<Rightarrow> mk m | _ \<Rightarrow> bind_err (guarded (rt_pairs rt v)) mk)"

definition f_items :: "string \<Rightarrow> val \<Rightarrow> revoco_error + args option" where
  "f_items k d = (let v = get_item k d in
     if \<not> truthy v then mk []
     else case v of VDict m \<Rightarrow> mk m | _ \<Rightarrow> Inl (Raised (PyExn ''AttributeError'' ''items'')))"

definition all_strs :: "val list \<Rightarrow> string list option" where
  "all_strs xs = (if list_all is_str xs then Some (map (\<lambda>v. case v of VStr s \<Rightarrow> s | _ \<Rightarrow> []) xs) else None)"

definition f_strs :: "string \<Rightarrow> val \<Rightarrow> revoco_error + string list option" where
  "f_strs k d = (let v = get_item k d in
     if \<not> truthy v then mk []
     else case v of
         VList xs \<Rightarrow> Inr (all_strs xs)
       | VDict m \<Rightarrow> mk (map fst m)
       | VStr _ \<Rightarrow> Inr None
       | _ \<Rightarrow> Inl ValidationError)"

definition f_seq :: "(val \<Rightarrow> revoco_error + 'a option) \<Rightarrow> string \<Rightarrow> val \<Rightarrow> revoco_error + 'a list option" where
  "f_seq f k d = (let v = get_item k d in
     if \<not> truthy v then mk []
     else case iter_of v of None \<Rightarrow> Inl ValidationError | Some xs \<Rightarrow> seq_of f xs)"

text \<open>\<open>float(x)\<close>; the model's times are finite.\<close>

definition f_finite :: "pyexn + pyfloat \<Rightarrow> revoco_error + rat option" where
  "f_finite x = bind_err (guarded x) (\<lambda>y. Inr (case y of Fin t \<Rightarrow> Some t | _ \<Rightarrow> None))"

definition f_float :: "pyrt \<Rightarrow> string \<Rightarrow> val \<Rightarrow> revoco_error + rat option" where
  "f_float rt k d = f_finite (bind_err (req k d) (py_float rt))"

definition f_opt_float :: "pyrt \<Rightarrow> string \<Rightarrow> val \<Rightarrow> revoco_error + rat option option" where
  "f_opt_float rt k d =
     (if get_item k d = VNone then mk None else ap (mk Some) (f_finite (py_float rt (get_item k d))))"

text \<open>A time that is stored as it comes.\<close>

definition f_time :: "string \<Rightarrow> val \<Rightarrow> revoco_error + rat option option" where
  "f_time k d = Inr (case get_item k d of
       VNone \<Rightarrow> Some None | VFloat (Fin t) \<Rightarrow> Some (Some t) | VInt n \<Rightarrow> Some (Some (of_int n)) | _ \<Rightarrow> None)"

text \<open>\<open>Reversibility(x)\<close> and \<open>JournalState(x)\<close>.\<close>

definition enum_of :: "(string \<Rightarrow> 'a option) \<Rightarrow> val \<Rightarrow> revoco_error + 'a option" where
  "enum_of f v = (case v of
     VStr s \<Rightarrow> (case f s of None \<Rightarrow> Inl ValidationError | Some k \<Rightarrow> mk k)
   | _ \<Rightarrow> Inl ValidationError)"

definition f_enum :: "(string \<Rightarrow> 'a option) \<Rightarrow> string \<Rightarrow> val \<Rightarrow> revoco_error + 'a option" where
  "f_enum f k d = bind_err (guarded (req k d)) (enum_of f)"

lemmas field_defs = f_req_def f_name_def f_str_def f_opt_str_def f_bool_def f_dict_def f_items_def f_strs_def
  f_seq_def f_finite_def f_float_def f_opt_float_def f_time_def f_enum_def enum_of_def

section \<open>Gates and steps\<close>

definition phase_of_value :: "string \<Rightarrow> phase option" where
  "phase_of_value s = find (\<lambda>p. phase_value p = s) [PhAuthorize, PhUndo, PhBoth]"

definition f_phase :: "val \<Rightarrow> revoco_error + phase option" where
  "f_phase d = enum_of phase_of_value (get_or (VStr ''undo'') ''check_at'' d)"

text \<open>\<open>ReversalGate.from_dict\<close>: a description that is false in any type is missing.\<close>

definition f_description :: "val \<Rightarrow> revoco_error + string option" where
  "f_description d = (let v = get_or (VStr []) ''description'' d in
     Inr (if \<not> truthy v then Some [] else case v of VStr s \<Rightarrow> Some s | _ \<Rightarrow> None))"

definition gate_of_dict :: "val \<Rightarrow> revoco_error + reversal_gate option" where
  "gate_of_dict d = checked gate_post_init
     (ap (ap (ap (ap (mk reversal_gate.make)
        (f_name ''name'' d)) (f_description d)) (f_str ''remediation'' d)) (f_phase d))"

text \<open>The text of a source expression; one of another type is not followed.\<close>

definition str_items :: "args \<Rightarrow> revoco_error + (string \<times> string) list option" where
  "str_items m = Inr (if list_all (is_str \<circ> snd) m
     then Some (map (\<lambda>(k, v). (k, case v of VStr s \<Rightarrow> s | _ \<Rightarrow> [])) m) else None)"

definition f_arg_map :: "val \<Rightarrow> revoco_error + (string \<times> string) list option" where
  "f_arg_map d = bind_err (f_items ''arg_map'' d) (\<lambda>m. case m of None \<Rightarrow> Inr None | Some m \<Rightarrow> str_items (sorted_items m))"

definition f_static :: "val \<Rightarrow> revoco_error + args option" where
  "f_static d = ap (mk sorted_items) (f_items ''static_args'' d)"

definition step_of_dict :: "val \<Rightarrow> revoco_error + inverse_step option" where
  "step_of_dict d = checked step_post_init
     (ap (ap (ap (ap (ap (ap (mk inverse_step.make)
        (f_name ''name'' d)) (f_name ''tool'' d)) (f_arg_map d)) (f_static d))
        (f_str ''description'' d)) (f_bool True ''critical'' d))"

section \<open>Specs and registries\<close>

definition spec_of_dict :: "pyrt \<Rightarrow> val \<Rightarrow> revoco_error + inverse_spec option" where
  "spec_of_dict rt d = checked spec_post_init
     (ap (ap (ap (ap (ap (ap (ap (ap (ap (ap (ap (ap (ap (mk inverse_spec.make)
        (f_name ''tool'' d)) (f_enum posture_of_value ''kind'' d)) (f_opt_str ''inverse_tool'' d))
        (f_arg_map d)) (f_static d)) (f_seq step_of_dict ''steps'' d)) (f_seq gate_of_dict ''gates'' d))
        (f_strs ''snapshot_fields'' d)) (f_opt_float rt ''window_seconds'' d)) (f_bool False ''one_shot'' d))
        (enum_of posture_of_value (get_or (VStr ''irreversible'') ''degraded_kind'' d)))
        (f_str ''residue'' d)) (f_str ''notes'' d))"

text \<open>\<open>dict(pairs)\<close>: a later pair replaces an earlier one with the same key.\<close>

definition dict_of :: "(string \<times> 'a) list \<Rightarrow> (string, 'a) dict" where
  "dict_of ps = fold (\<lambda>(k, v). AList.update k v) ps []"

definition v_items :: "(string \<times> string) list \<Rightarrow> val" where
  "v_items m = VDict (dict_of (map (\<lambda>(k, s). (k, VStr s)) m))"

definition step_to_dict :: "inverse_step \<Rightarrow> val" where
  "step_to_dict s = VDict
    [(''name'', VStr (st_name s)), (''tool'', VStr (st_tool s)), (''arg_map'', v_items (st_arg_map s)),
     (''static_args'', VDict (dict_of (st_static_args s))), (''description'', VStr (st_description s)),
     (''critical'', VBool (st_critical s))]"

definition spec_to_dict :: "inverse_spec \<Rightarrow> val" where
  "spec_to_dict s = VDict
    [(''tool'', VStr (sp_tool s)), (''kind'', VStr (posture_value (sp_kind s))),
     (''inverse_tool'', v_opt_str (sp_inverse_tool s)), (''arg_map'', v_items (sp_arg_map s)),
     (''static_args'', VDict (dict_of (sp_static_args s))), (''steps'', VList (map step_to_dict (sp_steps s))),
     (''gates'', VList (map gate_to_dict (sp_gates s))), (''snapshot_fields'', v_strs (sp_snapshot_fields s)),
     (''window_seconds'', v_opt_time (sp_window_seconds s)), (''one_shot'', VBool (sp_one_shot s)),
     (''degraded_kind'', VStr (posture_value (sp_degraded_kind s))), (''residue'', VStr (sp_residue s)),
     (''notes'', VStr (sp_notes s))]"

definition registry_to_dict :: "registry \<Rightarrow> val" where
  "registry_to_dict r = VDict [(''specs'', VList (map spec_to_dict (registry_all r)))]"

text \<open>\<open>InverseRegistry.load\<close> of a parsed document.\<close>

definition as_policy_error :: "revoco_error + 'a \<Rightarrow> revoco_error + 'a" where
  "as_policy_error x = (case x of Inl e \<Rightarrow> Inl (if e = ValidationError then PolicyError else e) | Inr y \<Rightarrow> Inr y)"

definition load_registry :: "pyrt \<Rightarrow> val \<Rightarrow> revoco_error + registry option" where
  "load_registry rt data =
     raise_if (\<not> is_dict data) PolicyError
     (case get_or (VList []) ''specs'' data of
        VList raws \<Rightarrow>
          ap (mk (\<lambda>ss. register_many ss empty_registry)) (seq_of (\<lambda>raw. as_policy_error (spec_of_dict rt raw)) raws)
      | _ \<Rightarrow> Inl PolicyError)"

section \<open>Plans and journal entries\<close>

definition planned_step_of_dict :: "pyrt \<Rightarrow> val \<Rightarrow> revoco_error + planned_step option" where
  "planned_step_of_dict rt d =
     ap (ap (ap (ap (ap (ap (ap (ap (mk planned_step.make)
        (f_req ''name'' d)) (f_req ''tool'' d)) (f_dict rt ''args'' d)) (f_strs ''unresolved'' d))
        (f_strs ''deferred'' d)) (f_strs ''from_prior_step'' d)) (f_str ''description'' d)) (f_bool True ''critical'' d)"

definition plan_of_dict :: "pyrt \<Rightarrow> val \<Rightarrow> revoco_error + reversal_plan option" where
  "plan_of_dict rt d =
     ap (ap (ap (ap (ap (ap (ap (ap (ap (ap (ap (ap (ap (ap (ap (mk reversal_plan.make)
        (f_req ''id'' d)) (f_req ''tool'' d)) (f_enum posture_of_value ''kind'' d)) (f_opt_str ''inverse_tool'' d))
        (f_dict rt ''inverse_args'' d)) (f_strs ''unresolved_args'' d)) (f_dict rt ''snapshot'' d))
        (f_opt_float rt ''window_seconds'' d)) (f_str ''residue'' d)) (f_float rt ''created_at'' d))
        (f_opt_str ''snapshot_error'' d)) (f_strs ''deferred_args'' d))
        (f_seq (planned_step_of_dict rt) ''steps'' d)) (f_seq gate_of_dict ''gates'' d)) (f_bool False ''one_shot'' d)"

text \<open>An element of a stored history, which the source keeps as it is.\<close>

definition history_of_dict :: "val \<Rightarrow> revoco_error + transition_note option" where
  "history_of_dict v =
     Inr (case (v, get_item ''from'' v, get_item ''to'' v, get_item ''at'' v, get_item ''note'' v) of
       (VDict m, VStr a, VStr b, VFloat (Fin t), VStr n) \<Rightarrow>
         (case (state_of_value a, state_of_value b) of
            (Some x, Some y) \<Rightarrow> if length m = 4 then Some \<lparr>tn_from = x, tn_to = y, tn_at = t, tn_note = n\<rparr> else None
          | _ \<Rightarrow> None)
     | _ \<Rightarrow> None)"

text \<open>\<open>expires_at\<close> is written but not read, and \<open>reversal_result\<close> is not written at all.\<close>

definition entry_of_stored :: "pyrt \<Rightarrow> val \<Rightarrow> revoco_error + journal_entry option" where
  "entry_of_stored rt d =
     (let plan = (case req ''plan'' d of Inl e \<Rightarrow> Inl ValidationError | Inr p \<Rightarrow> plan_of_dict rt p)
      in ap (ap (ap (ap (ap (ap (ap (ap (ap (ap (ap (ap
        (mk (\<lambda>i p s a dl se ac co re er. journal_entry.make i p s a dl se ac co re VNone er))
        (f_req ''id'' d)) plan) (f_enum state_of_value ''state'' d)) (f_opt_str ''action_id'' d))
        (f_opt_str ''delegation_id'' d)) (f_str ''session_id'' d)) (f_opt_str ''actor_id'' d))
        (f_time ''committed_at'' d)) (f_time ''resolved_at'' d)) (f_opt_str ''error'' d)) (f_str ''note'' d))
        (f_seq history_of_dict ''history'' d))"

end
