(* ===== verification/Store.thy ===== *)
theory Store
  imports LedgerProps Drills ModelParse Horizon
begin

text \<open>
  \<open>store/sqlite.py\<close> and the write path of \<open>controlplane.py\<close> onto it: the tables of the database, one
  all-or-nothing write per ledger entry, what a restart reads back, and the register of drills over a
  store. A text column holds JSON with sorted keys, so what is read back is \<open>canon\<close> of what was
  written; identifiers are texts; the meta table is the readings of the clock it is used for. SQLite's
  own guarantees are that a transaction is applied as a whole or not at all, also across a crash, and
  that the constraints of the schema are checked.
\<close>

section \<open>Tables\<close>

record journal_row =
  jr_action :: val
  jr_delegation :: val
  jr_session :: val
  jr_state :: val
  jr_tool :: val
  jr_committed :: val
  jr_resolved :: val
  jr_ledger_seq :: "int option"
  jr_data :: val

record drill_row =
  dw_id :: string
  dw_tool :: string
  dw_outcome :: string
  dw_at :: rat
  dw_data :: val

record db =
  db_fresh :: bool
  db_ledger :: "ledger_entry list"
  db_journal :: "(val, journal_row) dict"
  db_drills :: "drill_row list"
  db_last_seen :: "rat option"
  db_closed_at :: "rat option"

definition empty_db :: db where
  "empty_db = \<lparr>db_fresh = True, db_ledger = [], db_journal = [], db_drills = [], db_last_seen = None, db_closed_at = None\<rparr>"

definition integrity_error :: pyexn where
  "integrity_error = PyExn ''IntegrityError'' []"

section \<open>Statements\<close>

text \<open>The ledger table: the number is the primary key and fits 64 bits, the hash is unique, no column is
  null, and a NaN is stored as null. The triggers reject an update or a deletion of a row.\<close>

definition stored_row :: "ledger_entry \<Rightarrow> ledger_entry" where
  "stored_row e = e\<lparr>le_payload := canon (le_payload e)\<rparr>"

definition insert_ledger :: "ledger_entry \<Rightarrow> db \<Rightarrow> pyexn + db" where
  "insert_ledger e d =
     raise_if (\<not> (- (2 ^ 63) \<le> le_seq e \<and> le_seq e < 2 ^ 63)) (PyExn ''OverflowError'' [])
     (raise_if (le_recorded_at e = NaN) integrity_error
     (raise_if (le_seq e \<in> le_seq ` set (db_ledger d)) integrity_error
     (raise_if (le_entry_hash e \<in> le_entry_hash ` set (db_ledger d)) integrity_error
     (Inr (d\<lparr>db_ledger := db_ledger d @ [stored_row e]\<rparr>)))))"

definition update_ledger_row :: "int \<Rightarrow> (ledger_entry \<Rightarrow> ledger_entry) \<Rightarrow> db \<Rightarrow> pyexn + db" where
  "update_ledger_row n f d = raise_if (n \<in> le_seq ` set (db_ledger d)) integrity_error (Inr d)"

definition delete_ledger_row :: "int \<Rightarrow> db \<Rightarrow> pyexn + db" where
  "delete_ledger_row n d = raise_if (n \<in> le_seq ` set (db_ledger d)) integrity_error (Inr d)"

text \<open>What a parameter of a statement may be.\<close>

fun bindable :: "val \<Rightarrow> bool" where
  "bindable (VList _) = False"
| "bindable (VDict _) = False"
| "bindable _ = True"

definition text_or_empty :: "val \<Rightarrow> val" where
  "text_or_empty v = (if truthy v then v else VStr [])"

definition journal_row_of :: "int option \<Rightarrow> val \<Rightarrow> pyexn + journal_row" where
  "journal_row_of seq data =
     (let plan = get_item ''plan'' data in
      raise_if (truthy plan \<and> \<not> is_dict plan) (PyExn ''AttributeError'' ''get'')
      (Inr \<lparr>jr_action = get_item ''action_id'' data, jr_delegation = get_item ''delegation_id'' data,
           jr_session = text_or_empty (get_item ''session_id'' data), jr_state = get_item ''state'' data,
           jr_tool = text_or_empty (get_item ''tool'' plan), jr_committed = get_item ''committed_at'' data,
           jr_resolved = get_item ''resolved_at'' data, jr_ledger_seq = seq, jr_data = canon data\<rparr>))"

definition row_params :: "journal_row \<Rightarrow> val list" where
  "row_params r = [jr_action r, jr_delegation r, jr_session r, jr_state r, jr_tool r, jr_committed r, jr_resolved r]"

text \<open>Insert, or on the same identifier replace every column but the tool.\<close>

definition upsert_journal :: "val \<Rightarrow> int option \<Rightarrow> db \<Rightarrow> pyexn + db" where
  "upsert_journal data seq d =
     bind_err (journal_row_of seq data) (\<lambda>r.
     raise_if (\<not> list_all bindable (get_item ''id'' data # row_params r)) (PyExn ''ProgrammingError'' [])
     (raise_if (jr_state r = VNone) integrity_error
     (let i = get_item ''id'' data;
          r' = (case map_of (db_journal d) i of None \<Rightarrow> r | Some old \<Rightarrow> r\<lparr>jr_tool := jr_tool old\<rparr>)
      in Inr (d\<lparr>db_journal := AList.update i r' (db_journal d)\<rparr>))))"

section \<open>Operations of the store\<close>

text \<open>One transaction: an exception rolls back everything the statements did.\<close>

definition tx :: "(db \<Rightarrow> pyexn + db) \<Rightarrow> db \<Rightarrow> (pyexn + unit) \<times> db" where
  "tx f d = (case f d of Inl e \<Rightarrow> (Inl e, d) | Inr d' \<Rightarrow> (Inr (), d'))"

definition store_error :: "pyexn + unit \<Rightarrow> revoco_error + unit" where
  "store_error r = (case r of
     Inl e \<Rightarrow> Inl (if exn_name e = ''IntegrityError'' then StoreError else Raised e) | Inr u \<Rightarrow> Inr u)"

definition append_ledger :: "ledger_entry \<Rightarrow> db \<Rightarrow> (revoco_error + unit) \<times> db" where
  "append_ledger e d = (case tx (insert_ledger e) d of (r, d') \<Rightarrow> (store_error r, d'))"

definition record_reversal :: "ledger_entry \<Rightarrow> val \<Rightarrow> db \<Rightarrow> (revoco_error + unit) \<times> db" where
  "record_reversal e data d =
     (case tx (\<lambda>d. bind_err (insert_ledger e d) (\<lambda>d1.
                 if truthy data \<and> truthy (get_item ''id'' data) then upsert_journal data (Some (le_seq e)) d1 else Inr d1)) d of
        (r, d') \<Rightarrow> (store_error r, d'))"

definition load_ledger :: "db \<Rightarrow> ledger_entry list" where
  "load_ledger d = sort_key le_seq (db_ledger d)"

definition ledger_head :: "db \<Rightarrow> string" where
  "ledger_head d = head_hash (load_ledger d)"

definition load_journal :: "db \<Rightarrow> val list" where
  "load_journal d = map (jr_data \<circ> snd) (db_journal d)"

definition open_journal_count :: "db \<Rightarrow> nat" where
  "open_journal_count d = length (filter (\<lambda>r. jr_state r = VStr ''committed'') (map snd (db_journal d)))"

definition record_drill :: "drill_result \<Rightarrow> db \<Rightarrow> db" where
  "record_drill r d =
     (if dr_id r \<in> dw_id ` set (db_drills d) then d
      else d\<lparr>db_drills := db_drills d @ [\<lparr>dw_id = dr_id r, dw_tool = dr_tool r,
        dw_outcome = outcome_value (dr_outcome r), dw_at = dr_at r, dw_data = canon (drill_result_to_dict r)\<rparr>]\<rparr>)"

definition load_drills :: "db \<Rightarrow> val list" where
  "load_drills d = map dw_data (sort_key dw_at (db_drills d))"

text \<open>\<open>SELECT tool, MAX(at) ... GROUP BY tool\<close>; the groups come out by tool.\<close>

definition last_pass_per_tool :: "db \<Rightarrow> (string, rat) dict" where
  "last_pass_per_tool d =
     (let ps = filter (\<lambda>r. dw_outcome r = ''passed'') (db_drills d)
      in map (\<lambda>t. (t, Max (dw_at ` set (filter (\<lambda>r. dw_tool r = t) ps)))) (sort (dedup (map dw_tool ps))))"

definition heartbeat :: "rat \<Rightarrow> db \<Rightarrow> db" where
  "heartbeat now d = d\<lparr>db_last_seen := Some now\<rparr>"

definition close_db :: "rat \<Rightarrow> db \<Rightarrow> db" where
  "close_db now d = d\<lparr>db_closed_at := Some now\<rparr>"

definition open_db :: "db \<Rightarrow> db" where
  "open_db d = d\<lparr>db_fresh := False\<rparr>"

section \<open>The report of a start\<close>

datatype startup_note = NDownLonger rat rat | NStaleTools nat | NNotVerified | NOpenEntries nat

record startup_state =
  su_fresh :: bool
  su_downtime :: "rat option"
  su_entries :: nat
  su_head :: string
  su_verified :: bool
  su_error_seq :: "int option"
  su_open :: nat
  su_stale :: "string list"
  su_notes :: "startup_note list"

fun first_break :: "('sk, 'pk) crypto \<Rightarrow> int \<Rightarrow> string \<Rightarrow> ledger_entry list \<Rightarrow> int option" where
  "first_break cr i prev [] = None"
| "first_break cr i prev (e # es) =
     (if le_seq e \<noteq> i \<or> le_prev_hash e \<noteq> prev \<or> compute_hash cr e \<noteq> le_entry_hash e then Some (le_seq e)
      else first_break cr (i + 1) (le_entry_hash e) es)"

definition startup_report :: "('sk, 'pk) crypto \<Rightarrow> rat \<Rightarrow> rat \<Rightarrow> db \<Rightarrow> startup_state \<times> db" where
  "startup_report cr stale_after now d =
     (let last_seen = (case db_last_seen d of Some t \<Rightarrow> Some t | None \<Rightarrow> db_closed_at d);
          downtime = map_option (\<lambda>t. now - t) last_seen;
          entries = load_ledger d;
          break = first_break cr 0 GENESIS_PREV_HASH entries;
          stale = map fst (filter (\<lambda>(t, passed). stale_after < now - passed) (last_pass_per_tool d));
          n = open_journal_count d
      in (\<lparr>su_fresh = db_fresh d, su_downtime = downtime, su_entries = length entries, su_head = head_hash entries,
           su_verified = (break = None), su_error_seq = break, su_open = n, su_stale = stale,
           su_notes = (case downtime of Some t \<Rightarrow> if stale_after < t then [NDownLonger t stale_after] else [] | None \<Rightarrow> [])
             @ (if stale = [] then [] else [NStaleTools (length stale)])
             @ (if break = None then [] else [NNotVerified]) @ (if n = 0 then [] else [NOpenEntries n])\<rparr>,
         heartbeat now d))"

definition needs_attention :: "startup_state \<Rightarrow> bool" where
  "needs_attention s \<longleftrightarrow> \<not> su_verified s \<or> su_stale s \<noteq> []"

section \<open>The control plane's write path\<close>

text \<open>A reversal event whose payload is a journal entry takes the path that writes both.\<close>

definition is_journal_event :: "val \<Rightarrow> bool" where
  "is_journal_event payload \<longleftrightarrow> has_item ''plan'' payload \<and> has_item ''state'' payload"

text \<open>The engines of a control plane differ in who emits the event.\<close>

datatype event_source = FromReversal | FromElsewhere

definition journal_of :: "event_source \<Rightarrow> val \<Rightarrow> val option" where
  "journal_of src payload = (if src = FromReversal \<and> is_journal_event payload then Some payload else None)"

text \<open>\<open>_append\<close>: prepare, persist, and only then extend the chain in memory.\<close>

definition persist :: "ledger_entry \<Rightarrow> val option \<Rightarrow> db \<Rightarrow> (revoco_error + unit) \<times> db" where
  "persist e journal d = (case journal of Some j \<Rightarrow> record_reversal e j d | None \<Rightarrow> append_ledger e d)"

definition durable_append ::
  "('sk, 'pk) crypto \<Rightarrow> pyfloat \<Rightarrow> event_source \<Rightarrow> string \<Rightarrow> val \<Rightarrow> ledger \<times> db
   \<Rightarrow> (revoco_error + ledger_entry) \<times> ledger \<times> db" where
  "durable_append cr now src kind payload s =
     (case s of (l, d) \<Rightarrow>
       (let e = build_entry cr now kind payload l in
        case persist e (journal_of src payload) d of
          (Inl err, d') \<Rightarrow> (Inl err, l, d')
        | (Inr _, d') \<Rightarrow> (Inr e, append_prebuilt e l, d')))"

text \<open>The events an operation emits, in order; the first write that fails ends it.\<close>

fun durable_log ::
  "('sk, 'pk) crypto \<Rightarrow> (nat \<Rightarrow> pyfloat) \<Rightarrow> (event_source \<times> string \<times> val) list \<Rightarrow> ledger \<times> db
   \<Rightarrow> (revoco_error + unit) \<times> ledger \<times> db" where
  "durable_log cr clock [] s = (Inr (), s)"
| "durable_log cr clock ((src, kind, payload) # evs) s =
     (case durable_append cr (clock (length (fst s))) src kind payload s of
        (Inl e, s') \<Rightarrow> (Inl e, s')
      | (Inr _, s') \<Rightarrow> durable_log cr clock evs s')"

text \<open>A control plane over a store starts with the stored ledger, and with the empty journal of a new
  engine.\<close>

definition restarted_ledger :: "db \<Rightarrow> ledger" where
  "restarted_ledger d = load_entries (load_ledger d)"

section \<open>The register of drills over a store\<close>

definition outcome_of_value :: "string \<Rightarrow> drill_outcome option" where
  "outcome_of_value s = find (\<lambda>x. outcome_value x = s)
     [OPassed, OPartial, OFailed, OUnavailable, OErrored, OForwardFailed, OForwardNoOp, ONotDrillable]"

text \<open>\<open>DrillResult.from_dict\<close>.\<close>

definition drill_of_dict :: "pyrt \<Rightarrow> val \<Rightarrow> revoco_error + drill_result option" where
  "drill_of_dict rt d =
     ap (ap (ap (ap (ap (ap (ap (ap (ap (ap (ap (ap (ap (ap (ap (mk drill_result.make)
        (f_req ''id'' d)) (f_req ''tool'' d)) (f_enum outcome_of_value ''outcome'' d))
        (f_enum posture_of_value ''declared_kind'' d)) (f_float rt ''at'' d))
        (f_finite (py_float rt (get_or (VFloat (Fin 0)) ''duration_ms'' d)))) (f_str ''canary'' d)) (f_opt_str ''error'' d))
        (f_strs ''mismatches'' d)) (f_strs ''restored'' d)) (f_strs ''unrestored'' d)) (f_strs ''collateral'' d))
        (f_str ''unavailable_reason'' d)) (f_str ''residue'' d)) (f_strs ''observed_residue'' d)"

text \<open>What the register takes from a stored result when it starts: not all of its fields, and an error
  of the row is not converted.\<close>

definition raw :: "pyexn + 'a \<Rightarrow> revoco_error + 'a" where
  "raw x = (case x of Inl e \<Rightarrow> Inl (Raised e) | Inr y \<Rightarrow> Inr y)"

definition raw_enum :: "(string \<Rightarrow> 'a option) \<Rightarrow> string \<Rightarrow> val \<Rightarrow> revoco_error + 'a option" where
  "raw_enum f k d = bind_err (raw (req k d)) (\<lambda>v.
     case (case v of VStr s \<Rightarrow> f s | _ \<Rightarrow> None) of None \<Rightarrow> Inl (Raised value_error) | Some x \<Rightarrow> mk x)"

definition raw_str :: "string \<Rightarrow> val \<Rightarrow> revoco_error + string option" where
  "raw_str k d = bind_err (raw (req k d)) (\<lambda>v. Inr (case v of VStr s \<Rightarrow> Some s | _ \<Rightarrow> None))"

definition raw_finite :: "pyexn + pyfloat \<Rightarrow> revoco_error + rat option" where
  "raw_finite x = bind_err (raw x) (\<lambda>y. Inr (case y of Fin t \<Rightarrow> Some t | _ \<Rightarrow> None))"

definition raw_strs :: "string \<Rightarrow> val \<Rightarrow> revoco_error + string list option" where
  "raw_strs k d = (case f_strs k d of Inl e \<Rightarrow> Inl (Raised type_error) | Inr x \<Rightarrow> Inr x)"

definition drill_reload :: "pyrt \<Rightarrow> val \<Rightarrow> revoco_error + drill_result option" where
  "drill_reload rt d =
     ap (ap (ap (ap (ap (ap (ap (ap (ap (ap
        (mk (\<lambda>i t oc k a du ca er mi re. drill_result.make i t oc k a du ca er mi [] [] [] [] re []))
        (raw_str ''id'' d)) (raw_str ''tool'' d)) (raw_enum outcome_of_value ''outcome'' d))
        (raw_enum posture_of_value ''declared_kind'' d)) (raw_finite (bind_err (req ''at'' d) (py_float rt))))
        (let v = get_item ''duration_ms'' d in if truthy v then raw_finite (py_float rt v) else mk 0))
        (f_str ''canary'' d)) (f_opt_str ''error'' d)) (raw_strs ''mismatches'' d)) (f_str ''residue'' d)"

definition new_stored_register :: "pyrt \<Rightarrow> rat \<Rightarrow> db \<Rightarrow> revoco_error + register_state option" where
  "new_stored_register rt stale d =
     ap (mk (\<lambda>rs. record_all rs (new_register stale))) (seq_of (drill_reload rt) (load_drills d))"

definition record_stored :: "drill_result \<Rightarrow> register_state \<times> db \<Rightarrow> register_state \<times> db" where
  "record_stored r s = (ingest r (fst s), record_drill r (snd s))"

section \<open>The horizon an operator sees\<close>

text \<open>\<open>revoco horizon --store\<close>: rebuild the entries and sort them by what can still be done.\<close>

definition stored_entries :: "pyrt \<Rightarrow> db \<Rightarrow> revoco_error + journal_entry list option" where
  "stored_entries rt d = seq_of (entry_of_stored rt) (load_journal d)"

end
