(* ===== verification/ParseProps.thy ===== *)
theory ParseProps
  imports ModelParse ApStarter
begin

text \<open>
  What reading back guarantees: every registry that was loaded, from any document, holds only specs
  that their constructor accepts, and a journal entry that was written, stored with its keys sorted
  and read again is the entry it was, but for what its undo returned.
\<close>

section \<open>A loaded registry is well formed\<close>

lemma make_selectors [simp]:
  "inverse_spec.make a b c d e f g h i j k l m = \<lparr>sp_tool = a, sp_kind = b, sp_inverse_tool = c, sp_arg_map = d,
     sp_static_args = e, sp_steps = f, sp_gates = g, sp_snapshot_fields = h, sp_window_seconds = i, sp_one_shot = j,
     sp_degraded_kind = k, sp_residue = l, sp_notes = m\<rparr>"
  by (simp add: inverse_spec.make_def)

lemma step_of_dict_wf: "step_of_dict d = mk s \<Longrightarrow> wf_step s"
  by (auto simp: step_of_dict_def checked_eq_mk intro: step_post_init_wf)

lemma gate_of_dict_wf: "gate_of_dict d = mk g \<Longrightarrow> wf_gate g"
  by (auto simp: gate_of_dict_def checked_eq_mk wf_gate_def gate_post_init_def)

lemma f_seq_all:
  assumes "f_seq f k d = mk ys" "\<And>x y. f x = mk y \<Longrightarrow> P y"
  shows "list_all P ys"
  using assms seq_of_all [of f _ ys P] by (auto simp: f_seq_def Let_def split: if_splits option.splits)

lemma spec_of_dict_wf:
  assumes "spec_of_dict rt d = mk s"
  shows "wf_spec s"
proof -
  from assms obtain s0 where s0: "spec_post_init s0 = Inr s"
    and steps: "f_seq step_of_dict ''steps'' d = mk (sp_steps s0)"
    and gates: "f_seq gate_of_dict ''gates'' d = mk (sp_gates s0)"
    by (auto simp: spec_of_dict_def checked_eq_mk ap_eq_mk)
  show ?thesis
    by (rule spec_post_init_wf [OF s0 f_seq_all [OF steps step_of_dict_wf] f_seq_all [OF gates gate_of_dict_wf]])
qed

lemma as_policy_error_mk: "as_policy_error x = mk y \<longleftrightarrow> x = mk y"
  by (cases x) (auto simp: as_policy_error_def mk_def)

text \<open>C27: whatever document a registry is loaded from, a load that succeeds gives a registry in which
  every spec is one that its constructor accepts (an undo path exactly for the undoable postures, a
  residue for a compensable one, steps that refer to earlier steps only, a degraded posture that is
  not above the declared one), every spec is filed under its own name, and no tool is listed twice.\<close>

theorem loaded_registry_well_formed:
  assumes "load_registry rt doc = Inr (Some r)"
  shows "registry_inv r"
proof (cases "get_or (VList []) ''specs'' doc")
  case (VList raws)
  with assms obtain ss where ss: "seq_of (\<lambda>raw. as_policy_error (spec_of_dict rt raw)) raws = mk ss"
    "r = register_many ss empty_registry"
    by (auto simp: load_registry_def mk_def [symmetric] ap_eq_mk)
  have "list_all wf_spec ss"
    by (rule seq_of_all [OF ss(1)]) (simp add: as_policy_error_mk spec_of_dict_wf)
  then show ?thesis unfolding ss(2) by (rule registry_inv_register_many [OF registry_inv_empty])
qed (use assms in \<open>simp_all add: load_registry_def\<close>)

section \<open>Writing a registry and reading it again\<close>

lemma dict_of_distinct: "distinct_keys ps \<Longrightarrow> dict_of ps = ps"
proof -
  have "distinct_keys (acc @ ps) \<Longrightarrow> fold (\<lambda>(k, v). AList.update k v) ps acc = acc @ ps" for acc
  proof (induction ps arbitrary: acc)
    case (Cons p ps)
    obtain k v where p: "p = (k, v)" by fastforce
    with Cons.prems have "map_of acc k = None" by (auto simp: distinct_keys_def map_of_eq_None_iff)
    with Cons.IH [of "acc @ [(k, v)]"] Cons.prems show ?case by (simp add: p update_new_append)
  qed simp
  from this [of "[]"] show "distinct_keys ps \<Longrightarrow> dict_of ps = ps" by (simp add: dict_of_def)
qed

lemma sorted_fst: "sort m = m \<Longrightarrow> sorted_items m = m" for m :: "(string \<times> string) list"
proof -
  assume "sort m = m"
  then have "sorted m" by (metis sorted_sort)
  then have "sorted (map fst m)"
    unfolding sorted_map by (rule sorted_wrt_mono_rel [rotated]) (auto simp: less_eq_prod_def)
  then show "sorted_items m = m" by (simp add: sorted_items_def sort_key_id_if_sorted)
qed

text \<open>The mappings of a spec as a document can give them.\<close>

definition keyed_step :: "inverse_step \<Rightarrow> bool" where
  "keyed_step s \<longleftrightarrow> distinct_keys (st_arg_map s) \<and> distinct_keys (st_static_args s)"

definition keyed_spec :: "inverse_spec \<Rightarrow> bool" where
  "keyed_spec s \<longleftrightarrow> distinct_keys (sp_arg_map s) \<and> distinct_keys (sp_static_args s) \<and> list_all keyed_step (sp_steps s)"

lemma all_strs_map [simp]: "all_strs (map VStr xs) = Some xs"
  by (simp add: all_strs_def list_all_iff comp_def)

lemma str_items_map: "str_items (map (\<lambda>(k, s). (k, VStr s)) m) = mk m"
  by (simp add: str_items_def mk_def list_all_iff comp_def split_beta)

lemma distinct_keys_map: "distinct_keys (map (\<lambda>(k, v). (k, f v)) m) = distinct_keys m"
  by (simp add: distinct_keys_def comp_def split_beta)

lemma insort_map: "insort_key fst (k, f v) (map (\<lambda>(k, v). (k, f v)) m) = map (\<lambda>(k, v). (k, f v)) (insort_key fst (k, v) m)" for k :: string
  by (induction m) auto

lemma sorted_items_map: "sorted_items (map (\<lambda>(k, v). (k, f v)) m) = map (\<lambda>(k, v). (k, f v)) (sorted_items m)"
  unfolding sorted_items_def by (induction m) (auto simp: insort_map)

lemmas reading = field_defs get_or_def get_item_def has_item_def req_def guarded_def float_of_int_def

lemma f_arg_map_items:
  assumes "get_item ''arg_map'' d = v_items m" "distinct_keys m" "sort m = m"
  shows "f_arg_map d = mk m"
proof -
  have "f_items ''arg_map'' d = mk (map (\<lambda>(k, s). (k, VStr s)) m)"
    using assms(1,2) by (auto simp: f_items_def Let_def v_items_def dict_of_distinct distinct_keys_map)
  then show ?thesis
    by (simp add: f_arg_map_def mk_def [of "map _ _"] sorted_items_map str_items_map sorted_fst [OF assms(3)])
qed

lemma f_static_items:
  assumes "get_item ''static_args'' d = VDict (dict_of m)" "distinct_keys m" "sorted_items m = m"
  shows "f_static d = mk m"
  using assms by (auto simp: f_static_def f_items_def Let_def dict_of_distinct)

lemma phase_round [simp]: "phase_of_value (phase_value p) = Some p"
  by (cases p) (simp_all add: phase_of_value_def)

lemma gate_round: "wf_gate g \<Longrightarrow> gate_of_dict (gate_to_dict g) = mk g"
  by (cases g) (auto simp: gate_of_dict_def gate_to_dict_def reading f_phase_def f_description_def reversal_gate.make_def
      mk_def [symmetric] wf_gate_def gate_post_init_def)

lemma step_round: "wf_step s \<Longrightarrow> keyed_step s \<Longrightarrow> step_of_dict (step_to_dict s) = mk s"
proof -
  assume wf: "wf_step s" and keyed: "keyed_step s"
  have sorted: "sort (st_arg_map s) = st_arg_map s" "sorted_items (st_static_args s) = st_static_args s"
    using wf by (auto simp: wf_step_def step_post_init_def Let_def split: if_splits) (metis inverse_step.select_convs inverse_step.surjective inverse_step.update_convs)+
  have "f_arg_map (step_to_dict s) = mk (st_arg_map s)" "f_static (step_to_dict s) = mk (st_static_args s)"
    using keyed sorted by (auto intro!: f_arg_map_items f_static_items simp: keyed_step_def step_to_dict_def get_item_def)
  then show "step_of_dict (step_to_dict s) = mk s"
    using wf [unfolded wf_step_def]
    by (cases s) (simp add: step_of_dict_def step_to_dict_def reading mk_def [symmetric] inverse_step.make_def)
qed

lemma f_seq_map:
  assumes "get_item k d = VList (map g xs)" "\<And>x. x \<in> set xs \<Longrightarrow> f (g x) = mk x"
  shows "f_seq f k d = mk xs"
  using assms seq_of_mk [of xs f g "\<lambda>x. x"] by (auto simp: f_seq_def Let_def)

lemma spec_canonical:
  assumes "wf_spec s"
  shows "sort (sp_arg_map s) = sp_arg_map s" "sorted_items (sp_static_args s) = sp_static_args s"
proof -
  have "s = spec_canon s" using assms by (simp add: wf_spec_def spec_post_init_iff)
  then show "sort (sp_arg_map s) = sp_arg_map s" "sorted_items (sp_static_args s) = sp_static_args s"
    by (metis spec_canon_def inverse_spec.select_convs inverse_spec.surjective inverse_spec.update_convs)+
qed

lemma spec_round:
  assumes wf: "wf_spec s" and keyed: "keyed_spec s"
  shows "spec_of_dict rt (spec_to_dict s) = mk s"
proof -
  let ?d = "spec_to_dict s"
  have args: "f_arg_map ?d = mk (sp_arg_map s)" "f_static ?d = mk (sp_static_args s)"
    using keyed spec_canonical [OF wf]
    by (auto intro!: f_arg_map_items f_static_items simp: keyed_spec_def spec_to_dict_def get_item_def)
  have steps: "f_seq step_of_dict ''steps'' ?d = mk (sp_steps s)"
    using wf keyed by (intro f_seq_map) (auto simp: spec_to_dict_def get_item_def wf_spec_def keyed_spec_def list_all_iff intro: step_round)
  have gates: "f_seq gate_of_dict ''gates'' ?d = mk (sp_gates s)"
    using wf by (intro f_seq_map) (auto simp: spec_to_dict_def get_item_def wf_spec_def list_all_iff intro: gate_round)
  have window: "f_opt_float rt ''window_seconds'' ?d = mk (sp_window_seconds s)"
    by (cases "sp_window_seconds s") (simp_all add: spec_to_dict_def reading mk_def [symmetric])
  have strs: "f_strs ''snapshot_fields'' ?d = mk (sp_snapshot_fields s)"
    by (simp add: spec_to_dict_def reading v_strs_def mk_def [symmetric])
  have inverse: "f_opt_str ''inverse_tool'' ?d = mk (sp_inverse_tool s)"
    by (cases "sp_inverse_tool s") (simp_all add: spec_to_dict_def reading mk_def [symmetric])
  have rest: "f_name ''tool'' ?d = mk (sp_tool s)" "f_enum posture_of_value ''kind'' ?d = mk (sp_kind s)"
    "f_bool False ''one_shot'' ?d = mk (sp_one_shot s)" "f_str ''residue'' ?d = mk (sp_residue s)"
    "enum_of posture_of_value (get_or (VStr ''irreversible'') ''degraded_kind'' ?d) = mk (sp_degraded_kind s)"
    "f_str ''notes'' ?d = mk (sp_notes s)"
    by (simp_all add: spec_to_dict_def reading mk_def [symmetric])
  have post: "spec_post_init s = Inr s" using wf by (simp add: wf_spec_def)
  show ?thesis
    unfolding spec_of_dict_def args steps gates window strs inverse rest ap_mk
    by (rule checked_mk) (use post in \<open>cases s; simp\<close>)
qed

lemma register_exacts:
  assumes "distinct_keys (d @ e)" "\<forall>(t, s) \<in> set e. sp_tool s = t \<and> \<not> is_glob t"
  shows "register_many (map snd e) \<lparr>exact = d, globs = gs\<rparr> = \<lparr>exact = d @ e, globs = gs\<rparr>"
  using assms
proof (induction e arbitrary: d)
  case (Cons x e)
  obtain t s where x: "x = (t, s)" by fastforce
  with Cons.prems have "map_of d t = None" by (auto simp: distinct_keys_def map_of_eq_None_iff)
  then have "register s \<lparr>exact = d, globs = gs\<rparr> = \<lparr>exact = d @ [x], globs = gs\<rparr>"
    using Cons.prems(2) by (simp add: x register_def update_new_append)
  with Cons.IH [of "d @ [x]"] Cons.prems show ?case by (simp add: x register_many_def)
qed (simp add: register_many_def)

lemma register_globs:
  assumes "distinct (map sp_tool (hs @ gs))" "\<forall>s \<in> set gs. is_glob (sp_tool s)"
  shows "register_many gs \<lparr>exact = d, globs = hs\<rparr> = \<lparr>exact = d, globs = hs @ gs\<rparr>"
  using assms
proof (induction gs arbitrary: hs)
  case (Cons g gs)
  then have "sp_tool g \<notin> sp_tool ` set hs" by auto
  then have "filter (\<lambda>h. sp_tool h \<noteq> sp_tool g) hs = hs" unfolding filter_id_conv by (metis image_eqI)
  with Cons.prems(2) have "register g \<lparr>exact = d, globs = hs\<rparr> = \<lparr>exact = d, globs = hs @ [g]\<rparr>" by (simp add: register_def)
  with Cons.IH [of "hs @ [g]"] Cons.prems show ?case by (simp add: register_many_def)
qed (simp add: register_many_def)

lemma register_all:
  assumes "registry_inv r"
  shows "register_many (registry_all r) empty_registry = r"
proof -
  have "register_many (map snd (exact r)) empty_registry = \<lparr>exact = exact r, globs = []\<rparr>"
    using register_exacts [of "[]" "exact r" "[]"] assms by (auto simp: registry_inv_def empty_registry_def)
  moreover have "register_many (globs r) \<lparr>exact = exact r, globs = []\<rparr> = r"
    using register_globs [of "[]" "globs r" "exact r"] assms by (auto simp: registry_inv_def)
  ultimately show ?thesis by (simp add: registry_all_def register_many_def)
qed

text \<open>A registry written out is read back unchanged.\<close>

lemma registry_round_trip:
  assumes inv: "registry_inv r" and keyed: "list_all keyed_spec (registry_all r)"
  shows "load_registry rt (registry_to_dict r) = mk r"
proof -
  have "seq_of (\<lambda>raw. as_policy_error (spec_of_dict rt raw)) (map spec_to_dict (registry_all r)) = mk (registry_all r)"
  proof -
    have "as_policy_error (spec_of_dict rt (spec_to_dict s)) = mk s" if "s \<in> set (registry_all r)" for s
      using that inv keyed spec_round [of s rt]
      by (auto simp: as_policy_error_mk registry_inv_def registry_all_def list_all_iff split: prod.splits)
    from seq_of_mk [of "registry_all r" _ spec_to_dict "\<lambda>s. s", OF this] show ?thesis by simp
  qed
  then show ?thesis by (simp add: load_registry_def registry_to_dict_def get_or_def has_item_def get_item_def register_all [OF inv])
qed

lemma ap_specs_keyed: "list_all keyed_spec AP_STARTER_SPECS"
  by code_simp

lemma loaded_registry_well_formed_witness:
  "load_registry demo_rt (registry_to_dict ap_starter_registry) = Inr (Some ap_starter_registry)
   \<and> registry_inv ap_starter_registry"
proof -
  let ?e = "map (\<lambda>s. (sp_tool s, s)) AP_STARTER_SPECS"
  have "register_many (map snd ?e) empty_registry = \<lparr>exact = [] @ ?e, globs = []\<rparr>"
    unfolding empty_registry_def
    by (rule register_exacts) (simp_all add: distinct_keys_def AP_STARTER_SPECS_def spec_canon_def ap_defs is_glob_def)
  then have all: "registry_all ap_starter_registry = AP_STARTER_SPECS"
    by (simp add: ap_starter_registry_def registry_all_def comp_def)
  have "load_registry demo_rt (registry_to_dict ap_starter_registry) = mk ap_starter_registry"
    by (rule registry_round_trip) (simp_all add: all ap_specs_keyed)
  then have "load_registry demo_rt (registry_to_dict ap_starter_registry) = Inr (Some ap_starter_registry)"
    by (simp add: mk_def)
  with loaded_registry_well_formed [OF this] show ?thesis by blast
qed

section \<open>A stored entry is read back\<close>

text \<open>Reading a field does not depend on the order of the keys, and a value that is a mapping comes back
  with its keys in order.\<close>

definition canon_args :: "args \<Rightarrow> args" where
  "canon_args d = map item_key (sort_items d)"

lemma canon_args: "canon (VDict d) = VDict (canon_args d)"
  by (simp only: canon_VDict canon_args_def)

lemma get_item_canon [simp]: "get_item k (canon v) = canon (get_item k v)"
proof (cases v)
  case (VDict d)
  then show ?thesis unfolding VDict canon_VDict
    by (simp add: get_item_def map_of_item_key map_of_sort_items split: option.splits)
qed (simp_all add: get_item_def)

lemma has_item_canon [simp]: "has_item k (canon v) = has_item k v"
proof (cases v)
  case (VDict d)
  then show ?thesis unfolding VDict canon_VDict by (simp add: has_item_def map_of_item_key map_of_sort_items)
qed (simp_all add: has_item_def)

lemma get_or_canon [simp]: "canon dflt = dflt \<Longrightarrow> get_or dflt k (canon v) = canon (get_or dflt k v)"
  by (simp add: get_or_def)

lemma req_canon: "req k (canon v) = (case req k v of Inl e \<Rightarrow> Inl e | Inr x \<Rightarrow> Inr (canon x))"
proof (cases v)
  case (VDict d)
  then show ?thesis unfolding VDict canon_VDict
    by (simp add: req_def map_of_item_key map_of_sort_items split: option.splits)
qed (simp_all add: req_def)

lemma sort_items_Nil [simp]: "sort_items d = [] \<longleftrightarrow> d = []"
  unfolding sort_items_sort by (metis length_0_conv length_sort)

lemma truthy_canon [simp]: "truthy (canon v) = truthy v"
  by (cases v) simp_all

lemma canon_scalar [simp]:
  "canon v = VNone \<longleftrightarrow> v = VNone" "canon v = VStr s \<longleftrightarrow> v = VStr s" "canon v = VFloat x \<longleftrightarrow> v = VFloat x"
  "canon v = VInt n \<longleftrightarrow> v = VInt n" "is_str (canon v) = is_str v"
  by (cases v; simp)+

lemma py_float_canon [simp]: "py_float rt (canon v) = py_float rt v"
  by (cases v) simp_all

lemma enum_of_canon [simp]: "enum_of f (canon v) = enum_of f v"
  by (cases v) (simp_all add: enum_of_def)

lemma str_case_canon [simp]: "(case canon v of VStr s \<Rightarrow> f s | _ \<Rightarrow> g) = (case v of VStr s \<Rightarrow> f s | _ \<Rightarrow> g)"
  by (cases v) simp_all

lemma req_text: "req k d = Inr v \<Longrightarrow> req k (canon d) = Inr (canon v)" "req k d = Inl e \<Longrightarrow> req k (canon d) = Inl e"
  by (simp_all add: req_canon)

lemma f_req_canon [simp]: "f_req k (canon d) = f_req k d"
  by (cases "req k d") (simp_all add: f_req_def guarded_def req_text)

lemma f_name_canon [simp]: "f_name k (canon d) = f_name k d"
  by (cases "req k d") (simp_all add: f_name_def guarded_def req_text)

lemma f_enum_canon [simp]: "f_enum g k (canon d) = f_enum g k d"
  by (cases "req k d") (simp_all add: f_enum_def guarded_def req_text)

lemma f_float_canon [simp]: "f_float rt k (canon d) = f_float rt k d"
  by (cases "req k d") (simp_all add: f_float_def req_text)

lemma f_opt_float_canon [simp]: "f_opt_float rt k (canon d) = f_opt_float rt k d"
  by (simp add: f_opt_float_def)

lemma f_str_canon [simp]: "f_str k (canon d) = f_str k d"
  by (simp add: f_str_def)

lemma f_bool_canon [simp]: "f_bool b k (canon d) = f_bool b k d"
  by (simp add: f_bool_def)

lemma f_opt_str_canon [simp]: "f_opt_str k (canon d) = f_opt_str k d"
  by (cases "get_item k d") (simp_all add: f_opt_str_def)

lemma f_time_canon [simp]: "f_time k (canon d) = f_time k d"
  by (cases "get_item k d") (simp_all add: f_time_def)

lemma f_description_canon [simp]: "f_description (canon d) = f_description d"
  by (simp add: f_description_def Let_def)

lemma f_phase_canon [simp]: "f_phase (canon d) = f_phase d"
  by (simp add: f_phase_def)

lemma gate_of_dict_canon [simp]: "gate_of_dict (canon d) = gate_of_dict d"
  by (simp add: gate_of_dict_def)

lemma f_strs_canon: "get_item k d = v_strs xs \<Longrightarrow> f_strs k (canon d) = mk xs"
  by (simp add: f_strs_def Let_def v_strs_def mk_def comp_def)

lemma f_dict_canon: "get_item k d = VDict m \<Longrightarrow> f_dict rt k (canon d) = mk (canon_args m)"
  by (simp add: f_dict_def Let_def canon_args del: canon.simps)

lemma f_seq_canon:
  assumes "get_item k d = VList (map g xs)" "\<And>x. x \<in> set xs \<Longrightarrow> f (canon (g x)) = mk (h x)"
  shows "f_seq f k (canon d) = mk (map h xs)"
  using assms(1) seq_of_mk [of xs f "\<lambda>x. canon (g x)" h, OF assms(2)]
  by (auto simp: f_seq_def Let_def comp_def)

text \<open>An entry as it is read back: the keys of the recorded values are in order, and the result of its
  undo is not recorded.\<close>

definition stored_step :: "planned_step \<Rightarrow> planned_step" where
  "stored_step s = s\<lparr>ps_args := canon_args (ps_args s)\<rparr>"

definition stored_plan :: "reversal_plan \<Rightarrow> reversal_plan" where
  "stored_plan p = p\<lparr>rp_inverse_args := canon_args (rp_inverse_args p), rp_snapshot := canon_args (rp_snapshot p),
     rp_steps := map stored_step (rp_steps p)\<rparr>"

definition stored_entry :: "journal_entry \<Rightarrow> journal_entry" where
  "stored_entry e = e\<lparr>je_plan := stored_plan (je_plan e), je_reversal_result := VNone\<rparr>"

lemma opt_str_read [simp]: "get_item k d = v_opt_str x \<Longrightarrow> f_opt_str k d = mk x"
  by (cases x) (simp_all add: f_opt_str_def mk_def)

lemma opt_time_read [simp]: "get_item k d = v_opt_time x \<Longrightarrow> f_time k d = mk x"
  by (cases x) (simp_all add: f_time_def mk_def)

lemma opt_float_read [simp]: "get_item k d = v_opt_time x \<Longrightarrow> f_opt_float rt k d = mk x"
  by (cases x) (simp_all add: f_opt_float_def f_finite_def guarded_def mk_def [symmetric])

lemma planned_step_read: "planned_step_of_dict rt (canon (planned_step_to_dict s)) = mk (stored_step s)"
proof -
  let ?d = "planned_step_to_dict s"
  have lists: "f_strs ''unresolved'' (canon ?d) = mk (ps_unresolved s)" "f_strs ''deferred'' (canon ?d) = mk (ps_deferred s)"
    "f_strs ''from_prior_step'' (canon ?d) = mk (ps_from_prior_step s)" "f_dict rt ''args'' (canon ?d) = mk (canon_args (ps_args s))"
    by (rule f_strs_canon f_dict_canon; simp add: planned_step_to_dict_def get_item_def)+
  have rest: "f_req ''name'' ?d = mk (ps_name s)" "f_req ''tool'' ?d = mk (ps_tool s)"
    "f_str ''description'' ?d = mk (ps_description s)" "f_bool True ''critical'' ?d = mk (ps_critical s)"
    by (simp_all add: planned_step_to_dict_def reading mk_def [symmetric])
  show ?thesis
    unfolding planned_step_of_dict_def f_req_canon f_str_canon f_bool_canon lists rest ap_mk
    by (simp add: stored_step_def planned_step.make_def)
qed

lemma plan_read:
  assumes "list_all wf_gate (rp_gates p)"
  shows "plan_of_dict rt (canon (plan_to_dict p)) = mk (stored_plan p)"
proof -
  let ?d = "plan_to_dict p"
  have lists: "f_strs ''unresolved_args'' (canon ?d) = mk (rp_unresolved_args p)"
    "f_strs ''deferred_args'' (canon ?d) = mk (rp_deferred_args p)"
    "f_dict rt ''inverse_args'' (canon ?d) = mk (canon_args (rp_inverse_args p))"
    "f_dict rt ''snapshot'' (canon ?d) = mk (canon_args (rp_snapshot p))"
    by (rule f_strs_canon f_dict_canon; simp add: plan_to_dict_def get_item_def)+
  have steps: "f_seq (planned_step_of_dict rt) ''steps'' (canon ?d) = mk (map stored_step (rp_steps p))"
    by (rule f_seq_canon [where g = planned_step_to_dict]) (simp_all add: plan_to_dict_def get_item_def planned_step_read)
  have "f_seq gate_of_dict ''gates'' (canon ?d) = mk (map (\<lambda>g. g) (rp_gates p))"
    by (rule f_seq_canon [where g = gate_to_dict])
       (use assms in \<open>auto simp: plan_to_dict_def get_item_def list_all_iff intro: gate_round\<close>)
  then have gates: "f_seq gate_of_dict ''gates'' (canon ?d) = mk (rp_gates p)" by simp
  have opts: "f_opt_str ''inverse_tool'' ?d = mk (rp_inverse_tool p)" "f_opt_str ''snapshot_error'' ?d = mk (rp_snapshot_error p)"
    "f_opt_float rt ''window_seconds'' ?d = mk (rp_window_seconds p)"
    by (rule opt_str_read opt_float_read; simp add: plan_to_dict_def get_item_def)+
  have rest: "f_req ''id'' ?d = mk (rp_id p)" "f_req ''tool'' ?d = mk (rp_tool p)"
    "f_enum posture_of_value ''kind'' ?d = mk (rp_kind p)" "f_str ''residue'' ?d = mk (rp_residue p)"
    "f_float rt ''created_at'' ?d = mk (rp_created_at p)" "f_bool False ''one_shot'' ?d = mk (rp_one_shot p)"
    by (simp_all add: plan_to_dict_def reading mk_def [symmetric])
  show ?thesis
    unfolding plan_of_dict_def f_req_canon f_str_canon f_bool_canon f_enum_canon f_float_canon f_opt_float_canon
      f_opt_str_canon lists steps gates opts rest ap_mk
    by (simp add: stored_plan_def reversal_plan.make_def)
qed

lemma history_read: "history_of_dict (canon (history_to_dict h)) = mk h"
proof -
  let ?d = "history_to_dict h"
  have items: "get_item ''from'' ?d = VStr (state_value (tn_from h))" "get_item ''to'' ?d = VStr (state_value (tn_to h))"
    "get_item ''at'' ?d = VFloat (Fin (tn_at h))" "get_item ''note'' ?d = VStr (tn_note h)"
    by (simp_all add: history_to_dict_def get_item_def)
  obtain m where m: "?d = VDict m" "length m = 4" by (auto simp: history_to_dict_def)
  then have c: "canon ?d = VDict (canon_args m)" "length (canon_args m) = 4"
    by (simp_all only: canon_args) (simp add: canon_args_def sort_items_sort)
  then show ?thesis
    unfolding history_of_dict_def get_item_canon items by (simp add: c mk_def)
qed

text \<open>C28: an entry of the undo journal whose gates are well formed, written out, stored as text with
  sorted keys and read back, is the same entry with the same plan, state, deadlines and history; only
  the order of keys inside its recorded values and the result that its undo returned are lost.\<close>

theorem stored_entry_round_trip:
  assumes "list_all wf_gate (rp_gates (je_plan e))"
  shows "entry_of_stored rt (canon (entry_to_dict e)) = Inr (Some (stored_entry e))"
proof -
  let ?d = "entry_to_dict e"
  have "req ''plan'' ?d = Inr (plan_to_dict (je_plan e))" by (simp add: entry_to_dict_def req_def)
  from req_text(1) [OF this] have plan: "(case req ''plan'' (canon ?d) of Inl x \<Rightarrow> Inl ValidationError
      | Inr p \<Rightarrow> plan_of_dict rt p) = mk (stored_plan (je_plan e))"
    by (simp add: plan_read [OF assms])
  have history: "f_seq history_of_dict ''history'' (canon ?d) = mk (map (\<lambda>h. h) (je_history e))"
    by (rule f_seq_canon [where g = history_to_dict]) (simp_all add: entry_to_dict_def get_item_def history_read)
  have opts: "f_opt_str ''action_id'' ?d = mk (je_action_id e)" "f_opt_str ''delegation_id'' ?d = mk (je_delegation_id e)"
    "f_opt_str ''actor_id'' ?d = mk (je_actor_id e)" "f_opt_str ''error'' ?d = mk (je_error e)"
    "f_time ''committed_at'' ?d = mk (je_committed_at e)" "f_time ''resolved_at'' ?d = mk (je_resolved_at e)"
    by (rule opt_str_read opt_time_read; simp add: entry_to_dict_def get_item_def)+
  have rest: "f_req ''id'' ?d = mk (je_id e)" "f_enum state_of_value ''state'' ?d = mk (je_state e)"
    "f_str ''session_id'' ?d = mk (je_session_id e)" "f_str ''note'' ?d = mk (je_note e)"
    by (simp_all add: entry_to_dict_def reading mk_def [symmetric])
  show ?thesis
    unfolding entry_of_stored_def Let_def f_req_canon f_str_canon f_enum_canon f_opt_str_canon f_time_canon
      plan history opts rest ap_mk
    by (cases e) (simp add: stored_entry_def journal_entry.make_def mk_def)
qed

definition kept_entry :: journal_entry where
  "kept_entry = \<lparr>je_id = ''j1'', je_plan = \<lparr>rp_id = ''p1'', rp_tool = ''crm.update'', rp_kind = REVERSIBLE,
       rp_inverse_tool = Some ''crm.update'', rp_inverse_args = [(''to'', VStr ''x''), (''id'', VInt 7)], rp_unresolved_args = [],
       rp_snapshot = [(''to'', VStr ''x'')], rp_window_seconds = Some 3600, rp_residue = [], rp_created_at = 1,
       rp_snapshot_error = None, rp_deferred_args = [],
       rp_steps = [\<lparr>ps_name = ''undo'', ps_tool = ''crm.update'', ps_args = [(''to'', VStr ''x''), (''id'', VInt 7)],
         ps_unresolved = [], ps_deferred = [], ps_from_prior_step = [], ps_description = [], ps_critical = True\<rparr>],
       rp_gates = [\<lparr>g_name = ''open'', g_description = ''period open'', g_remediation = [], g_check_at = PhUndo\<rparr>], rp_one_shot = False\<rparr>,
     je_state = COMMITTED, je_action_id = Some ''a1'', je_delegation_id = Some ''d1'', je_session_id = ''s'', je_actor_id = None,
     je_committed_at = Some 2, je_resolved_at = None, je_reversal_result = VStr ''gone'', je_error = None, je_note = [],
     je_history = [\<lparr>tn_from = PLANNED, tn_to = COMMITTED, tn_at = 2, tn_note = []\<rparr>]\<rparr>"

lemma stored_entry_round_trip_witness:
  "entry_of_stored demo_rt (canon (entry_to_dict kept_entry)) = Inr (Some (stored_entry kept_entry))
   \<and> je_reversal_result (stored_entry kept_entry) = VNone \<and> je_state (stored_entry kept_entry) = COMMITTED"
proof -
  have "list_all wf_gate (rp_gates (je_plan kept_entry))"
    by (simp add: kept_entry_def wf_gate_def gate_post_init_def)
  from stored_entry_round_trip [OF this, of demo_rt] show ?thesis by (simp add: stored_entry_def kept_entry_def)
qed

end
