(* ===== verification/StoreProps.thy ===== *)
theory StoreProps
  imports Store ControlFacts ParseProps "HOL-Library.Sublist"
begin

text \<open>
  What durable storage guarantees: wiring a store changes nothing the control plane computes, no entry
  whose append returned is lost in a crash, every row of the journal table is what the ledger entry with
  its number says, and the register of drills decides the same after a restart.
\<close>

section \<open>Stored rows verify like the entries they store\<close>

lemma canon_idem [simp]: "canon (canon v) = canon v"
  using json_injective [OF demo_repr_ok, of "canon v" v] json_canon by blast

lemma stored_row_simps [simp]:
  "le_seq (stored_row e) = le_seq e" "le_kind (stored_row e) = le_kind e"
  "le_recorded_at (stored_row e) = le_recorded_at e" "le_prev_hash (stored_row e) = le_prev_hash e"
  "le_entry_hash (stored_row e) = le_entry_hash e" "le_payload (stored_row e) = canon (le_payload e)"
  by (simp_all add: stored_row_def)

lemma stored_twice: "stored_row (stored_row e) = stored_row e"
  by (simp add: stored_row_def)

lemma hash_stored_row [simp]: "compute_hash cr (stored_row e) = compute_hash cr e"
proof -
  have "canon (VDict (hash_fields (stored_row e))) = canon (VDict (hash_fields e))"
    by (simp add: hash_fields_def canon_idem)
  then have "le_content (stored_row e) = le_content e" by (simp add: le_content_def)
  then show ?thesis by (simp add: compute_hash_content)
qed

lemma verify_from_stored: "verify_from cr i p (map stored_row es) = verify_from cr i p es"
  by (induction es arbitrary: i p) simp_all

lemma verify_stored: "verify_integrity cr (map stored_row es) = verify_integrity cr es"
  by (simp add: verify_integrity_def verify_from_stored)

lemma head_stored: "head_hash (map stored_row es) = head_hash es"
  by (simp add: head_hash_def last_map)

lemma first_break_verify: "first_break cr i p es = None \<longleftrightarrow> verify_from cr i p es = Inr ()"
  by (induction es arbitrary: i p) auto

section \<open>One append\<close>

lemma insert_ledger_Inr:
  "insert_ledger e d = Inr d' \<longleftrightarrow> d' = d\<lparr>db_ledger := db_ledger d @ [stored_row e]\<rparr>
     \<and> - (2 ^ 63) \<le> le_seq e \<and> le_seq e < 2 ^ 63 \<and> le_recorded_at e \<noteq> NaN
     \<and> le_seq e \<notin> le_seq ` set (db_ledger d) \<and> le_entry_hash e \<notin> le_entry_hash ` set (db_ledger d)"
  by (auto simp: insert_ledger_def)

lemma upsert_journal_Inr:
  assumes "upsert_journal data seq d = Inr d'"
  shows "db_ledger d' = db_ledger d \<and> (\<exists>r. db_journal d' = AList.update (get_item ''id'' data) r (db_journal d)
     \<and> jr_ledger_seq r = seq \<and> jr_data r = canon data \<and> jr_state r = get_item ''state'' data)"
  using assms by (auto simp: upsert_journal_def journal_row_of_def Let_def split: option.splits)

text \<open>A write that fails leaves the database as it was; one that succeeds adds the row of its entry, and
  at most one journal row, which carries that entry's number and payload.\<close>

lemma persist_error: "persist e j d = (Inl err, d') \<Longrightarrow> d' = d"
  by (auto simp: persist_def append_ledger_def record_reversal_def tx_def store_error_def
      split: option.splits sum.splits prod.splits)

lemma persist_ok:
  assumes "persist e j d = (Inr u, d')"
  obtains d1 where "insert_ledger e d = Inr d1" "d' = d1"
  | data d1 where "j = Some data" "insert_ledger e d = Inr d1" "upsert_journal data (Some (le_seq e)) d1 = Inr d'"
  using assms
  by (auto simp: persist_def append_ledger_def record_reversal_def tx_def store_error_def
      split: option.splits sum.splits prod.splits if_splits)

lemma persist_ledger: "persist e j d = (Inr u, d') \<Longrightarrow> db_ledger d' = db_ledger d @ [stored_row e]"
  by (erule persist_ok) (auto simp: insert_ledger_Inr dest!: upsert_journal_Inr)

lemma durable_appendE:
  assumes "durable_append cr now src kind payload (l, d) = (r, l', d')"
  obtains err where "r = Inl err" "l' = l" "d' = d"
  | e u where "r = Inr e" "e = build_entry cr now kind payload l" "l' = l @ [e]"
      "persist e (journal_of src payload) d = (Inr u, d')"
  using assms by (auto simp: durable_append_def Let_def append_prebuilt_def dest: persist_error split: prod.splits sum.splits)

lemma journal_of_payload: "journal_of src payload = Some data \<Longrightarrow> data = payload"
  by (auto simp: journal_of_def split: if_splits)

section \<open>Runs with crashes\<close>

text \<open>
  A running process appends, and any of its appends may be the one it dies in, before or after the
  transaction is committed; a new process then starts on the database. The third component keeps the
  entries whose append returned. Maintenance does not touch the two tables, and a statement typed into
  a shell can change a ledger row only through the triggers.
\<close>

type_synonym store_state = "ledger option \<times> db \<times> ledger_entry list"

inductive store_step :: "('sk, 'pk) crypto \<Rightarrow> store_state \<Rightarrow> store_state \<Rightarrow> bool" for cr where
  acknowledged: "durable_append cr now src kind payload (l, d) = (Inr e, l', d') \<Longrightarrow>
    store_step cr (Some l, d, a) (Some l', d', a @ [e])"
| refused: "durable_append cr now src kind payload (l, d) = (Inl err, l', d') \<Longrightarrow>
    store_step cr (Some l, d, a) (Some l', d', a)"
| crash_before: "store_step cr (Some l, d, a) (None, d, a)"
| crash_after: "durable_append cr now src kind payload (l, d) = (r, l', d') \<Longrightarrow> store_step cr (Some l, d, a) (None, d', a)"
| restart: "store_step cr (None, d, a) (Some (restarted_ledger d), open_db d, a)"
| start_report: "startup_report cr stale now d = (s, d') \<Longrightarrow> store_step cr (m, d, a) (m, d', a)"
| drill: "store_step cr (m, d, a) (m, record_drill r d, a)"
| close: "store_step cr (m, d, a) (m, close_db now d, a)"
| edit: "update_ledger_row n f d = Inr d' \<Longrightarrow> store_step cr (m, d, a) (m, d', a)"
| erase: "delete_ledger_row n d = Inr d' \<Longrightarrow> store_step cr (m, d, a) (m, d', a)"

inductive store_run :: "('sk, 'pk) crypto \<Rightarrow> store_state \<Rightarrow> bool" for cr where
  init: "store_run cr (Some [], empty_db, [])"
| step: "store_run cr s \<Longrightarrow> store_step cr s t \<Longrightarrow> store_run cr t"

definition in_sync :: "ledger \<Rightarrow> db \<Rightarrow> bool" where
  "in_sync l d \<longleftrightarrow> map stored_row l = db_ledger d"

definition rows_agree :: "db \<Rightarrow> bool" where
  "rows_agree d \<longleftrightarrow> (\<forall>i r. map_of (db_journal d) i = Some r \<longrightarrow>
     (\<exists>e \<in> set (db_ledger d). jr_ledger_seq r = Some (le_seq e) \<and> le_payload e = jr_data r
        \<and> get_item ''id'' (jr_data r) = canon i \<and> get_item ''state'' (jr_data r) = canon (jr_state r)))"

definition store_inv :: "('sk, 'pk) crypto \<Rightarrow> store_state \<Rightarrow> bool" where
  "store_inv cr s \<longleftrightarrow> (case s of (m, d, a) \<Rightarrow> verify_integrity cr (db_ledger d) = Inr () \<and> rows_agree d
     \<and> map stored_row (db_ledger d) = db_ledger d \<and> subseq (map stored_row a) (db_ledger d) \<and> (\<forall>l. m = Some l \<longrightarrow> in_sync l d))"

lemma rows_agree_frame: "rows_agree d \<Longrightarrow> db_journal d' = db_journal d \<Longrightarrow> set (db_ledger d) \<subseteq> set (db_ledger d') \<Longrightarrow> rows_agree d'"
  unfolding rows_agree_def by simp blast

lemma rows_agree_persist:
  assumes inv: "rows_agree d" and e: "le_payload e = payload" and ok: "persist e (journal_of src payload) d = (Inr u, d')"
  shows "rows_agree d'"
  using ok
proof (cases rule: persist_ok)
  case (1 d1)
  then show ?thesis using rows_agree_frame [OF inv, of d'] by (auto simp: insert_ledger_Inr)
next
  case (2 data d1)
  from journal_of_payload [OF 2(1)] have data: "data = payload" .
  from 2(2) have d1: "db_journal d1 = db_journal d" "db_ledger d1 = db_ledger d @ [stored_row e]"
    by (auto simp: insert_ledger_Inr)
  from upsert_journal_Inr [OF 2(3)] obtain r where r: "db_ledger d' = db_ledger d1"
    "db_journal d' = AList.update (get_item ''id'' data) r (db_journal d1)"
    "jr_ledger_seq r = Some (le_seq e)" "jr_data r = canon data" "jr_state r = get_item ''state'' data" by blast
  show ?thesis unfolding rows_agree_def
  proof (intro allI impI)
    fix i row assume row: "map_of (db_journal d') i = Some row"
    show "\<exists>x \<in> set (db_ledger d'). jr_ledger_seq row = Some (le_seq x) \<and> le_payload x = jr_data row
        \<and> get_item ''id'' (jr_data row) = canon i \<and> get_item ''state'' (jr_data row) = canon (jr_state row)"
    proof (cases "i = get_item ''id'' data")
      case True
      with row r d1 e data show ?thesis by (intro bexI [of _ "stored_row e"]) (auto simp: map_of_update)
    next
      case False
      with row r d1 have "map_of (db_journal d) i = Some row" by (simp add: map_of_update)
      with inv show ?thesis unfolding rows_agree_def r(1) d1(2) set_append by blast
    qed
  qed
qed

lemma build_entry_stored: "build_entry cr now k p (map stored_row l) = build_entry cr now k p l"
  by (simp add: build_entry_def head_stored)

lemma verify_persist:
  assumes "verify_integrity cr (db_ledger d) = Inr ()" "in_sync l d"
    and ok: "persist (build_entry cr now k p l) j d = (Inr u, d')"
  shows "verify_integrity cr (db_ledger d') = Inr () \<and> in_sync (l @ [build_entry cr now k p l]) d'"
proof -
  let ?e = "build_entry cr now k p l"
  have d': "db_ledger d' = map stored_row (l @ [?e])" using persist_ledger [OF ok] assms(2) by (simp add: in_sync_def)
  have "verify_integrity cr l = Inr ()" using assms(1,2) verify_stored [of cr l] by (simp add: in_sync_def)
  from verify_append [OF this, of now k p] have "verify_integrity cr (l @ [?e]) = Inr ()"
    by (simp add: append_entry_def Let_def)
  then show ?thesis by (simp only: d' verify_stored in_sync_def)
qed

lemma same_tables_inv:
  assumes "store_inv cr (m, d, a)" "db_ledger d' = db_ledger d" "db_journal d' = db_journal d"
  shows "store_inv cr (m, d', a)"
  using assms rows_agree_frame [of d d'] by (auto simp: store_inv_def in_sync_def)

lemma persist_inv:
  assumes inv: "store_inv cr (Some l, d, a)"
    and ok: "persist (build_entry cr now k p l) (journal_of src p) d = (Inr u, d')"
  shows "store_inv cr (Some (l @ [build_entry cr now k p l]), d', a @ [build_entry cr now k p l])"
proof -
  let ?e = "build_entry cr now k p l"
  have v: "verify_integrity cr (db_ledger d') = Inr () \<and> in_sync (l @ [?e]) d'"
    by (rule verify_persist [OF _ _ ok]) (use inv in \<open>simp_all add: store_inv_def\<close>)
  moreover have "rows_agree d'" by (rule rows_agree_persist [OF _ _ ok]) (use inv in \<open>simp_all add: store_inv_def\<close>)
  moreover have "subseq (map stored_row (a @ [?e])) (db_ledger d')"
    using inv by (simp add: store_inv_def persist_ledger [OF ok] list_emb_append_mono)
  moreover have "map stored_row (db_ledger d') = db_ledger d'"
    using inv by (simp add: store_inv_def persist_ledger [OF ok] stored_twice)
  ultimately show ?thesis by (simp add: store_inv_def)
qed

lemma forget_inv: "store_inv cr (Some l, d, a) \<Longrightarrow> store_inv cr (None, d, a)"
  by (simp add: store_inv_def)

lemma drop_last_ack_inv: "store_inv cr (m, d, a @ [e]) \<Longrightarrow> store_inv cr (m, d, a)"
  unfolding store_inv_def map_append by (auto elim: subseq_order.trans [OF prefix_imp_subseq [OF prefixI], OF HOL.refl])

lemma restarted_verified:
  assumes "verify_integrity cr (db_ledger d) = Inr ()"
  shows "restarted_ledger d = db_ledger d"
proof -
  have "sorted (map le_seq (db_ledger d))"
    using assms numbered_sorted [of 0 "db_ledger d"] by (simp add: verify_integrity_def verify_from_iff)
  then show ?thesis by (simp add: restarted_ledger_def load_entries_def load_ledger_def sort_key_id_if_sorted)
qed


lemma store_inv_step: "store_step cr s t \<Longrightarrow> store_inv cr s \<Longrightarrow> store_inv cr t"
proof (induction rule: store_step.induct)
  case (acknowledged now src kind payload l d e l' d' a)
  from acknowledged(1) show ?case
    by (cases rule: durable_appendE) (use persist_inv [OF acknowledged(2)] in auto)
next
  case (refused now src kind payload l d err l' d' a)
  from refused(1) show ?case by (cases rule: durable_appendE) (use refused(2) in auto)
next
  case (crash_before l d a)
  then show ?case by (rule forget_inv)
next
  case (crash_after now src kind payload l d r l' d' a)
  from crash_after(1) show ?case
  proof (cases rule: durable_appendE)
    case (1 err)
    with crash_after(2) show ?thesis by (simp add: forget_inv)
  next
    case (2 e u)
    from persist_inv [OF crash_after(2) 2(4) [unfolded 2(2)]] show ?thesis
      by (rule drop_last_ack_inv [OF forget_inv])
  qed
next
  case (restart d a)
  then have "store_inv cr (Some (restarted_ledger d), d, a)"
    using restarted_verified [of cr d] by (simp add: store_inv_def in_sync_def)
  then show ?case by (rule same_tables_inv) (simp_all add: open_db_def)
next
  case (start_report stale now d s d' m a)
  have "db_ledger d' = db_ledger d" "db_journal d' = db_journal d"
    using start_report(1) by (auto simp: startup_report_def heartbeat_def Let_def)
  with start_report(2) show ?case by (rule same_tables_inv)
next
  case (drill m d a r)
  then show ?case by (rule same_tables_inv) (simp_all add: record_drill_def)
next
  case (close m d a now)
  then show ?case by (rule same_tables_inv) (simp_all add: close_db_def)
qed (auto simp: update_ledger_row_def delete_ledger_row_def)

lemma store_inv_run: "store_run cr s \<Longrightarrow> store_inv cr s"
proof (induction rule: store_run.induct)
  case init
  show ?case by (simp add: store_inv_def empty_db_def verify_integrity_def rows_agree_def in_sync_def)
next
  case (step s t)
  then show ?case using store_inv_step by blast
qed

text \<open>C24: whatever a process appends, wherever it is killed and however often it is restarted, the ledger
  that a new process loads verifies, and it holds every entry whose append had returned, in order; a
  crash never loses evidence that somebody was told exists.\<close>

theorem acknowledged_entries_survive_crashes:
  assumes "store_run cr (m, d, acked)"
  shows "verify_integrity cr (restarted_ledger d) = Inr () \<and> subseq (map stored_row acked) (restarted_ledger d)"
  using store_inv_run [OF assms] restarted_verified [of cr d] by (simp add: store_inv_def)

text \<open>C25: at every moment, also right after a crash, each row of the journal table is what the ledger says:
  it names a ledger entry that a restart loads, that entry's payload is the row's data, and the row's
  identifier and state are those of the data; so the horizon and the evidence cannot disagree.\<close>

theorem journal_rows_match_ledger:
  assumes "store_run cr (m, d, acked)" "map_of (db_journal d) i = Some r"
  shows "\<exists>e \<in> set (restarted_ledger d). jr_ledger_seq r = Some (le_seq e) \<and> le_payload e = jr_data r
     \<and> get_item ''id'' (jr_data r) = canon i \<and> get_item ''state'' (jr_data r) = canon (jr_state r)"
  using store_inv_run [OF assms(1)] assms(2) restarted_verified [of cr d] by (simp add: store_inv_def rows_agree_def)

section \<open>A store changes nothing\<close>

lemma upsert_entry_ok: "\<exists>d'. upsert_journal (entry_to_dict e) seq d = Inr d'"
proof -
  have opt: "bindable (v_opt_str x)" for x by (cases x) simp_all
  have optt: "bindable (v_opt_time x)" for x by (cases x) simp_all
  have plain: "bindable (text_or_empty (VStr x))" for x by (simp add: text_or_empty_def)
  show ?thesis
    by (simp add: upsert_journal_def journal_row_of_def row_params_def Let_def entry_to_dict_def get_item_def
        plan_to_dict_def raise_if_def opt optt plain)
qed

definition journal_events_ok :: "(event_source \<times> string \<times> val) list \<Rightarrow> bool" where
  "journal_events_ok evs \<longleftrightarrow> (\<forall>(src, k, p) \<in> set evs. src = FromReversal \<longrightarrow> is_journal_event p \<longrightarrow> (\<exists>e. p = entry_to_dict e))"

lemma persist_succeeds:
  assumes "insert_ledger e d = Inr d1" "\<And>data. j = Some data \<Longrightarrow> \<exists>x. data = entry_to_dict x"
  shows "\<exists>d'. persist e j d = (Inr (), d')"
proof (cases j)
  case None
  then show ?thesis by (simp add: persist_def append_ledger_def tx_def store_error_def assms(1))
next
  case (Some data)
  with assms(2) obtain x where x: "data = entry_to_dict x" by blast
  obtain d2 where "upsert_journal data (Some (le_seq e)) d1 = Inr d2" using upsert_entry_ok x by blast
  then show ?thesis by (simp add: persist_def Some record_reversal_def tx_def store_error_def assms(1))
qed

lemma numbered_bound: "numbered i es \<Longrightarrow> e \<in> set es \<Longrightarrow> le_seq e < i + int (length es)"
proof (induction es arbitrary: i)
  case (Cons x es)
  from Cons.IH [of "i + 1"] Cons.prems show ?case by auto
qed simp

lemma fresh_entry:
  assumes ok: "repr_ok (float_repr cr)" and v: "verify_integrity cr (l @ [e]) = Inr ()"
    and inj: "inj_on (sha256 cr) (hash_input cr ` set (l @ [e]))"
  shows "le_seq e \<notin> le_seq ` set l" "le_entry_hash e \<notin> le_entry_hash ` set l"
proof -
  have n: "numbered 0 l" "le_seq e = int (length l)"
    and linked: "chain.linked (content_digest cr) GENESIS_PREV_HASH (l @ [e])"
    using v by (auto simp: verify_integrity_def verify_from_iff numbered_snoc)
  then show seq: "le_seq e \<notin> le_seq ` set l" using numbered_bound [of 0 l] by fastforce
  have stored: "chain.linked h p es \<Longrightarrow> x \<in> set es \<Longrightarrow> le_entry_hash x = h (le_content x)" for h p es x
    by (induction es arbitrary: p) auto
  show "le_entry_hash e \<notin> le_entry_hash ` set l"
  proof
    assume "le_entry_hash e \<in> le_entry_hash ` set l"
    then obtain x where x: "x \<in> set l" "le_entry_hash e = le_entry_hash x" by blast
    then have "compute_hash cr e = compute_hash cr x"
      using stored [OF linked, of e] stored [OF linked, of x] by (simp add: compute_hash_content)
    then have "hash_input cr e = hash_input cr x"
      using inj x(1) unfolding compute_hash_def by (auto dest!: inj_onD)
    then have "le_content e = le_content x"
      unfolding hash_input_def canonical_bytes_def json_injective [OF ok] le_content_def .
    then have "le_seq e = le_seq x" by (rule le_content_fields)
    with seq x(1) show False by blast
  qed
qed

lemma durable_append_ok:
  fixes cr :: "('sk, 'pk) crypto"
  defines "l' \<equiv> \<lambda>l now k p. l @ [build_entry cr now k p l]"
  assumes "repr_ok (float_repr cr)" "verify_integrity cr l = Inr ()" "in_sync l d" "now \<noteq> NaN"
    and short: "length l < 2 ^ 63"
    and inj: "inj_on (sha256 cr) (hash_input cr ` set (l' l now k p))"
    and data: "src = FromReversal \<Longrightarrow> is_journal_event p \<Longrightarrow> \<exists>x. p = entry_to_dict x"
  shows "\<exists>d'. durable_append cr now src k p (l, d) = (Inr (build_entry cr now k p l), l' l now k p, d')
     \<and> in_sync (l' l now k p) d' \<and> verify_integrity cr (l' l now k p) = Inr ()"
proof -
  let ?e = "build_entry cr now k p l"
  have v: "verify_integrity cr (l @ [?e]) = Inr ()"
    using verify_append [OF assms(3), of now k p] by (simp add: append_entry_def Let_def)
  note fresh = fresh_entry [OF assms(2) v inj [unfolded l'_def]]
  have "le_recorded_at ?e = now" by (simp add: build_entry_def Let_def)
  moreover have "le_seq ` set (db_ledger d) = le_seq ` set l" "le_entry_hash ` set (db_ledger d) = le_entry_hash ` set l"
    using assms(4) [unfolded in_sync_def, symmetric] by (simp_all add: image_image)
  moreover have "int (length l) < 2 ^ 63" using short by simp
  ultimately have "insert_ledger ?e d = Inr (d\<lparr>db_ledger := db_ledger d @ [stored_row ?e]\<rparr>)"
    using fresh assms(5) by (simp add: insert_ledger_Inr)
  moreover have "\<exists>x. j = entry_to_dict x" if "journal_of src p = Some j" for j
    using that data by (auto simp: journal_of_def split: if_splits)
  ultimately obtain d' where d': "persist ?e (journal_of src p) d = (Inr (), d')"
    using persist_succeeds [of ?e d _ "journal_of src p"] by blast
  then have "in_sync (l @ [?e]) d'" using persist_ledger [OF d'] assms(4) by (simp add: in_sync_def)
  with d' v show ?thesis by (simp add: durable_append_def Let_def append_prebuilt_def l'_def)
qed

lemma log_events_ledger_prefix: "\<exists>new. cp_ledger (log_events en evs cp) = cp_ledger cp @ new"
  by (rule grows_prefix [OF grows_log_events])

text \<open>C26: a control plane with a store keeps exactly the ledger it would keep without one. From a verified
  ledger that the database holds, every sequence of events is written without an error, the chain in
  memory is the one that plain logging gives, and the database holds it, entry by entry; provided the
  clock reads a number, the digests of the entries do not collide, and what the undo engine reports as
  a journal entry is one.\<close>

theorem store_is_transparent:
  assumes "repr_ok (float_repr (en_crypto en))"
    and "verify_integrity (en_crypto en) (cp_ledger cp) = Inr ()" and "in_sync (cp_ledger cp) d"
    and "\<And>n. en_clock en n \<noteq> NaN" and "length (cp_ledger cp) + length evs < 2 ^ 63"
    and "journal_events_ok evs"
    and "inj_on (sha256 (en_crypto en)) (hash_input (en_crypto en) ` set (cp_ledger (log_events en (map snd evs) cp)))"
  shows "\<exists>d'. durable_log (en_crypto en) (en_clock en) evs (cp_ledger cp, d)
       = (Inr (), cp_ledger (log_events en (map snd evs) cp), d')
     \<and> in_sync (cp_ledger (log_events en (map snd evs) cp)) d'"
  using assms(2,3,5,6,7)
proof (induction evs arbitrary: cp d)
  case (Cons ev evs)
  obtain src k p where ev: "ev = (src, k, p)" by (cases ev)
  let ?cr = "en_crypto en" and ?now = "en_clock en (length (cp_ledger cp))"
  let ?cp = "snd (append_log en k p cp)" and ?l = "cp_ledger cp @ [build_entry ?cr ?now k p (cp_ledger cp)]"
  have l: "cp_ledger ?cp = ?l" by (simp add: append_log_eq)
  have log: "log_events en (map snd (ev # evs)) cp = log_events en (map snd evs) ?cp"
    by (simp add: ev log_events_Cons)
  obtain new where "cp_ledger (log_events en (map snd evs) ?cp) = ?l @ new"
    using log_events_ledger_prefix [of en "map snd evs" ?cp] l by auto
  then have "inj_on (sha256 ?cr) (hash_input ?cr ` set ?l)"
    using Cons.prems(5) unfolding log by (auto intro: inj_on_subset)
  moreover have "length (cp_ledger cp) < 2 ^ 63" using Cons.prems(3) by simp
  moreover have "\<exists>x. p = entry_to_dict x" if "src = FromReversal" "is_journal_event p"
    using that Cons.prems(4) by (auto simp: ev journal_events_ok_def)
  ultimately obtain d' where d': "durable_append ?cr ?now src k p (cp_ledger cp, d) = (Inr (build_entry ?cr ?now k p (cp_ledger cp)), ?l, d')"
      "in_sync ?l d'" "verify_integrity ?cr ?l = Inr ()"
    using durable_append_ok [where k = k and p = p and src = src, OF assms(1) Cons.prems(1,2) assms(4)] by blast
  have "\<exists>d''. durable_log ?cr (en_clock en) evs (cp_ledger ?cp, d') = (Inr (), cp_ledger (log_events en (map snd evs) ?cp), d'')
     \<and> in_sync (cp_ledger (log_events en (map snd evs) ?cp)) d''"
    by (rule Cons.IH) (use Cons.prems(3-5) d' log in \<open>simp_all add: l journal_events_ok_def\<close>)
  then show ?case unfolding log using d'(1) by (simp add: ev l)
qed simp

section \<open>The register of drills after a restart\<close>

lemma outcome_round [simp]: "outcome_of_value (outcome_value x) = Some x"
  by (cases x) (simp_all add: outcome_of_value_def)

definition rounded :: "drill_result \<Rightarrow> drill_result" where
  "rounded r = r\<lparr>dr_duration_ms := py_round (dr_duration_ms r) 2\<rparr>"

definition reloaded :: "drill_result \<Rightarrow> drill_result" where
  "reloaded r = (rounded r)\<lparr>dr_restored := [], dr_unrestored := [], dr_collateral := [], dr_unavailable_reason := [],
     dr_observed := []\<rparr>"

lemma drill_lists:
  "f_strs ''mismatches'' (canon (drill_result_to_dict r)) = mk (dr_mismatches r)"
  "f_strs ''restored'' (canon (drill_result_to_dict r)) = mk (dr_restored r)"
  "f_strs ''unrestored'' (canon (drill_result_to_dict r)) = mk (dr_unrestored r)"
  "f_strs ''collateral'' (canon (drill_result_to_dict r)) = mk (dr_collateral r)"
  "f_strs ''observed_residue'' (canon (drill_result_to_dict r)) = mk (dr_observed r)"
  by (rule f_strs_canon; simp add: drill_result_to_dict_def get_item_def)+

lemma raw_mismatches: "raw_strs ''mismatches'' (canon (drill_result_to_dict r)) = mk (dr_mismatches r)"
  unfolding raw_strs_def drill_lists by (simp add: mk_def)

lemma drill_items:
  "get_item ''duration_ms'' (drill_result_to_dict r) = VFloat (Fin (py_round (dr_duration_ms r) 2))"
  "has_item ''duration_ms'' (drill_result_to_dict r)"
  "f_str ''canary'' (drill_result_to_dict r) = mk (dr_canary r)"
  "f_str ''unavailable_reason'' (drill_result_to_dict r) = mk (dr_unavailable_reason r)"
  "f_str ''residue'' (drill_result_to_dict r) = mk (dr_residue r)"
  "f_opt_str ''error'' (drill_result_to_dict r) = mk (dr_error r)"
  by (cases "dr_error r"; simp add: drill_result_to_dict_def reading mk_def [symmetric])+

lemma drill_reqs:
  "req ''id'' (canon (drill_result_to_dict r)) = Inr (VStr (dr_id r))"
  "req ''tool'' (canon (drill_result_to_dict r)) = Inr (VStr (dr_tool r))"
  "req ''outcome'' (canon (drill_result_to_dict r)) = Inr (VStr (outcome_value (dr_outcome r)))"
  "req ''declared_kind'' (canon (drill_result_to_dict r)) = Inr (VStr (posture_value (dr_kind r)))"
  "req ''at'' (canon (drill_result_to_dict r)) = Inr (VFloat (Fin (dr_at r)))"
  by (simp_all add: req_canon) (simp_all add: drill_result_to_dict_def req_def)

text \<open>\<open>DrillResult.from_dict\<close> reads everything back; the register's own reload does not.\<close>

lemma drill_round_trip: "drill_of_dict rt (canon (drill_result_to_dict r)) = mk (rounded r)"
  by (cases r) (simp add: drill_of_dict_def f_req_def f_enum_def f_float_def f_finite_def guarded_def enum_of_def drill_lists
      drill_items drill_reqs get_or_def rounded_def drill_result.make_def mk_def [symmetric])

lemma drill_reload_stored: "drill_reload rt (canon (drill_result_to_dict r)) = mk (reloaded r)"
  by (cases r) (simp add: drill_reload_def raw_str_def raw_enum_def raw_finite_def raw_mismatches raw_def drill_items
      drill_reqs Let_def rounded_def reloaded_def drill_result.make_def mk_def [symmetric])

definition map_proven :: "(drill_result \<Rightarrow> drill_result) \<Rightarrow> proven \<Rightarrow> proven" where
  "map_proven f e = e\<lparr>pv_last := map_option f (pv_last e), pv_last_pass := map_option f (pv_last_pass e),
     pv_history := map f (pv_history e)\<rparr>"

definition map_register :: "(drill_result \<Rightarrow> drill_result) \<Rightarrow> register_state \<Rightarrow> register_state" where
  "map_register f g = g\<lparr>rg_by_tool := map (\<lambda>(t, e). (t, map_proven f e)) (rg_by_tool g)\<rparr>"

lemma map_of_register: "map_of (rg_by_tool (map_register f g)) t = map_option (map_proven f) (map_of (rg_by_tool g) t)"
  by (simp add: map_register_def map_of_map)

lemma update_mapped: "AList.update k (h v) (map (\<lambda>(k, v). (k, h v)) d) = map (\<lambda>(k, v). (k, h v)) (AList.update k v d)"
  by (induction d) auto

lemma map_register_simps [simp]:
  "rg_stale_after (map_register f g) = rg_stale_after g"
  "(map_register f g)\<lparr>rg_by_tool := AList.update t (map_proven f e) (rg_by_tool (map_register f g))\<rparr>
     = map_register f (g\<lparr>rg_by_tool := AList.update t e (rg_by_tool g)\<rparr>)"
  by (simp_all add: map_register_def update_mapped)

lemma ingest_mapped:
  assumes "dr_tool (f r) = dr_tool r" "dr_outcome (f r) = dr_outcome r"
  shows "ingest (f r) (map_register f g) = map_register f (ingest r g)"
proof -
  let ?new = "\<lambda>x e. e\<lparr>pv_history := pv_history e @ [x], pv_last := Some x,
    pv_last_pass := (if is_proof (dr_outcome x) then Some x else pv_last_pass e)\<rparr>"
  let ?old = "\<lambda>g. case map_of (rg_by_tool g) (dr_tool r) of Some e \<Rightarrow> e
    | None \<Rightarrow> \<lparr>pv_tool = dr_tool r, pv_stale_after = rg_stale_after g, pv_last = None, pv_last_pass = None, pv_history = []\<rparr>"
  have "?old (map_register f g) = map_proven f (?old g)"
    by (simp add: map_of_register map_proven_def split: option.splits)
  then have "?new (f r) (?old (map_register f g)) = map_proven f (?new r (?old g))"
    using assms(2) by (simp add: map_proven_def)
  then show ?thesis unfolding ingest_def Let_def assms(1) by (simp only: map_register_simps)
qed

lemma record_all_mapped:
  "\<forall>r \<in> set rs. dr_tool (f r) = dr_tool r \<and> dr_outcome (f r) = dr_outcome r \<Longrightarrow>
   record_all (map f rs) (map_register f g) = map_register f (record_all rs g)"
  unfolding record_all_def by (induction rs arbitrary: g) (auto simp: ingest_mapped)

lemma reloaded_keeps [simp]:
  "dr_tool (reloaded r) = dr_tool r" "dr_outcome (reloaded r) = dr_outcome r" "dr_at (reloaded r) = dr_at r"
  by (simp_all add: reloaded_def rounded_def)

lemma get_proven_reloaded: "get_proven t (map_register reloaded g) = map_option (map_proven reloaded) (get_proven t g)"
  by (simp add: get_proven_def map_of_register)

lemma is_proven_reloaded: "is_proven now (map_proven reloaded e) = is_proven now e"
  by (cases "pv_last e"; cases "pv_last_pass e") (simp_all add: is_proven_def map_proven_def proof_age_def)

lemma proof_age_reloaded: "proof_age now (map_proven reloaded e) = proof_age now e"
  by (cases "pv_last_pass e") (simp_all add: map_proven_def proof_age_def)

lemma map_proven_simps: "pv_last (map_proven f e) = map_option f (pv_last e)" "pv_stale_after (map_proven f e) = pv_stale_after e"
  by (simp_all add: map_proven_def)

lemmas reloaded_simps = get_proven_reloaded is_proven_reloaded proof_age_reloaded map_proven_simps

lemma proof_gate_reloaded: "proof_gate (map_register reloaded g) now t k = proof_gate g now t k"
  by (cases "get_proven t g") (simp_all add: proof_gate_def reloaded_simps del: is_undoable.simps)

lemma due_reloaded: "due (map_register reloaded g) now ra mb tools = due g now ra mb tools"
proof -
  have "due_for (map_register reloaded g) now ra t = due_for g now ra t" for t
  proof (cases "get_proven t g")
    case (Some e)
    then show ?thesis by (cases "pv_last e") (simp_all add: due_for_def reloaded_simps split: option.split)
  qed (simp add: due_for_def reloaded_simps)
  then have "due_for (map_register reloaded g) now ra = due_for g now ra" by blast
  then show ?thesis by (simp add: due_def)
qed

definition row_of :: "drill_result \<Rightarrow> drill_row" where
  "row_of r = \<lparr>dw_id = dr_id r, dw_tool = dr_tool r, dw_outcome = outcome_value (dr_outcome r), dw_at = dr_at r,
     dw_data = canon (drill_result_to_dict r)\<rparr>"

lemma record_rows:
  assumes "distinct (map dw_id (db_drills d) @ map dr_id rs)" "fold record_stored rs (g, d) = (g', d')"
  shows "g' = record_all rs g \<and> db_drills d' = db_drills d @ map row_of rs"
  using assms
proof (induction rs arbitrary: g d)
  case (Cons r rs)
  have "record_drill r d = d\<lparr>db_drills := db_drills d @ [row_of r]\<rparr>"
    using Cons.prems(1) by (auto simp: record_drill_def row_of_def)
  with Cons.prems Cons.IH [of "d\<lparr>db_drills := db_drills d @ [row_of r]\<rparr>" "ingest r g"]
  show ?case by (simp add: record_stored_def record_all_def row_of_def)
qed (simp add: record_all_def)

text \<open>C29: a register of drills that is rebuilt from the store after a restart decides as the one that was
  running: every declared posture is worth the same at every time, and the same tools are due for a
  drill in the same order, when the results have identifiers of their own and were recorded in the order
  of their times. What a restart cannot do is make a proof younger.\<close>

theorem register_survives_restart:
  assumes "fold record_stored rs (new_register stale, d) = (g, d')" "db_drills d = []"
    and "distinct (map dr_id rs)" "sorted (map dr_at rs)"
  shows "\<exists>g'. new_stored_register rt stale d' = Inr (Some g')
     \<and> (\<forall>now tool k. proof_gate g' now tool k = proof_gate g now tool k)
     \<and> (\<forall>now ra mb tools. due g' now ra mb tools = due g now ra mb tools)"
proof -
  have rows: "g = record_all rs (new_register stale)" "db_drills d' = map row_of rs"
    using record_rows [of d rs "new_register stale" g d'] assms by auto
  have "sort_key dw_at (map row_of rs) = map row_of rs"
    using assms(4) by (intro sort_key_id_if_sorted) (simp add: row_of_def comp_def)
  then have "load_drills d' = map (\<lambda>r. canon (drill_result_to_dict r)) rs"
    by (simp add: load_drills_def rows(2) comp_def) (simp add: row_of_def)
  then have "new_stored_register rt stale d' = mk (record_all (map reloaded rs) (new_register stale))"
    by (simp add: new_stored_register_def seq_of_mk [where h = reloaded] drill_reload_stored)
  moreover have "record_all (map reloaded rs) (new_register stale) = map_register reloaded g"
    using record_all_mapped [of rs reloaded "new_register stale"] by (simp add: rows(1) new_register_def map_register_def)
  ultimately show ?thesis using proof_gate_reloaded due_reloaded by (auto simp: mk_def)
qed

section \<open>Worked runs\<close>

text \<open>A process appends an entry and is killed; the next one starts on what is left.\<close>

definition first_entry :: ledger_entry where
  "first_entry = build_entry demo_crypto (Fin 1) ''reversal_commit'' (entry_to_dict kept_entry) []"

definition first_db :: db where
  "first_db = snd (snd (durable_append demo_crypto (Fin 1) FromReversal ''reversal_commit'' (entry_to_dict kept_entry) ([], empty_db)))"

lemma first_append:
  "durable_append demo_crypto (Fin 1) FromReversal ''reversal_commit'' (entry_to_dict kept_entry) ([], empty_db)
     = (Inr first_entry, [first_entry], first_db)"
proof -
  have "\<exists>d'. durable_append demo_crypto (Fin 1) FromReversal ''reversal_commit'' (entry_to_dict kept_entry) ([], empty_db)
     = (Inr first_entry, [] @ [first_entry], d') \<and> in_sync ([] @ [first_entry]) d'
     \<and> verify_integrity demo_crypto ([] @ [first_entry]) = Inr ()"
    unfolding first_entry_def
    by (rule durable_append_ok)
       (auto simp: demo_crypto_def demo_repr_ok verify_integrity_def in_sync_def empty_db_def)
  then show ?thesis unfolding first_db_def by auto
qed

lemma first_rows: "db_ledger first_db = [stored_row first_entry]"
proof -
  from durable_appendE [OF first_append] persist_ledger obtain u where
    "persist first_entry (journal_of FromReversal (entry_to_dict kept_entry)) empty_db = (Inr u, first_db)" by fastforce
  from persist_ledger [OF this] show ?thesis by (simp add: empty_db_def)
qed

lemma crashed_run: "store_run demo_crypto (Some (restarted_ledger first_db), open_db first_db, [first_entry])"
proof -
  have 1: "store_step demo_crypto (Some [], empty_db, []) (Some [first_entry], first_db, [] @ [first_entry])"
    by (rule store_step.acknowledged [OF first_append])
  show ?thesis
    using store_run.step [OF store_run.step [OF store_run.step [OF store_run.init 1] store_step.crash_before] store_step.restart]
    by simp
qed

lemma acknowledged_entries_survive_crashes_witness:
  "verify_integrity demo_crypto (restarted_ledger (open_db first_db)) = Inr ()
   \<and> subseq [stored_row first_entry] (restarted_ledger (open_db first_db))"
  using acknowledged_entries_survive_crashes [OF crashed_run] by simp

lemma journal_rows_match_ledger_witness:
  "\<exists>r. map_of (db_journal (open_db first_db)) (VStr ''j1'') = Some r
     \<and> (\<exists>e \<in> set (restarted_ledger (open_db first_db)). jr_ledger_seq r = Some (le_seq e) \<and> le_payload e = jr_data r
          \<and> get_item ''id'' (jr_data r) = VStr ''j1'' \<and> get_item ''state'' (jr_data r) = VStr ''committed'')"
proof -
  let ?j = "entry_to_dict kept_entry"
  have jev: "journal_of FromReversal ?j = Some ?j" "truthy ?j" "get_item ''id'' ?j = VStr ''j1''"
    "get_item ''state'' ?j = VStr ''committed''"
    by (simp_all add: journal_of_def is_journal_event_def entry_to_dict_def has_item_def get_item_def kept_entry_def)
  have ne: "[first_entry] \<noteq> []" by simp
  from first_append obtain u where "persist first_entry (Some ?j) empty_db = (Inr u, first_db)"
    by (cases rule: durable_appendE) (use ne jev in auto)
  then obtain d1 where "upsert_journal ?j (Some (le_seq first_entry)) d1 = Inr first_db"
    by (auto simp: persist_def record_reversal_def tx_def store_error_def jev split: sum.splits if_splits)
  from upsert_journal_Inr [OF this] obtain r where
    r: "map_of (db_journal (open_db first_db)) (VStr ''j1'') = Some r" "jr_state r = VStr ''committed''"
    by (auto simp: open_db_def jev map_of_update)
  from journal_rows_match_ledger [OF crashed_run r(1)] r show ?thesis by (intro exI [of _ r]) (auto simp: r(2))
qed

definition store_env :: "(nat, nat, unit) env" where
  "store_env = \<lparr>en_crypto = demo_crypto, en_rt = demo_rt,
     en_policy = \<lparr>po_rules = [], po_default = DENY, po_version = ''1'', po_name = ''p''\<rparr>, en_detector = default_detector,
     en_seams = \<lparr>state_reader = None, gate_evaluator = None, classify_hook = None, command_classifier = None\<rparr>,
     en_approval = deny_by_default, en_clock = \<lambda>n. Fin (of_nat n), en_exc_text = \<lambda>_. [], en_fail_closed = True\<rparr>"

definition store_events :: "(event_source \<times> string \<times> val) list" where
  "store_events = [(FromElsewhere, ''verdict'', VDict [(''allowed'', VBool True)]),
     (FromReversal, ''reversal_commit'', entry_to_dict kept_entry)]"

lemma store_is_transparent_witness:
  "let cp = new_cplane empty_registry None; l = cp_ledger (log_events store_env (map snd store_events) cp) in
   length l = 2 \<and> (\<exists>d'. durable_log demo_crypto (\<lambda>n. Fin (of_nat n)) store_events ([], empty_db) = (Inr (), l, d') \<and> in_sync l d')"
proof -
  let ?cp = "new_cplane empty_registry None :: nat cplane"
  have e: "en_crypto store_env = demo_crypto" "en_clock store_env = (\<lambda>n. Fin (of_nat n))" "cp_ledger ?cp = []"
    by (simp_all add: store_env_def new_cplane_def)
  have "length (ledger_lines (cp_ledger (log_events store_env (map snd store_events) ?cp))) = 2"
    unfolding logged_log_events by (simp add: e ledger_lines_def store_events_def)
  then have "length (cp_ledger (log_events store_env (map snd store_events) ?cp)) = 2" by (simp add: ledger_lines_def)
  moreover have "\<exists>d'. durable_log (en_crypto store_env) (en_clock store_env) store_events (cp_ledger ?cp, empty_db)
       = (Inr (), cp_ledger (log_events store_env (map snd store_events) ?cp), d')
     \<and> in_sync (cp_ledger (log_events store_env (map snd store_events) ?cp)) d'"
  proof (rule store_is_transparent)
    show "repr_ok (float_repr (en_crypto store_env))" by (simp add: e demo_crypto_def demo_repr_ok)
    show "in_sync (cp_ledger ?cp) empty_db" by (simp add: e in_sync_def empty_db_def)
    show "journal_events_ok store_events" by (auto simp: journal_events_ok_def store_events_def)
    show "inj_on (sha256 (en_crypto store_env)) (hash_input (en_crypto store_env) `
        set (cp_ledger (log_events store_env (map snd store_events) ?cp)))"
      by (simp add: e demo_crypto_def inj_on_def)
  qed (simp_all add: e verify_integrity_def store_events_def)
  ultimately show ?thesis by (simp add: e Let_def)
qed

definition drilled :: "string \<Rightarrow> drill_outcome \<Rightarrow> rat \<Rightarrow> drill_result" where
  "drilled i out t = \<lparr>dr_id = i, dr_tool = ''pay'', dr_outcome = out, dr_kind = COMPENSABLE, dr_at = t,
     dr_duration_ms = 1234 / 1000, dr_canary = ''c'', dr_error = None, dr_mismatches = [], dr_restored = [''status''],
     dr_unrestored = [], dr_collateral = [], dr_unavailable_reason = [], dr_residue = ''fee'', dr_observed = [''etag'']\<rparr>"

definition drilled_twice :: "register_state \<times> db" where
  "drilled_twice = fold record_stored [drilled ''r1'' OFailed 10, drilled ''r2'' OPassed 20] (new_register 100, empty_db)"

text \<open>A passed drill keeps the posture for the time it is fresh, also after a restart.\<close>

lemma register_survives_restart_witness:
  "\<exists>g'. new_stored_register demo_rt 100 (snd drilled_twice) = Inr (Some g')
     \<and> proof_gate g' 120 ''pay'' COMPENSABLE = COMPENSABLE \<and> proof_gate g' 121 ''pay'' COMPENSABLE = IRREVERSIBLE"
proof -
  have gates: "proof_gate (fst drilled_twice) 120 ''pay'' COMPENSABLE = COMPENSABLE"
    "proof_gate (fst drilled_twice) 121 ''pay'' COMPENSABLE = IRREVERSIBLE"
    by (simp_all add: drilled_twice_def record_stored_def proof_gate_def get_proven_def ingest_def new_register_def drilled_def
        is_proven_def is_proof_def proof_age_def)
  have "\<exists>g'. new_stored_register demo_rt 100 (snd drilled_twice) = Inr (Some g')
     \<and> (\<forall>now tool k. proof_gate g' now tool k = proof_gate (fst drilled_twice) now tool k)
     \<and> (\<forall>now ra mb tools. due g' now ra mb tools = due (fst drilled_twice) now ra mb tools)"
    by (rule register_survives_restart [of "[drilled ''r1'' OFailed 10, drilled ''r2'' OPassed 20]" 100 empty_db])
       (simp_all add: drilled_twice_def empty_db_def drilled_def)
  with gates show ?thesis by auto
qed

section \<open>What a restart does not bring back\<close>

text \<open>The event of an executed undo is a receipt, which is no journal entry: the stored row of the undone
  action stays committed, and a horizon rebuilt from the store still offers its undo.\<close>

lemma undone_stays_open_in_store:
  "durable_append cr now FromReversal ''reversal_executed'' (receipt_to_dict rc) (l, d) = (r, l', d') \<Longrightarrow>
   load_journal d' = load_journal d \<and> open_journal_count d' = open_journal_count d"
proof (erule durable_appendE)
  fix e u
  have "journal_of FromReversal (receipt_to_dict rc) = None"
    by (simp add: journal_of_def is_journal_event_def receipt_to_dict_def has_item_def)
  moreover assume "persist e (journal_of FromReversal (receipt_to_dict rc)) d = (Inr u, d')"
  ultimately have "persist e None d = (Inr u, d')" by simp
  then have "db_journal d' = db_journal d" by (rule persist_ok) (auto simp: insert_ledger_Inr)
  then show ?thesis by (simp add: load_journal_def open_journal_count_def)
qed simp

text \<open>The engine of a restarted control plane has no entries: whatever was committed before, nothing can
  be undone.\<close>

lemma restart_forgets_undo_paths: "reverse cb exec rid ref now force (new_engine reg) w = (Inl ReversalPlanMissing, new_engine reg, [], w)"
  by (simp add: reverse_def resolve_ref_def new_engine_def)

text \<open>After the first start the time of a shutdown is not read any more: the downtime counts from the last
  heartbeat.\<close>

lemma shutdown_time_ignored:
  "db_last_seen d = Some t \<Longrightarrow> su_downtime (fst (startup_report cr stale now (close_db stopped d))) = Some (now - t)"
  by (simp add: startup_report_def close_db_def Let_def)

text \<open>The reload drops what a result says about residue and restored fields.\<close>

lemma reload_drops_observations: "dr_observed (reloaded r) = [] \<and> dr_restored (reloaded r) = []"
  by (simp add: reloaded_def)

text \<open>The report of a start and the ledger's own check agree.\<close>

lemma startup_report_verifies:
  "su_verified (fst (startup_report cr stale now d)) \<longleftrightarrow> verify_integrity cr (load_ledger d) = Inr ()"
  by (simp add: startup_report_def Let_def first_break_verify verify_integrity_def)

end
