(* ===== verification/McpProxy.thy ===== *)
theory McpProxy
  imports ControlPlane
begin

text \<open>
  \<open>mcp/proxy.py\<close>: a proxy between an agent's client and a tool server that sends every
  \<open>tools/call\<close> through the control plane, holds the verdict until the server answers, and then
  confirms or abandons it. A line is what \<open>json.loads\<close> makes of it, \<open>None\<close> when it is not JSON;
  the pipes and the server process are outside. The two threads take the lines of the client and of
  the server one at a time. A call whose tool is not a string, or whose arguments are not an object,
  is not followed (an outer \<open>None\<close>).
\<close>

section \<open>State\<close>

definition GATED_METHOD :: string where "GATED_METHOD = ''tools/call''"
definition ERR_DENIED :: int where "ERR_DENIED = - 32001"
definition ERR_UNCONFIRMABLE :: int where "ERR_UNCONFIRMABLE = - 32002"

record 'sk caller =
  ca_actor_id :: string
  ca_actor_private_key :: 'sk
  ca_delegation_id :: string
  ca_session_id :: string

text \<open>The caller and the two callbacks that classify a call.\<close>

record 'sk proxy_conf =
  pc_caller :: "'sk caller"
  pc_action_of :: "string \<Rightarrow> args \<Rightarrow> string"
  pc_risk_of :: "string \<Rightarrow> args \<Rightarrow> int"

definition default_action_of :: "string \<Rightarrow> args \<Rightarrow> string" where
  "default_action_of tool a = ''write''"

definition default_risk_of :: "string \<Rightarrow> args \<Rightarrow> int" where
  "default_risk_of tool a = 0"

text \<open>The clock readings and identifiers that one call draws; \<open>dr_end n\<close> is the reading for the
  \<open>n\<close>-th call abandoned at the end of the session.\<close>

record draws =
  dr_now :: rat
  dr_abandon_at :: rat
  dr_action :: string
  dr_plan :: string
  dr_journal :: string
  dr_end :: "nat \<Rightarrow> rat"

text \<open>What the client reads: replies of the proxy and lines of the server passed on as they came.\<close>

datatype to_client = Reply val | Relayed "val option"

record 'pk proxy =
  px_cp :: "'pk cplane"
  px_pending :: "(val \<times> verdict) list"
  px_stranded :: "string list"
  px_upstream :: "val list"
  px_client :: "to_client list"
  px_open :: bool
  px_pumping :: bool

definition new_proxy :: "'pk cplane \<Rightarrow> 'pk proxy" where
  "new_proxy cp = \<lparr>px_cp = cp, px_pending = [], px_stranded = [], px_upstream = [], px_client = [],
     px_open = True, px_pumping = True\<rparr>"

text \<open>The constructor refuses an empty command.\<close>

definition start_proxy :: "string list \<Rightarrow> 'pk cplane \<Rightarrow> pyexn + 'pk proxy" where
  "start_proxy upstream_cmd cp =
     (if upstream_cmd = [] then Inl (PyExn ''ValueError'' ''upstream_cmd is required: there is nothing to proxy to'')
      else Inr (new_proxy cp))"

section \<open>The calls in flight\<close>

text \<open>A dictionary whose keys are JSON values: keys are compared with Python's \<open>==\<close>, and a list or
  an object is not hashable.\<close>

fun hashable :: "val \<Rightarrow> bool" where
  "hashable (VList _) = False"
| "hashable (VDict _) = False"
| "hashable _ = True"

fun pend_put :: "val \<Rightarrow> 'a \<Rightarrow> (val \<times> 'a) list \<Rightarrow> (val \<times> 'a) list" where
  "pend_put k v [] = [(k, v)]"
| "pend_put k v ((k', v') # d) = (if py_eq k' k then (k', v) # d else (k', v') # pend_put k v d)"

fun pend_pop :: "val \<Rightarrow> (val \<times> 'a) list \<Rightarrow> 'a option \<times> (val \<times> 'a) list" where
  "pend_pop k [] = (None, [])"
| "pend_pop k ((k', v') # d) =
     (if py_eq k' k then (Some v', d) else case pend_pop k d of (r, d') \<Rightarrow> (r, (k', v') # d'))"

section \<open>Messages\<close>

definition reply_error :: "val \<Rightarrow> int \<Rightarrow> string \<Rightarrow> val" where
  "reply_error request_id code msg = VDict
     [(''jsonrpc'', VStr ''2.0''), (''id'', request_id),
      (''error'', VDict [(''code'', VInt code), (''message'', VStr msg)])]"

definition why_text :: "verdict \<Rightarrow> string" where
  "why_text v = vd_tool v @ '': '' @ vd_reason v @ '' [stage='' @ vd_stage v @ '', reversibility=''
     @ posture_value (vd_reversibility v) @ '']''"

definition opt_none :: "val option \<Rightarrow> val" where
  "opt_none x = (case x of None \<Rightarrow> VNone | Some v \<Rightarrow> v)"

text \<open>A \<open>tools/call\<close>: an object with that method. The parameters of one are \<open>x or {}\<close>, and
  \<open>get\<close> on what is not an object raises.\<close>

fun gated :: "val \<Rightarrow> bool" where
  "gated (VDict m) = (map_of m ''method'' = Some (VStr GATED_METHOD))"
| "gated _ = False"

definition or_empty :: "val option \<Rightarrow> val" where
  "or_empty x = (case x of None \<Rightarrow> VDict [] | Some v \<Rightarrow> if truthy v then v else VDict [])"

definition call_params :: "(string \<times> val) list \<Rightarrow> pyexn + args" where
  "call_params m =
     (case or_empty (map_of m ''params'') of
        VDict p \<Rightarrow> Inr p
      | _ \<Rightarrow> Inl (PyExn ''AttributeError'' ''get''))"

definition call_tool :: "args \<Rightarrow> val" where
  "call_tool p = (case map_of p ''name'' of None \<Rightarrow> VStr [] | Some v \<Rightarrow> v)"

definition call_args :: "args \<Rightarrow> val" where
  "call_args p = or_empty (map_of p ''arguments'')"

definition request_of :: "'sk proxy_conf \<Rightarrow> draws \<Rightarrow> string \<Rightarrow> args \<Rightarrow> 'sk request" where
  "request_of pc dr tool a =
     \<lparr>rq_key = ca_actor_private_key (pc_caller pc), rq_actor = ca_actor_id (pc_caller pc),
      rq_delegation = ca_delegation_id (pc_caller pc), rq_tool = tool, rq_args = a,
      rq_action = pc_action_of pc tool a, rq_risk = pc_risk_of pc tool a, rq_description = [],
      rq_session = ca_session_id (pc_caller pc), rq_now = dr_now dr, rq_abandon_at = dr_abandon_at dr,
      rq_fresh_action = dr_action dr, rq_fresh_plan = dr_plan dr, rq_fresh_journal = dr_journal dr\<rparr>"

text \<open>The message that is sent on: \<open>{**params, "arguments": verdict.effective_args or args}\<close>.\<close>

definition forwarded :: "(string \<times> val) list \<Rightarrow> args \<Rightarrow> args \<Rightarrow> verdict \<Rightarrow> val" where
  "forwarded m p a v =
     VDict (AList.update ''params''
       (VDict (AList.update ''arguments'' (VDict (if vd_effective_args v = [] then a else vd_effective_args v)) p)) m)"

section \<open>The end of a session\<close>

text \<open>\<open>_abandon\<close>: an error is logged and dropped.\<close>

definition px_abandon ::
  "('sk, 'pk, 'w) env \<Rightarrow> verdict \<Rightarrow> string \<Rightarrow> rat \<Rightarrow> 'pk cplane \<Rightarrow> 'pk cplane" where
  "px_abandon en v reason now cp =
     (case vd_journal_id v of
        None \<Rightarrow> cp
      | Some jid \<Rightarrow> (case abandon jid reason now (cp_reversal cp) of (r, eng, ev) \<Rightarrow> with_reversal en eng ev cp))"

definition UNANSWERED :: string where
  "UNANSWERED = ''session ended before upstream answered; the outcome of this call is unknown and it may have taken effect''"

fun abandon_each ::
  "('sk, 'pk, 'w) env \<Rightarrow> (nat \<Rightarrow> rat) \<Rightarrow> nat \<Rightarrow> verdict list \<Rightarrow> 'pk cplane \<Rightarrow> 'pk cplane" where
  "abandon_each en clock n [] cp = cp"
| "abandon_each en clock n (v # vs) cp = abandon_each en clock (Suc n) vs (px_abandon en v UNANSWERED (clock n) cp)"

definition shutdown :: "('sk, 'pk, 'w) env \<Rightarrow> (nat \<Rightarrow> rat) \<Rightarrow> 'pk proxy \<Rightarrow> 'pk proxy" where
  "shutdown en clock px =
     (let stranded = map snd (px_pending px) in
      px\<lparr>px_cp := abandon_each en clock 0 stranded (px_cp px), px_pending := [],
         px_stranded := map vd_tool stranded, px_open := False\<rparr>)"

section \<open>From the client to the server\<close>

definition send_up :: "val \<Rightarrow> 'pk proxy \<Rightarrow> 'pk proxy" where
  "send_up m px = px\<lparr>px_upstream := px_upstream px @ [m]\<rparr>"

definition send_client :: "to_client \<Rightarrow> 'pk proxy \<Rightarrow> 'pk proxy" where
  "send_client m px = px\<lparr>px_client := px_client px @ [m]\<rparr>"

text \<open>A call with a request id. An id that is not hashable raises after the call was authorized.\<close>

definition gate_call ::
  "('sk, 'pk, 'w) env \<Rightarrow> 'sk proxy_conf \<Rightarrow> 'w \<Rightarrow> draws \<Rightarrow> (string \<times> val) list \<Rightarrow> args \<Rightarrow> val \<Rightarrow> string \<Rightarrow> args \<Rightarrow> 'pk proxy
   \<Rightarrow> (revoco_error + unit) \<times> 'pk proxy" where
  "gate_call en pc w dr m p request_id tool a px =
     (case authorize en w (request_of pc dr tool a) (px_cp px) of
        (Inl e, cp') \<Rightarrow> (Inl e, px\<lparr>px_cp := cp'\<rparr>)
      | (Inr v, cp') \<Rightarrow>
         (let px1 = px\<lparr>px_cp := cp'\<rparr> in
          if \<not> vd_allowed v then (Inr (), send_client (Reply (reply_error request_id ERR_DENIED (why_text v))) px1)
          else if \<not> hashable request_id then (Inl (Raised (PyExn ''TypeError'' ''unhashable type'')), px1)
          else (Inr (), send_up (forwarded m p a v) (px1\<lparr>px_pending := pend_put request_id v (px_pending px1)\<rparr>))))"

definition on_client_line ::
  "('sk, 'pk, 'w) env \<Rightarrow> 'sk proxy_conf \<Rightarrow> 'w \<Rightarrow> draws \<Rightarrow> val option \<Rightarrow> 'pk proxy
   \<Rightarrow> ((revoco_error + unit) \<times> 'pk proxy) option" where
  "on_client_line en pc w dr line px =
     (case line of
        None \<Rightarrow> Some (Inr (), px)
      | Some msg \<Rightarrow>
         (if \<not> gated msg then Some (Inr (), send_up msg px)
          else case msg of
            VDict m \<Rightarrow>
             (case call_params m of
                Inl e \<Rightarrow> Some (Inl (Raised e), px)
              | Inr p \<Rightarrow>
                 (let request_id = opt_none (map_of m ''id'') in
                  if request_id = VNone then
                    Some (Inr (), send_client (Reply (reply_error VNone ERR_UNCONFIRMABLE
                      (py_str (en_rt en) (call_tool p) @ '': a tools/call without an id cannot be confirmed, so its ''
                       @ ''undo plan could never be completed. Refused.''))) px)
                  else (case (call_tool p, call_args p) of
                      (VStr tool, VDict a) \<Rightarrow> Some (gate_call en pc w dr m p request_id tool a px)
                    | _ \<Rightarrow> None)))
          | _ \<Rightarrow> None))"

section \<open>From the server to the client\<close>

text \<open>\<open>_on_upstream_line\<close>: an exception ends the thread that reads the server.\<close>

definition on_upstream_line ::
  "('sk, 'pk, 'w) env \<Rightarrow> rat \<Rightarrow> val option \<Rightarrow> 'pk proxy \<Rightarrow> (revoco_error + unit) \<times> 'pk proxy" where
  "on_upstream_line en now line px =
     (case line of
        Some (VDict m) \<Rightarrow>
         (case map_of m ''id'' of
            None \<Rightarrow> (Inr (), px)
          | Some i \<Rightarrow>
             if \<not> hashable i then (Inl (Raised (PyExn ''TypeError'' ''unhashable type'')), px)
             else (case pend_pop i (px_pending px) of (held, rest) \<Rightarrow>
               (let px1 = px\<lparr>px_pending := rest\<rparr> in
                case held of
                  None \<Rightarrow> (Inr (), px1)
                | Some v \<Rightarrow>
                   (case map_of m ''error'' of
                      Some err \<Rightarrow> (Inr (), px1\<lparr>px_cp := px_abandon en v
                         (''upstream returned an error: '' @ py_str (en_rt en) err) now (px_cp px1)\<rparr>)
                    | None \<Rightarrow>
                       (case confirm en v (opt_none (map_of m ''result'')) now (px_cp px1) of
                          (r, v', cp') \<Rightarrow> (bind_err r (\<lambda>_. Inr ()), px1\<lparr>px_cp := cp'\<rparr>))))))
      | _ \<Rightarrow> (Inr (), px))"

section \<open>A session\<close>

text \<open>
  \<open>run\<close> and \<open>_pump_upstream\<close>: the lines in the order the proxy takes them. An exception on the client
  side ends the session as its end of input does; one on the server side ends the relaying thread
  before the line is passed on.
\<close>

datatype 'w px_input =
    FromClient 'w draws "val option"
  | FromServer rat "val option"
  | EndOfInput "nat \<Rightarrow> rat"

fun px_do :: "('sk, 'pk, 'w) env \<Rightarrow> 'sk proxy_conf \<Rightarrow> 'w px_input \<Rightarrow> 'pk proxy \<Rightarrow> 'pk proxy option" where
  "px_do en pc (FromClient w dr line) px =
     (if \<not> px_open px then Some px
      else case on_client_line en pc w dr line px of
             None \<Rightarrow> None
           | Some (Inl e, px') \<Rightarrow> Some (shutdown en (dr_end dr) px')
           | Some (Inr _, px') \<Rightarrow> Some px')"
| "px_do en pc (FromServer now line) px =
     (if \<not> px_pumping px then Some px
      else case on_upstream_line en now line px of
             (Inl e, px') \<Rightarrow> Some (px'\<lparr>px_pumping := False\<rparr>)
           | (Inr _, px') \<Rightarrow> Some (send_client (Relayed line) px'))"
| "px_do en pc (EndOfInput clock) px = (if px_open px then Some (shutdown en clock px) else Some px)"

fun px_run :: "('sk, 'pk, 'w) env \<Rightarrow> 'sk proxy_conf \<Rightarrow> 'w px_input list \<Rightarrow> 'pk proxy \<Rightarrow> 'pk proxy option" where
  "px_run en pc [] px = Some px"
| "px_run en pc (i # is) px = (case px_do en pc i px of None \<Rightarrow> None | Some px' \<Rightarrow> px_run en pc is px')"

end
