(* ===== verification/ProxyProps.thy ===== *)
theory ProxyProps
  imports McpProxy ControlProps "HOL-Library.Sublist"
begin

text \<open>
  What the proxy guarantees, over any sequence of lines from both sides: each call that reaches the
  server carries the arguments of a verdict of its own that allowed it; the end of a session settles
  every call; a call has an undo path only if the server answered it without an error. The worked
  session sends the payment of the control-plane examples through a proxy.
\<close>

section \<open>What an operation of the control plane leaves on the ledger and in the journal\<close>

abbreviation lines_of :: "'pk cplane \<Rightarrow> (string \<times> val) list" where
  "lines_of cp \<equiv> ledger_lines (cp_ledger cp)"

lemma prefix_log [simp]: "prefix (lines_of cp) (lines_of (log_events en evs cp))"
  by (simp add: logged_log_events)

lemma prefix_via: "via_authority en f cp = (r, cp') \<Longrightarrow> prefix (lines_of cp) (lines_of cp')"
  by (auto simp: via_authority_def logged_log_events split: prod.splits)

lemma prefix_record: "record_attempt en rq pid cp = (r, cp') \<Longrightarrow> prefix (lines_of cp) (lines_of cp')"
  unfolding record_attempt_def by (rule prefix_via)

lemma prefix_classified: "classified en w rq cp = (k, cp') \<Longrightarrow> prefix (lines_of cp) (lines_of cp')"
  by (auto simp: classified_def split: prod.splits)

lemma prefix_plan: "plan_stage en w rq cp = (r, cp') \<Longrightarrow> prefix (lines_of cp) (lines_of cp')"
  by (auto simp: plan_stage_eq)

lemma prefix_reversal [simp]: "prefix (lines_of cp) (lines_of (with_reversal en eng ev cp))"
  by (simp add: with_reversal_def logged_log_events)

lemma prefix_abandon: "abandon_stage en rq v cp = (r, cp') \<Longrightarrow> prefix (lines_of cp) (lines_of cp')"
  by (auto simp: abandon_stage_def with_reversal_def [symmetric] split: if_splits prod.splits)

lemma prefix_finalize [simp]: "prefix (lines_of cp) (lines_of (snd (finalize en v a cp)))"
  by (simp add: logged_append_log)

lemma lines_journal_stage [simp]: "lines_of (journal_stage en rq p cp) = lines_of cp"
  by (simp add: journal_stage_def)

lemma prefix_refuse: "refuse en rq k d ok stage eff reason ch cp = (r, cp') \<Longrightarrow> prefix (lines_of cp) (lines_of cp')"
  by (erule refuseE) (auto dest!: prefix_record intro: prefix_order.trans [OF _ prefix_finalize] simp del: finalize_fields)

lemma prefix_judge:
  assumes "judge en w rq k d ok ch cp = (r, cp')"
  shows "prefix (lines_of cp) (lines_of cp')"
proof -
  note t = prefix_order.trans
  from assms show ?thesis
  proof (cases rule: judgeE)
    case plan_error
    then show ?thesis by (blast intro: prefix_plan)
  next
    case record_error
    then show ?thesis by (blast intro: t prefix_plan prefix_record)
  next
    case detect_error
    then show ?thesis by (blast intro: t prefix_plan prefix_record)
  next
    case (abandon_error p cp1 a cp2 fs v e)
    from prefix_abandon [OF abandon_error(5)] show ?thesis
      using t [OF prefix_plan [OF abandon_error(1)] prefix_record [OF abandon_error(2)]] t by simp
  next
    case (judged p cp1 a cp2 fs v cp3)
    from prefix_abandon [OF judged(5)] have "prefix (lines_of cp2) (lines_of cp3)" by simp
    then show ?thesis
      unfolding judged(7)
      using t [OF t [OF prefix_plan [OF judged(1)] prefix_record [OF judged(2)]]] t [OF _ prefix_finalize] by blast
  qed
qed

lemma prefix_authorize_inner:
  assumes "authorize_inner en w rq cp = (r, cp')"
  shows "prefix (lines_of cp) (lines_of cp')"
proof -
  note t = prefix_order.trans
  from assms show ?thesis
  proof (cases rule: authorize_innerE)
    case gate_error
    then show ?thesis by (blast intro: prefix_classified)
  next
    case enforce
    then show ?thesis by (blast intro: t prefix_classified prefix_refuse)
  next
    case (budget k cp1 d ok ch reason cp2)
    then show ?thesis
      using t [OF prefix_classified [OF budget(1)]] prefix_refuse [OF budget(5)] budget_stage_frame [OF budget(4)] by simp
  next
    case (judged k cp1 d ok ch cp2)
    then show ?thesis
      using t [OF prefix_classified [OF judged(1)]] prefix_judge [OF judged(5)] budget_stage_frame [OF judged(4)] by simp
  qed
qed

lemma prefix_authorize:
  assumes "authorize en w rq cp = (r, cp')"
  shows "prefix (lines_of cp) (lines_of cp')"
  using assms
proof (cases rule: authorizeE)
  case (failure e cp1)
  from prefix_authorize_inner [OF failure(1)] show ?thesis by (simp add: failure(4) logged_append_log)
qed (blast intro: prefix_authorize_inner)+

lemma prefix_px_abandon: "prefix (lines_of cp) (lines_of (px_abandon en v reason now cp))"
  by (auto simp: px_abandon_def split: option.splits prod.splits)

lemma prefix_confirm:
  assumes "confirm en v result now cp = (r, v', cp')"
  shows "prefix (lines_of cp) (lines_of cp')"
  using assms
proof (cases rule: confirmE)
  case (confirmed jid x eng ev cp2)
  from charge_session_Inr [OF confirmed(4)] obtain t where "cp2 = with_reversal en eng ev cp\<lparr>cp_totals := t\<rparr>" by blast
  then show ?thesis by (simp add: confirmed(7))
qed simp_all

lemma prefix_abandon_each: "prefix (lines_of cp) (lines_of (abandon_each en clock n vs cp))"
proof (induction vs arbitrary: n cp)
  case (Cons v vs)
  show ?case using prefix_order.trans [OF prefix_px_abandon Cons.IH] by simp
qed simp

text \<open>Redaction keeps an argument list that is not empty so.\<close>

lemma redact_path_dict: "a \<noteq> [] \<Longrightarrow> \<exists>b. redact_path ps (VDict a) = VDict b \<and> b \<noteq> []"
  by (cases "(ps, VDict a)" rule: redact_path.cases) (auto simp: update_nonempty split: option.splits)

lemma redact_arguments_dict: "a \<noteq> [] \<Longrightarrow> \<exists>b. redact_arguments (VDict a) fs = VDict b \<and> b \<noteq> []"
proof (induction fs arbitrary: a)
  case (Cons f fs)
  obtain b where b: "redact_path (split_on CHR ''.'' f) (VDict a) = VDict b" "b \<noteq> []"
    using redact_path_dict [OF Cons.prems] by blast
  from Cons.IH [OF b(2)] show ?case by (simp add: redact_arguments_def b(1))
qed (simp add: redact_arguments_def)

lemma effective_args_nonempty: "a \<noteq> [] \<Longrightarrow> effective_args_of d a \<noteq> []"
  using redact_arguments_dict [of a "de_redact_fields d"] by (auto simp: effective_args_of_def)

definition verdict_line :: "verdict \<Rightarrow> string \<times> val" where
  "verdict_line v = (''verdict'', verdict_to_dict (v\<lparr>vd_ledger_seq := None\<rparr>))"

lemma authorize_allowed:
  assumes "authorize en w rq cp = (Inr v, cp')" "vd_allowed v" "en_fail_closed en"
  shows "\<exists>new. lines_of cp' = lines_of cp @ new @ [verdict_line v]" "vd_tool v = rq_tool rq" "vd_stage v = STAGE_ALLOWED"
    "vd_effective_args v = [] \<Longrightarrow> rq_args rq = []" "vd_journal_id v = Some (rq_fresh_journal rq)"
    "\<exists>p cp4. cp_reversal cp' = cp_reversal (journal_stage en rq p cp4) \<and> cp_reversal cp4 = cp_reversal cp"
proof -
  have "(\<exists>new. lines_of cp' = lines_of cp @ new @ [verdict_line v]) \<and> vd_tool v = rq_tool rq \<and> vd_stage v = STAGE_ALLOWED
    \<and> (vd_effective_args v = [] \<longrightarrow> rq_args rq = []) \<and> vd_journal_id v = Some (rq_fresh_journal rq)
    \<and> (\<exists>p cp4. cp_reversal cp' = cp_reversal (journal_stage en rq p cp4) \<and> cp_reversal cp4 = cp_reversal cp)"
    using assms
  proof (rule allowed_path)
    fix k cp1 d ok c cp2 p cp3 a cp4 fs v0
    assume s: "classified en w rq cp = (k, cp1)" "budget_stage rq k cp1 = ((c, None), cp2)" "plan_stage en w rq cp2 = (Inr p, cp3)"
      "record_attempt en rq (Some (rp_id p)) cp3 = (Inr a, cp4)"
      "v0 = combined_verdict rq k d ok c p a (reconstruct_chain (en_crypto en) (ar_id a) (cp_authority cp4)) fs"
      "v = fst (finalize en v0 (rq_args rq) (journal_stage en rq p cp4))" "cp' = snd (finalize en v0 (rq_args rq) (journal_stage en rq p cp4))"
      "vd_stage v = STAGE_ALLOWED"
    have "vd_ledger_seq v0 = None" by (simp add: s(5))
    then have plain: "v\<lparr>vd_ledger_seq := None\<rparr> = v0" by (cases v0) (simp add: s(6))
    have "prefix (lines_of cp) (lines_of cp4)"
      using prefix_order.trans [OF prefix_classified [OF s(1)]] prefix_order.trans [OF prefix_plan [OF s(3)] prefix_record [OF s(4)]]
        budget_stage_frame [OF s(2)] by simp
    then obtain new where "lines_of cp4 = lines_of cp @ new" by (auto simp: prefix_def)
    then have 1: "lines_of cp' = lines_of cp @ new @ [verdict_line v]"
      by (simp add: s(7) logged_append_log verdict_line_def plain)
    have 2: "cp_reversal cp4 = cp_reversal cp"
      using record_attempt_engine [OF s(4)] plan_stage_frame [OF s(3)] budget_stage_frame [OF s(2)] classified_fields(2) [OF s(1)] by simp
    have 3: "cp_reversal cp' = cp_reversal (journal_stage en rq p cp4)" by (simp add: s(7))
    have 4: "vd_allowed v0" using assms(2) by (simp add: s(6))
    then have 5: "vd_effective_args v = effective_args_of d (rq_args rq)"
      unfolding s(6) by (simp add: s(5)) (auto simp: combined_verdict_def split: prod.splits)
    show ?thesis using 1 2 3 5 s(8) effective_args_nonempty [of "rq_args rq" d] by (auto simp: s(5,6))
  qed
  then show "\<exists>new. lines_of cp' = lines_of cp @ new @ [verdict_line v]" "vd_tool v = rq_tool rq" "vd_stage v = STAGE_ALLOWED"
    "vd_effective_args v = [] \<Longrightarrow> rq_args rq = []" "vd_journal_id v = Some (rq_fresh_journal rq)"
    "\<exists>p cp4. cp_reversal cp' = cp_reversal (journal_stage en rq p cp4) \<and> cp_reversal cp4 = cp_reversal cp" by blast+
qed

section \<open>What reaches the server\<close>

text \<open>A \<open>tools/call\<close> that carries the tool and the arguments of an allowing verdict.\<close>

definition carries :: "val \<Rightarrow> verdict \<Rightarrow> bool" where
  "carries msg v \<longleftrightarrow> vd_allowed v \<and> vd_stage v = STAGE_ALLOWED \<and> (\<exists>m p. msg = VDict m \<and> map_of m ''params'' = Some (VDict p)
     \<and> call_tool p = VStr (vd_tool v) \<and> map_of p ''arguments'' = Some (VDict (vd_effective_args v)))"

definition sent_ok :: "(string \<times> val) list \<Rightarrow> 'pk proxy \<Rightarrow> bool" where
  "sent_ok l0 px \<longleftrightarrow> (\<exists>vs new. lines_of (px_cp px) = l0 @ new \<and> subseq (map verdict_line vs) new
     \<and> list_all2 carries (filter gated (px_upstream px)) vs)"

lemma sent_ok_grow:
  assumes "sent_ok l0 px" "prefix (lines_of (px_cp px)) (lines_of (px_cp px'))" "filter gated (px_upstream px') = filter gated (px_upstream px)"
  shows "sent_ok l0 px'"
proof -
  from assms(1) obtain vs new where *: "lines_of (px_cp px) = l0 @ new" "subseq (map verdict_line vs) new"
    "list_all2 carries (filter gated (px_upstream px)) vs" by (auto simp: sent_ok_def)
  from assms(2) obtain more where "lines_of (px_cp px') = l0 @ (new @ more)" using *(1) by (auto simp: prefix_def)
  with * assms(3) show ?thesis by (auto simp: sent_ok_def)
qed

lemma forwarded_carries:
  assumes "vd_allowed v" "vd_stage v = STAGE_ALLOWED" "vd_tool v = tool" "vd_effective_args v = [] \<Longrightarrow> a = []" "call_tool p = VStr tool"
  shows "carries (forwarded m p a v) v"
  using assms by (auto simp: carries_def forwarded_def call_tool_def map_of_update)

lemma gated_forwarded: "gated (VDict m) \<Longrightarrow> gated (forwarded m p a v)"
  by (simp add: forwarded_def map_of_update)

lemma sent_ok_gate_call:
  assumes "gate_call en pc w dr m p i tool a px = (r, px')" "sent_ok l0 px" "en_fail_closed en" "gated (VDict m)" "call_tool p = VStr tool"
  shows "sent_ok l0 px'"
proof -
  obtain x cp' where auth: "authorize en w (request_of pc dr tool a) (px_cp px) = (x, cp')" by fastforce
  note grow = prefix_authorize [OF auth]
  show ?thesis
  proof (cases "\<exists>v. x = Inr v \<and> vd_allowed v \<and> hashable i")
    case False
    then have "px_cp px' = cp'" "px_upstream px' = px_upstream px"
      using assms(1) auth by (auto simp: gate_call_def send_client_def Let_def split: sum.splits if_splits)
    then show ?thesis using grow by (intro sent_ok_grow [OF assms(2)]) simp_all
  next
    case True
    then obtain v where v: "x = Inr v" "vd_allowed v" "hashable i" by blast
    note f = authorize_allowed [OF auth [unfolded v(1)] v(2) assms(3)]
    have px': "px_cp px' = cp'" "px_upstream px' = px_upstream px @ [forwarded m p a v]"
      using assms(1) auth v by (auto simp: gate_call_def send_up_def Let_def)
    have c: "carries (forwarded m p a v) v"
      using f(4) by (intro forwarded_carries) (simp_all add: v(2) f(2,3) assms(5) request_of_def)
    from assms(2) obtain vs new where *: "lines_of (px_cp px) = l0 @ new" "subseq (map verdict_line vs) new"
      "list_all2 carries (filter gated (px_upstream px)) vs" by (auto simp: sent_ok_def)
    obtain new' where "lines_of cp' = lines_of (px_cp px) @ new' @ [verdict_line v]" using f(1) by blast
    then have 1: "lines_of cp' = l0 @ (new @ new' @ [verdict_line v])" using *(1) by simp
    have 2: "subseq (map verdict_line (vs @ [v])) (new @ new' @ [verdict_line v])"
      unfolding map_append by (rule list_emb_append_mono [OF *(2)]) (simp add: subseq_singleton_left)
    have "list_all2 carries (filter gated (px_upstream px')) (vs @ [v])"
      unfolding px' using c gated_forwarded [OF assms(4)] *(3) by (simp add: list_all2_appendI)
    with 1 2 show ?thesis unfolding sent_ok_def px'(1) by blast
  qed
qed

lemma on_client_lineE:
  assumes "on_client_line en pc w dr line px = Some (r, px')"
  obtains (ignored) "px' = px"
  | (passed) msg where "line = Some msg" "\<not> gated msg" "px' = send_up msg px" "r = Inr ()"
  | (unconfirmable) t where "px' = send_client (Reply t) px" "r = Inr ()"
  | (called) m p i tool a where "line = Some (VDict m)" "gated (VDict m)" "map_of m ''id'' = Some i" "i \<noteq> VNone"
      "call_params m = Inr p" "call_tool p = VStr tool" "call_args p = VDict a" "gate_call en pc w dr m p i tool a px = (r, px')"
proof (cases line)
  case None
  with assms ignored show thesis by (simp add: on_client_line_def)
next
  case (Some msg)
  show thesis
  proof (cases "gated msg")
    case False
    with assms Some show thesis using passed by (simp add: on_client_line_def)
  next
    case True
    then obtain m where m: "msg = VDict m" by (cases msg) auto
    show thesis
    proof (cases "call_params m")
      case (Inl e)
      with assms Some True m ignored show thesis by (simp add: on_client_line_def)
    next
      case (Inr p)
      show thesis
      proof (cases "opt_none (map_of m ''id'') = VNone")
        case True
        with assms Some \<open>gated msg\<close> m Inr show thesis by (intro unconfirmable) (auto simp: on_client_line_def Let_def)
      next
        case False
        then obtain i where i: "map_of m ''id'' = Some i" "i \<noteq> VNone" by (cases "map_of m ''id''") (auto simp: opt_none_def)
        with assms Some \<open>gated msg\<close> m Inr obtain tool a where "call_tool p = VStr tool" "call_args p = VDict a"
          "gate_call en pc w dr m p i tool a px = (r, px')"
          by (auto simp: on_client_line_def Let_def opt_none_def split: val.splits)
        then show thesis using called Some \<open>gated msg\<close> m i Inr by simp
      qed
    qed
  qed
qed

lemma sent_ok_client:
  assumes "on_client_line en pc w dr line px = Some (r, px')" "sent_ok l0 px" "en_fail_closed en"
  shows "sent_ok l0 px'"
  using assms(1)
proof (cases rule: on_client_lineE)
  case (called m p i tool a)
  show ?thesis by (rule sent_ok_gate_call [OF called(8) assms(2,3) called(2,6)])
qed (use assms(2) in \<open>auto intro: sent_ok_grow simp: send_up_def send_client_def\<close>)

lemma on_upstream_lineE:
  assumes "on_upstream_line en now line px = (r, px')"
  obtains (ignored) "px' = px"
  | (unknown) m i rest where "line = Some (VDict m)" "map_of m ''id'' = Some i" "pend_pop i (px_pending px) = (None, rest)"
      "px' = px\<lparr>px_pending := rest\<rparr>" "r = Inr ()"
  | (failed) m i v rest err where "line = Some (VDict m)" "map_of m ''id'' = Some i" "pend_pop i (px_pending px) = (Some v, rest)"
      "map_of m ''error'' = Some err" "r = Inr ()"
      "px' = px\<lparr>px_pending := rest, px_cp := px_abandon en v (''upstream returned an error: '' @ py_str (en_rt en) err) now (px_cp px)\<rparr>"
  | (answered) m i v rest x v' cp' where "line = Some (VDict m)" "map_of m ''id'' = Some i" "pend_pop i (px_pending px) = (Some v, rest)"
      "map_of m ''error'' = None" "confirm en v (opt_none (map_of m ''result'')) now (px_cp px) = (x, v', cp')"
      "r = bind_err x (\<lambda>_. Inr ())" "px' = px\<lparr>px_pending := rest, px_cp := cp'\<rparr>"
proof (cases "\<exists>m i. line = Some (VDict m) \<and> map_of m ''id'' = Some i \<and> hashable i")
  case False
  then have "px' = px" using assms by (auto simp: on_upstream_line_def split: option.splits val.splits if_splits)
  then show thesis by (rule ignored)
next
  case True
  then obtain m i where m: "line = Some (VDict m)" "map_of m ''id'' = Some i" "hashable i" by blast
  obtain held rest where pop: "pend_pop i (px_pending px) = (held, rest)" by fastforce
  show thesis
  proof (cases held)
    case None
    with assms m pop show thesis by (intro unknown) (auto simp: on_upstream_line_def Let_def)
  next
    case (Some v)
    show thesis
    proof (cases "map_of m ''error''")
      case None
      obtain x v' cp' where "confirm en v (opt_none (map_of m ''result'')) now (px_cp px) = (x, v', cp')" using prod_cases3 by blast
      with assms m pop Some None show thesis by (intro answered) (auto simp: on_upstream_line_def Let_def)
    next
      case err: (Some err)
      with assms m pop Some show thesis by (intro failed) (auto simp: on_upstream_line_def Let_def)
    qed
  qed
qed

lemma sent_ok_upstream: "on_upstream_line en now line px = (r, px') \<Longrightarrow> sent_ok l0 px \<Longrightarrow> sent_ok l0 px'"
  by (erule on_upstream_lineE; hypsubst?; erule sent_ok_grow) (simp_all add: prefix_px_abandon prefix_confirm)

lemma sent_ok_shutdown: "sent_ok l0 px \<Longrightarrow> sent_ok l0 (shutdown en clock px)"
  by (erule sent_ok_grow) (simp_all add: shutdown_def Let_def prefix_abandon_each)

lemma px_doE:
  assumes "px_do en pc i px = Some px'"
  obtains (idle) "px' = px"
  | (client) w dr line where "i = FromClient w dr line" "px_open px" "on_client_line en pc w dr line px = Some (Inr (), px')"
  | (client_error) w dr line e px1 where "i = FromClient w dr line" "px_open px"
      "on_client_line en pc w dr line px = Some (Inl e, px1)" "px' = shutdown en (dr_end dr) px1"
  | (server) now line px1 where "i = FromServer now line" "px_pumping px" "on_upstream_line en now line px = (Inr (), px1)"
      "px' = send_client (Relayed line) px1"
  | (server_error) now line e px1 where "i = FromServer now line" "px_pumping px" "on_upstream_line en now line px = (Inl e, px1)"
      "px' = px1\<lparr>px_pumping := False\<rparr>"
  | (eof) clock where "i = EndOfInput clock" "px_open px" "px' = shutdown en clock px"
  using assms by (cases i) (auto split: if_splits option.splits prod.splits sum.splits)

lemma sent_ok_do:
  assumes "px_do en pc i px = Some px'" "sent_ok l0 px" "en_fail_closed en"
  shows "sent_ok l0 px'"
  using assms(1)
proof (cases rule: px_doE)
  case (client w dr line)
  show ?thesis by (rule sent_ok_client [OF client(3) assms(2,3)])
next
  case (client_error w dr line e px1)
  show ?thesis unfolding client_error(4) by (rule sent_ok_shutdown [OF sent_ok_client [OF client_error(3) assms(2,3)]])
next
  case (server now line px1)
  from sent_ok_upstream [OF server(3) assms(2)] show ?thesis
    by (rule sent_ok_grow) (simp_all add: server(4) send_client_def)
next
  case (server_error now line e px1)
  from sent_ok_upstream [OF server_error(3) assms(2)] show ?thesis
    by (rule sent_ok_grow) (simp_all add: server_error(4))
qed (simp_all add: assms(2) sent_ok_shutdown)

lemma sent_ok_run: "px_run en pc is px = Some px' \<Longrightarrow> sent_ok l0 px \<Longrightarrow> en_fail_closed en \<Longrightarrow> sent_ok l0 px'"
  by (induction "is" arbitrary: px) (auto intro: sent_ok_do split: option.splits)

section \<open>What becomes of a call\<close>

abbreviation engine_of :: "'pk proxy \<Rightarrow> rengine" where
  "engine_of px \<equiv> cp_reversal (px_cp px)"

definition filed :: "rengine \<Rightarrow> bool" where
  "filed eng \<longleftrightarrow> (\<forall>j e. get_entry j eng = Some e \<longrightarrow> je_id e = j)"

lemma filed_start: "engine_inv eng \<Longrightarrow> filed eng"
  by (auto simp: filed_def get_entry_def engine_inv_def dest!: map_of_SomeD)

lemma filed_put: "filed eng \<Longrightarrow> filed (put_entry e eng)"
  by (auto simp: filed_def get_entry_def put_entry_def map_of_update)

lemma filed_same: "filed eng \<Longrightarrow> (\<And>j. get_entry j eng' = get_entry j eng) \<Longrightarrow> filed eng'"
  by (simp add: filed_def)

text \<open>Authorizing touches the one entry it opens.\<close>

lemma judge_journal:
  assumes "judge en w rq k d ok ch cp = (r, cp')" "j \<noteq> rq_fresh_journal rq"
  shows "get_entry j (cp_reversal cp') = get_entry j (cp_reversal cp)"
proof -
  have ab: "get_entry j (cp_reversal cp3) = get_entry j (cp_reversal cp)"
    if "plan_stage en w rq cp = (Inr p, cp1)" "record_attempt en rq (Some (rp_id p)) cp1 = (Inr a, cp2)"
      "abandon_stage en rq v (journal_stage en rq p cp2) = (x, cp3)" for p cp1 a cp2 v x cp3
  proof -
    have "cp_reversal cp2 = cp_reversal cp" using record_attempt_engine [OF that(2)] plan_stage_frame [OF that(1)] by simp
    then show ?thesis
      using that(3) assms(2)
      by (auto simp: abandon_stage_def journal_stage_def open_journal_def Let_def abandon_def require_entry_def
          get_entry_def put_entry_def split: if_splits)
  qed
  from assms(1) show ?thesis
    by (cases rule: judgeE) (auto simp: ab dest!: plan_stage_frame record_attempt_engine)
qed

lemma authorize_inner_journal:
  assumes "authorize_inner en w rq cp = (r, cp')" "j \<noteq> rq_fresh_journal rq"
  shows "get_entry j (cp_reversal cp') = get_entry j (cp_reversal cp)"
  using assms(1)
proof (cases rule: authorize_innerE)
  case (judged k cp1 d ok ch cp2)
  then show ?thesis
    using judge_journal [OF judged(5) assms(2)] classified_fields(2) [OF judged(1)] budget_stage_frame [OF judged(4)] by simp
qed (auto dest!: classified_fields(2) refuse_frame budget_stage_frame)

lemma authorize_journal:
  assumes "authorize en w rq cp = (r, cp')" "j \<noteq> rq_fresh_journal rq"
  shows "get_entry j (cp_reversal cp') = get_entry j (cp_reversal cp)"
  using assms(1)
proof (cases rule: authorizeE)
  case (failure e cp1)
  then show ?thesis using authorize_inner_journal [OF failure(1) assms(2)] by simp
qed (auto dest: authorize_inner_journal [OF _ assms(2)])

lemma journal_stage_filed: "filed (cp_reversal cp) \<Longrightarrow> filed (cp_reversal (journal_stage en rq p cp))"
  by (auto simp: journal_stage_def open_journal_def Let_def filed_def get_entry_def map_of_update)

lemma abandon_stage_filed:
  assumes "abandon_stage en rq v cp = (r, cp')" "filed (cp_reversal cp)"
  shows "filed (cp_reversal cp')"
proof (cases "vd_allowed v \<or> map_of (re_journal (cp_reversal cp)) (rq_fresh_journal rq) = None")
  case True
  with assms show ?thesis by (auto simp: abandon_stage_def abandon_def require_entry_def split: if_splits)
next
  case False
  then obtain e where "map_of (re_journal (cp_reversal cp)) (rq_fresh_journal rq) = Some e" "\<not> vd_allowed v" by blast
  with assms show ?thesis
    by (auto simp: abandon_stage_def abandon_def require_entry_def Let_def filed_put)
qed

lemma judge_filed:
  assumes "judge en w rq k d ok ch cp = (r, cp')" "filed (cp_reversal cp)"
  shows "filed (cp_reversal cp')"
  using assms(1)
proof (cases rule: judgeE)
  case (abandon_error p cp1 a cp2 fs v e)
  show ?thesis
    by (rule abandon_stage_filed [OF abandon_error(5) journal_stage_filed])
       (use assms(2) plan_stage_frame [OF abandon_error(1)] record_attempt_engine [OF abandon_error(2)] in simp)
next
  case (judged p cp1 a cp2 fs v cp3)
  have "filed (cp_reversal cp3)"
    by (rule abandon_stage_filed [OF judged(5) journal_stage_filed])
       (use assms(2) plan_stage_frame [OF judged(1)] record_attempt_engine [OF judged(2)] in simp)
  then show ?thesis by (simp add: judged(7))
qed (use assms(2) in \<open>auto dest!: plan_stage_frame record_attempt_engine\<close>)

lemma authorize_filed:
  assumes "authorize en w rq cp = (r, cp')" "filed (cp_reversal cp)"
  shows "filed (cp_reversal cp')"
proof -
  have inner: "filed (cp_reversal cp1)" if "authorize_inner en w rq cp = (x, cp1)" for x cp1
    using that
  proof (cases rule: authorize_innerE)
    case (judged k cp2 d ok ch cp3)
    show ?thesis
      by (rule judge_filed [OF judged(5)])
         (use assms(2) classified_fields(2) [OF judged(1)] budget_stage_frame [OF judged(4)] in simp)
  qed (use assms(2) in \<open>auto dest!: classified_fields(2) refuse_frame budget_stage_frame\<close>)
  from assms(1) show ?thesis
    by (cases rule: authorizeE) (auto dest: inner)
qed

lemma authorize_refused_entry:
  assumes "authorize en w rq cp = (r, cp')" "\<not> (\<exists>v. r = Inr v \<and> vd_allowed v)" "get_entry j (cp_reversal cp') = Some e"
  shows "get_entry j (cp_reversal cp) = Some e \<or> je_state e = ABANDONED"
proof -
  have inner: ?thesis if "authorize_inner en w rq cp = (x, cp1)" "\<not> (\<exists>v. x = Inr v \<and> vd_allowed v)"
    "get_entry j (cp_reversal cp1) = Some e" for x cp1
    using authorize_inner_frame [OF that(1)] that(2,3) unfolding only_abandoned_def by blast
  from assms(1) show ?thesis
  proof (cases rule: authorizeE)
    case (failure x cp1)
    then show ?thesis using inner [OF failure(1)] assms(3) by simp
  next
    case (verdict v)
    then show ?thesis using inner [OF verdict(1)] assms(2,3) by simp
  next
    case broken
    then show ?thesis using inner [OF broken(1)] assms(3) by simp
  qed
qed

text \<open>So do abandoning and confirming.\<close>

lemma px_abandon_journal:
  assumes "filed (cp_reversal cp)"
  shows "filed (cp_reversal (px_abandon en v reason now cp))"
    "vd_journal_id v \<noteq> Some j \<Longrightarrow> get_entry j (cp_reversal (px_abandon en v reason now cp)) = get_entry j (cp_reversal cp)"
    "vd_journal_id v = Some j \<Longrightarrow> get_entry j (cp_reversal (px_abandon en v reason now cp)) = Some e \<Longrightarrow> je_state e = ABANDONED"
proof -
  let ?P = "\<lambda>cp'. filed (cp_reversal cp') \<and> (vd_journal_id v \<noteq> Some j \<longrightarrow> get_entry j (cp_reversal cp') = get_entry j (cp_reversal cp))
    \<and> (vd_journal_id v = Some j \<longrightarrow> get_entry j (cp_reversal cp') = Some e \<longrightarrow> je_state e = ABANDONED)"
  have "?P (px_abandon en v reason now cp)"
  proof (cases "vd_journal_id v")
    case None
    with assms show ?thesis by (simp add: px_abandon_def)
  next
    case (Some jid)
    show ?thesis
    proof (cases "map_of (re_journal (cp_reversal cp)) jid")
      case None
      with assms Some show ?thesis by (auto simp: px_abandon_def abandon_def require_entry_def get_entry_def)
    next
      case (Some e0)
      define e1 where "e1 = transition ABANDONED reason now e0"
      have "je_id e0 = jid" using assms Some by (simp add: filed_def get_entry_def)
      then have e1: "je_id e1 = jid" "je_state e1 = ABANDONED" by (simp_all add: e1_def)
      have "cp_reversal (px_abandon en v reason now cp) = put_entry e1 (cp_reversal cp)"
        using Some \<open>vd_journal_id v = Some jid\<close> by (simp add: px_abandon_def abandon_def require_entry_def Let_def e1_def)
      then show ?thesis
        using assms e1 \<open>vd_journal_id v = Some jid\<close> by (auto simp: get_entry_def put_entry_def map_of_update filed_def)
    qed
  qed
  then show "filed (cp_reversal (px_abandon en v reason now cp))"
    "vd_journal_id v \<noteq> Some j \<Longrightarrow> get_entry j (cp_reversal (px_abandon en v reason now cp)) = get_entry j (cp_reversal cp)"
    "vd_journal_id v = Some j \<Longrightarrow> get_entry j (cp_reversal (px_abandon en v reason now cp)) = Some e \<Longrightarrow> je_state e = ABANDONED"
    by blast+
qed

lemma abandon_each_journal:
  assumes "filed (cp_reversal cp)"
  shows "filed (cp_reversal (abandon_each en clock n vs cp))
    \<and> (Some j \<notin> vd_journal_id ` set vs \<longrightarrow> get_entry j (cp_reversal (abandon_each en clock n vs cp)) = get_entry j (cp_reversal cp))
    \<and> (Some j \<in> vd_journal_id ` set vs \<longrightarrow>
        (\<forall>e. get_entry j (cp_reversal (abandon_each en clock n vs cp)) = Some e \<longrightarrow> je_state e = ABANDONED))"
  using assms
proof (induction vs arbitrary: n cp)
  case (Cons v vs)
  let ?cp = "px_abandon en v UNANSWERED (clock n) cp"
  note f = px_abandon_journal [OF Cons.prems, where en = en and v = v and reason = UNANSWERED and now = "clock n"]
  note IH = Cons.IH [OF f(1), of "Suc n"]
  show ?case
  proof (cases "Some j \<in> vd_journal_id ` set vs")
    case True
    then show ?thesis using IH by simp
  next
    case False
    then show ?thesis using IH f(2,3) [of j] by auto
  qed
qed simp

lemma commit_journal:
  assumes "commit jid aid result now eng = (Inr x, eng', ev)" "filed eng"
  shows "filed eng'" "j \<noteq> jid \<Longrightarrow> get_entry j eng' = get_entry j eng" "\<exists>e. get_entry jid eng' = Some e \<and> je_state e = COMMITTED"
  using assms
  by (auto simp: commit_def require_entry_def filed_def get_entry_def put_entry_def map_of_update Let_def
      split: sum.splits option.splits if_splits)

lemma confirm_journal:
  assumes "confirm en v result now cp = (r, v', cp')" "filed (cp_reversal cp)" "vd_allowed v" "vd_journal_id v = Some jid"
  shows "filed (cp_reversal cp') \<and> (\<forall>j. j \<noteq> jid \<longrightarrow> get_entry j (cp_reversal cp') = get_entry j (cp_reversal cp))
    \<and> (get_entry jid (cp_reversal cp') = get_entry jid (cp_reversal cp) \<and> isl r
       \<or> (\<exists>e. get_entry jid (cp_reversal cp') = Some e \<and> je_state e = COMMITTED))"
proof -
  obtain x eng ev where c: "commit jid (vd_action_id v) result now (cp_reversal cp) = (x, eng, ev)" using prod_cases3 by blast
  show ?thesis
  proof (cases x)
    case (Inl e)
    then have "eng = cp_reversal cp" using c by (auto simp: commit_def Let_def split: sum.splits)
    with c Inl show ?thesis using assms by (auto simp: confirm_def)
  next
    case (Inr e)
    have "cp_reversal cp' = eng"
      using assms(1) c Inr assms(3,4) by (auto simp: confirm_def Let_def dest!: charge_session_Inr split: sum.splits)
    then show ?thesis using commit_journal [OF c [unfolded Inr] assms(2)] by blast
  qed
qed


section \<open>The calls in flight\<close>

lemma pend_pop_None: "pend_pop k d = (None, rest) \<Longrightarrow> rest = d"
  by (induction k d arbitrary: rest rule: pend_pop.induct) (auto split: if_splits prod.splits)

lemma pend_pop_Some:
  "pend_pop k d = (Some v, rest) \<Longrightarrow> \<exists>k' pre post. d = pre @ (k', v) # post \<and> rest = pre @ post \<and> py_eq k' k"
proof (induction k d arbitrary: rest rule: pend_pop.induct)
  case (2 k k' v' d)
  show ?case
  proof (cases "py_eq k' k")
    case True
    with 2 have "(k', v') # d = [] @ (k', v) # d \<and> rest = [] @ d" by simp
    with True show ?thesis by blast
  next
    case False
    then obtain rest' where r: "pend_pop k d = (Some v, rest')" "rest = (k', v') # rest'" using 2(2) by (auto split: prod.splits)
    from 2(1) [OF False r(1)] obtain k'' pre post where "d = pre @ (k'', v) # post" "rest' = pre @ post" "py_eq k'' k" by blast
    then have "(k', v') # d = ((k', v') # pre) @ (k'', v) # post \<and> rest = ((k', v') # pre) @ post \<and> py_eq k'' k" by (simp add: r(2))
    then show ?thesis by blast
  qed
qed simp

lemma pend_put_new: "(\<And>k' v'. (k', v') \<in> set d \<Longrightarrow> \<not> py_eq k' k) \<Longrightarrow> pend_put k v d = d @ [(k, v)]"
  by (induction k v d rule: pend_put.induct) auto

text \<open>The history of a run: the call that opened an entry, and an answer to it.\<close>

definition asked :: "'w px_input list \<Rightarrow> val \<Rightarrow> string \<Rightarrow> bool" where
  "asked hist k j \<longleftrightarrow> (\<exists>w dr m. FromClient w dr (Some (VDict m)) \<in> set hist \<and> gated (VDict m)
     \<and> map_of m ''id'' = Some k \<and> dr_journal dr = j)"

definition answered :: "'w px_input list \<Rightarrow> string \<Rightarrow> bool" where
  "answered hist j \<longleftrightarrow> (\<exists>pre k now m k' post. hist = pre @ FromServer now (Some (VDict m)) # post \<and> asked pre k j
     \<and> map_of m ''id'' = Some k' \<and> py_eq k k' \<and> map_of m ''error'' = None)"

lemma asked_mono: "asked hist k j \<Longrightarrow> asked (hist @ later) k j"
  by (auto simp: asked_def)

lemma answered_mono: "answered hist j \<Longrightarrow> answered (hist @ later) j"
  by (fastforce simp: answered_def)

text \<open>Sessions in which the client uses request ids as the protocol asks, hashable and not those of a
  call in flight, and journal identifiers are drawn fresh.\<close>

definition polite :: "'w px_input \<Rightarrow> 'pk proxy \<Rightarrow> bool" where
  "polite i px \<longleftrightarrow> (case i of
      FromClient w dr line \<Rightarrow> get_entry (dr_journal dr) (engine_of px) = None \<and>
        (case line of Some (VDict m) \<Rightarrow> (case map_of m ''id'' of None \<Rightarrow> True
           | Some k \<Rightarrow> hashable k \<and> list_all (\<lambda>p. \<not> py_eq (fst p) k) (px_pending px)) | _ \<Rightarrow> True)
    | _ \<Rightarrow> True)"

fun orderly :: "('sk, 'pk, 'w) env \<Rightarrow> 'sk proxy_conf \<Rightarrow> 'w px_input list \<Rightarrow> 'pk proxy \<Rightarrow> bool" where
  "orderly en pc [] px = True"
| "orderly en pc (i # is) px =
     (polite i px \<and> (case px_do en pc i px of None \<Rightarrow> True | Some px' \<Rightarrow> orderly en pc is px'))"

text \<open>\<open>J\<close> are the entries from before the session.\<close>

definition in_flight :: "'pk proxy \<Rightarrow> string set" where
  "in_flight px = {j. Some j \<in> vd_journal_id ` snd ` set (px_pending px)}"

definition tracked :: "string set \<Rightarrow> 'w px_input list \<Rightarrow> 'pk proxy \<Rightarrow> bool" where
  "tracked J hist px \<longleftrightarrow> filed (engine_of px)
     \<and> distinct (map (vd_journal_id \<circ> snd) (px_pending px))
     \<and> (\<forall>(k, v) \<in> set (px_pending px). vd_allowed v \<and> (\<exists>j e. vd_journal_id v = Some j \<and> j \<notin> J \<and> asked hist k j
          \<and> get_entry j (engine_of px) = Some e \<and> je_state e = PLANNED))
     \<and> (\<forall>j \<in> J. get_entry j (engine_of px) \<noteq> None)
     \<and> (\<forall>j e. j \<notin> J \<longrightarrow> get_entry j (engine_of px) = Some e \<longrightarrow> je_state e \<in> {PLANNED, COMMITTED, ABANDONED}
          \<and> (je_state e = COMMITTED \<longrightarrow> answered hist j)
          \<and> (je_state e = PLANNED \<longrightarrow> px_pumping px \<longrightarrow> j \<in> in_flight px))
     \<and> (px_open px \<or> px_pending px = [])"

lemma tracked_hist: "tracked J hist px \<Longrightarrow> tracked J (hist @ later) px"
  unfolding tracked_def using asked_mono answered_mono by blast

lemma tracked_frame:
  "tracked J hist px \<Longrightarrow> engine_of px' = engine_of px \<Longrightarrow> px_pending px' = px_pending px \<Longrightarrow>
   px_open px' = px_open px \<Longrightarrow> (px_pumping px' \<longrightarrow> px_pumping px) \<Longrightarrow> tracked J hist px'"
  unfolding tracked_def in_flight_def by simp


lemma tracked_parts:
  assumes "tracked J hist px"
  shows "filed (engine_of px)" "distinct (map (vd_journal_id \<circ> snd) (px_pending px))"
    "j \<in> J \<Longrightarrow> get_entry j (engine_of px) \<noteq> None"
    "j \<notin> J \<Longrightarrow> get_entry j (engine_of px) = Some e \<Longrightarrow> je_state e \<in> {PLANNED, COMMITTED, ABANDONED}
       \<and> (je_state e = COMMITTED \<longrightarrow> answered hist j) \<and> (je_state e = PLANNED \<longrightarrow> px_pumping px \<longrightarrow> j \<in> in_flight px)"
    "px_open px \<or> px_pending px = []"
  using assms unfolding tracked_def by blast+

lemma tracked_pending:
  assumes "tracked J hist px" "(k, v) \<in> set (px_pending px)"
  obtains j e where "vd_allowed v" "vd_journal_id v = Some j" "j \<notin> J" "asked hist k j"
    "get_entry j (engine_of px) = Some e" "je_state e = PLANNED"
  using assms unfolding tracked_def by blast

lemma tracked_settle:
  assumes t: "tracked J hist px" and p: "px_pending px = pre @ (k, v) # post" "vd_journal_id v = Some jid"
    and eng: "filed (engine_of px')" "\<And>j. j \<noteq> jid \<Longrightarrow> get_entry j (engine_of px') = get_entry j (engine_of px)"
      "get_entry jid (engine_of px') = Some e"
    and st: "je_state e = ABANDONED \<or> (je_state e = COMMITTED \<and> answered hist jid) \<or> (je_state e = PLANNED \<and> \<not> px_pumping px')"
    and px': "px_pending px' = pre @ post" "px_open px' = px_open px" "px_pumping px' \<longrightarrow> px_pumping px"
  shows "tracked J hist px'"
proof -
  have kv: "(k, v) \<in> set (px_pending px)" by (simp add: p(1))
  have new: "jid \<notin> J" using tracked_pending [OF t kv] p(2) by (metis option.inject)
  have other: "vd_journal_id u \<noteq> Some jid" if "(k', u) \<in> set (pre @ post)" for k' u
    using tracked_parts(2) [OF t] p that by (force simp: image_iff)
  have same: "get_entry j (engine_of px') = get_entry j (engine_of px)" if "(k', u) \<in> set (pre @ post)" "vd_journal_id u = Some j" for k' u j
    using other [OF that(1)] that(2) eng(2) by auto
  have 1: "distinct (map (vd_journal_id \<circ> snd) (px_pending px'))" using tracked_parts(2) [OF t] by (simp add: p(1) px'(1))
  have 2: "vd_allowed u \<and> (\<exists>j e. vd_journal_id u = Some j \<and> j \<notin> J \<and> asked hist k' j
      \<and> get_entry j (engine_of px') = Some e \<and> je_state e = PLANNED)" if "(k', u) \<in> set (px_pending px')" for k' u
  proof -
    have m: "(k', u) \<in> set (pre @ post)" using that px'(1) by simp
    then have "(k', u) \<in> set (px_pending px)" by (auto simp: p(1))
    from tracked_pending [OF t this] show ?thesis using same [OF m] by metis
  qed
  have 3: "get_entry j (engine_of px') \<noteq> None" if "j \<in> J" for j
    using tracked_parts(3) [OF t that] that new eng(2) [of j] by (cases "j = jid") auto
  have 4: "je_state e' \<in> {PLANNED, COMMITTED, ABANDONED} \<and> (je_state e' = COMMITTED \<longrightarrow> answered hist j)
      \<and> (je_state e' = PLANNED \<longrightarrow> px_pumping px' \<longrightarrow> j \<in> in_flight px')"
    if "j \<notin> J" "get_entry j (engine_of px') = Some e'" for j e'
  proof (cases "j = jid")
    case True
    then show ?thesis using st that(2) eng(3) by auto
  next
    case False
    then have old: "get_entry j (engine_of px) = Some e'" using eng(2) that(2) by simp
    have "j \<in> in_flight px \<Longrightarrow> j \<in> in_flight px'" using False by (auto simp: in_flight_def p px'(1))
    then show ?thesis using tracked_parts(4) [OF t that(1) old] px'(3) by blast
  qed
  have 5: "px_open px' \<or> px_pending px' = []" using tracked_parts(5) [OF t] by (simp add: p(1) px'(2))
  show ?thesis unfolding tracked_def using eng(1) 1 2 3 4 5 by blast
qed

lemma tracked_open:
  assumes t: "tracked J hist px" and fresh: "get_entry jid (engine_of px) = None"
    and eng: "filed (engine_of px')" "\<And>j. j \<noteq> jid \<Longrightarrow> get_entry j (engine_of px') = get_entry j (engine_of px)"
    and call: "(px_pending px' = px_pending px \<and> (\<forall>e. get_entry jid (engine_of px') = Some e \<longrightarrow> je_state e = ABANDONED))
      \<or> (\<exists>k v e. px_pending px' = px_pending px @ [(k, v)] \<and> vd_allowed v \<and> vd_journal_id v = Some jid \<and> asked hist k jid
          \<and> get_entry jid (engine_of px') = Some e \<and> je_state e = PLANNED)"
    and px': "px_open px" "px_open px' = px_open px" "px_pumping px' = px_pumping px"
  shows "tracked J hist px'"
proof -
  have new: "jid \<notin> J" using tracked_parts(3) [OF t] fresh by blast
  have "j \<noteq> jid" if "(k, u) \<in> set (px_pending px)" "vd_journal_id u = Some j" for k u j
    using tracked_pending [OF t that(1)] that(2) fresh by (metis option.distinct(1) option.inject)
  then have same: "get_entry j (engine_of px') = get_entry j (engine_of px)" "j \<noteq> jid"
    if "(k, u) \<in> set (px_pending px)" "vd_journal_id u = Some j" for k u j
    using that eng(2) by auto
  have old: "vd_allowed u \<and> (\<exists>j e. vd_journal_id u = Some j \<and> j \<notin> J \<and> asked hist k j
      \<and> get_entry j (engine_of px') = Some e \<and> je_state e = PLANNED)" if "(k, u) \<in> set (px_pending px)" for k u
    using tracked_pending [OF t that] same(1) [OF that] by metis
  have 1: "distinct (map (vd_journal_id \<circ> snd) (px_pending px'))"
    using call tracked_parts(2) [OF t] same(2) by (elim disjE exE conjE) (auto, force)
  have 2: "vd_allowed u \<and> (\<exists>j e. vd_journal_id u = Some j \<and> j \<notin> J \<and> asked hist k j
      \<and> get_entry j (engine_of px') = Some e \<and> je_state e = PLANNED)" if "(k, u) \<in> set (px_pending px')" for k u
    using call
  proof
    assume "px_pending px' = px_pending px \<and> (\<forall>e. get_entry jid (engine_of px') = Some e \<longrightarrow> je_state e = ABANDONED)"
    then show ?thesis using that old by simp
  next
    assume "\<exists>k v e. px_pending px' = px_pending px @ [(k, v)] \<and> vd_allowed v \<and> vd_journal_id v = Some jid \<and> asked hist k jid
          \<and> get_entry jid (engine_of px') = Some e \<and> je_state e = PLANNED"
    then show ?thesis using that old new by auto
  qed
  have 3: "get_entry j (engine_of px') \<noteq> None" if "j \<in> J" for j
    using tracked_parts(3) [OF t that] that new eng(2) [of j] by (cases "j = jid") auto
  have 4: "je_state e' \<in> {PLANNED, COMMITTED, ABANDONED} \<and> (je_state e' = COMMITTED \<longrightarrow> answered hist j)
      \<and> (je_state e' = PLANNED \<longrightarrow> px_pumping px' \<longrightarrow> j \<in> in_flight px')"
    if "j \<notin> J" "get_entry j (engine_of px') = Some e'" for j e'
  proof (cases "j = jid")
    case True
    then show ?thesis using call that(2) by (auto simp: in_flight_def)
  next
    case False
    then have old: "get_entry j (engine_of px) = Some e'" using eng(2) that(2) by simp
    have "set (px_pending px) \<subseteq> set (px_pending px')" using call by auto
    then have "j \<in> in_flight px \<Longrightarrow> j \<in> in_flight px'" unfolding in_flight_def by blast
    then show ?thesis using tracked_parts(4) [OF t that(1) old] px'(3) by blast
  qed
  show ?thesis unfolding tracked_def using eng(1) 1 2 3 4 px' by blast
qed


lemma tracked_shutdown:
  assumes t: "tracked J hist px" and o: "px_open px"
  shows "tracked J hist (shutdown en clock px)"
proof -
  let ?px = "shutdown en clock px" and ?vs = "map snd (px_pending px)"
  have eq: "px_cp ?px = abandon_each en clock 0 ?vs (px_cp px)" "px_pending ?px = []" "px_pumping ?px = px_pumping px"
    by (simp_all add: shutdown_def Let_def)
  note a = abandon_each_journal [OF tracked_parts(1) [OF t], of en clock 0 ?vs]
  have J: "Some j \<notin> vd_journal_id ` set ?vs" if "j \<in> J" for j
    using that by (auto elim!: tracked_pending [OF t])
  have 3: "get_entry j (engine_of ?px) \<noteq> None" if "j \<in> J" for j
    using a [of j] J [OF that] tracked_parts(3) [OF t that] by (simp add: eq)
  have 4: "je_state e \<in> {PLANNED, COMMITTED, ABANDONED} \<and> (je_state e = COMMITTED \<longrightarrow> answered hist j)
      \<and> (je_state e = PLANNED \<longrightarrow> px_pumping ?px \<longrightarrow> j \<in> in_flight ?px)"
    if "j \<notin> J" "get_entry j (engine_of ?px) = Some e" for j e
  proof (cases "Some j \<in> vd_journal_id ` set ?vs")
    case True
    then show ?thesis using a [of j] that(2) by (simp add: eq)
  next
    case False
    then have old: "get_entry j (engine_of px) = Some e" using a [of j] that(2) by (simp add: eq)
    have "j \<notin> in_flight px" using False by (simp add: in_flight_def)
    with tracked_parts(4) [OF t that(1) old] show ?thesis unfolding eq(3) by blast
  qed
  show ?thesis unfolding tracked_def using a 3 4 eq(2) by (simp add: eq(1))
qed

lemma tracked_gate_call:
  assumes g: "gate_call en pc w dr m p i tool a px = (r, px')" and t: "tracked J hist px" and fc: "en_fail_closed en"
    and line: "gated (VDict m)" "map_of m ''id'' = Some i"
    and pol: "polite (FromClient w dr (Some (VDict m))) px" "px_open px"
  shows "tracked J (hist @ [FromClient w dr (Some (VDict m))]) px' \<and> px_open px'"
proof -
  let ?hist = "hist @ [FromClient w dr (Some (VDict m))]" and ?rq = "request_of pc dr tool a"
  have fresh: "get_entry (dr_journal dr) (engine_of px) = None" and h: "hashable i"
    and new: "list_all (\<lambda>p. \<not> py_eq (fst p) i) (px_pending px)" using pol(1) line(2) by (simp_all add: polite_def)
  have jid: "rq_fresh_journal ?rq = dr_journal dr" by (simp add: request_of_def)
  obtain x cp' where auth: "authorize en w ?rq (px_cp px) = (x, cp')" by fastforce
  note t' = tracked_hist [OF t, of "[FromClient w dr (Some (VDict m))]"]
  have frame: "get_entry j (cp_reversal cp') = get_entry j (engine_of px)" if "j \<noteq> dr_journal dr" for j
    using authorize_journal [OF auth] that jid by simp
  have px': "px_cp px' = cp'" "px_open px' = px_open px" "px_pumping px' = px_pumping px"
    using g auth by (auto simp: gate_call_def send_client_def send_up_def Let_def split: sum.splits if_splits)
  show ?thesis
  proof (cases "\<exists>v. x = Inr v \<and> vd_allowed v")
    case False
    have state: "je_state e = ABANDONED" if "get_entry (dr_journal dr) (cp_reversal cp') = Some e" for e
      using authorize_refused_entry [OF auth False that] fresh by simp
    have "px_pending px' = px_pending px"
      using g auth False by (auto simp: gate_call_def send_client_def Let_def split: sum.splits if_splits)
    moreover have "filed (cp_reversal cp')" by (rule authorize_filed [OF auth tracked_parts(1) [OF t]])
    ultimately show ?thesis
      using tracked_open [OF t' fresh, of px'] frame state px' pol(2) by simp
  next
    case True
    then obtain v where v: "x = Inr v" "vd_allowed v" by blast
    note f = authorize_allowed [OF auth [unfolded v(1)] v(2) fc]
    obtain e where e: "get_entry (dr_journal dr) (cp_reversal cp') = Some e" "je_state e = PLANNED"
      using f(6) by (auto simp: journal_stage_def jid open_journal_def Let_def get_entry_def)
    have "filed (cp_reversal cp')" by (rule authorize_filed [OF auth tracked_parts(1) [OF t]])
    moreover have "px_pending px' = px_pending px @ [(i, v)]"
      using g auth v h new by (auto simp: gate_call_def send_up_def Let_def list_all_iff intro!: pend_put_new) fastforce
    moreover have "asked ?hist i (dr_journal dr)" using line by (auto simp: asked_def)
    ultimately show ?thesis
      using tracked_open [OF t' fresh, of px'] frame e v(2) f(5) px' pol(2) jid by simp
  qed
qed


lemma tracked_upstream:
  assumes u: "on_upstream_line en now line px = (r, px1)" and t: "tracked J hist px"
    and px': "engine_of px' = engine_of px1" "px_pending px' = px_pending px1" "px_open px' = px_open px1"
      "px_pumping px' \<longrightarrow> px_pumping px \<and> \<not> isl r"
  shows "tracked J (hist @ [FromServer now line]) px'"
proof -
  note t' = tracked_hist [OF t, of "[FromServer now line]"]
  from u show ?thesis
  proof (cases rule: on_upstream_lineE)
    case ignored
    then show ?thesis using px' by (intro tracked_frame [OF t']) auto
  next
    case (unknown m i rest)
    then show ?thesis using px' by (intro tracked_frame [OF t']) (auto dest: pend_pop_None)
  next
    case (failed m i v rest err)
    obtain k pre post where p: "px_pending px = pre @ (k, v) # post" "rest = pre @ post" using pend_pop_Some [OF failed(3)] by blast
    then have "(k, v) \<in> set (px_pending px)" by simp
    then obtain jid e where v: "vd_journal_id v = Some jid" "get_entry jid (engine_of px) = Some e" "jid \<notin> J"
      using tracked_pending [OF t] by metis
    let ?cp = "px_abandon en v (''upstream returned an error: '' @ py_str (en_rt en) err) now (px_cp px)"
    note a = px_abandon_journal [OF tracked_parts(1) [OF t], where en = en and v = v
        and reason = "''upstream returned an error: '' @ py_str (en_rt en) err" and now = now]
    have "je_id e = jid" using tracked_parts(1) [OF t] v(2) by (auto simp: filed_def)
    then obtain e' where e': "get_entry jid (cp_reversal ?cp) = Some e'"
      using v by (auto simp: px_abandon_def abandon_def require_entry_def get_entry_def put_entry_def map_of_update Let_def)
    show ?thesis
      by (rule tracked_settle [OF t' p(1) v(1), where e = e']) (use px' failed(6) p(2) a e' v(1) in auto)
  next
    case (answered m i v rest x v' cp')
    obtain k pre post where p: "px_pending px = pre @ (k, v) # post" "rest = pre @ post" "py_eq k i" using pend_pop_Some [OF answered(3)] by blast
    then have "(k, v) \<in> set (px_pending px)" by simp
    then obtain jid e where v: "vd_allowed v" "vd_journal_id v = Some jid" "get_entry jid (engine_of px) = Some e" "je_state e = PLANNED"
      "asked hist k jid" using tracked_pending [OF t] by metis
    note c = confirm_journal [OF answered(5) tracked_parts(1) [OF t] v(1,2)]
    have ans: "answered (hist @ [FromServer now line]) jid"
      unfolding answered_def answered(1) using v(5) answered(2,4) p(3) by blast
    obtain e' where e': "get_entry jid (cp_reversal cp') = Some e'" "je_state e' = COMMITTED \<or> (e' = e \<and> isl x)"
      using c v(3) by metis
    have "je_state e' = ABANDONED \<or> (je_state e' = COMMITTED \<and> answered (hist @ [FromServer now line]) jid)
        \<or> (je_state e' = PLANNED \<and> \<not> px_pumping px')"
      using e'(2) ans v(4) px'(4) answered(6) by (cases x) auto
    then show ?thesis
      by (intro tracked_settle [OF t' p(1) v(2), where e = e']) (use px' answered(7) p(2) c e'(1) in auto)
  qed
qed

lemma tracked_do:
  assumes d: "px_do en pc i px = Some px'" and t: "tracked J hist px" and fc: "en_fail_closed en" and pol: "polite i px"
  shows "tracked J (hist @ [i]) px'"
  using d
proof (cases rule: px_doE)
  case idle
  then show ?thesis using tracked_hist [OF t] by simp
next
  case (client w dr line)
  from client(3) show ?thesis
  proof (cases rule: on_client_lineE)
    case (called m p k tool a)
    show ?thesis using tracked_gate_call [OF called(8) t fc called(2,3)] pol client(1,2) called(1) by simp
  next
    case ignored
    then show ?thesis using tracked_hist [OF t] by simp
  qed (rule tracked_frame [OF tracked_hist [OF t, of "[i]"]]; simp add: send_up_def send_client_def)+
next
  case (client_error w dr line e px1)
  have "tracked J (hist @ [i]) px1 \<and> px_open px1"
    using client_error(3)
  proof (cases rule: on_client_lineE)
    case (called m p k tool a)
    show ?thesis using tracked_gate_call [OF called(8) t fc called(2,3)] pol client_error(1,2) called(1) by simp
  qed (use tracked_hist [OF t] client_error(2) in auto)
  then show ?thesis unfolding client_error(4) using tracked_shutdown by blast
next
  case (eof clock)
  show ?thesis unfolding eof(3) by (rule tracked_shutdown [OF tracked_hist [OF t] eof(2)])
next
  case (server now line px1)
  show ?thesis unfolding server(1)
    by (rule tracked_upstream [OF server(3) t]) (use server in \<open>auto simp: send_client_def on_upstream_line_def\<close>)
next
  case (server_error now line e px1)
  show ?thesis unfolding server_error(1)
    by (rule tracked_upstream [OF server_error(3) t]) (simp_all add: server_error(4))
qed


lemma tracked_run:
  "px_run en pc is px = Some px' \<Longrightarrow> tracked J hist px \<Longrightarrow> en_fail_closed en \<Longrightarrow> orderly en pc is px \<Longrightarrow>
   tracked J (hist @ is) px'"
proof (induction "is" arbitrary: px hist)
  case (Cons i "is")
  then obtain px1 where px1: "px_do en pc i px = Some px1" "px_run en pc is px1 = Some px'" by (auto split: option.splits)
  have "tracked J (hist @ [i]) px1" by (rule tracked_do [OF px1(1) Cons.prems(2,3)]) (use Cons.prems(4) in simp)
  from Cons.IH [OF px1(2) this Cons.prems(3)] show ?case using Cons.prems(4) px1(1) by simp
qed simp

lemma tracked_start: "engine_inv (cp_reversal cp) \<Longrightarrow> tracked (dkeys (re_journal (cp_reversal cp))) [] (new_proxy cp)"
  by (auto simp: tracked_def new_proxy_def filed_start get_entry_def map_of_None_dkeys dest: map_of_Some_dkeys)


section \<open>A session\<close>

text \<open>The payment, asked by a client under request id 7 and answered by the server.\<close>

definition pay_conf :: "string proxy_conf" where
  "pay_conf = \<lparr>pc_caller = \<lparr>ca_actor_id = ''sub'', ca_actor_private_key = ''sub'', ca_delegation_id = ''d2'', ca_session_id = ''s''\<rparr>,
     pc_action_of = default_action_of, pc_risk_of = \<lambda>_ _. 40\<rparr>"

definition pay_draws :: draws where
  "pay_draws = \<lparr>dr_now = 20, dr_abandon_at = 20, dr_action = ''a9'', dr_plan = ''p9'', dr_journal = ''j9'', dr_end = \<lambda>_. 30\<rparr>"

definition pay_params :: args where
  "pay_params = [(''name'', VStr ''pay''), (''arguments'', VDict [(''amount'', VInt 100)])]"

definition pay_message :: "(string \<times> val) list" where
  "pay_message = [(''id'', VInt 7), (''method'', VStr ''tools/call''), (''params'', VDict pay_params)]"

definition pay_answer :: "(string \<times> val) list" where
  "pay_answer = [(''id'', VInt 7), (''result'', VDict [(''id'', VStr ''x1'')])]"

definition pay_inputs :: "unit px_input list" where
  "pay_inputs = [FromClient () pay_draws (Some (VDict pay_message)), FromServer 25 (Some (VDict pay_answer)), EndOfInput (\<lambda>_. 30)]"

definition pay_sent :: val where
  "pay_sent = forwarded pay_message pay_params [(''amount'', VInt 100)] (fst pay_out)"

definition pay_asked :: "string proxy" where
  "pay_asked = \<lparr>px_cp = snd pay_out, px_pending = [(VInt 7, fst pay_out)], px_stranded = [], px_upstream = [pay_sent],
     px_client = [], px_open = True, px_pumping = True\<rparr>"

definition pay_over :: "string proxy" where
  "pay_over = \<lparr>px_cp = paid_cp, px_pending = [], px_stranded = [], px_upstream = [pay_sent],
     px_client = [Relayed (Some (VDict pay_answer))], px_open = False, px_pumping = True\<rparr>"

lemma pay_first: "px_do pay_env pay_conf (FromClient () pay_draws (Some (VDict pay_message))) (new_proxy grant_cp) = Some pay_asked"
proof -
  have rq: "request_of pay_conf pay_draws ''pay'' [(''amount'', VInt 100)] = pay_rq"
    by (simp add: request_of_def pay_conf_def pay_draws_def pay_rq_def default_action_of_def)
  have "call_params pay_message = Inr pay_params" "map_of pay_message ''id'' = Some (VInt 7)" "gated (VDict pay_message)"
    "call_tool pay_params = VStr ''pay''" "call_args pay_params = VDict [(''amount'', VInt 100)]"
    by (simp_all add: call_params_def or_empty_def pay_message_def pay_params_def GATED_METHOD_def call_tool_def call_args_def)
  moreover have "gate_call pay_env pay_conf () pay_draws pay_message pay_params (VInt 7) ''pay'' [(''amount'', VInt 100)] (new_proxy grant_cp)
      = (Inr (), pay_asked)"
    using pay_authorize pay_out_verdict(3) by (simp add: gate_call_def rq new_proxy_def send_up_def pay_asked_def pay_sent_def)
  ultimately show ?thesis by (simp add: on_client_line_def opt_none_def new_proxy_def)
qed

lemma pay_rest: "px_run pay_env pay_conf [FromServer 25 (Some (VDict pay_answer)), EndOfInput (\<lambda>_. 30)] pay_asked = Some pay_over"
proof -
  obtain e v' where c: "confirm pay_env (fst pay_out) (VDict [(''id'', VStr ''x1'')]) 25 (snd pay_out) = (Inr (Some e), v', paid_cp)"
    using pay_confirm(1) by blast
  show ?thesis
    by (simp add: pay_asked_def on_upstream_line_def pay_answer_def c opt_none_def send_client_def shutdown_def pay_over_def)
qed

lemma pay_session: "px_run pay_env pay_conf pay_inputs (new_proxy grant_cp) = Some pay_over"
  using pay_first pay_rest by (simp add: pay_inputs_def del: px_do.simps)

lemma pay_orderly: "orderly pay_env pay_conf pay_inputs (new_proxy grant_cp)"
proof -
  have "get_entry ''j9'' pay_registered = None" by (simp add: pay_registered_def new_engine_def get_entry_def)
  then have "polite (FromClient () pay_draws (Some (VDict pay_message))) (new_proxy grant_cp)"
    by (simp add: polite_def pay_message_def new_proxy_def pay_draws_def grant_engine)
  then show ?thesis
    unfolding pay_inputs_def orderly.simps pay_first by (simp add: polite_def split: option.splits del: px_do.simps)
qed

lemma grant_inv: "engine_inv (cp_reversal grant_cp)"
  unfolding grant_engine(1) pay_registered_def
  using grant_start by (intro engine_inv_new) (simp add: fresh_cp_def cp_start_def new_cplane_def new_engine_def)

section \<open>Properties\<close>

text \<open>
  C12: over any sequence of lines from the client and the server, when an internal error blocks: each
  \<open>tools/call\<close> that was sent to the server carries the tool and the arguments of an allowing verdict,
  redactions applied, and no two calls share one: the ledger holds a verdict for each call sent,
  recorded in this session and in the order of the calls.
\<close>

theorem proxy_sends_allowed_calls:
  assumes "px_run en pc inputs (new_proxy cp0) = Some px" "en_fail_closed en"
  shows "\<exists>vs new. ledger_lines (cp_ledger (px_cp px)) = ledger_lines (cp_ledger cp0) @ new
    \<and> subseq (map verdict_line vs) new \<and> list_all2 carries (filter gated (px_upstream px)) vs"
proof -
  have "sent_ok (lines_of cp0) (new_proxy cp0)" by (auto simp: sent_ok_def new_proxy_def)
  from sent_ok_run [OF assms(1) this assms(2)] show ?thesis by (simp add: sent_ok_def)
qed

lemma proxy_sends_allowed_calls_witness: "\<exists>v. carries pay_sent v \<and> verdict_line v \<in> set (lines_of paid_cp)"
proof -
  have "gated pay_sent" unfolding pay_sent_def by (rule gated_forwarded) (simp add: pay_message_def GATED_METHOD_def)
  then have sent: "filter gated (px_upstream pay_over) = [pay_sent]" "px_cp pay_over = paid_cp" by (simp_all add: pay_over_def)
  from proxy_sends_allowed_calls [OF pay_session pay_env_parts(6)] obtain vs new where
    *: "lines_of paid_cp = lines_of grant_cp @ new" "subseq (map verdict_line vs) new" "list_all2 carries [pay_sent] vs"
    unfolding sent by blast
  from *(3) obtain v where v: "vs = [v]" "carries pay_sent v" by (auto simp: list_all2_Cons1)
  then have "verdict_line v \<in> set new" using *(2) by (simp add: subseq_singleton_left)
  then show ?thesis using *(1) v(2) by auto
qed



section \<open>What the code does beyond its intent\<close>

text \<open>A request id that is already in flight: the verdict of the earlier call is forgotten, and neither
  an answer nor the end of the session will settle it.\<close>

lemma reused_id_forgets_call:
  "py_eq k k' \<Longrightarrow> pend_put k' v2 [(k, v1)] = [(k, v2)]"
  by simp

text \<open>A batch, which is a list, is not an object with a method, and is sent on as it is.\<close>

lemma batch_is_not_gated:
  "on_client_line en pc w dr (Some (VList msgs)) px = Some (Inr (), send_up (VList msgs) px)"
  by (simp add: on_client_line_def)

text \<open>A request of the server itself that happens to use an id in flight is taken for the answer: the call
  is confirmed with no result.\<close>

lemma server_request_confirms:
  assumes "px_pending px = [(VInt n, v)]" "map_of m ''id'' = Some (VInt n)" "map_of m ''method'' = Some (VStr meth)"
    "map_of m ''error'' = None" "map_of m ''result'' = None"
  shows "on_upstream_line en now (Some (VDict m)) px =
    (case confirm en v VNone now (px_cp px) of (r, v', cp') \<Rightarrow> (bind_err r (\<lambda>_. Inr ()), px\<lparr>px_pending := [], px_cp := cp'\<rparr>))"
  using assms by (simp add: on_upstream_line_def opt_none_def split: prod.splits)

text \<open>An id that is not hashable: the call was authorized and its entry is open, but it is neither sent,
  nor held, nor named among the stranded; the session ends.\<close>

lemma unhashable_id_leaks_plan:
  assumes "authorize en w (request_of pc dr tool a) (px_cp px) = (Inr v, cp')" "vd_allowed v" "\<not> hashable i"
  shows "gate_call en pc w dr m p i tool a px = (Inl (Raised (PyExn ''TypeError'' ''unhashable type'')), px\<lparr>px_cp := cp'\<rparr>)"
  using assms by (simp add: gate_call_def)

text \<open>A confirmation that raises ends the thread that reads the server: the answer is not passed on,
  the call is no longer in flight, and no later answer is read.\<close>

lemma failed_confirmation_stops_reading:
  assumes "px_pumping px" "px_pending px = [(VInt n, v)]" "map_of m ''id'' = Some (VInt n)" "map_of m ''error'' = None"
    "confirm en v (opt_none (map_of m ''result'')) now (px_cp px) = (Inl e, v', cp')"
  shows "px_do en pc (FromServer now (Some (VDict m))) px = Some (px\<lparr>px_pending := [], px_cp := cp', px_pumping := False\<rparr>)"
  using assms by (simp add: on_upstream_line_def)

end
