(* ===== verification/Bundle.thy ===== *)
theory Bundle
  imports Gate InverseRegistry
begin

text \<open>
  \<open>recoup/bundle.py\<close>: the policy as a document that another runtime evaluates, the compiler that
  writes it, and the reference evaluator. A bundle states every field, so it is a record here;
  effects and postures are strings in it.
\<close>

section \<open>The document\<close>

definition SCHEMA :: int where "SCHEMA = 2"

record bundle_rule =
  br_id :: string
  br_effect :: string
  br_tools :: "string list"
  br_actions :: "string list"
  br_agents :: "string list"
  br_require_roles :: "string list"
  br_reversibility :: "string list"
  br_min_reversibility :: "string option"
  br_min_risk :: "int option"
  br_max_risk :: "int option"
  br_min_threat_score :: "int option"
  br_redact_fields :: "string list"
  br_reason :: string

record bundle_doc =
  bu_schema :: int
  bu_policy_id :: string
  bu_default_effect :: string
  bu_reversibility :: "(string, string) dict"
  bu_reversibility_globs :: "(string \<times> string) list"
  bu_unknown_tool_reversibility :: string
  bu_rules :: "bundle_rule list"

text \<open>\<open>BundleError\<close>, with the rule that cannot be expressed and why.\<close>

datatype bundle_error = CarriesCondition string | CarriesBudget string

section \<open>Compiling\<close>

definition bundle_floor :: "rule \<Rightarrow> string option" where
  "bundle_floor r = map_option posture_value (ru_min_reversibility r)"

definition rule_to_bundle :: "rule \<Rightarrow> bundle_error + bundle_rule" where
  "rule_to_bundle r =
     (if ru_condition r \<noteq> AlwaysTrue then Inl (CarriesCondition (ru_id r))
      else if ru_budget r \<noteq> None then Inl (CarriesBudget (ru_id r))
      else Inr \<lparr>br_id = ru_id r, br_effect = effect_value (ru_effect r), br_tools = ru_tools r,
        br_actions = ru_actions r, br_agents = ru_agents r, br_require_roles = ru_require_roles r,
        br_reversibility = map posture_value (ru_reversibility r), br_min_reversibility = bundle_floor r,
        br_min_risk = ru_min_risk r, br_max_risk = ru_max_risk r, br_min_threat_score = ru_min_threat_score r,
        br_redact_fields = ru_redact_fields r,
        br_reason = (if ru_reason r = [] then ''matched rule '' @ ru_id r else ru_reason r)\<rparr>)"

fun rules_to_bundle :: "rule list \<Rightarrow> bundle_error + bundle_rule list" where
  "rules_to_bundle [] = Inr []"
| "rules_to_bundle (r # rs) =
     bind_err (rule_to_bundle r) (\<lambda>b. bind_err (rules_to_bundle rs) (\<lambda>bs. Inr (b # bs)))"

text \<open>The two tables of tools: names in a dictionary, patterns in registration order.\<close>

definition exact_kinds :: "inverse_spec list \<Rightarrow> (string, string) dict" where
  "exact_kinds specs = fold (\<lambda>s d. if is_glob (sp_tool s) then d
     else AList.update (sp_tool s) (posture_value (sp_kind s)) d) specs []"

definition glob_kinds :: "inverse_spec list \<Rightarrow> (string \<times> string) list" where
  "glob_kinds specs = map (\<lambda>s. (sp_tool s, posture_value (sp_kind s))) (filter (\<lambda>s. is_glob (sp_tool s)) specs)"

definition compile_bundle :: "policy \<Rightarrow> registry option \<Rightarrow> string \<Rightarrow> bundle_error + bundle_doc" where
  "compile_bundle p reg unknown =
     (let specs = (case reg of None \<Rightarrow> [] | Some r \<Rightarrow> registry_all r) in
      bind_err (rules_to_bundle (po_rules p)) (\<lambda>rules.
        Inr \<lparr>bu_schema = SCHEMA, bu_policy_id = po_name p @ ''@'' @ po_version p,
          bu_default_effect = effect_value (po_default p), bu_reversibility = sort_items (exact_kinds specs),
          bu_reversibility_globs = glob_kinds specs, bu_unknown_tool_reversibility = unknown, bu_rules = rules\<rparr>))"

section \<open>Classifying\<close>

definition bundle_classify :: "bundle_doc \<Rightarrow> string \<Rightarrow> string" where
  "bundle_classify b tool =
     (case map_of (bu_reversibility b) tool of
        Some k \<Rightarrow> k
      | None \<Rightarrow> (case find (\<lambda>g. fnmatchcase tool (fst g)) (bu_reversibility_globs b) of
            Some g \<Rightarrow> snd g
          | None \<Rightarrow> bu_unknown_tool_reversibility b))"

section \<open>The reference evaluator\<close>

record bundle_call =
  bc_tool :: string
  bc_action :: string
  bc_agent_id :: string
  bc_roles :: "string list"
  bc_risk :: int
  bc_threat_score :: int
  bc_reversibility :: "string option"

record bundle_verdict =
  bv_effect :: string
  bv_rule_id :: string
  bv_reason :: string
  bv_reversibility :: string
  bv_allowed :: bool

definition RANK :: "(string, int) dict" where
  "RANK = [(''unknown'', 0), (''irreversible'', 1), (''compensable'', 2), (''reversible'', 3), (''idempotent'', 4)]"

definition rank_or :: "int \<Rightarrow> string \<Rightarrow> int" where
  "rank_or dflt s = (case map_of RANK s of None \<Rightarrow> dflt | Some n \<Rightarrow> n)"

text \<open>The tests of one rule, in the order of the code; a call carries its posture already.\<close>

definition bundle_match ::
  "bundle_rule \<Rightarrow> string \<Rightarrow> string \<Rightarrow> string \<Rightarrow> string list \<Rightarrow> int \<Rightarrow> int \<Rightarrow> string \<Rightarrow> bool" where
  "bundle_match r tool action agent roles risk threat posture \<longleftrightarrow>
     matches_any_glob tool (br_tools r) \<and> matches_any_glob action (br_actions r) \<and> matches_any_glob agent (br_agents r)
     \<and> (br_require_roles r = [] \<or> list_all (\<lambda>x. x \<in> set roles) (br_require_roles r))
     \<and> (case br_min_reversibility r of None \<Rightarrow> True | Some k \<Rightarrow> \<not> rank_or (- 1) posture < rank_or 99 k)
     \<and> (br_reversibility r = [] \<or> posture \<in> set (br_reversibility r))
     \<and> (case br_min_threat_score r of None \<Rightarrow> True | Some n \<Rightarrow> \<not> threat < n)
     \<and> (case br_min_risk r of None \<Rightarrow> True | Some n \<Rightarrow> \<not> risk < n)
     \<and> (case br_max_risk r of None \<Rightarrow> True | Some n \<Rightarrow> \<not> risk > n)"

definition call_posture :: "bundle_doc \<Rightarrow> bundle_call \<Rightarrow> string" where
  "call_posture b c =
     (case bc_reversibility c of
        None \<Rightarrow> bundle_classify b (bc_tool c)
      | Some s \<Rightarrow> if s = [] then bundle_classify b (bc_tool c) else s)"

definition bundle_applies :: "bundle_doc \<Rightarrow> bundle_call \<Rightarrow> bundle_rule \<Rightarrow> bool" where
  "bundle_applies b c r = bundle_match r (bc_tool c) (bc_action c) (bc_agent_id c) (bc_roles c) (bc_risk c)
     (bc_threat_score c) (call_posture b c)"

definition bundle_evaluate :: "bundle_doc \<Rightarrow> bundle_call \<Rightarrow> bundle_verdict" where
  "bundle_evaluate b c =
     (case find (bundle_applies b c) (bu_rules b) of
        Some r \<Rightarrow> \<lparr>bv_effect = br_effect r, bv_rule_id = br_id r, bv_reason = br_reason r,
          bv_reversibility = call_posture b c, bv_allowed = (br_effect r = ''allow'')\<rparr>
      | None \<Rightarrow> \<lparr>bv_effect = bu_default_effect b, bv_rule_id = ''__default__'',
          bv_reason = ''no rule matched; default '' @ bu_default_effect b,
          bv_reversibility = call_posture b c, bv_allowed = (bu_default_effect b = ''allow'')\<rparr>)"

section \<open>The document as JSON\<close>

fun v_opt_text :: "string option \<Rightarrow> val" where
  "v_opt_text None = VNone"
| "v_opt_text (Some s) = VStr s"

definition bundle_rule_to_dict :: "bundle_rule \<Rightarrow> val" where
  "bundle_rule_to_dict r = VDict
    [(''id'', VStr (br_id r)), (''effect'', VStr (br_effect r)), (''tools'', p_strs (br_tools r)),
     (''actions'', p_strs (br_actions r)), (''agents'', p_strs (br_agents r)),
     (''require_roles'', p_strs (br_require_roles r)), (''reversibility'', p_strs (br_reversibility r)),
     (''min_reversibility'', v_opt_text (br_min_reversibility r)), (''min_risk'', v_opt_int (br_min_risk r)),
     (''max_risk'', v_opt_int (br_max_risk r)), (''min_threat_score'', v_opt_int (br_min_threat_score r)),
     (''redact_fields'', p_strs (br_redact_fields r)), (''reason'', VStr (br_reason r))]"

definition bundle_to_dict :: "bundle_doc \<Rightarrow> val" where
  "bundle_to_dict b = VDict
    [(''schema'', VInt (bu_schema b)), (''policy_id'', VStr (bu_policy_id b)),
     (''default_effect'', VStr (bu_default_effect b)),
     (''reversibility'', VDict (map (\<lambda>(t, k). (t, VStr k)) (bu_reversibility b))),
     (''reversibility_globs'', VList (map (\<lambda>(t, k). VDict [(''tool'', VStr t), (''kind'', VStr k)]) (bu_reversibility_globs b))),
     (''unknown_tool_reversibility'', VStr (bu_unknown_tool_reversibility b)),
     (''rules'', VList (map bundle_rule_to_dict (bu_rules b)))]"

end
