(* ===== verification/Prove.thy ===== *)
theory Prove
  imports Bundle
begin

text \<open>
  \<open>recoup/prove.py\<close>: the search that looks for rules that cannot fire and for rules that let through
  what cannot be undone. It evaluates the policy on finitely many calls, one for each class of
  values it believes the policy can tell apart. A report keeps the call itself where the code keeps
  its description. Rule ids are taken to differ from the reserved \<open>__default__\<close>: the code raises
  \<open>KeyError\<close> when such a rule meets a hole of the default.
\<close>

section \<open>The calls that are tried\<close>

definition REVERSIBILITIES :: "string list" where
  "REVERSIBILITIES = [''idempotent'', ''reversible'', ''compensable'', ''irreversible'', ''unknown'']"

record witness =
  wi_tool :: string
  wi_action :: string
  wi_agent_id :: string
  wi_roles :: "string list"
  wi_risk :: int
  wi_threat_score :: int
  wi_reversibility :: string

text \<open>\<open>_SIMPLE\<close>: name characters with at most one star; the \<open>$\<close> of the pattern also accepts one
  line feed at the end.\<close>

definition name_char :: "char \<Rightarrow> bool" where
  "name_char c \<longleftrightarrow> (CHR ''A'' \<le> c \<and> c \<le> CHR ''Z'') \<or> (CHR ''a'' \<le> c \<and> c \<le> CHR ''z'') \<or> (CHR ''0'' \<le> c \<and> c \<le> CHR ''9'')
     \<or> c \<in> set ''_.:/-''"

definition simple_pattern :: "string \<Rightarrow> bool" where
  "simple_pattern p \<longleftrightarrow>
     (let q = (if p \<noteq> [] \<and> last p = CHR 0x0A then butlast p else p)
      in list_all (\<lambda>c. name_char c \<or> c = CHR ''*'') q \<and> length (filter (\<lambda>c. c = CHR ''*'') q) \<le> 1)"

definition FILLER :: string where "FILLER = ''Zq7''"
definition UNMATCHED :: string where "UNMATCHED = ''Zq7-unmatched-by-anything''"

definition fill :: "string \<Rightarrow> string" where
  "fill p = concat (map (\<lambda>c. if c = CHR ''*'' then FILLER else [c]) p)"

definition sorted_set :: "('a::linorder) list \<Rightarrow> 'a list" where
  "sorted_set xs = sort (remdups xs)"

definition awkward :: "string \<Rightarrow> bool" where
  "awkward p \<longleftrightarrow> p \<noteq> ''*'' \<and> \<not> simple_pattern p"

definition glob_witnesses :: "string list \<Rightarrow> string list \<Rightarrow> string list \<times> string list" where
  "glob_witnesses patterns literals =
     (sorted_set (literals @ map fill (filter (\<lambda>p. p \<noteq> ''*'' \<and> simple_pattern p) patterns) @ [UNMATCHED]),
      sorted_set (filter awkward patterns))"

definition thresholds :: "bundle_rule list \<Rightarrow> (bundle_rule \<Rightarrow> int option) list \<Rightarrow> int list" where
  "thresholds rules keys =
     sorted_set (filter (\<lambda>v. 0 \<le> v)
       (0 # concat (map (\<lambda>r. concat (map (\<lambda>k. case k r of None \<Rightarrow> [] | Some t \<Rightarrow> [t - 1, t, t + 1]) keys)) rules)))"

definition ROLE_CAP :: nat where "ROLE_CAP = 6"

text \<open>The combinations before the cap: none, each rule's own, and the union.\<close>

definition role_combos :: "bundle_rule list \<Rightarrow> string list list" where
  "role_combos rules =
     (let required = map (\<lambda>r. sort (br_require_roles r)) rules;
          everything = sorted_set (concat required)
      in sorted_set ([] # filter (\<lambda>q. q \<noteq> []) required @ (if everything = [] then [] else [everything])))"

definition role_sets :: "bundle_rule list \<Rightarrow> string list list" where
  "role_sets rules = (if ROLE_CAP < length (role_combos rules) then take ROLE_CAP (role_combos rules) else role_combos rules)"

definition all_patterns :: "(bundle_rule \<Rightarrow> string list) \<Rightarrow> bundle_rule list \<Rightarrow> string list" where
  "all_patterns key rules = concat (map key rules)"

definition witnesses :: "bundle_doc \<Rightarrow> witness list" where
  "witnesses b =
     (let rules = bu_rules b;
          tools = fst (glob_witnesses (all_patterns br_tools rules) (map fst (bu_reversibility b)));
          actions = fst (glob_witnesses (all_patterns br_actions rules) [''read'', ''write'']);
          agents = fst (glob_witnesses (all_patterns br_agents rules) []);
          risks = thresholds rules [br_min_risk, br_max_risk];
          threats = thresholds rules [br_min_threat_score];
          roles = role_sets rules
      in [\<lparr>wi_tool = t, wi_action = a, wi_agent_id = g, wi_roles = ro, wi_risk = ri, wi_threat_score = th, wi_reversibility = rv\<rparr>.
            t \<leftarrow> tools, a \<leftarrow> actions, g \<leftarrow> agents, ro \<leftarrow> roles, ri \<leftarrow> risks, th \<leftarrow> threats, rv \<leftarrow> REVERSIBILITIES])"

section \<open>Matching\<close>

definition prove_matches :: "bundle_rule \<Rightarrow> witness \<Rightarrow> bool" where
  "prove_matches r w \<longleftrightarrow>
     list_ex (fnmatchcase (wi_tool w)) (br_tools r) \<and> list_ex (fnmatchcase (wi_action w)) (br_actions r)
     \<and> list_ex (fnmatchcase (wi_agent_id w)) (br_agents r)
     \<and> \<not> list_ex (\<lambda>role. role \<notin> set (wi_roles w)) (br_require_roles r)
     \<and> (case br_min_reversibility r of None \<Rightarrow> True | Some k \<Rightarrow> \<not> rank_or (- 1) (wi_reversibility w) < rank_or 99 k)
     \<and> (br_reversibility r = [] \<or> wi_reversibility w \<in> set (br_reversibility r))
     \<and> (case br_min_threat_score r of None \<Rightarrow> True | Some n \<Rightarrow> \<not> wi_threat_score w < n)
     \<and> (case br_min_risk r of None \<Rightarrow> True | Some n \<Rightarrow> \<not> wi_risk w < n)
     \<and> (case br_max_risk r of None \<Rightarrow> True | Some n \<Rightarrow> \<not> wi_risk w > n)"

text \<open>\<open>_static_reversibility\<close> is the lookup of the evaluator.\<close>

definition static_reversibility :: "bundle_doc \<Rightarrow> string \<Rightarrow> string" where
  "static_reversibility b tool =
     (case map_of (bu_reversibility b) tool of
        Some k \<Rightarrow> k
      | None \<Rightarrow> (case find (\<lambda>g. fnmatchcase tool (fst g)) (bu_reversibility_globs b) of
            Some g \<Rightarrow> snd g
          | None \<Rightarrow> bu_unknown_tool_reversibility b))"

section \<open>The search\<close>

record hole =
  ho_rule_id :: string
  ho_effect :: string
  ho_reversibility :: string
  ho_witness :: witness
  ho_directly_reachable :: "bool option"

record unreachable_rule =
  ur_rule_id :: string
  ur_index :: nat
  ur_shadowed_by :: "string list"

record prove_report =
  pr_unreachable :: "unreachable_rule list"
  pr_holes :: "hole list"
  pr_default_reachable :: bool
  pr_witnesses_checked :: nat
  pr_complete :: bool
  pr_incompleteness :: "(string \<times> string list) list"

definition report_ok :: "prove_report \<Rightarrow> bool" where
  "report_ok r \<longleftrightarrow> pr_unreachable r = [] \<and> pr_holes r = []"

text \<open>What the search has seen: the rules that fired, whether the default was reached, and the holes,
  a dictionary by rule.\<close>

record search =
  sc_fired :: "string list"
  sc_default_hit :: bool
  sc_holes :: "(string, hole) dict"

definition no_undo :: "string \<Rightarrow> bool" where
  "no_undo s \<longleftrightarrow> s = ''irreversible'' \<or> s = ''unknown''"

definition note_hole :: "bundle_doc \<Rightarrow> bundle_rule \<Rightarrow> witness \<Rightarrow> (string, hole) dict \<Rightarrow> (string, hole) dict" where
  "note_hole b r w holes =
     (let direct = (static_reversibility b (wi_tool w) = wi_reversibility w)
      in if (case map_of holes (br_id r) of None \<Rightarrow> True
             | Some h \<Rightarrow> direct \<and> ho_directly_reachable h \<noteq> Some True)
         then AList.update (br_id r) \<lparr>ho_rule_id = br_id r, ho_effect = br_effect r, ho_reversibility = wi_reversibility w,
                ho_witness = w, ho_directly_reachable = Some direct\<rparr> holes
         else holes)"

definition default_hole :: "witness \<Rightarrow> hole" where
  "default_hole w = \<lparr>ho_rule_id = ''__default__'', ho_effect = ''allow'', ho_reversibility = wi_reversibility w,
     ho_witness = w, ho_directly_reachable = None\<rparr>"

definition try_witness :: "bundle_doc \<Rightarrow> string list \<Rightarrow> witness \<Rightarrow> search \<Rightarrow> search" where
  "try_witness b allow w s =
     (case find (\<lambda>r. prove_matches r w) (bu_rules b) of
        Some r \<Rightarrow> s\<lparr>sc_fired := br_id r # sc_fired s,
          sc_holes := (if br_effect r = ''allow'' \<and> no_undo (wi_reversibility w) \<and> br_id r \<notin> set allow
                       then note_hole b r w (sc_holes s) else sc_holes s)\<rparr>
      | None \<Rightarrow> s\<lparr>sc_default_hit := True,
          sc_holes := (if bu_default_effect b = ''allow'' \<and> no_undo (wi_reversibility w) \<and> map_of (sc_holes s) ''__default__'' = None
                       then AList.update ''__default__'' (default_hole w) (sc_holes s) else sc_holes s)\<rparr>)"

definition search_all :: "bundle_doc \<Rightarrow> string list \<Rightarrow> witness list \<Rightarrow> search" where
  "search_all b allow ws = fold (try_witness b allow) ws \<lparr>sc_fired = [], sc_default_hit = False, sc_holes = []\<rparr>"

definition complaints :: "bundle_rule list \<Rightarrow> (string \<times> string list) list" where
  "complaints rules = filter (\<lambda>c. snd c \<noteq> [])
     (map (\<lambda>(field, key). (field, snd (glob_witnesses (all_patterns key rules) [])))
        [(''tool'', br_tools), (''action'', br_actions), (''agent'', br_agents)])"

definition unreachable_of :: "bundle_rule list \<Rightarrow> string list \<Rightarrow> unreachable_rule list" where
  "unreachable_of rules fired =
     map (\<lambda>(i, r). \<lparr>ur_rule_id = br_id r, ur_index = i, ur_shadowed_by = map br_id (take i rules)\<rparr>)
       (filter (\<lambda>(i, r). br_id r \<notin> set fired) (enumerate 0 rules))"

definition prove_analyse :: "bundle_doc \<Rightarrow> string list \<Rightarrow> prove_report" where
  "prove_analyse b allow =
     (let rules = bu_rules b;
          notes = complaints rules;
          ws = witnesses b;
          s = search_all b allow ws
      in \<lparr>pr_unreachable = (if notes = [] then unreachable_of rules (sc_fired s) else []),
          pr_holes = sort_key ho_rule_id (map snd (sc_holes s)), pr_default_reachable = sc_default_hit s,
          pr_witnesses_checked = length ws, pr_complete = (notes = []), pr_incompleteness = notes\<rparr>)"

text \<open>The exit code of \<open>recoup prove\<close>.\<close>

definition prove_exit :: "bool \<Rightarrow> prove_report \<Rightarrow> int" where
  "prove_exit strict r =
     (if pr_holes r \<noteq> [] then 1
      else if strict \<and> (pr_unreachable r \<noteq> [] \<or> \<not> pr_complete r) then 1 else 0)"

end
