(* ===== verification/BundleProps.thy ===== *)
theory BundleProps
  imports Bundle CanonInj GateProps
begin

text \<open>
  The compiler keeps the meaning of a policy: whatever compiles is evaluated, on every call, as the
  policy decision point evaluates the policy it came from, and a tool has the posture that the
  registry gives it. What does not compile is exactly what the document cannot express.
\<close>

section \<open>Rules\<close>

lemma rules_to_bundle_Inr:
  "rules_to_bundle rs = Inr bs \<longleftrightarrow> list_all2 (\<lambda>r b. rule_to_bundle r = Inr b) rs bs"
  by (induction rs arbitrary: bs) (auto simp: list_all2_Cons1)

lemma rank_posture [simp]: "rank_or d (posture_value k) = int (posture_rank k)"
  by (cases k) (simp_all add: rank_or_def RANK_def)

lemma posture_value_eq [simp]: "posture_value k = posture_value l \<longleftrightarrow> k = l"
  by (cases k; cases l) simp_all

lemma posture_value_nonempty [simp]: "posture_value k \<noteq> []"
  by (cases k) simp_all

lemma effect_value_eq [simp]: "effect_value e = effect_value f \<longleftrightarrow> e = f"
  by (cases e; cases f) simp_all

lemma rule_to_bundle_match:
  assumes "rule_to_bundle r = Inr b" "set roles = pr_roles p"
  shows "bundle_match b tool action (pr_id p) roles risk score (posture_value k) \<longleftrightarrow> static_match r tool action p score k risk"
    "ru_condition r = AlwaysTrue" "ru_budget r = None"
proof -
  show c: "ru_condition r = AlwaysTrue" and d: "ru_budget r = None" using assms(1) by (auto simp: rule_to_bundle_def split: if_splits)
  have f: "br_tools b = ru_tools r" "br_actions b = ru_actions r" "br_agents b = ru_agents r" "br_require_roles b = ru_require_roles r"
    "br_reversibility b = map posture_value (ru_reversibility r)" "br_min_reversibility b = map_option posture_value (ru_min_reversibility r)"
    "br_min_risk b = ru_min_risk r" "br_max_risk b = ru_max_risk r" "br_min_threat_score b = ru_min_threat_score r"
    using assms(1) by (auto simp: rule_to_bundle_def c d bundle_floor_def)
  have roles: "list_all (\<lambda>x. x \<in> set roles) xs \<longleftrightarrow> (\<forall>x \<in> set xs. has_role x p)" for xs
    by (simp add: list_all_iff has_role_def assms(2))
  have floor: "(case map_option posture_value m of None \<Rightarrow> True | Some x \<Rightarrow> \<not> rank_or (- 1) (posture_value k) < rank_or 99 x)
      \<longleftrightarrow> (case m of None \<Rightarrow> True | Some x \<Rightarrow> \<not> k < x)" for m
    by (cases m) (simp_all add: less_reversibility_def)
  have inset: "posture_value k \<in> set (map posture_value ks) \<longleftrightarrow> k \<in> set ks" for ks by auto
  show "bundle_match b tool action (pr_id p) roles risk score (posture_value k) \<longleftrightarrow> static_match r tool action p score k risk"
    unfolding bundle_match_def static_match_def f roles floor inset by auto
qed

text \<open>The call that the two evaluators are asked about.\<close>

definition call_of :: "pyrt \<Rightarrow> 'pk gate_call \<Rightarrow> string list \<Rightarrow> string option \<Rightarrow> bundle_call" where
  "call_of rt c roles posture = \<lparr>bc_tool = gl_tool c, bc_action = gl_action c, bc_agent_id = pr_id (gl_principal c),
     bc_roles = roles, bc_risk = gl_risk c, bc_threat_score = sr_score (scan rt MAX_EXCERPT (gl_args c)),
     bc_reversibility = posture\<rparr>"

lemma compiled_rule_applies:
  assumes "rule_to_bundle r = Inr br" "set roles = pr_roles (gl_principal c)"
    and "call_posture b (call_of rt c roles ps) = posture_value (gl_posture c)"
  shows "call_matches rt c st r = Inr (bundle_applies b (call_of rt c roles ps) br)"
  using rule_to_bundle_match [OF assms(1,2)] assms(3)
  by (simp add: call_matches_def rule_matches_def bundle_applies_def call_of_def within_budget_def)

lemma first_match_find:
  "list_all2 (\<lambda>r b. m r = Inr (P b) \<and> Q r b) rs bs \<Longrightarrow>
   (find P bs = None \<and> first_match m rs = Inr None)
   \<or> (\<exists>r b. find P bs = Some b \<and> first_match m rs = Inr (Some r) \<and> Q r b)"
proof (induction rule: list_all2_induct)
  case (Cons r rs b bs)
  then show ?case by (cases "P b") auto
qed simp

lemma first_match_cong: "(\<And>r. r \<in> set rs \<Longrightarrow> m r = n r) \<Longrightarrow> first_match m rs = first_match n rs"
  by (induction rs) (simp_all cong: if_cong)

section \<open>Tools\<close>

lemma find_map_opt: "find P (map f xs) = map_option f (find (\<lambda>x. P (f x)) xs)"
  by (induction xs) auto

lemma map_of_exact_kinds_fold:
  "distinct (map sp_tool specs) \<Longrightarrow>
   map_of (fold (\<lambda>s d. if is_glob (sp_tool s) then d else AList.update (sp_tool s) (posture_value (sp_kind s)) d) specs d0) t
   = (case find (\<lambda>s. sp_tool s = t \<and> \<not> is_glob t) specs of Some s \<Rightarrow> Some (posture_value (sp_kind s)) | None \<Rightarrow> map_of d0 t)"
proof (induction specs arbitrary: d0)
  case (Cons s specs)
  have "find (\<lambda>u. sp_tool u = sp_tool s \<and> \<not> is_glob (sp_tool s)) specs = None"
    using Cons.prems by (auto simp: find_None_iff image_iff)
  then show ?case
    using Cons by (auto simp: map_of_update split: option.splits)
qed simp

lemma distinct_registry_all: "registry_inv r \<Longrightarrow> distinct (map sp_tool (registry_all r))"
proof -
  assume r: "registry_inv r"
  then have "map sp_tool (map snd (exact r)) = map fst (exact r)"
    by (auto simp: registry_inv_def)
  then show ?thesis
    using r by (auto simp: registry_all_def registry_inv_def distinct_keys_def simp del: map_map)
qed

lemma compiled_classify:
  assumes "compile_bundle p (Some reg) u = Inr b" "registry_inv reg"
  shows "bundle_classify b tool = (case registry_get tool reg of Some s \<Rightarrow> posture_value (sp_kind s) | None \<Rightarrow> u)"
proof -
  have b: "bu_reversibility b = sort_items (exact_kinds (registry_all reg))" "bu_reversibility_globs b = glob_kinds (registry_all reg)"
    "bu_unknown_tool_reversibility b = u" using assms(1) by (auto simp: compile_bundle_def Let_def)
  have ex: "map_of (exact_kinds (registry_all reg)) tool = map_option (\<lambda>s. posture_value (sp_kind s)) (map_of (exact reg) tool)"
  proof (cases "map_of (exact reg) tool")
    case None
    have "find (\<lambda>s. sp_tool s = tool \<and> \<not> is_glob tool) (registry_all reg) = None"
      using None assms(2) by (force simp: find_None_iff registry_all_def registry_inv_def map_of_eq_None_iff)
    then show ?thesis using None by (simp add: exact_kinds_def map_of_exact_kinds_fold [OF distinct_registry_all [OF assms(2)]])
  next
    case (Some s)
    then have s: "s \<in> set (registry_all reg)" "sp_tool s = tool" "\<not> is_glob tool"
      using assms(2) by (force simp: registry_all_def registry_inv_def dest!: map_of_SomeD)+
    then obtain s' where f: "find (\<lambda>s. sp_tool s = tool \<and> \<not> is_glob tool) (registry_all reg) = Some s'"
      by (cases "find (\<lambda>s. sp_tool s = tool \<and> \<not> is_glob tool) (registry_all reg)") (auto simp: find_None_iff)
    then have "s' \<in> set (registry_all reg)" "sp_tool s' = tool" by (auto simp: find_Some_iff)
    then have "s' = s" using s distinct_registry_all [OF assms(2)] by (auto simp: distinct_map dest: inj_onD)
    then show ?thesis using Some f by (simp add: exact_kinds_def map_of_exact_kinds_fold [OF distinct_registry_all [OF assms(2)]])
  qed
  have "filter (\<lambda>s. is_glob (sp_tool s)) (registry_all reg) = globs reg"
    using assms(2) by (force simp: registry_all_def registry_inv_def filter_empty_conv filter_id_conv)
  then have "find (\<lambda>g. fnmatchcase tool (fst g)) (glob_kinds (registry_all reg))
      = map_option (\<lambda>s. (sp_tool s, posture_value (sp_kind s))) (find (\<lambda>g. fnmatchcase tool (sp_tool g)) (globs reg))"
    by (simp add: glob_kinds_def find_map_opt)
  then show ?thesis
    by (auto simp: bundle_classify_def b ex registry_get_def split: option.splits)
qed


section \<open>Properties\<close>

lemma compile_refuses_iff:
  "(\<exists>e. compile_bundle p reg u = Inl e) \<longleftrightarrow> (\<exists>r \<in> set (po_rules p). ru_condition r \<noteq> AlwaysTrue \<or> ru_budget r \<noteq> None)"
proof -
  have "(\<exists>e. rules_to_bundle rs = Inl e) \<longleftrightarrow> (\<exists>r \<in> set rs. ru_condition r \<noteq> AlwaysTrue \<or> ru_budget r \<noteq> None)" for rs
    by (induction rs) (auto simp: rule_to_bundle_def bind_err_Inl)
  then show ?thesis by (simp add: compile_bundle_def Let_def bind_err_Inl)
qed

lemma effect_value_allow [simp]: "effect_value e = ''allow'' \<longleftrightarrow> e = ALLOW"
  by (cases e) simp_all

lemma compiled_verdict:
  assumes "compile_bundle p (Some reg) ''unknown'' = Inr b" "set roles = pr_roles (gl_principal c)"
    and "call_posture b (call_of rt c roles ps) = posture_value (gl_posture c)"
  shows "\<exists>d. evaluate rt p c st = Inr d \<and> bundle_evaluate b (call_of rt c roles ps) =
    \<lparr>bv_effect = effect_value (de_effect d), bv_rule_id = de_rule_id d, bv_reason = de_reason d,
     bv_reversibility = posture_value (gl_posture c), bv_allowed = allowed d\<rparr>"
proof -
  let ?c = "call_of rt c roles ps"
  have b: "rules_to_bundle (po_rules p) = Inr (bu_rules b)" "bu_default_effect b = effect_value (po_default p)"
    using assms(1) by (auto simp: compile_bundle_def Let_def)
  have "list_all2 (\<lambda>r br. call_matches rt c st r = Inr (bundle_applies b ?c br) \<and> rule_to_bundle r = Inr br) (po_rules p) (bu_rules b)"
    using b(1) compiled_rule_applies [OF _ assms(2,3)] by (auto simp: rules_to_bundle_Inr elim: list_all2_mono)
  from first_match_find [OF this] show ?thesis
  proof
    assume "find (bundle_applies b ?c) (bu_rules b) = None \<and> first_match (call_matches rt c st) (po_rules p) = Inr None"
    then show ?thesis
      by (simp add: evaluate_def Let_def bundle_evaluate_def assms(3) b(2) default_decision_def DEFAULT_RULE_def allowed_def)
  next
    assume "\<exists>r br. find (bundle_applies b ?c) (bu_rules b) = Some br
      \<and> first_match (call_matches rt c st) (po_rules p) = Inr (Some r) \<and> rule_to_bundle r = Inr br"
    then show ?thesis
      by (auto simp: evaluate_def Let_def bundle_evaluate_def assms(3) rule_decision_def allowed_def rule_to_bundle_def split: if_splits)
  qed
qed

text \<open>
  C15: a policy that compiles keeps its meaning. On every call, with the caller's roles and the threat
  score of its arguments, and with the posture of the call or none when it is the one the registry
  declares, the reference evaluator of the bundle gives the effect, the rule, the reason and the
  posture of the policy decision point, which does not raise and does not depend on the session.
\<close>

theorem compiled_policy_agrees:
  assumes "compile_bundle p (Some reg) ''unknown'' = Inr b" "registry_inv reg" "set roles = pr_roles (gl_principal c)"
    and "ps = Some (posture_value (gl_posture c)) \<or> (ps = None \<and> gl_posture c = registry_classify (gl_tool c) reg)"
  shows "\<exists>d. (\<forall>st. evaluate rt p c st = Inr d) \<and> bundle_evaluate b (call_of rt c roles ps) =
    \<lparr>bv_effect = effect_value (de_effect d), bv_rule_id = de_rule_id d, bv_reason = de_reason d,
     bv_reversibility = posture_value (gl_posture c), bv_allowed = allowed d\<rparr>"
proof -
  have "bundle_classify b (gl_tool c) = posture_value (registry_classify (gl_tool c) reg)"
    by (simp add: compiled_classify [OF assms(1,2)] registry_classify_def split: option.splits)
  then have ps: "call_posture b (call_of rt c roles ps) = posture_value (gl_posture c)"
    using assms(4) by (auto simp: call_posture_def call_of_def)
  have "evaluate rt p c st = evaluate rt p c []" for st
  proof -
    have "call_matches rt c st r = call_matches rt c [] r" if "r \<in> set (po_rules p)" for r
    proof -
      have "\<exists>br. rule_to_bundle r = Inr br"
        using assms(1) that by (auto simp: compile_bundle_def Let_def rules_to_bundle_Inr list_all2_conv_all_nth in_set_conv_nth)
      then show ?thesis using compiled_rule_applies [OF _ assms(3) ps] by metis
    qed
    then have "first_match (call_matches rt c st) (po_rules p) = first_match (call_matches rt c []) (po_rules p)"
      by (rule first_match_cong)
    then show ?thesis by (simp add: evaluate_def)
  qed
  then show ?thesis using compiled_verdict [OF assms(1,3) ps, of "[]"] by metis
qed

text \<open>A policy of one rule, over a registry of one tool.\<close>

definition floor_rule :: rule where
  "floor_rule = \<lparr>ru_id = ''safe'', ru_effect = ALLOW, ru_tools = [''*''], ru_agents = [''*''], ru_require_roles = [],
     ru_actions = [''*''], ru_reversibility = [], ru_min_reversibility = Some COMPENSABLE, ru_condition = AlwaysTrue,
     ru_redact_fields = [], ru_budget = None, ru_min_threat_score = None, ru_max_risk = None, ru_min_risk = None,
     ru_reason = [], ru_obligations = []\<rparr>"

definition floor_policy :: policy where
  "floor_policy = \<lparr>po_rules = [floor_rule], po_default = DENY, po_version = ''1'', po_name = ''f''\<rparr>"

definition refund_spec :: inverse_spec where
  "refund_spec = \<lparr>sp_tool = ''refund'', sp_kind = IRREVERSIBLE, sp_inverse_tool = None, sp_arg_map = [],
     sp_static_args = [], sp_steps = [], sp_gates = [], sp_snapshot_fields = [], sp_window_seconds = None,
     sp_one_shot = False, sp_degraded_kind = IRREVERSIBLE, sp_residue = [], sp_notes = []\<rparr>"

definition refund_registry :: registry where
  "refund_registry = register refund_spec empty_registry"

definition floor_bundle :: bundle_doc where
  "floor_bundle = \<lparr>bu_schema = 2, bu_policy_id = ''f@1'', bu_default_effect = ''deny'', bu_reversibility = [(''refund'', ''irreversible'')],
     bu_reversibility_globs = [], bu_unknown_tool_reversibility = ''unknown'',
     bu_rules = [\<lparr>br_id = ''safe'', br_effect = ''allow'', br_tools = [''*''], br_actions = [''*''], br_agents = [''*''],
       br_require_roles = [], br_reversibility = [], br_min_reversibility = Some ''compensable'', br_min_risk = None,
       br_max_risk = None, br_min_threat_score = None, br_redact_fields = [], br_reason = ''matched rule safe''\<rparr>]\<rparr>"

definition refund_call :: "unit gate_call" where
  "refund_call = \<lparr>gl_tool = ''refund'', gl_args = [], gl_principal = \<lparr>pr_id = ''a'', pr_kind = AGENT, pr_name = ''a'', pr_key = (),
     pr_roles = {}, pr_claims = []\<rparr>, gl_session = ''s'', gl_action = ''write'', gl_posture = IRREVERSIBLE, gl_risk = 1\<rparr>"

lemma floor_compiles: "compile_bundle floor_policy (Some refund_registry) ''unknown'' = Inr floor_bundle"
  by code_simp

lemma refund_registry_inv: "registry_inv refund_registry"
proof -
  have "wf_spec refund_spec" by code_simp
  then show ?thesis by (simp add: refund_registry_def registry_inv_register)
qed

lemma compiled_policy_agrees_witness:
  "\<exists>d. evaluate demo_rt floor_policy refund_call [] = Inr d \<and> \<not> allowed d \<and> de_rule_id d = ''__default__''"
proof -
  have "registry_classify ''refund'' refund_registry = IRREVERSIBLE" by code_simp
  then have ps: "None = Some (posture_value (gl_posture refund_call))
      \<or> (None = (None :: string option) \<and> gl_posture refund_call = registry_classify (gl_tool refund_call) refund_registry)"
    by (simp add: refund_call_def)
  have roles: "set [] = pr_roles (gl_principal refund_call)" by (simp add: refund_call_def)
  have "\<not> bv_allowed (bundle_evaluate floor_bundle (call_of demo_rt refund_call [] None))
      \<and> bv_rule_id (bundle_evaluate floor_bundle (call_of demo_rt refund_call [] None)) = ''__default__''"
    by (simp add: bundle_evaluate_def bundle_applies_def bundle_match_def call_posture_def bundle_classify_def call_of_def
        floor_bundle_def refund_call_def rank_or_def RANK_def)
  with compiled_policy_agrees [OF floor_compiles refund_registry_inv roles ps, of demo_rt] show ?thesis by auto
qed

text \<open>A budgeted rule is refused, not approximated.\<close>

lemma budget_does_not_compile:
  "rule_to_bundle (r\<lparr>ru_condition := AlwaysTrue, ru_budget := Some x\<rparr>) = Inl (CarriesBudget (ru_id r))"
  by (simp add: rule_to_bundle_def)

end
