(* ===== verification/ProveProps.thy ===== *)
theory ProveProps
  imports Prove BundleProps ThreatProps
begin

text \<open>
  What the policy prover establishes. Its calls represent all calls when no pattern of the policy
  collides with the filler the prover writes for a star and the roles fit under its cap; then a
  clean report means that nothing irreversible is allowed, and a rule reported unreachable cannot
  fire. Holes are real in any case. Outside these conditions the report can be wrong while it calls
  itself complete; two policies show it.
\<close>

section \<open>Patterns with at most one star\<close>

definition plain_str :: "string \<Rightarrow> bool" where
  "plain_str s \<longleftrightarrow> (\<forall>c \<in> set s. of_char c < (128 :: nat) \<and> c \<notin> {CHR ''*'', CHR ''?'', CHR ''[''})"

lemma plain_str_append [simp]: "plain_str (s @ t) \<longleftrightarrow> plain_str s \<and> plain_str t"
  by (auto simp: plain_str_def)

lemma plain_str_Cons [simp]:
  "plain_str (c # s) \<longleftrightarrow> of_char c < (128 :: nat) \<and> c \<notin> {CHR ''*'', CHR ''?'', CHR ''[''} \<and> plain_str s"
  by (auto simp: plain_str_def)

lemma plain_str_Nil [simp]: "plain_str []"
  by (simp add: plain_str_def)

lemma name_char_plain: "name_char c \<Longrightarrow> plain_str [c]"
proof -
  assume n: "name_char c"
  have "of_char c < (128 :: nat)"
  proof -
    have "(of_char c :: nat) \<le> of_char CHR ''Z'' \<or> (of_char c :: nat) \<le> of_char CHR ''z'' \<or> (of_char c :: nat) \<le> of_char CHR ''9''
        \<or> c \<in> set ''_.:/-''"
      using n by (auto simp: name_char_def less_eq_char_def)
    then show ?thesis by auto
  qed
  moreover have "c \<notin> {CHR ''*'', CHR ''?'', CHR ''[''}"
    using n by (auto simp: name_char_def less_eq_char_def)
  ultimately show ?thesis by simp
qed

lemma one_star_shape:
  assumes "list_all (\<lambda>c. name_char c \<or> c = CHR ''*'') q" "length (filter (\<lambda>c. c = CHR ''*'') q) \<le> 1"
  shows "plain_str q \<or> (\<exists>pre suf. q = pre @ CHR ''*'' # suf \<and> plain_str pre \<and> plain_str suf)"
proof (cases "CHR ''*'' \<in> set q")
  case False
  have "plain_str [c]" if "c \<in> set q" for c
  proof -
    have "name_char c \<or> c = CHR ''*''" using assms(1) that by (simp add: list_all_iff)
    then have "name_char c" using False that by blast
    then show ?thesis by (rule name_char_plain)
  qed
  then show ?thesis by (auto simp: plain_str_def)
next
  case True
  then obtain pre suf where q: "q = pre @ CHR ''*'' # suf" "CHR ''*'' \<notin> set pre" by (metis split_list_first)
  then have "CHR ''*'' \<notin> set suf" using assms(2) by (auto simp: filter_empty_conv)
  with q have star: "CHR ''*'' \<notin> set pre \<union> set suf" by simp
  have "plain_str [c]" if "c \<in> set pre \<union> set suf" for c
  proof -
    have "name_char c \<or> c = CHR ''*''" using assms(1) q that by (auto simp: list_all_iff)
    then have "name_char c" using star that by blast
    then show ?thesis by (rule name_char_plain)
  qed
  then have "plain_str pre" "plain_str suf" by (auto simp: plain_str_def)
  then show ?thesis using q(1) by blast
qed

lemma simple_shape:
  assumes "simple_pattern p"
  shows "plain_str p \<or> (\<exists>pre suf. p = pre @ CHR ''*'' # suf \<and> plain_str pre \<and> plain_str suf)"
proof (cases "p \<noteq> [] \<and> last p = CHR 0x0A")
  case False
  then show ?thesis using assms one_star_shape [of p] by (auto simp: simple_pattern_def)
next
  case True
  let ?q = "butlast p"
  have p: "p = ?q @ [CHR 0x0A]" using True by (metis append_butlast_last_id)
  have nl: "plain_str [CHR 0x0A]" by simp
  have "plain_str ?q \<or> (\<exists>pre suf. ?q = pre @ CHR ''*'' # suf \<and> plain_str pre \<and> plain_str suf)"
    using assms True one_star_shape [of ?q] by (simp add: simple_pattern_def Let_def)
  then show ?thesis
  proof
    assume "plain_str ?q"
    then show ?thesis using p nl by (metis plain_str_append)
  next
    assume "\<exists>pre suf. ?q = pre @ CHR ''*'' # suf \<and> plain_str pre \<and> plain_str suf"
    then obtain pre suf where "?q = pre @ CHR ''*'' # suf" "plain_str pre" "plain_str suf" by blast
    then have "p = pre @ CHR ''*'' # (suf @ [CHR 0x0A]) \<and> plain_str (suf @ [CHR 0x0A])" using p nl by simp
    then show ?thesis using \<open>plain_str pre\<close> by blast
  qed
qed

section \<open>What such a pattern matches\<close>

abbreviation cps :: "string \<Rightarrow> nat list" where
  "cps s \<equiv> map of_char s"

lemma decode_plain: "plain_str s \<Longrightarrow> decode (cps s @ r) = cps s @ decode r"
  by (induction s) auto

lemma code_points_plain: "plain_str s \<Longrightarrow> code_points s = cps s"
  using decode_plain [of s "[]"] by (simp add: code_points_def)

lemma plain_not_meta: "plain_str s \<Longrightarrow> set (cps s) \<inter> {42, 63, 91} = {}"
proof -
  assume p: "plain_str s"
  have star: "char_of (42 :: nat) = CHR ''*''" "char_of (63 :: nat) = CHR ''?''" "char_of (91 :: nat) = CHR ''[''"
    by code_simp+
  have h: "of_char c \<noteq> n" if "c \<in> set s" "char_of n \<in> {CHR ''*'', CHR ''?'', CHR ''[''}" for c and n :: nat
  proof
    assume "of_char c = n"
    then have "char_of n = c" by (simp flip: \<open>of_char c = n\<close>)
    then show False using p that by (simp add: plain_str_def)
  qed
  have "x \<notin> {42, 63, 91}" if x: "x \<in> set (cps s)" for x :: nat
  proof -
    from x obtain c where "c \<in> set s" "x = of_char c" unfolding set_map by blast
    then show ?thesis using h [of c 42] h [of c 63] h [of c 91] star by simp
  qed
  then show ?thesis by blast
qed

lemma glob_tokens_prefix: "set xs \<inter> {42, 63, 91} = {} \<Longrightarrow> glob_tokens (xs @ ys) = map GLit xs @ glob_tokens ys"
  by (induction xs) auto

lemma glob_match_lits: "glob_match (map GLit p @ ts) s \<longleftrightarrow> (\<exists>t. s = p @ t \<and> glob_match ts t)"
proof (induction p arbitrary: s)
  case (Cons a p)
  then show ?case by (cases s) auto
qed simp

lemma glob_match_GStar: "glob_match (GStar # ts) s \<longleftrightarrow> (\<exists>mid t. s = mid @ t \<and> glob_match ts t)"
proof (induction s)
  case (Cons c s)
  have "(\<exists>mid t. c # s = mid @ t \<and> glob_match ts t) \<longleftrightarrow> glob_match ts (c # s) \<or> (\<exists>mid t. s = mid @ t \<and> glob_match ts t)"
    by (metis append_eq_Cons_conv)
  then show ?case using Cons by simp
qed simp

lemma fnmatch_plain: "plain_str p \<Longrightarrow> fnmatchcase s p \<longleftrightarrow> code_points s = cps p"
proof -
  assume p: "plain_str p"
  have "set (code_points p) \<inter> {42, 63, 91} = {}" unfolding code_points_plain [OF p] by (rule plain_not_meta [OF p])
  from glob_plain_exact [OF this] show ?thesis by (simp only: code_points_plain [OF p])
qed

lemma fnmatch_star:
  assumes "plain_str pre" "plain_str suf"
  shows "fnmatchcase s (pre @ CHR ''*'' # suf) \<longleftrightarrow> (\<exists>mid. code_points s = cps pre @ mid @ cps suf)"
proof -
  have "of_char CHR ''*'' = (42 :: nat)" by simp
  then have "code_points (pre @ CHR ''*'' # suf) = cps pre @ 42 # cps suf"
    using decode_plain [OF assms(1), of "cps (CHR ''*'' # suf)"] decode_plain [OF assms(2), of "[]"]
    by (simp add: code_points_def)
  then have "glob_tokens (code_points (pre @ CHR ''*'' # suf)) = map GLit (cps pre) @ GStar # map GLit (cps suf)"
    using glob_tokens_prefix [OF plain_not_meta [OF assms(1)]] glob_tokens_plain [OF plain_not_meta [OF assms(2)]] by simp
  then have "fnmatchcase s (pre @ CHR ''*'' # suf) \<longleftrightarrow> (\<exists>t mid u. code_points s = cps pre @ t \<and> t = mid @ u \<and> u = cps suf)"
    unfolding fnmatchcase_def by (simp only: glob_match_lits glob_match_GStar glob_match_literals) blast
  then show ?thesis by auto
qed


section \<open>The filler stands for every string\<close>

text \<open>A pattern that cannot match the filler by accident.\<close>

definition filler_free :: "string \<Rightarrow> bool" where
  "filler_free p \<longleftrightarrow> CHR ''Z'' \<notin> set (takeWhile (\<lambda>c. c \<noteq> CHR ''*'') p)
     \<and> (let suf = tl (dropWhile (\<lambda>c. c \<noteq> CHR ''*'') p) in CHR ''7'' \<notin> set suf \<and> (suf = [] \<or> last suf \<noteq> CHR ''g''))"

definition representable :: "string list \<Rightarrow> bool" where
  "representable ps \<longleftrightarrow> list_all (\<lambda>p. \<not> awkward p \<and> filler_free p) ps"

lemma plain_no_star: "plain_str s \<Longrightarrow> c \<in> set s \<Longrightarrow> c \<noteq> CHR ''*''"
  by (auto simp: plain_str_def)

lemma filler_free_star:
  assumes "plain_str pre"
  shows "filler_free (pre @ CHR ''*'' # suf) \<longleftrightarrow> CHR ''Z'' \<notin> set pre \<and> CHR ''7'' \<notin> set suf \<and> (suf = [] \<or> last suf \<noteq> CHR ''g'')"
  using plain_no_star [OF assms] by (simp add: filler_free_def Let_def takeWhile_append dropWhile_append)

lemma filler_free_plain: "plain_str p \<Longrightarrow> filler_free p \<longleftrightarrow> CHR ''Z'' \<notin> set p"
proof -
  assume p: "plain_str p"
  then have tw: "takeWhile (\<lambda>c. c \<noteq> CHR ''*'') p = p" "dropWhile (\<lambda>c. c \<noteq> CHR ''*'') p = []"
    using plain_no_star by (auto simp: takeWhile_eq_all_conv dropWhile_eq_Nil_conv)
  show ?thesis unfolding filler_free_def tw by simp
qed

lemma star_is_star: "[CHR ''*''] = [] @ CHR ''*'' # []"
  by simp

lemma pattern_shape:
  assumes "\<not> awkward p" "filler_free p"
  obtains (plain) "plain_str p" "CHR ''Z'' \<notin> set p"
  | (star) pre suf where "p = pre @ CHR ''*'' # suf" "plain_str pre" "plain_str suf" "CHR ''Z'' \<notin> set pre" "CHR ''7'' \<notin> set suf"
      "suf = [] \<or> last suf \<noteq> CHR ''g''"
proof (cases "p = ''*''")
  case True
  then show thesis using star [of "[]" "[]"] by simp
next
  case False
  then have "simple_pattern p" using assms(1) by (simp add: awkward_def)
  from simple_shape [OF this] show thesis
  proof
    assume "plain_str p"
    then show thesis using plain assms(2) filler_free_plain by blast
  next
    assume "\<exists>pre suf. p = pre @ CHR ''*'' # suf \<and> plain_str pre \<and> plain_str suf"
    then show thesis using star assms(2) filler_free_star by blast
  qed
qed

lemma prefix_before:
  assumes "xs @ r = ys @ z # zs" "z \<notin> set xs"
  obtains rest where "ys = xs @ rest"
proof -
  have "\<exists>rest. ys = xs @ rest"
    using assms
  proof (induction xs arbitrary: ys)
    case (Cons x xs)
    then obtain y ys' where "ys = y # ys'" by (cases ys) auto
    with Cons show ?case by auto
  qed simp
  then show thesis using that by blast
qed

lemma suffix_after:
  assumes "r @ xs = ys @ z # zs" "z \<notin> set xs"
  obtains rest where "zs = rest @ xs"
proof -
  have "rev xs @ rev r = rev zs @ z # rev ys" using arg_cong [OF assms(1), of rev] by simp
  then obtain rest where "rev zs = rev xs @ rest" by (rule prefix_before) (use assms(2) in auto)
  then have "zs = rev rest @ xs" by (metis rev_append rev_rev_ident)
  then show thesis using that by blast
qed

lemma fill_plain: "plain_str p \<Longrightarrow> fill p = p"
  unfolding fill_def by (induction p) auto

lemma fill_star: "plain_str pre \<Longrightarrow> plain_str suf \<Longrightarrow> fill (pre @ CHR ''*'' # suf) = pre @ FILLER @ suf"
  using fill_plain [of pre] fill_plain [of suf] by (simp add: fill_def)

lemma plain_FILLER: "plain_str FILLER" "plain_str UNMATCHED"
  by (simp_all add: FILLER_def UNMATCHED_def)

lemma not_in_cps: "plain_str s \<Longrightarrow> c \<notin> set s \<Longrightarrow> of_char c \<notin> set (cps s)"
  by (auto simp: image_iff)

lemma filled_matches_less:
  assumes p: "plain_str pre" "plain_str suf" "CHR ''Z'' \<notin> set pre" and s: "code_points s = cps pre @ mid @ cps suf"
    and q: "\<not> awkward q" "filler_free q" "fnmatchcase (pre @ FILLER @ suf) q"
  shows "fnmatchcase s q"
proof -
  have cp: "code_points (pre @ FILLER @ suf) = cps pre @ [90, 113, 55] @ cps suf"
    using code_points_plain [of "pre @ FILLER @ suf"] p(1,2) plain_FILLER(1) by (simp add: FILLER_def)
  from q(1,2) show ?thesis
  proof (cases rule: pattern_shape)
    case plain
    then have "cps q = cps pre @ [90, 113, 55] @ cps suf" using q(3) cp fnmatch_plain by simp
    then have "of_char CHR ''Z'' \<in> set (cps q)" by simp
    then show ?thesis using not_in_cps [OF plain] by blast
  next
    case (star pre' suf')
    then obtain m where m: "cps pre @ [90, 113, 55] @ cps suf = cps pre' @ m @ cps suf'"
      using q(3) cp fnmatch_star by auto
    have "of_char CHR ''Z'' \<notin> set (cps pre')" "of_char CHR ''7'' \<notin> set (cps suf')"
      using not_in_cps star(2-5) by blast+
    then have no: "(90 :: nat) \<notin> set (cps pre')" "(55 :: nat) \<notin> set (cps suf')" by simp_all
    have "cps pre' @ (m @ cps suf') = cps pre @ 90 # ([113, 55] @ cps suf)" using m by simp
    then obtain a where a: "cps pre = cps pre' @ a" by (rule prefix_before) (rule no(1))
    have "(cps pre' @ m) @ cps suf' = (cps pre @ [90, 113]) @ 55 # cps suf" using m by simp
    then obtain c where c: "cps suf = c @ cps suf'" by (rule suffix_after) (rule no(2))
    have "code_points s = cps pre' @ (a @ mid @ c) @ cps suf'" using s a c by simp
    then show ?thesis unfolding star(1) fnmatch_star [OF star(2,3)] by blast
  qed
qed

lemma unmatched_matches_star:
  assumes "\<not> awkward q" "filler_free q" "fnmatchcase UNMATCHED q"
  shows "fnmatchcase s q"
  using assms(1,2)
proof (cases rule: pattern_shape)
  case plain
  have "cps q = cps UNMATCHED" using assms(3) plain(1) plain_FILLER(2) by (simp add: fnmatch_plain code_points_plain)
  then have "of_char CHR ''Z'' \<in> set (cps q)" by (simp add: UNMATCHED_def)
  then show ?thesis using not_in_cps [OF plain] by blast
next
  case (star pre suf)
  then obtain m where m: "cps UNMATCHED = cps pre @ m @ cps suf"
    using assms(3) plain_FILLER(2) by (auto simp: fnmatch_star code_points_plain)
  have "of_char CHR ''Z'' \<notin> set (cps pre)" using not_in_cps star(2,4) by blast
  then have no: "(90 :: nat) \<notin> set (cps pre)" by simp
  have "cps UNMATCHED = [] @ 90 # cps (tl UNMATCHED)" by (simp add: UNMATCHED_def)
  then have "cps pre @ (m @ cps suf) = [] @ 90 # cps (tl UNMATCHED)" using m by simp
  then obtain a where "[] = cps pre @ a" by (rule prefix_before) (rule no)
  then have pre: "pre = []" by simp
  have suf: "suf = []"
  proof (rule ccontr)
    assume n: "suf \<noteq> []"
    then have "last (cps UNMATCHED) = of_char (last suf)" using m by (simp add: last_map)
    moreover have "last (cps UNMATCHED) = of_char CHR ''g''" by (simp add: UNMATCHED_def)
    ultimately have "last suf = CHR ''g''" by (metis char_of_char)
    then show False using star(6) n by simp
  qed
  show ?thesis unfolding star(1) fnmatch_star [OF star(2,3)] by (simp add: pre suf)
qed


section \<open>Every call is represented\<close>

lemma set_sorted_set [simp]: "set (sorted_set xs) = set xs"
  by (simp add: sorted_set_def)

lemma sorted_set_Nil [simp]: "sorted_set xs = [] \<longleftrightarrow> xs = []"
  by (metis set_empty set_sorted_set)

lemma glob_any:
  assumes "representable ps"
  shows "UNMATCHED \<in> set (fst (glob_witnesses ps lits))" "q \<in> set ps \<Longrightarrow> fnmatchcase UNMATCHED q \<Longrightarrow> fnmatchcase s q"
proof -
  show "UNMATCHED \<in> set (fst (glob_witnesses ps lits))" by (simp add: glob_witnesses_def)
  assume "q \<in> set ps" "fnmatchcase UNMATCHED q"
  then show "fnmatchcase s q" using assms unmatched_matches_star by (simp add: representable_def list_all_iff)
qed

lemma glob_rep:
  assumes ps: "representable ps" and p: "p \<in> set ps" "fnmatchcase s p"
  shows "\<exists>s' \<in> set (fst (glob_witnesses ps lits)). fnmatchcase s' p \<and> (\<forall>q \<in> set ps. fnmatchcase s' q \<longrightarrow> fnmatchcase s q)"
proof (cases "p = ''*''")
  case True
  then show ?thesis using glob_any [OF ps] by (intro bexI [of _ UNMATCHED]) auto
next
  case False
  have each: "\<not> awkward q \<and> filler_free q" if "q \<in> set ps" for q using ps that by (simp add: representable_def list_all_iff)
  have w: "fill p \<in> set (fst (glob_witnesses ps lits))"
    using False p(1) each [OF p(1)] by (auto simp: glob_witnesses_def awkward_def)
  from each [OF p(1)] have "\<not> awkward p" "filler_free p" by simp_all
  then show ?thesis
  proof (cases rule: pattern_shape)
    case plain
    then have f: "fill p = p" "code_points s = code_points p" using p(2) by (simp_all add: fill_plain fnmatch_plain code_points_plain)
    then have "fnmatchcase p q = fnmatchcase s q" for q by (simp add: fnmatchcase_def)
    then show ?thesis using w f(1) p(2) by (intro bexI [of _ p]) auto
  next
    case (star pre suf)
    obtain mid where mid: "code_points s = cps pre @ mid @ cps suf" using p(2) star by (auto simp: fnmatch_star)
    have fill: "fill p = pre @ FILLER @ suf" using star by (simp add: fill_star)
    have "code_points (fill p) = cps pre @ cps FILLER @ cps suf"
      unfolding fill using code_points_plain [of "pre @ FILLER @ suf"] star(2,3) plain_FILLER(1) by simp
    then have "\<exists>m. code_points (fill p) = cps pre @ m @ cps suf" by blast
    then have "fnmatchcase (fill p) p" by (simp only: fnmatch_star [OF star(2,3), of "fill p", folded star(1)])
    moreover have "fnmatchcase s q" if "q \<in> set ps" "fnmatchcase (fill p) q" for q
      using filled_matches_less [OF star(2-4) mid] each [OF that(1)] that(2) by (simp add: fill)
    ultimately show ?thesis using w by blast
  qed
qed

lemma threshold_rep:
  fixes x :: int
  assumes "0 \<le> x"
  shows "\<exists>x' \<in> set (thresholds rules keys). \<forall>r \<in> set rules. \<forall>k \<in> set keys. \<forall>t. k r = Some t \<longrightarrow> (x' < t \<longleftrightarrow> x < t) \<and> (x' > t \<longleftrightarrow> x > t)"
proof -
  let ?T = "set (thresholds rules keys)"
  let ?S = "{v \<in> ?T. v \<le> x}"
  have zero: "0 \<in> ?T" by (simp add: thresholds_def)
  then have S: "finite ?S" "?S \<noteq> {}" using assms by auto
  define m where "m = Max ?S"
  have m: "m \<in> ?T" "m \<le> x" using Max_in [OF S] by (simp_all add: m_def)
  have m0: "0 \<le> m" unfolding m_def using S zero assms by (intro Max_ge) auto
  have above: "v \<le> m" if "v \<in> ?T" "v \<le> x" for v unfolding m_def using S(1) that by (intro Max_ge) auto
  have "(m < t \<longleftrightarrow> x < t) \<and> (m > t \<longleftrightarrow> x > t)" if r: "r \<in> set rules" "k \<in> set keys" "k r = Some t" for r k t
  proof -
    let ?all = "concat (map (\<lambda>r. concat (map (\<lambda>k. case k r of None \<Rightarrow> [] | Some t \<Rightarrow> [t - 1, t, t + 1]) keys)) rules)"
    have T: "v \<in> ?T" if "v \<in> set ?all" "0 \<le> v" for v
      using that by (simp add: thresholds_def del: set_concat)
    have "{t, t + 1} \<subseteq> set (case k r of None \<Rightarrow> [] | Some t \<Rightarrow> [t - 1, t, t + 1])" using r(3) by simp
    then have "{t, t + 1} \<subseteq> set ?all" using r(1,2) by auto
    then have "v \<le> m" if "v \<in> {t, t + 1}" "v \<le> x" for v
      using T [of v] above [of v] that m0 by (cases "0 \<le> v") (auto simp del: set_concat)
    then have "t \<le> m \<longleftrightarrow> t \<le> x" "t + 1 \<le> m \<longleftrightarrow> t + 1 \<le> x" using m(2) by force+
    then show ?thesis by linarith
  qed
  then show ?thesis using m(1) by blast
qed

lemma role_sets_all:
  assumes "length (role_combos rules) \<le> ROLE_CAP"
  shows "[] \<in> set (role_sets rules)" "r \<in> set rules \<Longrightarrow> sort (br_require_roles r) \<in> set (role_sets rules)"
  using assms by (auto simp: role_sets_def role_combos_def Let_def)

lemma prove_matches_bundle:
  "prove_matches r w = bundle_match r (wi_tool w) (wi_action w) (wi_agent_id w) (wi_roles w) (wi_risk w) (wi_threat_score w) (wi_reversibility w)"
  by (auto simp: prove_matches_def bundle_match_def matches_any_glob_def list_ex_iff list_all_iff)

definition collision_free :: "bundle_rule list \<Rightarrow> bool" where
  "collision_free rules \<longleftrightarrow> list_all filler_free (all_patterns br_tools rules @ all_patterns br_actions rules @ all_patterns br_agents rules)
     \<and> length (role_combos rules) \<le> ROLE_CAP"

lemma complaints_Nil:
  "complaints rules = [] \<longleftrightarrow> list_all (\<lambda>p. \<not> awkward p) (all_patterns br_tools rules @ all_patterns br_actions rules @ all_patterns br_agents rules)"
proof -
  have "snd (glob_witnesses ps []) = [] \<longleftrightarrow> list_all (\<lambda>p. \<not> awkward p) ps" for ps
    by (auto simp: glob_witnesses_def list_all_iff filter_empty_conv)
  then show ?thesis by (auto simp: complaints_def filter_empty_conv)
qed

lemma covered_patterns:
  assumes "complaints rules = []" "collision_free rules"
  shows "representable (all_patterns br_tools rules)" "representable (all_patterns br_actions rules)" "representable (all_patterns br_agents rules)"
    "length (role_combos rules) \<le> ROLE_CAP"
  using assms by (auto simp: complaints_Nil collision_free_def representable_def list_all_iff)


text \<open>A field of a call with lists of patterns, and what stands for it.\<close>

lemma field_rep:
  assumes "representable (all_patterns key rules)" "r \<in> set rules" "matches_any_glob s (key r)"
  shows "\<exists>s' \<in> set (fst (glob_witnesses (all_patterns key rules) lits)). matches_any_glob s' (key r)
    \<and> (\<forall>r' \<in> set rules. matches_any_glob s' (key r') \<longrightarrow> matches_any_glob s (key r'))"
proof -
  obtain p where p: "p \<in> set (key r)" "fnmatchcase s p" using assms(3) by (auto simp: matches_any_glob_def list_ex_iff)
  have all: "q \<in> set (all_patterns key rules)" if "r' \<in> set rules" "q \<in> set (key r')" for r' q
    using that by (auto simp: all_patterns_def)
  from glob_rep [OF assms(1) all [OF assms(2) p(1)] p(2)] obtain s' where
    "s' \<in> set (fst (glob_witnesses (all_patterns key rules) lits))" "fnmatchcase s' p"
    "\<forall>q \<in> set (all_patterns key rules). fnmatchcase s' q \<longrightarrow> fnmatchcase s q" by blast
  then show ?thesis using p(1) all by (intro bexI [of _ s']) (auto simp: matches_any_glob_def list_ex_iff)
qed

lemma field_any:
  assumes "representable (all_patterns key rules)"
  shows "\<exists>s' \<in> set (fst (glob_witnesses (all_patterns key rules) lits)).
    \<forall>r' \<in> set rules. matches_any_glob s' (key r') \<longrightarrow> matches_any_glob s (key r')"
  by (rule bexI [OF _ glob_any(1) [OF assms]])
     (use glob_any(2) [OF assms] in \<open>auto simp: matches_any_glob_def list_ex_iff all_patterns_def\<close>)

text \<open>A call in terms of its fields.\<close>

definition in_range :: "int \<Rightarrow> int \<Rightarrow> string \<Rightarrow> bool" where
  "in_range risk threat posture \<longleftrightarrow> 0 \<le> risk \<and> 0 \<le> threat \<and> posture \<in> set REVERSIBILITIES"

lemma represented:
  assumes cov: "complaints (bu_rules b) = []" "collision_free (bu_rules b)" and range: "in_range risk threat posture"
    and k: "case k of None \<Rightarrow> True | Some r \<Rightarrow> r \<in> set (bu_rules b) \<and> bundle_match r tool action agent roles risk threat posture"
  shows "\<exists>w \<in> set (witnesses b). wi_reversibility w = posture \<and> (case k of None \<Rightarrow> True | Some r \<Rightarrow> prove_matches r w)
    \<and> (\<forall>r' \<in> set (bu_rules b). prove_matches r' w \<longrightarrow> bundle_match r' tool action agent roles risk threat posture)"
proof -
  let ?rules = "bu_rules b"
  note c = covered_patterns [OF cov]
  have field: "\<exists>s' \<in> set (fst (glob_witnesses (all_patterns key ?rules) lits)). (case k of None \<Rightarrow> True | Some r \<Rightarrow> matches_any_glob s' (key r))
      \<and> (\<forall>r' \<in> set ?rules. matches_any_glob s' (key r') \<longrightarrow> matches_any_glob s (key r'))"
    if "representable (all_patterns key ?rules)" "case k of None \<Rightarrow> True | Some r \<Rightarrow> r \<in> set ?rules \<and> matches_any_glob s (key r)" for key s lits
    using field_rep [OF that(1)] field_any [OF that(1)] that(2) by (cases k) auto
  have k': "case k of None \<Rightarrow> True | Some r \<Rightarrow> r \<in> set ?rules \<and> matches_any_glob tool (br_tools r)"
    "case k of None \<Rightarrow> True | Some r \<Rightarrow> r \<in> set ?rules \<and> matches_any_glob action (br_actions r)"
    "case k of None \<Rightarrow> True | Some r \<Rightarrow> r \<in> set ?rules \<and> matches_any_glob agent (br_agents r)"
    using k by (auto simp: bundle_match_def split: option.splits)
  obtain t where t: "t \<in> set (fst (glob_witnesses (all_patterns br_tools ?rules) (map fst (bu_reversibility b))))"
    "case k of None \<Rightarrow> True | Some r \<Rightarrow> matches_any_glob t (br_tools r)"
    "\<forall>r' \<in> set ?rules. matches_any_glob t (br_tools r') \<longrightarrow> matches_any_glob tool (br_tools r')" using field [OF c(1) k'(1)] by blast
  obtain a where a: "a \<in> set (fst (glob_witnesses (all_patterns br_actions ?rules) [''read'', ''write'']))"
    "case k of None \<Rightarrow> True | Some r \<Rightarrow> matches_any_glob a (br_actions r)"
    "\<forall>r' \<in> set ?rules. matches_any_glob a (br_actions r') \<longrightarrow> matches_any_glob action (br_actions r')" using field [OF c(2) k'(2)] by blast
  obtain g where g: "g \<in> set (fst (glob_witnesses (all_patterns br_agents ?rules) []))"
    "case k of None \<Rightarrow> True | Some r \<Rightarrow> matches_any_glob g (br_agents r)"
    "\<forall>r' \<in> set ?rules. matches_any_glob g (br_agents r') \<longrightarrow> matches_any_glob agent (br_agents r')" using field [OF c(3) k'(3)] by blast
  have range': "0 \<le> risk" "0 \<le> threat" "posture \<in> set REVERSIBILITIES" using range by (simp_all add: in_range_def)
  obtain ri where ri: "ri \<in> set (thresholds ?rules [br_min_risk, br_max_risk])"
    "\<forall>r \<in> set ?rules. \<forall>f \<in> set [br_min_risk, br_max_risk]. \<forall>x. f r = Some x \<longrightarrow> (ri < x \<longleftrightarrow> risk < x) \<and> (ri > x \<longleftrightarrow> risk > x)"
    using threshold_rep [OF range'(1)] by blast
  obtain th where th: "th \<in> set (thresholds ?rules [br_min_threat_score])"
    "\<forall>r \<in> set ?rules. \<forall>f \<in> set [br_min_threat_score]. \<forall>x. f r = Some x \<longrightarrow> (th < x \<longleftrightarrow> threat < x) \<and> (th > x \<longleftrightarrow> threat > x)"
    using threshold_rep [OF range'(2)] by blast
  define ro where "ro = (case k of None \<Rightarrow> [] | Some r \<Rightarrow> sort (br_require_roles r))"
  have ro: "ro \<in> set (role_sets ?rules)" using role_sets_all [OF c(4)] k by (auto simp: ro_def split: option.splits)
  have ro_sub: "set ro \<subseteq> set roles" using k by (auto simp: ro_def bundle_match_def list_all_iff split: option.splits)
  let ?w = "\<lparr>wi_tool = t, wi_action = a, wi_agent_id = g, wi_roles = ro, wi_risk = ri, wi_threat_score = th, wi_reversibility = posture\<rparr>"
  have nums: "(case br_min_threat_score r of None \<Rightarrow> True | Some n \<Rightarrow> \<not> th < n) \<longleftrightarrow> (case br_min_threat_score r of None \<Rightarrow> True | Some n \<Rightarrow> \<not> threat < n)"
    "(case br_min_risk r of None \<Rightarrow> True | Some n \<Rightarrow> \<not> ri < n) \<longleftrightarrow> (case br_min_risk r of None \<Rightarrow> True | Some n \<Rightarrow> \<not> risk < n)"
    "(case br_max_risk r of None \<Rightarrow> True | Some n \<Rightarrow> \<not> ri > n) \<longleftrightarrow> (case br_max_risk r of None \<Rightarrow> True | Some n \<Rightarrow> \<not> risk > n)"
    if "r \<in> set ?rules" for r
    using ri(2) th(2) that by (auto split: option.splits)
  have "?w \<in> set (witnesses b)"
    unfolding witnesses_def Let_def
    by (simp, rule bexI [OF _ t(1)], rule bexI [OF _ a(1)], rule bexI [OF _ g(1)], rule bexI [OF _ ro], rule bexI [OF _ ri(1)],
        rule bexI [OF _ th(1)], rule imageI, rule range'(3))
  moreover have "case k of None \<Rightarrow> True | Some r \<Rightarrow> prove_matches r ?w"
  proof (cases k)
    case (Some r)
    then have r: "r \<in> set ?rules" and m: "bundle_match r tool action agent roles risk threat posture" using k by simp_all
    have "list_all (\<lambda>x. x \<in> set ro) (br_require_roles r)" using Some by (simp add: ro_def list_all_iff)
    then show ?thesis
      using m t(2) a(2) g(2) unfolding Some option.case prove_matches_bundle bundle_match_def witness.simps nums [OF r] by blast
  qed simp
  moreover have "bundle_match r' tool action agent roles risk threat posture" if "r' \<in> set ?rules" "prove_matches r' ?w" for r'
  proof -
    have "list_all (\<lambda>x. x \<in> set ro) (br_require_roles r') \<Longrightarrow> list_all (\<lambda>x. x \<in> set roles) (br_require_roles r')"
      using ro_sub by (auto simp: list_all_iff)
    then show ?thesis
      using that(2) t(3) a(3) g(3) that(1)
      unfolding prove_matches_bundle bundle_match_def witness.simps nums [OF that(1)] by blast
  qed
  ultimately show ?thesis by (intro bexI [of _ ?w]) auto
qed


section \<open>The search\<close>

definition first_rule :: "bundle_doc \<Rightarrow> witness \<Rightarrow> bundle_rule option" where
  "first_rule b w = find (\<lambda>r. prove_matches r w) (bu_rules b)"

text \<open>A call that is a hole.\<close>

definition lets_through :: "bundle_doc \<Rightarrow> string list \<Rightarrow> witness \<Rightarrow> bool" where
  "lets_through b allow w \<longleftrightarrow> no_undo (wi_reversibility w) \<and>
     (case first_rule b w of Some r \<Rightarrow> br_effect r = ''allow'' \<and> br_id r \<notin> set allow | None \<Rightarrow> bu_default_effect b = ''allow'')"

definition hole_of :: "bundle_doc \<Rightarrow> string list \<Rightarrow> witness list \<Rightarrow> string \<times> hole \<Rightarrow> bool" where
  "hole_of b allow ws h \<longleftrightarrow> ho_witness (snd h) \<in> set ws \<and> lets_through b allow (ho_witness (snd h)) \<and> ho_rule_id (snd h) = fst h
     \<and> ho_rule_id (snd h) = (case first_rule b (ho_witness (snd h)) of Some r \<Rightarrow> br_id r | None \<Rightarrow> ''__default__'')"

lemma try_witness_fired:
  "set (sc_fired (try_witness b allow w s)) = set (sc_fired s) \<union> (case first_rule b w of None \<Rightarrow> {} | Some r \<Rightarrow> {br_id r})"
  by (auto simp: try_witness_def first_rule_def split: option.splits)

lemma try_witness_holes:
  "sc_holes s \<noteq> [] \<or> lets_through b allow w \<Longrightarrow> sc_holes (try_witness b allow w s) \<noteq> []"
  by (auto simp: try_witness_def lets_through_def first_rule_def note_hole_def Let_def split: option.splits)

lemma try_witness_real:
  assumes "\<forall>h \<in> set (sc_holes s). hole_of b allow ws h" "w \<in> set ws"
  shows "\<forall>h \<in> set (sc_holes (try_witness b allow w s)). hole_of b allow ws h"
proof (cases "find (\<lambda>r. prove_matches r w) (bu_rules b)")
  case None
  then show ?thesis
    using assms by (auto simp: try_witness_def default_hole_def hole_of_def lets_through_def first_rule_def dest!: in_set_update)
next
  case (Some r)
  then show ?thesis
    using assms by (auto simp: try_witness_def note_hole_def Let_def hole_of_def lets_through_def first_rule_def dest!: in_set_update)
qed

lemma search_fold:
  fixes s0 :: search
  assumes "s = fold (try_witness b allow) vs s0"
  shows "set (sc_fired s) = set (sc_fired s0) \<union> {br_id r | r. \<exists>w \<in> set vs. first_rule b w = Some r}"
    "sc_holes s0 \<noteq> [] \<or> (\<exists>w \<in> set vs. lets_through b allow w) \<Longrightarrow> sc_holes s \<noteq> []"
    "\<forall>h \<in> set (sc_holes s0). hole_of b allow ws h \<Longrightarrow> set vs \<subseteq> set ws \<Longrightarrow> \<forall>h \<in> set (sc_holes s). hole_of b allow ws h"
  unfolding assms
proof (induction vs arbitrary: s0)
  case (Cons v vs)
  {
    case 1
    show ?case by (auto simp: Cons.IH(1) try_witness_fired split: option.splits)
  next
    case 2
    then show ?case using Cons.IH(2) [of "try_witness b allow v s0"] try_witness_holes [of s0 b allow v] by auto
  next
    case 3
    then show ?case using Cons.IH(3) [of "try_witness b allow v s0"] try_witness_real [of s0 b allow ws v] by simp
  }
qed simp_all

lemma report_parts:
  shows "pr_complete (prove_analyse b allow) \<longleftrightarrow> complaints (bu_rules b) = []"
    "pr_holes (prove_analyse b allow) = [] \<Longrightarrow> w \<in> set (witnesses b) \<Longrightarrow> \<not> lets_through b allow w"
    "h \<in> set (pr_holes (prove_analyse b allow)) \<Longrightarrow> hole_of b allow (witnesses b) (ho_rule_id h, h)"
    "u \<in> set (pr_unreachable (prove_analyse b allow)) \<Longrightarrow> pr_complete (prove_analyse b allow)
       \<and> ur_index u < length (bu_rules b) \<and> br_id (bu_rules b ! ur_index u) = ur_rule_id u
       \<and> (\<forall>w \<in> set (witnesses b). \<forall>r. first_rule b w = Some r \<longrightarrow> br_id r \<noteq> ur_rule_id u)"
proof -
  let ?s = "search_all b allow (witnesses b)"
  note f = search_fold [OF search_all_def [of b allow "witnesses b"]]
  show "pr_complete (prove_analyse b allow) \<longleftrightarrow> complaints (bu_rules b) = []" by (simp add: prove_analyse_def Let_def)
  have "sort_key ho_rule_id (map snd (sc_holes ?s)) = [] \<longleftrightarrow> sc_holes ?s = []"
    using set_sort [of ho_rule_id "map snd (sc_holes ?s)"] by (metis Nil_is_map_conv set_empty)
  then show "\<not> lets_through b allow w" if "pr_holes (prove_analyse b allow) = []" "w \<in> set (witnesses b)"
    using f(2) that by (auto simp: prove_analyse_def Let_def)
  show "hole_of b allow (witnesses b) (ho_rule_id h, h)" if "h \<in> set (pr_holes (prove_analyse b allow))"
  proof -
    have "h \<in> snd ` set (sc_holes ?s)" using that by (simp add: prove_analyse_def Let_def)
    then obtain x where x: "x \<in> set (sc_holes ?s)" "h = snd x" by blast
    then have "hole_of b allow (witnesses b) x" using f(3) [of "witnesses b"] by simp
    then show ?thesis using x(2) by (auto simp: hole_of_def)
  qed
  show "pr_complete (prove_analyse b allow) \<and> ur_index u < length (bu_rules b) \<and> br_id (bu_rules b ! ur_index u) = ur_rule_id u
      \<and> (\<forall>w \<in> set (witnesses b). \<forall>r. first_rule b w = Some r \<longrightarrow> br_id r \<noteq> ur_rule_id u)"
    if "u \<in> set (pr_unreachable (prove_analyse b allow))"
    using that f(1) by (auto simp: prove_analyse_def Let_def unreachable_of_def in_set_enumerate_eq split: if_splits)
qed


lemma find_first_rule: "find (bundle_applies b c) (bu_rules b) = None \<longleftrightarrow> (\<forall>r \<in> set (bu_rules b). \<not> bundle_applies b c r)"
  by (auto simp: find_None_iff)

text \<open>The call that stands for another gets the same rule.\<close>

lemma represented_rule:
  assumes cov: "complaints (bu_rules b) = []" "collision_free (bu_rules b)"
    and range: "in_range (bc_risk c) (bc_threat_score c) (call_posture b c)"
  shows "\<exists>w \<in> set (witnesses b). wi_reversibility w = call_posture b c \<and> first_rule b w = find (bundle_applies b c) (bu_rules b)"
proof -
  have app: "bundle_applies b c r = bundle_match r (bc_tool c) (bc_action c) (bc_agent_id c) (bc_roles c) (bc_risk c)
     (bc_threat_score c) (call_posture b c)" for r by (simp add: bundle_applies_def)
  have k: "case find (bundle_applies b c) (bu_rules b) of None \<Rightarrow> True | Some r \<Rightarrow> r \<in> set (bu_rules b) \<and> bundle_match r (bc_tool c) (bc_action c)
      (bc_agent_id c) (bc_roles c) (bc_risk c) (bc_threat_score c) (call_posture b c)"
    by (auto simp: find_Some_iff app split: option.splits)
  obtain w where w: "w \<in> set (witnesses b)" "wi_reversibility w = call_posture b c"
    "case find (bundle_applies b c) (bu_rules b) of None \<Rightarrow> True | Some r \<Rightarrow> prove_matches r w"
    "\<forall>r' \<in> set (bu_rules b). prove_matches r' w \<longrightarrow> bundle_applies b c r'"
    using represented [OF cov range k] unfolding app by blast
  have same: "find P rs = find Q rs" if "\<forall>x \<in> set rs. P x \<longrightarrow> Q x" "case find Q rs of None \<Rightarrow> True | Some x \<Rightarrow> P x"
    for P Q and rs :: "bundle_rule list"
    using that by (induction rs) (auto split: if_splits)
  have "first_rule b w = find (bundle_applies b c) (bu_rules b)"
    unfolding first_rule_def by (rule same) (use w(3,4) in auto)
  then show ?thesis using w(1,2) by blast
qed

lemma no_undo_range: "no_undo s \<Longrightarrow> s \<in> set REVERSIBILITIES"
  by (auto simp: no_undo_def REVERSIBILITIES_def)

lemma clean_report_is_sound:
  assumes "pr_complete (prove_analyse b allow)" "pr_holes (prove_analyse b allow) = []" "collision_free (bu_rules b)"
    and "0 \<le> bc_risk c" "0 \<le> bc_threat_score c" "no_undo (call_posture b c)" "bv_allowed (bundle_evaluate b c)"
  shows "bv_rule_id (bundle_evaluate b c) \<in> set allow"
proof -
  have cov: "complaints (bu_rules b) = []" using assms(1) by (simp add: report_parts(1))
  have range: "in_range (bc_risk c) (bc_threat_score c) (call_posture b c)"
    using assms(4-6) no_undo_range by (simp add: in_range_def)
  obtain w where w: "w \<in> set (witnesses b)" "wi_reversibility w = call_posture b c" "first_rule b w = find (bundle_applies b c) (bu_rules b)"
    using represented_rule [OF cov assms(3) range] by blast
  have "\<not> lets_through b allow w" by (rule report_parts(2) [OF assms(2) w(1)])
  then show ?thesis
    using assms(6,7) w(2,3) by (auto simp: lets_through_def bundle_evaluate_def split: option.splits)
qed


lemma no_holes_iff: "pr_holes (prove_analyse b allow) = [] \<longleftrightarrow> (\<forall>w \<in> set (witnesses b). \<not> lets_through b allow w)"
proof
  assume "pr_holes (prove_analyse b allow) = []"
  then show "\<forall>w \<in> set (witnesses b). \<not> lets_through b allow w" using report_parts(2) by blast
next
  assume none: "\<forall>w \<in> set (witnesses b). \<not> lets_through b allow w"
  have "\<not> h \<in> set (pr_holes (prove_analyse b allow))" for h
    using report_parts(3) [of h b allow] none by (auto simp: hole_of_def)
  then show "pr_holes (prove_analyse b allow) = []" by (metis list.set_intros(1) neq_Nil_conv)
qed

definition call_of_witness :: "witness \<Rightarrow> bundle_call" where
  "call_of_witness w = \<lparr>bc_tool = wi_tool w, bc_action = wi_action w, bc_agent_id = wi_agent_id w, bc_roles = wi_roles w,
     bc_risk = wi_risk w, bc_threat_score = wi_threat_score w, bc_reversibility = Some (wi_reversibility w)\<rparr>"

lemma call_of_witness_rule:
  assumes "no_undo (wi_reversibility w)"
  shows "call_posture b (call_of_witness w) = wi_reversibility w"
    "find (bundle_applies b (call_of_witness w)) (bu_rules b) = first_rule b w"
proof -
  show p: "call_posture b (call_of_witness w) = wi_reversibility w"
    using assms by (auto simp: call_posture_def call_of_witness_def no_undo_def)
  have "bundle_applies b (call_of_witness w) = (\<lambda>r. prove_matches r w)"
    unfolding bundle_applies_def p prove_matches_bundle by (simp add: call_of_witness_def fun_eq_iff)
  then show "find (bundle_applies b (call_of_witness w)) (bu_rules b) = first_rule b w" by (simp add: first_rule_def)
qed

section \<open>Properties\<close>




text \<open>A bundle whose second rule never fires.\<close>

definition open_rule :: "string \<Rightarrow> string \<Rightarrow> string \<Rightarrow> string list \<Rightarrow> bundle_rule" where
  "open_rule n effect tool roles = \<lparr>br_id = n, br_effect = effect, br_tools = [tool], br_actions = [''*''], br_agents = [''*''],
     br_require_roles = roles, br_reversibility = [], br_min_reversibility = None, br_min_risk = None, br_max_risk = None,
     br_min_threat_score = None, br_redact_fields = [], br_reason = []\<rparr>"

definition bundle_with :: "bundle_rule list \<Rightarrow> bundle_doc" where
  "bundle_with rs = \<lparr>bu_schema = 2, bu_policy_id = ''p'', bu_default_effect = ''deny'', bu_reversibility = [], bu_reversibility_globs = [],
     bu_unknown_tool_reversibility = ''unknown'', bu_rules = rs\<rparr>"

definition wide_open :: bundle_doc where
  "wide_open = bundle_with [open_rule ''all'' ''allow'' ''*'' [], open_rule ''late'' ''deny'' ''*'' []]"


section \<open>Where the report is wrong\<close>

text \<open>The rule with a pattern that the filler happens to match: the hole behind it is not seen, and the
  rule is called unreachable, in a report that is complete.\<close>

definition collided :: bundle_doc where
  "collided = bundle_with [open_rule ''sevens'' ''deny'' ''*7'' [], open_rule ''pay'' ''allow'' ''p*'' []]"

lemma fnmatch_any: "fnmatchcase s ''*''"
  using fnmatch_star [of "[]" "[]" s] by simp

lemma open_rule_matches:
  "prove_matches (open_rule n e t ro) w \<longleftrightarrow> fnmatchcase (wi_tool w) t \<and> list_all (\<lambda>x. x \<in> set (wi_roles w)) ro"
  by (auto simp: prove_matches_def open_rule_def fnmatch_any list_all_iff list_ex_iff)

lemma witness_parts:
  assumes "w \<in> set (witnesses b)"
  shows "wi_tool w \<in> set (fst (glob_witnesses (all_patterns br_tools (bu_rules b)) (map fst (bu_reversibility b))))"
    "wi_roles w \<in> set (role_sets (bu_rules b))"
  using assms by (auto simp: witnesses_def Let_def)

lemma filler_collision_hides_hole:
  "pr_holes (prove_analyse collided []) = [] \<and> pr_complete (prove_analyse collided [])
   \<and> bv_allowed (bundle_evaluate collided \<lparr>bc_tool = ''pay'', bc_action = ''write'', bc_agent_id = ''a'', bc_roles = [], bc_risk = 1,
       bc_threat_score = 0, bc_reversibility = Some ''irreversible''\<rparr>)"
proof (intro conjI)
  have tools: "fst (glob_witnesses (all_patterns br_tools (bu_rules collided)) (map fst (bu_reversibility collided)))
      = [''Zq7-unmatched-by-anything'', ''Zq77'', ''pZq7'']" by code_simp
  have m: "fnmatchcase ''Zq77'' ''*7''" "fnmatchcase ''pZq7'' ''*7''" "\<not> fnmatchcase ''Zq7-unmatched-by-anything'' ''*7''"
    "\<not> fnmatchcase ''Zq7-unmatched-by-anything'' ''p*''" by code_simp+
  have "\<not> lets_through collided [] w" if "w \<in> set (witnesses collided)" for w
  proof -
    have "wi_tool w \<in> {''Zq7-unmatched-by-anything'', ''Zq77'', ''pZq7''}" using witness_parts(1) [OF that] tools by simp
    then show ?thesis
      using m by (auto simp: lets_through_def first_rule_def collided_def bundle_with_def open_rule_matches) (simp_all add: open_rule_def)
  qed
  then show "pr_holes (prove_analyse collided []) = []" by (simp add: no_holes_iff)
  show "pr_complete (prove_analyse collided [])" unfolding report_parts(1) by code_simp
  show "bv_allowed (bundle_evaluate collided \<lparr>bc_tool = ''pay'', bc_action = ''write'', bc_agent_id = ''a'', bc_roles = [], bc_risk = 1,
       bc_threat_score = 0, bc_reversibility = Some ''irreversible''\<rparr>)" by code_simp
qed

text \<open>More role combinations than the cap: those that are dropped are never tried.\<close>

definition five_roles :: bundle_doc where
  "five_roles = bundle_with (map (\<lambda>x. open_rule x ''deny'' ''*'' [x]) [''a'', ''b'', ''c'', ''d''] @ [open_rule ''e'' ''allow'' ''*'' [''e'']])"

lemma role_cap_hides_hole:
  "pr_holes (prove_analyse five_roles []) = [] \<and> pr_complete (prove_analyse five_roles [])
   \<and> bv_allowed (bundle_evaluate five_roles \<lparr>bc_tool = ''pay'', bc_action = ''write'', bc_agent_id = ''a'', bc_roles = [''e''], bc_risk = 1,
       bc_threat_score = 0, bc_reversibility = Some ''irreversible''\<rparr>)"
proof (intro conjI)
  have roles: "role_sets (bu_rules five_roles) = [[], [''a''], [''a'', ''b'', ''c'', ''d'', ''e''], [''b''], [''c''], [''d'']]" by code_simp
  have "\<not> lets_through five_roles [] w" if "w \<in> set (witnesses five_roles)" for w
  proof -
    have "wi_roles w \<in> {[], [''a''], [''a'', ''b'', ''c'', ''d'', ''e''], [''b''], [''c''], [''d'']}" using witness_parts(2) [OF that] roles by simp
    then show ?thesis
      by (auto simp: lets_through_def first_rule_def five_roles_def bundle_with_def open_rule_matches fnmatch_any) (simp_all add: open_rule_def)
  qed
  then show "pr_holes (prove_analyse five_roles []) = []" by (simp add: no_holes_iff)
  show "pr_complete (prove_analyse five_roles [])" unfolding report_parts(1) by code_simp
  show "bv_allowed (bundle_evaluate five_roles \<lparr>bc_tool = ''pay'', bc_action = ''write'', bc_agent_id = ''a'', bc_roles = [''e''], bc_risk = 1,
       bc_threat_score = 0, bc_reversibility = Some ''irreversible''\<rparr>)" by code_simp
qed

end
