(* ===== verification/Calibrate.thy ===== *)
theory Calibrate
  imports Threats
begin

text \<open>
  \<open>gate/calibrate.py\<close>: measuring the threat scanner on labelled samples. A score is the integer the
  scanner gives; the statistics are computed in \<open>rat\<close>, the rounding of floats is not modelled. The
  notes keep what they report instead of their text. Building samples from scenarios and from data
  sets, and rendering, are not modelled.
\<close>

section \<open>Samples and points\<close>

record sample =
  sa_text :: string
  sa_malicious :: bool
  sa_task :: string
  sa_source :: string

definition sample_label :: "sample \<Rightarrow> int" where
  "sample_label s = (if sa_malicious s then 1 else 0)"

record threshold_point =
  tn_threshold :: int
  tn_tp :: nat
  tn_fp :: nat
  tn_tn :: nat
  tn_fn :: nat

definition ratio :: "nat \<Rightarrow> nat \<Rightarrow> rat" where
  "ratio a d = (if d \<noteq> 0 then of_nat a / of_nat d else 0)"

definition point_recall :: "threshold_point \<Rightarrow> rat" where
  "point_recall p = ratio (tn_tp p) (tn_tp p + tn_fn p)"

definition point_precision :: "threshold_point \<Rightarrow> rat" where
  "point_precision p = ratio (tn_tp p) (tn_tp p + tn_fp p)"

definition point_fpr :: "threshold_point \<Rightarrow> rat" where
  "point_fpr p = ratio (tn_fp p) (tn_fp p + tn_tn p)"

definition point_f1 :: "threshold_point \<Rightarrow> rat" where
  "point_f1 p = (let pr = point_precision p; r = point_recall p in if pr + r \<noteq> 0 then 2 * pr * r / (pr + r) else 0)"

section \<open>How one pattern behaves\<close>

record pattern_stat =
  ps_label :: string
  ps_category :: string
  ps_weight :: int
  ps_hits_malicious :: nat
  ps_hits_benign :: nat
  ps_n_malicious :: nat
  ps_n_benign :: nat

definition rate_malicious :: "pattern_stat \<Rightarrow> rat" where
  "rate_malicious p = ratio (ps_hits_malicious p) (ps_n_malicious p)"

definition rate_benign :: "pattern_stat \<Rightarrow> rat" where
  "rate_benign p = ratio (ps_hits_benign p) (ps_n_benign p)"

datatype lift_value = NoLift | InfiniteLift | Lift rat

definition pattern_lift :: "pattern_stat \<Rightarrow> lift_value" where
  "pattern_lift p =
     (if rate_benign p = 0 then (if rate_malicious p = 0 then NoLift else InfiniteLift)
      else Lift (rate_malicious p / rate_benign p))"

text \<open>\<open>self.lift or 0.0\<close>, compared with a bound.\<close>

fun lift_below :: "lift_value \<Rightarrow> rat \<Rightarrow> bool" where
  "lift_below NoLift x = (0 < x)"
| "lift_below InfiniteLift x = False"
| "lift_below (Lift r) x = (r < x)"

definition pattern_verdict :: "pattern_stat \<Rightarrow> string" where
  "pattern_verdict p =
     (if ps_hits_malicious p = 0 \<and> ps_hits_benign p = 0 then ''dead''
      else if ps_weight p = 0 then ''observation''
      else if ps_hits_benign p = 0 then ''clean''
      else if lift_below (pattern_lift p) 1 then ''noisy''
      else if lift_below (pattern_lift p) 2 then ''weak''
      else ''useful'')"

section \<open>Ranking\<close>

text \<open>A score with its label, 1 for an attack. The two loops of \<open>_auroc\<close> are partial functions: \<open>None\<close>
  would be a loop that does not end.\<close>

type_synonym scored = "(int \<times> int) list"

partial_function (option) tie_end :: "scored \<Rightarrow> nat \<Rightarrow> nat \<Rightarrow> nat option" where
  "tie_end xs i j =
     (if j + 1 < length xs \<and> fst (xs ! (j + 1)) = fst (xs ! i) then tie_end xs i (j + 1) else Some j)"

definition put_ranks :: "nat \<Rightarrow> nat \<Rightarrow> rat \<Rightarrow> rat list \<Rightarrow> rat list" where
  "put_ranks i j avg ranks = fold (\<lambda>k r. r[k := avg]) [i ..< j + 1] ranks"

partial_function (option) rank_loop :: "scored \<Rightarrow> nat \<Rightarrow> rat list \<Rightarrow> rat list option" where
  "rank_loop xs i ranks =
     (if i < length xs
      then Option.bind (tie_end xs i i)
             (\<lambda>j. rank_loop xs (j + 1) (put_ranks i j (of_nat (i + j) / 2 + 1) ranks))
      else Some ranks)"

definition positives :: "scored \<Rightarrow> nat" where
  "positives xs = length (filter (\<lambda>x. snd x = 1) xs)"

definition auroc :: "scored \<Rightarrow> rat option" where
  "auroc scored =
     (let pos = positives scored; neg = length scored - pos
      in if pos = 0 \<or> neg = 0 then Some 0
         else let ordered = sort_key fst scored
              in map_option
                   (\<lambda>ranks. (sum_list (map fst (filter (\<lambda>(r, x). snd x = 1) (zip ranks ordered)))
                      - of_nat (pos * (pos + 1)) / 2) / of_nat (pos * neg))
                   (rank_loop ordered 0 (replicate (length ordered) 0)))"

fun precision_sum :: "nat \<Rightarrow> nat \<Rightarrow> scored \<Rightarrow> rat" where
  "precision_sum n tp [] = 0"
| "precision_sum n tp (x # xs) =
     (if snd x = 1 then of_nat (tp + 1) / of_nat n + precision_sum (n + 1) (tp + 1) xs else precision_sum (n + 1) tp xs)"

definition auprc :: "scored \<Rightarrow> rat" where
  "auprc scored =
     (if positives scored = 0 then 0
      else precision_sum 1 0 (sort_key (\<lambda>x. - fst x) scored) / of_nat (positives scored))"

section \<open>Evaluation\<close>

datatype calibration_note =
    OnlyFew nat
  | SmallSample nat nat
  | DeadPatterns "string list"
  | NoisyPatterns "string list"
  | DemotedPatterns "string list"

record calibration =
  cl_n_malicious :: nat
  cl_n_benign :: nat
  cl_auroc :: "rat option"
  cl_auprc :: rat
  cl_points :: "threshold_point list"
  cl_patterns :: "pattern_stat list"
  cl_notes :: "calibration_note list"

definition score_sample :: "pyrt \<Rightarrow> nat \<Rightarrow> sample \<Rightarrow> scan_result" where
  "score_sample rt limit s = scan rt limit [(''content'', VStr (sa_text s))]"

definition count_hits :: "string \<Rightarrow> bool \<Rightarrow> (sample \<times> scan_result) list \<Rightarrow> nat" where
  "count_hits label malicious rs =
     length (filter (\<lambda>h. th_label h = label) (concat (map (sr_hits \<circ> snd) (filter (\<lambda>r. sa_malicious (fst r) = malicious) rs))))"

definition point_at :: "scored \<Rightarrow> int \<Rightarrow> threshold_point" where
  "point_at xs t = \<lparr>tn_threshold = t,
     tn_tp = length (filter (\<lambda>(s, y). y = 1 \<and> t \<le> s) xs), tn_fp = length (filter (\<lambda>(s, y). y = 0 \<and> t \<le> s) xs),
     tn_tn = length (filter (\<lambda>(s, y). y = 0 \<and> s < t) xs), tn_fn = length (filter (\<lambda>(s, y). y = 1 \<and> s < t) xs)\<rparr>"

definition max_score :: "scored \<Rightarrow> int" where
  "max_score xs = (if xs = [] then 0 else fold max (map fst (tl xs)) (fst (hd xs)))"

definition threshold_points :: "scored \<Rightarrow> threshold_point list" where
  "threshold_points xs = map (point_at xs) [0 .. max_score xs + 1]"

definition pattern_stats :: "(sample \<times> scan_result) list \<Rightarrow> pattern_stat list" where
  "pattern_stats rs =
     map (\<lambda>p. \<lparr>ps_label = tp_label p, ps_category = category_value (tp_category p), ps_weight = tp_weight p,
                ps_hits_malicious = count_hits (tp_label p) True rs, ps_hits_benign = count_hits (tp_label p) False rs,
                ps_n_malicious = length (filter (\<lambda>r. sa_malicious (fst r)) rs),
                ps_n_benign = length (filter (\<lambda>r. \<not> sa_malicious (fst r)) rs)\<rparr>) PATTERNS"

definition labels_with :: "string \<Rightarrow> pattern_stat list \<Rightarrow> string list" where
  "labels_with v ps = map ps_label (filter (\<lambda>p. pattern_verdict p = v) ps)"

definition calibration_notes :: "nat \<Rightarrow> nat \<Rightarrow> pattern_stat list \<Rightarrow> calibration_note list" where
  "calibration_notes n_mal n_ben ps =
     (if n_mal < 10 then [OnlyFew n_mal] else if n_mal < 30 \<or> n_ben < 30 then [SmallSample n_mal n_ben] else [])
     @ (if labels_with ''dead'' ps \<noteq> [] then [DeadPatterns (labels_with ''dead'' ps)] else [])
     @ (if labels_with ''noisy'' ps \<noteq> [] then [NoisyPatterns (labels_with ''noisy'' ps)] else [])
     @ (if labels_with ''observation'' ps \<noteq> [] then [DemotedPatterns (labels_with ''observation'' ps)] else [])"

definition scores_of :: "pyrt \<Rightarrow> nat \<Rightarrow> sample list \<Rightarrow> scored" where
  "scores_of rt limit samples = map (\<lambda>s. (sr_score (score_sample rt limit s), sample_label s)) samples"

definition calibrate :: "pyrt \<Rightarrow> nat \<Rightarrow> sample list \<Rightarrow> calibration" where
  "calibrate rt limit samples =
     (let rs = map (\<lambda>s. (s, score_sample rt limit s)) samples;
          scored = scores_of rt limit samples;
          n_mal = length (filter sa_malicious samples); n_ben = length (filter (\<lambda>s. \<not> sa_malicious s) samples);
          ps = sort_key (\<lambda>p. - int (ps_hits_malicious p)) (pattern_stats rs)
      in \<lparr>cl_n_malicious = n_mal, cl_n_benign = n_ben, cl_auroc = auroc scored, cl_auprc = auprc scored,
          cl_points = threshold_points scored, cl_patterns = ps, cl_notes = calibration_notes n_mal n_ben ps\<rparr>)"

text \<open>\<open>best_f1\<close> is the first point with the greatest F1, \<open>strictest_clean\<close> the lowest threshold without a
  false positive that still catches something.\<close>

definition best_f1 :: "calibration \<Rightarrow> threshold_point option" where
  "best_f1 c = (case cl_points c of [] \<Rightarrow> None
     | p # ps \<Rightarrow> Some (fold (\<lambda>q best. if point_f1 best < point_f1 q then q else best) ps p))"

definition strictest_clean :: "calibration \<Rightarrow> threshold_point option" where
  "strictest_clean c =
     (case filter (\<lambda>p. tn_fp p = 0 \<and> 0 < tn_tp p) (cl_points c) of
        [] \<Rightarrow> None
      | p # ps \<Rightarrow> Some (fold (\<lambda>q best. if tn_threshold q < tn_threshold best then q else best) ps p))"

section \<open>Splits\<close>

text \<open>The hash of a seed with a task, or with a position and a text, is a parameter.\<close>

definition hold_count :: "nat \<Rightarrow> rat \<Rightarrow> nat" where
  "hold_count n holdout = nat (max 1 (floor (py_round (of_nat n * holdout) 0)))"

definition task_disjoint_split :: "(string \<Rightarrow> nat) \<Rightarrow> rat \<Rightarrow> sample list \<Rightarrow> sample list \<times> sample list" where
  "task_disjoint_split hsh holdout samples =
     (let tasks = sort (remdups (map sa_task samples)) in
      if tasks = [] then ([], [])
      else let ordered = sort_key hsh tasks; held = take (hold_count (length ordered) holdout) ordered
           in (filter (\<lambda>s. sa_task s \<notin> set held) samples, filter (\<lambda>s. sa_task s \<in> set held) samples))"

definition random_split :: "(nat \<Rightarrow> string \<Rightarrow> nat) \<Rightarrow> rat \<Rightarrow> sample list \<Rightarrow> sample list \<times> sample list" where
  "random_split hsh holdout samples =
     (let ordered = sort_key (\<lambda>(i, s). hsh i (sa_text s)) (enumerate 0 samples);
          n_hold = hold_count (length ordered) holdout
      in (map snd (drop n_hold ordered), map snd (take n_hold ordered)))"

definition measurable :: "sample list \<Rightarrow> bool" where
  "measurable xs = (let pos = length (filter sa_malicious xs) in 0 < pos \<and> pos < length xs)"

text \<open>The four figures of a measured comparison, and whether the inflation counts as near zero.\<close>

datatype split_report =
    NotMeasurable nat
  | Measured nat rat rat rat bool

definition compare_splits ::
  "pyrt \<Rightarrow> nat \<Rightarrow> (string \<Rightarrow> nat) \<Rightarrow> (nat \<Rightarrow> string \<Rightarrow> nat) \<Rightarrow> sample list \<Rightarrow> split_report option" where
  "compare_splits rt limit hsh1 hsh2 samples =
     (let te_t = snd (task_disjoint_split hsh1 (3 / 10) samples); te_r = snd (random_split hsh2 (3 / 10) samples);
          held_out = length (remdups (map sa_task te_t))
      in if \<not> (measurable te_t \<and> measurable te_r) then Some (NotMeasurable held_out)
         else case (cl_auroc (calibrate rt limit te_t), cl_auroc (calibrate rt limit te_r)) of
                (Some disjoint, Some leaky) \<Rightarrow>
                  (let delta = (leaky - disjoint) * 100
                   in Some (Measured held_out (py_round disjoint 4) (py_round leaky 4) (py_round delta 2) (\<bar>delta\<bar> < 5)))
              | _ \<Rightarrow> None)"

end
