(* ===== verification/CalibrateProps.thy ===== *)
theory CalibrateProps
  imports Calibrate Conditions ThreatProps "HOL-Library.Multiset" "HOL-Library.Sublist"
begin

text \<open>
  The ranking statistic ends and is the Mann-Whitney statistic, whatever the order of the samples; a
  split shares no task; the operating point called strictest is optimal. The average precision does
  depend on the order of samples with equal scores.
\<close>

section \<open>The loops of the ranking\<close>

lemma tie_end_run:
  assumes "xs = pre @ g @ post" "\<forall>x \<in> set g. fst x = s" "post = [] \<or> fst (hd post) \<noteq> s" "k < length g"
  shows "tie_end xs (length pre) (length pre + k) = Some (length pre + length g - 1)"
  using assms(4)
proof (induction "length g - k" arbitrary: k rule: less_induct)
  case less
  have i: "fst (xs ! length pre) = s" using assms(1,2) less.prems by (cases g) (auto simp: nth_append)
  show ?case
  proof (cases "k + 1 < length g")
    case True
    then have "length pre + k + 1 < length xs" "fst (xs ! (length pre + k + 1)) = s"
      using assms(1,2) by (auto simp: nth_append)
    then show ?thesis
      using less.hyps [of "k + 1"] True less.prems i by (subst tie_end.simps) (simp add: add.assoc)
  next
    case False
    then have k: "Suc k = length g" using less.prems by simp
    have "\<not> (length pre + k + 1 < length xs \<and> fst (xs ! (length pre + k + 1)) = s)"
      using assms(1,3) k by (auto simp: nth_append hd_conv_nth)
    then show ?thesis using i k by (subst tie_end.simps) auto
  qed
qed

lemma fold_put:
  "n \<le> length b \<Longrightarrow> fold (\<lambda>k r. r[k := v]) [length a ..< length a + n] (a @ b @ c) = a @ replicate n v @ drop n b @ c"
proof (induction n)
  case (Suc n)
  then have "drop n b = b ! n # drop (Suc n) b" by (simp add: Cons_nth_drop_Suc)
  then show ?case using Suc by (simp add: list_update_append replicate_append_same [symmetric])
qed simp

lemma put_ranks_run:
  "b \<noteq> [] \<Longrightarrow> put_ranks (length a) (length a + length b - 1) v (a @ b @ c) = a @ replicate (length b) v @ c"
  using fold_put [of "length b" b v a c] by (cases b) (simp_all add: put_ranks_def)

section \<open>The reference\<close>

text \<open>A pair counts one when the first scores higher and a half when they tie.\<close>

definition beat :: "int \<Rightarrow> int \<Rightarrow> rat" where
  "beat p q = (if q < p then 1 else if q = p then 1 / 2 else 0)"

definition wins :: "int list \<Rightarrow> int list \<Rightarrow> rat" where
  "wins ps qs = (\<Sum>p \<leftarrow> ps. \<Sum>q \<leftarrow> qs. beat p q)"

definition mann_whitney :: "scored \<Rightarrow> rat" where
  "mann_whitney xs =
     (let ps = map fst (filter (\<lambda>x. snd x = 1) xs); ns = map fst (filter (\<lambda>x. snd x \<noteq> 1) xs)
      in if ps = [] \<or> ns = [] then 0 else wins ps ns / of_nat (length ps * length ns))"

lemma sum_list_all: "\<forall>x \<in> set xs. f x = c \<Longrightarrow> (\<Sum>x \<leftarrow> xs. f x :: rat) = of_nat (length xs) * c"
  by (induction xs) (simp_all add: algebra_simps)

lemma sum_list_const: "(\<Sum>x \<leftarrow> xs. (c :: rat)) = of_nat (length xs) * c"
  by (rule sum_list_all) simp

lemma wins_Nil [simp]: "wins ps [] = 0" "wins [] qs = 0"
  by (simp_all add: wins_def sum_list_const)

lemma wins_append: "wins ps (qs @ rs) = wins ps qs + wins ps rs"
  by (simp add: wins_def sum_list_addf)

lemma wins_self: "wins ps ps = of_nat (length ps) * of_nat (length ps) / 2"
proof (induction ps)
  case (Cons x ps)
  have one: "beat x q + beat q x = 1" for q by (simp add: beat_def)
  have "(\<Sum>q \<leftarrow> ps. beat x q) + (\<Sum>p \<leftarrow> ps. beat p x) = (\<Sum>q \<leftarrow> ps. beat x q + beat q x)" by (simp add: sum_list_addf)
  also have "\<dots> = of_nat (length ps)" unfolding one by (simp add: sum_list_const)
  finally have s: "(\<Sum>q \<leftarrow> ps. beat x q) + (\<Sum>p \<leftarrow> ps. beat p x) = of_nat (length ps)" .
  have "wins (x # ps) (x # ps) = beat x x + ((\<Sum>q \<leftarrow> ps. beat x q) + (\<Sum>p \<leftarrow> ps. beat p x)) + wins ps ps"
    by (simp add: wins_def sum_list_addf)
  then show ?case unfolding s Cons.IH by (simp add: beat_def algebra_simps)
qed simp

lemma sum_list_mset_cong: "mset xs = mset ys \<Longrightarrow> (\<Sum>x \<leftarrow> xs. (f x :: rat)) = (\<Sum>x \<leftarrow> ys. f x)"
  by (metis mset_map sum_mset_sum_list)

lemma wins_mset:
  assumes "mset ps = mset ps'" "mset qs = mset qs'"
  shows "wins ps qs = wins ps' qs'"
proof -
  have "(\<Sum>q \<leftarrow> qs. beat p q) = (\<Sum>q \<leftarrow> qs'. beat p q)" for p by (rule sum_list_mset_cong [OF assms(2)])
  then show ?thesis unfolding wins_def by (simp add: sum_list_mset_cong [OF assms(1)])
qed

lemma wins_bounds: "0 \<le> wins ps qs" "wins ps qs \<le> of_nat (length ps * length qs)"
proof -
  have b: "0 \<le> beat p q" "beat p q \<le> 1" for p q by (simp_all add: beat_def)
  have "(\<Sum>q \<leftarrow> qs. beat p q) \<le> of_nat (length qs)" for p
    using sum_list_mono [of qs "beat p" "\<lambda>_. 1"] b(2) by (simp add: sum_list_const)
  then have "wins ps qs \<le> (\<Sum>p \<leftarrow> ps. of_nat (length qs))" unfolding wins_def by (intro sum_list_mono) simp
  then show "wins ps qs \<le> of_nat (length ps * length qs)" by (simp add: sum_list_const)
  show "0 \<le> wins ps qs" unfolding wins_def using b(1) by (auto intro!: sum_list_nonneg)
qed

section \<open>The ranks\<close>

definition rank_in :: "scored \<Rightarrow> int \<Rightarrow> rat" where
  "rank_in xs s = (\<Sum>q \<leftarrow> map fst xs. beat s q) + 1 / 2"

lemma rank_of_group:
  assumes "xs = pre @ g @ post" "\<forall>x \<in> set pre. fst x < s" "\<forall>x \<in> set g. fst x = s" "\<forall>x \<in> set post. s < fst x" "g \<noteq> []"
  shows "rank_in xs s = of_nat (length pre + (length pre + length g - 1)) / 2 + 1"
proof -
  have "(\<Sum>x \<leftarrow> pre. beat s (fst x)) = of_nat (length pre) * 1" "(\<Sum>x \<leftarrow> g. beat s (fst x)) = of_nat (length g) * (1 / 2)"
    "(\<Sum>x \<leftarrow> post. beat s (fst x)) = of_nat (length post) * 0"
    by (rule sum_list_all; use assms(2-4) in \<open>auto simp: beat_def\<close>)+
  then have "rank_in xs s = of_nat (length pre) + of_nat (length g) / 2 + 1 / 2"
    unfolding rank_in_def assms(1) by (simp add: comp_def)
  moreover have "of_nat (length pre + (length pre + length g - 1)) = (2 * of_nat (length pre) + of_nat (length g) - 1 :: rat)"
    using assms(5) by (cases g) simp_all
  ultimately show ?thesis by (simp only:) (simp add: field_simps)
qed

lemma rank_loop_sorted:
  assumes "xs = pre @ rest" "sorted (map fst xs)" "\<forall>x \<in> set pre. \<forall>y \<in> set rest. fst x < fst y"
  shows "rank_loop xs (length pre) (map (rank_in xs \<circ> fst) pre @ replicate (length rest) 0) = Some (map (rank_in xs \<circ> fst) xs)"
  using assms
proof (induction "length rest" arbitrary: pre rest rule: less_induct)
  case less
  show ?case
  proof (cases rest)
    case Nil
    then show ?thesis using less.prems(1) by (subst rank_loop.simps) simp
  next
    case (Cons x r)
    define s g post where "s = fst x" and "g = takeWhile (\<lambda>y. fst y = s) rest" and "post = dropWhile (\<lambda>y. fst y = s) rest"
    have rest: "rest = g @ post" by (simp add: g_def post_def)
    have g: "g \<noteq> []" "\<forall>y \<in> set g. fst y = s" using Cons by (auto simp: g_def s_def dest: set_takeWhileD)
    have first: "post = [] \<or> fst (hd post) \<noteq> s" unfolding post_def using hd_dropWhile [of "\<lambda>y. fst y = s" rest] by blast
    have xs: "xs = pre @ g @ post" using less.prems(1) rest by simp
    have "sorted (map fst (g @ post))" using less.prems(2) unfolding xs by (simp add: sorted_append)
    then have ge: "\<forall>y \<in> set post. s \<le> fst y" using g by (cases g) (auto simp: sorted_append)
    moreover have "sorted (map fst post)" using \<open>sorted (map fst (g @ post))\<close> by (simp add: sorted_append)
    ultimately have post: "\<forall>y \<in> set post. s < fst y" using first by (cases post) force+
    have pre: "\<forall>y \<in> set pre. fst y < s" using less.prems(3) Cons by (simp add: s_def)
    have t: "tie_end xs (length pre) (length pre) = Some (length pre + length g - 1)"
      using tie_end_run [OF xs g(2) first, of 0] g(1) by simp
    have "put_ranks (length pre) (length pre + length g - 1) (rank_in xs s) (map (rank_in xs \<circ> fst) pre @ replicate (length rest) 0)
        = map (rank_in xs \<circ> fst) pre @ replicate (length g) (rank_in xs s) @ replicate (length post) 0"
      using put_ranks_run [of "replicate (length g) 0" "map (rank_in xs \<circ> fst) pre" "rank_in xs s" "replicate (length post) 0"] g(1)
      unfolding rest by (simp add: replicate_add)
    moreover have "map (rank_in xs \<circ> fst) g = replicate (length g) (rank_in xs s)"
      using g(2) by (intro replicate_eqI) auto
    ultimately have p: "put_ranks (length pre) (length pre + length g - 1) (rank_in xs s)
        (map (rank_in xs \<circ> fst) pre @ replicate (length rest) 0) = map (rank_in xs \<circ> fst) (pre @ g) @ replicate (length post) 0"
      by simp
    have "length post < length rest" using g(1) rest by simp
    moreover have "\<forall>y \<in> set (pre @ g). \<forall>z \<in> set post. fst y < fst z" using pre g(2) post by fastforce
    ultimately have "rank_loop xs (length (pre @ g)) (map (rank_in xs \<circ> fst) (pre @ g) @ replicate (length post) 0)
        = Some (map (rank_in xs \<circ> fst) xs)"
      using less.hyps [of post "pre @ g"] less.prems(2) xs by simp
    then have "rank_loop xs (length pre + length g - 1 + 1)
        (put_ranks (length pre) (length pre + length g - 1) (rank_in xs s) (map (rank_in xs \<circ> fst) pre @ replicate (length rest) 0))
        = Some (map (rank_in xs \<circ> fst) xs)"
      unfolding p using g(1) by (cases g) simp_all
    moreover have "length pre < length xs" using xs g(1) by simp
    ultimately show ?thesis
      unfolding rank_of_group [OF xs pre g(2) post g(1)] by (subst rank_loop.simps) (simp only: t if_True bind.simps)
  qed
qed

lemma zip_filter: "map fst (filter (\<lambda>(r, x). P x) (zip (map f xs) xs)) = map f (filter P xs)"
  by (induction xs) auto

lemma positives_split: "length xs - positives xs = length (filter (\<lambda>x. snd x \<noteq> 1) xs)"
  unfolding positives_def using sum_length_filter_compl [of "\<lambda>x. snd x = 1" xs] by linarith

lemma rank_sum:
  "(\<Sum>x \<leftarrow> filter (\<lambda>x. snd x = 1) xs. rank_in xs (fst x))
   = wins (map fst (filter (\<lambda>x. snd x = 1) xs)) (map fst (filter (\<lambda>x. snd x \<noteq> 1) xs)) + of_nat (positives xs * (positives xs + 1)) / 2"
proof -
  let ?P = "filter (\<lambda>x. snd x = 1) xs" and ?N = "filter (\<lambda>x. snd x \<noteq> 1) xs"
  have m: "mset (map fst xs) = mset (map fst (?P @ ?N))" by (simp flip: image_mset_union)
  have "rank_in xs s = (\<Sum>q \<leftarrow> map fst (?P @ ?N). beat s q) + 1 / 2" for s
    unfolding rank_in_def by (simp only: sum_list_mset_cong [OF m])
  then have "(\<Sum>x \<leftarrow> ?P. rank_in xs (fst x)) = wins (map fst ?P) (map fst (?P @ ?N)) + of_nat (length ?P) / 2"
    by (simp add: wins_def sum_list_addf sum_list_const comp_def)
  then show ?thesis
    by (simp add: wins_append wins_self positives_def field_simps)
qed

lemma auroc_eq: "auroc xs = Some (mann_whitney xs)"
proof (cases "positives xs = 0 \<or> length xs - positives xs = 0")
  case True
  moreover from this have "filter (\<lambda>x. snd x = 1) xs = [] \<or> filter (\<lambda>x. snd x \<noteq> 1) xs = []"
    unfolding positives_split by (simp add: positives_def)
  ultimately show ?thesis by (simp add: auroc_def mann_whitney_def Let_def)
next
  case False
  let ?o = "sort_key fst xs"
  have loop: "rank_loop ?o 0 (replicate (length ?o) 0) = Some (map (rank_in ?o \<circ> fst) ?o)"
    using rank_loop_sorted [of ?o "[]" ?o] by simp
  have filt: "mset (filter P ?o) = mset (filter P xs)" for P by simp
  have w: "wins (map fst (filter P ?o)) (map fst (filter Q ?o)) = wins (map fst (filter P xs)) (map fst (filter Q xs))" for P Q
    by (rule wins_mset) simp_all
  have pos: "positives ?o = positives xs" unfolding positives_def by (metis filt size_mset)
  have ne: "filter (\<lambda>x. snd x = 1) xs \<noteq> []" "filter (\<lambda>x. snd x \<noteq> 1) xs \<noteq> []"
    using False unfolding positives_split by (simp_all add: positives_def)
  have "(\<Sum>x \<leftarrow> map (rank_in ?o \<circ> fst) (filter (\<lambda>x. snd x = 1) ?o). x) = (\<Sum>x \<leftarrow> filter (\<lambda>x. snd x = 1) ?o. rank_in ?o (fst x))"
    by (simp add: comp_def)
  then show ?thesis
    using False ne unfolding auroc_def Let_def loop option.map zip_filter
    by (simp add: rank_sum w pos mann_whitney_def Let_def positives_split) (simp add: positives_def)
qed


section \<open>Operating points\<close>

text \<open>A threshold that flags an attack and nothing else.\<close>

definition flags :: "pyrt \<Rightarrow> nat \<Rightarrow> int \<Rightarrow> sample \<Rightarrow> bool" where
  "flags rt limit t s \<longleftrightarrow> t \<le> sr_score (score_sample rt limit s)"

definition separates :: "pyrt \<Rightarrow> nat \<Rightarrow> sample list \<Rightarrow> int \<Rightarrow> bool" where
  "separates rt limit samples t \<longleftrightarrow>
     (\<exists>s \<in> set samples. sa_malicious s \<and> flags rt limit t s) \<and> (\<forall>s \<in> set samples. flags rt limit t s \<longrightarrow> sa_malicious s)"

lemma fold_least:
  fixes f :: "'a \<Rightarrow> int"
  shows "fold (\<lambda>q best. if f q < f best then q else best) ps p \<in> set (p # ps)
    \<and> (\<forall>x \<in> set (p # ps). f (fold (\<lambda>q best. if f q < f best then q else best) ps p) \<le> f x)"
proof (induction ps arbitrary: p)
  case (Cons q ps)
  then show ?case by (cases "f q < f p") force+
qed simp

lemma max_score_ge: "x \<in> set xs \<Longrightarrow> fst x \<le> max_score xs"
  using fold_max_ge(1) [of "fst (hd xs)"] fold_max_ge(2) [of "fst x" "map fst (tl xs)"]
  by (cases xs) (auto simp: max_score_def)

lemma point_at_clean:
  "tn_fp (point_at (scores_of rt limit samples) t) = 0 \<and> 0 < tn_tp (point_at (scores_of rt limit samples) t)
   \<longleftrightarrow> separates rt limit samples t"
  by (auto simp: point_at_def scores_of_def sample_label_def separates_def flags_def filter_empty_conv)

lemma separates_range: "separates rt limit samples t \<Longrightarrow> t \<le> max_score (scores_of rt limit samples)"
  using max_score_ge [of _ "scores_of rt limit samples"] by (fastforce simp: separates_def flags_def scores_of_def)

lemma clean_points:
  "filter (\<lambda>p. tn_fp p = 0 \<and> 0 < tn_tp p) (cl_points (calibrate rt limit samples))
   = map (point_at (scores_of rt limit samples)) (filter (separates rt limit samples) [0 .. max_score (scores_of rt limit samples) + 1])"
  by (simp add: calibrate_def Let_def threshold_points_def filter_map comp_def point_at_clean)

section \<open>Properties\<close>

text \<open>
  C19: the two nested loops that rank the scores end for every list of scores, sorted or not, with ties
  or without, and the figure they give lies between zero and one.
\<close>

theorem ranking_terminates: "\<exists>r. auroc scores = Some r \<and> 0 \<le> r \<and> r \<le> 1"
  using wins_bounds [of "map fst (filter (\<lambda>x. snd x = 1) scores)" "map fst (filter (\<lambda>x. snd x \<noteq> 1) scores)"]
  by (auto simp: auroc_eq mann_whitney_def Let_def divide_le_eq_1 zero_less_mult_iff)

text \<open>
  C20: AUROC by ranks is the Mann-Whitney statistic: the share of pairs of an attack and a benign sample
  in which the attack scores higher, a tie counting one half, and zero when one of the two kinds is
  missing.
\<close>

theorem auroc_is_mann_whitney:
  "auroc scores = Some (let ps = map fst (filter (\<lambda>x. snd x = 1) scores); ns = map fst (filter (\<lambda>x. snd x \<noteq> 1) scores)
     in if ps = [] \<or> ns = [] then 0
        else (\<Sum>p \<leftarrow> ps. \<Sum>n \<leftarrow> ns. if n < p then 1 else if n = p then 1 / 2 else 0) / of_nat (length ps * length ns))"
  unfolding auroc_eq mann_whitney_def wins_def beat_def by (rule HOL.refl)

text \<open>
  The strictest clean operating point of a calibration is optimal: its threshold flags an attack and
  no benign sample, and no smaller threshold does; when there is none, no threshold at all does.
\<close>

theorem strictest_clean_is_optimal:
  "case strictest_clean (calibrate rt limit samples) of
     None \<Rightarrow> \<forall>t \<ge> 0. \<not> separates rt limit samples t
   | Some p \<Rightarrow> separates rt limit samples (tn_threshold p) \<and> (\<forall>t. 0 \<le> t \<and> separates rt limit samples t \<longrightarrow> tn_threshold p \<le> t)"
proof -
  let ?xs = "scores_of rt limit samples"
  let ?ts = "filter (separates rt limit samples) [0 .. max_score ?xs + 1]"
  have ts: "t \<in> set ?ts \<longleftrightarrow> 0 \<le> t \<and> separates rt limit samples t" for t using separates_range by fastforce
  have thr: "tn_threshold (point_at ?xs t) = t" for t by (simp add: point_at_def)
  show ?thesis
  proof (cases "map (point_at ?xs) ?ts")
    case Nil
    then have "?ts = []" by simp
    then show ?thesis unfolding strictest_clean_def clean_points using ts by auto
  next
    case (Cons q qs)
    let ?p = "fold (\<lambda>q best. if tn_threshold q < tn_threshold best then q else best) qs q"
    have p: "?p \<in> point_at ?xs ` set ?ts" "\<forall>x \<in> point_at ?xs ` set ?ts. tn_threshold ?p \<le> tn_threshold x"
      using fold_least [of tn_threshold qs q] unfolding Cons [symmetric] by simp_all
    obtain t where t: "?p = point_at ?xs t" "t \<in> set ?ts" using p(1) by blast
    have "strictest_clean (calibrate rt limit samples) = Some ?p" by (simp only: strictest_clean_def clean_points Cons list.case)
    moreover have "tn_threshold ?p \<le> u" if "0 \<le> u \<and> separates rt limit samples u" for u
    proof -
      have "point_at ?xs u \<in> point_at ?xs ` set ?ts" using ts [of u] that by blast
      from p(2) [rule_format, OF this] show ?thesis unfolding thr [of u] .
    qed
    moreover have "separates rt limit samples (tn_threshold ?p)" using t ts [of t] thr [of t] by simp
    ultimately show ?thesis by simp
  qed
qed

definition two_samples :: "sample list" where
  "two_samples = [\<lparr>sa_text = ''../x'', sa_malicious = True, sa_task = ''t'', sa_source = []\<rparr>,
     \<lparr>sa_text = [], sa_malicious = False, sa_task = ''u'', sa_source = []\<rparr>]"

lemma traversal_scores: "3 \<le> sr_score (scan rt limit [(''content'', VStr ''../x'')])"
proof -
  let ?p = "PATTERNS ! 11" and ?a = "[(''content'', VStr ''../x'')]"
  obtain k where k: "rx_search rt (tp_ignorecase ?p) (tp_rx ?p) (code_points ''../x'') = Some k" "?p \<in> set PATTERNS" "tp_weight ?p = 3"
    using traversal_pattern(1) [of rt] traversal_pattern(2,3) by auto
  have "(''content'', ''../x'') \<in> set (walk_strings MAX_WALK [] (VDict ?a))" by code_simp
  moreover obtain h where "h \<in> set (pattern_hit rt limit ''content'' (code_points ''../x'') ?p)" "th_weight h = 3"
    using k by (simp add: pattern_hit_def)
  ultimately have "h \<in> set (sr_hits (scan rt limit ?a))" using k(2) by (auto simp: scan_def Let_def)
  from threat_score_hit [OF this] show ?thesis using \<open>th_weight h = 3\<close> by simp
qed

lemma strictest_clean_is_optimal_witness:
  "\<exists>p. strictest_clean (calibrate demo_rt 80 two_samples) = Some p \<and> tn_threshold p = 1"
proof -
  have sc: "sr_score (score_sample demo_rt 80 (two_samples ! 1)) = 0" by code_simp
  define m where "m = sr_score (scan demo_rt 80 [(''content'', VStr ''../x'')])"
  have m: "3 \<le> m" unfolding m_def by (rule traversal_scores)
  have sep: "separates demo_rt 80 two_samples t \<longleftrightarrow> 0 < t \<and> t \<le> m" for t
    using sc by (auto simp: separates_def flags_def two_samples_def score_sample_def m_def)
  have one: "t = 1" if "0 < t" "\<forall>u. 0 \<le> u \<and> 0 < u \<and> u \<le> m \<longrightarrow> t \<le> u" for t :: int
    using that(1) that(2) [rule_format, of 1] m by simp
  from strictest_clean_is_optimal [of demo_rt 80 two_samples] show ?thesis
  proof (cases "strictest_clean (calibrate demo_rt 80 two_samples)")
    case None
    then show ?thesis using strictest_clean_is_optimal [of demo_rt 80 two_samples] sep m by (auto dest: spec [of _ 1])
  next
    case (Some p)
    then show ?thesis using strictest_clean_is_optimal [of demo_rt 80 two_samples] one [of "tn_threshold p"] unfolding sep by auto
  qed
qed

text \<open>
  A task-disjoint split loses no sample, shares no task between its sides, keeps the order of the
  samples on each, and holds out exactly the number of tasks asked for, at least one, whatever the hash.
\<close>

theorem split_shares_no_task:
  "let (train, test) = task_disjoint_split hsh holdout samples; n = card (sa_task ` set samples)
   in sa_task ` set train \<inter> sa_task ` set test = {} \<and> mset train + mset test = mset samples
    \<and> subseq train samples \<and> subseq test samples \<and> card (sa_task ` set test) = min n (hold_count n holdout)"
proof (cases "samples = []")
  case True
  then show ?thesis by (simp add: task_disjoint_split_def)
next
  case False
  define ordered where "ordered = sort_key hsh (sort (remdups (map sa_task samples)))"
  define held where "held = take (hold_count (length ordered) holdout) ordered"
  have d: "distinct ordered" "set ordered = sa_task ` set samples" by (simp_all add: ordered_def)
  then have n: "length ordered = card (sa_task ` set samples)" by (metis distinct_card)
  have "distinct held" unfolding held_def using d(1) by simp
  then have "card (set held) = min (card (sa_task ` set samples)) (hold_count (card (sa_task ` set samples)) holdout)"
    unfolding distinct_card [OF \<open>distinct held\<close>] by (simp add: held_def n)
  moreover have "set held \<subseteq> sa_task ` set samples" using d(2) unfolding held_def by (auto dest: in_set_takeD)
  then have "sa_task ` set (filter (\<lambda>s. sa_task s \<in> set held) samples) = set held" by auto
  moreover have "task_disjoint_split hsh holdout samples
      = (filter (\<lambda>s. sa_task s \<notin> set held) samples, filter (\<lambda>s. sa_task s \<in> set held) samples)"
  proof -
    have "sort (remdups (map sa_task samples)) \<noteq> []" using False by (metis Nil_is_map_conv remdups_eq_nil_iff set_empty set_sort)
    then show ?thesis by (simp add: task_disjoint_split_def Let_def held_def ordered_def)
  qed
  ultimately show ?thesis by (auto simp: Let_def)
qed

text \<open>The average precision of two samples with equal scores is the order they come in.\<close>

lemma auprc_depends_on_order: "auprc [(1, 1), (1, 0)] = 1" "auprc [(1, 0), (1, 1)] = 1 / 2"
  by (simp_all add: auprc_def positives_def)

text \<open>Two hash functions, as two processes have them, hold out different tasks.\<close>

lemma split_depends_on_hash:
  "task_disjoint_split (\<lambda>t. if t = ''t'' then 0 else 1) (3 / 10) two_samples
   \<noteq> task_disjoint_split (\<lambda>t. if t = ''t'' then 1 else 0) (3 / 10) two_samples"
  by code_simp

end
