(* ===== verification/Validation.thy ===== *)
theory Validation
  imports Store Threats
begin

text \<open>
  \<open>validation.py\<close>: runs of a drill suite as records, the comparison of two runs, and the signed report
  of one; with the sentence that a drill result gives about itself (\<open>DrillResult.summary\<close>), which a
  comparison quotes. Rendering a report is not modelled.
\<close>

section \<open>What a result says\<close>

definition fixed0 :: "rat \<Rightarrow> string" where
  "fixed0 x = (let n = floor (py_round x 0) in if n = 0 \<and> x < 0 then ''-0'' else show_int n)"

definition comma :: "string list \<Rightarrow> string" where
  "comma xs = join '', '' xs"

definition count_text :: "'a list \<Rightarrow> string" where
  "count_text xs = show_int (int (length xs))"

definition drill_summary :: "drill_result \<Rightarrow> string" where
  "drill_summary r =
     (case dr_outcome r of
        OPassed \<Rightarrow> dr_tool r @ '': inverse proven, state returned ('' @ fixed0 (dr_duration_ms r) @ ''ms)''
          @ (if dr_observed r = [] then [] else '', residue left in '' @ comma (dr_observed r))
      | OFailed \<Rightarrow> dr_tool r @ '': inverse RAN BUT DID NOT RESTORE '' @ em_dash @ '' '' @ count_text (dr_mismatches r)
          @ '' field(s) still wrong: '' @ comma (take 3 (dr_mismatches r))
      | OPartial \<Rightarrow> dr_tool r @ '': PARTIAL undo '' @ em_dash @ '' '' @ join ''; ''
          ((if dr_unrestored r = [] then []
            else [count_text (dr_restored r) @ ''/'' @ count_text (dr_restored r @ dr_unrestored r)
              @ '' field(s) restored, still wrong: '' @ comma (take 3 (dr_unrestored r))])
           @ (if dr_collateral r = [] then []
              else [''changed '' @ count_text (dr_collateral r) @ '' field(s) the forward action never touched: ''
                @ comma (take 3 (dr_collateral r))]))
      | OUnavailable \<Rightarrow> dr_tool r @ '': no undo available to run ('' @ dr_unavailable_reason r @ '') '' @ em_dash
          @ '' the inverse was never reached, so nothing about it was tested''
      | OForwardNoOp \<Rightarrow> dr_tool r @ '': forward action changed nothing, so the inverse was never tested '' @ em_dash
          @ '' this drill proves nothing''
      | ONotDrillable \<Rightarrow> dr_tool r @ '': nothing to prove by design''
      | k \<Rightarrow> dr_tool r @ '': '' @ outcome_value k @ '' '' @ em_dash @ '' ''
          @ (case dr_error r of None \<Rightarrow> ''None'' | Some e \<Rightarrow> e))"

section \<open>Runs\<close>

record validation_run =
  vr_id :: string
  vr_target :: string
  vr_started_at :: rat
  vr_finished_at :: rat
  vr_results :: "drill_result list"

definition run_post_init :: "validation_run \<Rightarrow> revoco_error + validation_run" where
  "run_post_init r =
     raise_if (vr_target r = []) ValidationError
       (raise_if (\<not> distinct (map dr_tool (vr_results r))) ValidationError (Inr r))"

definition result_of :: "string \<Rightarrow> validation_run \<Rightarrow> drill_result option" where
  "result_of tool r = map_of (fold (\<lambda>x d. AList.update (dr_tool x) x d) (vr_results r) []) tool"

definition run_proven :: "validation_run \<Rightarrow> string list" where
  "run_proven r = sort (map dr_tool (filter (\<lambda>x. is_proof (dr_outcome x)) (vr_results r)))"

definition run_failing :: "validation_run \<Rightarrow> string list" where
  "run_failing r = sort (map dr_tool (filter (\<lambda>x. is_alarm (dr_outcome x)) (vr_results r)))"

definition run_not_drillable :: "validation_run \<Rightarrow> string list" where
  "run_not_drillable r = sort (map dr_tool (filter (\<lambda>x. dr_outcome x = ONotDrillable) (vr_results r)))"

definition run_coverage :: "validation_run \<Rightarrow> nat" where
  "run_coverage r = length (vr_results r) - length (run_not_drillable r)"

definition run_payload :: "validation_run \<Rightarrow> val" where
  "run_payload r = VDict
    [(''id'', VStr (vr_id r)), (''target'', VStr (vr_target r)), (''started_at'', VFloat (Fin (vr_started_at r))),
     (''finished_at'', VFloat (Fin (vr_finished_at r))),
     (''results'', VList (map drill_result_to_dict (sort_key dr_tool (vr_results r))))]"

definition run_of_dict :: "pyrt \<Rightarrow> val \<Rightarrow> revoco_error + validation_run option" where
  "run_of_dict rt d = checked run_post_init
     (ap (ap (ap (ap (ap (mk validation_run.make) (f_req ''id'' d)) (f_req ''target'' d)) (f_float rt ''started_at'' d))
        (f_float rt ''finished_at'' d)) (f_seq (drill_of_dict rt) ''results'' d))"

definition run_digest :: "('sk, 'pk) crypto \<Rightarrow> validation_run \<Rightarrow> string" where
  "run_digest cr r = digest_of cr (run_payload r)"

section \<open>Comparison\<close>

datatype change =
  CRegressed | CRecovered | CStillFailing | CStillProven | CNewlyCovered | CDisappeared | CNotDrillable

fun change_value :: "change \<Rightarrow> string" where
  "change_value CRegressed = ''regressed''"
| "change_value CRecovered = ''recovered''"
| "change_value CStillFailing = ''still_failing''"
| "change_value CStillProven = ''still_proven''"
| "change_value CNewlyCovered = ''newly_covered''"
| "change_value CDisappeared = ''disappeared''"
| "change_value CNotDrillable = ''not_drillable''"

definition change_alarm :: "change \<Rightarrow> bool" where
  "change_alarm c \<longleftrightarrow> c \<in> {CRegressed, CStillFailing, CDisappeared}"

definition new_bad :: "change \<Rightarrow> bool" where
  "new_bad c \<longleftrightarrow> c \<in> {CRegressed, CDisappeared}"

record control_change =
  cg_tool :: string
  cg_change :: change
  cg_now :: "string option"
  cg_before :: "string option"
  cg_detail :: string

definition control_change_to_dict :: "control_change \<Rightarrow> val" where
  "control_change_to_dict c = VDict
    [(''tool'', VStr (cg_tool c)), (''change'', VStr (change_value (cg_change c))),
     (''now'', (case cg_now c of None \<Rightarrow> VNone | Some s \<Rightarrow> VStr s)),
     (''before'', (case cg_before c of None \<Rightarrow> VNone | Some s \<Rightarrow> VStr s)), (''detail'', VStr (cg_detail c))]"

definition outcome_text :: "drill_result \<Rightarrow> string" where
  "outcome_text r = outcome_value (dr_outcome r)"

text \<open>One control, in the order of the branches.\<close>

definition compare_tool :: "string \<Rightarrow> drill_result option \<Rightarrow> drill_result option \<Rightarrow> control_change" where
  "compare_tool tool cur prev =
     (let before = map_option outcome_text prev in
      case cur of
        None \<Rightarrow> \<lparr>cg_tool = tool, cg_change = CDisappeared, cg_now = None, cg_before = before,
          cg_detail = ''present in the previous run and absent from this one; it is now untested, which is not the same as passing''\<rparr>
      | Some c \<Rightarrow>
         (let out = (\<lambda>k detail. \<lparr>cg_tool = tool, cg_change = k, cg_now = Some (outcome_text c), cg_before = before, cg_detail = detail\<rparr>) in
          if dr_outcome c = ONotDrillable then
            (if (case prev of None \<Rightarrow> False | Some p \<Rightarrow> dr_outcome p \<noteq> ONotDrillable)
             then out CRegressed (''was drilled in the previous run and has nothing to prove in this one; ''
                    @ ''it is now untested, which is not the same as passing'')
             else out CNotDrillable [])
          else case prev of
              None \<Rightarrow> out CNewlyCovered []
            | Some p \<Rightarrow>
               if dr_outcome p = ONotDrillable then out CNewlyCovered []
               else if is_proof (dr_outcome p) \<and> \<not> is_proof (dr_outcome c) then out CRegressed (drill_summary c)
               else if is_proof (dr_outcome c) \<and> \<not> is_proof (dr_outcome p) then out CRecovered []
               else if is_proof (dr_outcome c) then out CStillProven []
               else out CStillFailing (drill_summary c)))"

definition compare_runs :: "validation_run \<Rightarrow> validation_run option \<Rightarrow> revoco_error + control_change list" where
  "compare_runs current previous =
     raise_if (case previous of None \<Rightarrow> False | Some p \<Rightarrow> vr_target p \<noteq> vr_target current) ValidationError
       (let before = (case previous of None \<Rightarrow> (\<lambda>t. None) | Some p \<Rightarrow> (\<lambda>t. result_of t p));
            old = (case previous of None \<Rightarrow> [] | Some p \<Rightarrow> map dr_tool (vr_results p))
        in Inr (map (\<lambda>t. compare_tool t (result_of t current) (before t))
                  (sort (remdups (map dr_tool (vr_results current) @ old)))))"

section \<open>Reports\<close>

record validation_report =
  vp_id :: string
  vp_run :: validation_run
  vp_previous_id :: "string option"
  vp_previous_digest :: "string option"
  vp_changes :: "control_change list"
  vp_signer_id :: string
  vp_signed_at :: rat
  vp_signature :: string

definition v_text :: "string option \<Rightarrow> val" where
  "v_text s = (case s of None \<Rightarrow> VNone | Some t \<Rightarrow> VStr t)"

definition report_payload :: "('sk, 'pk) crypto \<Rightarrow> validation_report \<Rightarrow> (string \<times> val) list" where
  "report_payload cr p =
    [(''id'', VStr (vp_id p)), (''run_digest'', VStr (run_digest cr (vp_run p))), (''run_id'', VStr (vr_id (vp_run p))),
     (''target'', VStr (vr_target (vp_run p))), (''previous_id'', v_text (vp_previous_id p)),
     (''previous_digest'', v_text (vp_previous_digest p)), (''changes'', VList (map control_change_to_dict (vp_changes p))),
     (''signer_id'', VStr (vp_signer_id p)), (''signed_at'', VFloat (Fin (vp_signed_at p)))]"

definition report_bytes :: "('sk, 'pk) crypto \<Rightarrow> validation_report \<Rightarrow> string" where
  "report_bytes cr p = canonical_bytes cr (VDict (report_payload cr p))"

definition report_verifies :: "('sk, 'pk) crypto \<Rightarrow> 'pk \<Rightarrow> validation_report \<Rightarrow> bool" where
  "report_verifies cr pk p = verify cr pk (report_bytes cr p) (vp_signature p)"

definition report_to_dict :: "('sk, 'pk) crypto \<Rightarrow> validation_report \<Rightarrow> val" where
  "report_to_dict cr p = VDict (report_payload cr p @ [(''signature'', VStr (vp_signature p)), (''run'', run_payload (vp_run p))])"

definition regressions :: "validation_report \<Rightarrow> control_change list" where
  "regressions p = filter (\<lambda>c. cg_change c = CRegressed) (vp_changes p)"

definition disappeared :: "validation_report \<Rightarrow> control_change list" where
  "disappeared p = filter (\<lambda>c. cg_change c = CDisappeared) (vp_changes p)"

definition clean_report :: "validation_report \<Rightarrow> bool" where
  "clean_report p \<longleftrightarrow> filter (\<lambda>c. new_bad (cg_change c)) (vp_changes p) = []"

definition headline :: "validation_report \<Rightarrow> string" where
  "headline p =
     (let run = vp_run p; coverage = show_int (int (run_coverage run));
          proven_of = count_text (run_proven run) @ ''/'' @ coverage @ '' proven.'';
          bits = (if regressions p = [] then [] else [count_text (regressions p) @ '' REGRESSED''])
             @ (if disappeared p = [] then [] else [count_text (disappeared p) @ '' stopped being tested''])
      in if vp_previous_id p = None then
           vr_target run @ '': baseline over '' @ coverage @ '' control(s) '' @ em_dash @ '' '' @ count_text (run_proven run)
             @ '' proven, '' @ count_text (run_failing run) @ '' failing. No comparison: nothing was measured before this.''
         else if bits = [] then vr_target run @ '': no control got worse. '' @ proven_of
         else vr_target run @ '': '' @ comma bits @ ''. '' @ proven_of)"

definition make_report ::
  "('sk, 'pk) crypto \<Rightarrow> string \<Rightarrow> validation_run \<Rightarrow> 'sk \<Rightarrow> string \<Rightarrow> validation_run option \<Rightarrow> rat \<Rightarrow> revoco_error + validation_report" where
  "make_report cr fresh current sk signer previous now =
     bind_err (compare_runs current previous) (\<lambda>changes.
       let p = \<lparr>vp_id = fresh, vp_run = current, vp_previous_id = map_option vr_id previous,
                vp_previous_digest = map_option (run_digest cr) previous, vp_changes = changes,
                vp_signer_id = signer, vp_signed_at = now, vp_signature = []\<rparr>
       in Inr (p\<lparr>vp_signature := sign cr sk (report_bytes cr p)\<rparr>))"

end
