(* ===== verification/ValidationProps.thy ===== *)
theory ValidationProps
  imports Validation StoreProps AuthorityProps
begin

text \<open>
  What a comparison of two runs promises: one entry for each control of either run, a clean report
  only if nothing that was proven or tested before stopped being so, and the same digest and the same
  comparison after a run was stored and read back.
\<close>

section \<open>Looking a result up\<close>

definition wf_run :: "validation_run \<Rightarrow> bool" where
  "wf_run r \<longleftrightarrow> vr_target r \<noteq> [] \<and> distinct (map dr_tool (vr_results r))"

lemma run_post_init_Inr: "run_post_init r = Inr r' \<longleftrightarrow> r' = r \<and> wf_run r"
  by (auto simp: run_post_init_def wf_run_def)

lemma map_of_results:
  "distinct (map dr_tool xs) \<Longrightarrow>
   map_of (fold (\<lambda>x d. AList.update (dr_tool x) x d) xs d0) t = (case find (\<lambda>x. dr_tool x = t) xs of None \<Rightarrow> map_of d0 t | Some x \<Rightarrow> Some x)"
proof (induction xs arbitrary: d0)
  case (Cons x xs)
  have "find (\<lambda>y. dr_tool y = dr_tool x) xs = None" using Cons.prems by (auto simp: find_None_iff image_iff)
  then show ?case using Cons by (auto simp: map_of_update split: option.splits)
qed simp

lemma result_of_find: "wf_run r \<Longrightarrow> result_of t r = find (\<lambda>x. dr_tool x = t) (vr_results r)"
  by (auto simp: result_of_def wf_run_def map_of_results split: option.splits)

lemma result_of_Some:
  assumes "wf_run r"
  shows "result_of t r = Some x \<longleftrightarrow> x \<in> set (vr_results r) \<and> dr_tool x = t"
proof
  assume "result_of t r = Some x"
  then show "x \<in> set (vr_results r) \<and> dr_tool x = t" by (auto simp: result_of_find [OF assms] find_Some_iff)
next
  assume x: "x \<in> set (vr_results r) \<and> dr_tool x = t"
  then obtain y where y: "result_of t r = Some y"
    by (cases "result_of t r") (auto simp: result_of_find [OF assms] find_None_iff)
  then have "y \<in> set (vr_results r)" "dr_tool y = t" by (auto simp: result_of_find [OF assms] find_Some_iff)
  then have "y = x" using assms x by (auto simp: wf_run_def distinct_map dest: inj_onD)
  then show "result_of t r = Some x" using y by simp
qed

lemma result_of_None: "wf_run r \<Longrightarrow> result_of t r = None \<longleftrightarrow> t \<notin> dr_tool ` set (vr_results r)"
  by (auto simp: result_of_find find_None_iff)

lemma compare_runs_Inr:
  "compare_runs cur (Some prev) = Inr cs \<longleftrightarrow> vr_target prev = vr_target cur \<and>
     cs = map (\<lambda>t. compare_tool t (result_of t cur) (result_of t prev)) (sort (remdups (map dr_tool (vr_results cur) @ map dr_tool (vr_results prev))))"
  by (auto simp: compare_runs_def Let_def)

lemma compare_tool_tool [simp]: "cg_tool (compare_tool t c p) = t"
  by (simp add: compare_tool_def Let_def split: option.split)

lemma compare_tool_parts:
  "cg_now (compare_tool t c p) = map_option outcome_text c" "cg_before (compare_tool t c p) = map_option outcome_text p"
  by (simp_all add: compare_tool_def Let_def split: option.split)

lemma compare_tool_change:
  "cg_change (compare_tool t c p) = CDisappeared \<longleftrightarrow> c = None"
  "cg_change (compare_tool t c p) = CRegressed \<longleftrightarrow> (\<exists>x y. c = Some x \<and> p = Some y \<and>
     (is_proof (dr_outcome y) \<and> \<not> is_proof (dr_outcome x) \<or> dr_outcome y \<noteq> ONotDrillable \<and> dr_outcome x = ONotDrillable))"
  "cg_change (compare_tool t c p) = CStillFailing \<longleftrightarrow> (\<exists>x y. c = Some x \<and> p = Some y \<and> is_alarm (dr_outcome x) \<and> is_alarm (dr_outcome y))"
  "cg_change (compare_tool t c p) = CNewlyCovered \<longleftrightarrow> (\<exists>x. c = Some x \<and> dr_outcome x \<noteq> ONotDrillable
     \<and> (\<forall>y. p = Some y \<longrightarrow> dr_outcome y = ONotDrillable))"
proof -
  have alarm: "is_alarm x \<longleftrightarrow> x \<noteq> OPassed \<and> x \<noteq> ONotDrillable" for x by (cases x) (simp_all add: is_alarm_def)
  show "cg_change (compare_tool t c p) = CDisappeared \<longleftrightarrow> c = None" by (simp add: compare_tool_def Let_def split: option.split)
  show "cg_change (compare_tool t c p) = CRegressed \<longleftrightarrow> (\<exists>x y. c = Some x \<and> p = Some y \<and>
     (is_proof (dr_outcome y) \<and> \<not> is_proof (dr_outcome x) \<or> dr_outcome y \<noteq> ONotDrillable \<and> dr_outcome x = ONotDrillable))"
    by (cases c; cases p) (auto simp: compare_tool_def Let_def is_proof_def)
  show "cg_change (compare_tool t c p) = CStillFailing \<longleftrightarrow> (\<exists>x y. c = Some x \<and> p = Some y \<and> is_alarm (dr_outcome x) \<and> is_alarm (dr_outcome y))"
    by (cases c; cases p) (auto simp: compare_tool_def Let_def is_proof_def alarm)
  show "cg_change (compare_tool t c p) = CNewlyCovered \<longleftrightarrow> (\<exists>x. c = Some x \<and> dr_outcome x \<noteq> ONotDrillable
     \<and> (\<forall>y. p = Some y \<longrightarrow> dr_outcome y = ONotDrillable))"
    by (cases c; cases p) (auto simp: compare_tool_def Let_def is_proof_def)
qed

section \<open>Reading a run back\<close>

lemma py_round_idem: "py_round (py_round x n) n = py_round x n"
proof -
  have "\<exists>k :: int. py_round x n = of_int k / 10 ^ n" by (auto simp: py_round_def Let_def)
  then obtain k :: int where k: "py_round x n = of_int k / 10 ^ n" by blast
  have "of_int k / 10 ^ n * 10 ^ n = (of_int k :: rat)" by simp
  then show ?thesis unfolding k by (simp only: py_round_def Let_def floor_of_int) simp
qed

lemma rounded_dict: "drill_result_to_dict (rounded r) = drill_result_to_dict r"
  by (simp add: drill_result_to_dict_def rounded_def py_round_idem)

lemma rounded_fields [simp]: "dr_tool (rounded r) = dr_tool r" "dr_outcome (rounded r) = dr_outcome r"
  "outcome_text (rounded r) = outcome_text r"
  by (simp_all add: rounded_def outcome_text_def)

lemma rounded_summary: "dr_outcome r \<noteq> OPassed \<Longrightarrow> drill_summary (rounded r) = drill_summary r"
  by (cases "dr_outcome r") (simp_all add: drill_summary_def rounded_def)

definition stored_run :: "validation_run \<Rightarrow> validation_run" where
  "stored_run r = r\<lparr>vr_results := map rounded (sort_key dr_tool (vr_results r))\<rparr>"

lemma stored_run_fields [simp]: "vr_target (stored_run r) = vr_target r" "vr_id (stored_run r) = vr_id r"
  "set (map dr_tool (vr_results (stored_run r))) = set (map dr_tool (vr_results r))"
  by (simp_all add: stored_run_def image_image)

lemma stored_run_wf: "wf_run (stored_run r) = wf_run r"
proof -
  have "mset (map dr_tool (vr_results (stored_run r))) = mset (map dr_tool (vr_results r))" by (simp add: stored_run_def image_mset.compositionality comp_def)
  then have "distinct (map dr_tool (vr_results (stored_run r))) = distinct (map dr_tool (vr_results r))" by (rule mset_eq_imp_distinct_iff)
  then show ?thesis by (simp add: wf_run_def)
qed

lemma run_read:
  assumes "wf_run r"
  shows "run_of_dict rt (canon (run_payload r)) = mk (stored_run r)"
proof -
  let ?v = "canon (run_payload r)"
  have seq: "f_seq (drill_of_dict rt) ''results'' ?v = mk (map rounded (sort_key dr_tool (vr_results r)))"
    by (rule f_seq_canon [where g = drill_result_to_dict]) (simp_all add: run_payload_def get_item_def drill_round_trip)
  have "f_req ''id'' ?v = mk (vr_id r)" "f_req ''target'' ?v = mk (vr_target r)" "f_float rt ''started_at'' ?v = mk (vr_started_at r)"
    "f_float rt ''finished_at'' ?v = mk (vr_finished_at r)"
    by (simp_all add: f_req_def f_float_def f_finite_def guarded_def run_payload_def req_def mk_def)
  moreover have "run_post_init (stored_run r) = Inr (stored_run r)" using assms by (simp add: run_post_init_Inr stored_run_wf)
  ultimately show ?thesis unfolding run_of_dict_def seq by (cases r) (simp add: validation_run.make_def stored_run_def)
qed

lemma stored_run_payload: "run_payload (stored_run r) = run_payload r"
proof -
  have "sort_key dr_tool (map rounded (sort_key dr_tool (vr_results r))) = map rounded (sort_key dr_tool (vr_results r))"
    by (rule sort_key_id_if_sorted) (simp add: comp_def)
  then show ?thesis by (simp add: run_payload_def stored_run_def rounded_dict comp_def)
qed

lemma stored_result: "wf_run r \<Longrightarrow> result_of t (stored_run r) = map_option rounded (result_of t r)"
proof -
  assume w: "wf_run r"
  show ?thesis
  proof (cases "result_of t r")
    case None
    moreover have "dr_tool ` set (vr_results (stored_run r)) = dr_tool ` set (vr_results r)" by (simp add: stored_run_def image_image)
    ultimately show ?thesis using w by (metis result_of_None stored_run_wf option.map_disc_iff)
  next
    case (Some x)
    then have "rounded x \<in> set (vr_results (stored_run r)) \<and> dr_tool (rounded x) = t"
      using w by (auto simp: result_of_Some stored_run_def)
    then have "result_of t (stored_run r) = Some (rounded x)" using w by (simp only: result_of_Some stored_run_wf)
    then show ?thesis using Some by simp
  qed
qed

lemma compare_tool_rounded:
  "compare_tool t (map_option rounded c) p = compare_tool t c p" "compare_tool t c (map_option rounded p) = compare_tool t c p"
proof -
  have o: "outcome_text \<circ> rounded = outcome_text" by (simp add: fun_eq_iff)
  show "compare_tool t (map_option rounded c) p = compare_tool t c p"
    by (cases c; cases p) (simp_all add: compare_tool_def Let_def is_proof_def rounded_summary)
  show "compare_tool t c (map_option rounded p) = compare_tool t c p"
    by (cases c; cases p) (simp_all add: compare_tool_def Let_def is_proof_def)
qed

lemma compared_tools: "set xs = set ys \<Longrightarrow> sort (remdups xs) = sort (remdups (ys :: string list))"
  by (intro sorted_distinct_set_unique) simp_all


section \<open>Properties\<close>

text \<open>
  C18: a clean report against an earlier run means that nothing got worse: every control of the earlier
  run is still in the suite, every one it drilled is still drilled, and every one it proved is proved
  again. A report for another target is never made.
\<close>

theorem clean_report_keeps_proofs:
  assumes "make_report cr fresh cur sk signer (Some prev) now = Inr p" "clean_report p"
    and "run_post_init cur = Inr cur" "run_post_init prev = Inr prev" "r \<in> set (vr_results prev)"
  shows "vr_target prev = vr_target cur \<and> (\<exists>x \<in> set (vr_results cur). dr_tool x = dr_tool r
    \<and> (dr_outcome r \<noteq> ONotDrillable \<longrightarrow> dr_outcome x \<noteq> ONotDrillable)
    \<and> (is_proof (dr_outcome r) \<longrightarrow> is_proof (dr_outcome x)))"
proof -
  have w: "wf_run cur" "wf_run prev" using assms(3,4) by (simp_all add: run_post_init_Inr)
  obtain cs where cs: "compare_runs cur (Some prev) = Inr cs" "vp_changes p = cs"
    using assms(1) by (auto simp: make_report_def Let_def)
  let ?t = "dr_tool r"
  let ?c = "compare_tool ?t (result_of ?t cur) (result_of ?t prev)"
  have "?c \<in> set cs" using cs(1) assms(5) by (auto simp: compare_runs_Inr)
  then have good: "\<not> new_bad (cg_change ?c)" using assms(2) cs(2) by (auto simp: clean_report_def filter_empty_conv)
  have prev: "result_of ?t prev = Some r" using assms(5) by (simp add: result_of_Some [OF w(2)])
  have "result_of ?t cur \<noteq> None"
    using good compare_tool_change(1) [of ?t "result_of ?t cur" "result_of ?t prev"] by (auto simp: new_bad_def)
  then obtain x where x: "result_of ?t cur = Some x" by blast
  have "cg_change ?c \<noteq> CRegressed" using good by (auto simp: new_bad_def)
  then have "\<not> (is_proof (dr_outcome r) \<and> \<not> is_proof (dr_outcome x) \<or> dr_outcome r \<noteq> ONotDrillable \<and> dr_outcome x = ONotDrillable)"
    unfolding compare_tool_change(2) x prev by blast
  moreover have "x \<in> set (vr_results cur) \<and> dr_tool x = ?t" using x by (simp add: result_of_Some [OF w(1)])
  ultimately show ?thesis using cs(1) by (auto simp: compare_runs_Inr)
qed

definition drill_record :: "string \<Rightarrow> drill_outcome \<Rightarrow> drill_result" where
  "drill_record t k = \<lparr>dr_id = ''d'', dr_tool = t, dr_outcome = k, dr_kind = REVERSIBLE, dr_at = 0, dr_duration_ms = 1 / 3, dr_canary = ''c'',
     dr_error = None, dr_mismatches = [], dr_restored = [], dr_unrestored = [], dr_collateral = [], dr_unavailable_reason = [],
     dr_residue = [], dr_observed = []\<rparr>"

definition run_with :: "string \<Rightarrow> drill_result list \<Rightarrow> validation_run" where
  "run_with i rs = \<lparr>vr_id = i, vr_target = ''prod'', vr_started_at = 1, vr_finished_at = 2, vr_results = rs\<rparr>"

definition early_run :: validation_run where
  "early_run = run_with ''vr1'' [drill_record ''pay'' OPassed, drill_record ''note'' OErrored]"

definition later_run :: validation_run where
  "later_run = run_with ''vr2'' [drill_record ''pay'' OPassed, drill_record ''note'' OPassed, drill_record ''new'' OFailed]"

lemma example_runs: "run_post_init early_run = Inr early_run" "run_post_init later_run = Inr later_run"
  by (simp_all add: run_post_init_def early_run_def later_run_def run_with_def drill_record_def)

lemma clean_report_keeps_proofs_witness:
  "\<exists>x \<in> set (vr_results later_run). dr_tool x = ''pay'' \<and> is_proof (dr_outcome x)"
proof -
  have "map_sum id (map cg_change) (compare_runs later_run (Some early_run)) = Inr [CNewlyCovered, CRecovered, CStillProven]"
    by code_simp
  then obtain cs where cs: "compare_runs later_run (Some early_run) = Inr cs" "map cg_change cs = [CNewlyCovered, CRecovered, CStillProven]"
    by (cases "compare_runs later_run (Some early_run)") auto
  then obtain p where p: "make_report toy_crypto ''vp1'' later_run ''k'' ''s'' (Some early_run) 3 = Inr p" "vp_changes p = cs"
    by (simp add: make_report_def Let_def)
  then have "map cg_change (vp_changes p) = [CNewlyCovered, CRecovered, CStillProven]" using cs(2) by simp
  then have eq: "cg_change ` set (vp_changes p) = {CNewlyCovered, CRecovered, CStillProven}" by (metis list.set_map list.set(1,2))
  then have "\<not> new_bad (cg_change x)" if "x \<in> set (vp_changes p)" for x
  proof -
    have "cg_change x \<in> cg_change ` set (vp_changes p)" using that by (rule imageI)
    with eq show ?thesis by (simp add: new_bad_def) auto
  qed
  then have clean: "clean_report p" by (simp add: clean_report_def filter_empty_conv)
  have r: "drill_record ''pay'' OPassed \<in> set (vr_results early_run)" by (simp add: early_run_def run_with_def)
  from clean_report_keeps_proofs [OF p(1) clean example_runs(2,1) r] show ?thesis
    by (auto simp: drill_record_def is_proof_def)
qed

text \<open>
  A comparison accounts for every control of either run, once and in order, with the outcomes the runs
  recorded. It says disappeared exactly of the controls that are missing now, regressed exactly of those
  that were proven and are not or were drilled and no longer can be, still failing exactly of those that
  alarm in both, newly covered exactly of those with no drilled result before.
\<close>

theorem comparison_accounts_for_every_control:
  assumes "compare_runs cur (Some prev) = Inr cs" "run_post_init cur = Inr cur" "run_post_init prev = Inr prev"
  shows "sorted_wrt (<) (map cg_tool cs) \<and> set (map cg_tool cs) = dr_tool ` (set (vr_results cur) \<union> set (vr_results prev))
    \<and> (\<forall>c \<in> set cs. (cg_now c = map_option outcome_text (result_of (cg_tool c) cur)
        \<and> cg_before c = map_option outcome_text (result_of (cg_tool c) prev)
        \<and> (cg_change c = CDisappeared \<longleftrightarrow> cg_tool c \<notin> dr_tool ` set (vr_results cur))
        \<and> (cg_change c = CRegressed \<longleftrightarrow> (\<exists>x y. result_of (cg_tool c) cur = Some x \<and> result_of (cg_tool c) prev = Some y
             \<and> (is_proof (dr_outcome y) \<and> \<not> is_proof (dr_outcome x) \<or> dr_outcome y \<noteq> ONotDrillable \<and> dr_outcome x = ONotDrillable)))
        \<and> (cg_change c = CStillFailing \<longleftrightarrow> (\<exists>x y. result_of (cg_tool c) cur = Some x \<and> result_of (cg_tool c) prev = Some y
             \<and> is_alarm (dr_outcome x) \<and> is_alarm (dr_outcome y)))
        \<and> (cg_change c = CNewlyCovered \<longleftrightarrow> (\<exists>x. result_of (cg_tool c) cur = Some x \<and> dr_outcome x \<noteq> ONotDrillable
             \<and> (\<forall>y. result_of (cg_tool c) prev = Some y \<longrightarrow> dr_outcome y = ONotDrillable)))))"
  (is "_ \<and> _ \<and> (\<forall>c \<in> set cs. ?entry c)")
proof -
  have w: "wf_run cur" "wf_run prev" using assms(2,3) by (simp_all add: run_post_init_Inr)
  let ?ts = "sort (remdups (map dr_tool (vr_results cur) @ map dr_tool (vr_results prev)))"
  have cs: "cs = map (\<lambda>t. compare_tool t (result_of t cur) (result_of t prev)) ?ts"
    using assms(1) by (simp add: compare_runs_Inr)
  then have tools: "map cg_tool cs = ?ts" by (simp add: comp_def)
  have "sorted_wrt (<) ?ts" by (simp add: strict_sorted_iff)
  moreover have "set ?ts = dr_tool ` (set (vr_results cur) \<union> set (vr_results prev))" by auto
  moreover have "?entry c" if mem: "c \<in> set cs" for c
  proof -
    obtain t where c: "c = compare_tool t (result_of t cur) (result_of t prev)" using mem unfolding cs set_map by blast
    show ?thesis unfolding c compare_tool_tool compare_tool_parts compare_tool_change result_of_None [OF w(1)]
      by (intro conjI iffI; assumption?) (rule HOL.refl)+
  qed
  ultimately show ?thesis unfolding tools by simp
qed

lemma comparison_accounts_for_every_control_witness:
  "\<exists>cs. compare_runs later_run (Some early_run) = Inr cs \<and> set (map cg_tool cs) = {''pay'', ''note'', ''new''}"
proof -
  obtain cs where cs: "compare_runs later_run (Some early_run) = Inr cs"
    by (simp add: compare_runs_def Let_def early_run_def later_run_def run_with_def)
  show ?thesis using cs comparison_accounts_for_every_control [OF cs example_runs(2,1)]
    by (auto simp: early_run_def later_run_def run_with_def drill_record_def)
qed



section \<open>What the labels hide\<close>

text \<open>A control that was failing and can no longer be drilled is reported as regressed, though it was never
  proven; one that was not drillable and now fails is newly covered, which is no alarm.\<close>

lemma regressed_without_a_proof:
  "cg_change (compare_tool t (Some (drill_record t ONotDrillable)) (Some (drill_record t OErrored))) = CRegressed"
  by (simp add: compare_tool_def drill_record_def)

lemma first_failure_is_clean:
  "cg_change (compare_tool t (Some (drill_record t OFailed)) (Some (drill_record t ONotDrillable))) = CNewlyCovered
   \<and> \<not> change_alarm CNewlyCovered"
  by (simp add: compare_tool_def drill_record_def change_alarm_def)

end
