(* ===== verification/CatalogBase.thy ===== *)
theory CatalogBase
  imports ApStarter
begin

text \<open>
  What the catalogues of \<open>adapters/\<close> share: the character the texts use, and the constructor of a step,
  which keeps its argument map sorted. A spec starts from \<open>bare_spec\<close> and states the fields the source
  states.
\<close>

definition long_dash :: string where
  "long_dash = [CHR 0xE2, CHR 0x80, CHR 0x94]"

definition step_canon :: "inverse_step \<Rightarrow> inverse_step" where
  "step_canon s = s\<lparr>st_arg_map := sort (st_arg_map s), st_static_args := sorted_items (st_static_args s)\<rparr>"

end
