(* ===== verification/CatSap.thy ===== *)
theory CatSap
  imports CatalogBase
begin

text \<open>
  \<open>adapters/sap.py\<close>: the gates and specs that ship for S/4HANA, field by field.
\<close>

section \<open>Gates\<close>

definition GATE_PERIOD_OPEN :: reversal_gate where
  "GATE_PERIOD_OPEN = \<lparr>g_name = ''sap_period_open'',
     g_description = (''The accounting period of the document being reversed must be open. A reversal posted into a closed ''
        @ ''period is rejected.''),
     g_remediation = (''Either reopen the period (OB52 / Manage Posting Periods), or post the reversal to the current open ''
        @ ''period and accept that the reversal lands in a different period from the original.''),
     g_check_at = PhUndo\<rparr>"

definition GATE_NOT_CLEARED :: reversal_gate where
  "GATE_NOT_CLEARED = \<lparr>g_name = ''sap_items_not_cleared'',
     g_description = (''The document must have no already-cleared line items, or the clearing must have been reset first. ''
        @ ''SAP refuses a reversal that would need to clear an item another process already cleared.''),
     g_remediation = ''Reset the clearing with FBRA before attempting the reversal.'',
     g_check_at = PhUndo\<rparr>"

definition GATE_PAYMENT_NOT_SETTLED :: reversal_gate where
  "GATE_PAYMENT_NOT_SETTLED = \<lparr>g_name = ''sap_payment_not_settled'',
     g_description = (''The outbound payment must not have settled at the bank. Once funds have left, voiding the payment ''
        @ ''medium changes the ledger but not reality.''),
     g_remediation = (''Confirm against the bank statement / payment status before reversing. If settled, this is a ''
        @ ''recovery matter for treasury, not a rollback.''),
     g_check_at = PhUndo\<rparr>"

definition GATE_DUAL_CONTROL_CLEAR :: reversal_gate where
  "GATE_DUAL_CONTROL_CLEAR = \<lparr>g_name = ''sap_bank_dual_control_confirmable'',
     g_description = (''Where supplier bank fields are configured as sensitive, restoring them re-triggers dual-control ''
        @ ''confirmation. Until a second person confirms, the supplier is blocked for payment.''),
     g_remediation = (''Ensure a confirmer is available (FK08 / Confirm Supplier List), or accept that the supplier stays ''
        @ ''payment-blocked until they are.''),
     g_check_at = PhUndo\<rparr>"

definition SAP_GATES :: "reversal_gate list" where
  "SAP_GATES = [GATE_PERIOD_OPEN, GATE_NOT_CLEARED, GATE_PAYMENT_NOT_SETTLED, GATE_DUAL_CONTROL_CLEAR]"

section \<open>Specs\<close>

definition sap_journalentry_read_spec :: inverse_spec where
  "sap_journalentry_read_spec = (bare_spec ''sap.journalentry.read'' REVERSIBLE)
     \<lparr>sp_inverse_tool := Some ''sap.noop'',
      sp_notes := ''A read changes nothing, so its undo is trivially complete.''\<rparr>"

definition sap_supplier_read_spec :: inverse_spec where
  "sap_supplier_read_spec = (bare_spec ''sap.supplier.read'' REVERSIBLE)
     \<lparr>sp_inverse_tool := Some ''sap.noop'',
      sp_notes := (''Reading supplier bank data triggers SAP Read Access Logging where configured. The read is free to ''
        @ ''undo but not free to perform.'')\<rparr>"

definition sap_journalentry_post_spec :: inverse_spec where
  "sap_journalentry_post_spec = (bare_spec ''sap.journalentry.post'' COMPENSABLE)
     \<lparr>sp_inverse_tool := Some ''sap.journalentry.reverse'',
      sp_arg_map := [(''AccountingDocument'', ''result.AccountingDocument''), (''CompanyCode'', ''args.CompanyCode''), (''FiscalYear'', ''result.FiscalYear''), (''ReversalReason'', ''const:01'')],
      sp_gates := [GATE_PERIOD_OPEN, GATE_NOT_CLEARED],
      sp_one_shot := True,
      sp_residue := (''Reversal creates a second, offsetting document; the original posting remains permanently in the ''
        @ ''ledger and in every report already run against it. If the original period has closed, the reversal ''
        @ ''posts to a later period, so both periods'' @ [CHR 0x27]
        @ '' figures move. The reversal document cannot itself be reversed.''),
      sp_notes := (''ReversalReason drives the posting date rule: reason 01 as delivered permits only the original ''
        @ ''posting date, so a reversal in a closed period requires a reason configured to allow an alternative ''
        @ ''date. Pick the reason your finance team has configured '' @ long_dash
        @ '' this default is a placeholder, not a recommendation.'')\<rparr>"

definition sap_journalentry_reverse_spec :: inverse_spec where
  "sap_journalentry_reverse_spec = (bare_spec ''sap.journalentry.reverse'' IRREVERSIBLE)
     \<lparr>sp_notes := (''Registered deliberately. A reversal document cannot be reversed; correcting a mistaken reversal ''
        @ ''needs a fresh manual posting (F-02). Classifying it as irreversible means an agent calling reverse ''
        @ ''directly escalates to a human under the starter policy, instead of inheriting the illusion that ''
        @ ''reversal is always safe.'')\<rparr>"

definition sap_journalentry_park_spec :: inverse_spec where
  "sap_journalentry_park_spec = (bare_spec ''sap.journalentry.park'' REVERSIBLE)
     \<lparr>sp_inverse_tool := Some ''sap.journalentry.delete_parked'',
      sp_arg_map := [(''AccountingDocument'', ''result.AccountingDocument''), (''CompanyCode'', ''args.CompanyCode''), (''FiscalYear'', ''result.FiscalYear'')],
      sp_notes := (''The useful contrast: a *parked* document has not posted, so deleting it is a true inverse with no ''
        @ ''ledger trace. Routing agent postings through park-then-human-post is the cheapest way to convert an ''
        @ ''irreversible surface into a reversible one.'')\<rparr>"

definition sap_supplier_bank_update_spec :: inverse_spec where
  "sap_supplier_bank_update_spec = (bare_spec ''sap.supplier.bank.update'' REVERSIBLE)
     \<lparr>sp_inverse_tool := Some ''sap.supplier.bank.update'',
      sp_arg_map := [(''BusinessPartner'', ''args.BusinessPartner''), (''BankIdentification'', ''args.BankIdentification''), (''BankCountryKey'', ''snapshot.BankCountryKey''), (''BankNumber'', ''snapshot.BankNumber''), (''BankAccount'', ''snapshot.BankAccount''), (''BankControlKey'', ''snapshot.BankControlKey''), (''IBAN'', ''snapshot.IBAN'')],
      sp_static_args := [(''_revoco_reason'', VStr ''restore prior banking details'')],
      sp_gates := [GATE_DUAL_CONTROL_CLEAR],
      sp_snapshot_fields := [''BankCountryKey'', ''BankNumber'', ''BankAccount'', ''BankControlKey'', ''IBAN''],
      sp_notes := (''THE spec to get right. Writing back the captured prior values restores state exactly, which is why ''
        @ ''this fraud pattern is recoverable at all '' @ long_dash
        @ '' but only if the prior values were captured before the write. SAP'' @ [CHR 0x27]
        @ ''s own change log is not a dependable fallback here: sensitive bank fields can log as '' @ [CHR 0x27]
        @ ''*** Deleted ***'' @ [CHR 0x27]
        @ '' (KBA 3475932), FK08 may omit sensitive-field changes (KBA 2518672), and vendor bank updates have ''
        @ ''been reported missing from change logs entirely (KBA 2518878). Restoring also writes a new ''
        @ ''CDHDR/CDPOS record, so the audit trail shows two changes rather than none.'')\<rparr>"

definition sap_supplier_bank_create_spec :: inverse_spec where
  "sap_supplier_bank_create_spec = (bare_spec ''sap.supplier.bank.create'' COMPENSABLE)
     \<lparr>sp_inverse_tool := Some ''sap.supplier.bank.delete'',
      sp_arg_map := [(''BusinessPartner'', ''args.BusinessPartner''), (''BankIdentification'', ''args.BankIdentification'')],
      sp_gates := [GATE_DUAL_CONTROL_CLEAR],
      sp_residue := (''The bank-details record is removed but the change history retains evidence that the account ''
        @ ''existed. Any payment proposal built while it existed must be re-checked separately.''),
      sp_notes := (''Note for IDoc-based landscapes: DEBMAS/CREMAS do not delete bank details (KBA 3344959), so an ''
        @ ''IDoc-driven '' @ [CHR 0x27] @ ''undo'' @ [CHR 0x27]
        @ '' silently leaves the account in place. Use the API or a direct maintenance path, and verify removal ''
        @ ''rather than assuming it.'')\<rparr>"

definition sap_supplier_block_spec :: inverse_spec where
  "sap_supplier_block_spec = (bare_spec ''sap.supplier.block'' REVERSIBLE)
     \<lparr>sp_inverse_tool := Some ''sap.supplier.set_block'',
      sp_arg_map := [(''BusinessPartner'', ''args.BusinessPartner''), (''PostingBlock'', ''snapshot.PostingBlock''), (''PaymentBlock'', ''snapshot.PaymentBlock'')],
      sp_snapshot_fields := [''PostingBlock'', ''PaymentBlock''],
      sp_notes := (''Blocking is reversible and cheap, which makes it the right *containment* action for an agent-driven ''
        @ ''incident: block first, then work out what to reverse.'')\<rparr>"

definition sap_payment_post_spec :: inverse_spec where
  "sap_payment_post_spec = (bare_spec ''sap.payment.post'' COMPENSABLE)
     \<lparr>sp_steps :=
       [step_canon \<lparr>st_name = ''void_medium'', st_tool = ''sap.paymentmedium.void'', st_arg_map = [(''PaymentDocument'', ''result.PaymentDocument''), (''CompanyCode'', ''args.CompanyCode''), (''FiscalYear'', ''result.FiscalYear'')],
         st_static_args = [], st_description = (''Void the cheque or payment medium FIRST. If a medium was issued and this is skipped, the ledger and ''
           @ ''the bank statement disagree the moment clearing is reset.''),
         st_critical = True\<rparr>,
        step_canon \<lparr>st_name = ''reset_clearing'', st_tool = ''sap.clearing.reset'', st_arg_map = [(''ClearingDocument'', ''result.PaymentDocument''), (''CompanyCode'', ''args.CompanyCode''), (''FiscalYear'', ''result.FiscalYear'')],
         st_static_args = [], st_description = (''FBRA. A reversal cannot be posted against cleared items, so the clearing must be reset before FB08 ''
           @ ''will accept the document. FBRA can also reset-and-reverse in one action; these are kept separate so ''
           @ ''a partial failure names the step it stopped at.''),
         st_critical = True\<rparr>,
        step_canon \<lparr>st_name = ''reverse_document'', st_tool = ''sap.journalentry.reverse'', st_arg_map = [(''AccountingDocument'', ''result.PaymentDocument''), (''CompanyCode'', ''args.CompanyCode''), (''FiscalYear'', ''result.FiscalYear''), (''ReversalReason'', ''const:01'')],
         st_static_args = [], st_description = ''FB08. Posts the offsetting document.'',
         st_critical = True\<rparr>],
      sp_gates := [GATE_PAYMENT_NOT_SETTLED, GATE_PERIOD_OPEN],
      sp_one_shot := True,
      sp_residue := (''The remittance advice already sent to the supplier is not recalled. The payment appears as a void ''
        @ ''rather than an absence on the bank statement, and the cheque number is consumed. If the funds ''
        @ ''already settled, none of this returns the money '' @ long_dash @ '' it only corrects the books.''),
      sp_notes := (''The canonical sequenced undo, and the reason InverseStep exists. If your landscape issues no ''
        @ ''payment media, drop the void step; if it issues them asynchronously, the void may need its own gate.'')\<rparr>"

definition sap_paymentrun_execute_spec :: inverse_spec where
  "sap_paymentrun_execute_spec = (bare_spec ''sap.paymentrun.execute'' IRREVERSIBLE)
     \<lparr>sp_notes := (''F110 in anger. A payment run can produce hundreds of payment documents and a transmitted payment ''
        @ ''file in one action, so there is no single inverse '' @ long_dash
        @ '' recovery means reversing each resulting document individually, assuming the file has not gone to ''
        @ ''the bank. Classified irreversible so policy forces a human onto the run itself, which is where the ''
        @ ''control belongs.'')\<rparr>"

definition sap_paymentfile_transmit_spec :: inverse_spec where
  "sap_paymentfile_transmit_spec = (bare_spec ''sap.paymentfile.transmit'' IRREVERSIBLE)
     \<lparr>sp_notes := ''Once the file is with the bank, this system has no inverse to offer.''\<rparr>"

definition SAP_SPECS :: "inverse_spec list" where
  "SAP_SPECS = map spec_canon
     [sap_journalentry_read_spec, sap_supplier_read_spec, sap_journalentry_post_spec,
      sap_journalentry_reverse_spec, sap_journalentry_park_spec, sap_supplier_bank_update_spec,
      sap_supplier_bank_create_spec, sap_supplier_block_spec, sap_payment_post_spec,
      sap_paymentrun_execute_spec, sap_paymentfile_transmit_spec]"

definition sap_registry :: registry where
  "sap_registry = register_many SAP_SPECS empty_registry"

lemmas sap_gate_defs = GATE_PERIOD_OPEN_def GATE_NOT_CLEARED_def GATE_PAYMENT_NOT_SETTLED_def GATE_DUAL_CONTROL_CLEAR_def

lemmas sap_spec_defs = sap_journalentry_read_spec_def sap_supplier_read_spec_def sap_journalentry_post_spec_def
  sap_journalentry_reverse_spec_def sap_journalentry_park_spec_def sap_supplier_bank_update_spec_def
  sap_supplier_bank_create_spec_def sap_supplier_block_spec_def sap_payment_post_spec_def
  sap_paymentrun_execute_spec_def sap_paymentfile_transmit_spec_def

end
