(* ===== verification/CatWorkday.thy ===== *)
theory CatWorkday
  imports CatalogBase
begin

text \<open>
  \<open>adapters/workday.py\<close>: the gates and specs that ship for Workday, field by field.
\<close>

section \<open>Gates\<close>

definition GATE_BP_RESCINDABLE :: reversal_gate where
  "GATE_BP_RESCINDABLE = \<lparr>g_name = ''workday_bp_rescindable'',
     g_description = (''The business process must be in Successfully Completed status and must expose the Rescind action to ''
        @ ''the caller'' @ [CHR 0x27] @ ''s security groups.''),
     g_remediation = (''Check the process status and that the actor holds a role with Rescind permission (typically ''
        @ ''Business Process Administrator) for this process type.''),
     g_check_at = PhUndo\<rparr>"

definition GATE_PAYROLL_NOT_RUN :: reversal_gate where
  "GATE_PAYROLL_NOT_RUN = \<lparr>g_name = ''workday_payroll_not_run'',
     g_description = (''Payroll must not have completed over the period this change affects. Once it has, the change is no ''
        @ ''longer rescindable regardless of how recent it is.''),
     g_remediation = (''If payroll has run, this is a payroll-correction matter (retro processing / off-cycle adjustment), ''
        @ ''not a rollback. Escalate to a payroll partner.''),
     g_check_at = PhUndo\<rparr>"

definition GATE_NO_DOWNSTREAM_BP :: reversal_gate where
  "GATE_NO_DOWNSTREAM_BP = \<lparr>g_name = ''workday_no_dependent_process'',
     g_description = (''No later business process may depend on this one. Workday blocks a rescind whose effects a ''
        @ ''subsequent completed process relies on.''),
     g_remediation = (''Rescind the dependent processes first, newest to oldest. A cascade over the delegation subtree ''
        @ ''already runs in that order.''),
     g_check_at = PhUndo\<rparr>"

definition GATE_INTEGRATIONS_NOT_CONSUMED :: reversal_gate where
  "GATE_INTEGRATIONS_NOT_CONSUMED = \<lparr>g_name = ''workday_integrations_not_consumed'',
     g_description = (''Outbound integrations must not have already published this change to downstream systems (payroll ''
        @ ''provider, badge system, benefits carrier). Rescinding in Workday does not retract what those ''
        @ ''systems received.''),
     g_remediation = (''Check integration event history for the period. If published, the downstream systems need their own ''
        @ ''correction '' @ long_dash @ '' treat this as compensable, not reversed.''),
     g_check_at = PhUndo\<rparr>"

definition WORKDAY_GATES :: "reversal_gate list" where
  "WORKDAY_GATES = [GATE_BP_RESCINDABLE, GATE_PAYROLL_NOT_RUN, GATE_NO_DOWNSTREAM_BP, GATE_INTEGRATIONS_NOT_CONSUMED]"

section \<open>Specs\<close>

definition workday_worker_read_spec :: inverse_spec where
  "workday_worker_read_spec = (bare_spec ''workday.worker.read'' REVERSIBLE)
     \<lparr>sp_inverse_tool := Some ''workday.noop'',
      sp_notes := ''A read changes nothing.''\<rparr>"

definition workday_compensation_request_change_spec :: inverse_spec where
  "workday_compensation_request_change_spec = (bare_spec ''workday.compensation.request_change'' COMPENSABLE)
     \<lparr>sp_inverse_tool := Some ''workday.bp.rescind'',
      sp_arg_map := [(''Business_Process_Reference'', ''result.Business_Process_Reference''), (''Comment'', ''const:rescinded by revoco control plane'')],
      sp_gates := [GATE_BP_RESCINDABLE, GATE_PAYROLL_NOT_RUN, GATE_NO_DOWNSTREAM_BP, GATE_INTEGRATIONS_NOT_CONSUMED],
      sp_snapshot_fields := [''Total_Base_Pay'', ''Pay_Rate'', ''Currency'', ''Frequency''],
      sp_one_shot := True,
      sp_residue := (''Rescinding reverses the data in Workday but does not retract what outbound integrations already ''
        @ ''published, so downstream systems (payroll provider, benefits carriers, provisioning) may still hold ''
        @ ''the change. The rescinded transaction remains visible in the worker'' @ [CHR 0x27]
        @ ''s process history, and the rescind itself cannot be undone.''),
      sp_notes := (''The snapshot is captured even though rescind does not need it, for two reasons: it lets an evidence ''
        @ ''pack state what the compensation actually was before the change, and it leaves a manual restore ''
        @ ''path if the rescind gate is closed and someone has to put the value back by hand.'')\<rparr>"

definition workday_job_change_job_spec :: inverse_spec where
  "workday_job_change_job_spec = (bare_spec ''workday.job.change_job'' COMPENSABLE)
     \<lparr>sp_inverse_tool := Some ''workday.bp.rescind'',
      sp_arg_map := [(''Business_Process_Reference'', ''result.Business_Process_Reference''), (''Comment'', ''const:rescinded by revoco control plane'')],
      sp_gates := [GATE_BP_RESCINDABLE, GATE_PAYROLL_NOT_RUN, GATE_NO_DOWNSTREAM_BP],
      sp_snapshot_fields := [''Position_ID'', ''Job_Profile'', ''Supervisory_Organization'', ''Location''],
      sp_one_shot := True,
      sp_residue := (''Rescinding reverses the data in Workday but does not retract what outbound integrations already ''
        @ ''published, so downstream systems (payroll provider, benefits carriers, provisioning) may still hold ''
        @ ''the change. The rescinded transaction remains visible in the worker'' @ [CHR 0x27]
        @ ''s process history, and the rescind itself cannot be undone.'')\<rparr>"

definition workday_staffing_hire_spec :: inverse_spec where
  "workday_staffing_hire_spec = (bare_spec ''workday.staffing.hire'' COMPENSABLE)
     \<lparr>sp_inverse_tool := Some ''workday.bp.rescind'',
      sp_arg_map := [(''Business_Process_Reference'', ''result.Business_Process_Reference''), (''Comment'', ''const:rescinded by revoco control plane'')],
      sp_gates := [GATE_BP_RESCINDABLE, GATE_PAYROLL_NOT_RUN, GATE_NO_DOWNSTREAM_BP, GATE_INTEGRATIONS_NOT_CONSUMED],
      sp_one_shot := True,
      sp_residue := (''Rescinding reverses the data in Workday but does not retract what outbound integrations already ''
        @ ''published, so downstream systems (payroll provider, benefits carriers, provisioning) may still hold ''
        @ ''the change. The rescinded transaction remains visible in the worker'' @ [CHR 0x27]
        @ ''s process history, and the rescind itself cannot be undone. A rescinded hire also consumes the ''
        @ ''employee ID, and any account provisioned by an integration during the window needs separate ''
        @ ''deprovisioning.'')\<rparr>"

definition workday_staffing_terminate_spec :: inverse_spec where
  "workday_staffing_terminate_spec = (bare_spec ''workday.staffing.terminate'' COMPENSABLE)
     \<lparr>sp_inverse_tool := Some ''workday.bp.rescind'',
      sp_arg_map := [(''Business_Process_Reference'', ''result.Business_Process_Reference''), (''Comment'', ''const:rescinded by revoco control plane'')],
      sp_gates := [GATE_BP_RESCINDABLE, GATE_PAYROLL_NOT_RUN, GATE_NO_DOWNSTREAM_BP, GATE_INTEGRATIONS_NOT_CONSUMED],
      sp_one_shot := True,
      sp_residue := (''Rescinding reverses the data in Workday but does not retract what outbound integrations already ''
        @ ''published, so downstream systems (payroll provider, benefits carriers, provisioning) may still hold ''
        @ ''the change. The rescinded transaction remains visible in the worker'' @ [CHR 0x27]
        @ ''s process history, and the rescind itself cannot be undone. Access revoked by downstream ''
        @ ''provisioning during the window is not automatically restored, and benefits events already triggered ''
        @ ''may need manual reversal.''),
      sp_notes := (''An agent-initiated termination is the highest-consequence write on this surface. Even though it is ''
        @ ''technically rescindable, treat it as an approval-required action in policy rather than relying on ''
        @ ''the undo.'')\<rparr>"

definition workday_compensation_correct_spec :: inverse_spec where
  "workday_compensation_correct_spec = (bare_spec ''workday.compensation.correct'' COMPENSABLE)
     \<lparr>sp_inverse_tool := Some ''workday.compensation.correct'',
      sp_arg_map := [(''Worker_Reference'', ''args.Worker_Reference''), (''Total_Base_Pay'', ''snapshot.Total_Base_Pay''), (''Currency'', ''snapshot.Currency''), (''Frequency'', ''snapshot.Frequency''), (''Comment'', ''const:corrected back by revoco control plane'')],
      sp_gates := [GATE_PAYROLL_NOT_RUN],
      sp_snapshot_fields := [''Total_Base_Pay'', ''Currency'', ''Frequency''],
      sp_residue := (''Correct rewrites the record rather than reversing it. After correcting back, the effective-dated ''
        @ ''history reads as though the corrected value was always intended, with no visible reversal ''
        @ long_dash
        @ '' a materially weaker audit position than a rescind, and the difference that matters in a dispute.''),
      sp_notes := (''Deliberately COMPENSABLE, not REVERSIBLE, even though the numeric value is restored exactly. What ''
        @ ''is not restored is the record of what happened, and for an evidence system that is the part that ''
        @ ''counts.'')\<rparr>"

definition workday_bp_rescind_spec :: inverse_spec where
  "workday_bp_rescind_spec = (bare_spec ''workday.bp.rescind'' IRREVERSIBLE)
     \<lparr>sp_notes := (''Registered deliberately. A rescind cannot be un-rescinded. If an agent can call rescind directly, ''
        @ ''that call needs a human on it '' @ long_dash @ '' the undo button is itself a one-way door.'')\<rparr>"

definition workday_payroll_complete_spec :: inverse_spec where
  "workday_payroll_complete_spec = (bare_spec ''workday.payroll.complete'' IRREVERSIBLE)
     \<lparr>sp_notes := (''Completing a payroll closes the rescind window on everything it covers, which makes it the single ''
        @ ''most consequential action on this surface: it does not just resist undo, it destroys other actions''
        @ [CHR 0x27] @ '' undo paths.'')\<rparr>"

definition workday_payment_settle_spec :: inverse_spec where
  "workday_payment_settle_spec = (bare_spec ''workday.payment.settle'' IRREVERSIBLE)
     \<lparr>sp_notes := ''Funds disbursed. No inverse exists inside Workday.''\<rparr>"

definition WORKDAY_SPECS :: "inverse_spec list" where
  "WORKDAY_SPECS = map spec_canon
     [workday_worker_read_spec, workday_compensation_request_change_spec, workday_job_change_job_spec,
      workday_staffing_hire_spec, workday_staffing_terminate_spec, workday_compensation_correct_spec,
      workday_bp_rescind_spec, workday_payroll_complete_spec, workday_payment_settle_spec]"

definition workday_registry :: registry where
  "workday_registry = register_many WORKDAY_SPECS empty_registry"

lemmas workday_gate_defs = GATE_BP_RESCINDABLE_def GATE_PAYROLL_NOT_RUN_def GATE_NO_DOWNSTREAM_BP_def
  GATE_INTEGRATIONS_NOT_CONSUMED_def

lemmas workday_spec_defs = workday_worker_read_spec_def workday_compensation_request_change_spec_def
  workday_job_change_job_spec_def workday_staffing_hire_spec_def workday_staffing_terminate_spec_def
  workday_compensation_correct_spec_def workday_bp_rescind_spec_def workday_payroll_complete_spec_def
  workday_payment_settle_spec_def

end
