(* ===== verification/CatCloud.thy ===== *)
theory CatCloud
  imports CatalogBase
begin

text \<open>
  \<open>adapters/cloud.py\<close>: the gates and specs that ship for AWS, field by field.
\<close>

section \<open>Gates\<close>

definition GATE_S3_VERSIONING :: reversal_gate where
  "GATE_S3_VERSIONING = \<lparr>g_name = ''aws_s3_versioning_enabled'',
     g_description = (''The target bucket must have versioning enabled. Without it, a delete or overwrite destroys the ''
        @ ''object outright and there is nothing to restore.''),
     g_remediation = (''Enable versioning on buckets any agent can write to. This is the single highest-leverage change ''
        @ ''available on this surface: it converts every object delete and overwrite from irreversible to ''
        @ ''recoverable.''),
     g_check_at = PhAuthorize\<rparr>"

definition GATE_S3_MFA_DELETE_OFF :: reversal_gate where
  "GATE_S3_MFA_DELETE_OFF = \<lparr>g_name = ''aws_s3_mfa_delete_not_required'',
     g_description = (''Removing a delete marker requires deleting a specific version, which MFA Delete blocks without an ''
        @ ''MFA code. An automated undo cannot supply one.''),
     g_remediation = (''Either accept that recovery on this bucket is a manual root-account operation, or run agents ''
        @ ''against buckets without MFA Delete.''),
     g_check_at = PhUndo\<rparr>"

definition GATE_IAM_VERSION_RETAINED :: reversal_gate where
  "GATE_IAM_VERSION_RETAINED = \<lparr>g_name = ''aws_iam_policy_version_retained'',
     g_description = (''IAM keeps at most five versions of a customer managed policy. The version that was default before ''
        @ ''the change must still be among them.''),
     g_remediation = (''If it was pruned, restore from the captured policy document by creating a new version rather than ''
        @ ''rolling back to an old one.''),
     g_check_at = PhUndo\<rparr>"

definition GATE_RDS_FINAL_SNAPSHOT :: reversal_gate where
  "GATE_RDS_FINAL_SNAPSHOT = \<lparr>g_name = ''aws_rds_final_snapshot_taken'',
     g_description = (''A deleted DB instance is recoverable only from a snapshot. The delete call must have requested a ''
        @ ''final snapshot, or a recent automated one must exist.''),
     g_remediation = (''Never allow an agent to call DeleteDBInstance with SkipFinalSnapshot. Deny that argument shape in ''
        @ ''policy rather than relying on the undo.''),
     g_check_at = PhAuthorize\<rparr>"

definition GATE_KMS_PENDING_WINDOW :: reversal_gate where
  "GATE_KMS_PENDING_WINDOW = \<lparr>g_name = ''aws_kms_key_still_pending_deletion'',
     g_description = (''A KMS key scheduled for deletion can be recovered only while it is in PendingDeletion, during the ''
        @ ''waiting period set when it was scheduled.''),
     g_remediation = ''Cancel the deletion before the waiting period elapses.'',
     g_check_at = PhUndo\<rparr>"

definition CLOUD_GATES :: "reversal_gate list" where
  "CLOUD_GATES = [GATE_S3_VERSIONING, GATE_S3_MFA_DELETE_OFF, GATE_IAM_VERSION_RETAINED, GATE_RDS_FINAL_SNAPSHOT, GATE_KMS_PENDING_WINDOW]"

section \<open>Specs\<close>

definition aws_s3_delete_object_spec :: inverse_spec where
  "aws_s3_delete_object_spec = (bare_spec ''aws.s3.delete_object'' COMPENSABLE)
     \<lparr>sp_inverse_tool := Some ''aws.s3.delete_object_version'',
      sp_arg_map := [(''Bucket'', ''args.Bucket''), (''Key'', ''args.Key''), (''VersionId'', ''result.VersionId'')],
      sp_gates := [GATE_S3_VERSIONING, GATE_S3_MFA_DELETE_OFF],
      sp_degraded_kind := IRREVERSIBLE,
      sp_residue := (''Undeleting works by deleting the delete marker, so the object'' @ [CHR 0x27]
        @ ''s version history records both the deletion and its removal. Anything that read the key while the ''
        @ ''marker was current correctly saw a 404.''),
      sp_notes := (''The canonical case for authorize-phase gates. With versioning on, the delete inserts a marker and ''
        @ ''`VersionId` in the response identifies it. With versioning off, this same call is unrecoverable ''
        @ long_dash @ '' which is why the gate degrades the classification instead of hoping for the best.'')\<rparr>"

definition aws_s3_put_object_spec :: inverse_spec where
  "aws_s3_put_object_spec = (bare_spec ''aws.s3.put_object'' COMPENSABLE)
     \<lparr>sp_inverse_tool := Some ''aws.s3.copy_object'',
      sp_arg_map := [(''Bucket'', ''args.Bucket''), (''Key'', ''args.Key''), (''CopySource'', ''snapshot.PriorVersionSource'')],
      sp_gates := [GATE_S3_VERSIONING],
      sp_snapshot_fields := [''PriorVersionSource'', ''PriorVersionId'', ''ETag''],
      sp_degraded_kind := IRREVERSIBLE,
      sp_residue := (''Restoring copies the prior version forward, creating a third version rather than removing the ''
        @ ''second. Consumers that read the key while the bad version was current got the bad content.''),
      sp_notes := (''`PriorVersionSource` should be captured as bucket/key?versionId=... so the copy is unambiguous. ''
        @ ''Without versioning an overwrite destroys the prior bytes and no snapshot short of copying the whole ''
        @ ''object helps.'')\<rparr>"

definition aws_iam_create_policy_version_spec :: inverse_spec where
  "aws_iam_create_policy_version_spec = (bare_spec ''aws.iam.create_policy_version'' REVERSIBLE)
     \<lparr>sp_inverse_tool := Some ''aws.iam.set_default_policy_version'',
      sp_arg_map := [(''PolicyArn'', ''args.PolicyArn''), (''VersionId'', ''snapshot.DefaultVersionId'')],
      sp_gates := [GATE_IAM_VERSION_RETAINED],
      sp_snapshot_fields := [''DefaultVersionId''],
      sp_notes := (''IAM policy versioning is a genuine built-in undo: rolling back means making the previous version ''
        @ ''default again, with nothing deleted or recreated. The catch is the five-version ceiling '' @ long_dash
        @ '' capture the prior default version id, and capture the document too so you can rebuild if the ''
        @ ''version was pruned.'')\<rparr>"

definition aws_iam_attach_role_policy_spec :: inverse_spec where
  "aws_iam_attach_role_policy_spec = (bare_spec ''aws.iam.attach_role_policy'' REVERSIBLE)
     \<lparr>sp_inverse_tool := Some ''aws.iam.detach_role_policy'',
      sp_arg_map := [(''RoleName'', ''args.RoleName''), (''PolicyArn'', ''args.PolicyArn'')],
      sp_notes := (''Privilege grants are cleanly reversible, which is worth knowing: the dangerous direction on this ''
        @ ''surface is not granting access but removing it, or deleting the principal.'')\<rparr>"

definition aws_iam_detach_role_policy_spec :: inverse_spec where
  "aws_iam_detach_role_policy_spec = (bare_spec ''aws.iam.detach_role_policy'' REVERSIBLE)
     \<lparr>sp_inverse_tool := Some ''aws.iam.attach_role_policy'',
      sp_arg_map := [(''RoleName'', ''args.RoleName''), (''PolicyArn'', ''args.PolicyArn'')],
      sp_notes := ''The lockout direction. Reversible, but the outage during it is not.''\<rparr>"

definition aws_iam_delete_role_spec :: inverse_spec where
  "aws_iam_delete_role_spec = (bare_spec ''aws.iam.delete_role'' IRREVERSIBLE)
     \<lparr>sp_notes := (''No soft delete. Recreating a role with the same name produces a different principal id, so every ''
        @ ''trust policy and every resource policy that referenced the old id must be rewritten. Treat ''
        @ ''recreation as a migration, not an undo.'')\<rparr>"

definition aws_ec2_authorize_security_group_ingress_spec :: inverse_spec where
  "aws_ec2_authorize_security_group_ingress_spec = (bare_spec ''aws.ec2.authorize_security_group_ingress'' REVERSIBLE)
     \<lparr>sp_inverse_tool := Some ''aws.ec2.revoke_security_group_ingress'',
      sp_arg_map := [(''GroupId'', ''args.GroupId''), (''IpPermissions'', ''args.IpPermissions'')],
      sp_notes := ''Opening a port is exactly reversible by closing it.''\<rparr>"

definition aws_ec2_revoke_security_group_ingress_spec :: inverse_spec where
  "aws_ec2_revoke_security_group_ingress_spec = (bare_spec ''aws.ec2.revoke_security_group_ingress'' REVERSIBLE)
     \<lparr>sp_inverse_tool := Some ''aws.ec2.authorize_security_group_ingress'',
      sp_arg_map := [(''GroupId'', ''args.GroupId''), (''IpPermissions'', ''snapshot.RevokedPermissions'')],
      sp_snapshot_fields := [''RevokedPermissions''],
      sp_notes := (''The self-lockout case: an agent tidying security groups removes the rule its own operators connect ''
        @ ''through. Restoring the exact permission set requires having captured it, because the revoke ''
        @ ''response does not return what it removed.'')\<rparr>"

definition aws_ec2_terminate_instances_spec :: inverse_spec where
  "aws_ec2_terminate_instances_spec = (bare_spec ''aws.ec2.terminate_instances'' IRREVERSIBLE)
     \<lparr>sp_notes := (''Instance-store data is gone; even where EBS volumes survive, the instance identity, its IPs, and ''
        @ ''anything in memory do not. Launching a replacement is not an undo.'')\<rparr>"

definition aws_rds_delete_db_instance_spec :: inverse_spec where
  "aws_rds_delete_db_instance_spec = (bare_spec ''aws.rds.delete_db_instance'' COMPENSABLE)
     \<lparr>sp_inverse_tool := Some ''aws.rds.restore_db_instance_from_snapshot'',
      sp_arg_map := [(''DBInstanceIdentifier'', ''args.DBInstanceIdentifier''), (''DBSnapshotIdentifier'', ''args.FinalDBSnapshotIdentifier'')],
      sp_gates := [GATE_RDS_FINAL_SNAPSHOT],
      sp_degraded_kind := IRREVERSIBLE,
      sp_residue := (''A restore rebuilds the instance from the snapshot: writes after the snapshot are lost, the endpoint ''
        @ ''address changes, parameter and option group associations may need reapplying, and the restore ''
        @ ''itself takes long enough to be an outage.''),
      sp_notes := (''Policy should deny SkipFinalSnapshot outright rather than depend on this spec. The undo exists, but ''
        @ [CHR 0x27] @ ''we lost the last few minutes of writes and changed the endpoint'' @ [CHR 0x27]
        @ '' is a bad day even when it works.'')\<rparr>"

definition aws_route53_change_resource_record_sets_spec :: inverse_spec where
  "aws_route53_change_resource_record_sets_spec = (bare_spec ''aws.route53.change_resource_record_sets'' COMPENSABLE)
     \<lparr>sp_inverse_tool := Some ''aws.route53.change_resource_record_sets'',
      sp_arg_map := [(''HostedZoneId'', ''args.HostedZoneId''), (''ChangeBatch'', ''snapshot.PriorRecordSets'')],
      sp_snapshot_fields := [''PriorRecordSets''],
      sp_residue := (''The authoritative record is restored immediately, but resolvers and clients worldwide keep serving ''
        @ ''the wrong answer until the previous TTL expires. You cannot un-cache a DNS answer, so the record is ''
        @ ''fixed before the outage is over.''),
      sp_notes := (''Worth pairing with a policy rule that caps TTL on agent-writable zones: a low TTL is what bounds ''
        @ ''the residue, and it has to be set before the mistake, not after.'')\<rparr>"

definition aws_kms_schedule_key_deletion_spec :: inverse_spec where
  "aws_kms_schedule_key_deletion_spec = (bare_spec ''aws.kms.schedule_key_deletion'' REVERSIBLE)
     \<lparr>sp_inverse_tool := Some ''aws.kms.cancel_key_deletion'',
      sp_arg_map := [(''KeyId'', ''args.KeyId'')],
      sp_gates := [GATE_KMS_PENDING_WINDOW],
      sp_notes := (''One of the better-designed destructive operations in AWS: the mandatory waiting period is a ''
        @ ''built-in undo window, and cancelling restores the key intact. The window length is set when ''
        @ ''deletion is scheduled, which is why this is a gate rather than a fixed window_seconds '' @ long_dash
        @ '' read the actual PendingWindowInDays rather than assuming.'')\<rparr>"

definition aws_kms_disable_key_spec :: inverse_spec where
  "aws_kms_disable_key_spec = (bare_spec ''aws.kms.disable_key'' REVERSIBLE)
     \<lparr>sp_inverse_tool := Some ''aws.kms.enable_key'',
      sp_arg_map := [(''KeyId'', ''args.KeyId'')],
      sp_notes := (''Reversible, and the right containment move for a suspected key compromise: disable is undoable, ''
        @ ''scheduled deletion eventually is not.'')\<rparr>"

definition aws_s3_put_bucket_policy_spec :: inverse_spec where
  "aws_s3_put_bucket_policy_spec = (bare_spec ''aws.s3.put_bucket_policy'' REVERSIBLE)
     \<lparr>sp_steps :=
       [step_canon \<lparr>st_name = ''restore_public_access_block'', st_tool = ''aws.s3.put_public_access_block'', st_arg_map = [(''Bucket'', ''args.Bucket''), (''PublicAccessBlockConfiguration'', ''snapshot.PublicAccessBlock'')],
         st_static_args = [], st_description = (''Re-block public access FIRST. Restoring a restrictive policy while the access block is still off ''
           @ ''leaves a window in which the bucket is reachable, and the whole point of the undo is to close that ''
           @ ''window.''),
         st_critical = True\<rparr>,
        step_canon \<lparr>st_name = ''restore_policy'', st_tool = ''aws.s3.put_bucket_policy'', st_arg_map = [(''Bucket'', ''args.Bucket''), (''Policy'', ''snapshot.PriorPolicy'')],
         st_static_args = [], st_description = ''Put the captured prior bucket policy back.'',
         st_critical = True\<rparr>],
      sp_snapshot_fields := [''PriorPolicy'', ''PublicAccessBlock''],
      sp_notes := (''Ordering matters for the same reason it does in the SAP payment case: an undo executed in the wrong ''
        @ ''order can leave a worse state than the one it was correcting.'')\<rparr>"

definition CLOUD_SPECS :: "inverse_spec list" where
  "CLOUD_SPECS = map spec_canon
     [aws_s3_delete_object_spec, aws_s3_put_object_spec, aws_iam_create_policy_version_spec,
      aws_iam_attach_role_policy_spec, aws_iam_detach_role_policy_spec, aws_iam_delete_role_spec,
      aws_ec2_authorize_security_group_ingress_spec, aws_ec2_revoke_security_group_ingress_spec,
      aws_ec2_terminate_instances_spec, aws_rds_delete_db_instance_spec,
      aws_route53_change_resource_record_sets_spec, aws_kms_schedule_key_deletion_spec,
      aws_kms_disable_key_spec, aws_s3_put_bucket_policy_spec]"

definition cloud_registry :: registry where
  "cloud_registry = register_many CLOUD_SPECS empty_registry"

lemmas cloud_gate_defs = GATE_S3_VERSIONING_def GATE_S3_MFA_DELETE_OFF_def GATE_IAM_VERSION_RETAINED_def
  GATE_RDS_FINAL_SNAPSHOT_def GATE_KMS_PENDING_WINDOW_def

lemmas cloud_spec_defs = aws_s3_delete_object_spec_def aws_s3_put_object_spec_def aws_iam_create_policy_version_spec_def
  aws_iam_attach_role_policy_spec_def aws_iam_detach_role_policy_spec_def aws_iam_delete_role_spec_def
  aws_ec2_authorize_security_group_ingress_spec_def aws_ec2_revoke_security_group_ingress_spec_def
  aws_ec2_terminate_instances_spec_def aws_rds_delete_db_instance_spec_def
  aws_route53_change_resource_record_sets_spec_def aws_kms_schedule_key_deletion_spec_def
  aws_kms_disable_key_spec_def aws_s3_put_bucket_policy_spec_def

end
