(* ===== verification/CatIdentity.thy ===== *)
theory CatIdentity
  imports CatalogBase
begin

text \<open>
  \<open>adapters/identity.py\<close>: the gates and specs that ship for Microsoft Entra ID and Okta, field by field.
\<close>

section \<open>Gates\<close>

definition GATE_ENTRA_SOFT_DELETABLE :: reversal_gate where
  "GATE_ENTRA_SOFT_DELETABLE = \<lparr>g_name = ''entra_object_type_soft_deletes'',
     g_description = (''The object type must be one that Entra soft-deletes: users, Microsoft 365 groups, cloud security ''
        @ ''groups, or app registrations. Other types '' @ long_dash @ '' distribution groups among them ''
        @ long_dash @ '' are hard deleted immediately.''),
     g_remediation = (''For hard-deleting types there is no undo. Deny agent deletion of them outright, or require ''
        @ ''approval, rather than relying on a restore that does not exist.''),
     g_check_at = PhAuthorize\<rparr>"

definition GATE_ENTRA_STILL_RESTORABLE :: reversal_gate where
  "GATE_ENTRA_STILL_RESTORABLE = \<lparr>g_name = ''entra_object_still_in_soft_delete'',
     g_description = ''The object must still be within its 30-day soft-delete window and not already permanently removed.'',
     g_remediation = (''After 30 days neither you nor Microsoft Support can restore it; the object must be recreated, with ''
        @ ''a new object id and all references rewritten.''),
     g_check_at = PhUndo\<rparr>"

definition GATE_IDENTITY_NOT_COMPROMISED :: reversal_gate where
  "GATE_IDENTITY_NOT_COMPROMISED = \<lparr>g_name = ''identity_restore_is_intended'',
     g_description = (''Restoring an identity restores access. A human must confirm the account was deleted or disabled by ''
        @ ''mistake rather than in response to a compromise.''),
     g_remediation = (''Route this to the on-call identity owner. An automated cascade must never silently re-enable ''
        @ ''credentials it cannot vouch for.''),
     g_check_at = PhUndo\<rparr>"

definition IDENTITY_GATES :: "reversal_gate list" where
  "IDENTITY_GATES = [GATE_ENTRA_SOFT_DELETABLE, GATE_ENTRA_STILL_RESTORABLE, GATE_IDENTITY_NOT_COMPROMISED]"

section \<open>Specs\<close>

definition entra_user_delete_spec :: inverse_spec where
  "entra_user_delete_spec = (bare_spec ''entra.user.delete'' COMPENSABLE)
     \<lparr>sp_inverse_tool := Some ''entra.directoryobject.restore'',
      sp_arg_map := [(''id'', ''args.id'')],
      sp_gates := [GATE_ENTRA_SOFT_DELETABLE, GATE_ENTRA_STILL_RESTORABLE, GATE_IDENTITY_NOT_COMPROMISED],
      sp_snapshot_fields := [''userPrincipalName'', ''displayName'', ''accountEnabled'', ''assignedLicenses''],
      sp_window_seconds := Some 2592000,
      sp_degraded_kind := IRREVERSIBLE,
      sp_residue := (''The object comes back with its id and properties, but licence assignments and some application ''
        @ ''assignments may need reapplying, and anything that failed for the user during the deleted interval ''
        @ ''stays failed. Downstream systems provisioned from Entra may have already deprovisioned the account.''),
      sp_notes := (''A genuine time window, so window_seconds is correct here '' @ long_dash
        @ '' 30 days, not customizable. This is the rare case where the clock-based model fits, which is worth ''
        @ ''noting given how often it does not.'')\<rparr>"

definition entra_group_delete_spec :: inverse_spec where
  "entra_group_delete_spec = (bare_spec ''entra.group.delete'' COMPENSABLE)
     \<lparr>sp_inverse_tool := Some ''entra.directoryobject.restore'',
      sp_arg_map := [(''id'', ''args.id'')],
      sp_gates := [GATE_ENTRA_SOFT_DELETABLE, GATE_ENTRA_STILL_RESTORABLE],
      sp_snapshot_fields := [''displayName'', ''groupTypes'', ''securityEnabled'', ''mailEnabled''],
      sp_window_seconds := Some 2592000,
      sp_degraded_kind := IRREVERSIBLE,
      sp_residue := (''The group and its membership return, but access granted through it was absent for the whole deleted ''
        @ ''interval, and any conditional-access or licensing behaviour keyed on it behaved as though the group ''
        @ ''did not exist.''),
      sp_notes := (''The authorize gate matters most here: Microsoft 365 and cloud security groups soft-delete, ''
        @ ''distribution groups do not. Same API verb, and one of them is unrecoverable.'')\<rparr>"

definition entra_group_add_member_spec :: inverse_spec where
  "entra_group_add_member_spec = (bare_spec ''entra.group.add_member'' REVERSIBLE)
     \<lparr>sp_inverse_tool := Some ''entra.group.remove_member'',
      sp_arg_map := [(''groupId'', ''args.groupId''), (''memberId'', ''args.memberId'')],
      sp_notes := (''Privilege escalation via group membership is exactly reversible, which makes it the cheap case. ''
        @ ''Note the asymmetry with removal below.'')\<rparr>"

definition entra_group_remove_member_spec :: inverse_spec where
  "entra_group_remove_member_spec = (bare_spec ''entra.group.remove_member'' REVERSIBLE)
     \<lparr>sp_inverse_tool := Some ''entra.group.add_member'',
      sp_arg_map := [(''groupId'', ''args.groupId''), (''memberId'', ''args.memberId'')],
      sp_notes := (''The lockout direction. Reversible, but membership removal may have triggered downstream ''
        @ ''deprovisioning that adding the member back does not reverse.'')\<rparr>"

definition entra_roleassignment_create_spec :: inverse_spec where
  "entra_roleassignment_create_spec = (bare_spec ''entra.roleassignment.create'' REVERSIBLE)
     \<lparr>sp_inverse_tool := Some ''entra.roleassignment.delete'',
      sp_arg_map := [(''id'', ''result.id'')],
      sp_notes := (''An agent granting itself or another principal a directory role is the highest-consequence write on ''
        @ ''this surface. Exactly reversible, and still the one to require approval on '' @ long_dash
        @ '' by the time you undo it, the elevated principal has already been able to act.'')\<rparr>"

definition entra_user_update_spec :: inverse_spec where
  "entra_user_update_spec = (bare_spec ''entra.user.update'' REVERSIBLE)
     \<lparr>sp_inverse_tool := Some ''entra.user.update'',
      sp_arg_map := [(''id'', ''args.id''), (''accountEnabled'', ''snapshot.accountEnabled''), (''userPrincipalName'', ''snapshot.userPrincipalName''), (''displayName'', ''snapshot.displayName'')],
      sp_snapshot_fields := [''accountEnabled'', ''userPrincipalName'', ''displayName''],
      sp_notes := (''Covers the disable case (accountEnabled=false), which is the *right* containment action on this ''
        @ ''surface precisely because it is cleanly reversible where deletion is not.'')\<rparr>"

definition okta_user_deactivate_spec :: inverse_spec where
  "okta_user_deactivate_spec = (bare_spec ''okta.user.deactivate'' COMPENSABLE)
     \<lparr>sp_inverse_tool := Some ''okta.user.reactivate'',
      sp_arg_map := [(''userId'', ''args.userId'')],
      sp_gates := [GATE_IDENTITY_NOT_COMPROMISED],
      sp_snapshot_fields := [''status''],
      sp_residue := (''Reactivation restores the account but some application assignments may need to be reassigned. Group ''
        @ ''memberships were never removed '' @ long_dash
        @ '' Okta does not re-evaluate group rules on deactivation '' @ long_dash
        @ '' so they need no restoration and any attempt to '' @ [CHR 0x27] @ ''restore'' @ [CHR 0x27]
        @ '' them would add memberships that were never lost.''),
      sp_notes := (''The documented deactivate/group-rule interaction is the trap on this surface. An undo written from ''
        @ ''intuition rather than from the docs would get it wrong in the direction of granting extra access.'')\<rparr>"

definition okta_user_delete_spec :: inverse_spec where
  "okta_user_delete_spec = (bare_spec ''okta.user.delete'' IRREVERSIBLE)
     \<lparr>sp_notes := (''Deletion in Okta follows deactivation and is permanent. This is why the two are separate tools ''
        @ ''here: policy should permit deactivate freely and gate delete behind a human, because only one of ''
        @ ''them has an undo.'')\<rparr>"

definition okta_group_add_user_spec :: inverse_spec where
  "okta_group_add_user_spec = (bare_spec ''okta.group.add_user'' REVERSIBLE)
     \<lparr>sp_inverse_tool := Some ''okta.group.remove_user'',
      sp_arg_map := [(''groupId'', ''args.groupId''), (''userId'', ''args.userId'')]\<rparr>"

definition okta_group_remove_user_spec :: inverse_spec where
  "okta_group_remove_user_spec = (bare_spec ''okta.group.remove_user'' REVERSIBLE)
     \<lparr>sp_inverse_tool := Some ''okta.group.add_user'',
      sp_arg_map := [(''groupId'', ''args.groupId''), (''userId'', ''args.userId'')]\<rparr>"

definition okta_policy_deactivate_spec :: inverse_spec where
  "okta_policy_deactivate_spec = (bare_spec ''okta.policy.deactivate'' REVERSIBLE)
     \<lparr>sp_inverse_tool := Some ''okta.policy.activate'',
      sp_arg_map := [(''policyId'', ''args.policyId'')],
      sp_notes := (''An agent deactivating an MFA or sign-on policy is a security control being switched off. ''
        @ ''Technically reversible; every sign-in during the gap happened under the weaker policy and cannot be ''
        @ ''re-evaluated.'')\<rparr>"

definition IDENTITY_SPECS :: "inverse_spec list" where
  "IDENTITY_SPECS = map spec_canon
     [entra_user_delete_spec, entra_group_delete_spec, entra_group_add_member_spec,
      entra_group_remove_member_spec, entra_roleassignment_create_spec, entra_user_update_spec,
      okta_user_deactivate_spec, okta_user_delete_spec, okta_group_add_user_spec,
      okta_group_remove_user_spec, okta_policy_deactivate_spec]"

definition identity_registry :: registry where
  "identity_registry = register_many IDENTITY_SPECS empty_registry"

lemmas identity_gate_defs = GATE_ENTRA_SOFT_DELETABLE_def GATE_ENTRA_STILL_RESTORABLE_def GATE_IDENTITY_NOT_COMPROMISED_def

lemmas identity_spec_defs = entra_user_delete_spec_def entra_group_delete_spec_def entra_group_add_member_spec_def
  entra_group_remove_member_spec_def entra_roleassignment_create_spec_def entra_user_update_spec_def
  okta_user_deactivate_spec_def okta_user_delete_spec_def okta_group_add_user_spec_def
  okta_group_remove_user_spec_def okta_policy_deactivate_spec_def

end
