(* ===== verification/CatDevops.thy ===== *)
theory CatDevops
  imports CatalogBase Drills
begin

text \<open>
  \<open>adapters/devops.py\<close>: the gates and specs that ship for GitHub, Kubernetes and feature flags, field by field.
\<close>

section \<open>Gates\<close>

definition GATE_GIT_OBJECTS_PRESENT :: reversal_gate where
  "GATE_GIT_OBJECTS_PRESENT = \<lparr>g_name = ''git_objects_not_collected'',
     g_description = (''The captured commit must still exist on the remote. After a branch delete or force push the old ''
        @ ''commits become unreachable, and unreachable objects are eventually garbage collected.''),
     g_remediation = (''Recover promptly. If the objects are gone, the only remaining sources are a local clone that still ''
        @ ''has them or a backup '' @ long_dash
        @ '' and reflogs are local-only, so they cannot be fetched from the remote.''),
     g_check_at = PhUndo\<rparr>"

definition GATE_K8S_REVISION_PRESENT :: reversal_gate where
  "GATE_K8S_REVISION_PRESENT = \<lparr>g_name = ''k8s_revision_still_in_history'',
     g_description = (''The target revision'' @ [CHR 0x27]
        @ ''s ReplicaSet must still exist. revisionHistoryLimit (default 10) prunes old ReplicaSets, and a ''
        @ ''pruned revision cannot be recovered '' @ long_dash @ '' its configuration is stored nowhere else.''),
     g_remediation = (''Re-apply the captured manifest instead of rolling back to a revision. Raise revisionHistoryLimit on ''
        @ ''workloads agents can deploy to.''),
     g_check_at = PhUndo\<rparr>"

definition GATE_K8S_MANIFEST_CAPTURED :: reversal_gate where
  "GATE_K8S_MANIFEST_CAPTURED = \<lparr>g_name = ''k8s_manifest_captured'',
     g_description = (''The full prior manifest must have been captured before the delete. Kubernetes offers no undo for a ''
        @ ''deleted object, so the snapshot is the only copy.''),
     g_remediation = ''If the manifest is in Git, recover from there. Otherwise the object must be rebuilt by hand.'',
     g_check_at = PhAuthorize\<rparr>"

definition GATE_PVC_RETAINED :: reversal_gate where
  "GATE_PVC_RETAINED = \<lparr>g_name = ''k8s_persistent_data_retained'',
     g_description = (''Any PersistentVolumeClaim the workload used must not have been reclaimed. With a Delete reclaim ''
        @ ''policy the underlying volume is destroyed with the claim, so re-applying the manifest restores the ''
        @ ''workload but not its data.''),
     g_remediation = ''Restore data from backup separately. Use Retain reclaim policy on volumes agents can touch.'',
     g_check_at = PhUndo\<rparr>"

definition DEVOPS_GATES :: "reversal_gate list" where
  "DEVOPS_GATES = [GATE_GIT_OBJECTS_PRESENT, GATE_K8S_REVISION_PRESENT, GATE_K8S_MANIFEST_CAPTURED, GATE_PVC_RETAINED]"

definition DEVOPS_EQUIVALENCE :: state_equivalence where
  "DEVOPS_EQUIVALENCE = \<lparr>se_name = ''devops'', se_exempt =
     [\<lparr>xm_field = ''base_sha'', xm_reason = (''Reverting a merge adds a commit rather than removing one, so the branch tip is necessarily a new ''
        @ ''SHA. Measured: after revert the tree matched the pre-merge tree and the tip did not. Requiring the ''
        @ ''tip to return would be requiring history to be rewritten, which is the operation this spec is ''
        @ ''classified COMPENSABLE for not doing.'')\<rparr>,
      \<lparr>xm_field = ''pr_state'', xm_reason = (''A merged pull request stays merged. Reverting its effect does not reopen it, and GitHub offers no ''
        @ ''transition back. Measured: state was '' @ [CHR 0x27] @ ''closed'' @ [CHR 0x27]
        @ '' before the drill and after it. The merge event standing is the residue the spec already names.'')\<rparr>]\<rparr>"

section \<open>Specs\<close>

definition github_branch_delete_spec :: inverse_spec where
  "github_branch_delete_spec = (bare_spec ''github.branch.delete'' REVERSIBLE)
     \<lparr>sp_inverse_tool := Some ''github.ref.create'',
      sp_arg_map := [(''owner'', ''args.owner''), (''repo'', ''args.repo''), (''ref'', ''args.ref''), (''sha'', ''snapshot.tip_sha'')],
      sp_gates := [GATE_GIT_OBJECTS_PRESENT],
      sp_snapshot_fields := [''tip_sha''],
      sp_notes := (''A branch is a pointer, so recreating it at the captured SHA is an exact inverse '' @ long_dash
        @ '' better than what GitHub'' @ [CHR 0x27]
        @ ''s own UI offers, which only restores branches that were attached to a pull request. The whole ''
        @ ''recovery hinges on having captured tip_sha before the delete.'')\<rparr>"

definition github_ref_force_update_spec :: inverse_spec where
  "github_ref_force_update_spec = (bare_spec ''github.ref.force_update'' REVERSIBLE)
     \<lparr>sp_inverse_tool := Some ''github.ref.force_update'',
      sp_arg_map := [(''owner'', ''args.owner''), (''repo'', ''args.repo''), (''ref'', ''args.ref''), (''sha'', ''snapshot.prior_sha''), (''force'', ''const:true'')],
      sp_gates := [GATE_GIT_OBJECTS_PRESENT],
      sp_snapshot_fields := [''prior_sha''],
      sp_notes := (''Force-push recovery normally depends on someone'' @ [CHR 0x27]
        @ ''s local reflog, which is not fetchable from the remote and expires. Capturing prior_sha server-side ''
        @ ''removes that dependency entirely.'')\<rparr>"

definition github_pr_merge_spec :: inverse_spec where
  "github_pr_merge_spec = (bare_spec ''github.pr.merge'' COMPENSABLE)
     \<lparr>sp_inverse_tool := Some ''github.pr.revert'',
      sp_arg_map := [(''owner'', ''args.owner''), (''repo'', ''args.repo''), (''number'', ''args.number''), (''merge_commit_sha'', ''result.sha'')],
      sp_residue := (''A revert adds a new commit rather than removing the merge, so history shows both. The merge event ''
        @ ''stands, and anything it triggered '' @ long_dash
        @ '' a deployment, a release, a downstream consumer that already pulled '' @ long_dash
        @ '' is not reverted with it.''),
      sp_notes := (''The honest classification. Reverting is not un-merging, and on a protected branch it is not even ''
        @ ''the same operation as a force push back.'' @ [CHR 0x0A] @ [CHR 0x0A]
        @ ''`number` is in the arg_map because the first drill against the live API could not run without it. ''
        @ ''The spec previously passed only owner, repo and the merge commit, which names what to undo and not ''
        @ ''where: a revert has to move a branch, and nothing in those three identifies which. Deriving it by ''
        @ ''searching for branches containing the merge commit would work until two branches contained it. ''
        @ ''Reverting *a pull request* is the operation, so the pull request is the argument.'')\<rparr>"

definition github_repo_update_branch_protection_spec :: inverse_spec where
  "github_repo_update_branch_protection_spec = (bare_spec ''github.repo.update_branch_protection'' REVERSIBLE)
     \<lparr>sp_inverse_tool := Some ''github.repo.update_branch_protection'',
      sp_arg_map := [(''owner'', ''args.owner''), (''repo'', ''args.repo''), (''branch'', ''args.branch''), (''protection'', ''snapshot.protection'')],
      sp_snapshot_fields := [''protection''],
      sp_notes := (''An agent weakening branch protection is a control being switched off. Exactly restorable, and every ''
        @ ''push that landed while it was off stays landed '' @ long_dash
        @ '' so this belongs behind approval regardless of its reversibility.'')\<rparr>"

definition github_repo_delete_spec :: inverse_spec where
  "github_repo_delete_spec = (bare_spec ''github.repo.delete'' IRREVERSIBLE)
     \<lparr>sp_notes := (''Deliberately conservative. Organization-owned repositories may be restorable within a retention ''
        @ ''window depending on plan and settings, but that was not verified for this spec, and classifying it ''
        @ ''optimistically would be the exact mistake this file exists to prevent. Verify against your own org ''
        @ ''before relaxing it.'')\<rparr>"

definition k8s_resource_delete_spec :: inverse_spec where
  "k8s_resource_delete_spec = (bare_spec ''k8s.resource.delete'' COMPENSABLE)
     \<lparr>sp_inverse_tool := Some ''k8s.resource.apply'',
      sp_arg_map := [(''namespace'', ''args.namespace''), (''name'', ''args.name''), (''manifest'', ''snapshot.manifest'')],
      sp_gates := [GATE_K8S_MANIFEST_CAPTURED, GATE_PVC_RETAINED],
      sp_snapshot_fields := [''manifest''],
      sp_degraded_kind := IRREVERSIBLE,
      sp_residue := (''Re-applying restores the object'' @ [CHR 0x27]
        @ ''s spec but not its identity: the new object has a fresh UID and resourceVersion, its pods are ''
        @ ''recreated, in-flight requests were dropped, and anything that watched the delete event acted on it. ''
        @ ''If a PersistentVolumeClaim was reclaimed, the data is gone even though the workload is back.''),
      sp_notes := (''The flagship example of this architecture'' @ [CHR 0x27]
        @ ''s value. kubectl delete has no undo; capturing the manifest first is what creates one. The ''
        @ ''authorize gate means an agent cannot delete something whose manifest we failed to capture without a ''
        @ ''human seeing it first.'')\<rparr>"

definition k8s_resource_apply_spec :: inverse_spec where
  "k8s_resource_apply_spec = (bare_spec ''k8s.resource.apply'' COMPENSABLE)
     \<lparr>sp_inverse_tool := Some ''k8s.resource.apply'',
      sp_arg_map := [(''manifest'', ''snapshot.manifest'')],
      sp_snapshot_fields := [''manifest''],
      sp_residue := (''Re-applying the prior manifest converges the spec back, but the intervening rollout happened: pods ''
        @ ''were replaced, and any traffic served by the bad version was served by it.'')\<rparr>"

definition k8s_deployment_set_image_spec :: inverse_spec where
  "k8s_deployment_set_image_spec = (bare_spec ''k8s.deployment.set_image'' COMPENSABLE)
     \<lparr>sp_inverse_tool := Some ''k8s.rollout.undo'',
      sp_arg_map := [(''namespace'', ''args.namespace''), (''name'', ''args.name''), (''to_revision'', ''snapshot.revision'')],
      sp_gates := [GATE_K8S_REVISION_PRESENT],
      sp_snapshot_fields := [''revision'', ''image''],
      sp_residue := (''The rollback is itself a new rollout: pods restart again, and the revision history now contains ''
        @ ''both the bad deploy and its reversal.''),
      sp_notes := (''The gate is the point. This looks like a built-in undo, but revisionHistoryLimit silently prunes ''
        @ ''the revision you need '' @ long_dash
        @ '' so the capability evaporates under a burst of deploys with no error until you reach for it. ''
        @ ''Capturing the image alongside the revision number gives a fallback that does not depend on history ''
        @ ''retention.'')\<rparr>"

definition k8s_scale_spec :: inverse_spec where
  "k8s_scale_spec = (bare_spec ''k8s.scale'' REVERSIBLE)
     \<lparr>sp_inverse_tool := Some ''k8s.scale'',
      sp_arg_map := [(''namespace'', ''args.namespace''), (''name'', ''args.name''), (''replicas'', ''snapshot.replicas'')],
      sp_snapshot_fields := [''replicas''],
      sp_notes := (''Includes the scale-to-zero case, which is how an agent takes a service down. Exactly reversible; ''
        @ ''the downtime is not.'')\<rparr>"

definition k8s_namespace_delete_spec :: inverse_spec where
  "k8s_namespace_delete_spec = (bare_spec ''k8s.namespace.delete'' IRREVERSIBLE)
     \<lparr>sp_notes := (''A namespace delete cascades to every object in it. Even with manifests captured, restoring is a ''
        @ ''rebuild of arbitrary depth with new identities throughout '' @ long_dash
        @ '' not an undo. This is a deny-by-policy operation, not a recoverable one.'')\<rparr>"

definition flags_set_targeting_spec :: inverse_spec where
  "flags_set_targeting_spec = (bare_spec ''flags.set_targeting'' COMPENSABLE)
     \<lparr>sp_inverse_tool := Some ''flags.set_targeting'',
      sp_arg_map := [(''project'', ''args.project''), (''flag_key'', ''args.flag_key''), (''environment'', ''args.environment''), (''targeting'', ''snapshot.targeting'')],
      sp_snapshot_fields := [''targeting'', ''enabled''],
      sp_residue := (''Flipping the flag back is immediate, but every user served the other variant in the meantime saw ''
        @ ''it, and anything they did under it '' @ long_dash
        @ '' orders placed, emails triggered, records written '' @ long_dash @ '' stands.''),
      sp_notes := (''Feature flags read as trivially reversible and are the fastest way for an agent to change ''
        @ ''production behaviour at scale. The config reverts in a second; the consequences do not.'')\<rparr>"

definition k8s_hpa_delete_spec :: inverse_spec where
  "k8s_hpa_delete_spec = (bare_spec ''k8s.hpa.delete'' COMPENSABLE)
     \<lparr>sp_steps :=
       [step_canon \<lparr>st_name = ''restore_replicas'', st_tool = ''k8s.scale'', st_arg_map = [(''namespace'', ''args.namespace''), (''name'', ''snapshot.target_name''), (''replicas'', ''snapshot.current_replicas'')],
         st_static_args = [], st_description = (''Put the replica count back FIRST. Recreating the autoscaler against a workload left at the wrong ''
           @ ''size makes it scale from a bad baseline, which is a second incident rather than a recovery.''),
         st_critical = True\<rparr>,
        step_canon \<lparr>st_name = ''recreate_hpa'', st_tool = ''k8s.resource.apply'', st_arg_map = [(''manifest'', ''snapshot.manifest'')],
         st_static_args = [], st_description = ''Re-apply the captured HorizontalPodAutoscaler.'',
         st_critical = True\<rparr>],
      sp_snapshot_fields := [''manifest'', ''target_name'', ''current_replicas''],
      sp_residue := (''The autoscaler returns with fresh metrics history, so its first scaling decisions are made without ''
        @ ''the trend data it had before.'')\<rparr>"

definition DEVOPS_SPECS :: "inverse_spec list" where
  "DEVOPS_SPECS = map spec_canon
     [github_branch_delete_spec, github_ref_force_update_spec, github_pr_merge_spec,
      github_repo_update_branch_protection_spec, github_repo_delete_spec, k8s_resource_delete_spec,
      k8s_resource_apply_spec, k8s_deployment_set_image_spec, k8s_scale_spec, k8s_namespace_delete_spec,
      flags_set_targeting_spec, k8s_hpa_delete_spec]"

definition devops_registry :: registry where
  "devops_registry = register_many DEVOPS_SPECS empty_registry"

lemmas devops_gate_defs = GATE_GIT_OBJECTS_PRESENT_def GATE_K8S_REVISION_PRESENT_def GATE_K8S_MANIFEST_CAPTURED_def
  GATE_PVC_RETAINED_def

lemmas devops_spec_defs = github_branch_delete_spec_def github_ref_force_update_spec_def github_pr_merge_spec_def
  github_repo_update_branch_protection_spec_def github_repo_delete_spec_def
  k8s_resource_delete_spec_def k8s_resource_apply_spec_def k8s_deployment_set_image_spec_def
  k8s_scale_spec_def k8s_namespace_delete_spec_def flags_set_targeting_spec_def k8s_hpa_delete_spec_def

end
