(* ===== verification/CatDatabase.thy ===== *)
theory CatDatabase
  imports CatalogBase
begin

text \<open>
  \<open>adapters/database.py\<close>: the gates and specs that ship for relational databases, field by field.
\<close>

section \<open>Gates\<close>

definition GATE_ROW_UNCHANGED :: reversal_gate where
  "GATE_ROW_UNCHANGED = \<lparr>g_name = ''db_row_unchanged_since_capture'',
     g_description = (''The row must not have been modified by anyone else since the snapshot was taken. Writing captured ''
        @ ''values back over a concurrent edit destroys that edit.''),
     g_remediation = (''Compare the row'' @ [CHR 0x27]
        @ ''s current version or updated_at against the snapshot. If it moved, a human has to merge '' @ long_dash
        @ '' this is not a mechanical undo.''),
     g_check_at = PhUndo\<rparr>"

definition GATE_ROWS_BOUNDED :: reversal_gate where
  "GATE_ROWS_BOUNDED = \<lparr>g_name = ''db_affected_rows_captured'',
     g_description = (''Every row the statement will change must have been captured beforehand. That is only feasible for a ''
        @ ''bounded, well-targeted statement.''),
     g_remediation = (''Require a WHERE clause and a row-count ceiling in policy. An unbounded UPDATE or DELETE should be ''
        @ ''denied, not snapshotted.''),
     g_check_at = PhAuthorize\<rparr>"

definition GATE_DOWN_MIGRATION_TESTED :: reversal_gate where
  "GATE_DOWN_MIGRATION_TESTED = \<lparr>g_name = ''db_down_migration_exists_and_tested'',
     g_description = (''The migration must have a down step that has actually been exercised. An unwritten or never-run ''
        @ ''down migration is not a rollback path.''),
     g_remediation = (''Require down migrations in review and run them in CI. Until then, treat migrations as irreversible ''
        @ ''and gate them behind a human.''),
     g_check_at = PhAuthorize\<rparr>"

definition DATABASE_GATES :: "reversal_gate list" where
  "DATABASE_GATES = [GATE_ROW_UNCHANGED, GATE_ROWS_BOUNDED, GATE_DOWN_MIGRATION_TESTED]"

section \<open>Specs\<close>

definition db_select_spec :: inverse_spec where
  "db_select_spec = (bare_spec ''db.select'' REVERSIBLE)
     \<lparr>sp_inverse_tool := Some ''db.noop'',
      sp_notes := ''A read changes nothing, though it may still expose data it should not.''\<rparr>"

definition db_update_row_spec :: inverse_spec where
  "db_update_row_spec = (bare_spec ''db.update_row'' COMPENSABLE)
     \<lparr>sp_inverse_tool := Some ''db.update_row'',
      sp_arg_map := [(''table'', ''args.table''), (''key'', ''args.key''), (''values'', ''snapshot.prior_values'')],
      sp_gates := [GATE_ROWS_BOUNDED, GATE_ROW_UNCHANGED],
      sp_snapshot_fields := [''prior_values'', ''row_version''],
      sp_degraded_kind := IRREVERSIBLE,
      sp_residue := (''Restoring prior values does not undo what read the row in between: triggers fired, ''
        @ ''change-data-capture streams published, downstream caches and search indexes ingested the bad value, ''
        @ ''and any decision made on it stands.''),
      sp_notes := (''Capture row_version (or updated_at) alongside the values so the concurrency gate has something to ''
        @ ''compare. Without it the '' @ [CHR 0x27] @ ''undo'' @ [CHR 0x27]
        @ '' is a blind overwrite, which is how a recovery becomes a second incident.'')\<rparr>"

definition db_delete_rows_spec :: inverse_spec where
  "db_delete_rows_spec = (bare_spec ''db.delete_rows'' COMPENSABLE)
     \<lparr>sp_inverse_tool := Some ''db.insert_rows'',
      sp_arg_map := [(''table'', ''args.table''), (''rows'', ''snapshot.deleted_rows'')],
      sp_gates := [GATE_ROWS_BOUNDED],
      sp_snapshot_fields := [''deleted_rows''],
      sp_degraded_kind := IRREVERSIBLE,
      sp_residue := (''Re-inserting restores the data but not necessarily the identity: auto-increment keys may differ, ''
        @ ''sequences have advanced, and rows that referenced the deleted ones by foreign key may have cascaded ''
        @ ''away and not be covered by this capture.''),
      sp_notes := (''Only meaningful for a bounded delete. The authorize gate is what stops an unbounded DELETE from ''
        @ ''being classified as recoverable.'')\<rparr>"

definition db_execute_sql_spec :: inverse_spec where
  "db_execute_sql_spec = (bare_spec ''db.execute_sql'' UNKNOWN)
     \<lparr>sp_notes := (''Arbitrary SQL cannot be classified, for the same reason arbitrary shell cannot. UNKNOWN escalates ''
        @ ''to a human under the starter policy, which is the right outcome '' @ long_dash
        @ '' a statement that might be a SELECT and might be a DROP should not inherit either classification.'')\<rparr>"

definition db_drop_table_spec :: inverse_spec where
  "db_drop_table_spec = (bare_spec ''db.drop_table'' IRREVERSIBLE)
     \<lparr>sp_notes := (''Point-in-time recovery may exist at the infrastructure layer, but restoring an entire database to ''
        @ ''undo one statement is a DBA decision under an incident process, not an automated inverse. Deny this ''
        @ ''to agents.'')\<rparr>"

definition db_truncate_table_spec :: inverse_spec where
  "db_truncate_table_spec = (bare_spec ''db.truncate_table'' IRREVERSIBLE)
     \<lparr>sp_notes := (''Registered separately from delete_rows because it looks similar and behaves completely differently: ''
        @ ''no per-row capture is feasible and most engines do not even log it row by row.'')\<rparr>"

definition db_migrate_up_spec :: inverse_spec where
  "db_migrate_up_spec = (bare_spec ''db.migrate_up'' COMPENSABLE)
     \<lparr>sp_inverse_tool := Some ''db.migrate_down'',
      sp_arg_map := [(''target'', ''snapshot.current_version'')],
      sp_gates := [GATE_DOWN_MIGRATION_TESTED],
      sp_snapshot_fields := [''current_version''],
      sp_degraded_kind := IRREVERSIBLE,
      sp_residue := (''A down migration reverses the schema, not the data. Dropping a column the up migration added ''
        @ ''discards every value written into it, and a down step that recreates a table cannot repopulate it. ''
        @ ''Rows written under the new schema may not fit the old one at all.''),
      sp_notes := (''The only genuinely designed inverse here, and still gated '' @ long_dash
        @ '' because down migrations are routinely unwritten, untested, or destructive. Requiring them in ''
        @ ''review and running them in CI is what makes this spec true; the spec cannot make it true on its own.'')\<rparr>"

definition db_create_index_spec :: inverse_spec where
  "db_create_index_spec = (bare_spec ''db.create_index'' REVERSIBLE)
     \<lparr>sp_inverse_tool := Some ''db.drop_index'',
      sp_arg_map := [(''table'', ''args.table''), (''name'', ''args.name'')],
      sp_notes := (''One of the few cleanly reversible schema operations '' @ long_dash
        @ '' though on a large table both directions can lock or consume enough I/O to be an incident in ''
        @ ''themselves.'')\<rparr>"

definition DATABASE_SPECS :: "inverse_spec list" where
  "DATABASE_SPECS = map spec_canon
     [db_select_spec, db_update_row_spec, db_delete_rows_spec, db_execute_sql_spec, db_drop_table_spec,
      db_truncate_table_spec, db_migrate_up_spec, db_create_index_spec]"

definition database_registry :: registry where
  "database_registry = register_many DATABASE_SPECS empty_registry"

lemmas database_gate_defs = GATE_ROW_UNCHANGED_def GATE_ROWS_BOUNDED_def GATE_DOWN_MIGRATION_TESTED_def

lemmas database_spec_defs = db_select_spec_def db_update_row_spec_def db_delete_rows_spec_def db_execute_sql_spec_def
  db_drop_table_spec_def db_truncate_table_spec_def db_migrate_up_spec_def db_create_index_spec_def

end
