(* ===== verification/CatSaas.thy ===== *)
theory CatSaas
  imports CatalogBase
begin

text \<open>
  \<open>adapters/saas.py\<close>: the gates and specs that ship for Salesforce, Slack and Stripe, field by field.
\<close>

section \<open>Gates\<close>

definition GATE_SF_IN_RECYCLE_BIN :: reversal_gate where
  "GATE_SF_IN_RECYCLE_BIN = \<lparr>g_name = ''salesforce_record_still_in_recycle_bin'',
     g_description = (''The record must still be in the Recycle Bin. Beyond the retention window it is hard deleted ''
        @ long_dash @ '' and the bin holds only 25x the org'' @ [CHR 0x27]
        @ ''s storage allocation, so records can be purged early under volume regardless of age.''),
     g_remediation = (''Recover from a backup or an archival store. The storage cap means the clock alone is not a ''
        @ ''guarantee, which is why this is checked rather than assumed.''),
     g_check_at = PhUndo\<rparr>"

definition GATE_STRIPE_REFUND_CANCELLABLE :: reversal_gate where
  "GATE_STRIPE_REFUND_CANCELLABLE = \<lparr>g_name = ''stripe_refund_requires_action'',
     g_description = (''A refund can be cancelled only while its status is requires_action, which only happens for payment ''
        @ ''methods needing customer action. In any other state it cannot be cancelled.''),
     g_remediation = (''There is no undo. If the refund was wrong, collecting the funds again is a new payment with its own ''
        @ ''authorization and dispute risk.''),
     g_check_at = PhUndo\<rparr>"

definition SAAS_GATES :: "reversal_gate list" where
  "SAAS_GATES = [GATE_SF_IN_RECYCLE_BIN, GATE_STRIPE_REFUND_CANCELLABLE]"

section \<open>Specs\<close>

definition salesforce_record_delete_spec :: inverse_spec where
  "salesforce_record_delete_spec = (bare_spec ''salesforce.record.delete'' COMPENSABLE)
     \<lparr>sp_inverse_tool := Some ''salesforce.record.undelete'',
      sp_arg_map := [(''Id'', ''args.Id'')],
      sp_gates := [GATE_SF_IN_RECYCLE_BIN],
      sp_snapshot_fields := [''Id'', ''Name'', ''OwnerId''],
      sp_window_seconds := Some 1296000,
      sp_residue := (''Undelete restores the record and most relationships, but automation that fired on the delete ''
        @ long_dash @ '' workflow, flows, roll-up recalculation, outbound integrations '' @ long_dash
        @ '' already ran, and reports produced while it was absent were wrong.''),
      sp_notes := (''Both a clock and a gate, because the 15-day window is not the only way to lose the record: the ''
        @ ''Recycle Bin is capped at 25x storage allocation and purges early under volume. Trusting the clock ''
        @ ''alone would over-promise.'')\<rparr>"

definition salesforce_record_hard_delete_spec :: inverse_spec where
  "salesforce_record_hard_delete_spec = (bare_spec ''salesforce.record.hard_delete'' IRREVERSIBLE)
     \<lparr>sp_notes := (''Bypasses the Recycle Bin entirely. Registered separately from the normal delete precisely so policy ''
        @ ''can treat them differently '' @ long_dash
        @ '' the same-looking operation with the safety net removed.'')\<rparr>"

definition salesforce_record_update_spec :: inverse_spec where
  "salesforce_record_update_spec = (bare_spec ''salesforce.record.update'' REVERSIBLE)
     \<lparr>sp_inverse_tool := Some ''salesforce.record.update'',
      sp_arg_map := [(''Id'', ''args.Id''), (''fields'', ''snapshot.fields'')],
      sp_snapshot_fields := [''fields''],
      sp_notes := (''Capture exactly the fields the forward call intends to write, not the whole record: a blind ''
        @ ''full-record restore would clobber concurrent edits made by other users in between.'')\<rparr>"

definition slack_chat_post_message_spec :: inverse_spec where
  "slack_chat_post_message_spec = (bare_spec ''slack.chat.post_message'' COMPENSABLE)
     \<lparr>sp_inverse_tool := Some ''slack.chat.delete'',
      sp_arg_map := [(''channel'', ''args.channel''), (''ts'', ''result.ts'')],
      sp_residue := (''The message disappears from the channel and from nowhere else. Push and email notifications already ''
        @ ''went out, anyone watching has read it, and retention, export, and DLP tooling likely holds a copy. ''
        @ ''If it contained something confidential, deletion does not undo the disclosure.''),
      sp_notes := (''The clearest case in this whole adapter set for separating '' @ [CHR 0x27] @ ''the record is reversed''
        @ [CHR 0x27] @ '' from '' @ [CHR 0x27] @ ''the effect is reversed'' @ [CHR 0x27]
        @ ''. Treat an agent posting to a channel with outsiders in it as effectively irreversible in policy, ''
        @ ''whatever this spec says.'')\<rparr>"

definition slack_chat_update_spec :: inverse_spec where
  "slack_chat_update_spec = (bare_spec ''slack.chat.update'' COMPENSABLE)
     \<lparr>sp_inverse_tool := Some ''slack.chat.update'',
      sp_arg_map := [(''channel'', ''args.channel''), (''ts'', ''args.ts''), (''text'', ''snapshot.text'')],
      sp_snapshot_fields := [''text''],
      sp_residue := (''The text reverts but the message shows as edited, and anyone who read the intermediate version read ''
        @ ''it.'')\<rparr>"

definition slack_chat_delete_spec :: inverse_spec where
  "slack_chat_delete_spec = (bare_spec ''slack.chat.delete'' IRREVERSIBLE)
     \<lparr>sp_notes := (''There is no undelete. An agent tidying a channel destroys the record, which on a surface people ''
        @ ''treat as a business record is a retention issue as much as an availability one.'')\<rparr>"

definition slack_conversations_archive_spec :: inverse_spec where
  "slack_conversations_archive_spec = (bare_spec ''slack.conversations.archive'' REVERSIBLE)
     \<lparr>sp_inverse_tool := Some ''slack.conversations.unarchive'',
      sp_arg_map := [(''channel'', ''args.channel'')]\<rparr>"

definition stripe_refund_create_spec :: inverse_spec where
  "stripe_refund_create_spec = (bare_spec ''stripe.refund.create'' COMPENSABLE)
     \<lparr>sp_inverse_tool := Some ''stripe.refund.cancel'',
      sp_arg_map := [(''refund'', ''result.id'')],
      sp_gates := [GATE_STRIPE_REFUND_CANCELLABLE],
      sp_degraded_kind := IRREVERSIBLE,
      sp_residue := (''Cancellation is possible only in the narrow requires_action state. In every other case the money ''
        @ ''has moved and the only remedy is a fresh charge, which is a new payment with its own authorization ''
        @ ''and dispute risk rather than a reversal.''),
      sp_notes := (''Classified compensable only because that narrow cancellable state exists. The gate degrades it to ''
        @ ''irreversible in the ordinary case, which is the honest default '' @ long_dash
        @ '' and the reason policy should require approval on agent refunds rather than leaning on this spec.'')\<rparr>"

definition stripe_payment_intent_cancel_spec :: inverse_spec where
  "stripe_payment_intent_cancel_spec = (bare_spec ''stripe.payment_intent.cancel'' IRREVERSIBLE)
     \<lparr>sp_notes := (''Cancelling an authorized-but-uncaptured PaymentIntent is not a refund and has no inverse: the ''
        @ ''authorization is released and a new PaymentIntent must be created, which means re-obtaining ''
        @ ''customer consent.'')\<rparr>"

definition stripe_subscription_update_spec :: inverse_spec where
  "stripe_subscription_update_spec = (bare_spec ''stripe.subscription.update'' REVERSIBLE)
     \<lparr>sp_inverse_tool := Some ''stripe.subscription.update'',
      sp_arg_map := [(''subscription'', ''args.subscription''), (''cancel_at_period_end'', ''snapshot.cancel_at_period_end'')],
      sp_snapshot_fields := [''cancel_at_period_end''],
      sp_notes := (''Scheduling a cancellation at period end is reversible by unscheduling it. Registered separately ''
        @ ''from immediate cancellation below, because the two differ entirely in recoverability while looking ''
        @ ''almost identical in an agent'' @ [CHR 0x27] @ ''s tool list.'')\<rparr>"

definition stripe_subscription_cancel_spec :: inverse_spec where
  "stripe_subscription_cancel_spec = (bare_spec ''stripe.subscription.cancel'' IRREVERSIBLE)
     \<lparr>sp_notes := (''Immediate cancellation cannot be undone; a new subscription is a new object with new billing ''
        @ ''anchors, not a restoration. Contrast with the update above '' @ long_dash
        @ '' this is the pair worth putting in front of anyone who thinks reversibility is obvious from a tool ''
        @ ''name.'')\<rparr>"

definition stripe_customer_delete_spec :: inverse_spec where
  "stripe_customer_delete_spec = (bare_spec ''stripe.customer.delete'' IRREVERSIBLE)
     \<lparr>sp_notes := ''Permanent, and it detaches payment methods and cancels subscriptions with it.''\<rparr>"

definition SAAS_SPECS :: "inverse_spec list" where
  "SAAS_SPECS = map spec_canon
     [salesforce_record_delete_spec, salesforce_record_hard_delete_spec, salesforce_record_update_spec,
      slack_chat_post_message_spec, slack_chat_update_spec, slack_chat_delete_spec,
      slack_conversations_archive_spec, stripe_refund_create_spec, stripe_payment_intent_cancel_spec,
      stripe_subscription_update_spec, stripe_subscription_cancel_spec, stripe_customer_delete_spec]"

definition saas_registry :: registry where
  "saas_registry = register_many SAAS_SPECS empty_registry"

lemmas saas_gate_defs = GATE_SF_IN_RECYCLE_BIN_def GATE_STRIPE_REFUND_CANCELLABLE_def

lemmas saas_spec_defs = salesforce_record_delete_spec_def salesforce_record_hard_delete_spec_def
  salesforce_record_update_spec_def slack_chat_post_message_spec_def slack_chat_update_spec_def
  slack_chat_delete_spec_def slack_conversations_archive_spec_def stripe_refund_create_spec_def
  stripe_payment_intent_cancel_spec_def stripe_subscription_update_spec_def
  stripe_subscription_cancel_spec_def stripe_customer_delete_spec_def

end
