(* ===== verification/CatWorkstation.thy ===== *)
theory CatWorkstation
  imports CatalogBase Drills
begin

text \<open>
  \<open>adapters/workstation.py\<close>: the gates and specs that ship for the filesystem, git and the shell, field by field.
\<close>

section \<open>Gates\<close>

definition GATE_CONTENT_CAPTURABLE :: reversal_gate where
  "GATE_CONTENT_CAPTURABLE = \<lparr>g_name = ''fs_content_captured'',
     g_description = (''The file'' @ [CHR 0x27]
        @ ''s prior content must have been captured. Very large or binary files may exceed whatever cap the ''
        @ ''state reader enforces, in which case there is nothing to restore.''),
     g_remediation = (''Raise the snapshot size cap for paths agents may write, or keep those paths under version control ''
        @ ''so a copy exists elsewhere.''),
     g_check_at = PhAuthorize\<rparr>"

definition GATE_TREE_CAPTURED :: reversal_gate where
  "GATE_TREE_CAPTURED = \<lparr>g_name = ''fs_tree_captured'',
     g_description = (''A recursive delete is recoverable only if the entire subtree was captured first '' @ long_dash
        @ '' every file'' @ [CHR 0x27] @ ''s content, plus modes and layout.''),
     g_remediation = (''Do not let agents delete trees. This is the operation behind the wiped-home-directory incidents; ''
        @ ''deny it and require a human, rather than relying on a snapshot large enough to cover it.''),
     g_check_at = PhAuthorize\<rparr>"

definition GATE_GIT_REFLOG_PRESENT :: reversal_gate where
  "GATE_GIT_REFLOG_PRESENT = \<lparr>g_name = ''git_commit_still_reachable'',
     g_description = (''The captured commit must still exist locally. It becomes unreachable after the reset and is ''
        @ ''eventually garbage collected.''),
     g_remediation = ''Recover promptly, or restore the branch from a remote that still has it.'',
     g_check_at = PhUndo\<rparr>"

definition WORKSTATION_GATES :: "reversal_gate list" where
  "WORKSTATION_GATES = [GATE_CONTENT_CAPTURABLE, GATE_TREE_CAPTURED, GATE_GIT_REFLOG_PRESENT]"

definition WORKSTATION_EQUIVALENCE :: state_equivalence where
  "WORKSTATION_EQUIVALENCE = \<lparr>se_name = ''workstation'', se_exempt =
     [\<lparr>xm_field = ''mtime'', xm_reason = (''the inverse for a deleted or overwritten file is a write, and a write stamps the current time. The ''
        @ ''original mtime is captured for the evidence pack and cannot be put back.'')\<rparr>,
      \<lparr>xm_field = ''inode'', xm_reason = (''delete-and-recreate may reuse the number when nothing else holds the file, so neither a change nor ''
        @ ''a match says anything about whether the content was restored.'')\<rparr>,
      \<lparr>xm_field = ''nlink'', xm_reason = (''recreating a file breaks every hard link that pointed at the original. Nothing in a filesystem ''
        @ ''write can re-establish them.'')\<rparr>]\<rparr>"

section \<open>Specs\<close>

definition fs_read_file_spec :: inverse_spec where
  "fs_read_file_spec = (bare_spec ''fs.read_file'' IDEMPOTENT)
     \<lparr>sp_notes := ''A read changes nothing, so there is nothing to undo and nothing to prove.''\<rparr>"

definition fs_write_file_spec :: inverse_spec where
  "fs_write_file_spec = (bare_spec ''fs.write_file'' REVERSIBLE)
     \<lparr>sp_inverse_tool := Some ''fs.write_file'',
      sp_arg_map := [(''path'', ''args.path''), (''content'', ''snapshot.content''), (''mode'', ''snapshot.mode'')],
      sp_gates := [GATE_CONTENT_CAPTURABLE],
      sp_snapshot_fields := [''content'', ''mode'', ''existed''],
      sp_degraded_kind := IRREVERSIBLE,
      sp_notes := (''Capture `existed` too: if the file did not exist before, the correct undo is deletion, not writing ''
        @ ''empty content. Getting that wrong leaves a zero-byte file that some build systems treat very ''
        @ ''differently from an absent one.'')\<rparr>"

definition fs_delete_file_spec :: inverse_spec where
  "fs_delete_file_spec = (bare_spec ''fs.delete_file'' COMPENSABLE)
     \<lparr>sp_inverse_tool := Some ''fs.write_file'',
      sp_arg_map := [(''path'', ''args.path''), (''content'', ''snapshot.content''), (''mode'', ''snapshot.mode'')],
      sp_gates := [GATE_CONTENT_CAPTURABLE],
      sp_snapshot_fields := [''content'', ''mode'', ''mtime'', ''owner''],
      sp_degraded_kind := IRREVERSIBLE,
      sp_residue := (''The content comes back; the file does not. Any hard links to the original now point at a separate ''
        @ ''file, and mtime and ctime are reset '' @ long_dash
        @ '' this inverse writes content and mode, and cannot restore timestamps or ownership at all. Anything ''
        @ ''watching the path saw a delete event.''),
      sp_notes := (''Compensable rather than reversible because the identity of the file is not restored, only its ''
        @ ''bytes. `scripts/validate_workstation.py` measures this against a real filesystem, and corrected the ''
        @ ''original wording: that version claimed the recreated file gets a new inode, and the probe found the ''
        @ ''inode immediately REUSED when nothing else referenced it. The observable consequence '' @ long_dash
        @ '' a broken hard link '' @ long_dash
        @ '' held every time, so the residue now cites that rather than an inode number that is filesystem- and ''
        @ ''timing-dependent.'' @ [CHR 0x0A] @ [CHR 0x0A]
        @ ''`mtime` and `owner` are captured but deliberately not read by the inverse: there is no way to ''
        @ ''restore them through a write. They are here so an evidence pack can state precisely what was lost, ''
        @ ''which is worth more than pretending it was not.'')\<rparr>"

definition fs_move_spec :: inverse_spec where
  "fs_move_spec = (bare_spec ''fs.move'' REVERSIBLE)
     \<lparr>sp_inverse_tool := Some ''fs.move'',
      sp_arg_map := [(''src'', ''args.dest''), (''dest'', ''args.src'')],
      sp_notes := (''The cleanest inverse on this surface: swap the arguments. Note it is only exact if the destination ''
        @ ''did not already exist and get overwritten '' @ long_dash
        @ '' capture that if the tool permits overwriting.'')\<rparr>"

definition fs_chmod_spec :: inverse_spec where
  "fs_chmod_spec = (bare_spec ''fs.chmod'' REVERSIBLE)
     \<lparr>sp_inverse_tool := Some ''fs.chmod'',
      sp_arg_map := [(''path'', ''args.path''), (''mode'', ''snapshot.mode'')],
      sp_snapshot_fields := [''mode'']\<rparr>"

definition fs_delete_tree_spec :: inverse_spec where
  "fs_delete_tree_spec = (bare_spec ''fs.delete_tree'' COMPENSABLE)
     \<lparr>sp_inverse_tool := Some ''fs.restore_tree'',
      sp_arg_map := [(''path'', ''args.path''), (''tree'', ''snapshot.tree'')],
      sp_gates := [GATE_TREE_CAPTURED],
      sp_snapshot_fields := [''tree''],
      sp_degraded_kind := IRREVERSIBLE,
      sp_residue := (''Even with a full capture, restoration rebuilds files with new inodes and reset timestamps, loses ''
        @ ''hard links and any special files, and cannot restore anything excluded by the snapshot'' @ [CHR 0x27]
        @ ''s own limits.''),
      sp_notes := (''This is the wiped-home-directory operation. The authorize gate defaults it to irreversible, which ''
        @ ''under the starter policy means a human sees every recursive delete before it happens. That is the ''
        @ ''intended behaviour, not an inconvenience to be configured away.'')\<rparr>"

definition git_commit_spec :: inverse_spec where
  "git_commit_spec = (bare_spec ''git.commit'' REVERSIBLE)
     \<lparr>sp_inverse_tool := Some ''git.reset'',
      sp_arg_map := [(''ref'', ''snapshot.head_sha''), (''mode'', ''const:soft'')],
      sp_snapshot_fields := [''head_sha''],
      sp_notes := (''A soft reset, deliberately: it moves the branch pointer back while leaving the changes staged, so ''
        @ ''the work is preserved and only the commit is undone. A hard reset here would destroy exactly what ''
        @ ''the agent was asked to produce.'')\<rparr>"

definition git_checkout_spec :: inverse_spec where
  "git_checkout_spec = (bare_spec ''git.checkout'' REVERSIBLE)
     \<lparr>sp_inverse_tool := Some ''git.checkout'',
      sp_arg_map := [(''ref'', ''snapshot.head_ref'')],
      sp_snapshot_fields := [''head_ref'', ''head_sha'']\<rparr>"

definition git_branch_delete_spec :: inverse_spec where
  "git_branch_delete_spec = (bare_spec ''git.branch.delete'' REVERSIBLE)
     \<lparr>sp_inverse_tool := Some ''git.branch.create'',
      sp_arg_map := [(''name'', ''args.name''), (''sha'', ''snapshot.tip_sha'')],
      sp_gates := [GATE_GIT_REFLOG_PRESENT],
      sp_snapshot_fields := [''tip_sha''],
      sp_notes := ''A branch is a pointer; recreating it at the captured SHA is exact.''\<rparr>"

definition git_reset_hard_spec :: inverse_spec where
  "git_reset_hard_spec = (bare_spec ''git.reset_hard'' COMPENSABLE)
     \<lparr>sp_inverse_tool := Some ''git.reset'',
      sp_arg_map := [(''ref'', ''snapshot.head_sha''), (''mode'', ''const:hard'')],
      sp_gates := [GATE_GIT_REFLOG_PRESENT],
      sp_snapshot_fields := [''head_sha'', ''dirty''],
      sp_residue := (''The commit history is restored exactly, but any uncommitted modifications to tracked files that the ''
        @ ''reset overwrote are gone permanently. They were never hashed into a git object, so no reflog entry, ''
        @ ''no unreachable commit, and no gc setting can bring them back.''),
      sp_notes := (''Capture `dirty` (whether the working tree had uncommitted changes) so the residue can be stated ''
        @ ''precisely rather than generically. On a clean tree this is effectively reversible; on a dirty one ''
        @ ''it destroyed work, and the evidence pack should say which.'')\<rparr>"

definition git_clean_spec :: inverse_spec where
  "git_clean_spec = (bare_spec ''git.clean'' IRREVERSIBLE)
     \<lparr>sp_notes := (''Removes untracked files, which git has never had a copy of. Nothing in the repository can restore ''
        @ ''them. Unambiguous, and worth registering explicitly so it escalates rather than falling into ''
        @ ''UNKNOWN by accident.'')\<rparr>"

definition git_stash_drop_spec :: inverse_spec where
  "git_stash_drop_spec = (bare_spec ''git.stash_drop'' IRREVERSIBLE)
     \<lparr>sp_notes := (''Conservative on purpose. A dropped stash commit may linger unreachable and be recoverable by hand, ''
        @ ''but that is a forensic exercise with no API, not an undo this control plane should promise.'')\<rparr>"

definition shell_exec_spec :: inverse_spec where
  "shell_exec_spec = (bare_spec ''shell.exec'' UNKNOWN)
     \<lparr>sp_notes := (''Left UNKNOWN deliberately, and this is the most important entry in the file. An arbitrary command''
        @ [CHR 0x27]
        @ ''s effects cannot be known in advance, so no honest inverse can be declared. Under the starter ''
        @ ''policy UNKNOWN escalates to a human on every invocation '' @ long_dash
        @ '' which is the correct answer, and the argument for giving agents specific tools rather than a ''
        @ ''shell. If shell access is unavoidable, the enforcement layer'' @ [CHR 0x27]
        @ ''s threat scanner and argument conditions are the control, not the reversal layer.'')\<rparr>"

definition git_switch_with_stash_spec :: inverse_spec where
  "git_switch_with_stash_spec = (bare_spec ''git.switch_with_stash'' COMPENSABLE)
     \<lparr>sp_steps :=
       [step_canon \<lparr>st_name = ''return_to_branch'', st_tool = ''git.checkout'', st_arg_map = [(''ref'', ''snapshot.head_ref'')],
         st_static_args = [], st_description = (''Go back to the original branch FIRST. Popping the stash onto the wrong branch applies the changes ''
           @ ''somewhere they were never meant to be, which is harder to clean up than the original mistake.''),
         st_critical = True\<rparr>,
        step_canon \<lparr>st_name = ''restore_stash'', st_tool = ''git.stash_pop'', st_arg_map = [(''ref'', ''result.stash_ref'')],
         st_static_args = [], st_description = ''Reapply the work that was stashed to allow the switch.'',
         st_critical = True\<rparr>],
      sp_snapshot_fields := [''head_ref'', ''head_sha''],
      sp_residue := (''Popping a stash can conflict if the branch moved in the meantime, leaving the working tree in a ''
        @ ''conflicted state that needs a human to resolve.'')\<rparr>"

definition WORKSTATION_SPECS :: "inverse_spec list" where
  "WORKSTATION_SPECS = map spec_canon
     [fs_read_file_spec, fs_write_file_spec, fs_delete_file_spec, fs_move_spec, fs_chmod_spec,
      fs_delete_tree_spec, git_commit_spec, git_checkout_spec, git_branch_delete_spec, git_reset_hard_spec,
      git_clean_spec, git_stash_drop_spec, shell_exec_spec, git_switch_with_stash_spec]"

definition workstation_registry :: registry where
  "workstation_registry = register_many WORKSTATION_SPECS empty_registry"

lemmas workstation_gate_defs = GATE_CONTENT_CAPTURABLE_def GATE_TREE_CAPTURED_def GATE_GIT_REFLOG_PRESENT_def

lemmas workstation_spec_defs = fs_read_file_spec_def fs_write_file_spec_def fs_delete_file_spec_def fs_move_spec_def
  fs_chmod_spec_def fs_delete_tree_spec_def git_commit_spec_def git_checkout_spec_def
  git_branch_delete_spec_def git_reset_hard_spec_def git_clean_spec_def git_stash_drop_spec_def
  shell_exec_spec_def git_switch_with_stash_spec_def

end
