(* ===== verification/CatRasEval.thy ===== *)
theory CatRasEval
  imports CatalogBase
begin

text \<open>
  \<open>adapters/ras_eval.py\<close>: the classifications of the tools of an external benchmark, and the one spec of
  \<open>adapters/workspace.py\<close>, a template for guarded shell commands. Taking and restoring a tree with git is
  not modelled.
\<close>

definition READS :: "string list" where
  "READS = [''is_arxiv_identifier'', ''search_identifier'', ''get_disk_info'', ''get_memory_info'',
     ''get_current_time'', ''get_weather'', ''get_events_from_calendar'', ''search_event'',
     ''tavily_search'', ''location_encode'', ''get_stock_price'', ''get_cpu_info'', ''list_directory'',
     ''read_file'', ''get_alarms'', ''web_search'']"

definition PAIRS :: "(string \<times> string \<times> string) list" where
  "PAIRS = [(''add_event_to_calendar'', ''remove_event_from_calendar'', ''event_id''),
     (''remove_event_from_calendar'', ''add_event_to_calendar'', ''event_id''),
     (''set_alarm'', ''cancel_alarm'', ''alarm_id''), (''cancel_alarm'', ''set_alarm'', ''alarm_id''),
     (''timer'', ''cancel_timer'', ''timer_id'')]"

definition read_specs :: "inverse_spec list" where
  "read_specs = map (\<lambda>t. (bare_spec t REVERSIBLE)
     \<lparr>sp_inverse_tool := Some ''ras.noop'', sp_notes := ''Read-only: nothing to undo.''\<rparr>) READS"

definition pair_specs :: "inverse_spec list" where
  "pair_specs = map (\<lambda>(fwd, inv, key). (bare_spec fwd REVERSIBLE)
     \<lparr>sp_inverse_tool := Some inv, sp_arg_map := [(key, ''result.'' @ key)],
      sp_notes := ''Exact inverse pair with '' @ inv @ ''. The identifier comes from the response, so the undo path only ''
        @ ''completes after the forward call returns '' @ long_dash @ '' which is precisely the deferred-argument case the ''
        @ ''plan model exists to handle.''\<rparr>) PAIRS"

definition insert_data_spec :: inverse_spec where
  "insert_data_spec = (bare_spec ''insert_data'' COMPENSABLE)
     \<lparr>sp_inverse_tool := Some ''delete_data'',
      sp_arg_map := [(''db_path'', ''args.db_path''), (''row_id'', ''result.row_id'')],
      sp_residue := (''Deleting the row removes the data, not its trace: auto-increment sequences have advanced, and ''
        @ ''anything that read the row while it existed acted on it.'')\<rparr>"

definition download_file_spec :: inverse_spec where
  "download_file_spec = (bare_spec ''download_file'' COMPENSABLE)
     \<lparr>sp_inverse_tool := Some ''delete_file'',
      sp_arg_map := [(''path'', ''args.path'')],
      sp_residue := (''The file is removed but the transfer happened: bandwidth was consumed and the remote server logged ''
        @ ''the request.'')\<rparr>"

definition convert_file_to_markdown_spec :: inverse_spec where
  "convert_file_to_markdown_spec = (bare_spec ''convert_file_to_markdown'' COMPENSABLE)
     \<lparr>sp_inverse_tool := Some ''delete_file'',
      sp_arg_map := [(''path'', ''args.save_path'')],
      sp_residue := ''The converted output is removed; the source is untouched.''\<rparr>"

definition write_file_spec :: inverse_spec where
  "write_file_spec = (bare_spec ''write_file'' COMPENSABLE)
     \<lparr>sp_inverse_tool := Some ''write_file'',
      sp_arg_map := [(''path'', ''args.path''), (''content'', ''snapshot.content'')],
      sp_snapshot_fields := [''content''],
      sp_residue := (''Prior content is restored where it was captured. If the file did not exist before, this leaves an ''
        @ ''empty file rather than no file.'')\<rparr>"

definition send_email_spec :: inverse_spec where
  "send_email_spec = (bare_spec ''send_email'' IRREVERSIBLE)
     \<lparr>sp_notes := ''Delivered mail cannot be recalled.''\<rparr>"

definition execute_shell_command_spec :: inverse_spec where
  "execute_shell_command_spec = (bare_spec ''execute_shell_command'' UNKNOWN)
     \<lparr>sp_notes := (''Same reasoning as revoco'' @ [CHR 0x27] @ ''s own shell.exec: an arbitrary command'' @ [CHR 0x27]
        @ ''s effects cannot be known in advance, so the honest classification is UNKNOWN and the honest ''
        @ ''outcome is escalation.'')\<rparr>"

definition RAS_EVAL_SPECS :: "inverse_spec list" where
  "RAS_EVAL_SPECS = map spec_canon (read_specs @ pair_specs @
     [insert_data_spec, download_file_spec, convert_file_to_markdown_spec, write_file_spec, send_email_spec,
     execute_shell_command_spec])"

definition ras_eval_registry :: registry where
  "ras_eval_registry = register_many RAS_EVAL_SPECS empty_registry"

definition classified_tools :: "string set" where
  "classified_tools = set (map sp_tool RAS_EVAL_SPECS)"

section \<open>The workspace snapshot\<close>

definition SNAPSHOT_TOOL :: string where "SNAPSHOT_TOOL = ''workspace.restore_tree''"

definition WORKSPACE_TEMPLATE :: inverse_spec where
  "WORKSPACE_TEMPLATE = (bare_spec ''workspace.guarded_command'' REVERSIBLE)
     \<lparr>sp_inverse_tool := Some SNAPSHOT_TOOL,
      sp_arg_map := [(''root'', ''snapshot.root''), (''tree'', ''snapshot.tree'')],
      sp_snapshot_fields := [''root'', ''tree''],
      sp_residue := (''Git-ignored files are not captured and do not come back: anything under an ignore rule '' @ long_dash
        @ '' node_modules, .env, build output '' @ long_dash
        @ '' is outside the snapshot. Nor is anything the command did beyond this directory.''),
      sp_notes := (''Reversible only because a tree object is written before the command runs. Without the snapshot ''
        @ ''there is no inverse and the classification would be a claim with nothing behind it.'')\<rparr>"

definition WORKSPACE_SPEC :: inverse_spec where
  "WORKSPACE_SPEC = spec_canon WORKSPACE_TEMPLATE"

lemmas ras_eval_spec_defs = read_specs_def pair_specs_def READS_def PAIRS_def
  insert_data_spec_def download_file_spec_def convert_file_to_markdown_spec_def write_file_spec_def send_email_spec_def execute_shell_command_spec_def

end
