(* ===== verification/Catalog.thy ===== *)
theory Catalog
  imports CatSap CatWorkday CatCloud CatIdentity CatDevops CatDatabase CatSaas CatWorkstation CatRasEval Journal
begin

text \<open>
  \<open>adapters/__init__.py\<close>: the eight surfaces together, the specs and the registry of a selection of them,
  the catalogue of gates an integrator has to answer, and the summary.
\<close>

definition SURFACES :: "(string, inverse_spec list \<times> reversal_gate list) dict" where
  "SURFACES = [(''sap'', SAP_SPECS, SAP_GATES), (''workday'', WORKDAY_SPECS, WORKDAY_GATES),
     (''cloud'', CLOUD_SPECS, CLOUD_GATES), (''identity'', IDENTITY_SPECS, IDENTITY_GATES),
     (''devops'', DEVOPS_SPECS, DEVOPS_GATES), (''database'', DATABASE_SPECS, DATABASE_GATES),
     (''saas'', SAAS_SPECS, SAAS_GATES), (''workstation'', WORKSTATION_SPECS, WORKSTATION_GATES)]"

definition EQUIVALENCES :: "(string, state_equivalence option) dict" where
  "EQUIVALENCES = [(''sap'', None), (''workday'', None), (''cloud'', None), (''identity'', None),
     (''devops'', Some DEVOPS_EQUIVALENCE), (''database'', None), (''saas'', None),
     (''workstation'', Some WORKSTATION_EQUIVALENCE)]"

definition unknown_surface :: pyexn where
  "unknown_surface = PyExn ''KeyError'' ''surface''"

definition equivalence :: "string \<Rightarrow> pyexn + state_equivalence option" where
  "equivalence surface =
     (if surface \<notin> set (map fst SURFACES) then Inl unknown_surface
      else Inr (case map_of EQUIVALENCES surface of None \<Rightarrow> None | Some e \<Rightarrow> e))"

definition surface_names :: "string list \<Rightarrow> string list" where
  "surface_names surfaces = (if surfaces = [] then map fst SURFACES else surfaces)"

definition specs_of :: "string \<Rightarrow> inverse_spec list" where
  "specs_of n = (case map_of SURFACES n of None \<Rightarrow> [] | Some (ss, gs) \<Rightarrow> ss)"

definition gates_of :: "string \<Rightarrow> reversal_gate list" where
  "gates_of n = (case map_of SURFACES n of None \<Rightarrow> [] | Some (ss, gs) \<Rightarrow> gs)"

definition all_specs :: "string list \<Rightarrow> pyexn + inverse_spec list" where
  "all_specs surfaces =
     raise_if (list_ex (\<lambda>n. n \<notin> set (map fst SURFACES)) (surface_names surfaces)) unknown_surface
       (Inr (concat (map specs_of (surface_names surfaces))))"

definition registry_for :: "string list \<Rightarrow> pyexn + registry" where
  "registry_for surfaces = bind_err (all_specs surfaces) (\<lambda>ss. Inr (register_many ss empty_registry))"

record gate_row =
  gr_surface :: string
  gr_phase :: string
  gr_description :: string
  gr_remediation :: string

definition row_of :: "string \<Rightarrow> reversal_gate \<Rightarrow> gate_row" where
  "row_of n g = \<lparr>gr_surface = n, gr_phase = phase_value (g_check_at g), gr_description = g_description g,
     gr_remediation = g_remediation g\<rparr>"

fun gate_rows :: "string list \<Rightarrow> (string, gate_row) dict \<Rightarrow> pyexn + (string, gate_row) dict" where
  "gate_rows [] out = Inr out"
| "gate_rows (n # ns) out =
     raise_if (n \<notin> set (map fst SURFACES)) unknown_surface
       (gate_rows ns (fold (\<lambda>g d. AList.update (g_name g) (row_of n g) d) (gates_of n) out))"

definition gate_catalog :: "string list \<Rightarrow> pyexn + (string, gate_row) dict" where
  "gate_catalog surfaces = gate_rows (surface_names surfaces) []"

record catalog_summary =
  cs_surfaces :: "string list"
  cs_specs :: nat
  cs_by_kind :: "(string, nat) dict"
  cs_sequenced :: nat
  cs_one_shot :: nat
  cs_gated :: nat
  cs_degradable :: nat
  cs_snapshot_dependent :: nat
  cs_gates :: nat

definition count_kind :: "inverse_spec list \<Rightarrow> reversibility \<Rightarrow> nat" where
  "count_kind ss k = length (filter (\<lambda>s. sp_kind s = k) ss)"

definition catalog_totals :: "string list \<Rightarrow> pyexn + catalog_summary" where
  "catalog_totals surfaces =
     bind_err (all_specs surfaces) (\<lambda>ss. bind_err (gate_catalog surfaces) (\<lambda>rows. Inr
       \<lparr>cs_surfaces = surface_names surfaces, cs_specs = length ss,
        cs_by_kind = map (\<lambda>k. (posture_value k, count_kind ss k)) [UNKNOWN, IRREVERSIBLE, COMPENSABLE, REVERSIBLE, IDEMPOTENT],
        cs_sequenced = length (filter (\<lambda>s. 1 < length (effective_steps s)) ss),
        cs_one_shot = length (filter sp_one_shot ss), cs_gated = length (filter (\<lambda>s. sp_gates s \<noteq> []) ss),
        cs_degradable = length (filter (\<lambda>s. authorize_gates s \<noteq> []) ss),
        cs_snapshot_dependent = length (filter (\<lambda>s. sp_snapshot_fields s \<noteq> []) ss), cs_gates = length rows\<rparr>))"

end
