(* ===== verification/CatalogProps.thy ===== *)
theory CatalogProps
  imports Catalog ParseProps
begin

text \<open>
  What ships in \<open>adapters/\<close> is sound: every spec is one its constructor accepts, surfaces can be combined
  without one spec shadowing another, every gate a spec names is in the catalogue an integrator is
  given, and an undo can only miss what the call itself did not carry.
\<close>

section \<open>Every spec is accepted\<close>

lemma sap_wf: "list_all wf_spec SAP_SPECS"
  unfolding SAP_SPECS_def by code_simp

lemma workday_wf: "list_all wf_spec WORKDAY_SPECS"
  unfolding WORKDAY_SPECS_def by code_simp

lemma cloud_wf: "list_all wf_spec CLOUD_SPECS"
  unfolding CLOUD_SPECS_def by code_simp

lemma identity_wf: "list_all wf_spec IDENTITY_SPECS"
  unfolding IDENTITY_SPECS_def by code_simp

lemma devops_wf: "list_all wf_spec DEVOPS_SPECS"
  unfolding DEVOPS_SPECS_def by code_simp

lemma database_wf: "list_all wf_spec DATABASE_SPECS"
  unfolding DATABASE_SPECS_def by code_simp

lemma saas_wf: "list_all wf_spec SAAS_SPECS"
  unfolding SAAS_SPECS_def by code_simp

lemma workstation_wf: "list_all wf_spec WORKSTATION_SPECS"
  unfolding WORKSTATION_SPECS_def by code_simp

lemma ras_eval_wf: "list_all wf_spec RAS_EVAL_SPECS"
  by code_simp

lemma workspace_wf: "wf_spec WORKSPACE_SPEC"
  by code_simp

section \<open>Each surface on its own\<close>

text \<open>A source of an argument that planning can only miss when the call did not carry it: a path into the
  arguments, a captured field, the result or an earlier step, or a constant.\<close>

definition source_closed :: "inverse_spec \<Rightarrow> string \<Rightarrow> bool" where
  "source_closed s e \<longleftrightarrow> is_const e \<or>
     (let (head, path) = partition_dot e
      in head \<in> set [''args'', ''result'', ''step''] \<or> head = ''snapshot'' \<and> path \<in> set (sp_snapshot_fields s))"

definition captured :: "inverse_spec \<Rightarrow> bool" where
  "captured s \<longleftrightarrow> list_all (\<lambda>st. list_all (\<lambda>(n, e). source_closed s e) (st_arg_map st)) (effective_steps s)"

definition name_space :: "inverse_spec \<Rightarrow> string" where
  "name_space s = fst (partition_dot (sp_tool s))"

definition spaces :: "inverse_spec list \<Rightarrow> string list" where
  "spaces ss = dedup (map name_space ss)"

definition surface_sound :: "inverse_spec list \<Rightarrow> reversal_gate list \<Rightarrow> bool" where
  "surface_sound ss gs \<longleftrightarrow> distinct (map sp_tool ss) \<and> list_all (\<lambda>s. \<not> is_glob (sp_tool s)) ss \<and> list_all captured ss
     \<and> distinct (map g_name gs)"

lemma sap_sound: "surface_sound SAP_SPECS SAP_GATES"
  by code_simp

lemma workday_sound: "surface_sound WORKDAY_SPECS WORKDAY_GATES"
  by code_simp

lemma cloud_sound: "surface_sound CLOUD_SPECS CLOUD_GATES"
  by code_simp

lemma identity_sound: "surface_sound IDENTITY_SPECS IDENTITY_GATES"
  by code_simp

lemma devops_sound: "surface_sound DEVOPS_SPECS DEVOPS_GATES"
  by code_simp

lemma database_sound: "surface_sound DATABASE_SPECS DATABASE_GATES"
  by code_simp

lemma saas_sound: "surface_sound SAAS_SPECS SAAS_GATES"
  by code_simp

lemma workstation_sound: "surface_sound WORKSTATION_SPECS WORKSTATION_GATES"
  by code_simp

lemma sap_spaces: "spaces SAP_SPECS = [''sap'']"
  by code_simp

lemma workday_spaces: "spaces WORKDAY_SPECS = [''workday'']"
  by code_simp

lemma cloud_spaces: "spaces CLOUD_SPECS = [''aws'']"
  by code_simp

lemma identity_spaces: "spaces IDENTITY_SPECS = [''entra'', ''okta'']"
  by code_simp

lemma devops_spaces: "spaces DEVOPS_SPECS = [''github'', ''k8s'', ''flags'']"
  by code_simp

lemma database_spaces: "spaces DATABASE_SPECS = [''db'']"
  by code_simp

lemma saas_spaces: "spaces SAAS_SPECS = [''salesforce'', ''slack'', ''stripe'']"
  by code_simp

lemma workstation_spaces: "spaces WORKSTATION_SPECS = [''fs'', ''git'', ''shell'']"
  by code_simp


lemmas surface_facts = sap_sound workday_sound cloud_sound identity_sound devops_sound database_sound saas_sound workstation_sound
lemmas surface_wf = sap_wf workday_wf cloud_wf identity_wf devops_wf database_wf saas_wf workstation_wf
lemmas surface_spaces = sap_spaces workday_spaces cloud_spaces identity_spaces devops_spaces database_spaces saas_spaces workstation_spaces

section \<open>The surfaces together\<close>

lemma SURFACES_names: "map fst SURFACES =
    [''sap'', ''workday'', ''cloud'', ''identity'', ''devops'', ''database'', ''saas'', ''workstation'']"
  by (simp add: SURFACES_def)

lemma specs_of_known: "n \<in> set (map fst SURFACES) \<Longrightarrow>
    list_all wf_spec (specs_of n) \<and> surface_sound (specs_of n) (gates_of n)"
  unfolding SURFACES_names using surface_facts surface_wf by (auto simp: specs_of_def gates_of_def SURFACES_def)

lemma surface_spaces_disjoint: "distinct (concat (map (\<lambda>n. spaces (specs_of n)) (map fst SURFACES)))"
  unfolding SURFACES_names by (simp add: specs_of_def SURFACES_def surface_spaces)

lemma space_in: "s \<in> set ss \<Longrightarrow> name_space s \<in> set (spaces ss)"
  by (simp add: spaces_def)

lemma concat_disjoint:
  assumes "distinct (concat (map f xs))" "x \<in> set xs" "y \<in> set xs" "c \<in> set (f x)" "c \<in> set (f y)"
  shows "x = y"
  using assms
proof (induction xs)
  case (Cons z zs)
  then show ?case by (auto simp: disjoint_iff)
qed simp

text \<open>A tool name belongs to one spec, whatever surfaces are taken together.\<close>

lemma one_spec_per_tool:
  assumes "m \<in> set (map fst SURFACES)" "n \<in> set (map fst SURFACES)" "s \<in> set (specs_of m)" "u \<in> set (specs_of n)" "sp_tool s = sp_tool u"
  shows "s = u"
proof -
  have "name_space s = name_space u" using assms(5) by (simp add: name_space_def)
  then have "m = n"
    using concat_disjoint [OF surface_spaces_disjoint assms(1,2) space_in [OF assms(3)]] space_in [OF assms(4)] by simp
  moreover have "distinct (map sp_tool (specs_of m))" using specs_of_known [OF assms(1)] by (simp add: surface_sound_def)
  ultimately show ?thesis using assms(3-5) by (auto simp: distinct_map dest: inj_onD)
qed

lemma all_specs_Inr:
  "all_specs names = Inr ss \<longleftrightarrow> set (surface_names names) \<subseteq> set (map fst SURFACES) \<and> ss = concat (map specs_of (surface_names names))"
  by (auto simp: all_specs_def list_ex_iff)

lemma in_all_specs:
  assumes "all_specs names = Inr ss" "s \<in> set ss"
  shows "\<exists>n. n \<in> set (map fst SURFACES) \<and> s \<in> set (specs_of n)"
proof -
  have k: "set (surface_names names) \<subseteq> set (map fst SURFACES)" "ss = concat (map specs_of (surface_names names))"
    using assms(1) by (simp_all only: all_specs_Inr)
  then obtain n where "n \<in> set (surface_names names)" "s \<in> set (specs_of n)" using assms(2) by auto
  then show ?thesis using k(1) by blast
qed

lemma registry_get_many:
  assumes "\<forall>s \<in> set ss. \<not> is_glob (sp_tool s)" "\<forall>s \<in> set ss. \<forall>u \<in> set ss. sp_tool s = sp_tool u \<longrightarrow> s = u"
  shows "registry_get t (register_many ss r) = (case find (\<lambda>s. sp_tool s = t) ss of Some s \<Rightarrow> Some s | None \<Rightarrow> registry_get t r)"
  using assms
proof (induction ss arbitrary: r)
  case (Cons s ss)
  have IH: "registry_get t (register_many ss (register s r)) =
      (case find (\<lambda>s. sp_tool s = t) ss of Some s \<Rightarrow> Some s | None \<Rightarrow> registry_get t (register s r))"
    using Cons by simp
  have step: "register_many (s # ss) r = register_many ss (register s r)" by (simp add: register_many_def)
  show ?case
  proof (cases "sp_tool s = t")
    case True
    have "u = s" if "find (\<lambda>s. sp_tool s = t) ss = Some u" for u
      using that Cons.prems(2) True by (auto simp: find_Some_iff)
    then show ?thesis using True Cons.prems(1) registry_get_exact [of s r] unfolding step IH by (auto split: option.split)
  next
    case False
    then show ?thesis using Cons.prems(1) registry_get_other [of s t r] unfolding step IH by (simp split: option.split)
  qed
qed (simp add: register_many_def)

section \<open>What planning can miss\<close>

lemma partition_head: "\<not> is_const e \<Longrightarrow> source_head e = fst (partition_dot e)"
  by (simp add: source_head_def)

lemma resolve_one_closed:
  assumes "source_closed s e" "\<forall>f \<in> set (sp_snapshot_fields s). resolve_path f (VDict (root_snapshot r)) \<noteq> None"
  shows "\<exists>acc'. resolve_one r False False n e acc = Inr acc'
    \<and> set (rs_unresolved acc') \<subseteq> set (rs_unresolved acc) \<union> (if source_head e = ''args'' then {n} else {})"
proof (cases "is_const e")
  case True
  then show ?thesis by (auto simp: resolve_one_def)
next
  case False
  obtain h path where p: "partition_dot e = (h, path)" by (cases "partition_dot e")
  then have head: "source_head e = h" using partition_head [OF False] by simp
  from assms(1) False p have "h \<in> {''args'', ''result'', ''step''} \<or> h = ''snapshot'' \<and> path \<in> set (sp_snapshot_fields s)"
    by (auto simp: source_closed_def)
  moreover have "\<exists>v. resolve_path path (VDict (root_snapshot r)) = Some v" if "path \<in> set (sp_snapshot_fields s)"
    using assms(2) that by blast
  ultimately show ?thesis
    using False p head by (auto simp: resolve_one_def root_of_def split: option.split)
qed

lemma resolve_loop_closed:
  assumes "list_all (\<lambda>(n, e). source_closed s e) m"
    and "\<forall>f \<in> set (sp_snapshot_fields s). resolve_path f (VDict (root_snapshot r)) \<noteq> None"
  shows "\<exists>acc'. resolve_loop r False False m acc = Inr acc'
    \<and> set (rs_unresolved acc') \<subseteq> set (rs_unresolved acc) \<union> {n. \<exists>e. (n, e) \<in> set m \<and> source_head e = ''args''}"
  using assms(1)
proof (induction m arbitrary: acc)
  case (Cons x m)
  obtain n e where x: "x = (n, e)" by (cases x)
  obtain acc1 where a: "resolve_one r False False n e acc = Inr acc1"
    "set (rs_unresolved acc1) \<subseteq> set (rs_unresolved acc) \<union> (if source_head e = ''args'' then {n} else {})"
    using resolve_one_closed [of s e r n acc] Cons.prems assms(2) x by auto
  obtain acc2 where b: "resolve_loop r False False m acc1 = Inr acc2"
    "set (rs_unresolved acc2) \<subseteq> set (rs_unresolved acc1) \<union> {n. \<exists>e. (n, e) \<in> set m \<and> source_head e = ''args''}"
    using Cons.IH [of acc1] Cons.prems by auto
  show ?case using a b x by (auto split: if_splits)
qed simp

section \<open>Properties\<close>

text \<open>
  C22: the shipped surfaces can be combined at will. For any choice of known surfaces the combined registry
  is built, every entry is a spec its constructor accepts, and each tool gets exactly the spec its own
  surface declares for it: none is shadowed and none is found through a pattern.
\<close>

theorem shipped_surfaces_combine:
  assumes "set names \<subseteq> set (map fst SURFACES)"
  shows "\<exists>ss r. all_specs names = Inr ss \<and> registry_for names = Inr r \<and> registry_inv r \<and> list_all wf_spec ss
    \<and> (\<forall>t. registry_get t r = find (\<lambda>s. sp_tool s = t) ss)"
proof -
  let ?ss = "concat (map specs_of (surface_names names))"
  have known: "set (surface_names names) \<subseteq> set (map fst SURFACES)" using assms by (auto simp: surface_names_def)
  then have a: "all_specs names = Inr ?ss" by (simp add: all_specs_Inr)
  have each: "wf_spec s \<and> \<not> is_glob (sp_tool s)" if mem: "s \<in> set ?ss" for s
  proof -
    obtain n where "n \<in> set (map fst SURFACES)" "s \<in> set (specs_of n)" using in_all_specs [OF a mem] by blast
    then show ?thesis using specs_of_known [of n] by (auto simp: surface_sound_def list_all_iff)
  qed
  have one: "s = u" if s: "s \<in> set ?ss" and u: "u \<in> set ?ss" and t: "sp_tool s = sp_tool u" for s u
  proof -
    obtain m where m: "m \<in> set (map fst SURFACES)" "s \<in> set (specs_of m)" using in_all_specs [OF a s] by blast
    obtain n where n: "n \<in> set (map fst SURFACES)" "u \<in> set (specs_of n)" using in_all_specs [OF a u] by blast
    show ?thesis by (rule one_spec_per_tool [OF m(1) n(1) m(2) n(2) t])
  qed
  have wf: "list_all wf_spec ?ss" using each by (simp add: list_all_iff)
  have "registry_get t (register_many ?ss empty_registry) = find (\<lambda>s. sp_tool s = t) ?ss" for t
    using registry_get_many [of ?ss t empty_registry] each one
    by (auto simp: registry_get_def empty_registry_def split: option.splits)
  moreover have "registry_inv (register_many ?ss empty_registry)" by (rule registry_inv_register_many [OF registry_inv_empty wf])
  ultimately show ?thesis using a wf by (auto simp: registry_for_def)
qed

lemma shipped_surfaces_combine_witness: "\<exists>r. registry_for [''sap'', ''database''] = Inr r \<and> registry_inv r"
  using shipped_surfaces_combine [of "[''sap'', ''database'']"] by (auto simp: SURFACES_names)

text \<open>
  C17: an undo that ships never asks for state nobody captured. For every step of every shipped spec, when
  the state reader returned the fields the spec declares, planning raises nothing and finds every
  argument but those the call itself did not carry, the ones that wait for the result, and the ones an
  earlier step will provide.
\<close>

theorem shipped_undo_misses_only_arguments:
  assumes "all_specs names = Inr ss" "s \<in> set ss" "st \<in> set (effective_steps s)"
    and "\<forall>f \<in> set (sp_snapshot_fields s). resolve_path f (VDict (root_snapshot r)) \<noteq> None"
  shows "\<exists>res. step_resolve st r False False = Inr res
    \<and> (\<forall>n \<in> set (rs_unresolved res). \<exists>e. (n, e) \<in> set (st_arg_map st) \<and> source_head e = ''args'')"
proof -
  obtain n where "n \<in> set (map fst SURFACES)" "s \<in> set (specs_of n)" using in_all_specs [OF assms(1,2)] by blast
  then have "captured s" using specs_of_known [of n] by (auto simp: surface_sound_def list_all_iff)
  then have "list_all (\<lambda>(n, e). source_closed s e) (st_arg_map st)" using assms(3) by (simp add: captured_def list_all_iff)
  from resolve_loop_closed [OF this assms(4)] show ?thesis unfolding step_resolve_def by fastforce
qed

lemma shipped_undo_misses_only_arguments_witness:
  "\<exists>s \<in> set DATABASE_SPECS. sp_tool s = ''db.migrate_up'' \<and> (\<forall>st \<in> set (effective_steps s). \<exists>res.
     step_resolve st \<lparr>root_args = [], root_snapshot = [(''current_version'', VInt 7)], root_result = VNone, root_steps = []\<rparr> False False = Inr res
     \<and> rs_unresolved res = [])"
proof -
  let ?s = "spec_canon db_migrate_up_spec"
  let ?r = "\<lparr>root_args = [], root_snapshot = [(''current_version'', VInt 7)], root_result = VNone, root_steps = []\<rparr>"
  have all: "all_specs [''database''] = Inr DATABASE_SPECS"
    by (simp add: all_specs_Inr surface_names_def SURFACES_names) (simp add: specs_of_def SURFACES_def)
  have s: "?s \<in> set DATABASE_SPECS" "sp_tool ?s = ''db.migrate_up''" by (simp_all add: DATABASE_SPECS_def spec_canon_def db_migrate_up_spec_def bare_spec_def)
  have "sp_snapshot_fields ?s = [''current_version'']" by (simp add: spec_canon_def db_migrate_up_spec_def bare_spec_def)
  moreover have "resolve_path ''current_version'' (VDict [(''current_version'', VInt 7)]) = Some (VInt 7)" by code_simp
  ultimately have f: "\<forall>f \<in> set (sp_snapshot_fields ?s). resolve_path f (VDict (root_snapshot ?r)) \<noteq> None" by simp
  have m: "\<forall>st \<in> set (effective_steps ?s). st_arg_map st = [(''target'', ''snapshot.current_version'')]"
    by (simp add: effective_steps_def spec_canon_def db_migrate_up_spec_def bare_spec_def)
  have "\<exists>res. step_resolve st ?r False False = Inr res \<and> rs_unresolved res = []" if st: "st \<in> set (effective_steps ?s)" for st
  proof -
    obtain res where "step_resolve st ?r False False = Inr res"
      "\<forall>n \<in> set (rs_unresolved res). \<exists>e. (n, e) \<in> set (st_arg_map st) \<and> source_head e = ''args''"
      using shipped_undo_misses_only_arguments [OF all s(1) st f] by blast
    moreover have "source_head ''snapshot.current_version'' \<noteq> ''args''" by code_simp
    ultimately have "set (rs_unresolved res) = {}" using m st by fastforce
    then show ?thesis using \<open>step_resolve st ?r False False = Inr res\<close> by simp
  qed
  then show ?thesis using s by blast
qed

text \<open>The notes of \<open>fs.write_file\<close> say that the undo of writing a new file is deleting it; the one step of
  the spec writes whatever was captured.\<close>

lemma write_undo_never_deletes: "map st_tool (effective_steps (spec_canon fs_write_file_spec)) = [''fs.write_file'']"
  by (simp add: effective_steps_def spec_canon_def fs_write_file_spec_def bare_spec_def)

end
