(* ===== verification/Spec2Isabelle.thy ===== *)
theory Spec2Isabelle
  imports UndoProps IrrevBudget AuthorityProps GateProps LedgerProps HorizonProps ShellProps DrillProps ControlAfter
    StoreProps ProxyProps ProveProps CalibrateProps ValidationProps CatalogProps
begin

text \<open>
  A verification development for Revoco, a control plane that lets software agents act only under
  delegated authority and only with a prepared way back. File names below are under \<open>src/src/revoco/\<close>
  unless they start with \<open>recoup/\<close>, which is \<open>src/recoup/recoup/\<close>.

  \<^bold>\<open>The program.\<close> An agent asks the control plane (\<open>controlplane.py\<close>) to authorize a call of a tool. The
  reversal engine (\<open>reversal/engine.py\<close>) classifies the call by the inverse the registry declares for it
  and plans its undo from a snapshot; the policy decision point (\<open>gate/engine.py\<close>) matches the first
  rule, with the score of the threat scanner; the authority engine (\<open>authority/engine.py\<close>) signs the
  attempt and reconstructs the chain of delegations to a human; detectors (\<open>detect.py\<close>) look at the
  result; the irreversibility budget (\<open>reversal/budget.py\<close>) is checked. An allowed call leaves a planned
  entry in the journal and every step leaves events on a hash-chained ledger (\<open>ledger.py\<close>). After the
  call ran, \<open>confirm\<close> commits the entry and charges the budgets; \<open>undo\<close> executes the inverse steps and
  returns them; \<open>contain\<close> revokes a grant with all grants below it and undoes what they did. Around
  this stand the durable store (\<open>store/sqlite.py\<close>), the proxy that applies the control plane to an MCP
  server (\<open>mcp/proxy.py\<close>), the drills that prove inverses (\<open>drills.py\<close>), the runs that compare drills
  over time (\<open>validation.py\<close>), the calibration of the scanner (\<open>gate/calibrate.py\<close>), the catalogues
  of inverses (\<open>adapters/\<close>), and the tool that compiles a policy for another runtime and searches it for
  holes (\<open>recoup/bundle.py\<close>, \<open>recoup/prove.py\<close>).

  \<^bold>\<open>Theories, bottom up.\<close>
  \<^item> \<open>Prelude\<close>: dictionaries as association lists, errors as sums, stable sorting, rounding.
  \<^item> \<open>PyValue\<close>, \<open>CanonJson\<close>, \<open>CanonInj\<close>: JSON-like values with Python's equality and truth, paths
    into them, canonical bytes and digests (\<open>core/crypto.py\<close>); canonical bytes determine the value.
  \<^item> \<open>Glob\<close>, \<open>Regex\<close>: \<open>fnmatchcase\<close>, and a matcher for the fixed patterns of the source.
  \<^item> \<open>Posture\<close>, \<open>InverseModel\<close>, \<open>InverseRegistry\<close>, \<open>ApStarter\<close>, \<open>Journal\<close>, \<open>ModelParse\<close>
    (\<open>core/errors.py\<close>, \<open>reversal/model.py\<close>, \<open>reversal/registry.py\<close>): postures, specs, plans, journal
    entries and their states, the registry and its starter specs, the parsers; \<open>ParseProps\<close> has the round
    trips and the types the parsers guarantee.
  \<^item> \<open>UndoEngine\<close>, \<open>UndoCascade\<close>, \<open>UndoMachine\<close> (\<open>reversal/engine.py\<close>): classify, plan, open, commit,
    abandon, reverse and the cascade, and the runs of these. \<open>UndoFacts\<close>, \<open>CascadeFacts\<close>, \<open>UndoSafety\<close>,
    \<open>UndoTheorems\<close>, \<open>UndoProps\<close>: what an undo sends, that it runs at most once, the journal invariant,
    the refinement of a saga.
  \<^item> \<open>IrrevBudget\<close>, \<open>Horizon\<close>, \<open>HorizonProps\<close> (\<open>reversal/budget.py\<close>, \<open>reversal/horizon.py\<close>): accounts with
    prices and ceilings; what is still open and until when, and that it agrees with the engine.
  \<^item> \<open>Scope\<close>, \<open>Identity\<close>, \<open>Grants\<close>, \<open>Authority\<close>, \<open>AuthorityTree\<close>, \<open>AuthorityMachine\<close> (\<open>authority/\<close>): scopes,
    principals, revocations, delegations, action records and the engine over them. \<open>AuthorityFacts\<close>,
    \<open>AuthorityProps\<close>: chain reconstruction as a declarative condition, bounds of authority, finality of
    revocation.
  \<^item> \<open>Conditions\<close>, \<open>Policy\<close>, \<open>Session\<close>, \<open>Threats\<close>, \<open>Gate\<close> (\<open>gate/\<close>): the condition tree, rules and their
    parser, session totals, the scanner with its patterns, the decision. \<open>PolicyProps\<close>, \<open>ThreatProps\<close>,
    \<open>GateProps\<close>: first match, round trips, session budgets. \<open>Session\<close> states the store that the decision
    point uses as a locale and interprets it on the model's own store.
  \<^item> \<open>Ledger\<close>, \<open>LedgerProps\<close>, \<open>Detect\<close>: the hash chain, as a locale of chains interpreted on the ledger,
    its checks and the Merkle root; the detectors.
  \<^item> \<open>ControlPlane\<close>, \<open>ControlRun\<close>, \<open>ControlStages\<close>, \<open>ControlMachine\<close>, \<open>ControlFacts\<close>, \<open>ControlProps\<close>,
    \<open>ControlAfter\<close>: the whole of \<open>controlplane.py\<close> composed as the code composes it, worked runs, what each
    stage implies, the refinement of the engines' machines, and what confirm, undo and contain achieve.
  \<^item> \<open>Store\<close>, \<open>StoreProps\<close>: the tables with their triggers, transactions, crashes and restarts; that the
    durable path is transparent, and that acknowledged entries survive.
  \<^item> \<open>McpProxy\<close>, \<open>ProxyProps\<close>: message handlers, calls in flight, whole sessions.
  \<^item> \<open>Shell\<close>, \<open>ShellProps\<close> (\<open>reversal/shell.py\<close>): the classification of shell commands.
  \<^item> \<open>Drills\<close>, \<open>DrillProps\<close>, \<open>Validation\<close>, \<open>ValidationProps\<close>: drills, the register, attestations, runs,
    their comparison and the signed report.
  \<^item> \<open>Calibrate\<close>, \<open>CalibrateProps\<close>: samples, ranking statistics, operating points and splits. The two loops of
    \<open>_auroc\<close> are partial functions, proved to return.
  \<^item> \<open>CatalogBase\<close>, the \<open>Cat\<close> theories, \<open>Catalog\<close>, \<open>CatalogProps\<close>: the specs and gates that ship, field by
    field, one theory per file of \<open>adapters/\<close>, and the functions that combine them.
  \<^item> \<open>Bundle\<close>, \<open>BundleProps\<close>, \<open>Prove\<close>, \<open>ProveProps\<close>: the policy compiler with its reference evaluator, and the
    prover; compiled policies decide as the decision point does, and a clean strict report is sound.

  \<^bold>\<open>How the code is read.\<close> Strings are UTF-8 byte lists (code points where the source works on
  characters: the scanner, shell, globs). Times are rationals; floats from outside are \<open>pyfloat\<close>, with IEEE
  order and no rounding. Dictionaries are association lists in insertion order. Identifiers, tokens and
  readings of the clock are arguments. Callbacks (state reader, gate evaluator, executor, hook) read a
  world and the executor changes it. Exceptions are values; the text of a message is kept only where the
  program reads it back. An operation is atomic: locks are not modelled, and the two threads of the proxy
  take lines one at a time. Events are lists of a kind with a payload, which the control plane appends to
  the ledger. Ed25519, SHA-256 and the text of a float are fields of a record \<open>crypto\<close>; pieces of the
  Python runtime (parsing numbers, character classes, a policy's own regular expressions) are fields of
  \<open>pyrt\<close>; the resolution of host paths is \<open>shell_host\<close>. What a theorem needs of these it states as a
  hypothesis. Values are trees: aliasing of mutable values is not modelled, except that the stored verdict
  and the caller's are one object. Text columns that hold JSON are read back with sorted keys. A statement
  in a database transaction takes effect entirely or not at all when the process dies. A line of the proxy
  is what \<open>json.loads\<close> makes of it, and a call whose name is no string or whose arguments are no object is
  not followed. Parsers return an inner \<open>None\<close> for a value of another type that the source does not check.
  Statistics of the calibration are computed exactly.

  \<^bold>\<open>Bounds.\<close> The nesting of scanned arguments stops at the level the code stops at (\<open>MAX_WALK\<close>, 25 calls deep,
  so strings nested 24 deep are seen); chains are walked for at most 64 grants, which is the code's own
  limit; conditions nest at most 32 deep, the parser's limit; repetition in a pattern is bounded by the
  length of the text, since an empty iteration changes nothing; the prover tries at most six role
  combinations. Graph traversals terminate by the number of grants not yet seen. No other fuel is used.

  \<^bold>\<open>Not modelled.\<close> Random identifiers; key files; reading YAML; the pragmas and locks of SQLite and the file
  on disk; the pipes and the child process of the proxy; rendering of reports, summaries and evidence packs
  as text; the benchmark (\<open>bench/\<close>), the demonstration, the console and the command line, except the exit
  code of \<open>recoup prove\<close> and the stored horizon; the git commands behind the workspace snapshot; the rest of
  \<open>recoup\<close> (suggestions from traffic, chain data, fixtures of an enforcer in Go); the scripts. These print,
  generate or fetch, and no operation of the control plane depends on them.
\<close>

end
